(* ===== verification/JSLib.thy ===== *)
theory JSLib
  imports Main "HOL-Library.Sublist" "HOL-Library.Product_Lexorder" "HOL-Library.Multiset" "HOL-Library.AList"
begin

text \<open>
  The prelude: what the sources use of the JavaScript language and its standard library, and the
  generic lemmas the components share.

  \<^item> A JavaScript string is a list of characters (\<open>string\<close>). A HOL character is one of
    256 code points, read here as Latin-1, so \<open>toLowerCase\<close>, \<open>trim\<close> and the character
    classes of regular expressions are those of JavaScript on this range.
  \<^item> An optional parameter is an \<open>option\<close>; \<open>truthy\<close> and \<open>or_null\<close> are JavaScript's
    tests of such a value in a condition and in \<open>x || null\<close>.
  \<^item> A point in time is the number of milliseconds since the epoch (\<open>time\<close>): an ISO time
    stamp written by \<open>toISOString\<close> and read back by \<open>new Date(..).getTime()\<close> is that number.
  \<^item> Mutating an object found by \<open>Array.find\<close> is \<open>map_first\<close>: only the first match changes.
  \<^item> \<open>Array.sort\<close> with a comparator is stable, and so is \<open>sort_key\<close>.
\<close>

section \<open>Collections of facts\<close>

named_theorems js_defs \<open>definitions of the string and array operations\<close>
named_theorems frame \<open>what an operation leaves unchanged\<close>
named_theorems inv_intros \<open>an operation keeps the invariant of its component\<close>

type_synonym time = int

text \<open>What a call that does not return throws.\<close>

datatype js_error = TypeError | ReferenceError | RangeError | URIError | SyntaxError

section \<open>Optional values\<close>

definition truthy :: "string option \<Rightarrow> bool" where
  "truthy v = (case v of None \<Rightarrow> False | Some s \<Rightarrow> s \<noteq> [])"

definition or_null :: "string option \<Rightarrow> string option" where
  "or_null v = (if truthy v then v else None)"

definition or_else :: "'a option \<Rightarrow> 'a \<Rightarrow> 'a" where
  "or_else v d = (case v of None \<Rightarrow> d | Some x \<Rightarrow> x)"

text \<open>\<open>x || d\<close> on numbers: zero counts as absent.\<close>

definition num_or :: "('a::zero) option \<Rightarrow> 'a \<Rightarrow> 'a" where
  "num_or v d = (case v of None \<Rightarrow> d | Some x \<Rightarrow> if x = 0 then d else x)"

lemma truthy_simps [simp]:
  "\<not> truthy None" "truthy (Some s) \<longleftrightarrow> s \<noteq> []"
  by (simp_all add: truthy_def)

lemma truthyE: "truthy v \<Longrightarrow> (\<And>s. v = Some s \<Longrightarrow> s \<noteq> [] \<Longrightarrow> P) \<Longrightarrow> P"
  by (cases v) auto

lemma or_else_simps [simp]: "or_else None d = d" "or_else (Some x) d = x"
  by (simp_all add: or_else_def)

lemma num_or_simps [simp]: "num_or None d = d" "num_or (Some x) d = (if x = 0 then d else x)"
  by (simp_all add: num_or_def)

lemma or_null_simps [simp]: "or_null None = None" "or_null (Some s) = (if s = [] then None else Some s)"
  by (simp_all add: or_null_def)

section \<open>Finding and mutating elements of an array\<close>

fun map_first :: "('a \<Rightarrow> bool) \<Rightarrow> ('a \<Rightarrow> 'a) \<Rightarrow> 'a list \<Rightarrow> 'a list" where
  "map_first P f [] = []"
| "map_first P f (x # xs) = (if P x then f x # xs else x # map_first P f xs)"

lemma length_map_first [simp]: "length (map_first P f xs) = length xs"
  by (induction xs) auto

lemma map_map_first: "(\<And>x. P x \<Longrightarrow> g (f x) = g x) \<Longrightarrow> map g (map_first P f xs) = map g xs"
  by (induction xs) auto

lemma find_map_first_same:
  assumes "\<And>x. P x \<Longrightarrow> P (f x)"
  shows "find P (map_first P f xs) = map_option f (find P xs)"
  using assms by (induction xs) auto

lemma find_map_first_other:
  assumes "\<And>x. P x \<Longrightarrow> \<not> Q x \<and> \<not> Q (f x)"
  shows "find Q (map_first P f xs) = find Q xs"
  using assms by (induction xs) auto

lemma map_first_None: "find P xs = None \<Longrightarrow> map_first P f xs = xs"
  by (induction xs) (auto split: if_splits)

lemma map_first_id: "find P xs = Some x \<Longrightarrow> f x = x \<Longrightarrow> map_first P f xs = xs"
  by (induction xs) (auto split: if_splits)

lemma map_first_twice:
  assumes "\<And>x. P x \<Longrightarrow> P (f x)"
  shows "map_first P g (map_first P f xs) = map_first P (g \<circ> f) xs"
  using assms by (induction xs) auto

lemma map_first_cong:
  "find P xs = Some x \<Longrightarrow> f x = g x \<Longrightarrow> map_first P f xs = map_first P g xs"
  by (induction xs) (auto split: if_splits)

lemma set_map_first: "y \<in> set (map_first P f xs) \<Longrightarrow> y \<in> set xs \<or> (\<exists>x. find P xs = Some x \<and> y = f x)"
  by (induction xs) (auto split: if_splits)

lemma map_first_distinct_key:
  assumes "distinct (map k xs)"
  shows "map_first (\<lambda>x. k x = a) f xs = map (\<lambda>x. if k x = a then f x else x) xs"
  using assms
proof (induction xs)
  case (Cons x xs)
  then show ?case
    by (cases "k x = a") (auto simp: image_iff intro!: map_idI [symmetric])
qed simp

lemma find_SomeD: "find P xs = Some x \<Longrightarrow> x \<in> set xs \<and> P x"
  by (auto simp: find_Some_iff)

lemma find_append: "find P (xs @ ys) = (case find P xs of None \<Rightarrow> find P ys | Some x \<Rightarrow> Some x)"
  by (induction xs) auto

lemma find_isSome: "(\<exists>x. find P xs = Some x) \<longleftrightarrow> (\<exists>x \<in> set xs. P x)"
  by (metis find_None_iff find_SomeD option.exhaust option.discI)

lemma find_split:
  "find P xs = Some x \<Longrightarrow> \<exists>ys zs. xs = ys @ x # zs \<and> P x \<and> (\<forall>y \<in> set ys. \<not> P y)"
proof (induction xs)
  case (Cons a xs)
  show ?case
  proof (cases "P a")
    case True
    with Cons.prems show ?thesis by (intro exI [of _ "[]"] exI [of _ xs]) simp
  next
    case False
    with Cons obtain ys zs where "xs = ys @ x # zs" "P x" "\<forall>y \<in> set ys. \<not> P y" by auto
    with False show ?thesis by (intro exI [of _ "a # ys"] exI [of _ zs]) auto
  qed
qed simp

lemma find_eq_Some_key:
  assumes "distinct (map k xs)" "x \<in> set xs"
  shows "find (\<lambda>y. k y = k x) xs = Some x"
  using assms by (induction xs) (auto simp: image_iff)

lemma find_None_key: "find (\<lambda>y. k y = a) xs = None \<longleftrightarrow> a \<notin> k ` set xs"
  by (auto simp: find_None_iff)

lemma find_map_same_key:
  assumes "\<And>x. k (f x) = k x"
  shows "find (\<lambda>y. k y = a) (map f xs) = map_option f (find (\<lambda>y. k y = a) xs)"
  by (induction xs) (auto simp: assms)

section \<open>Slices\<close>

text \<open>\<open>xs.slice(0, n)\<close>: a negative bound counts from the end.\<close>

definition slice0 :: "int \<Rightarrow> 'a list \<Rightarrow> 'a list" where
  "slice0 n xs = take (nat (if n < 0 then int (length xs) + n else n)) xs"

lemma prefix_slice0: "prefix (slice0 n xs) xs"
  by (simp add: slice0_def take_is_prefix)

lemma set_slice0: "set (slice0 n xs) \<subseteq> set xs"
  by (simp add: slice0_def set_take_subset)

lemma length_slice0: "0 \<le> n \<Longrightarrow> length (slice0 n xs) = min (length xs) (nat n)"
  by (simp add: slice0_def)

lemma take_sorted_le:
  assumes "sorted (map f ys)" "x \<in> set (take n ys)" "y \<in> set ys" "y \<notin> set (take n ys)"
  shows "f x \<le> f y"
proof -
  have "y \<in> set (drop n ys)" using assms(3,4) by (metis Un_iff append_take_drop_id set_append)
  moreover have "sorted (map f (take n ys) @ map f (drop n ys))" using assms(1) by (metis append_take_drop_id map_append)
  ultimately show ?thesis using assms(2) by (auto simp: sorted_append)
qed

lemma sorted_slice0: "sorted (map f xs) \<Longrightarrow> sorted (map f (slice0 n xs))"
  by (simp add: slice0_def take_map [symmetric] sorted_wrt_take)

section \<open>Dictionaries\<close>

text \<open>A plain object is an association list in the order of insertion: \<open>{...a, ...b}\<close> and \<open>t[k] = (t[k] || 0) + 1\<close>.\<close>

definition spread :: "(string \<times> 'v) list \<Rightarrow> (string \<times> 'v) list \<Rightarrow> (string \<times> 'v) list" where
  "spread a b = fold (\<lambda>(k, v). AList.update k v) b a"

definition bump :: "'k \<Rightarrow> ('k \<times> nat) list \<Rightarrow> ('k \<times> nat) list" where
  "bump k t = AList.update k (or_else (map_of t k) 0 + 1) t"

lemma bump_get: "or_else (map_of (bump k t) x) 0 = or_else (map_of t x) 0 + (if x = k then 1 else 0)"
  by (simp add: bump_def update_conv')

lemma bump_fold: "or_else (map_of (fold (\<lambda>y. bump (f y)) ys t) x) 0 = or_else (map_of t x) 0 + length (filter (\<lambda>y. f y = x) ys)"
  by (induction ys arbitrary: t) (simp_all add: bump_get)

lemma bump_keys: "set (map fst (bump k t)) = insert k (set (map fst t))"
  by (simp add: bump_def update_keys insert_absorb)

lemma bump_distinct: "distinct (map fst t) \<Longrightarrow> distinct (map fst (bump k t))"
  by (simp add: bump_def distinct_update)

lemma bumps_keys: "set (map fst (fold bump ts t)) = set ts \<union> set (map fst t)"
  by (induction ts arbitrary: t) (simp_all add: bump_keys del: set_map, blast?)

lemma bumps_distinct: "distinct (map fst t) \<Longrightarrow> distinct (map fst (fold bump ts t))"
  by (induction ts arbitrary: t) (simp_all add: bump_distinct)

lemma spread_get: "map_of (spread a b) k = (case map_of (rev b) k of Some v \<Rightarrow> Some v | None \<Rightarrow> map_of a k)"
  by (induction b arbitrary: a) (auto simp: spread_def update_conv' map_add_def split: option.split)

section \<open>Decimal numerals\<close>

definition digit_char :: "nat \<Rightarrow> char" where
  "digit_char d = char_of (48 + d)"

fun nat_to_string :: "nat \<Rightarrow> string" where
  "nat_to_string n =
     (if n div 10 = 0 then [digit_char n]
      else nat_to_string (n div 10) @ [digit_char (n mod 10)])"

declare nat_to_string.simps [simp del]

definition padStart :: "nat \<Rightarrow> char \<Rightarrow> string \<Rightarrow> string" where
  "padStart w c s = replicate (w - length s) c @ s"

definition digit_val :: "char \<Rightarrow> nat" where
  "digit_val c = of_char c - 48"

definition is_digit :: "char \<Rightarrow> bool" where
  "is_digit c = (48 \<le> (of_char c :: nat) \<and> of_char c \<le> (57 :: nat))"

definition dec_val :: "string \<Rightarrow> nat" where
  "dec_val s = foldl (\<lambda>a c. 10 * a + digit_val c) 0 s"

lemma digit_val_char [simp]: "d < 10 \<Longrightarrow> digit_val (digit_char d) = d"
  by (simp add: digit_val_def digit_char_def of_char_of)

lemma is_digit_char [simp]: "d < 10 \<Longrightarrow> is_digit (digit_char d)"
  by (simp add: is_digit_def digit_char_def of_char_of)

lemma dec_val_snoc: "dec_val (s @ [c]) = 10 * dec_val s + digit_val c"
  by (simp add: dec_val_def)

lemma dec_val_nat_to_string [simp]: "dec_val (nat_to_string n) = n"
proof (induction n rule: nat_to_string.induct)
  case (1 n)
  show ?case
  proof (cases "n div 10 = 0")
    case True
    then have "n < 10" by simp
    with True show ?thesis
      by (simp add: nat_to_string.simps [of n] dec_val_def)
  next
    case False
    with 1 show ?thesis
      by (simp add: nat_to_string.simps [of n] dec_val_snoc)
  qed
qed

lemma nat_to_string_digits: "c \<in> set (nat_to_string n) \<Longrightarrow> is_digit c"
proof (induction n rule: nat_to_string.induct)
  case (1 n)
  then show ?case
    by (cases "n div 10 = 0") (auto simp: nat_to_string.simps [of n])
qed

lemma nat_to_string_nonempty [simp]: "nat_to_string n \<noteq> []"
  by (subst nat_to_string.simps) simp

lemma dec_val_zeros: "dec_val (replicate k (digit_char 0) @ s) = dec_val s"
  by (induction k) (simp_all add: dec_val_def)

lemma dec_val_padStart: "dec_val (padStart w (CHR ''0'') (nat_to_string n)) = n"
proof -
  have "CHR ''0'' = digit_char 0" by code_simp
  then show ?thesis by (simp add: padStart_def dec_val_zeros)
qed

lemma padStart_inj:
  "padStart w (CHR ''0'') (nat_to_string m) = padStart w (CHR ''0'') (nat_to_string n) \<longleftrightarrow> m = n"
  by (metis dec_val_padStart)

end
