(* ===== verification/Json_Store.thy ===== *)
theory Json_Store
  imports JSLib Complex_Main
begin

text \<open>
  The interface between a tool and the JSON file that holds its state. Every extension under
  \<open>profiles/reference/sec/extensions\<close> works in the same way: a tool call reads the whole file
  (\<open>load\<close>), changes the value in memory and writes the whole file back (\<open>save\<close>), or returns
  without writing.

  \<^item> \<open>json_store\<close>: what was saved is what the next call loads.
  \<^item> \<open>tool_server\<close>: a store with the tool calls that run on it and an invariant that each of
    them keeps; its lemmas lift the invariant, and any further property the calls keep under it,
    to every sequence of calls.
  \<^item> \<open>simulation\<close>: calls that refine an abstract specification step by step, and so run by run.
  \<^item> \<open>machine\<close>: a step relation with an invariant, which holds in every reachable state.
  \<^item> \<open>shared_store\<close> and \<open>shared_server\<close>: a store whose file also holds keys of other extensions, and
    tools that write to it only through \<open>save\<close>; a \<open>json_store\<close> is one whose file holds nothing else.
\<close>

text \<open>JSON values, where a tool passes them on without looking inside.\<close>

datatype json =
    JNull | JBool bool | JNum rat | JStr string | JArr "json list" | JObj "(string \<times> json) list"

locale shared_store =
  fixes load :: "'f \<Rightarrow> 's"
    and save :: "'s \<Rightarrow> 'f \<Rightarrow> 'f"
    and others :: "'f \<Rightarrow> 'o"
    and valid :: "'s \<Rightarrow> bool"
  assumes valid_load: "valid (load f)"
    and load_save: "valid s \<Longrightarrow> load (save s f) = s"
    and others_save: "others (save s f) = others f"
begin

lemma save_load: "load (save (load f) f) = load f"
  by (rule load_save) (rule valid_load)

lemma save_save: "valid s \<Longrightarrow> load (save s (save t f)) = s \<and> others (save s (save t f)) = others f"
  by (simp add: load_save others_save)

end

locale json_store =
  fixes load :: "'f \<Rightarrow> 's"
    and save :: "'s \<Rightarrow> 'f \<Rightarrow> 'f"
  assumes load_save: "load (save s f) = s"
begin

lemma save_inj: "save s f = save t f \<Longrightarrow> s = t"
  using load_save by metis

end

sublocale json_store \<subseteq> whole: shared_store load save "\<lambda>_. ()" "\<lambda>_. True"
  by unfold_locales (simp_all add: load_save)

text \<open>A sequence of tool calls, each starting from the file the one before it left.\<close>

definition run_calls :: "('c \<Rightarrow> 'f \<Rightarrow> 'f \<times> 'r) \<Rightarrow> 'c list \<Rightarrow> 'f \<Rightarrow> 'f" where
  "run_calls ex cs f = foldl (\<lambda>f c. fst (ex c f)) f cs"

lemma run_calls_simps [simp]:
  "run_calls ex [] f = f"
  "run_calls ex (c # cs) f = run_calls ex cs (fst (ex c f))"
  by (simp_all add: run_calls_def)

lemma run_calls_append: "run_calls ex (cs @ ds) f = run_calls ex ds (run_calls ex cs f)"
  by (simp add: run_calls_def)

lemma run_calls_invariant:
  assumes "\<And>c f. P f \<Longrightarrow> P (fst (ex c f))" "P f"
  shows "P (run_calls ex cs f)"
  using assms(2) by (induction cs arbitrary: f) (auto intro: assms(1))

locale tool_server = json_store load save
  for load :: "'f \<Rightarrow> 's" and save :: "'s \<Rightarrow> 'f \<Rightarrow> 'f" +
  fixes exec :: "'c \<Rightarrow> 'f \<Rightarrow> 'f \<times> 'r"
    and inv :: "'s \<Rightarrow> bool"
    and start :: "'f"
  assumes inv_start: "inv (load start)"
    and inv_exec: "inv (load f) \<Longrightarrow> inv (load (fst (exec c f)))"
begin

lemma run_inv: "inv (load f) \<Longrightarrow> inv (load (run_calls exec cs f))"
  by (induction cs arbitrary: f) (auto intro: inv_exec)

lemma run_start_inv: "inv (load (run_calls exec cs start))"
  by (rule run_inv) (rule inv_start)

lemma run_preserves:
  assumes "\<And>c f. inv (load f) \<Longrightarrow> P (load f) \<Longrightarrow> P (load (fst (exec c f)))"
    and "inv (load f)" "P (load f)"
  shows "P (load (run_calls exec cs f))"
  using assms(2,3)
proof (induction cs arbitrary: f)
  case (Cons c cs)
  then have "inv (load (fst (exec c f)))" "P (load (fst (exec c f)))"
    by (auto intro: inv_exec assms(1))
  then show ?case by (simp add: Cons.IH)
qed simp

lemma run_monotone:
  fixes R :: "'s \<Rightarrow> 's \<Rightarrow> bool"
  assumes refl: "\<And>s. R s s" and trans: "\<And>s t u. R s t \<Longrightarrow> R t u \<Longrightarrow> R s u"
    and step: "\<And>c f. inv (load f) \<Longrightarrow> R (load f) (load (fst (exec c f)))"
    and "inv (load f)"
  shows "R (load f) (load (run_calls exec cs f))"
  using assms(4)
proof (induction cs arbitrary: f)
  case (Cons c cs)
  then have "R (load (fst (exec c f))) (load (run_calls exec cs (fst (exec c f))))"
    by (auto intro: inv_exec)
  with step [OF Cons.prems, of c] show ?case by (auto intro: trans)
qed (simp add: refl)

end

text \<open>Tools on a shared file: a call leaves the file alone or saves a valid state into it.\<close>

locale shared_server = shared_store load save others valid
  for load :: "'f \<Rightarrow> 's" and save :: "'s \<Rightarrow> 'f \<Rightarrow> 'f" and others :: "'f \<Rightarrow> 'o" and valid :: "'s \<Rightarrow> bool" +
  fixes exec :: "'c \<Rightarrow> 'f \<Rightarrow> 'f \<times> 'r"
  assumes writes: "fst (exec c f) = f \<or> (\<exists>s. valid s \<and> fst (exec c f) = save s f)"
begin

lemma exec_others: "others (fst (exec c f)) = others f"
  using writes [of c f] others_save by metis

lemma run_others: "others (run_calls exec cs f) = others f"
  by (rule run_calls_invariant [where P = "\<lambda>g. others g = others f"]) (simp_all add: exec_others)

end

text \<open>
  A specification that the tools refine: a relation between files and abstract states that every call keeps
  when the specification makes its own step.
\<close>

locale simulation =
  fixes exec :: "'c \<Rightarrow> 'f \<Rightarrow> 'f \<times> 'r"
    and step :: "'c \<Rightarrow> 'a \<Rightarrow> 'a"
    and refines :: "'f \<Rightarrow> 'a \<Rightarrow> bool"
    and start :: "'f"
    and astart :: "'a"
  assumes refines_start: "refines start astart"
    and refines_exec: "refines f a \<Longrightarrow> refines (fst (exec c f)) (step c a)"
begin

lemma run_refines_from: "refines f a \<Longrightarrow> refines (run_calls exec cs f) (fold step cs a)"
  by (induction cs arbitrary: f a) (auto intro: refines_exec)

lemma run_refines: "refines (run_calls exec cs start) (fold step cs astart)"
  by (rule run_refines_from) (rule refines_start)

end

text \<open>A component whose steps are a relation: callbacks and requests in any order.\<close>

locale machine =
  fixes step :: "'s \<Rightarrow> 's \<Rightarrow> bool"
    and start :: "'s"
    and inv :: "'s \<Rightarrow> bool"
  assumes inv_start: "inv start"
    and inv_step: "step s t \<Longrightarrow> inv s \<Longrightarrow> inv t"
begin

lemma reach_inv: "step\<^sup>*\<^sup>* start s \<Longrightarrow> inv s"
  by (induction rule: rtranclp_induct) (auto intro: inv_start inv_step)

lemma reach_step_inv: "step\<^sup>*\<^sup>* start s \<Longrightarrow> step s t \<Longrightarrow> inv t"
  by (blast intro: reach_inv inv_step)

end

end
