(* ===== verification/Task_Manager.thy ===== *)
theory Task_Manager
  imports Json_Store Complex_Main
begin

text \<open>
  The task graph of the security swarm (\<open>task-manager.ts\<close>): its data, its helpers and its tools.
  A tool is a function of the time of the call, its parameters and the file, and returns the file
  after the call and the response. The helpers keep the names of the source; a response is a
  datatype with one constructor for each \<open>return\<close> of the handler, carrying the data the returned
  JSON object carries. One call reads the clock once.
\<close>

section \<open>Data\<close>

datatype TaskStatus =
    PENDING | CLAIMED | RUNNING | BLOCKED | COMPLETED | FAILED | CANCELLED

datatype Priority = CRITICAL | HIGH | MEDIUM | LOW

record Evidence =
  ev_timestamp :: time
  ev_agent :: string
  ev_note :: string
  ev_data :: "json option"

record Task =
  t_id :: string
  t_parent_task :: "string option"
  t_owner :: "string option"
  t_status :: TaskStatus
  t_priority :: Priority
  t_target :: "string option"
  t_hypothesis :: string
  t_dependencies :: "string list"
  t_evidence :: "Evidence list"
  t_created_at :: time
  t_updated_at :: time
  t_claimed_at :: "time option"
  t_heartbeat_at :: "time option"
  t_estimated_cost :: rat
  t_actual_cost :: rat
  t_failure_reason :: "string option"

record TaskGraph =
  tasks :: "Task list"
  counter :: nat

section \<open>Persistence\<close>

text \<open>
  The file: absent or not JSON, or an object whose \<open>tasks\<close> may not be an array and whose
  \<open>counter\<close> may not be a number.
\<close>

datatype tm_file = Unreadable | Parsed "Task list option" "nat option"

fun tm_load :: "tm_file \<Rightarrow> TaskGraph" where
  "tm_load (Parsed ts c) = \<lparr>tasks = or_else ts [], counter = or_else c 0\<rparr>"
| "tm_load Unreadable = \<lparr>tasks = [], counter = 0\<rparr>"

definition tm_save :: "TaskGraph \<Rightarrow> tm_file \<Rightarrow> tm_file" where
  "tm_save g f = Parsed (Some (tasks g)) (Some (counter g))"

definition STALE_THRESHOLD_MS :: int where
  "STALE_THRESHOLD_MS = 5 * 60 * 1000"

definition task_id_of :: "nat \<Rightarrow> string" where
  "task_id_of n = ''T-'' @ padStart 3 (CHR ''0'') (nat_to_string n)"

definition nextId :: "TaskGraph \<Rightarrow> string \<times> TaskGraph" where
  "nextId g = (let g' = g\<lparr>counter := counter g + 1\<rparr> in (task_id_of (counter g'), g'))"

definition findTask :: "TaskGraph \<Rightarrow> string \<Rightarrow> Task option" where
  "findTask g i = find (\<lambda>t. t_id t = i) (tasks g)"

definition touch :: "time \<Rightarrow> Task \<Rightarrow> Task" where
  "touch now t = t\<lparr>t_updated_at := now\<rparr>"

text \<open>Assigning fields of the object that \<open>findTask\<close> returned.\<close>

definition modifyTask :: "string \<Rightarrow> (Task \<Rightarrow> Task) \<Rightarrow> TaskGraph \<Rightarrow> TaskGraph" where
  "modifyTask i f g = g\<lparr>tasks := map_first (\<lambda>t. t_id t = i) f (tasks g)\<rparr>"

section \<open>Dependency resolution\<close>

definition depsSatisfied :: "TaskGraph \<Rightarrow> Task \<Rightarrow> bool" where
  "depsSatisfied g task =
     list_all (\<lambda>d. case findTask g d of None \<Rightarrow> False | Some dep \<Rightarrow> t_status dep = COMPLETED)
       (t_dependencies task)"

definition depsBlocked :: "TaskGraph \<Rightarrow> Task \<Rightarrow> string list" where
  "depsBlocked g task =
     filter (\<lambda>d. case findTask g d of None \<Rightarrow> True | Some dep \<Rightarrow> t_status dep \<noteq> COMPLETED)
       (t_dependencies task)"

definition depFailed :: "TaskGraph \<Rightarrow> Task \<Rightarrow> string list" where
  "depFailed g task =
     filter (\<lambda>d. case findTask g d of None \<Rightarrow> False
                 | Some dep \<Rightarrow> t_status dep = FAILED \<or> t_status dep = CANCELLED)
       (t_dependencies task)"

section \<open>Orphan detection\<close>

definition isOrphaned :: "time \<Rightarrow> Task \<Rightarrow> bool" where
  "isOrphaned now t =
     (if t_status t \<noteq> CLAIMED \<and> t_status t \<noteq> RUNNING then False
      else case (t_heartbeat_at t, t_claimed_at t) of
             (None, Some c) \<Rightarrow> now - c > STALE_THRESHOLD_MS
           | (Some h, _) \<Rightarrow> now - h > STALE_THRESHOLD_MS
           | (None, None) \<Rightarrow> False)"

fun PRIORITY_ORDER :: "Priority \<Rightarrow> nat" where
  "PRIORITY_ORDER CRITICAL = 0"
| "PRIORITY_ORDER HIGH = 1"
| "PRIORITY_ORDER MEDIUM = 2"
| "PRIORITY_ORDER LOW = 3"

text \<open>The comparator of \<open>task_claim\<close>, \<open>task_list\<close> and the dashboard: priority, then age.\<close>

definition claim_key :: "Task \<Rightarrow> nat \<times> int" where
  "claim_key t = (PRIORITY_ORDER (t_priority t), t_created_at t)"

section \<open>task\_create\<close>

record create_params =
  cp_hypothesis :: string
  cp_priority :: Priority
  cp_target :: "string option"
  cp_parent_task :: "string option"
  cp_dependencies :: "string list option"
  cp_owner :: "string option"
  cp_estimated_cost :: "rat option"

datatype create_response = Created string TaskStatus "string list"

text \<open>The object literal of the handler.\<close>

definition new_task :: "time \<Rightarrow> string \<Rightarrow> create_params \<Rightarrow> string list \<Rightarrow> Task" where
  "new_task now i p deps =
     \<lparr>t_id = i, t_parent_task = or_null (cp_parent_task p), t_owner = or_null (cp_owner p),
      t_status = (if deps \<noteq> [] then BLOCKED else PENDING),
      t_priority = cp_priority p, t_target = or_null (cp_target p),
      t_hypothesis = cp_hypothesis p, t_dependencies = deps, t_evidence = [],
      t_created_at = now, t_updated_at = now, t_claimed_at = None, t_heartbeat_at = None,
      t_estimated_cost = or_else (cp_estimated_cost p) 0, t_actual_cost = 0,
      t_failure_reason = None\<rparr>"

definition task_create :: "time \<Rightarrow> create_params \<Rightarrow> tm_file \<Rightarrow> tm_file \<times> create_response" where
  "task_create now p f =
     (let g = tm_load f;
          (i, g) = nextId g;
          deps = or_else (cp_dependencies p) [];
          blockedDeps = filter (\<lambda>d. findTask g d = None) deps;
          task = new_task now i p deps;
          task = (if deps \<noteq> [] \<and> depsSatisfied g task then task\<lparr>t_status := PENDING\<rparr> else task);
          failedDeps = depFailed g task;
          task = (if failedDeps \<noteq> [] then task\<lparr>t_status := BLOCKED\<rparr> else task);
          g = g\<lparr>tasks := tasks g @ [task]\<rparr>
      in (tm_save g f, Created (t_id task) (t_status task) blockedDeps))"

section \<open>task\_claim\<close>

record claim_params =
  kp_task_id :: "string option"
  kp_agent :: string

datatype claim_response =
    Claim_none_pending
  | Claim_not_found string
  | Claim_closed string TaskStatus
  | Claim_blocked string "string list"
  | Claim_owned string "string option" TaskStatus
  | Claim_unsatisfied string "string list"
  | Claim_ok Task bool

text \<open>The tasks the automatic selection chooses from, best first.\<close>

definition pending_queue :: "TaskGraph \<Rightarrow> Task list" where
  "pending_queue g = sort_key claim_key (filter (\<lambda>t. t_status t = PENDING) (tasks g))"

definition claimed :: "time \<Rightarrow> string \<Rightarrow> Task \<Rightarrow> Task" where
  "claimed now agent t =
     touch now (t\<lparr>t_owner := Some agent, t_status := CLAIMED,
                 t_claimed_at := Some now, t_heartbeat_at := Some now\<rparr>)"

definition claim_by_id ::
  "time \<Rightarrow> string \<Rightarrow> string \<Rightarrow> TaskGraph \<Rightarrow> tm_file \<Rightarrow> tm_file \<times> claim_response" where
  "claim_by_id now agent tid g f =
     (case findTask g tid of
        None \<Rightarrow> (f, Claim_not_found tid)
      | Some task \<Rightarrow>
          if t_status task = COMPLETED \<or> t_status task = CANCELLED then
            (f, Claim_closed (t_id task) (t_status task))
          else if t_status task = BLOCKED then
            (f, Claim_blocked (t_id task) (depsBlocked g task))
          else if truthy (t_owner task) \<and> t_owner task \<noteq> Some agent \<and>
                  (t_status task = CLAIMED \<or> t_status task = RUNNING) \<and>
                  \<not> isOrphaned now task then
            (f, Claim_owned (t_id task) (t_owner task) (t_status task))
          else if \<not> depsSatisfied g task then
            (tm_save (modifyTask tid (\<lambda>t. touch now (t\<lparr>t_status := BLOCKED\<rparr>)) g) f,
             Claim_unsatisfied (t_id task) (depsBlocked g task))
          else
            (tm_save (modifyTask tid (claimed now agent) g) f,
             Claim_ok (claimed now agent task) (isOrphaned now task)))"

definition task_claim :: "time \<Rightarrow> claim_params \<Rightarrow> tm_file \<Rightarrow> tm_file \<times> claim_response" where
  "task_claim now p f =
     (let g = tm_load f in
      case or_null (kp_task_id p) of
        None \<Rightarrow>
          (case pending_queue g of
             [] \<Rightarrow> (f, Claim_none_pending)
           | t # _ \<Rightarrow> claim_by_id now (kp_agent p) (t_id t) g f)
      | Some tid \<Rightarrow> claim_by_id now (kp_agent p) tid g f)"

section \<open>task\_update\<close>

record update_params =
  up_task_id :: string
  up_status :: "TaskStatus option"
  up_evidence :: "string option"
  up_evidence_data :: "string option"
  up_heartbeat :: bool
  up_actual_cost :: "rat option"
  up_failure_reason :: "string option"

text \<open>The entries of the \<open>updates\<close> array.\<close>

datatype update_note =
    Promoted_by_heartbeat
  | Heartbeat_refreshed
  | Status_changed TaskStatus TaskStatus
  | Evidence_added string
  | Cost_added rat rat

record update_report =
  ur_id :: string
  ur_status :: TaskStatus
  ur_owner :: "string option"
  ur_updates :: "update_note list"
  ur_unblocked :: "string list"
  ur_cascaded :: "string list"
  ur_evidence_count :: nat

datatype update_response =
    Update_not_found string
  | Update_deps_unsatisfied string "string list"
  | Update_not_claimed string TaskStatus
  | Update_ok update_report

definition apply_heartbeat :: "time \<Rightarrow> update_params \<Rightarrow> Task \<Rightarrow> Task \<times> update_note list" where
  "apply_heartbeat now p task =
     (if up_heartbeat p then
        let task = touch now (task\<lparr>t_heartbeat_at := Some now\<rparr>) in
        if t_status task = PENDING
        then (task\<lparr>t_status := CLAIMED\<rparr>, [Promoted_by_heartbeat, Heartbeat_refreshed])
        else (task, [Heartbeat_refreshed])
      else (task, []))"

text \<open>
  The status change; \<open>g\<close> is the graph in which \<open>task\<close> already carries the heartbeat. An error is
  an early return of the handler, before anything is saved.
\<close>

definition apply_status ::
  "TaskGraph \<Rightarrow> update_params \<Rightarrow> Task \<Rightarrow> update_response + Task \<times> update_note list" where
  "apply_status g p task =
     (case up_status p of
        None \<Rightarrow> Inr (task, [])
      | Some newStatus \<Rightarrow>
          if newStatus = t_status task then Inr (task, [])
          else
            (let oldStatus = t_status task;
                 ok = (\<lambda>t. Inr (t, [Status_changed oldStatus (t_status t)])) in
             case newStatus of
               COMPLETED \<Rightarrow>
                 if \<not> depsSatisfied g task
                 then Inl (Update_deps_unsatisfied (t_id task) (depsBlocked g task))
                 else ok (task\<lparr>t_status := COMPLETED\<rparr>)
             | RUNNING \<Rightarrow>
                 if t_status task \<noteq> CLAIMED \<and> t_status task \<noteq> RUNNING
                 then Inl (Update_not_claimed (t_id task) (t_status task))
                 else ok (task\<lparr>t_status := RUNNING\<rparr>)
             | FAILED \<Rightarrow>
                 ok (task\<lparr>t_status := FAILED,
                          t_failure_reason :=
                            (if truthy (up_failure_reason p) then up_failure_reason p
                             else Some ''Unspecified failure'')\<rparr>)
             | CANCELLED \<Rightarrow> ok (task\<lparr>t_status := CANCELLED\<rparr>)
             | BLOCKED \<Rightarrow> ok (task\<lparr>t_status := BLOCKED\<rparr>)
             | PENDING \<Rightarrow>
                 ok (task\<lparr>t_status := PENDING, t_owner := None,
                          t_claimed_at := None, t_heartbeat_at := None\<rparr>)
             | CLAIMED \<Rightarrow> ok (task\<lparr>t_status := CLAIMED\<rparr>)))"

text \<open>\<open>JSON.parse\<close> is the argument \<open>parse\<close>, \<open>None\<close> where it throws.\<close>

definition apply_evidence ::
  "(string \<Rightarrow> json option) \<Rightarrow> time \<Rightarrow> update_params \<Rightarrow> Task \<Rightarrow> Task \<times> update_note list" where
  "apply_evidence parse now p task =
     (case or_null (up_evidence p) of
        None \<Rightarrow> (task, [])
      | Some note \<Rightarrow>
          (let ev = \<lparr>ev_timestamp = now,
                     ev_agent = or_else (or_null (t_owner task)) ''unknown'',
                     ev_note = note,
                     ev_data = map_option (\<lambda>d. or_else (parse d) (JStr d))
                                 (or_null (up_evidence_data p))\<rparr>
           in (task\<lparr>t_evidence := t_evidence task @ [ev]\<rparr>, [Evidence_added note])))"

definition apply_cost :: "update_params \<Rightarrow> Task \<Rightarrow> Task \<times> update_note list" where
  "apply_cost p task =
     (case up_actual_cost p of
        None \<Rightarrow> (task, [])
      | Some c \<Rightarrow>
          (let task = task\<lparr>t_actual_cost := t_actual_cost task + c\<rparr>
           in (task, [Cost_added c (t_actual_cost task)])))"

text \<open>
  The loop that unblocks: \<open>pre\<close> is the part of \<open>g.tasks\<close> already visited (and changed), the
  dependency test of a task reads the array as it then is.
\<close>

fun unblock_loop ::
  "time \<Rightarrow> string \<Rightarrow> nat \<Rightarrow> Task list \<Rightarrow> Task list \<Rightarrow> Task list \<times> string list" where
  "unblock_loop now tid c pre [] = (pre, [])"
| "unblock_loop now tid c pre (other # rest) =
     (if t_status other = BLOCKED \<and> tid \<in> set (t_dependencies other) \<and>
         depsSatisfied \<lparr>tasks = pre @ other # rest, counter = c\<rparr> other
      then
        (let other' = touch now (other\<lparr>t_status := PENDING\<rparr>);
             (ts, ids) = unblock_loop now tid c (pre @ [other']) rest
         in (ts, t_id other # ids))
      else unblock_loop now tid c (pre @ [other]) rest)"

fun cascade_loop :: "time \<Rightarrow> string \<Rightarrow> Task list \<Rightarrow> Task list \<times> string list" where
  "cascade_loop now tid [] = ([], [])"
| "cascade_loop now tid (other # rest) =
     (let (ts, ids) = cascade_loop now tid rest in
      if (t_status other = PENDING \<or> t_status other = BLOCKED) \<and>
         tid \<in> set (t_dependencies other)
      then (touch now (other\<lparr>t_status := BLOCKED\<rparr>) # ts, t_id other # ids)
      else (other # ts, ids))"

definition task_update ::
  "(string \<Rightarrow> json option) \<Rightarrow> time \<Rightarrow> update_params \<Rightarrow> tm_file \<Rightarrow> tm_file \<times> update_response" where
  "task_update parse now p f =
     (let g = tm_load f; tid = up_task_id p in
      case findTask g tid of
        None \<Rightarrow> (f, Update_not_found tid)
      | Some task \<Rightarrow>
          (let (task, u1) = apply_heartbeat now p task;
               g = modifyTask tid (\<lambda>_. task) g in
           case apply_status g p task of
             Inl e \<Rightarrow> (f, e)
           | Inr (task, u2) \<Rightarrow>
               (let (task, u3) = apply_evidence parse now p task;
                    (task, u4) = apply_cost p task;
                    g = modifyTask tid (\<lambda>_. task) g;
                    (ts, unblocked) =
                      (if t_status task = COMPLETED
                       then unblock_loop now (t_id task) (counter g) [] (tasks g)
                       else (tasks g, []));
                    (ts, cascaded) =
                      (if t_status task = FAILED \<or> t_status task = CANCELLED
                       then cascade_loop now (t_id task) ts
                       else (ts, []));
                    g = modifyTask tid (touch now) (g\<lparr>tasks := ts\<rparr>)
                in (tm_save g f,
                    Update_ok \<lparr>ur_id = t_id task, ur_status = t_status task,
                       ur_owner = t_owner task, ur_updates = u1 @ u2 @ u3 @ u4,
                       ur_unblocked = unblocked, ur_cascaded = cascaded,
                       ur_evidence_count = length (t_evidence task)\<rparr>))))"

section \<open>task\_list and task\_get\<close>

record list_params =
  lp_status :: "TaskStatus option"
  lp_owner :: "string option"
  lp_priority :: "Priority option"
  lp_target :: "string option"
  lp_limit :: "int option"

definition filter_opt :: "'p option \<Rightarrow> ('p \<Rightarrow> 'a \<Rightarrow> bool) \<Rightarrow> 'a list \<Rightarrow> 'a list" where
  "filter_opt v P xs = (case v of None \<Rightarrow> xs | Some x \<Rightarrow> filter (P x) xs)"

definition task_list :: "list_params \<Rightarrow> tm_file \<Rightarrow> Task list \<times> nat" where
  "task_list p f =
     (let g = tm_load f;
          ts = tasks g;
          ts = filter_opt (lp_status p) (\<lambda>s t. t_status t = s) ts;
          ts = filter_opt (or_null (lp_owner p)) (\<lambda>s t. t_owner t = Some s) ts;
          ts = filter_opt (lp_priority p) (\<lambda>s t. t_priority t = s) ts;
          ts = filter_opt (or_null (lp_target p))
                 (\<lambda>s t. case or_null (t_target t) of None \<Rightarrow> False | Some u \<Rightarrow> sublist s u) ts;
          ts = sort_key claim_key ts;
          limit = num_or (lp_limit p) 50
      in (slice0 limit ts, length (tasks g)))"

record task_details =
  td_task :: Task
  td_dependency_status :: "(string \<times> TaskStatus option \<times> bool) list"
  td_children :: "(string \<times> TaskStatus \<times> string) list"
  td_orphaned :: bool

definition task_get :: "time \<Rightarrow> string \<Rightarrow> tm_file \<Rightarrow> string + task_details" where
  "task_get now tid f =
     (let g = tm_load f in
      case findTask g tid of
        None \<Rightarrow> Inl tid
      | Some task \<Rightarrow>
          Inr \<lparr>td_task = task,
               td_dependency_status =
                 map (\<lambda>d. let s = map_option t_status (findTask g d) in (d, s, s = Some COMPLETED))
                   (t_dependencies task),
               td_children =
                 map (\<lambda>t. (t_id t, t_status t, t_hypothesis t))
                   (filter (\<lambda>t. t_parent_task t = Some (t_id task)) (tasks g)),
               td_orphaned = isOrphaned now task\<rparr>)"

section \<open>task\_reclaim\<close>

record reclaim_params =
  rp_task_id :: "string option"
  rp_agent :: "string option"
  rp_scan_only :: bool
  rp_reset_all :: bool
  rp_stale_threshold_min :: "rat option"

datatype reclaim_response =
    Reclaim_scan "Task list"
  | Reclaim_not_found string
  | Reclaim_not_orphaned string TaskStatus "time option"
  | Reclaim_agent_required
  | Reclaim_ok string "string option" string
  | Reclaim_reset "(string \<times> string option) list"
  | Reclaim_idle nat

definition checkOrphan :: "time \<Rightarrow> rat \<Rightarrow> Task \<Rightarrow> bool" where
  "checkOrphan now thresholdMs t =
     (if t_status t \<noteq> CLAIMED \<and> t_status t \<noteq> RUNNING then False
      else case (case t_heartbeat_at t of Some h \<Rightarrow> Some h | None \<Rightarrow> t_claimed_at t) of
             None \<Rightarrow> False
           | Some ref \<Rightarrow> of_int (now - ref) > thresholdMs)"

definition released :: "time \<Rightarrow> Task \<Rightarrow> Task" where
  "released now t =
     touch now (t\<lparr>t_owner := None, t_status := PENDING,
                 t_claimed_at := None, t_heartbeat_at := None\<rparr>)"

text \<open>
  The orphans are references into \<open>g.tasks\<close>; the model keeps their positions, so that the
  assignment to the chosen one changes that object.
\<close>

definition orphan_positions :: "(Task \<Rightarrow> bool) \<Rightarrow> Task list \<Rightarrow> nat list" where
  "orphan_positions P ts = filter (\<lambda>i. P (ts ! i)) [0..<length ts]"

definition task_reclaim :: "time \<Rightarrow> reclaim_params \<Rightarrow> tm_file \<Rightarrow> tm_file \<times> reclaim_response" where
  "task_reclaim now p f =
     (let g = tm_load f;
          thresholdMs = num_or (rp_stale_threshold_min p) 5 * 60 * 1000;
          orph = checkOrphan now thresholdMs;
          orphans = filter orph (tasks g) in
      if rp_scan_only p then (f, Reclaim_scan orphans)
      else case or_null (rp_task_id p) of
        Some tid \<Rightarrow>
          (case findTask g tid of
             None \<Rightarrow> (f, Reclaim_not_found tid)
           | Some task \<Rightarrow>
               if \<not> orph task then
                 (f, Reclaim_not_orphaned (t_id task) (t_status task) (t_heartbeat_at task))
               else (case or_null (rp_agent p) of
                  None \<Rightarrow> (f, Reclaim_agent_required)
                | Some agent \<Rightarrow>
                    (tm_save (modifyTask tid (claimed now agent) g) f,
                     Reclaim_ok (t_id task) (t_owner task) agent)))
      | None \<Rightarrow>
          if rp_reset_all p then
            (tm_save (g\<lparr>tasks := map (\<lambda>t. if orph t then released now t else t) (tasks g)\<rparr>) f,
             Reclaim_reset (map (\<lambda>t. (t_id t, t_owner t)) orphans))
          else
            (case (or_null (rp_agent p),
                   sort_key (\<lambda>i. PRIORITY_ORDER (t_priority (tasks g ! i)))
                     (orphan_positions orph (tasks g))) of
               (Some agent, i # _) \<Rightarrow>
                 (tm_save (g\<lparr>tasks := (tasks g)[i := claimed now agent (tasks g ! i)]\<rparr>) f,
                  Reclaim_ok (t_id (tasks g ! i)) (t_owner (tasks g ! i)) agent)
             | _ \<Rightarrow> (f, Reclaim_idle (length orphans))))"

section \<open>task\_block\<close>

record block_params =
  bp_task_id :: string
  bp_add_dependencies :: "string list option"
  bp_check_only :: bool

record dep_report =
  dr_id :: string
  dr_status :: "TaskStatus option"
  dr_hypothesis :: "string option"

record block_report =
  br_id :: string
  br_status :: TaskStatus
  br_dependencies :: "dep_report list"
  br_unsatisfied :: "string list"
  br_failed_deps :: "string list"
  br_all_satisfied :: bool
  br_permanently_blocked :: bool

datatype block_response =
    Block_not_found string
  | Block_missing_dependency string
  | Block_report block_report

text \<open>The loop over \<open>add_dependencies\<close>: \<open>Inl\<close> is its early return.\<close>

fun add_deps :: "TaskGraph \<Rightarrow> string list \<Rightarrow> string list \<Rightarrow> string + string list" where
  "add_deps g deps [] = Inr deps"
| "add_deps g deps (d # ds) =
     (if d \<in> set deps then add_deps g deps ds
      else case findTask g d of
             None \<Rightarrow> Inl d
           | Some _ \<Rightarrow> add_deps g (deps @ [d]) ds)"

definition block_report_of :: "TaskGraph \<Rightarrow> Task \<Rightarrow> block_report" where
  "block_report_of g task =
     \<lparr>br_id = t_id task, br_status = t_status task,
      br_dependencies =
        map (\<lambda>d. let dep = findTask g d in
               \<lparr>dr_id = d, dr_status = map_option t_status dep,
                dr_hypothesis = or_null (map_option t_hypothesis dep)\<rparr>)
          (t_dependencies task),
      br_unsatisfied = depsBlocked g task,
      br_failed_deps = depFailed g task,
      br_all_satisfied = depsSatisfied g task,
      br_permanently_blocked = (depFailed g task \<noteq> [])\<rparr>"

definition task_block :: "time \<Rightarrow> block_params \<Rightarrow> tm_file \<Rightarrow> tm_file \<times> block_response" where
  "task_block now p f =
     (let g = tm_load f; tid = bp_task_id p in
      case findTask g tid of
        None \<Rightarrow> (f, Block_not_found tid)
      | Some task \<Rightarrow>
          if \<not> bp_check_only p \<and> or_else (bp_add_dependencies p) [] \<noteq> [] then
            (case add_deps g (t_dependencies task) (or_else (bp_add_dependencies p) []) of
               Inl d \<Rightarrow> (f, Block_missing_dependency d)
             | Inr deps \<Rightarrow>
                 (let task = task\<lparr>t_dependencies := deps\<rparr>;
                      g = modifyTask tid (\<lambda>_. task) g;
                      task = (if \<not> depsSatisfied g task then task\<lparr>t_status := BLOCKED\<rparr> else task);
                      task = touch now task;
                      g = modifyTask tid (\<lambda>_. task) g
                  in (tm_save g f, Block_report (block_report_of g task))))
          else (f, Block_report (block_report_of g task)))"

section \<open>The command /tasks\<close>

text \<open>
  What the dashboard shows, without its layout: the counts, the orphans, the ten latest active
  tasks, the first ten of the queue, the five latest finished ones, and for \<open>/tasks blocked\<close> the
  blocked tasks with what blocks them.
\<close>

record tasks_view =
  tv_total :: nat
  tv_counts :: "TaskStatus \<Rightarrow> nat"
  tv_orphans :: "Task list"
  tv_active :: "Task list"
  tv_pending :: "Task list"
  tv_recent :: "Task list"
  tv_blocked :: "(Task \<times> string list \<times> string list) list option"

fun count_statuses :: "(TaskStatus \<Rightarrow> nat) \<Rightarrow> Task list \<Rightarrow> (TaskStatus \<Rightarrow> nat)" where
  "count_statuses m [] = m"
| "count_statuses m (t # ts) = count_statuses (m(t_status t := m (t_status t) + 1)) ts"

definition tasks_command :: "time \<Rightarrow> bool \<Rightarrow> tm_file \<Rightarrow> tasks_view option" where
  "tasks_command now show_blocked f =
     (let g = tm_load f; ts = tasks g in
      if ts = [] then None
      else
        (let counts = count_statuses (\<lambda>_. 0) ts in
         Some \<lparr>tv_total = length ts,
               tv_counts = counts,
               tv_orphans = filter (isOrphaned now) ts,
               tv_active = take 10 (sort_key (\<lambda>t. - t_updated_at t)
                 (filter (\<lambda>t. t_status t = CLAIMED \<or> t_status t = RUNNING) ts)),
               tv_pending = take 10 (sort_key claim_key (filter (\<lambda>t. t_status t = PENDING) ts)),
               tv_recent = take 5 (sort_key (\<lambda>t. - t_updated_at t)
                 (filter (\<lambda>t. t_status t = COMPLETED \<or> t_status t = FAILED) ts)),
               tv_blocked =
                 (if show_blocked \<and> counts BLOCKED > 0
                  then Some (map (\<lambda>t. (t, depsBlocked g t, depFailed g t))
                               (filter (\<lambda>t. t_status t = BLOCKED) ts))
                  else None)\<rparr>))"

section \<open>The tools as one interface\<close>

datatype tm_call =
    Call_create time create_params
  | Call_claim time claim_params
  | Call_update time update_params
  | Call_reclaim time reclaim_params
  | Call_block time block_params

datatype tm_response =
    Resp_create create_response
  | Resp_claim claim_response
  | Resp_update update_response
  | Resp_reclaim reclaim_response
  | Resp_block block_response

fun tm_exec :: "(string \<Rightarrow> json option) \<Rightarrow> tm_call \<Rightarrow> tm_file \<Rightarrow> tm_file \<times> tm_response" where
  "tm_exec parse (Call_create now p) f = apsnd Resp_create (task_create now p f)"
| "tm_exec parse (Call_claim now p) f = apsnd Resp_claim (task_claim now p f)"
| "tm_exec parse (Call_update now p) f = apsnd Resp_update (task_update parse now p f)"
| "tm_exec parse (Call_reclaim now p) f = apsnd Resp_reclaim (task_reclaim now p f)"
| "tm_exec parse (Call_block now p) f = apsnd Resp_block (task_block now p f)"

end
