(* ===== verification/Task_Manager_Correct.thy ===== *)
theory Task_Manager_Correct
  imports Task_Manager
begin

text \<open>
  Correctness of the task graph. Every tool call, whatever its parameters, lets each task of the
  graph evolve in the same restricted way (\<open>task_evol\<close>) and appends at most one fresh task
  (\<open>graph_evol\<close>). The invariant of the graph, the dependency gate, the permanence of deadlocks
  and the append-only history follow from that one relation through the interpretation of
  \<open>tool_server\<close>; the functional behaviour of the single tools is stated after it.
\<close>

section \<open>Evolution of a task and of the graph\<close>

definition task_evol :: "TaskGraph \<Rightarrow> Task \<Rightarrow> Task \<Rightarrow> bool" where
  "task_evol g t t' \<longleftrightarrow>
     t_id t' = t_id t \<and> t_parent_task t' = t_parent_task t \<and> t_priority t' = t_priority t \<and>
     t_target t' = t_target t \<and> t_hypothesis t' = t_hypothesis t \<and>
     t_created_at t' = t_created_at t \<and> t_estimated_cost t' = t_estimated_cost t \<and>
     prefix (t_dependencies t) (t_dependencies t') \<and> prefix (t_evidence t) (t_evidence t') \<and>
     (t_status t' = COMPLETED \<longrightarrow> t_status t = COMPLETED \<or> depsSatisfied g t)"

definition fresh_task :: "TaskGraph \<Rightarrow> Task \<Rightarrow> bool" where
  "fresh_task g t \<longleftrightarrow> t_id t = task_id_of (counter g + 1) \<and> t_status t \<in> {PENDING, BLOCKED}"

definition graph_evol :: "TaskGraph \<Rightarrow> TaskGraph \<Rightarrow> bool" where
  "graph_evol g g' \<longleftrightarrow>
     (\<exists>ts new. tasks g' = ts @ new \<and> list_all2 (task_evol g) (tasks g) ts \<and>
        counter g' = counter g + length new \<and> length new \<le> 1 \<and> list_all (fresh_task g) new)"

definition tm_wf :: "TaskGraph \<Rightarrow> bool" where
  "tm_wf g \<longleftrightarrow> distinct (map t_id (tasks g)) \<and>
     set (map t_id (tasks g)) \<subseteq> task_id_of ` {1..counter g}"

lemma task_id_of_inj [simp]: "task_id_of m = task_id_of n \<longleftrightarrow> m = n"
  by (simp add: task_id_of_def padStart_inj)

lemma tm_load_save [simp]: "tm_load (tm_save g f) = g"
  by (simp add: tm_save_def)

lemma depsSatisfied_iff:
  "depsSatisfied g t \<longleftrightarrow>
     (\<forall>d \<in> set (t_dependencies t). \<exists>u. findTask g d = Some u \<and> t_status u = COMPLETED)"
  by (auto simp: depsSatisfied_def list_all_iff split: option.splits)

lemma depsBlocked_empty: "depsBlocked g t = [] \<longleftrightarrow> depsSatisfied g t"
  by (auto simp: depsBlocked_def depsSatisfied_iff filter_empty_conv split: option.splits)

lemma depFailed_iff:
  "d \<in> set (depFailed g t) \<longleftrightarrow>
     d \<in> set (t_dependencies t) \<and> (\<exists>u. findTask g d = Some u \<and> t_status u \<in> {FAILED, CANCELLED})"
  by (auto simp: depFailed_def split: option.splits)

lemma depFailed_unsatisfied: "depFailed g t \<noteq> [] \<Longrightarrow> \<not> depsSatisfied g t"
proof -
  assume "depFailed g t \<noteq> []"
  then obtain d where "d \<in> set (depFailed g t)" by (cases "depFailed g t") auto
  then show ?thesis unfolding depFailed_iff depsSatisfied_iff by force
qed

lemma depsSatisfied_subset:
  "depsSatisfied g t' \<Longrightarrow> set (t_dependencies t) \<subseteq> set (t_dependencies t') \<Longrightarrow> depsSatisfied g t"
  by (auto simp: depsSatisfied_iff)

lemma task_evol_refl [simp]: "task_evol g t t"
  by (simp add: task_evol_def)

lemma task_evol_trans: "task_evol g t u \<Longrightarrow> task_evol g u v \<Longrightarrow> task_evol g t v"
  unfolding task_evol_def
  by (auto intro: prefix_order.trans depsSatisfied_subset dest: set_mono_prefix)

lemma list_all2_refl: "(\<And>x. R x x) \<Longrightarrow> list_all2 R xs xs"
  by (induction xs) auto

lemma list_all2_evol_refl: "list_all2 (task_evol g) ts ts"
  by (simp add: list_all2_refl)

lemma list_all2_evol_trans:
  "list_all2 (task_evol g) xs ys \<Longrightarrow> list_all2 (task_evol g) ys zs \<Longrightarrow> list_all2 (task_evol g) xs zs"
  by (rule list_all2_trans [where ?P1.0 = "task_evol g" and ?P2.0 = "task_evol g"])
    (blast intro: task_evol_trans)

lemma list_all2_map_first:
  assumes "\<And>x. R x x" "\<And>x. find P xs = Some x \<Longrightarrow> R x (f x)"
  shows "list_all2 R xs (map_first P f xs)"
  using assms(2) by (induction xs) (auto simp: assms(1) list_all2_refl split: if_splits)

lemma modifyTask_evol:
  assumes "\<And>t. findTask g i = Some t \<Longrightarrow> task_evol h t (f t)"
  shows "list_all2 (task_evol h) (tasks g) (tasks (modifyTask i f g))"
  using assms unfolding modifyTask_def findTask_def
  by (auto intro!: list_all2_map_first)

lemma counter_modifyTask [simp, frame]: "counter (modifyTask i f g) = counter g"
  by (simp add: modifyTask_def)

lemma graph_evol_same:
  "list_all2 (task_evol g) (tasks g) (tasks g') \<Longrightarrow> counter g' = counter g \<Longrightarrow> graph_evol g g'"
  unfolding graph_evol_def by (rule exI [of _ "tasks g'"]) auto

lemma graph_evol_refl [simp]: "graph_evol g g"
  by (simp add: graph_evol_same list_all2_evol_refl)

lemma task_evol_status:
  "s \<noteq> COMPLETED \<Longrightarrow> task_evol g t (touch now (t\<lparr>t_status := s\<rparr>))"
  by (simp add: task_evol_def touch_def)

lemma task_evol_touch: "task_evol g t (touch now t)"
  by (simp add: task_evol_def touch_def)

lemma task_evol_claimed: "task_evol g t (claimed now agent t)"
  by (simp add: task_evol_def claimed_def touch_def)

lemma task_evol_released: "task_evol g t (released now t)"
  by (simp add: task_evol_def released_def touch_def)

lemmas task_evol_intros =
  task_evol_status task_evol_touch task_evol_claimed task_evol_released

section \<open>Every tool call is an evolution of the graph\<close>

lemma new_task_simps [simp]:
  "t_id (new_task now i p deps) = i"
  "t_dependencies (new_task now i p deps) = deps"
  "t_status (new_task now i p deps) = (if deps \<noteq> [] then BLOCKED else PENDING)"
  "(new_task now i p [])\<lparr>t_status := PENDING\<rparr> = new_task now i p []"
  "deps \<noteq> [] \<Longrightarrow> (new_task now i p deps)\<lparr>t_status := BLOCKED\<rparr> = new_task now i p deps"
  by (simp_all add: new_task_def)

text \<open>
  The three assignments of \<open>task_create\<close> to the status amount to: pending exactly when every
  dependency is complete.
\<close>

lemma task_create_result:
  defines "deps p \<equiv> or_else (cp_dependencies p) []"
  defines "task now p g \<equiv>
    (new_task now (task_id_of (counter g + 1)) p (deps p))
      \<lparr>t_status := if depsSatisfied g (new_task now (task_id_of (counter g + 1)) p (deps p))
                   then PENDING else BLOCKED\<rparr>"
  shows "task_create now p f =
    (tm_save \<lparr>tasks = tasks (tm_load f) @ [task now p (tm_load f)],
              counter = counter (tm_load f) + 1\<rparr> f,
     Created (task_id_of (counter (tm_load f) + 1)) (t_status (task now p (tm_load f)))
       (filter (\<lambda>d. findTask (tm_load f) d = None) (deps p)))"
proof -
  let ?g = "tm_load f" and ?deps = "or_else (cp_dependencies p) []"
  let ?t = "new_task now (task_id_of (counter ?g + 1)) p ?deps"
  have sat: "depsSatisfied (h\<lparr>counter := c\<rparr>) t = depsSatisfied h t"
    and fl: "depFailed (h\<lparr>counter := c\<rparr>) t = depFailed h t"
    and fd: "findTask (h\<lparr>counter := c\<rparr>) d = findTask h d" for h c t d
    by (simp_all add: depsSatisfied_def depFailed_def findTask_def)
  have fs: "depFailed h (t\<lparr>t_status := x\<rparr>) = depFailed h t" for h t x
    by (simp add: depFailed_def)
  have nil: "?deps = [] \<Longrightarrow> depsSatisfied ?g ?t"
    by (simp add: depsSatisfied_def new_task_def)
  show ?thesis
  proof (cases "depsSatisfied ?g ?t")
    case True
    then have "depFailed ?g ?t = []" using depFailed_unsatisfied by blast
    with True show ?thesis
      unfolding task_create_def nextId_def deps_def task_def
      by (auto simp: Let_def sat fl fd fs tm_save_def)
  next
    case False
    with nil have ne: "?deps \<noteq> []" by blast
    with False show ?thesis
      unfolding task_create_def nextId_def deps_def task_def
      by (auto simp: Let_def sat fl fd fs tm_save_def)
  qed
qed

lemma task_create_tasks:
  "\<exists>t. tm_load (fst (task_create now p f)) =
      \<lparr>tasks = tasks (tm_load f) @ [t], counter = counter (tm_load f) + 1\<rparr> \<and>
      fresh_task (tm_load f) t"
  by (simp add: task_create_result fresh_task_def new_task_def)

lemma graph_evol_create: "graph_evol (tm_load f) (tm_load (fst (task_create now p f)))"
proof -
  obtain t where "tm_load (fst (task_create now p f)) =
      \<lparr>tasks = tasks (tm_load f) @ [t], counter = counter (tm_load f) + 1\<rparr>"
    and "fresh_task (tm_load f) t"
    using task_create_tasks by blast
  then show ?thesis
    unfolding graph_evol_def
    by (intro exI [of _ "tasks (tm_load f)"] exI [of _ "[t]"]) (simp add: list_all2_evol_refl)
qed

lemma graph_evol_claim_by_id:
  "g = tm_load f \<Longrightarrow> graph_evol g (tm_load (fst (claim_by_id now agent i g f)))"
  unfolding claim_by_id_def
  by (auto split: option.split
      intro!: graph_evol_same modifyTask_evol task_evol_intros)

lemma graph_evol_claim: "graph_evol (tm_load f) (tm_load (fst (task_claim now p f)))"
  unfolding task_claim_def
  by (auto simp: Let_def graph_evol_claim_by_id split: option.split list.split)

lemma apply_heartbeat_evol: "task_evol h t (fst (apply_heartbeat now p t))"
  by (simp add: apply_heartbeat_def task_evol_def touch_def Let_def)

lemma apply_heartbeat_completed:
  "t_status (fst (apply_heartbeat now p t)) = COMPLETED \<longleftrightarrow> t_status t = COMPLETED"
  by (simp add: apply_heartbeat_def touch_def Let_def)

lemma apply_status_evol:
  assumes "apply_status g p t = Inr (t', us)"
  shows "task_evol g t t'"
proof (cases "up_status p")
  case None
  with assms show ?thesis by (simp add: apply_status_def)
next
  case (Some s)
  with assms show ?thesis
    by (cases s) (auto simp: apply_status_def task_evol_def Let_def split: if_splits)
qed

lemma apply_evidence_evol: "task_evol g t (fst (apply_evidence parse now p t))"
  by (simp add: apply_evidence_def task_evol_def Let_def split: option.split)

lemma apply_cost_evol: "task_evol g t (fst (apply_cost p t))"
  by (simp add: apply_cost_def task_evol_def Let_def split: option.split)

lemma unblock_loop_evol:
  "list_all2 (task_evol g) (pre @ ts) (fst (unblock_loop now tid c pre ts))"
proof (induction now tid c pre ts rule: unblock_loop.induct)
  case (1 now tid c pre)
  then show ?case by (simp add: list_all2_evol_refl)
next
  case (2 now tid c pre other rest)
  let ?other' = "touch now (other\<lparr>t_status := PENDING\<rparr>)"
  have "list_all2 (task_evol g) (pre @ other # rest) (pre @ ?other' # rest)"
    by (intro list_all2_appendI list_all2_evol_refl list.rel_intros task_evol_status) simp
  with 2 show ?case
    by (auto simp: Let_def split: prod.split dest: list_all2_evol_trans)
qed

lemma cascade_loop_evol: "list_all2 (task_evol g) ts (fst (cascade_loop now tid ts))"
  by (induction ts) (auto simp: Let_def task_evol_intros split: prod.splits)

text \<open>The dependency test does not see which open status a task has.\<close>

lemma depsSatisfied_modify:
  assumes "\<And>t. findTask g i = Some t \<Longrightarrow>
      t_id (h t) = i \<and> (t_status (h t) = COMPLETED \<longleftrightarrow> t_status t = COMPLETED)"
  shows "depsSatisfied (modifyTask i h g) t = depsSatisfied g t"
proof -
  have "(\<exists>u. find (\<lambda>t. t_id t = d) (map_first (\<lambda>t. t_id t = i) h ts) = Some u \<and>
          t_status u = COMPLETED) \<longleftrightarrow>
      (\<exists>u. find (\<lambda>t. t_id t = d) ts = Some u \<and> t_status u = COMPLETED)"
    if "\<And>t. find (\<lambda>t. t_id t = i) ts = Some t \<Longrightarrow>
      t_id (h t) = i \<and> (t_status (h t) = COMPLETED \<longleftrightarrow> t_status t = COMPLETED)" for d ts
    using that by (induction ts) (auto split: if_splits)
  then have same: "(\<exists>u. findTask (modifyTask i h g) d = Some u \<and> t_status u = COMPLETED) \<longleftrightarrow>
      (\<exists>u. findTask g d = Some u \<and> t_status u = COMPLETED)" for d
    using assms unfolding modifyTask_def findTask_def by simp
  show ?thesis unfolding depsSatisfied_iff same ..
qed

lemma findTask_SomeD: "findTask g i = Some t \<Longrightarrow> t \<in> set (tasks g) \<and> t_id t = i"
  by (auto simp: findTask_def dest: find_SomeD)

lemma depsSatisfied_cong_deps:
  "t_dependencies t = t_dependencies u \<Longrightarrow> depsSatisfied g t = depsSatisfied g u"
  by (simp add: depsSatisfied_def)

text \<open>
  The handler of \<open>task_update\<close> split at its single early return: either it returns without
  saving, or it saves the graph in which the task is \<open>t'\<close> and the two loops have run.
\<close>

definition update_loops :: "time \<Rightarrow> Task \<Rightarrow> nat \<Rightarrow> Task list \<Rightarrow> Task list" where
  "update_loops now t' c ts =
     (let ts = (if t_status t' = COMPLETED then fst (unblock_loop now (t_id t') c [] ts) else ts)
      in if t_status t' = FAILED \<or> t_status t' = CANCELLED
         then fst (cascade_loop now (t_id t') ts) else ts)"

lemma update_loops_evol: "list_all2 (task_evol g) ts (update_loops now t' c ts)"
  using unblock_loop_evol [of g "[]"] cascade_loop_evol
  by (auto simp: update_loops_def Let_def intro: list_all2_evol_refl)

lemma modifyTask_twice:
  "(\<And>t. t_id t = i \<Longrightarrow> t_id (f t) = i) \<Longrightarrow>
   modifyTask i h (modifyTask i f g) = modifyTask i (h \<circ> f) g"
  by (simp add: modifyTask_def map_first_twice)

text \<open>What the status, evidence and cost parts of the handler make of the task.\<close>

definition updated ::
  "(string \<Rightarrow> json option) \<Rightarrow> time \<Rightarrow> update_params \<Rightarrow> TaskGraph \<Rightarrow> Task \<Rightarrow> update_response + Task" where
  "updated parse now p g task =
     (let task = fst (apply_heartbeat now p task) in
      case apply_status (modifyTask (up_task_id p) (\<lambda>_. task) g) p task of
        Inl e \<Rightarrow> Inl e
      | Inr (task, _) \<Rightarrow> Inr (fst (apply_cost p (fst (apply_evidence parse now p task)))))"

lemma task_update_state:
  assumes "findTask (tm_load f) (up_task_id p) = Some task"
  shows "case updated parse now p (tm_load f) task of
      Inl e \<Rightarrow> task_update parse now p f = (f, e)
    | Inr t' \<Rightarrow> tm_load (fst (task_update parse now p f)) =
        (let g = modifyTask (up_task_id p) (\<lambda>_. t')
               (modifyTask (up_task_id p) (\<lambda>_. fst (apply_heartbeat now p task)) (tm_load f))
         in modifyTask (up_task_id p) (touch now)
              (g\<lparr>tasks := update_loops now t' (counter g) (tasks g)\<rparr>)) \<and>
        (\<exists>r. snd (task_update parse now p f) = Update_ok r \<and> ur_status r = t_status t' \<and>
           ur_owner r = t_owner t' \<and> ur_evidence_count r = length (t_evidence t') \<and>
           ur_unblocked r = (if t_status t' = COMPLETED
             then snd (unblock_loop now (t_id t') (counter (tm_load f)) [] (tasks
               (modifyTask (up_task_id p) (\<lambda>_. t')
               (modifyTask (up_task_id p) (\<lambda>_. fst (apply_heartbeat now p task)) (tm_load f)))))
             else []))"
  unfolding task_update_def updated_def update_loops_def
  using assms by (auto simp: Let_def split: sum.splits prod.splits)

lemma updated_evol:
  assumes "updated parse now p g task = Inr t'" "findTask g (up_task_id p) = Some task"
  shows "task_evol g task t'"
proof -
  let ?h = "fst (apply_heartbeat now p task)"
  let ?g = "modifyTask (up_task_id p) (\<lambda>_. ?h) g"
  obtain u us where s: "apply_status ?g p ?h = Inr (u, us)"
    and t': "t' = fst (apply_cost p (fst (apply_evidence parse now p u)))"
    using assms(1) by (auto simp: updated_def Let_def split: sum.splits)
  have hb: "task_evol x task ?h" for x by (rule apply_heartbeat_evol)
  have "t_id task = up_task_id p" using assms(2) by (simp add: findTask_SomeD)
  with hb have "depsSatisfied ?g x = depsSatisfied g x" for x
    using assms(2)
    by (intro depsSatisfied_modify) (auto simp: task_evol_def apply_heartbeat_completed)
  with apply_status_evol [OF s] have "task_evol g ?h u"
    by (simp add: task_evol_def)
  moreover have "task_evol g u t'"
    unfolding t' by (blast intro: task_evol_trans apply_evidence_evol apply_cost_evol)
  ultimately show ?thesis using hb by (blast intro: task_evol_trans)
qed

lemma graph_evol_update: "graph_evol (tm_load f) (tm_load (fst (task_update parse now p f)))"
proof (cases "findTask (tm_load f) (up_task_id p)")
  case None
  then show ?thesis by (simp add: task_update_def Let_def)
next
  case (Some task)
  let ?g = "tm_load f" and ?i = "up_task_id p"
  show ?thesis
  proof (cases "updated parse now p ?g task")
    case (Inl e)
    with task_update_state [OF Some, of parse now] show ?thesis by simp
  next
    case (Inr t')
    let ?h = "fst (apply_heartbeat now p task)"
    let ?g1 = "modifyTask ?i (\<lambda>_. t') (modifyTask ?i (\<lambda>_. ?h) ?g)"
    let ?g2 = "?g1\<lparr>tasks := update_loops now t' (counter ?g1) (tasks ?g1)\<rparr>"
    have id: "t_id task = ?i" using Some by (simp add: findTask_SomeD)
    then have "t_id ?h = ?i"
      using apply_heartbeat_evol [of ?g task now p] by (simp add: task_evol_def)
    then have g1: "?g1 = modifyTask ?i (\<lambda>_. t') ?g"
      by (simp add: modifyTask_twice comp_def)
    have "list_all2 (task_evol ?g) (tasks ?g) (tasks ?g1)"
      unfolding g1 using Some updated_evol [OF Inr Some] by (auto intro!: modifyTask_evol)
    moreover have "list_all2 (task_evol ?g) (tasks ?g1) (tasks ?g2)"
      by (simp add: update_loops_evol)
    moreover have "list_all2 (task_evol ?g) (tasks ?g2) (tasks (modifyTask ?i (touch now) ?g2))"
      by (intro modifyTask_evol task_evol_touch)
    ultimately have "list_all2 (task_evol ?g) (tasks ?g) (tasks (modifyTask ?i (touch now) ?g2))"
      by (blast intro: list_all2_evol_trans)
    with task_update_state [OF Some, of parse now] Inr show ?thesis
      by (auto simp: Let_def intro!: graph_evol_same)
  qed
qed

lemma graph_evol_reclaim: "graph_evol (tm_load f) (tm_load (fst (task_reclaim now p f)))"
proof -
  have "list_all2 (task_evol g) ts (ts[i := claimed now a (ts ! i)])" for g ts i a
    by (cases "i < length ts")
      (auto simp: list_all2_conv_all_nth nth_list_update task_evol_claimed list_update_beyond)
  moreover have "list_all2 (task_evol g) ts (map (\<lambda>t. if P t then released now t else t) ts)"
    for g ts P
    by (simp add: list_all2_conv_all_nth task_evol_released)
  ultimately show ?thesis
    unfolding task_reclaim_def Let_def
    by (auto split: option.split list.split intro!: graph_evol_same modifyTask_evol
        task_evol_claimed)
qed

lemma add_deps_prefix: "add_deps g deps ds = Inr deps' \<Longrightarrow> prefix deps deps'"
  by (induction g deps ds rule: add_deps.induct)
    (auto split: if_splits option.splits dest: append_prefixD)

lemma graph_evol_block: "graph_evol (tm_load f) (tm_load (fst (task_block now p f)))"
proof (cases "findTask (tm_load f) (bp_task_id p)")
  case None
  then show ?thesis by (simp add: task_block_def)
next
  case (Some task)
  let ?g = "tm_load f" and ?i = "bp_task_id p"
  have twice: "list_all2 (task_evol ?g) (tasks ?g)
      (tasks (modifyTask ?i (\<lambda>_. u) (modifyTask ?i (\<lambda>_. task\<lparr>t_dependencies := deps\<rparr>) ?g)))"
    if "task_evol ?g task u" for u deps
  proof -
    have "t_id task = ?i" using Some by (simp add: findTask_SomeD)
    then show ?thesis using Some that by (auto simp: modifyTask_twice comp_def intro!: modifyTask_evol)
  qed
  show ?thesis
    unfolding task_block_def Let_def using Some
    by (auto split: sum.split dest!: add_deps_prefix intro!: graph_evol_same twice
        simp: task_evol_def touch_def)
qed

lemma graph_evol_exec: "graph_evol (tm_load f) (tm_load (fst (tm_exec parse c f)))"
  by (cases c) (simp_all add: graph_evol_create graph_evol_claim graph_evol_update
      graph_evol_reclaim graph_evol_block)

section \<open>Consequences for the whole graph\<close>

lemma graph_evol_find:
  assumes "graph_evol g g'" "findTask g i = Some t"
  shows "\<exists>t'. findTask g' i = Some t' \<and> task_evol g t t'"
proof -
  obtain ts new where g': "tasks g' = ts @ new" and l2: "list_all2 (task_evol g) (tasks g) ts"
    using assms(1) by (auto simp: graph_evol_def)
  have "\<exists>t'. find (\<lambda>t. t_id t = i) (ys @ zs) = Some t' \<and> task_evol g t t'"
    if "list_all2 (task_evol g) xs ys" "find (\<lambda>t. t_id t = i) xs = Some t" for xs ys zs
    using that by (induction rule: list_all2_induct) (auto simp: task_evol_def split: if_splits)
  from this [OF l2] assms(2) show ?thesis by (simp add: g' findTask_def)
qed

lemma graph_evol_find_new:
  assumes "graph_evol g g'" "findTask g' i = Some t'"
  shows "(\<exists>t. findTask g i = Some t \<and> task_evol g t t') \<or> (findTask g i = None \<and> fresh_task g t')"
proof (cases "findTask g i")
  case (Some t)
  with graph_evol_find [OF assms(1)] assms(2) show ?thesis by fastforce
next
  case None
  obtain ts new where g': "tasks g' = ts @ new" and l2: "list_all2 (task_evol g) (tasks g) ts"
    and fr: "list_all (fresh_task g) new"
    using assms(1) by (auto simp: graph_evol_def)
  have "find (\<lambda>t. t_id t = i) (ys @ zs) = find (\<lambda>t. t_id t = i) zs"
    if "list_all2 (task_evol g) xs ys" "find (\<lambda>t. t_id t = i) xs = None" for xs ys zs
    using that by (induction rule: list_all2_induct) (auto simp: task_evol_def split: if_splits)
  from this [OF l2] None assms(2) have "find (\<lambda>t. t_id t = i) new = Some t'"
    by (simp add: g' findTask_def)
  with fr None show ?thesis by (auto simp: list_all_iff dest: find_SomeD)
qed

lemma graph_evol_ids:
  assumes "graph_evol g g'"
  shows "map t_id (tasks g') =
    map t_id (tasks g) @ map task_id_of [Suc (counter g)..<Suc (counter g')]"
proof -
  obtain ts new where g': "tasks g' = ts @ new" "counter g' = counter g + length new"
    and l2: "list_all2 (task_evol g) (tasks g) ts"
    and fr: "list_all (fresh_task g) new" and l1: "length new \<le> 1"
    using assms by (auto simp: graph_evol_def)
  from l2 have "map t_id ts = map t_id (tasks g)"
    by (induction rule: list_all2_induct) (auto simp: task_evol_def)
  moreover have "map t_id new = map task_id_of [Suc (counter g)..<Suc (counter g')]"
  proof (cases new)
    case Nil
    then show ?thesis by (simp add: g')
  next
    case (Cons x xs)
    with l1 have "new = [x]" by simp
    with fr show ?thesis by (simp add: g' fresh_task_def)
  qed
  ultimately show ?thesis by (simp only: g'(1) map_append)
qed

lemma graph_evol_wf [inv_intros]:
  assumes ev: "graph_evol g g'" and wf: "tm_wf g"
  shows "tm_wf g'"
proof -
  let ?new = "map task_id_of [Suc (counter g)..<Suc (counter g')]"
  have le: "counter g \<le> counter g'" using ev by (auto simp: graph_evol_def)
  have d: "distinct ?new" by (simp add: distinct_map inj_on_def)
  have old: "set (map t_id (tasks g)) \<subseteq> task_id_of ` {1..counter g}"
    and d': "distinct (map t_id (tasks g))"
    using wf by (simp_all add: tm_wf_def)
  have new: "set ?new = task_id_of ` {Suc (counter g)..counter g'}"
    by (simp only: set_map set_upt atLeastLessThanSuc_atLeastAtMost)
  have "task_id_of ` {1..counter g} \<inter> task_id_of ` {Suc (counter g)..counter g'} = {}"
    by auto
  with old new have "set (map t_id (tasks g)) \<inter> set ?new = {}" by blast
  with d d' have dd: "distinct (map t_id (tasks g'))"
    by (simp only: graph_evol_ids [OF ev] distinct_append simp_thms)
  have "set (map t_id (tasks g')) = set (map t_id (tasks g)) \<union> set ?new"
    by (simp only: graph_evol_ids [OF ev] set_append)
  also have "\<dots> \<subseteq> task_id_of ` ({1..counter g} \<union> {Suc (counter g)..counter g'})"
    unfolding new image_Un using old by (rule Un_mono) (rule subset_refl)
  also have "\<dots> \<subseteq> task_id_of ` {1..counter g'}"
    using le by (intro image_mono) auto
  finally show ?thesis using dd by (simp only: tm_wf_def simp_thms)
qed

lemma tm_wf_empty [simp]: "tm_wf \<lparr>tasks = [], counter = 0\<rparr>"
  by (simp add: tm_wf_def)

interpretation tm: tool_server tm_load tm_save "tm_exec parse" tm_wf Unreadable for parse
  by unfold_locales (auto intro: graph_evol_wf graph_evol_exec)

definition deadlocked :: "string set \<Rightarrow> TaskGraph \<Rightarrow> bool" where
  "deadlocked S g \<longleftrightarrow> (\<forall>i \<in> S. \<exists>t. findTask g i = Some t \<and> t_status t \<noteq> COMPLETED \<and>
     set (t_dependencies t) \<inter> S \<noteq> {})"

lemma graph_evol_deadlocked:
  assumes ev: "graph_evol g g'" and dl: "deadlocked S g"
  shows "deadlocked S g'"
  unfolding deadlocked_def
proof
  fix i assume i: "i \<in> S"
  with dl obtain t where t: "findTask g i = Some t" "t_status t \<noteq> COMPLETED"
    and "set (t_dependencies t) \<inter> S \<noteq> {}" unfolding deadlocked_def by blast
  then obtain d where d: "d \<in> set (t_dependencies t)" "d \<in> S" by blast
  with dl have "\<not> depsSatisfied g t" by (force simp: deadlocked_def depsSatisfied_iff)
  moreover obtain t' where t': "findTask g' i = Some t'" "task_evol g t t'"
    using graph_evol_find [OF ev t(1)] by blast
  ultimately have "t_status t' \<noteq> COMPLETED" using t(2) by (auto simp: task_evol_def)
  moreover have "d \<in> set (t_dependencies t')"
    using t'(2) d by (auto simp: task_evol_def dest: set_mono_prefix)
  ultimately show "\<exists>t. findTask g' i = Some t \<and> t_status t \<noteq> COMPLETED \<and>
      set (t_dependencies t) \<inter> S \<noteq> {}" using t' d by blast
qed

lemma unblock_loop_ref:
  "unblock_loop now tid c pre ts =
     (let P = (\<lambda>t. t_status t = BLOCKED \<and> tid \<in> set (t_dependencies t) \<and>
                   depsSatisfied \<lparr>tasks = pre @ ts, counter = c\<rparr> t)
      in (pre @ map (\<lambda>t. if P t then touch now (t\<lparr>t_status := PENDING\<rparr>) else t) ts,
          map t_id (filter P ts)))"
proof (induction now tid c pre ts rule: unblock_loop.induct)
  case (1 now tid c pre)
  then show ?case by simp
next
  case (2 now tid c pre other rest)
  let ?o = "touch now (other\<lparr>t_status := PENDING\<rparr>)"
  have "(\<exists>u. find (\<lambda>t. t_id t = d) (pre @ ?o # rest) = Some u \<and> t_status u = COMPLETED) \<longleftrightarrow>
      (\<exists>u. find (\<lambda>t. t_id t = d) (pre @ other # rest) = Some u \<and> t_status u = COMPLETED)"
    if "t_status other = BLOCKED" for d
    using that by (induction pre) (auto simp: touch_def)
  then have "depsSatisfied \<lparr>tasks = pre @ ?o # rest, counter = c\<rparr> t =
      depsSatisfied \<lparr>tasks = pre @ other # rest, counter = c\<rparr> t"
    if "t_status other = BLOCKED" for t
    using that by (simp add: depsSatisfied_iff findTask_def)
  with 2 show ?case by (auto simp: Let_def)
qed

end
