(* ===== verification/Task_Manager_Props.thy ===== *)
theory Task_Manager_Props
  imports Task_Manager_Correct
begin

text \<open>
  The properties of the task graph: over arbitrary sequences of tool calls (identifiers, deadlocks,
  history, the dependency gate), of the claim protocol, of completion and its effect on blocked
  tasks, of recovery from dead agents, and of the read-only views.
\<close>

section \<open>Sequences of tool calls\<close>

lemma ids_evol:
  assumes "graph_evol g g'" "map t_id (tasks g) = map task_id_of [1..<Suc (counter g)]"
  shows "map t_id (tasks g') = map task_id_of [1..<Suc (counter g')]"
proof -
  have "counter g \<le> counter g'" using assms(1) by (auto simp: graph_evol_def)
  then have "[1..<Suc (counter g')] = [1..<Suc (counter g)] @ [Suc (counter g)..<Suc (counter g')]"
    using upt_add_eq_append [of 1 "Suc (counter g)" "counter g' - counter g"] by simp
  then show ?thesis by (simp only: graph_evol_ids [OF assms(1)] assms(2) map_append)
qed

text \<open>
  After any sequence of tool calls on a fresh data directory the tasks are numbered T-001,
  T-002, ... in creation order without gaps, so every identifier names exactly one task.
\<close>

theorem task_ids_sequential:
  "let g = tm_load (run_calls (tm_exec parse) cs Unreadable) in
   map t_id (tasks g) = map task_id_of [1..<Suc (counter g)] \<and> distinct (map t_id (tasks g))"
proof -
  let ?g = "tm_load (run_calls (tm_exec parse) cs Unreadable)"
  let ?P = "\<lambda>g. map t_id (tasks g) = map task_id_of [1..<Suc (counter g)]"
  have "?P (tm_load (run_calls (tm_exec parse) cs Unreadable))"
    by (rule tm.run_preserves [where P = ?P])
      (rule ids_evol [OF graph_evol_exec], assumption, simp_all)
  moreover have "distinct (map t_id (tasks ?g))"
    using tm.run_start_inv [of parse cs] unfolding tm_wf_def by blast
  ultimately show ?thesis unfolding Let_def by blast
qed

text \<open>
  C1: The dependency gate: whatever tool call turns an open task into a completed one, all tasks
  it depends on exist and were completed before the call.
\<close>

theorem completion_gate:
  assumes "findTask (tm_load f) i = Some t" and "t_status t \<noteq> COMPLETED"
    and "findTask (tm_load (fst (tm_exec parse c f))) i = Some t'" and "t_status t' = COMPLETED"
  shows "\<forall>d \<in> set (t_dependencies t).
    \<exists>u. findTask (tm_load f) d = Some u \<and> t_status u = COMPLETED"
proof -
  have "task_evol (tm_load f) t t'"
    using graph_evol_find [OF graph_evol_exec assms(1), of parse c] assms(3) by simp
  then show ?thesis using assms(2,4) by (auto simp: task_evol_def depsSatisfied_iff)
qed

text \<open>
  C2: Deadlocks are permanent: tasks that wait for each other (a set of open tasks each of which
  depends on one of the set, such as a task that depends on itself) stay open under every sequence
  of tool calls, since no tool removes a dependency.
\<close>

theorem deadlock_is_permanent:
  assumes "tm_wf (tm_load f)" and "deadlocked S (tm_load f)"
  shows "deadlocked S (tm_load (run_calls (tm_exec parse) cs f))"
  using assms by (rule tm.run_preserves [rotated]) (rule graph_evol_deadlocked [OF graph_evol_exec])

definition same_history :: "Task \<Rightarrow> Task \<Rightarrow> bool" where
  "same_history t t' \<longleftrightarrow>
     prefix (t_evidence t) (t_evidence t') \<and> prefix (t_dependencies t) (t_dependencies t') \<and>
     t_priority t' = t_priority t \<and> t_target t' = t_target t \<and> t_hypothesis t' = t_hypothesis t \<and>
     t_parent_task t' = t_parent_task t \<and> t_created_at t' = t_created_at t"

lemma same_history_trans: "same_history t u \<Longrightarrow> same_history u v \<Longrightarrow> same_history t v"
  by (auto simp: same_history_def intro: prefix_order.trans)

lemma same_history_evol: "task_evol g t t' \<Longrightarrow> same_history t t'"
  by (simp add: same_history_def task_evol_def)

text \<open>
  C3: History is append-only: a task is never deleted, keeps its identity, priority, target,
  hypothesis, parent and creation time, and its evidence and its dependencies only grow at the end.
\<close>

theorem history_append_only:
  assumes "tm_wf (tm_load f)" and "findTask (tm_load f) i = Some t"
  shows "\<exists>t'. findTask (tm_load (run_calls (tm_exec parse) cs f)) i = Some t' \<and>
    prefix (t_evidence t) (t_evidence t') \<and> prefix (t_dependencies t) (t_dependencies t') \<and>
    t_priority t' = t_priority t \<and> t_target t' = t_target t \<and> t_hypothesis t' = t_hypothesis t \<and>
    t_parent_task t' = t_parent_task t \<and> t_created_at t' = t_created_at t"
proof -
  let ?R = "\<lambda>g g'. \<forall>i t. findTask g i = Some t \<longrightarrow> (\<exists>t'. findTask g' i = Some t' \<and> same_history t t')"
  have "?R (tm_load f) (tm_load (run_calls (tm_exec parse) cs f))"
  proof (rule tm.run_monotone [where R = ?R])
    show "?R s u" if "?R s t" "?R t u" for s t u
      using that by (meson same_history_trans)
    show "?R (tm_load f) (tm_load (fst (tm_exec parse c f)))" for c f
      using graph_evol_find [OF graph_evol_exec, of f _ _ parse c] same_history_evol by blast
  qed (use assms in \<open>auto simp: same_history_def\<close>)
  with assms(2) show ?thesis unfolding same_history_def by blast
qed

section \<open>The claim protocol\<close>

lemma findTask_modify_same:
  assumes "findTask g i = Some t" "\<And>t. t_id (f t) = t_id t"
  shows "findTask (modifyTask i f g) i = Some (f t)"
  using assms unfolding findTask_def modifyTask_def
  by (simp add: find_map_first_same)

lemma findTask_modify_other:
  assumes "i \<noteq> j" "\<And>t. t_id (f t) = t_id t"
  shows "findTask (modifyTask i f g) j = findTask g j"
  using assms unfolding findTask_def modifyTask_def
  by (auto intro!: find_map_first_other)

lemma claimed_simps [simp]:
  "t_id (claimed now a t) = t_id t" "t_owner (claimed now a t) = Some a"
  "t_status (claimed now a t) = CLAIMED" "t_heartbeat_at (claimed now a t) = Some now"
  "t_dependencies (claimed now a t) = t_dependencies t"
  by (simp_all add: claimed_def touch_def)

lemma touch_simps [simp]:
  "t_id (touch now t) = t_id t" "t_status (touch now t) = t_status t"
  "t_owner (touch now t) = t_owner t" "t_dependencies (touch now t) = t_dependencies t"
  by (simp_all add: touch_def)

lemma task_claim_cases:
  obtains "task_claim now p f = (f, Claim_none_pending)"
  | i where "task_claim now p f = claim_by_id now (kp_agent p) i (tm_load f) f"
  by (cases "or_null (kp_task_id p)"; cases "pending_queue (tm_load f)")
    (auto simp: task_claim_def Let_def)

lemma claim_by_id_ok:
  assumes "claim_by_id now a i g f = (f', Claim_ok t r)"
  shows "\<exists>t0. findTask g i = Some t0 \<and> t = claimed now a t0 \<and> r = isOrphaned now t0 \<and>
    t_status t0 \<notin> {COMPLETED, CANCELLED, BLOCKED} \<and> depsSatisfied g t0 \<and>
    (t_status t0 \<in> {CLAIMED, RUNNING} \<and> truthy (t_owner t0) \<longrightarrow>
       t_owner t0 = Some a \<or> isOrphaned now t0) \<and>
    f' = tm_save (modifyTask i (claimed now a) g) f"
  using assms by (auto simp: claim_by_id_def split: option.splits if_splits)

text \<open>
  A claim that succeeds: the task was neither finished, cancelled nor blocked, all its
  dependencies were completed, no other live agent held it, and afterwards the stored task is
  claimed by the caller with a heartbeat that keeps it from being an orphan for five minutes.
\<close>

theorem claim_success:
  assumes "task_claim now p f = (f', Claim_ok t r)"
  shows "\<exists>t0. findTask (tm_load f) (t_id t) = Some t0 \<and>
    t_status t0 \<notin> {COMPLETED, CANCELLED, BLOCKED} \<and>
    (\<forall>d \<in> set (t_dependencies t0). \<exists>u. findTask (tm_load f) d = Some u \<and> t_status u = COMPLETED) \<and>
    (t_status t0 \<in> {CLAIMED, RUNNING} \<and> truthy (t_owner t0) \<longrightarrow>
       t_owner t0 = Some (kp_agent p) \<or> isOrphaned now t0) \<and>
    findTask (tm_load f') (t_id t) = Some t \<and>
    t_status t = CLAIMED \<and> t_owner t = Some (kp_agent p) \<and>
    (\<forall>later \<le> now + STALE_THRESHOLD_MS. \<not> isOrphaned later t)"
proof -
  obtain i where "claim_by_id now (kp_agent p) i (tm_load f) f = (f', Claim_ok t r)"
    using assms by (cases rule: task_claim_cases [of now p f]) auto
  from claim_by_id_ok [OF this] obtain t0 where t0: "findTask (tm_load f) i = Some t0"
    "t = claimed now (kp_agent p) t0" "t_status t0 \<notin> {COMPLETED, CANCELLED, BLOCKED}"
    "depsSatisfied (tm_load f) t0"
    "t_status t0 \<in> {CLAIMED, RUNNING} \<and> truthy (t_owner t0) \<longrightarrow>
       t_owner t0 = Some (kp_agent p) \<or> isOrphaned now t0"
    "f' = tm_save (modifyTask i (claimed now (kp_agent p)) (tm_load f)) f" by blast
  moreover have "t_id t = i" using t0(1,2) by (simp add: findTask_SomeD)
  moreover have "findTask (tm_load f') i = Some t"
    using t0(1,2,6) by (simp add: findTask_modify_same)
  moreover have "\<forall>later \<le> now + STALE_THRESHOLD_MS. \<not> isOrphaned later t"
    by (simp add: t0(2) isOrphaned_def)
  ultimately show ?thesis by (simp add: depsSatisfied_iff)
qed

text \<open>
  Mutual exclusion: while an agent holds a claimed or running task and is alive (not
  orphaned), no claim by another agent, aimed at the task or automatic, changes that task.
\<close>

theorem claim_exclusion:
  assumes "findTask (tm_load f) i = Some t" and "t_status t \<in> {CLAIMED, RUNNING}"
    and "t_owner t = Some holder" and "holder \<noteq> []" and "holder \<noteq> kp_agent p"
    and "\<not> isOrphaned now t"
  shows "findTask (tm_load (fst (task_claim now p f))) i = Some t"
proof (cases rule: task_claim_cases [of now p f])
  case 1
  with assms show ?thesis by simp
next
  case (2 j)
  show ?thesis
  proof (cases "i = j")
    case True
    with 2 assms show ?thesis by (auto simp: claim_by_id_def)
  next
    case False
    with 2 assms(1) show ?thesis
      by (auto simp: claim_by_id_def findTask_modify_other split: option.split)
  qed
qed

lemma hd_sort_key_min:
  fixes k :: "'a \<Rightarrow> 'b::linorder"
  assumes "sort_key k xs = q # qs"
  shows "q \<in> set xs \<and> (\<forall>x \<in> set xs. k q \<le> k x)"
proof -
  have "sorted (map k (q # qs))" using assms by (metis sorted_sort_key)
  moreover have "set xs = insert q (set qs)" using assms by (metis list.simps(15) set_sort)
  ultimately show ?thesis by auto
qed

lemma findTask_in_wf: "tm_wf g \<Longrightarrow> t \<in> set (tasks g) \<Longrightarrow> findTask g (t_id t) = Some t"
  by (simp add: findTask_def tm_wf_def find_eq_Some_key)

text \<open>
  Automatic selection: a successful claim without a task identifier takes a pending task of
  the highest priority and, among those, one created first.
\<close>

theorem auto_claim_takes_best:
  assumes "tm_wf (tm_load f)" and "\<not> truthy (kp_task_id p)"
    and "task_claim now p f = (f', Claim_ok t r)"
  shows "\<exists>q \<in> set (tasks (tm_load f)). t = claimed now (kp_agent p) q \<and> t_status q = PENDING \<and>
    (\<forall>u \<in> set (tasks (tm_load f)). t_status u = PENDING \<longrightarrow> claim_key q \<le> claim_key u)"
proof -
  let ?g = "tm_load f"
  obtain q qs where q: "pending_queue ?g = q # qs"
    and c: "claim_by_id now (kp_agent p) (t_id q) ?g f = (f', Claim_ok t r)"
    using assms(2,3) by (auto simp: task_claim_def or_null_def Let_def split: list.splits)
  have best: "q \<in> set (tasks ?g)" "t_status q = PENDING"
    "\<forall>u \<in> set (tasks ?g). t_status u = PENDING \<longrightarrow> claim_key q \<le> claim_key u"
    using hd_sort_key_min [OF q [unfolded pending_queue_def]] by auto
  then have "t = claimed now (kp_agent p) q"
    using claim_by_id_ok [OF c] findTask_in_wf [OF assms(1)] by auto
  with best show ?thesis by blast
qed

section \<open>Completion and blocked tasks\<close>

lemma findTask_modify_const:
  assumes "findTask g i = Some x" "t_id t' = i"
  shows "findTask (modifyTask i (\<lambda>_. t') g) j = (if j = i then Some t' else findTask g j)"
  using assms unfolding findTask_def modifyTask_def
  by (auto simp: find_map_first_same find_map_first_other)

lemma apply_frame [simp]:
  "t_id (fst (apply_heartbeat now p t)) = t_id t"
  "t_dependencies (fst (apply_heartbeat now p t)) = t_dependencies t"
  "t_id (fst (apply_evidence parse now p t)) = t_id t"
  "t_status (fst (apply_evidence parse now p t)) = t_status t"
  "t_id (fst (apply_cost p t)) = t_id t"
  "t_status (fst (apply_cost p t)) = t_status t"
  by (simp_all add: apply_heartbeat_def apply_evidence_def apply_cost_def touch_def Let_def
      split: option.split)

lemma updated_complete:
  assumes "findTask g (up_task_id p) = Some t" "up_status p = Some COMPLETED" "depsSatisfied g t"
  shows "\<exists>t'. updated parse now p g t = Inr t' \<and> t_status t' = COMPLETED \<and> t_id t' = t_id t"
proof -
  let ?h = "fst (apply_heartbeat now p t)"
  have "depsSatisfied (modifyTask (up_task_id p) (\<lambda>_. ?h) g) ?h = depsSatisfied g ?h"
    using assms(1)
    by (intro depsSatisfied_modify) (auto simp: apply_heartbeat_completed dest: findTask_SomeD)
  also have "\<dots>" using assms(3) by (simp add: depsSatisfied_def)
  finally show ?thesis using assms(2) by (auto simp: updated_def apply_status_def Let_def)
qed

lemma task_update_tasks:
  assumes "findTask (tm_load f) (up_task_id p) = Some t"
    and "updated parse now p (tm_load f) t = Inr t'" and "t_id t' = up_task_id p"
  shows "tm_load (fst (task_update parse now p f)) =
    (let g = modifyTask (up_task_id p) (\<lambda>_. t') (tm_load f) in
     modifyTask (up_task_id p) (touch now)
       (g\<lparr>tasks := update_loops now t' (counter g) (tasks g)\<rparr>))"
proof -
  have "t_id t = up_task_id p" using assms(1) by (simp add: findTask_SomeD)
  then have "modifyTask (up_task_id p) (\<lambda>_. t')
      (modifyTask (up_task_id p) (\<lambda>_. fst (apply_heartbeat now p t)) (tm_load f)) =
      modifyTask (up_task_id p) (\<lambda>_. t') (tm_load f)"
    by (simp add: modifyTask_twice comp_def)
  with task_update_state [OF assms(1), of parse now] assms(2) show ?thesis by (simp add: Let_def)
qed

lemma findTask_loops_completed:
  assumes "t_status t' = COMPLETED"
  shows "findTask (g\<lparr>tasks := update_loops now t' c (tasks g)\<rparr>) j =
    map_option (\<lambda>t. if t_status t = BLOCKED \<and> t_id t' \<in> set (t_dependencies t) \<and> depsSatisfied g t
                    then touch now (t\<lparr>t_status := PENDING\<rparr>) else t) (findTask g j)"
proof -
  have "depsSatisfied \<lparr>tasks = tasks g, counter = c\<rparr> t = depsSatisfied g t" for c t
    by (simp add: depsSatisfied_def findTask_def)
  then show ?thesis
    using assms unfolding update_loops_def findTask_def
    by (simp add: unblock_loop_ref Let_def find_map_same_key)
qed

text \<open>
  C24: Completion unblocks: when a task whose dependencies are done is completed, every other
  blocked task that waited for it, and for nothing else that is unfinished, is pending afterwards.
\<close>

theorem completion_unblocks:
  assumes "findTask (tm_load f) (up_task_id p) = Some t" and "up_status p = Some COMPLETED"
    and "depsSatisfied (tm_load f) t"
    and "findTask (tm_load f) j = Some u" and "j \<noteq> up_task_id p" and "t_status u = BLOCKED"
    and "up_task_id p \<in> set (t_dependencies u)"
    and "\<forall>d \<in> set (t_dependencies u) - {up_task_id p}.
           \<exists>v. findTask (tm_load f) d = Some v \<and> t_status v = COMPLETED"
  shows "findTask (tm_load (fst (task_update parse now p f))) j =
    Some (touch now (u\<lparr>t_status := PENDING\<rparr>))"
proof -
  let ?i = "up_task_id p"
  obtain t' where t': "updated parse now p (tm_load f) t = Inr t'" "t_status t' = COMPLETED"
    "t_id t' = ?i"
    using updated_complete [OF assms(1-3), of parse now] findTask_SomeD [OF assms(1)] by auto
  let ?g = "modifyTask ?i (\<lambda>_. t') (tm_load f)"
  have find: "findTask ?g k = (if k = ?i then Some t' else findTask (tm_load f) k)" for k
    using assms(1) t'(3) by (rule findTask_modify_const)
  then have "depsSatisfied ?g u"
    unfolding depsSatisfied_iff using assms(8) t'(2) by auto
  then show ?thesis
    unfolding task_update_tasks [OF assms(1) t'(1,3)] Let_def
    using assms(4-7) t' find
    by (simp add: findTask_modify_other findTask_loops_completed)
qed

text \<open>The JSON field \<open>ok\<close> of a response.\<close>

fun resp_ok :: "tm_response \<Rightarrow> bool" where
  "resp_ok (Resp_create r) = True"
| "resp_ok (Resp_claim r) = (case r of Claim_ok _ _ \<Rightarrow> True | _ \<Rightarrow> False)"
| "resp_ok (Resp_update r) = (case r of Update_ok _ \<Rightarrow> True | _ \<Rightarrow> False)"
| "resp_ok (Resp_reclaim r) =
     (case r of Reclaim_scan _ \<Rightarrow> True | Reclaim_ok _ _ _ \<Rightarrow> True | Reclaim_reset _ \<Rightarrow> True
      | Reclaim_idle _ \<Rightarrow> True | _ \<Rightarrow> False)"
| "resp_ok (Resp_block r) = (case r of Block_report _ \<Rightarrow> True | _ \<Rightarrow> False)"

lemma task_update_error:
  "snd (task_update parse now p f) = e \<Longrightarrow> (\<And>r. e \<noteq> Update_ok r) \<Longrightarrow>
   fst (task_update parse now p f) = f"
  by (auto simp: task_update_def Let_def split: option.splits sum.splits prod.splits)

lemma claim_by_id_error:
  "fst (claim_by_id now a i g f) = f \<or>
   (\<exists>ds. snd (claim_by_id now a i g f) = Claim_unsatisfied i ds \<and> ds \<noteq> []) \<or>
   (\<exists>t r. snd (claim_by_id now a i g f) = Claim_ok t r)"
  by (auto simp: claim_by_id_def depsBlocked_empty dest: findTask_SomeD split: option.splits)

text \<open>
  C25: A call that answers \<open>ok: false\<close> writes nothing, so a rejected update does not even store
  the heartbeat it carried; the one exception is a claim whose dependencies turn out to be
  unfinished, which stores that the task is blocked.
\<close>

theorem rejected_call_writes_nothing:
  assumes "\<not> resp_ok (snd (tm_exec parse c f))"
  shows "fst (tm_exec parse c f) = f \<or>
    (\<exists>i ds. snd (tm_exec parse c f) = Resp_claim (Claim_unsatisfied i ds) \<and> ds \<noteq> [])"
proof (cases c)
  case (Call_create now p)
  with assms show ?thesis by simp
next
  case (Call_claim now p)
  show ?thesis
  proof (cases rule: task_claim_cases [of now p f])
    case 1
    with Call_claim show ?thesis by simp
  next
    case (2 i)
    with Call_claim assms claim_by_id_error [of now "kp_agent p" i "tm_load f" f] show ?thesis
      by (auto split: claim_response.splits)
  qed
next
  case (Call_update now p)
  with assms show ?thesis
    by (auto split: update_response.splits intro: task_update_error)
next
  case (Call_reclaim now p)
  with assms show ?thesis
    by (auto simp: task_reclaim_def Let_def split: option.splits list.splits if_splits)
next
  case (Call_block now p)
  with assms show ?thesis
    by (auto simp: task_block_def Let_def split: option.splits sum.splits if_splits)
qed

section \<open>Recovery from dead agents\<close>

lemma checkOrphan_default: "checkOrphan now 300000 t = isOrphaned now t"
proof -
  have "(of_int (now - x) > (300000 :: rat)) = (now - x > 300000)" for x
    by (metis of_int_less_iff of_int_numeral)
  then show ?thesis
    by (auto simp: checkOrphan_def isOrphaned_def STALE_THRESHOLD_MS_def split: option.splits)
qed

text \<open>
  The two orphan tests agree: \<open>checkOrphan\<close> of \<open>task_reclaim\<close> with the default threshold
  decides exactly as \<open>isOrphaned\<close> of \<open>task_claim\<close>.
\<close>

theorem orphan_tests_agree:
  "checkOrphan now (num_or None 5 * 60 * 1000) t = isOrphaned now t"
  using checkOrphan_default by simp

definition reset_params :: reclaim_params where
  "reset_params = \<lparr>rp_task_id = None, rp_agent = None, rp_scan_only = False,
     rp_reset_all = True, rp_stale_threshold_min = None\<rparr>"

lemma reset_tasks:
  "tm_load (fst (task_reclaim now reset_params f)) =
    (tm_load f)\<lparr>tasks := map (\<lambda>t. if isOrphaned now t then released now t else t) (tasks (tm_load f))\<rparr>"
  by (simp add: task_reclaim_def reset_params_def Let_def checkOrphan_default)

lemma released_simps [simp]:
  "t_id (released now t) = t_id t" "t_status (released now t) = PENDING"
  "t_owner (released now t) = None" "t_dependencies (released now t) = t_dependencies t"
  by (simp_all add: released_def touch_def)

lemma findTask_reset:
  "findTask (tm_load (fst (task_reclaim now reset_params f))) i =
     map_option (\<lambda>t. if isOrphaned now t then released now t else t) (findTask (tm_load f) i)"
  unfolding reset_tasks findTask_def by (simp add: find_map_same_key)

lemma isOrphaned_active: "isOrphaned now t \<Longrightarrow> t_status t \<in> {CLAIMED, RUNNING}"
  by (auto simp: isOrphaned_def split: if_splits)

lemma depsSatisfied_reset:
  "depsSatisfied g t \<Longrightarrow> g = tm_load f \<Longrightarrow> t_dependencies t' = t_dependencies t \<Longrightarrow>
   depsSatisfied (tm_load (fst (task_reclaim now reset_params f))) t'"
  unfolding depsSatisfied_iff findTask_reset using isOrphaned_active [of now] by fastforce

text \<open>
  Recovery: after resetting all orphans, a task whose agent died and whose dependencies are
  completed can be claimed by any agent at once, and the claim succeeds.
\<close>

theorem orphan_recovery:
  assumes "findTask (tm_load f) i = Some t" and "isOrphaned now t"
    and "depsSatisfied (tm_load f) t" and "i \<noteq> []"
  shows "\<exists>f' t'. task_claim now' \<lparr>kp_task_id = Some i, kp_agent = a\<rparr>
      (fst (task_reclaim now reset_params f)) = (f', Claim_ok t' False) \<and>
    t_id t' = i \<and> t_owner t' = Some a \<and> t_status t' = CLAIMED"
proof -
  let ?f = "fst (task_reclaim now reset_params f)"
  have "findTask (tm_load ?f) i = Some (released now t)"
    using assms(1,2) by (simp add: findTask_reset)
  moreover have "depsSatisfied (tm_load ?f) (released now t)"
    using assms(3) by (rule depsSatisfied_reset) simp_all
  moreover have "t_id t = i" using assms(1) by (simp add: findTask_SomeD)
  ultimately show ?thesis
    using assms(4) by (simp add: task_claim_def claim_by_id_def or_null_def isOrphaned_def Let_def)
qed

section \<open>Adding dependencies\<close>

lemma add_deps_Inr:
  assumes "add_deps g deps ds = Inr deps'"
  shows "set deps' = set deps \<union> set ds" "distinct deps \<Longrightarrow> distinct deps'"
    "\<forall>d \<in> set ds - set deps. findTask g d \<noteq> None"
proof -
  have "set deps' = set deps \<union> set ds \<and> (distinct deps \<longrightarrow> distinct deps') \<and>
      (\<forall>d \<in> set ds - set deps. findTask g d \<noteq> None)"
    using assms
    by (induction g deps ds rule: add_deps.induct) (auto split: if_splits option.splits)
  then show "set deps' = set deps \<union> set ds" "distinct deps \<Longrightarrow> distinct deps'"
    "\<forall>d \<in> set ds - set deps. findTask g d \<noteq> None" by auto
qed

lemma add_deps_total:
  assumes "\<forall>d \<in> set ds. findTask g d \<noteq> None"
  shows "\<exists>deps'. add_deps g deps ds = Inr deps'"
  using assms by (induction g deps ds rule: add_deps.induct) (auto split: option.split)

lemma task_block_find:
  assumes "findTask (tm_load f) (bp_task_id p) = Some t" "\<not> bp_check_only p"
    and "bp_add_dependencies p = Some ds" "ds \<noteq> []" "add_deps (tm_load f) (t_dependencies t) ds = Inr deps"
  shows "\<exists>t'. findTask (tm_load (fst (task_block now p f))) (bp_task_id p) = Some t' \<and>
    t_dependencies t' = deps \<and> t_status t' \<in> {t_status t, BLOCKED}"
proof -
  have id: "t_id t = bp_task_id p" using assms(1) by (simp add: findTask_SomeD)
  let ?g = "modifyTask (bp_task_id p) (\<lambda>_. t\<lparr>t_dependencies := deps\<rparr>) (tm_load f)"
  have g: "findTask ?g (bp_task_id p) = Some (t\<lparr>t_dependencies := deps\<rparr>)"
    using id by (simp add: findTask_modify_const [OF assms(1)])
  show ?thesis
    using assms id
    by (simp add: task_block_def Let_def findTask_modify_const [OF g])
qed

text \<open>
  No cycle check: adding a task to its own dependencies is accepted and leaves it in a
  permanent deadlock (see C3).
\<close>

theorem self_dependency_deadlocks:
  assumes "findTask (tm_load f) i = Some t" and "t_status t \<noteq> COMPLETED"
  shows "deadlocked {i} (tm_load (fst (task_block now
    \<lparr>bp_task_id = i, bp_add_dependencies = Some [i], bp_check_only = False\<rparr> f)))"
proof -
  obtain deps where deps: "add_deps (tm_load f) (t_dependencies t) [i] = Inr deps"
    using add_deps_total [of "[i]"] assms(1) by auto
  let ?p = "\<lparr>bp_task_id = i, bp_add_dependencies = Some [i], bp_check_only = False\<rparr>"
  obtain t' where "findTask (tm_load (fst (task_block now ?p f))) i = Some t'"
    "t_dependencies t' = deps" "t_status t' \<in> {t_status t, BLOCKED}"
    using task_block_find [of f ?p t "[i]" deps now] assms(1) deps by auto
  with assms(2) add_deps_Inr(1) [OF deps] show ?thesis by (auto simp: deadlocked_def)
qed

definition blocked_demo :: "tm_call list" where
  "blocked_demo =
    [Call_create 0 \<lparr>cp_hypothesis = ''a'', cp_priority = HIGH, cp_target = None,
       cp_parent_task = None, cp_dependencies = None, cp_owner = None, cp_estimated_cost = None\<rparr>,
     Call_create 1 \<lparr>cp_hypothesis = ''b'', cp_priority = HIGH, cp_target = None,
       cp_parent_task = None, cp_dependencies = Some [''T-001''], cp_owner = None,
       cp_estimated_cost = None\<rparr>,
     Call_update 2 \<lparr>up_task_id = ''T-001'', up_status = Some FAILED, up_evidence = None,
       up_evidence_data = None, up_heartbeat = False, up_actual_cost = None,
       up_failure_reason = None\<rparr>]"

definition retry_demo :: "tm_call list" where
  "retry_demo =
    [Call_claim 3 \<lparr>kp_task_id = Some ''T-001'', kp_agent = ''validator''\<rparr>,
     Call_update 4 \<lparr>up_task_id = ''T-001'', up_status = Some COMPLETED, up_evidence = None,
       up_evidence_data = None, up_heartbeat = False, up_actual_cost = None,
       up_failure_reason = None\<rparr>]"

definition check_demo :: block_params where
  "check_demo = \<lparr>bp_task_id = ''T-002'', bp_add_dependencies = None, bp_check_only = True\<rparr>"

text \<open>
  The label \<open>permanently_blocked\<close> is not permanent: a task whose dependency failed is
  reported as permanently blocked, yet another agent may claim the failed dependency and complete
  it, after which the task is pending.
\<close>

theorem permanently_blocked_not_permanent:
  "(case snd (task_block 3 check_demo (run_calls (tm_exec (\<lambda>_. None)) blocked_demo Unreadable)) of
      Block_report r \<Rightarrow> br_permanently_blocked r | _ \<Rightarrow> False) \<and>
   map_option t_status (findTask (tm_load (run_calls (tm_exec (\<lambda>_. None))
      (blocked_demo @ retry_demo) Unreadable)) ''T-002'') = Some PENDING"
  by code_simp

section \<open>The read-only views\<close>

definition list_match :: "list_params \<Rightarrow> Task \<Rightarrow> bool" where
  "list_match p t \<longleftrightarrow>
     (lp_status p = None \<or> lp_status p = Some (t_status t)) \<and>
     (truthy (lp_owner p) \<longrightarrow> t_owner t = lp_owner p) \<and>
     (lp_priority p = None \<or> lp_priority p = Some (t_priority t)) \<and>
     (truthy (lp_target p) \<longrightarrow> (\<exists>u s. lp_target p = Some s \<and> t_target t = Some u \<and> sublist s u))"

lemma task_list_eq:
  "task_list p f =
     (slice0 (num_or (lp_limit p) 50) (sort_key claim_key (filter (list_match p) (tasks (tm_load f)))),
      length (tasks (tm_load f)))"
proof -
  have "filter_opt (or_null (lp_target p))
      (\<lambda>s t. case or_null (t_target t) of None \<Rightarrow> False | Some u \<Rightarrow> sublist s u)
      (filter_opt (lp_priority p) (\<lambda>s t. t_priority t = s)
        (filter_opt (or_null (lp_owner p)) (\<lambda>s t. t_owner t = Some s)
          (filter_opt (lp_status p) (\<lambda>s t. t_status t = s) ts))) = filter (list_match p) ts" for ts
    unfolding filter_opt_def list_match_def or_null_def
    by (cases "lp_target p"; cases "lp_priority p"; cases "lp_owner p"; cases "lp_status p")
      (auto simp: intro!: filter_cong split: option.split)
  then show ?thesis by (simp add: task_list_def Let_def)
qed

lemma take_sort_key_least:
  fixes k :: "'a \<Rightarrow> 'b::linorder"
  assumes "x \<in> set (take n (sort_key k xs))" "y \<in> set (drop n (sort_key k xs))"
  shows "k x \<le> k y"
proof -
  have "sorted (map k (take n (sort_key k xs) @ drop n (sort_key k xs)))" by simp
  then show ?thesis using assms unfolding map_append sorted_append by auto
qed

text \<open>
  \<open>task_list\<close> with a positive limit returns tasks that match every given filter, ordered by
  priority and age, as many as the limit and the matches allow, and a matching task is left out
  only if it does not rank before any task returned.
\<close>

theorem task_list_spec:
  assumes "num_or (lp_limit p) 50 = int n" and "0 < n"
  shows "let (res, total) = task_list p f; hits = filter (list_match p) (tasks (tm_load f)) in
    sorted (map claim_key res) \<and> mset res \<subseteq># mset hits \<and>
    length res = min n (length hits) \<and> total = length (tasks (tm_load f)) \<and>
    (\<forall>t \<in> set res. \<forall>u \<in># mset hits - mset res. claim_key t \<le> claim_key u)"
proof -
  let ?hits = "filter (list_match p) (tasks (tm_load f))"
  let ?s = "sort_key claim_key ?hits"
  have res: "task_list p f = (take n ?s, length (tasks (tm_load f)))"
    using assms by (simp add: task_list_eq slice0_def)
  have split: "mset ?hits = mset (take n ?s) + mset (drop n ?s)"
    by (metis append_take_drop_id mset_append mset_sort)
  then have rest: "mset ?hits - mset (take n ?s) = mset (drop n ?s)" by simp
  have "sorted (map claim_key (take n ?s))"
    by (simp add: take_map [symmetric] sorted_wrt_take)
  moreover have "mset (take n ?s) \<subseteq># mset ?hits"
    unfolding split by (rule mset_subset_eq_add_left)
  moreover have "\<forall>t \<in> set (take n ?s). \<forall>u \<in># mset ?hits - mset (take n ?s). claim_key t \<le> claim_key u"
    unfolding rest using take_sort_key_least [of _ n claim_key ?hits] by auto
  ultimately show ?thesis by (simp add: res Let_def)
qed

lemma count_statuses_eq:
  "count_statuses m ts s = m s + length (filter (\<lambda>t. t_status t = s) ts)"
  by (induction ts arbitrary: m) auto

lemma status_partition:
  "length (filter (\<lambda>t. t_status t = PENDING) ts) + length (filter (\<lambda>t. t_status t = CLAIMED) ts) +
   length (filter (\<lambda>t. t_status t = RUNNING) ts) + length (filter (\<lambda>t. t_status t = BLOCKED) ts) +
   length (filter (\<lambda>t. t_status t = COMPLETED) ts) + length (filter (\<lambda>t. t_status t = FAILED) ts) +
   length (filter (\<lambda>t. t_status t = CANCELLED) ts) = length ts"
proof (induction ts)
  case (Cons t ts)
  then show ?case by (cases "t_status t") simp_all
qed simp

text \<open>
  The dashboard is consistent: on a non-empty graph it is shown, each counter is the number
  of tasks with that status and the seven counters add up to the total; on an empty graph the
  placeholder is shown.
\<close>

theorem dashboard_counts:
  "case tasks_command now b f of
     None \<Rightarrow> tasks (tm_load f) = []
   | Some v \<Rightarrow>
       tv_total v = length (tasks (tm_load f)) \<and> tasks (tm_load f) \<noteq> [] \<and>
       (\<forall>s. tv_counts v s = length (filter (\<lambda>t. t_status t = s) (tasks (tm_load f)))) \<and>
       tv_counts v PENDING + tv_counts v CLAIMED + tv_counts v RUNNING + tv_counts v BLOCKED +
       tv_counts v COMPLETED + tv_counts v FAILED + tv_counts v CANCELLED = tv_total v"
  using status_partition [of "tasks (tm_load f)"] by (simp add: tasks_command_def Let_def count_statuses_eq)

section \<open>Witnesses\<close>

text \<open>
  A small graph at which the hypotheses of the properties hold: T-001 is completed, T-002 depends
  on it and is claimed by recon since time 0, T-003 waits for T-002, T-004 is pending.
\<close>

definition sample_task :: "string \<Rightarrow> TaskStatus \<Rightarrow> string option \<Rightarrow> string list \<Rightarrow> Task" where
  "sample_task i s own deps =
     \<lparr>t_id = i, t_parent_task = None, t_owner = own, t_status = s, t_priority = HIGH,
      t_target = None, t_hypothesis = ''h'', t_dependencies = deps, t_evidence = [],
      t_created_at = 0, t_updated_at = 0,
      t_claimed_at = (if s = CLAIMED then Some 0 else None),
      t_heartbeat_at = (if s = CLAIMED then Some 0 else None),
      t_estimated_cost = 0, t_actual_cost = 0, t_failure_reason = None\<rparr>"

definition sample_file :: tm_file where
  "sample_file = Parsed (Some
     [sample_task ''T-001'' COMPLETED None [],
      sample_task ''T-002'' CLAIMED (Some ''recon'') [''T-001''],
      sample_task ''T-003'' BLOCKED None [''T-002''],
      sample_task ''T-004'' PENDING None []]) (Some 4)"

definition complete_params :: "string \<Rightarrow> update_params" where
  "complete_params i = \<lparr>up_task_id = i, up_status = Some COMPLETED, up_evidence = None,
     up_evidence_data = None, up_heartbeat = False, up_actual_cost = None, up_failure_reason = None\<rparr>"

lemma sample_finds:
  "findTask (tm_load sample_file) ''T-001'' = Some (sample_task ''T-001'' COMPLETED None [])"
  "findTask (tm_load sample_file) ''T-002'' =
     Some (sample_task ''T-002'' CLAIMED (Some ''recon'') [''T-001''])"
  "findTask (tm_load sample_file) ''T-003'' = Some (sample_task ''T-003'' BLOCKED None [''T-002''])"
  by (simp_all add: findTask_def sample_file_def sample_task_def)

lemma sample_wf: "tm_wf (tm_load sample_file)"
proof -
  have "task_id_of 1 = ''T-001''" "task_id_of 2 = ''T-002''" "task_id_of 3 = ''T-003''"
    "task_id_of 4 = ''T-004''" by code_simp+
  moreover have "{1..4} = {1, 2, 3, 4 :: nat}" by auto
  ultimately show ?thesis by (simp add: tm_wf_def sample_file_def sample_task_def)
qed

lemma sample_satisfied:
  "depsSatisfied (tm_load sample_file) (sample_task ''T-002'' CLAIMED (Some ''recon'') [''T-001''])"
  using sample_finds by (simp add: depsSatisfied_iff) (simp add: sample_task_def)

theorem completion_gate_witness:
  "\<exists>u. findTask (tm_load sample_file) ''T-001'' = Some u \<and> t_status u = COMPLETED"
proof -
  let ?t = "sample_task ''T-002'' CLAIMED (Some ''recon'') [''T-001'']"
  have "findTask (tm_load (fst (tm_exec (\<lambda>_. None) (Call_update 10 (complete_params ''T-002''))
      sample_file))) ''T-002'' = Some (touch 10 (?t\<lparr>t_status := COMPLETED\<rparr>))"
    by code_simp
  from completion_gate [OF sample_finds(2) _ this] show ?thesis
    by (simp add: sample_task_def touch_def)
qed

theorem deadlock_is_permanent_witness:
  "deadlocked {''T-002''} (tm_load (run_calls (tm_exec (\<lambda>_. None))
     [Call_update 9 (complete_params ''T-002'')]
     (fst (task_block 5 \<lparr>bp_task_id = ''T-002'', bp_add_dependencies = Some [''T-002''],
        bp_check_only = False\<rparr> sample_file))))"
proof -
  let ?p = "\<lparr>bp_task_id = ''T-002'', bp_add_dependencies = Some [''T-002''], bp_check_only = False\<rparr>"
  let ?f = "fst (task_block 5 ?p sample_file)"
  have wf: "tm_wf (tm_load ?f)" by (rule graph_evol_wf [OF graph_evol_block sample_wf])
  obtain t' where "findTask (tm_load ?f) ''T-002'' = Some t'" "t_status t' \<noteq> COMPLETED"
    "''T-002'' \<in> set (t_dependencies t')"
    using task_block_find [of sample_file ?p _ "[''T-002'']" "[''T-001'', ''T-002'']" 5]
      sample_finds by (auto simp: sample_task_def)
  then have "deadlocked {''T-002''} (tm_load ?f)" by (auto simp: deadlocked_def)
  from deadlock_is_permanent [OF wf this] show ?thesis .
qed

theorem history_append_only_witness:
  "\<exists>t'. findTask (tm_load (run_calls (tm_exec (\<lambda>_. None))
      [Call_update 9 (complete_params ''T-002''), Call_create 10 \<lparr>cp_hypothesis = ''x'',
         cp_priority = LOW, cp_target = None, cp_parent_task = None, cp_dependencies = None,
         cp_owner = None, cp_estimated_cost = None\<rparr>] sample_file)) ''T-002'' = Some t' \<and>
    prefix [''T-001''] (t_dependencies t') \<and> t_hypothesis t' = ''h''"
  using history_append_only [OF sample_wf sample_finds(2), of "\<lambda>_. None"
      "[Call_update 9 (complete_params ''T-002''), Call_create 10 \<lparr>cp_hypothesis = ''x'',
         cp_priority = LOW, cp_target = None, cp_parent_task = None, cp_dependencies = None,
         cp_owner = None, cp_estimated_cost = None\<rparr>]"]
  by (auto simp: sample_task_def)

theorem claim_success_witness:
  "\<exists>f' t. task_claim 7 \<lparr>kp_task_id = None, kp_agent = ''api''\<rparr> sample_file = (f', Claim_ok t False) \<and>
     findTask (tm_load f') ''T-004'' = Some t \<and> t_owner t = Some ''api''"
proof -
  let ?t = "claimed 7 ''api'' (sample_task ''T-004'' PENDING None [])"
  have "task_claim 7 \<lparr>kp_task_id = None, kp_agent = ''api''\<rparr> sample_file =
     (fst (task_claim 7 \<lparr>kp_task_id = None, kp_agent = ''api''\<rparr> sample_file), Claim_ok ?t False)"
    by code_simp
  from this claim_success [OF this] show ?thesis
    by (intro exI [of _ "fst (task_claim 7 \<lparr>kp_task_id = None, kp_agent = ''api''\<rparr> sample_file)"]
        exI [of _ ?t]) (auto simp: sample_task_def)
qed

theorem claim_exclusion_witness:
  "findTask (tm_load (fst (task_claim 1000 \<lparr>kp_task_id = Some ''T-002'', kp_agent = ''api''\<rparr>
     sample_file))) ''T-002'' = Some (sample_task ''T-002'' CLAIMED (Some ''recon'') [''T-001''])"
  by (rule claim_exclusion [OF sample_finds(2), of "''recon''"])
    (simp_all add: sample_task_def isOrphaned_def STALE_THRESHOLD_MS_def)

theorem auto_claim_takes_best_witness:
  "\<exists>q \<in> set (tasks (tm_load sample_file)).
     claimed 7 ''api'' (sample_task ''T-004'' PENDING None []) = claimed 7 ''api'' q \<and>
     t_status q = PENDING"
proof -
  let ?t = "claimed 7 ''api'' (sample_task ''T-004'' PENDING None [])"
  let ?p = "\<lparr>kp_task_id = None, kp_agent = ''api''\<rparr>"
  have "task_claim 7 ?p sample_file = (fst (task_claim 7 ?p sample_file), Claim_ok ?t False)"
    by code_simp
  from auto_claim_takes_best [OF sample_wf _ this] show ?thesis by auto
qed

theorem completion_unblocks_witness:
  "findTask (tm_load (fst (task_update (\<lambda>_. None) 9 (complete_params ''T-002'') sample_file)))
     ''T-003'' = Some (touch 9 ((sample_task ''T-003'' BLOCKED None [''T-002''])\<lparr>t_status := PENDING\<rparr>))"
  by (rule completion_unblocks [OF _ _ sample_satisfied sample_finds(3)])
    (simp_all add: complete_params_def sample_finds, simp_all add: sample_task_def)

theorem rejected_call_writes_nothing_witness:
  "\<not> resp_ok (snd (tm_exec (\<lambda>_. None) (Call_update 9 (complete_params ''T-003'')) sample_file)) \<and>
   fst (tm_exec (\<lambda>_. None) (Call_update 9 (complete_params ''T-003'')) sample_file) = sample_file"
proof -
  have "\<not> resp_ok (snd (tm_exec (\<lambda>_. None) (Call_update 9 (complete_params ''T-003'')) sample_file))"
    by code_simp
  from this rejected_call_writes_nothing [OF this] show ?thesis by simp
qed

theorem orphan_recovery_witness:
  "\<exists>f' t'. task_claim 400002 \<lparr>kp_task_id = Some ''T-002'', kp_agent = ''api''\<rparr>
      (fst (task_reclaim 400001 reset_params sample_file)) = (f', Claim_ok t' False) \<and>
    t_id t' = ''T-002'' \<and> t_owner t' = Some ''api'' \<and> t_status t' = CLAIMED"
  by (rule orphan_recovery [OF sample_finds(2) _ sample_satisfied])
    (simp_all add: sample_task_def isOrphaned_def STALE_THRESHOLD_MS_def)

theorem self_dependency_deadlocks_witness:
  "deadlocked {''T-003''} (tm_load (fst (task_block 9
    \<lparr>bp_task_id = ''T-003'', bp_add_dependencies = Some [''T-003''], bp_check_only = False\<rparr>
    sample_file)))"
  by (rule self_dependency_deadlocks [OF sample_finds(3)]) (simp add: sample_task_def)

theorem task_list_spec_witness:
  "length (fst (task_list \<lparr>lp_status = None, lp_owner = None, lp_priority = Some HIGH,
     lp_target = None, lp_limit = Some 3\<rparr> sample_file)) = 3"
  using task_list_spec [of "\<lparr>lp_status = None, lp_owner = None, lp_priority = Some HIGH,
     lp_target = None, lp_limit = Some 3\<rparr>" 3 sample_file]
  by (simp add: case_prod_beta Let_def list_match_def sample_file_def sample_task_def)

end
