(* ===== verification/JSString.thy ===== *)
theory JSString
  imports JSLib
begin

text \<open>
  Strings as the sources use them: white space and case, searching and cutting, splitting and
  joining, \<open>parseInt\<close>, and the few character classes of the regular expressions. Searching
  returns an option where JavaScript returns -1.
\<close>

section \<open>Characters\<close>

definition char_code :: "char \<Rightarrow> nat" where
  "char_code c = of_char c"

definition is_space :: "char \<Rightarrow> bool" where
  "is_space c = (char_code c \<in> {9, 10, 11, 12, 13, 32, 160})"

definition is_word :: "char \<Rightarrow> bool" where
  "is_word c = (is_digit c \<or> 65 \<le> char_code c \<and> char_code c \<le> 90 \<or> 97 \<le> char_code c \<and> char_code c \<le> 122 \<or> char_code c = 95)"

text \<open>A line terminator, which the dot of a regular expression does not match.\<close>

definition is_newline :: "char \<Rightarrow> bool" where
  "is_newline c = (char_code c = 10 \<or> char_code c = 13)"

definition to_lower :: "char \<Rightarrow> char" where
  "to_lower c =
     (if 65 \<le> char_code c \<and> char_code c \<le> 90 \<or> 192 \<le> char_code c \<and> char_code c \<le> 222 \<and> char_code c \<noteq> 215
      then char_of (char_code c + 32) else c)"

definition toLowerCase :: "string \<Rightarrow> string" where
  "toLowerCase s = map to_lower s"

lemma toLowerCase_id: "list_all (\<lambda>c. to_lower c = c) s \<Longrightarrow> toLowerCase s = s"
  by (induction s) (auto simp: toLowerCase_def)

lemma toLowerCase_append: "toLowerCase (s @ t) = toLowerCase s @ toLowerCase t"
  by (simp add: toLowerCase_def)

text \<open>The names every plain object inherits: reading such a key of an empty object gives a function,
  or for \<open>__proto__\<close> the object all others inherit from.\<close>

definition inherited :: "string \<Rightarrow> bool" where
  "inherited k =
     (k \<in> set [''constructor'', ''__proto__'', ''hasOwnProperty'', ''isPrototypeOf'', ''propertyIsEnumerable'',
               ''toLocaleString'', ''toString'', ''valueOf'', ''__defineGetter__'', ''__defineSetter__'',
               ''__lookupGetter__'', ''__lookupSetter__''])"

subsection \<open>Evaluation\<close>

text \<open>The character classes decided on the bits of a character, which is how the kernel evaluates them.\<close>

lemma char_code_bits [code]:
  "char_code (Char b0 b1 b2 b3 b4 b5 b6 b7) =
  of_bool b0 + 2 * of_bool b1 + 4 * of_bool b2 + 8 * of_bool b3 + 16 * of_bool b4 + 32 * of_bool b5 + 64 * of_bool b6 + 128 * of_bool b7"
  by (simp add: char_code_def of_char_Char)

fun upper_bits :: "char \<Rightarrow> bool" where
  "upper_bits (Char b0 b1 b2 b3 b4 b5 b6 b7) =
     (b6 \<and> \<not> b5 \<and>
      (if b7 then \<not> (b0 \<and> b1 \<and> b2 \<and> b3 \<and> b4) \<and> \<not> (b0 \<and> b1 \<and> b2 \<and> \<not> b3 \<and> b4)
       else (b0 \<or> b1 \<or> b2 \<or> b3 \<or> b4) \<and> \<not> (b4 \<and> b3 \<and> (b2 \<or> b1 \<and> b0))))"

fun set_bit5 :: "char \<Rightarrow> char" where
  "set_bit5 (Char b0 b1 b2 b3 b4 b5 b6 b7) = Char b0 b1 b2 b3 b4 True b6 b7"

fun digit_bits :: "char \<Rightarrow> bool" where
  "digit_bits (Char b0 b1 b2 b3 b4 b5 b6 b7) = (\<not> b7 \<and> \<not> b6 \<and> b5 \<and> b4 \<and> \<not> (b3 \<and> (b2 \<or> b1)))"

fun letter_bits :: "char \<Rightarrow> bool" where
  "letter_bits (Char b0 b1 b2 b3 b4 b5 b6 b7) = (\<not> b7 \<and> b6 \<and> (b0 \<or> b1 \<or> b2 \<or> b3 \<or> b4) \<and> \<not> (b4 \<and> b3 \<and> (b2 \<or> b1 \<and> b0)))"

lemma upper_bits_iff: "(65 \<le> char_code c \<and> char_code c \<le> 90 \<or> 192 \<le> char_code c \<and> char_code c \<le> 222 \<and> char_code c \<noteq> 215) = upper_bits c"
  by (cases c; simp only: char_code_bits upper_bits.simps) (auto simp: of_bool_def)

lemma set_bit5_of: "upper_bits c \<Longrightarrow> char_of (char_code c + 32) = set_bit5 c"
proof -
  assume u: "upper_bits c"
  have "char_code c + 32 = of_char (set_bit5 c)"
    using u by (cases c) (simp add: char_code_bits char_code_def [symmetric])
  then show ?thesis by simp
qed

lemma to_lower_code [code]: "to_lower c = (if upper_bits c then set_bit5 c else c)"
  by (simp add: to_lower_def upper_bits_iff set_bit5_of)

lemma is_digit_code [code]: "is_digit c = digit_bits c"
  by (cases c; simp only: is_digit_def char_code_def [symmetric] char_code_bits digit_bits.simps) (auto simp: of_bool_def)

lemma is_word_code [code]: "is_word c = (digit_bits c \<or> letter_bits c \<or> c = CHR ''_'')"
  by (cases c; simp only: is_word_def is_digit_code char_code_bits digit_bits.simps letter_bits.simps char.inject) (auto simp: of_bool_def)

lemma is_newline_code [code]: "is_newline c = (c = CHR 0x0A \<or> c = CHR 0x0D)"
  by (cases c; simp only: is_newline_def char_code_bits char.inject) (auto simp: of_bool_def)

lemma is_space_code [code]:
  "is_space c = (c = CHR '' '' \<or> c = CHR 0x0A \<or> c = CHR 0x0D \<or> c = CHR 0x09 \<or> c = CHR 0x0B \<or> c = CHR 0x0C \<or> c = CHR 0xA0)"
  by (cases c; simp only: is_space_def char_code_bits char.inject) (auto simp: of_bool_def)

section \<open>Trimming\<close>

definition trimStart :: "string \<Rightarrow> string" where
  "trimStart s = dropWhile is_space s"

definition trimEnd :: "string \<Rightarrow> string" where
  "trimEnd s = rev (dropWhile is_space (rev s))"

definition trim :: "string \<Rightarrow> string" where
  "trim s = trimEnd (trimStart s)"

definition tidy :: "string \<Rightarrow> bool" where
  "tidy s = (s = [] \<or> \<not> is_space (hd s) \<and> \<not> is_space (last s))"

lemma trimEnd_id: "s = [] \<or> \<not> is_space (last s) \<Longrightarrow> trimEnd s = s"
  by (cases s rule: rev_cases) (auto simp: trimEnd_def)

lemma trimStart_id: "s = [] \<or> \<not> is_space (hd s) \<Longrightarrow> trimStart s = s"
  by (cases s) (auto simp: trimStart_def)

lemma trim_id: "tidy s \<Longrightarrow> trim s = s"
  by (auto simp: tidy_def trim_def trimStart_id trimEnd_id)

lemma trimEnd_last: "trimEnd s = [] \<or> \<not> is_space (last (trimEnd s))"
  unfolding trimEnd_def
  by (metis hd_dropWhile dropWhile_eq_Nil_conv last_rev rev_is_Nil_conv)

lemma trimEnd_prefix: "prefix (trimEnd s) s"
  unfolding trimEnd_def using suffix_dropWhile [of is_space "rev s"] by (simp add: suffix_to_prefix)

lemma trim_tidy: "tidy (trim s)"
proof (cases "trim s = []")
  case False
  let ?t = "trimStart s"
  have "?t \<noteq> []" using False by (auto simp: trim_def trimEnd_def)
  then have "\<not> is_space (hd ?t)" unfolding trimStart_def by (metis hd_dropWhile)
  moreover obtain u where "?t = trim s @ u"
    using trimEnd_prefix [of ?t] by (auto simp: trim_def prefix_def)
  ultimately have "\<not> is_space (hd (trim s))" using False by (metis hd_append2)
  then show ?thesis using False trimEnd_last [of ?t] by (simp add: tidy_def trim_def)
qed (simp add: tidy_def)

lemma trim_trim [simp]: "trim (trim s) = trim s"
  by (rule trim_id) (rule trim_tidy)

section \<open>Searching\<close>

fun indexOf :: "string \<Rightarrow> string \<Rightarrow> nat option" where
  "indexOf p [] = (if p = [] then Some 0 else None)"
| "indexOf p (c # s) = (if prefix p (c # s) then Some 0 else map_option Suc (indexOf p s))"

fun lastIndexOf :: "string \<Rightarrow> string \<Rightarrow> nat option" where
  "lastIndexOf p [] = (if p = [] then Some 0 else None)"
| "lastIndexOf p (c # s) =
     (case lastIndexOf p s of
        Some i \<Rightarrow> Some (Suc i)
      | None \<Rightarrow> if prefix p (c # s) then Some 0 else None)"

text \<open>\<open>s.replace(t, "")\<close> with a text: the first occurrence is removed.\<close>

definition remove_first :: "string \<Rightarrow> string \<Rightarrow> string" where
  "remove_first t s = (case indexOf t s of None \<Rightarrow> s | Some i \<Rightarrow> take i s @ drop (i + length t) s)"

lemma indexOf_None: "indexOf p s = None \<longleftrightarrow> \<not> sublist p s"
  by (induction s) (auto simp: sublist_Cons_right)

lemma indexOf_char_take:
  "(case indexOf [c] s of None \<Rightarrow> s | Some i \<Rightarrow> take i s) = takeWhile (\<lambda>x. x \<noteq> c) s"
  by (induction s) (auto split: option.splits)

lemma lastIndexOf_None: "lastIndexOf p s = None \<longleftrightarrow> \<not> sublist p s"
  by (induction s) (auto simp: sublist_Cons_right split: option.splits)

lemma lastIndexOf_char:
  "c \<notin> set t \<Longrightarrow> lastIndexOf [c] (s @ c # t) = Some (length s)"
proof (induction s)
  case Nil
  then have "\<not> sublist [c] t" by (auto simp: sublist_def)
  then show ?case by (simp add: lastIndexOf_None [symmetric])
qed simp

section \<open>Splitting and joining\<close>

fun split_on :: "char \<Rightarrow> string \<Rightarrow> string list" where
  "split_on c [] = [[]]"
| "split_on c (x # s) =
     (if x = c then [] # split_on c s
      else case split_on c s of [] \<Rightarrow> [[x]] | w # ws \<Rightarrow> (x # w) # ws)"

fun join :: "string \<Rightarrow> string list \<Rightarrow> string" where
  "join sep [] = []"
| "join sep [w] = w"
| "join sep (w # v # ws) = w @ sep @ join sep (v # ws)"

lemma split_on_nonempty [simp]: "split_on c s \<noteq> []"
  by (cases s) (auto split: list.split)

lemma split_on_free: "c \<notin> set w \<Longrightarrow> split_on c w = [w]"
  by (induction w) auto

lemma split_on_append: "c \<notin> set w \<Longrightarrow> split_on c (w @ c # s) = w # split_on c s"
  by (induction w) auto

lemma split_on_join:
  "ws \<noteq> [] \<Longrightarrow> \<forall>w \<in> set ws. c \<notin> set w \<Longrightarrow> split_on c (join [c] ws) = ws"
  by (induction "[c]" ws rule: join.induct) (auto simp: split_on_free split_on_append)

lemma join_split_on: "join [c] (split_on c s) = s"
proof (induction s)
  case (Cons x s)
  then show ?case
    by (cases "split_on c s" rule: list.exhaust; cases "tl (split_on c s)") auto
qed simp

lemma split_on_sep_free: "w \<in> set (split_on c s) \<Longrightarrow> c \<notin> set w"
proof (induction s arbitrary: w)
  case (Cons x s)
  then show ?case by (cases "split_on c s") (auto split: if_splits)
qed simp

lemma split_on_sep_append: "split_on c (u @ c # v) = split_on c u @ split_on c v"
proof (induction u)
  case (Cons x u)
  then show ?case by (cases "split_on c u") auto
qed simp

lemma join_append: "us \<noteq> [] \<Longrightarrow> ws \<noteq> [] \<Longrightarrow> join s (us @ ws) = join s us @ s @ join s ws"
proof (induction s us rule: join.induct)
  case (2 s w)
  then show ?case by (cases ws) auto
qed auto

lemma labels_suffix:
  "t = p \<or> suffix (c # p) t \<longleftrightarrow> suffix (split_on c p) (split_on c t)"
proof
  assume "suffix (split_on c p) (split_on c t)"
  then obtain us where us: "split_on c t = us @ split_on c p" by (auto simp: suffix_def)
  have "t = join [c] (us @ split_on c p)" by (metis us join_split_on)
  then show "t = p \<or> suffix (c # p) t"
    by (cases "us = []") (auto simp: join_append join_split_on suffix_def)
qed (auto simp: suffix_def split_on_sep_append)

text \<open>\<open>s.split(/\s+/)\<close>.\<close>

fun split_ws_from :: "string \<Rightarrow> string \<Rightarrow> string list" where
  "split_ws_from w [] = [w]"
| "split_ws_from w (c # s) =
     (if is_space c then
        (case s of d # _ \<Rightarrow> if is_space d then split_ws_from w s else w # split_ws_from [] s
         | [] \<Rightarrow> [w, []])
      else split_ws_from (w @ [c]) s)"

definition split_ws :: "string \<Rightarrow> string list" where
  "split_ws s = split_ws_from [] s"

section \<open>Numbers\<close>

text \<open>\<open>parseInt(s, 10)\<close>; \<open>None\<close> is NaN.\<close>

definition parse_digits :: "string \<Rightarrow> int option" where
  "parse_digits s = (let ds = takeWhile is_digit s in if ds = [] then None else Some (int (dec_val ds)))"

definition parseInt :: "string \<Rightarrow> int option" where
  "parseInt s =
     (case trimStart s of
        [] \<Rightarrow> None
      | c # t \<Rightarrow> if c = CHR ''-'' then map_option uminus (parse_digits t)
                 else if c = CHR ''+'' then parse_digits t
                 else parse_digits (c # t))"

lemma digit_not_space: "is_digit c \<Longrightarrow> \<not> is_space c"
  by (auto simp: is_digit_def is_space_def char_code_def)

lemma parse_digits_all:
  assumes "s \<noteq> []" "list_all is_digit s"
  shows "parse_digits s = Some (int (dec_val s))"
proof -
  have "takeWhile is_digit s = s" using assms(2) by (simp add: takeWhile_eq_all_conv list_all_iff)
  then show ?thesis unfolding parse_digits_def Let_def using assms(1) by (simp only: if_False)
qed

lemma parseInt_digits:
  assumes "s \<noteq> []" "list_all is_digit s"
  shows "parseInt s = Some (int (dec_val s))"
proof (cases s)
  case (Cons c t)
  with assms have c: "is_digit c" by simp
  then have "c \<noteq> CHR ''-''" "c \<noteq> CHR ''+''" by (auto simp: is_digit_def)
  with Cons c parse_digits_all [OF assms] show ?thesis
    by (simp add: parseInt_def trimStart_def digit_not_space)
qed (use assms in simp)

lemma parseInt_nat_to_string [simp]: "parseInt (nat_to_string n) = Some (int n)"
  using parseInt_digits [of "nat_to_string n"] nat_to_string_digits [of _ n]
  by (simp add: list_all_iff)

lemma remove_prefix: "remove_first p (p @ s) = s"
proof -
  have "indexOf p (p @ s) = Some 0" by (cases p; cases s) simp_all
  then show ?thesis by (simp add: remove_first_def)
qed

lemma toLowerCase_sublist: "sublist s t \<Longrightarrow> sublist (toLowerCase s) (toLowerCase t)"
  unfolding sublist_def toLowerCase_def by (metis map_append)

lemma split_ws_here: "list_all (\<lambda>c. \<not> is_space c) w \<Longrightarrow> is_space y \<Longrightarrow> u @ w \<in> set (split_ws_from u (w @ y # b))"
proof (induction w arbitrary: u)
  case Nil
  then show ?case by (induction b arbitrary: y) (auto split: list.split)
next
  case (Cons c w)
  then show ?case using Cons.IH [of "u @ [c]"] by simp
qed

lemma split_ws_word:
  assumes "list_all (\<lambda>c. \<not> is_space c) w" "w \<noteq> []" "is_space x" "is_space y"
  shows "w \<in> set (split_ws_from u (a @ x # w @ y # b))"
proof (induction a arbitrary: u)
  case Nil
  obtain c v where w: "w = c # v" using assms(2) by (cases w) auto
  then have "split_ws_from u (x # w @ y # b) = u # split_ws_from [] (w @ y # b)" using assms(1,3) by simp
  then show ?case using split_ws_here [OF assms(1,4), of "[]" b] by simp
next
  case (Cons c a)
  obtain d r where dr: "a @ x # w @ y # b = d # r" by (cases "a @ x # w @ y # b") auto
  show ?case
  proof (cases "is_space c")
    case True
    have "split_ws_from u (c # d # r) = (if is_space d then split_ws_from u (d # r) else u # split_ws_from [] (d # r))"
      by (simp only: split_ws_from.simps list.case True if_True)
    then show ?thesis using Cons.IH [of u] Cons.IH [of "[]"] unfolding append_Cons dr by auto
  next
    case False
    then have "split_ws_from u (c # d # r) = split_ws_from (u @ [c]) (d # r)" by (simp only: split_ws_from.simps if_False)
    then show ?thesis using Cons.IH [of "u @ [c]"] unfolding append_Cons dr by simp
  qed
qed

lemma padStart_digits: "list_all is_digit (padStart w (CHR ''0'') (nat_to_string n))"
proof -
  have "is_digit (CHR ''0'')" by code_simp
  then show ?thesis using nat_to_string_digits [of _ n] by (auto simp: padStart_def list_all_iff)
qed

end
