(* ===== verification/Scope_Guard_V2.thy ===== *)
theory Scope_Guard_V2
  imports JSString "HOL-Library.Word"
begin

text \<open>
  Scope enforcement (\<open>scope-guard-v2.ts\<close>): the parser and printer of \<open>scope.yaml\<close>, the matching
  of targets against rules, the decision \<open>checkScope\<close>, and the tools, the command and the hook
  that use it. A JavaScript number that may be NaN is an \<open>int option\<close>; the bit operations of
  \<open>ipToInt\<close> and \<open>ipInCIDR\<close> are those of 32-bit words.
\<close>

unbundle bit_operations_syntax

section \<open>Data\<close>

record ScopeConfig =
  targets :: "string list"
  allowed_domains :: "string list"
  excluded :: "string list"
  enforce :: bool

record ScopeViolation =
  v_id :: string
  v_timestamp :: time
  v_target :: string
  v_reason :: string
  v_context :: "string option"
  v_agent :: "string option"

section \<open>The YAML parser\<close>

definition stripValue :: "string \<Rightarrow> string" where
  "stripValue raw =
     (let value = raw;
          value = (if \<not> prefix [CHR 0x22] value \<and> \<not> prefix [CHR 0x27] value
                   then case indexOf '' #'' value of None \<Rightarrow> value | Some i \<Rightarrow> take i value
                   else value);
          value = trim value;
          value = (if prefix [CHR 0x22] value \<and> suffix [CHR 0x22] value \<or>
                      prefix [CHR 0x27] value \<and> suffix [CHR 0x27] value
                   then butlast (tl value) else value)
      in trim value)"

text \<open>
  The three regular expressions. A line carries no trailing white space here, so the greedy
  repetitions never give anything back.
\<close>

definition dot_all :: "string \<Rightarrow> bool" where
  "dot_all s = (s \<noteq> [] \<and> list_all (\<lambda>c. \<not> is_newline c) s)"

text \<open>\<^verbatim>\<open>/^\s+-\s+(.+)$/\<close>\<close>

definition match_list :: "string \<Rightarrow> string option" where
  "match_list line =
     (case line of
        [] \<Rightarrow> None
      | c # _ \<Rightarrow>
          if \<not> is_space c then None
          else case dropWhile is_space line of
            d # e # rest \<Rightarrow>
              if d = CHR ''-'' \<and> is_space e \<and> dot_all (dropWhile is_space rest)
              then Some (dropWhile is_space rest) else None
          | _ \<Rightarrow> None)"

text \<open>\<^verbatim>\<open>/^(\w+):\s*(.+)$/\<close>\<close>

definition match_inline :: "string \<Rightarrow> (string \<times> string) option" where
  "match_inline line =
     (let key = takeWhile is_word line in
      case dropWhile is_word line of
        d # rest \<Rightarrow>
          if key \<noteq> [] \<and> d = CHR '':'' \<and> dot_all (dropWhile is_space rest)
          then Some (key, dropWhile is_space rest) else None
      | [] \<Rightarrow> None)"

text \<open>\<^verbatim>\<open>/^(\w+):\s*$/\<close>\<close>

definition match_section :: "string \<Rightarrow> string option" where
  "match_section line =
     (let key = takeWhile is_word line in
      case dropWhile is_word line of
        d # rest \<Rightarrow> if key \<noteq> [] \<and> d = CHR '':'' \<and> list_all is_space rest then Some key else None
      | [] \<Rightarrow> None)"

datatype yaml_section = Targets | Allowed_Domains | Excluded

definition section_of :: "string \<Rightarrow> yaml_section option" where
  "section_of key =
     (if key = ''targets'' then Some Targets
      else if key = ''allowed_domains'' then Some Allowed_Domains
      else if key = ''excluded'' then Some Excluded else None)"

fun push_entry :: "yaml_section \<Rightarrow> string \<Rightarrow> ScopeConfig \<Rightarrow> ScopeConfig" where
  "push_entry Targets v c = c\<lparr>targets := targets c @ [v]\<rparr>"
| "push_entry Allowed_Domains v c = c\<lparr>allowed_domains := allowed_domains c @ [v]\<rparr>"
| "push_entry Excluded v c = c\<lparr>excluded := excluded c @ [v]\<rparr>"

text \<open>One iteration of the loop over the lines; the state is the configuration and the section.\<close>

definition parse_line ::
  "string \<Rightarrow> ScopeConfig \<times> yaml_section option \<Rightarrow> ScopeConfig \<times> yaml_section option" where
  "parse_line rawLine st =
     (let (config, cur) = st; line = trimEnd rawLine in
      if trim line = [] \<or> trim line = ''---'' \<or> trim line = ''...'' then st
      else if prefix ''#'' (trim line) then st
      else case match_list line of
        Some m \<Rightarrow>
          (let cleaned = stripValue (trim m) in
           case cur of None \<Rightarrow> st | Some sec \<Rightarrow> (push_entry sec cleaned config, cur))
      | None \<Rightarrow>
          (case match_inline line of
             Some (key, v) \<Rightarrow>
               (let value = stripValue v in
                (if key = ''enforce'' then config\<lparr>enforce := (value = ''true'' \<or> value = ''yes'')\<rparr>
                 else config, None))
           | None \<Rightarrow>
               (case match_section line of
                  Some key \<Rightarrow> (config, section_of key)
                | None \<Rightarrow> st)))"

definition empty_scope :: ScopeConfig where
  "empty_scope = \<lparr>targets = [], allowed_domains = [], excluded = [], enforce = True\<rparr>"

definition parseScopeYaml :: "string \<Rightarrow> ScopeConfig" where
  "parseScopeYaml txt = fst (fold parse_line (split_on (CHR 0x0A) txt) (empty_scope, None))"

definition yaml_lines :: "ScopeConfig \<Rightarrow> string list" where
  "yaml_lines c =
     [''---'', ''targets:''] @ map (\<lambda>t. ''  - '' @ t) (targets c) @
     [''allowed_domains:''] @ map (\<lambda>t. ''  - '' @ t) (allowed_domains c) @
     [''excluded:''] @ map (\<lambda>t. ''  - '' @ t) (excluded c) @
     [''enforce: '' @ (if enforce c then ''true'' else ''false'')]"

definition saveScopeYaml :: "ScopeConfig \<Rightarrow> string" where
  "saveScopeYaml c = join [CHR 0x0A] (yaml_lines c)"

section \<open>Matching a target\<close>

definition isIPv4 :: "string \<Rightarrow> bool" where
  "isIPv4 value =
     (let parts = split_on (CHR ''.'') value in
      length parts = 4 \<and>
      list_all (\<lambda>p. case parseInt p of
                  None \<Rightarrow> False
                | Some n \<Rightarrow> 0 \<le> n \<and> n \<le> 255 \<and> nat_to_string (nat n) = p) parts)"

text \<open>\<open>ToInt32\<close>, where NaN counts as 0, and the left shift.\<close>

definition to_int32 :: "int option \<Rightarrow> 32 word" where
  "to_int32 v = (case v of None \<Rightarrow> 0 | Some n \<Rightarrow> word_of_int n)"

definition shl :: "int option \<Rightarrow> nat \<Rightarrow> int" where
  "shl v k = sint (push_bit k (to_int32 v))"

text \<open>Reading an array out of its bounds gives \<open>undefined\<close>, which the operators treat as NaN.\<close>

definition nth_num :: "int option list \<Rightarrow> nat \<Rightarrow> int option" where
  "nth_num xs i = (if i < length xs then xs ! i else None)"

definition ipToInt :: "string \<Rightarrow> int option" where
  "ipToInt ip =
     (let parts = map parseInt (split_on (CHR ''.'') ip) in
      map_option (\<lambda>d. shl (nth_num parts 0) 24 + shl (nth_num parts 1) 16 + shl (nth_num parts 2) 8 + d)
        (nth_num parts 3))"

text \<open>\<^verbatim>\<open>/^(\d{1,3}\.\d{1,3}\.\d{1,3}\.\d{1,3})\/(\d{1,2})$/\<close>\<close>

definition digits_between :: "nat \<Rightarrow> string \<Rightarrow> bool" where
  "digits_between m s = (1 \<le> length s \<and> length s \<le> m \<and> list_all is_digit s)"

definition isCIDR :: "string \<Rightarrow> bool" where
  "isCIDR value =
     (case split_on (CHR ''/'') value of
        [network, bits] \<Rightarrow>
          (let parts = split_on (CHR ''.'') network in
           length parts = 4 \<and> list_all (digits_between 3) parts \<and> digits_between 2 bits \<and>
           (case parseInt bits of None \<Rightarrow> False | Some b \<Rightarrow> 0 \<le> b \<and> b \<le> 32))
      | _ \<Rightarrow> False)"

definition cidr_mask :: "int option \<Rightarrow> 32 word" where
  "cidr_mask bits =
     (if bits = Some 32 then 0xFFFFFFFF
      else push_bit (unat (to_int32 (map_option (\<lambda>b. 32 - b) bits) AND 31)) (NOT 0))"

definition ipInCIDR :: "string \<Rightarrow> string \<Rightarrow> bool" where
  "ipInCIDR ip cidr =
     (if \<not> isIPv4 ip then False
      else
        (let pieces = split_on (CHR ''/'') cidr;
             network = hd pieces;
             bits = (case tl pieces of [] \<Rightarrow> None | b # _ \<Rightarrow> parseInt b);
             ipInt = ipToInt ip;
             netInt = ipToInt network in
         if bits = Some 0 then True
         else to_int32 ipInt AND cidr_mask bits = to_int32 netInt AND cidr_mask bits))"

definition isWildcard :: "string \<Rightarrow> bool" where
  "isWildcard pattern = prefix ''*.'' pattern"

definition strip_prefix :: "string \<Rightarrow> string \<Rightarrow> string" where
  "strip_prefix p s = (if prefix p s then drop (length p) s else s)"

definition normalizeTarget :: "string \<Rightarrow> string" where
  "normalizeTarget target =
     (let t = toLowerCase (trim target);
          t = (if prefix ''https://'' t then drop 8 t else strip_prefix ''http://'' t);
          t = strip_prefix ''ftp://'' t;
          t = strip_prefix ''ftps://'' t;
          t = (case indexOf ''/'' t of None \<Rightarrow> t | Some i \<Rightarrow> take i t) in
      if prefix ''['' t then t
      else case lastIndexOf '':'' t of
        None \<Rightarrow> t
      | Some i \<Rightarrow>
          if \<not> sublist '':'' t then t
          else (let afterColon = drop (i + 1) t in
                if afterColon \<noteq> [] \<and> list_all is_digit afterColon then take i t else t))"

definition domainMatches :: "string \<Rightarrow> string \<Rightarrow> bool" where
  "domainMatches hostname pattern =
     (let target = normalizeTarget hostname;
          pat = trim (toLowerCase pattern) in
      if isWildcard pat then
        (let base = drop 2 pat in target = base \<or> suffix (''.'' @ base) target)
      else target = pat \<or> suffix (''.'' @ pat) target)"

definition matchesAny :: "string \<Rightarrow> string \<Rightarrow> bool" where
  "matchesAny target rule =
     (let r = trim (toLowerCase rule) in
      if isCIDR r then ipInCIDR target r
      else if isIPv4 r \<and> isIPv4 target then target = r
      else if isWildcard r then domainMatches target r
      else domainMatches target r)"

datatype matched_rule = By_target string | By_domain string

record scope_result =
  authorized :: bool
  matchedRule :: "matched_rule option"
  isExcluded :: bool
  excludeRule :: "string option"

definition checkScope :: "string \<Rightarrow> ScopeConfig \<Rightarrow> scope_result" where
  "checkScope target config =
     (let normalized = normalizeTarget target in
      case find (matchesAny normalized) (excluded config) of
        Some e \<Rightarrow> \<lparr>authorized = False, matchedRule = None, isExcluded = True, excludeRule = Some e\<rparr>
      | None \<Rightarrow>
          (case find (matchesAny normalized) (targets config) of
             Some a \<Rightarrow> \<lparr>authorized = True, matchedRule = Some (By_target a), isExcluded = False,
                         excludeRule = None\<rparr>
           | None \<Rightarrow>
               (case find (domainMatches normalized) (allowed_domains config) of
                  Some d \<Rightarrow> \<lparr>authorized = True, matchedRule = Some (By_domain d),
                              isExcluded = False, excludeRule = None\<rparr>
                | None \<Rightarrow> \<lparr>authorized = False, matchedRule = None, isExcluded = False,
                            excludeRule = None\<rparr>)))"

section \<open>The files\<close>

record profile_scope =
  ps_targets :: "string list option"
  ps_allowed_domains :: "string list option"
  ps_excluded :: "string list option"
  ps_enforce :: "bool option"

datatype profile_file = No_profile | Broken_profile | Profile profile_scope

text \<open>
  The files the guard reads and writes, and the events it has published. \<open>None\<close> is a missing
  file (for the violation log also one that is not JSON).
\<close>

record scope_world =
  scope_yaml :: "string option"
  profile_json :: profile_file
  violations_json :: "ScopeViolation list option"
  published :: "ScopeViolation list"

definition or_nullish :: "'a option \<Rightarrow> 'a option \<Rightarrow> 'a option" where
  "or_nullish a b = (case a of None \<Rightarrow> b | Some x \<Rightarrow> Some x)"

definition loadScope :: "scope_world \<Rightarrow> ScopeConfig" where
  "loadScope w =
     (case scope_yaml w of
        Some txt \<Rightarrow> parseScopeYaml txt
      | None \<Rightarrow>
          (case profile_json w of
             Profile sc \<Rightarrow>
               \<lparr>targets = or_else (ps_targets sc) [],
                allowed_domains = or_else (or_nullish (ps_allowed_domains sc) (ps_targets sc)) [],
                excluded = or_else (ps_excluded sc) [],
                enforce = or_else (ps_enforce sc) True\<rparr>
           | _ \<Rightarrow> empty_scope))"

definition storeScope :: "ScopeConfig \<Rightarrow> scope_world \<Rightarrow> scope_world" where
  "storeScope c w = w\<lparr>scope_yaml := Some (saveScopeYaml c)\<rparr>"

definition loadViolations :: "scope_world \<Rightarrow> ScopeViolation list" where
  "loadViolations w = or_else (violations_json w) []"

definition recordViolation :: "ScopeViolation \<Rightarrow> scope_world \<Rightarrow> scope_world" where
  "recordViolation v w = w\<lparr>violations_json := Some (loadViolations w @ [v])\<rparr>"

text \<open>
  \<open>pi.emit?.(..)\<close> and \<open>pi.publish?.(..)\<close>: which of the two the agent offers is not known here, and failures are ignored.
  One violation handed to both of them is one entry.
\<close>

definition publish :: "ScopeViolation \<Rightarrow> scope_world \<Rightarrow> scope_world" where
  "publish v w = w\<lparr>published := published w @ [v]\<rparr>"

definition generateViolationId :: "time \<Rightarrow> string \<Rightarrow> string" where
  "generateViolationId now rnd = ''vio-'' @ nat_to_string (nat now) @ ''-'' @ rnd"

section \<open>The tools\<close>

datatype scope_status = EXCLUDED | AUTHORIZED | OUT_OF_SCOPE

record scope_check_response =
  sr_target :: string
  sr_normalized :: string
  sr_result :: scope_result
  sr_enforce :: bool
  sr_status :: scope_status

definition scope_check :: "string \<Rightarrow> scope_world \<Rightarrow> scope_check_response" where
  "scope_check target w =
     (let config = loadScope w; result = checkScope target config in
      \<lparr>sr_target = target, sr_normalized = normalizeTarget target, sr_result = result,
       sr_enforce = enforce config,
       sr_status = (if isExcluded result then EXCLUDED
                    else if authorized result then AUTHORIZED else OUT_OF_SCOPE)\<rparr>)"

record violation_params =
  vp_target :: string
  vp_reason :: string
  vp_context :: "string option"
  vp_agent :: "string option"

text \<open>The response carries the violation and whether enforcement is active.\<close>

definition scope_violation ::
  "time \<Rightarrow> string \<Rightarrow> violation_params \<Rightarrow> scope_world \<Rightarrow> scope_world \<times> ScopeViolation \<times> bool" where
  "scope_violation now rnd p w =
     (let v = \<lparr>v_id = generateViolationId now rnd, v_timestamp = now, v_target = vp_target p,
               v_reason = vp_reason p, v_context = vp_context p, v_agent = vp_agent p\<rparr>;
          w = publish v (recordViolation v w)
      in (w, v, enforce (loadScope w)))"

section \<open>The command /scope\<close>

datatype scope_reply =
    Shown ScopeConfig
  | Usage string
  | Scope_set ScopeConfig
  | Target_added string ScopeConfig
  | Target_excluded string ScopeConfig
  | Domain_allowed string ScopeConfig
  | Enforcement bool
  | Violations_shown "ScopeViolation list"
  | Reloaded ScopeConfig
  | Usage_all

text \<open>\<open>parts[i]\<close> where the empty string and a missing element count as absent.\<close>

definition arg :: "string list \<Rightarrow> nat \<Rightarrow> string option" where
  "arg parts i = (if i < length parts then or_null (Some (parts ! i)) else None)"

definition add_once :: "string \<Rightarrow> string list \<Rightarrow> string list" where
  "add_once x xs = (if x \<in> set xs then xs else xs @ [x])"

definition scope_set :: "string list \<Rightarrow> scope_world \<Rightarrow> scope_world \<times> scope_reply" where
  "scope_set parts w =
     (let targetStr = join '' '' (tl parts) in
      if targetStr = [] then (w, Usage ''set'')
      else
        (let ts = filter (\<lambda>t. t \<noteq> []) (map trim (split_on (CHR '','') targetStr));
             config = \<lparr>targets = ts, allowed_domains = ts, excluded = [], enforce = True\<rparr>
         in (storeScope config w, Scope_set config)))"

definition scope_command :: "string \<Rightarrow> scope_world \<Rightarrow> scope_world \<times> scope_reply" where
  "scope_command args w =
     (let parts = split_ws (trim args) in
      case arg parts 0 of
        None \<Rightarrow> (w, Shown (loadScope w))
      | Some sub \<Rightarrow>
          if sub = ''set'' then scope_set parts w
          else if sub = ''add'' then
            (case arg parts 1 of
               None \<Rightarrow> (w, Usage ''add'')
             | Some t \<Rightarrow>
                 (let c = loadScope w; c = c\<lparr>targets := add_once t (targets c)\<rparr>
                  in (storeScope c w, Target_added t c)))
          else if sub = ''exclude'' then
            (case arg parts 1 of
               None \<Rightarrow> (w, Usage ''exclude'')
             | Some t \<Rightarrow>
                 (let c = loadScope w; c = c\<lparr>excluded := add_once t (excluded c)\<rparr>
                  in (storeScope c w, Target_excluded t c)))
          else if sub = ''allowed'' then
            (case arg parts 1 of
               None \<Rightarrow> (w, Usage ''allowed'')
             | Some d \<Rightarrow>
                 (let c = loadScope w; c = c\<lparr>allowed_domains := add_once d (allowed_domains c)\<rparr>
                  in (storeScope c w, Domain_allowed d c)))
          else if sub = ''enforce'' then
            (let c = loadScope w;
                 toggle = map_option toLowerCase (arg parts 1);
                 c = (if toggle = Some ''on'' then c\<lparr>enforce := True\<rparr>
                      else if toggle = Some ''off'' then c\<lparr>enforce := False\<rparr>
                      else c\<lparr>enforce := \<not> enforce c\<rparr>)
             in (storeScope c w, Enforcement (enforce c)))
          else if sub = ''violations'' then (w, Violations_shown (loadViolations w))
          else if sub = ''reload'' then (w, Reloaded (loadScope w))
          else (w, Usage_all))"

section \<open>The hook on tool calls\<close>

text \<open>
  The regular expressions that find hosts in a bash command. A matcher works at the start of its
  argument and returns the captured group and the text after the match; the repetitions run over
  character classes that exclude what must follow, so greedy matching needs no backtracking except
  over the optional groups, which are written out.
\<close>

definition host_char :: "char \<Rightarrow> bool" where
  "host_char c = (is_word c \<or> c = CHR ''.'' \<or> c = CHR ''-'')"

definition plus :: "(char \<Rightarrow> bool) \<Rightarrow> string \<Rightarrow> (string \<times> string) option" where
  "plus P s = (if takeWhile P s = [] then None else Some (takeWhile P s, dropWhile P s))"

definition literal :: "string \<Rightarrow> string \<Rightarrow> string option" where
  "literal k s = (if prefix k s then Some (drop (length k) s) else None)"

definition keyword :: "string \<Rightarrow> string \<Rightarrow> string option" where
  "keyword k s = Option.bind (literal k s) (\<lambda>t. map_option snd (plus is_space t))"

definition or_match :: "'a option \<Rightarrow> 'a option \<Rightarrow> 'a option" where
  "or_match a b = (case a of None \<Rightarrow> b | Some x \<Rightarrow> Some x)"

definition match_curl :: "string \<Rightarrow> (string \<times> string) option" where
  "match_curl s =
     Option.bind (or_match (keyword ''curl'' s) (keyword ''wget'' s)) (\<lambda>t.
       or_match
         (Option.bind (or_match (literal ''https://'' t) (literal ''http://'' t)) (plus host_char))
         (plus host_char t))"

definition match_word :: "string \<Rightarrow> (char \<Rightarrow> bool) \<Rightarrow> string \<Rightarrow> (string \<times> string) option" where
  "match_word k P s = Option.bind (keyword k s) (plus P)"

definition match_dig :: "string \<Rightarrow> (string \<times> string) option" where
  "match_dig s =
     Option.bind (keyword ''dig'' s) (\<lambda>t.
       or_match
         (Option.bind (literal ''@'' t) (\<lambda>u.
           Option.bind (plus (\<lambda>c. \<not> is_space c) u) (\<lambda>(_, v).
             Option.bind (plus is_space v) (\<lambda>(_, x). plus host_char x))))
         (plus host_char t))"

definition match_nc :: "string \<Rightarrow> (string \<times> string) option" where
  "match_nc s =
     Option.bind (match_word ''nc'' host_char s) (\<lambda>(h, t).
       Option.bind (plus is_space t) (\<lambda>(_, u).
         map_option (\<lambda>(_, v). (h, v)) (plus is_digit u)))"

definition hostPatterns :: "(string \<Rightarrow> (string \<times> string) option) list" where
  "hostPatterns =
     [match_curl,
      match_word ''nmap'' (\<lambda>c. host_char c \<or> c = CHR ''/''),
      match_dig,
      match_word ''host'' host_char,
      match_word ''nslookup'' host_char,
      match_nc,
      match_word ''ssh'' (\<lambda>c. host_char c \<or> c = CHR ''@'')]"

text \<open>
  The loop over \<open>pattern.exec\<close> with the flag g: the leftmost match, then on from its end. A match is
  never empty, so the test on the length is always true; it makes the recursion well-founded.
\<close>

function scan_all :: "(string \<Rightarrow> (string \<times> string) option) \<Rightarrow> string \<Rightarrow> string list" where
  "scan_all m [] = []"
| "scan_all m (c # s) =
     (case m (c # s) of
        Some (cap, rest) \<Rightarrow>
          if length rest < length (c # s) then cap # scan_all m rest else scan_all m s
      | None \<Rightarrow> scan_all m s)"
  by pat_completeness auto
termination
  by (relation "measure (\<lambda>(m, s). length s)") auto

definition capture_host :: "string \<Rightarrow> string" where
  "capture_host cap = (if sublist ''@'' cap then split_on (CHR ''@'') cap ! 1 else cap)"

definition extract_hosts :: "string \<Rightarrow> string list" where
  "extract_hosts cmd = concat (map (\<lambda>m. map capture_host (scan_all m cmd)) hostPatterns)"

record tool_event =
  te_toolName :: string
  te_command :: "string option"

record block_message =
  bm_target :: string
  bm_excluded :: bool
  bm_violation :: ScopeViolation

definition event_targets :: "tool_event \<Rightarrow> string list" where
  "event_targets ev =
     (case te_command ev of
        Some cmd \<Rightarrow> if te_toolName ev = ''bash'' then extract_hosts cmd else []
      | None \<Rightarrow> [])"

definition violation_reason :: "scope_result \<Rightarrow> string" where
  "violation_reason r =
     (if isExcluded r
      then ''Target is explicitly excluded ('' @ or_else (excludeRule r) ''null'' @ '')''
      else ''Target does not match any authorized scope entry'')"

definition on_tool_call ::
  "time \<Rightarrow> string \<Rightarrow> tool_event \<Rightarrow> scope_world \<Rightarrow> scope_world \<times> block_message option" where
  "on_tool_call now rnd ev w =
     (let config = loadScope w in
      if \<not> enforce config then (w, None)
      else case find (\<lambda>t. \<not> authorized (checkScope t config)) (event_targets ev) of
        None \<Rightarrow> (w, None)
      | Some target \<Rightarrow>
          (let result = checkScope target config;
               v = \<lparr>v_id = generateViolationId now rnd, v_timestamp = now, v_target = target,
                    v_reason = violation_reason result,
                    v_context = Some (''Auto-detected in '' @ te_toolName ev @ '' command''),
                    v_agent = Some ''scope-guard-v2:auto''\<rparr>
           in (publish v (recordViolation v w),
               Some \<lparr>bm_target = target, bm_excluded = isExcluded result, bm_violation = v\<rparr>)))"

datatype session_notice = Advisory_notice | Scope_notice nat nat nat bool

definition on_session_start :: "scope_world \<Rightarrow> session_notice" where
  "on_session_start w =
     (let config = loadScope w in
      if \<not> (targets config \<noteq> [] \<or> allowed_domains config \<noteq> []) then Advisory_notice
      else Scope_notice (length (targets config)) (length (allowed_domains config))
             (length (excluded config)) (enforce config))"

end
