(* ===== verification/Target_Policy.thy ===== *)
theory Target_Policy
  imports JSLib
begin

text \<open>
  The contract of a scope guard. Three components decide whether a target may be tested: the two
  scope guards of the reference profile and \<open>URLScope\<close> of the SDK. Each of them has a
  configuration with rules that grant and rules that deny, and permits a target when a granting rule
  hits it and no denying rule does.
\<close>

locale target_policy =
  fixes permit :: "'c \<Rightarrow> 't \<Rightarrow> bool"
    and grants :: "'c \<Rightarrow> 'r set"
    and denies :: "'c \<Rightarrow> 'r set"
    and hits :: "'t \<Rightarrow> 'r \<Rightarrow> bool"
  assumes permit_iff: "permit c t \<longleftrightarrow> (\<exists>r \<in> grants c. hits t r) \<and> \<not> (\<exists>r \<in> denies c. hits t r)"
begin

lemma deny_wins: "r \<in> denies c \<Longrightarrow> hits t r \<Longrightarrow> \<not> permit c t"
  by (auto simp: permit_iff)

lemma default_deny: "grants c = {} \<Longrightarrow> \<not> permit c t"
  by (simp add: permit_iff)

lemma permit_mono:
  assumes "grants c \<subseteq> grants d" "denies d \<subseteq> denies c" "permit c t"
  shows "permit d t"
  using assms by (auto simp: permit_iff)

lemma permit_cong:
  assumes "\<And>r. hits t r = hits u r"
  shows "permit c t = permit c u"
  by (simp add: permit_iff assms)

lemma permit_same_rules:
  assumes "grants c = grants d" "denies c = denies d"
  shows "permit c t = permit d t"
  by (simp add: permit_iff assms)

end

end
