(* ===== verification/Scope_Guard_V2_Correct.thy ===== *)
theory Scope_Guard_V2_Correct
  imports Scope_Guard_V2 Target_Policy
begin

text \<open>
  What the functions of the scope guard compute: CIDR membership as a comparison of the leading
  bits of two numbers, the normalisation of a URL, domain rules as suffixes of lists of labels, the
  decision as an instance of \<open>target_policy\<close>, and the round trip of the YAML file.
\<close>

unbundle bit_operations_syntax

section \<open>Addresses\<close>

definition ip_string :: "nat list \<Rightarrow> string" where
  "ip_string os = join ''.'' (map nat_to_string os)"

definition ip_value :: "nat list \<Rightarrow> nat" where
  "ip_value os = foldl (\<lambda>v d. 256 * v + d) 0 os"

definition octets :: "nat list \<Rightarrow> bool" where
  "octets os = (length os = 4 \<and> list_all (\<lambda>d. d < 256) os)"

lemma not_digit_sep: "\<not> is_digit (CHR ''.'')" "\<not> is_digit (CHR ''/'')" "\<not> is_digit (CHR '':'')"
  by (simp_all add: is_digit_def)

lemma split_ip_string: "os \<noteq> [] \<Longrightarrow> split_on (CHR ''.'') (ip_string os) = map nat_to_string os"
  unfolding ip_string_def
  by (rule split_on_join) (auto dest: nat_to_string_digits simp: not_digit_sep)

lemma octetsE:
  assumes "octets os"
  obtains a b c d where "os = [a, b, c, d]" "a < 256" "b < 256" "c < 256" "d < 256"
  using assms by (auto simp: octets_def numeral_eq_Suc length_Suc_conv)

lemma isIPv4_ip_string: "octets os \<Longrightarrow> isIPv4 (ip_string os)"
  by (elim octetsE) (auto simp: isIPv4_def split_ip_string)

lemma isIPv4_octets:
  "isIPv4 s \<Longrightarrow> \<exists>os. octets os \<and> s = ip_string os"
proof -
  assume s: "isIPv4 s"
  let ?ps = "split_on (CHR ''.'') s"
  let ?os = "map (\<lambda>p. nat (the (parseInt p))) ?ps"
  have p: "\<exists>n. parseInt p = Some n \<and> 0 \<le> n \<and> n \<le> 255 \<and> nat_to_string (nat n) = p" if "p \<in> set ?ps" for p
    using s that by (fastforce simp: isIPv4_def list_all_iff Let_def split: option.splits)
  have "map nat_to_string ?os = ?ps" using p by (force intro!: map_idI)
  then have "s = ip_string ?os" unfolding ip_string_def by (simp only: join_split_on)
  moreover have "octets ?os"
  proof -
    have "nat (the (parseInt q)) < 256" if "q \<in> set ?ps" for q using p [OF that] by auto
    moreover have "length ?ps = 4" using s by (simp add: isIPv4_def Let_def)
    ultimately show ?thesis by (simp add: octets_def list_all_iff)
  qed
  ultimately show ?thesis by blast
qed

lemma word_of_int_shl: "word_of_int (shl (Some n) k) = (push_bit k (word_of_int n) :: 32 word)"
  by (simp add: shl_def to_int32_def)

lemma to_int32_ipToInt:
  assumes "octets os"
  shows "to_int32 (ipToInt (ip_string os)) = word_of_nat (ip_value os)"
proof -
  obtain a b c d where os: "os = [a, b, c, d]" using assms by (rule octetsE)
  have "to_int32 (ipToInt (ip_string os)) =
        push_bit 24 (word_of_nat a) + push_bit 16 (word_of_nat b) + push_bit 8 (word_of_nat c) + word_of_nat d"
    by (simp add: ipToInt_def split_ip_string os nth_num_def to_int32_def word_of_int_shl)
  also have "\<dots> = word_of_nat (ip_value os)"
    by (simp add: os ip_value_def push_bit_eq_mult algebra_simps)
  finally show ?thesis .
qed

lemma ip_value_bound: "octets os \<Longrightarrow> ip_value os < 2 ^ 32"
  by (elim octetsE) (simp add: ip_value_def)

lemma and_mask_eq:
  fixes v w :: "32 word"
  assumes "k < 32"
  shows "(v AND push_bit k (NOT 0) = w AND push_bit k (NOT 0)) \<longleftrightarrow> drop_bit k v = drop_bit k w"
proof
  assume *: "v AND push_bit k (NOT 0) = w AND push_bit k (NOT 0)"
  have "bit v i = bit w i" if "k \<le> i" "i < 32" for i
    using arg_cong [OF *, of "\<lambda>x. bit x i"] that by (simp add: bit_simps)
  then show "drop_bit k v = drop_bit k w"
    by (intro bit_word_eqI) (auto simp: bit_drop_bit_eq; use bit_imp_le_length in fastforce)
next
  assume *: "drop_bit k v = drop_bit k w"
  have "bit v i = bit w i" if "k \<le> i" for i
    using arg_cong [OF *, of "\<lambda>x. bit x (i - k)"] that by (simp add: bit_simps)
  then show "v AND push_bit k (NOT 0) = w AND push_bit k (NOT 0)"
    by (intro bit_word_eqI) (auto simp: bit_simps)
qed

lemma drop_bit_word_of_nat_eq:
  assumes "m < 2 ^ 32" "n < 2 ^ 32"
  shows "drop_bit k (word_of_nat m :: 32 word) = drop_bit k (word_of_nat n) \<longleftrightarrow> m div 2 ^ k = n div 2 ^ k"
proof -
  have u: "unat (drop_bit k (word_of_nat x :: 32 word)) = x div 2 ^ k" if "x < 2 ^ 32" for x
    using that by (simp add: unat_drop_bit_eq unat_of_nat flip: drop_bit_eq_div)
  show ?thesis using u [OF assms(1)] u [OF assms(2)] by (metis word_eq_iff_unsigned)
qed

lemma cidr_mask_push:
  assumes "0 < n" "n < 32"
  shows "cidr_mask (Some (int n)) = push_bit (32 - n) (NOT 0)"
proof -
  have "to_int32 (Some (32 - int n)) AND 31 = (word_of_nat (32 - n) :: 32 word)"
  proof -
    have "(word_of_int (32 - int n) :: 32 word) = word_of_nat (32 - n)"
      using assms by (simp add: of_nat_diff)
    moreover have "(word_of_nat (32 - n) :: 32 word) AND 31 = take_bit 5 (word_of_nat (32 - n))"
      by (simp add: take_bit_eq_mask mask_numeral)
    moreover have "take_bit 5 (word_of_nat (32 - n) :: 32 word) = word_of_nat (32 - n)"
      using assms by (simp add: take_bit_of_nat take_bit_nat_eq_self del: of_nat_diff)
    ultimately show ?thesis by (simp add: to_int32_def)
  qed
  moreover have "unat (word_of_nat (32 - n) :: 32 word) = 32 - n"
    using assms by (simp add: unat_of_nat del: of_nat_diff)
  ultimately show ?thesis using assms by (simp add: cidr_mask_def)
qed

lemma set_ip_string: "set (ip_string os) \<subseteq> insert (CHR ''.'') {c. is_digit c}"
  unfolding ip_string_def
proof (induction os)
  case (Cons a os)
  then show ?case by (cases os) (auto dest: nat_to_string_digits)
qed simp

lemma slash_notin_ip: "CHR ''/'' \<notin> set (ip_string os)"
  using set_ip_string [of os] not_digit_sep by auto

lemma isCIDR_ip_string:
  assumes "octets os" "n \<le> 32"
  shows "isCIDR (ip_string os @ ''/'' @ nat_to_string n)"
proof -
  have dig: "list_all is_digit (nat_to_string m)" for m
    by (auto simp: list_all_iff dest: nat_to_string_digits)
  have len3: "length (nat_to_string m) \<le> 3" if "m < 256" for m
    using that by (subst nat_to_string.simps, simp, subst nat_to_string.simps, simp, subst nat_to_string.simps, simp)
  have len2: "length (nat_to_string n) \<le> 2"
    using assms(2) by (subst nat_to_string.simps, simp, subst nat_to_string.simps, simp)
  have "split_on (CHR ''/'') (ip_string os @ ''/'' @ nat_to_string n) = [ip_string os, nat_to_string n]"
    using slash_notin_ip by (simp add: split_on_append split_on_free) (auto intro!: split_on_free dest: nat_to_string_digits simp: not_digit_sep)
  then show ?thesis using assms dig len3 len2
    by (elim octetsE) (simp add: isCIDR_def split_ip_string digits_between_def Suc_le_eq)
qed

lemma ipInCIDR_iff:
  assumes "octets os" "octets ns" "n \<le> 32"
  shows "ipInCIDR (ip_string os) (ip_string ns @ ''/'' @ nat_to_string n) \<longleftrightarrow>
         ip_value os div 2 ^ (32 - n) = ip_value ns div 2 ^ (32 - n)"
proof -
  let ?v = "word_of_nat (ip_value os) :: 32 word" and ?w = "word_of_nat (ip_value ns) :: 32 word"
  have sp: "split_on (CHR ''/'') (ip_string ns @ ''/'' @ nat_to_string n) = [ip_string ns, nat_to_string n]"
    using slash_notin_ip by (simp add: split_on_append split_on_free) (auto intro!: split_on_free dest: nat_to_string_digits simp: not_digit_sep)
  have eq: "ipInCIDR (ip_string os) (ip_string ns @ ''/'' @ nat_to_string n) \<longleftrightarrow>
            n = 0 \<or> ?v AND cidr_mask (Some (int n)) = ?w AND cidr_mask (Some (int n))"
    using assms by (simp add: ipInCIDR_def sp isIPv4_ip_string to_int32_ipToInt Let_def del: append_Cons)
  consider "n = 0" | "n = 32" | "0 < n" "n < 32" using assms(3) by linarith
  then show ?thesis
  proof cases
    case 1
    then show ?thesis using eq ip_value_bound [OF assms(1)] ip_value_bound [OF assms(2)] by simp
  next
    case 2
    then have "cidr_mask (Some (int n)) = NOT 0" by (simp add: cidr_mask_def)
    then show ?thesis using eq 2 ip_value_bound [OF assms(1)] ip_value_bound [OF assms(2)]
        drop_bit_word_of_nat_eq [of "ip_value os" "ip_value ns" 0] by simp
  next
    case 3
    then have "32 - n < 32" "n \<noteq> 0" by simp_all
    then show ?thesis
      unfolding eq cidr_mask_push [OF 3] and_mask_eq [OF \<open>32 - n < 32\<close>]
        drop_bit_word_of_nat_eq [OF ip_value_bound [OF assms(1)] ip_value_bound [OF assms(2)]]
      by simp
  qed
qed

section \<open>Hosts\<close>

definition plain_char :: "char \<Rightarrow> bool" where
  "plain_char c = (\<not> is_space c \<and> to_lower c = c \<and> c \<notin> set ''/:'')"

definition plain_host :: "string \<Rightarrow> bool" where
  "plain_host h = (h \<noteq> [] \<and> list_all plain_char h \<and> hd h \<noteq> CHR ''['')"

lemma no_scheme:
  assumes "takeWhile (\<lambda>c. c \<noteq> CHR ''/'') s = b" "b = [] \<or> last b \<noteq> CHR '':''"
  shows "\<not> prefix ''https://'' s" "\<not> prefix ''http://'' s" "\<not> prefix ''ftp://'' s" "\<not> prefix ''ftps://'' s"
  using assms by (auto simp: prefix_def)

definition port_suffix :: "string \<Rightarrow> bool" where
  "port_suffix p = (p = [] \<or> hd p = CHR '':'' \<and> tl p \<noteq> [] \<and> list_all is_digit (tl p))"

definition path_suffix :: "string \<Rightarrow> bool" where
  "path_suffix p = (p = [] \<or> hd p = CHR ''/'' \<and> tidy p)"

definition schemes :: "string list" where
  "schemes = [[], ''http://'', ''https://'', ''ftp://'', ''ftps://'']"

definition strip_port :: "string \<Rightarrow> string" where
  "strip_port t =
     (if prefix ''['' t then t
      else case lastIndexOf '':'' t of
        None \<Rightarrow> t
      | Some i \<Rightarrow> if drop (i + 1) t \<noteq> [] \<and> list_all is_digit (drop (i + 1) t) then take i t else t)"

definition strip_scheme :: "string \<Rightarrow> string" where
  "strip_scheme t =
     strip_prefix ''ftps://'' (strip_prefix ''ftp://''
       (if prefix ''https://'' t then drop 8 t else strip_prefix ''http://'' t))"

lemma normalizeTarget_alt:
  "normalizeTarget s =
     strip_port (takeWhile (\<lambda>c. c \<noteq> CHR ''/'') (strip_scheme (toLowerCase (trim s))))"
proof -
  have "sublist '':'' t" if "lastIndexOf '':'' t = Some i" for t i
    using lastIndexOf_None [of "'':''" t] that by auto
  then show ?thesis
    unfolding normalizeTarget_def strip_port_def strip_scheme_def indexOf_char_take Let_def
    by (auto split: option.splits)
qed

lemma colon_free: "CHR '':'' \<notin> set h \<Longrightarrow> lastIndexOf '':'' h = None"
  by (auto simp: lastIndexOf_None sublist_def)

lemma strip_port_host:
  assumes "h \<noteq> []" "CHR '':'' \<notin> set h" "hd h \<noteq> CHR ''[''" "port_suffix p"
  shows "strip_port (h @ p) = h"
proof -
  have br: "\<not> prefix ''['' (h @ p)" using assms(1,3) by (cases h) auto
  show ?thesis
  proof (cases p)
    case Nil
    then show ?thesis using br assms(2) by (simp add: strip_port_def colon_free)
  next
    case (Cons c ds)
    then have p: "c = CHR '':''" "ds \<noteq> []" "list_all is_digit ds"
      using assms(4) by (auto simp: port_suffix_def)
    then have "CHR '':'' \<notin> set ds" using not_digit_sep by (auto simp: list_all_iff)
    then show ?thesis using br p Cons by (simp add: strip_port_def lastIndexOf_char)
  qed
qed

lemma strip_scheme_none:
  assumes "takeWhile (\<lambda>c. c \<noteq> CHR ''/'') s = b" "b = [] \<or> last b \<noteq> CHR '':''"
  shows "strip_scheme s = s"
  using no_scheme [OF assms] by (simp add: strip_scheme_def strip_prefix_def)

lemma strip_scheme_schemes:
  assumes "sch \<in> set schemes" "strip_scheme s = s" "\<not> prefix ''ftp://'' s" "\<not> prefix ''ftps://'' s"
  shows "strip_scheme (sch @ s) = s"
  using assms by (auto simp: schemes_def strip_scheme_def strip_prefix_def)

lemma plain_hostD:
  assumes "plain_host h"
  shows "h \<noteq> []" "CHR '':'' \<notin> set h" "CHR ''/'' \<notin> set h" "hd h \<noteq> CHR ''[''" "toLowerCase h = h"
    "c \<in> set h \<Longrightarrow> \<not> is_space c"
proof -
  have pc: "plain_char c" if "c \<in> set h" for c
    using assms that by (simp add: plain_host_def list_all_iff)
  have "\<not> plain_char (CHR '':'')" "\<not> plain_char (CHR ''/'')" by (simp_all add: plain_char_def)
  with pc show "CHR '':'' \<notin> set h" "CHR ''/'' \<notin> set h" by blast+
  have "list_all (\<lambda>c. to_lower c = c) h" using pc unfolding list_all_iff plain_char_def by blast
  then show "toLowerCase h = h" by (rule toLowerCase_id)
  show "c \<in> set h \<Longrightarrow> \<not> is_space c" using pc unfolding plain_char_def by blast
qed (use assms in \<open>auto simp: plain_host_def\<close>)

lemma lower_digit: "is_digit c \<Longrightarrow> to_lower c = c"
  unfolding is_digit_def to_lower_def char_code_def by simp

lemma port_suffixD:
  assumes "port_suffix p"
  shows "CHR ''/'' \<notin> set p" "p = [] \<or> last p \<noteq> CHR '':''" "p = [] \<or> \<not> is_space (last p)"
proof -
  have "p = [] \<or> is_digit (last p)" and "\<forall>c \<in> set p. c = CHR '':'' \<or> is_digit c"
    using assms by (cases p; simp add: port_suffix_def list_all_iff)+
  then show "CHR ''/'' \<notin> set p" "p = [] \<or> last p \<noteq> CHR '':''" "p = [] \<or> \<not> is_space (last p)"
    using not_digit_sep digit_not_space by (fastforce, metis, metis)
qed

lemma toLowerCase_port: "port_suffix p \<Longrightarrow> toLowerCase p = p"
proof (cases p)
  case (Cons c ds)
  assume "port_suffix p"
  with Cons have "c = CHR '':''" "list_all is_digit ds" by (auto simp: port_suffix_def)
  moreover have "to_lower (CHR '':'') = CHR '':''" by code_simp
  ultimately show ?thesis using Cons
    by (auto simp: list_all_iff lower_digit intro!: toLowerCase_id)
qed (simp add: toLowerCase_def)

lemma toLowerCase_scheme: "sch \<in> set schemes \<Longrightarrow> toLowerCase sch = sch"
proof -
  have "list_all (\<lambda>s. toLowerCase s = s) schemes" by code_simp
  then show "sch \<in> set schemes \<Longrightarrow> toLowerCase sch = sch" by (simp add: list_all_iff)
qed

lemma tidy_url:
  assumes "sch \<in> set schemes" "plain_host h" "port_suffix p" "path_suffix q"
  shows "tidy (sch @ h @ p @ q)"
proof -
  have "list_all (\<lambda>s. s = [] \<or> \<not> is_space (hd s)) schemes" by code_simp
  then have s: "sch = [] \<or> \<not> is_space (hd sch)" using assms(1) by (auto simp: list_all_iff)
  have h: "h \<noteq> []" "\<not> is_space (hd h)" "\<not> is_space (last h)"
    using plain_hostD [OF assms(2)] by auto
  have p: "p = [] \<or> \<not> is_space (last p)"
    using port_suffixD [OF assms(3)] by blast
  have q: "q = [] \<or> \<not> is_space (last q)"
    using assms(4) by (auto simp: path_suffix_def tidy_def)
  from s h p q show ?thesis by (auto simp: tidy_def hd_append last_append)
qed

lemma normalize_url:
  assumes "sch \<in> set schemes" "plain_host h" "port_suffix p" "path_suffix q"
  shows "normalizeTarget (sch @ h @ p @ q) = h"
proof -
  note hd = plain_hostD [OF assms(2)]
  let ?body = "h @ p @ toLowerCase q"
  have low: "toLowerCase (trim (sch @ h @ p @ q)) = sch @ ?body"
    using assms by (simp add: trim_id tidy_url toLowerCase_append toLowerCase_scheme toLowerCase_port hd)
  have slash: "to_lower (CHR ''/'') = CHR ''/''" by code_simp
  note p = port_suffixD [OF assms(3)]
  have "takeWhile (\<lambda>c. c \<noteq> CHR ''/'') (toLowerCase q) = []"
    using assms(4) slash by (cases q) (simp_all add: path_suffix_def toLowerCase_def)
  then have tw: "takeWhile (\<lambda>c. c \<noteq> CHR ''/'') ?body = h @ p"
  proof -
    have "c \<noteq> CHR ''/''" if "c \<in> set (h @ p)" for c using that hd(3) p(1) by auto
    then show ?thesis
      using takeWhile_append2 [of "h @ p" "\<lambda>c. c \<noteq> CHR ''/''" "toLowerCase q"]
        \<open>takeWhile (\<lambda>c. c \<noteq> CHR ''/'') (toLowerCase q) = []\<close> by simp
  qed
  have "last (h @ p) \<noteq> CHR '':''" using p(2) hd(1,2) by (metis append_is_Nil_conv last_append last_in_set)
  then have b: "h @ p = [] \<or> last (h @ p) \<noteq> CHR '':''" ..
  have "strip_scheme (sch @ ?body) = ?body"
    by (rule strip_scheme_schemes [OF assms(1) strip_scheme_none [OF tw b]]) (use no_scheme [OF tw b] in auto)
  then show ?thesis
    unfolding normalizeTarget_alt low using tw strip_port_host [OF hd(1,2,4) assms(3)] by simp
qed

lemma normalize_plain: "plain_host h \<Longrightarrow> normalizeTarget h = h"
  using normalize_url [of "[]" h "[]" "[]"] by (simp add: schemes_def port_suffix_def path_suffix_def)

lemma isWildcard_plain: "hd p \<noteq> CHR ''*'' \<Longrightarrow> \<not> isWildcard p"
  by (cases p) (auto simp: isWildcard_def)

lemma trim_plain: "plain_host p \<Longrightarrow> trim (toLowerCase p) = p"
  using plain_hostD [of p] by (auto simp: tidy_def trim_id)

lemma domainMatches_labels:
  assumes "plain_host h" "plain_host p" "hd p \<noteq> CHR ''*''"
  shows "domainMatches h p \<longleftrightarrow> suffix (split_on (CHR ''.'') p) (split_on (CHR ''.'') h)"
  using assms labels_suffix [of h p "CHR ''.''"]
  by (simp add: domainMatches_def normalize_plain trim_plain isWildcard_plain Let_def)

lemma domainMatches_wildcard:
  assumes "plain_host h" "plain_host p" "hd p \<noteq> CHR ''*''"
  shows "domainMatches h (''*.'' @ p) = domainMatches h p"
proof -
  have low: "toLowerCase (''*.'' @ p) = ''*.'' @ p"
  proof -
    have "toLowerCase ''*.'' = ''*.''" by code_simp
    then show ?thesis using plain_hostD(5) [OF assms(2)] by (simp only: toLowerCase_append)
  qed
  have "\<not> is_space (CHR ''*'')" by code_simp
  then have "trim (''*.'' @ p) = ''*.'' @ p"
    using plain_hostD(1,6) [OF assms(2)] by (intro trim_id) (simp add: tidy_def)
  moreover have "isWildcard (''*.'' @ p)" "drop 2 (''*.'' @ p) = p" by (simp_all add: isWildcard_def)
  ultimately show ?thesis using low assms
    by (simp add: domainMatches_def normalize_plain trim_plain isWildcard_plain Let_def del: append_Cons)
qed

lemma cidr_string_normal:
  "trim (toLowerCase (ip_string ns @ ''/'' @ nat_to_string n)) = ip_string ns @ ''/'' @ nat_to_string n"
proof -
  let ?s = "ip_string ns @ ''/'' @ nat_to_string n"
  have "set (ip_string ns) \<subseteq> insert (CHR ''.'') {c. is_digit c}" by (rule set_ip_string)
  then have ch: "c = CHR ''.'' \<or> c = CHR ''/'' \<or> is_digit c" if "c \<in> set ?s" for c
    using that nat_to_string_digits [of c n] by auto
  have sep: "to_lower (CHR ''.'') = CHR ''.''" "to_lower (CHR ''/'') = CHR ''/''"
    "\<not> is_space (CHR ''.'')" "\<not> is_space (CHR ''/'')" by code_simp+
  have "list_all (\<lambda>c. to_lower c = c) ?s" using ch sep(1,2) lower_digit unfolding list_all_iff by metis
  then have "toLowerCase ?s = ?s" by (rule toLowerCase_id)
  moreover have "\<not> is_space c" if "c \<in> set ?s" for c using ch [OF that] sep(3,4) digit_not_space by metis
  then have "tidy ?s" unfolding tidy_def by (metis hd_in_set last_in_set)
  ultimately show ?thesis by (simp only: trim_id)
qed

section \<open>The decision\<close>

lemma checkScope_cases:
  "authorized (checkScope t c) \<longleftrightarrow>
     \<not> isExcluded (checkScope t c) \<and>
     ((\<exists>r \<in> set (targets c). matchesAny (normalizeTarget t) r) \<or>
      (\<exists>d \<in> set (allowed_domains c). domainMatches (normalizeTarget t) d))"
  "isExcluded (checkScope t c) \<longleftrightarrow> (\<exists>e \<in> set (excluded c). matchesAny (normalizeTarget t) e)"
  by (auto simp: checkScope_def Let_def find_None_iff dest: find_SomeD split: option.splits)

text \<open>The rules of a configuration, and when one applies to a target.\<close>

fun rule_hits :: "string \<Rightarrow> matched_rule \<Rightarrow> bool" where
  "rule_hits t (By_target r) = matchesAny (normalizeTarget t) r"
| "rule_hits t (By_domain d) = domainMatches (normalizeTarget t) d"

definition grant_rules :: "ScopeConfig \<Rightarrow> matched_rule set" where
  "grant_rules c = By_target ` set (targets c) \<union> By_domain ` set (allowed_domains c)"

definition deny_rules :: "ScopeConfig \<Rightarrow> matched_rule set" where
  "deny_rules c = By_target ` set (excluded c)"

interpretation sg2: target_policy "\<lambda>c t. authorized (checkScope t c)" grant_rules deny_rules rule_hits
  by unfold_locales (auto simp: checkScope_cases grant_rules_def deny_rules_def bex_Un)

lemma checkScope_normalized:
  "normalizeTarget t = normalizeTarget u \<Longrightarrow> checkScope t c = checkScope u c"
  by (simp add: checkScope_def)

section \<open>The YAML file\<close>

text \<open>
  Entries that survive printing and parsing: no newline, no white space at either end, not quoted,
  no \<open> #\<close> inside, not empty.
\<close>

definition clean_entry :: "string \<Rightarrow> bool" where
  "clean_entry v =
     (v \<noteq> [] \<and> tidy v \<and> list_all (\<lambda>c. \<not> is_newline c) v \<and> \<not> sublist '' #'' v \<and>
      hd v \<noteq> CHR 0x22 \<and> hd v \<noteq> CHR 0x27)"

definition clean_scope :: "ScopeConfig \<Rightarrow> bool" where
  "clean_scope c =
     (list_all clean_entry (targets c) \<and> list_all clean_entry (allowed_domains c) \<and>
      list_all clean_entry (excluded c))"

lemma stripValue_clean: "clean_entry v \<Longrightarrow> stripValue v = v"
  by (cases v) (auto simp: stripValue_def clean_entry_def trim_id indexOf_None [symmetric])

lemma parse_entry:
  assumes "clean_entry v"
  shows "parse_line (''  - '' @ v) (c, Some sec) = (push_entry sec v c, Some sec)"
proof -
  obtain x xs where v: "v = x # xs" using assms by (cases v) (auto simp: clean_entry_def)
  have sp: "is_space (CHR '' '')" "\<not> is_space (CHR ''-'')" by code_simp+
  have x: "\<not> is_space x" "\<not> is_space (last v)" using assms v by (auto simp: clean_entry_def tidy_def)
  have te: "trimEnd (''  - '' @ v) = ''  - '' @ v"
    by (rule trimEnd_id) (use x v in auto)
  have tr: "trim (''  - '' @ v) = ''- '' @ v"
  proof -
    have "trimStart (''  - '' @ v) = ''- '' @ v" using sp by (simp add: trimStart_def)
    moreover have "trimEnd (''- '' @ v) = ''- '' @ v" by (rule trimEnd_id) (use x v in auto)
    ultimately show ?thesis by (simp add: trim_def)
  qed
  have m: "match_list (''  - '' @ v) = Some v"
    using assms sp x v by (simp add: match_list_def dot_all_def clean_entry_def)
  have "trim v = v" using assms by (simp add: clean_entry_def trim_id)
  with v show ?thesis
    using te tr m stripValue_clean [OF assms] unfolding parse_line_def Let_def prod.case by simp
qed

lemma push_entries:
  assumes "list_all clean_entry vs"
  shows "fold parse_line (map (\<lambda>t. ''  - '' @ t) vs) (c, Some sec) = (fold (push_entry sec) vs c, Some sec)"
  using assms by (induction vs arbitrary: c) (simp_all add: parse_entry del: append_Cons)

lemma fold_push_entry:
  "fold (push_entry Targets) vs c = c\<lparr>targets := targets c @ vs\<rparr>"
  "fold (push_entry Allowed_Domains) vs c = c\<lparr>allowed_domains := allowed_domains c @ vs\<rparr>"
  "fold (push_entry Excluded) vs c = c\<lparr>excluded := excluded c @ vs\<rparr>"
  by (induction vs arbitrary: c) simp_all

lemma parse_headers:
  "parse_line ''---'' st = st"
  "parse_line ''targets:'' (c, s) = (c, Some Targets)"
  "parse_line ''allowed_domains:'' (c, s) = (c, Some Allowed_Domains)"
  "parse_line ''excluded:'' (c, s) = (c, Some Excluded)"
  "parse_line (''enforce: '' @ ''true'') (c, s) = (c\<lparr>enforce := True\<rparr>, None)"
  "parse_line (''enforce: '' @ ''false'') (c, s) = (c\<lparr>enforce := False\<rparr>, None)"
  by (simp_all add: parse_line_def Let_def trim_def trimEnd_def trimStart_def is_space_def char_code_def
      match_list_def match_inline_def match_section_def is_word_def is_digit_def dot_all_def is_newline_def
      section_of_def stripValue_def split: prod.splits)

lemma clean_no_newline: "clean_entry v \<Longrightarrow> CHR 0x0A \<notin> set v"
proof -
  have "is_newline (CHR 0x0A)" by code_simp
  then show "clean_entry v \<Longrightarrow> CHR 0x0A \<notin> set v" by (auto simp: clean_entry_def list_all_iff)
qed

lemma newline_free: "clean_scope c \<Longrightarrow> \<forall>w \<in> set (yaml_lines c). CHR 0x0A \<notin> set w"
  by (auto simp: yaml_lines_def clean_scope_def list_all_iff clean_no_newline)

lemma parse_save:
  assumes "clean_scope c"
  shows "parseScopeYaml (saveScopeYaml c) = c"
proof -
  have "split_on (CHR 0x0A) (saveScopeYaml c) = yaml_lines c"
    unfolding saveScopeYaml_def
    by (rule split_on_join [OF _ newline_free [OF assms]]) (simp add: yaml_lines_def)
  moreover have "fold parse_line (yaml_lines c) (empty_scope, None) =
     (\<lparr>targets = targets c, allowed_domains = allowed_domains c, excluded = excluded c, enforce = enforce c\<rparr>, None)"
    using assms unfolding clean_scope_def yaml_lines_def
    by (cases "enforce c") (simp_all add: parse_headers push_entries fold_push_entry empty_scope_def del: append_Cons)
  ultimately show ?thesis by (simp add: parseScopeYaml_def)
qed

end
