(* ===== verification/Scope_Guard_V2_Props.thy ===== *)
theory Scope_Guard_V2_Props
  imports Scope_Guard_V2_Correct
begin

text \<open>
  The properties of the scope guard: what the decision is, that a rule means what it says on
  addresses and host names, that the file keeps the scope, that the command and the hook enforce
  it, and the targets that slip through.
\<close>

definition sample_world :: scope_world where
  "sample_world =
     \<lparr>scope_yaml = Some (saveScopeYaml \<lparr>targets = [''example.com''], allowed_domains = [''example.com''],
                                         excluded = [], enforce = True\<rparr>),
      profile_json = No_profile, violations_json = None, published = []\<rparr>"

section \<open>The decision\<close>

text \<open>C6: Tightening a scope never authorizes more: when every granting entry of one configuration is one of
  another and every exclusion of the other is one of the first, a target authorized by the first is
  authorized by the second; a target that an exclusion matches is never authorized; and a scope with
  neither targets nor allowed domains authorizes nothing.\<close>
theorem scope_decision_monotone:
  assumes "set (targets c) \<subseteq> set (targets d)" "set (allowed_domains c) \<subseteq> set (allowed_domains d)"
    and "set (excluded d) \<subseteq> set (excluded c)" "authorized (checkScope t c)"
  shows "authorized (checkScope t d) \<and> \<not> (\<exists>e \<in> set (excluded c). matchesAny (normalizeTarget t) e) \<and>
    \<not> (targets c = [] \<and> allowed_domains c = [])"
proof (intro conjI)
  show "authorized (checkScope t d)"
    by (rule sg2.permit_mono [of c]) (use assms in \<open>auto simp: grant_rules_def deny_rules_def\<close>)
  show "\<not> (\<exists>e \<in> set (excluded c). matchesAny (normalizeTarget t) e)"
    using sg2.deny_wins [of _ c t] assms(4) by (force simp: deny_rules_def)
  show "\<not> (targets c = [] \<and> allowed_domains c = [])"
    using sg2.default_deny [of c t] assms(4) by (auto simp: grant_rules_def)
qed

theorem scope_decision_monotone_witness:
  "authorized (checkScope ''api.example.com''
     \<lparr>targets = [''example.com'', ''10.0.0.0/8''], allowed_domains = [], excluded = [], enforce = True\<rparr>)"
  using scope_decision_monotone
    [of "\<lparr>targets = [''example.com''], allowed_domains = [], excluded = [''pay.example.com''], enforce = True\<rparr>"
      "\<lparr>targets = [''example.com'', ''10.0.0.0/8''], allowed_domains = [], excluded = [], enforce = True\<rparr>"
      "''api.example.com''"]
  by (elim meta_impE conjE) (simp, simp, simp, code_simp, assumption)

text \<open>A URL is judged by its host alone: for every scheme the guard knows, with or without a numeric
  port and a path, normalisation yields the host in the scope rules' form, and the decision on the URL
  is the decision on that host.\<close>
theorem url_judged_by_host:
  assumes "sch \<in> set schemes" "plain_host h" "port_suffix p" "path_suffix q"
  shows "normalizeTarget (sch @ h @ p @ q) = h \<and> checkScope (sch @ h @ p @ q) c = checkScope h c"
  using normalize_url [OF assms] normalize_plain [OF assms(2)] checkScope_normalized by metis

theorem url_judged_by_host_witness:
  "normalizeTarget (''https://'' @ ''api.example.com'' @ '':8443'' @ ''/v1'') = ''api.example.com''"
  using url_judged_by_host [of "''https://''" "''api.example.com''" "'':8443''" "''/v1''" empty_scope]
  by (elim meta_impE conjE) (code_simp, code_simp, code_simp, code_simp, assumption)

text \<open>C5: A CIDR rule matches an address exactly when the two agree in the leading bits: for a prefix
  length n of 0 to 32, the address is in the block iff both numbers have the same quotient by
  2 to the power 32 - n. The signed 32-bit arithmetic of the code does not disturb this, also for
  addresses from 128.0.0.0 on, whose numbers are negative there.\<close>
theorem cidr_rule_exact:
  assumes "octets os" "octets ns" "n \<le> 32"
  shows "matchesAny (ip_string os) (ip_string ns @ ''/'' @ nat_to_string n) \<longleftrightarrow>
         ip_value os div 2 ^ (32 - n) = ip_value ns div 2 ^ (32 - n)"
proof -
  have "trim (toLowerCase (ip_string ns @ ''/'' @ nat_to_string n)) = ip_string ns @ ''/'' @ nat_to_string n"
    by (rule cidr_string_normal)
  then show ?thesis
    using ipInCIDR_iff [OF assms] isCIDR_ip_string [OF assms(2,3)] by (simp add: matchesAny_def)
qed

theorem cidr_rule_exact_witness:
  "matchesAny (ip_string [192, 168, 7, 9]) (ip_string [192, 168, 4, 0] @ ''/'' @ nat_to_string 22)"
  by (subst cidr_rule_exact) (simp_all add: octets_def ip_value_def)

text \<open>A domain rule matches whole labels: it matches a host exactly when the dot-separated labels of
  the rule are the last labels of the host, and a wildcard rule \<open>*.base\<close> matches the same hosts as
  \<open>base\<close>. So notexample.com is not matched by example.com.\<close>
theorem domain_rule_whole_labels:
  assumes "plain_host h" "plain_host p" "hd p \<noteq> CHR ''*''" "\<not> isIPv4 p"
  shows "(matchesAny h p \<longleftrightarrow> suffix (split_on (CHR ''.'') p) (split_on (CHR ''.'') h)) \<and>
         domainMatches h (''*.'' @ p) = domainMatches h p"
proof -
  have "\<not> isCIDR p" using plain_hostD(3) [OF assms(2)] by (simp add: isCIDR_def split_on_free)
  then show ?thesis
    using domainMatches_labels [OF assms(1-3)] domainMatches_wildcard [OF assms(1-3)] assms
    by (simp add: matchesAny_def trim_plain)
qed

theorem domain_rule_whole_labels_witness:
  "matchesAny ''a.example.com'' ''example.com'' \<and> \<not> matchesAny ''notexample.com'' ''example.com''"
proof -
  have p: "plain_host ''example.com''" "plain_host ''a.example.com''" "plain_host ''notexample.com''"
      "hd ''example.com'' \<noteq> CHR ''*''" "\<not> isIPv4 ''example.com''" by code_simp+
  show ?thesis
    using domain_rule_whole_labels [OF p(2) p(1) p(4) p(5)] domain_rule_whole_labels [OF p(3) p(1) p(4) p(5)]
    by (simp add: suffix_to_prefix)
qed

section \<open>The scope file and the command\<close>

text \<open>C26: Writing a scope and reading it back gives the same scope, for entries that carry no quotes, no
  newline, no comment mark and no outer white space: every command that stores a scope leaves a file
  from which the next tool call loads exactly that scope.\<close>
theorem scope_file_roundtrip:
  assumes "clean_scope c"
  shows "parseScopeYaml (saveScopeYaml c) = c \<and> loadScope (storeScope c w) = c"
  using parse_save [OF assms] by (simp add: loadScope_def storeScope_def)

theorem scope_file_roundtrip_witness:
  "parseScopeYaml (saveScopeYaml \<lparr>targets = [''*.example.com'', ''10.0.0.0/24''], allowed_domains = [''a.org''],
     excluded = [''pay.example.com''], enforce = False\<rparr>) =
   \<lparr>targets = [''*.example.com'', ''10.0.0.0/24''], allowed_domains = [''a.org''],
    excluded = [''pay.example.com''], enforce = False\<rparr>"
  using scope_file_roundtrip [of "\<lparr>targets = [''*.example.com'', ''10.0.0.0/24''], allowed_domains = [''a.org''],
     excluded = [''pay.example.com''], enforce = False\<rparr>" sample_world]
  by (elim meta_impE conjE) (code_simp, assumption)

lemma split_ws_from_word: "\<forall>c \<in> set s. \<not> is_space c \<Longrightarrow> split_ws_from u s = [u @ s]"
  by (induction s arbitrary: u) auto

lemma split_ws_from_two:
  assumes "\<forall>c \<in> set s. \<not> is_space c" "\<forall>c \<in> set t. \<not> is_space c" "t \<noteq> []"
  shows "split_ws_from u (s @ CHR '' '' # t) = [u @ s, t]"
  using assms(1)
proof (induction s arbitrary: u)
  case Nil
  have "is_space (CHR '' '')" by code_simp
  with assms(2,3) show ?case by (cases t) (auto simp: split_ws_from_word)
qed auto

lemma split_ws_two:
  assumes "\<forall>c \<in> set s. \<not> is_space c" "\<forall>c \<in> set t. \<not> is_space c" "s \<noteq> []" "t \<noteq> []"
  shows "split_ws (trim (s @ '' '' @ t)) = [s, t]"
proof -
  have "tidy (s @ '' '' @ t)" using assms by (auto simp: tidy_def)
  then show ?thesis using split_ws_from_two [OF assms(1,2,4), of "[]"] by (simp add: trim_id split_ws_def)
qed

lemma clean_add_once: "list_all clean_entry xs \<Longrightarrow> clean_entry t \<Longrightarrow> list_all clean_entry (add_once t xs)"
  by (simp add: add_once_def)

lemma exclude_command:
  assumes "clean_scope (loadScope w)" "clean_entry t" "\<forall>c \<in> set t. \<not> is_space c"
  shows "loadScope (fst (scope_command (''exclude '' @ t) w)) =
         (loadScope w)\<lparr>excluded := add_once t (excluded (loadScope w))\<rparr>"
proof -
  let ?c = "(loadScope w)\<lparr>excluded := add_once t (excluded (loadScope w))\<rparr>"
  have "\<forall>c \<in> set ''exclude''. \<not> is_space c" by code_simp
  moreover have "t \<noteq> []" using assms(2) by (simp add: clean_entry_def)
  ultimately have parts: "split_ws (trim (''exclude '' @ t)) = [''exclude'', t]"
    using split_ws_two [of "''exclude''" t] assms(3) by simp
  have "fst (scope_command (''exclude '' @ t) w) = storeScope ?c w"
    using \<open>t \<noteq> []\<close> unfolding scope_command_def parts Let_def by (simp add: arg_def)
  moreover have "clean_scope ?c" using assms(1,2) by (simp add: clean_scope_def clean_add_once)
  ultimately show ?thesis using parse_save by (simp add: loadScope_def storeScope_def)
qed

text \<open>\<open>/scope exclude t\<close> takes effect at once and against every allow rule: after it, \<open>scope_check\<close>
  answers EXCLUDED for every target the entry matches, whatever the lists of targets and allowed
  domains say, and the command leaves those lists and the enforcement flag as they were.\<close>
theorem exclude_takes_effect:
  assumes "clean_scope (loadScope w)" "clean_entry t" "\<forall>c \<in> set t. \<not> is_space c"
    and "matchesAny (normalizeTarget h) t"
  shows "let w' = fst (scope_command (''exclude '' @ t) w) in
    sr_status (scope_check h w') = EXCLUDED \<and> \<not> authorized (checkScope h (loadScope w')) \<and>
    targets (loadScope w') = targets (loadScope w) \<and>
    allowed_domains (loadScope w') = allowed_domains (loadScope w) \<and>
    enforce (loadScope w') = enforce (loadScope w) \<and>
    set (excluded (loadScope w')) = insert t (set (excluded (loadScope w)))"
proof -
  let ?c = "(loadScope w)\<lparr>excluded := add_once t (excluded (loadScope w))\<rparr>"
  have "isExcluded (checkScope h ?c)"
    using assms(4) by (auto simp: checkScope_cases add_once_def)
  then show ?thesis
    using checkScope_cases(1) [of h ?c] unfolding Let_def scope_check_def exclude_command [OF assms(1-3)]
    by (auto simp: add_once_def)
qed

theorem exclude_takes_effect_witness:
  "sr_status (scope_check ''https://x.pay.example.com/''
     (fst (scope_command (''exclude '' @ ''pay.example.com'') sample_world))) = EXCLUDED"
  using exclude_takes_effect [of sample_world "''pay.example.com''" "''https://x.pay.example.com/''"]
  unfolding Let_def
  by (elim meta_impE conjE) (code_simp, code_simp, code_simp, code_simp, assumption)

section \<open>The hook\<close>

lemma violation_frame [frame]:
  "loadScope (publish v (recordViolation u w)) = loadScope w"
  "loadViolations (publish v (recordViolation u w)) = loadViolations w @ [u]"
  "published (publish v (recordViolation u w)) = published w @ [v]"
  by (simp_all add: publish_def recordViolation_def loadViolations_def loadScope_def
      split: option.splits profile_file.splits)

text \<open>C4: The hook on tool calls is sound: with enforcement on, a call passes only when every host found in
  its command is authorized, and then nothing is written; a blocked call names the first host that is
  not, appends exactly one violation for it to the log and publishes it, and leaves the scope alone.\<close>
theorem hook_sound:
  "case on_tool_call now rnd ev w of
     (w', None) \<Rightarrow> w' = w \<and>
       (enforce (loadScope w) \<longrightarrow> (\<forall>t \<in> set (event_targets ev). authorized (checkScope t (loadScope w))))
   | (w', Some m) \<Rightarrow>
       enforce (loadScope w) \<and> loadScope w' = loadScope w \<and>
       (\<exists>ts us. event_targets ev = ts @ bm_target m # us \<and>
          \<not> authorized (checkScope (bm_target m) (loadScope w)) \<and>
          (\<forall>t \<in> set ts. authorized (checkScope t (loadScope w)))) \<and>
       v_target (bm_violation m) = bm_target m \<and>
       loadViolations w' = loadViolations w @ [bm_violation m] \<and>
       published w' = published w @ [bm_violation m]"
proof (cases "\<not> enforce (loadScope w) \<or> (\<forall>t \<in> set (event_targets ev). authorized (checkScope t (loadScope w)))")
  case True
  then have "on_tool_call now rnd ev w = (w, None)"
    by (auto simp: on_tool_call_def Let_def find_None_iff split: option.splits dest: find_SomeD)
  then show ?thesis using True by auto
next
  case False
  then have en: "enforce (loadScope w)" by simp
  from False obtain t where t: "find (\<lambda>t. \<not> authorized (checkScope t (loadScope w))) (event_targets ev) = Some t"
    using find_isSome [of "\<lambda>t. \<not> authorized (checkScope t (loadScope w))" "event_targets ev"] by auto
  from find_split [OF t] show ?thesis
    unfolding on_tool_call_def Let_def t using en
    by (simp add: violation_frame)
qed

definition sample_scope :: ScopeConfig where
  "sample_scope = \<lparr>targets = [''example.com''], allowed_domains = [''example.com''], excluded = [], enforce = True\<rparr>"

lemma sample_load: "loadScope sample_world = sample_scope" "enforce sample_scope"
  by (code_simp, simp add: sample_scope_def)

lemma sample_decisions:
  "authorized (checkScope ''evil.org'' sample_scope) = False"
  "authorized (checkScope ''example.com'' sample_scope) = True"
  "authorized (checkScope ''-s'' sample_scope) = False"
  by code_simp+

lemma sample_hosts:
  "extract_hosts ''curl evil.org'' = [''evil.org'']"
  "extract_hosts ''curl https://example.com https://evil.org'' = [''example.com'']"
  "extract_hosts ''curl -s https://example.com'' = [''-s'']"
  by code_simp+

lemma hook_on_bash:
  "snd (on_tool_call now rnd \<lparr>te_toolName = ''bash'', te_command = Some cmd\<rparr> sample_world) = None \<longleftrightarrow>
     list_all (\<lambda>t. authorized (checkScope t sample_scope)) (extract_hosts cmd)"
  "map_option bm_target (snd (on_tool_call now rnd \<lparr>te_toolName = ''bash'', te_command = Some cmd\<rparr> sample_world)) =
     find (\<lambda>t. \<not> authorized (checkScope t sample_scope)) (extract_hosts cmd)"
  by (auto simp: on_tool_call_def Let_def sample_load event_targets_def find_None_iff list_all_iff
      split: option.splits dest: find_SomeD intro: sym [OF find_None_iff [THEN iffD2]])

theorem hook_sound_witness:
  "snd (on_tool_call 0 ''r'' \<lparr>te_toolName = ''bash'', te_command = Some ''curl evil.org''\<rparr> sample_world) \<noteq> None \<and>
   loadScope (fst (on_tool_call 0 ''r'' \<lparr>te_toolName = ''bash'', te_command = Some ''curl evil.org''\<rparr> sample_world)) =
   loadScope sample_world"
proof -
  let ?r = "on_tool_call 0 ''r'' \<lparr>te_toolName = ''bash'', te_command = Some ''curl evil.org''\<rparr> sample_world"
  have b: "snd ?r \<noteq> None" by (simp add: hook_on_bash sample_hosts sample_decisions)
  then obtain w' m where r: "?r = (w', Some m)" by (metis not_None_eq prod.collapse)
  show ?thesis
    using hook_sound [where now = 0 and rnd = "''r''" and ev = "\<lparr>te_toolName = ''bash'', te_command = Some ''curl evil.org''\<rparr>" and w = sample_world]
    unfolding r prod.case option.case fst_conv snd_conv by simp
qed

lemma takeWhile_host:
  assumes "list_all host_char h" "r = [] \<or> \<not> host_char (hd r)"
  shows "takeWhile host_char (h @ r) = h" "dropWhile host_char (h @ r) = r"
  using assms by (cases r; simp add: list_all_iff takeWhile_append dropWhile_append)+

lemma match_curl_url:
  assumes "k \<in> {''curl'', ''wget''}" "sch \<in> {''http://'', ''https://''}"
    and "h \<noteq> []" "list_all host_char h" "r = [] \<or> \<not> host_char (hd r)"
  shows "match_curl (k @ '' '' @ sch @ h @ r) = Some (h, r)"
proof -
  have sp: "is_space (CHR '' '')" "\<not> is_space (CHR ''h'')" by code_simp+
  have host: "plus host_char (h @ r) = Some (h, r)"
    using takeWhile_host [OF assms(4,5)] assms(3) by (simp add: plus_def)
  have "keyword k (k @ '' '' @ sch @ h @ r) = Some (sch @ h @ r)"
    using assms(2) sp by (elim insertE emptyE) (simp_all add: keyword_def literal_def plus_def)
  moreover have "k = ''curl'' \<or> keyword ''curl'' (k @ '' '' @ sch @ h @ r) = None"
    using assms(1) by (elim insertE emptyE) (simp_all add: keyword_def literal_def)
  moreover have "or_match (literal ''https://'' (sch @ h @ r)) (literal ''http://'' (sch @ h @ r)) = Some (h @ r)"
    using assms(2) by (elim insertE emptyE) (simp_all add: literal_def or_match_def)
  ultimately show ?thesis
    using assms(1) host by (elim insertE emptyE) (simp_all add: match_curl_def or_match_def)
qed

lemma scan_all_hit: "m s = Some (cap, rest) \<Longrightarrow> length rest < length s \<Longrightarrow> scan_all m s = cap # scan_all m rest"
  by (cases s) auto

lemma extract_curl:
  assumes "k \<in> {''curl'', ''wget''}" "sch \<in> {''http://'', ''https://''}"
    and "h \<noteq> []" "list_all host_char h" "r = [] \<or> \<not> host_char (hd r)"
  shows "\<exists>us. extract_hosts (k @ '' '' @ sch @ h @ r) = h # us"
proof -
  have at: "\<not> sublist ''@'' h"
  proof
    assume "sublist ''@'' h"
    then have "CHR ''@'' \<in> set h" by (auto simp: sublist_def)
    moreover have "\<not> host_char (CHR ''@'')" by code_simp
    ultimately show False using assms(4) by (auto simp: list_all_iff)
  qed
  have "scan_all match_curl (k @ '' '' @ sch @ h @ r) = h # scan_all match_curl r"
    by (rule scan_all_hit [where m = match_curl, OF match_curl_url [OF assms]]) (use assms(3) in auto)
  then show ?thesis using at by (simp add: extract_hosts_def hostPatterns_def capture_host_def)
qed

text \<open>With enforcement on, a bash call that fetches a URL with \<open>curl\<close> or \<open>wget\<close> from a host that is not
  authorized is blocked, and the violation names that host: whatever follows the host in the command
  does not matter.\<close>
theorem curl_out_of_scope_blocked:
  assumes "enforce (loadScope w)" "\<not> authorized (checkScope h (loadScope w))"
    and "k \<in> {''curl'', ''wget''}" "sch \<in> {''http://'', ''https://''}"
    and "h \<noteq> []" "list_all host_char h" "r = [] \<or> \<not> host_char (hd r)"
  shows "\<exists>m. snd (on_tool_call now rnd
               \<lparr>te_toolName = ''bash'', te_command = Some (k @ '' '' @ sch @ h @ r)\<rparr> w) = Some m \<and>
             bm_target m = h \<and> v_target (bm_violation m) = h"
proof -
  obtain us where "extract_hosts (k @ '' '' @ sch @ h @ r) = h # us"
    using extract_curl [OF assms(3-7)] by blast
  then show ?thesis using assms(1,2) by (simp add: on_tool_call_def event_targets_def Let_def)
qed

section \<open>What the guard lets through\<close>

definition pay_scope :: ScopeConfig where
  "pay_scope = \<lparr>targets = [], allowed_domains = [''example.com''], excluded = [''pay.example.com''], enforce = True\<rparr>"

text \<open>The user part and the query of a URL are not stripped, so they defeat the rules: a URL on an
  excluded host is authorized when it carries a user name, and a URL on a foreign host is authorized
  when its query ends like an allowed domain. Without those parts both are refused.\<close>
theorem userinfo_and_query_bypass:
  "\<not> authorized (checkScope ''https://pay.example.com/'' pay_scope) \<and>
   authorized (checkScope ''https://user@pay.example.com/'' pay_scope) \<and>
   \<not> authorized (checkScope ''https://evil.org/'' pay_scope) \<and>
   authorized (checkScope ''https://evil.org?.example.com'' pay_scope)"
  by code_simp

text \<open>The hook reads one word after the name of a program: a second URL on the same command line is
  not checked, while an option before an authorized URL is taken for a host and gets the call blocked.\<close>
theorem hook_reads_one_word:
  "snd (on_tool_call 0 ''r'' \<lparr>te_toolName = ''bash'',
     te_command = Some ''curl https://example.com https://evil.org''\<rparr> sample_world) = None \<and>
   map_option bm_target (snd (on_tool_call 0 ''r'' \<lparr>te_toolName = ''bash'',
     te_command = Some ''curl -s https://example.com''\<rparr> sample_world)) = Some ''-s''"
  unfolding hook_on_bash sample_hosts by (simp add: sample_decisions)

text \<open>Without any scope file the session notice announces advisory mode only, yet the hook blocks every
  host: the default configuration has enforcement on and no target.\<close>
theorem advisory_notice_but_blocking:
  "let w = sample_world\<lparr>scope_yaml := None\<rparr> in
   on_session_start w = Advisory_notice \<and>
   snd (on_tool_call 0 ''r'' \<lparr>te_toolName = ''bash'', te_command = Some ''curl example.com''\<rparr> w) \<noteq> None"
  by code_simp

end
