(* ===== verification/Scope_Guard.thy ===== *)
theory Scope_Guard
  imports JSString Target_Policy
begin

text \<open>
  The first scope guard (\<open>scope-guard.ts\<close>): the scope kept in \<open>profile.json\<close>, the test of a target
  against the list of authorized patterns, the two tools and the command.
\<close>

section \<open>Data\<close>

record ScopeConfig1 =
  sc1_authorized :: bool
  sc1_targets :: "string list"
  sc1_enforce :: bool

text \<open>
  The profile file: missing, not JSON, or an object with or without a scope. The rest of the object
  is kept as it is.
\<close>

datatype 'r profile1 = Missing1 | Malformed1 | Profile1 "ScopeConfig1 option" 'r

definition no_scope1 :: ScopeConfig1 where
  "no_scope1 = \<lparr>sc1_authorized = False, sc1_targets = [], sc1_enforce = True\<rparr>"

fun loadScope1 :: "'r profile1 \<Rightarrow> ScopeConfig1" where
  "loadScope1 (Profile1 sc _) = or_else sc no_scope1"
| "loadScope1 Missing1 = no_scope1"
| "loadScope1 Malformed1 = no_scope1"

section \<open>Matching\<close>

text \<open>One round of the loop over the authorized patterns.\<close>

definition pattern_hits :: "string \<Rightarrow> string \<Rightarrow> bool" where
  "pattern_hits target p =
     (target = p \<or>
      (sublist ''/'' p \<and>
        (let network = hd (split_on (CHR ''/'') p);
             targetIp = hd (split_on (CHR '':'') target)
         in prefix (join ''.'' (take 2 (split_on (CHR ''.'') network))) targetIp)) \<or>
      (prefix ''*.'' p \<and> (let domain = drop 2 p in target = domain \<or> suffix (''.'' @ domain) target)) \<or>
      (target = p \<or> suffix (''.'' @ p) target))"

definition isTargetAuthorized :: "string \<Rightarrow> string list \<Rightarrow> bool" where
  "isTargetAuthorized target ps = (if ps = [] then False else list_ex (pattern_hits target) ps)"

section \<open>Tools and command\<close>

datatype check1_response =
    Not_configured string
  | Checked1 string bool bool

definition scope_check1 :: "string \<Rightarrow> 'r profile1 \<Rightarrow> check1_response" where
  "scope_check1 target f =
     (let scope = loadScope1 f in
      if \<not> sc1_authorized scope then Not_configured target
      else Checked1 target (isTargetAuthorized target (sc1_targets scope)) (sc1_enforce scope))"

datatype set1_response = Scope_stored ScopeConfig1 | Set_error

definition scope_set1 :: "string list \<Rightarrow> bool \<Rightarrow> 'r profile1 \<Rightarrow> 'r profile1 \<times> set1_response" where
  "scope_set1 ts auth f =
     (case f of
        Profile1 _ rest \<Rightarrow>
          (let scope = \<lparr>sc1_authorized = auth, sc1_targets = ts, sc1_enforce = True\<rparr>
           in (Profile1 (Some scope) rest, Scope_stored scope))
      | _ \<Rightarrow> (f, Set_error))"

datatype command1_response = Status1 ScopeConfig1 | Command_set set1_response | Usage1

definition scope_command1 :: "string \<Rightarrow> 'r profile1 \<Rightarrow> 'r profile1 \<times> command1_response" where
  "scope_command1 args f =
     (if trim args = [] then (f, Status1 (loadScope1 f))
      else
        (case split_ws (trim args) of
           sub # arg # _ \<Rightarrow>
             if sub = ''set'' \<and> arg \<noteq> []
             then (let ts = filter (\<lambda>t. t \<noteq> []) (map trim (split_on (CHR '','') arg));
                       (f', r) = scope_set1 ts True f
                   in (f', Command_set r))
             else (f, Usage1)
         | _ \<Rightarrow> (f, Usage1)))"

section \<open>Correctness\<close>

interpretation sg1: target_policy "\<lambda>ps t. isTargetAuthorized t ps" set "\<lambda>_. {}" pattern_hits
  by unfold_locales (auto simp: isTargetAuthorized_def list_ex_iff)

lemma isTargetAuthorized_iff: "isTargetAuthorized t ps \<longleftrightarrow> (\<exists>p \<in> set ps. pattern_hits t p)"
  by (auto simp: isTargetAuthorized_def list_ex_iff)

text \<open>A pattern without slash and star is a domain: it hits the hosts whose last labels are its labels.\<close>

lemma pattern_hits_labels:
  assumes "CHR ''/'' \<notin> set p" "\<not> prefix ''*.'' p"
  shows "pattern_hits t p \<longleftrightarrow> suffix (split_on (CHR ''.'') p) (split_on (CHR ''.'') t)"
proof -
  have "\<not> sublist ''/'' p" using assms(1) by (auto simp: sublist_def)
  then show ?thesis using assms(2) labels_suffix [of t p "CHR ''.''"] by (auto simp: pattern_hits_def)
qed

lemma scope_set1_roundtrip:
  "loadScope1 (fst (scope_set1 ts auth (Profile1 sc rest))) = \<lparr>sc1_authorized = auth, sc1_targets = ts, sc1_enforce = True\<rparr>"
  by (simp add: scope_set1_def Let_def)

end
