(* ===== verification/Security_Graph.thy ===== *)
theory Security_Graph
  imports JSString Json_Store
begin

text \<open>
  The security graph (\<open>security-graph.ts\<close>): nodes and directed, labelled edges, the breadth-first
  search for paths and for attack chains, and the five tools. Depths, scores and limits are whole
  numbers. The constructors are the strings of the source with a capital letter. The HTML page is represented by the graph it is drawn from; its markup is not modelled.
\<close>

section \<open>Data\<close>

datatype NodeType =
    Host | Service | Endpoint | Api | User | Identity | Role | Org | Domain | Subdomain
  | Credential | Token | Workflow | Permission | Finding | Hypothesis | Trust_Boundary
  | Database | Queue

datatype Relationship =
    OWNS | ACCESSES | CALLS | TRUSTS | BELONGS_TO | AUTHENTICATES | AUTHORIZES | READS | WRITES
  | DEPENDS_ON | FLOWS_TO | EXPOSES | REQUIRES | ENABLES | COMBINES_WITH

datatype Severity = Critical | High | Medium | Low | Info

record SecNode =
  n_id :: string
  n_type :: NodeType
  n_label :: string
  n_detail :: "string option"
  n_severity :: "Severity option"
  n_metadata :: "(string \<times> string) list option"
  n_created :: "time option"

record SecEdge =
  e_from :: string
  e_to :: string
  e_relationship :: Relationship
  e_detail :: "string option"

record GraphMeta =
  m_target :: "string option"
  m_engagement :: "string option"
  m_updated :: "time option"

record SecGraph =
  nodes :: "SecNode list"
  edges :: "SecEdge list"
  meta :: GraphMeta

fun PRIVILEGE_LEVEL :: "NodeType \<Rightarrow> int" where
  "PRIVILEGE_LEVEL Trust_Boundary = 0"
| "PRIVILEGE_LEVEL Domain = 1"
| "PRIVILEGE_LEVEL Subdomain = 1"
| "PRIVILEGE_LEVEL Org = 1"
| "PRIVILEGE_LEVEL Host = 2"
| "PRIVILEGE_LEVEL Queue = 2"
| "PRIVILEGE_LEVEL Database = 3"
| "PRIVILEGE_LEVEL Service = 3"
| "PRIVILEGE_LEVEL Endpoint = 3"
| "PRIVILEGE_LEVEL Api = 3"
| "PRIVILEGE_LEVEL Workflow = 3"
| "PRIVILEGE_LEVEL Permission = 4"
| "PRIVILEGE_LEVEL Role = 4"
| "PRIVILEGE_LEVEL User = 4"
| "PRIVILEGE_LEVEL Identity = 5"
| "PRIVILEGE_LEVEL Credential = 5"
| "PRIVILEGE_LEVEL Token = 5"
| "PRIVILEGE_LEVEL Finding = 0"
| "PRIVILEGE_LEVEL Hypothesis = 0"

definition ESCALATION_RELATIONSHIPS :: "Relationship set" where
  "ESCALATION_RELATIONSHIPS =
     {ACCESSES, AUTHENTICATES, AUTHORIZES, FLOWS_TO, ENABLES, COMBINES_WITH, TRUSTS}"

definition ACCESS_RELATIONSHIPS :: "Relationship set" where
  "ACCESS_RELATIONSHIPS = {READS, WRITES, ACCESSES, CALLS, FLOWS_TO}"

section \<open>The files\<close>

text \<open>The page and the export are represented by what they are generated from.\<close>

datatype graph_json = No_graph | Graph_json SecGraph

record ('c) graph_files =
  graph_file :: graph_json
  html_file :: "SecGraph option"
  export_file :: "(SecGraph \<times> 'c list option) option"

definition no_meta :: GraphMeta where
  "no_meta = \<lparr>m_target = None, m_engagement = None, m_updated = None\<rparr>"

definition sg_load :: "('c, 'z) graph_files_scheme \<Rightarrow> SecGraph" where
  "sg_load f = (case graph_file f of
     Graph_json g \<Rightarrow> g | No_graph \<Rightarrow> \<lparr>nodes = [], edges = [], meta = no_meta\<rparr>)"

text \<open>\<open>save\<close> stamps the graph in memory too, so the page drawn after it shows the new time.\<close>

definition stamped :: "time \<Rightarrow> SecGraph \<Rightarrow> SecGraph" where
  "stamped now g = g\<lparr>meta := (meta g)\<lparr>m_updated := Some now\<rparr>\<rparr>"

definition write_graph :: "SecGraph \<Rightarrow> ('c, 'z) graph_files_scheme \<Rightarrow> ('c, 'z) graph_files_scheme" where
  "write_graph g f = f\<lparr>graph_file := Graph_json g\<rparr>"

definition sg_save :: "time \<Rightarrow> SecGraph \<Rightarrow> ('c, 'z) graph_files_scheme \<Rightarrow> ('c, 'z) graph_files_scheme" where
  "sg_save now g f = write_graph (stamped now g) f"

definition write_html :: "SecGraph \<Rightarrow> ('c, 'z) graph_files_scheme \<Rightarrow> ('c, 'z) graph_files_scheme" where
  "write_html g f = f\<lparr>html_file := Some g\<rparr>"

section \<open>Nodes and edges\<close>

definition findNode :: "SecGraph \<Rightarrow> string \<Rightarrow> SecNode option" where
  "findNode g i = find (\<lambda>n. n_id n = i) (nodes g)"

definition upsertNode :: "SecGraph \<Rightarrow> SecNode \<Rightarrow> SecGraph" where
  "upsertNode g node =
     (if findNode g (n_id node) \<noteq> None
      then g\<lparr>nodes := map_first (\<lambda>n. n_id n = n_id node) (\<lambda>_. node) (nodes g)\<rparr>
      else g\<lparr>nodes := nodes g @ [node]\<rparr>)"

definition same_edge :: "SecEdge \<Rightarrow> SecEdge \<Rightarrow> bool" where
  "same_edge d e = (e_from e = e_from d \<and> e_to e = e_to d \<and> e_relationship e = e_relationship d)"

definition addEdge :: "SecGraph \<Rightarrow> SecEdge \<Rightarrow> SecGraph" where
  "addEdge g edge =
     (if find (same_edge edge) (edges g) \<noteq> None
      then (if truthy (e_detail edge)
            then g\<lparr>edges := map_first (same_edge edge) (\<lambda>d. d\<lparr>e_detail := e_detail edge\<rparr>) (edges g)\<rparr>
            else g)
      else g\<lparr>edges := edges g @ [edge]\<rparr>)"

definition adjacency :: "SecGraph \<Rightarrow> string \<Rightarrow> SecEdge list option" where
  "adjacency g =
     fold (\<lambda>e adj. adj(e_from e \<mapsto> or_else (adj (e_from e)) [] @ [e])) (edges g)
       (fold (\<lambda>n adj. adj(n_id n \<mapsto> [])) (nodes g) (\<lambda>_. None))"

section \<open>Breadth-first search\<close>

text \<open>
  \<open>findPaths\<close> and \<open>findAttackChains\<close> run the same loop: an entry of the queue is a path with the
  edges it took and the nodes it visited (the search for paths does not use the edges). \<open>expand_edges\<close> is
  the loop over the edges of a node, which returns the entries to push and the hits; \<open>search_loop\<close>
  stops when the queue is empty or the results have reached the cap.
\<close>

record search_entry =
  q_node :: string
  q_path :: "string list"
  q_edges :: "SecEdge list"
  q_visited :: "string set"

definition step_to :: "search_entry \<Rightarrow> SecEdge \<Rightarrow> search_entry" where
  "step_to it e =
     \<lparr>q_node = e_to e, q_path = q_path it @ [e_to e], q_edges = q_edges it @ [e],
      q_visited = insert (e_to e) (q_visited it)\<rparr>"

fun expand_edges ::
  "(Relationship \<Rightarrow> bool) \<Rightarrow> string \<Rightarrow> int \<Rightarrow> search_entry \<Rightarrow> SecEdge list \<Rightarrow>
   search_entry list \<times> search_entry list" where
  "expand_edges allow goal maxDepth it [] = ([], [])"
| "expand_edges allow goal maxDepth it (e # es) =
     (let (push, hits) = expand_edges allow goal maxDepth it es;
          new = step_to it e in
      if e_to e \<in> q_visited it then (push, hits)
      else if \<not> allow (e_relationship e) then (push, hits)
      else if e_to e = goal then (push, new # hits)
      else if int (length (q_path new)) - 1 < maxDepth then (new # push, hits)
      else (push, hits))"

definition room :: "int \<Rightarrow> search_entry \<Rightarrow> nat" where
  "room maxDepth it = nat (maxDepth + 1) - length (q_path it)"

lemma expand_edges_room:
  "x \<in> set (fst (expand_edges allow goal maxDepth it es)) \<Longrightarrow> room maxDepth x < room maxDepth it"
  by (induction es) (auto simp: Let_def room_def step_to_def split: prod.splits if_splits)

function search_loop ::
  "(Relationship \<Rightarrow> bool) \<Rightarrow> (string \<Rightarrow> SecEdge list) \<Rightarrow> (search_entry \<Rightarrow> 'r) \<Rightarrow> nat \<Rightarrow> string \<Rightarrow> int \<Rightarrow>
   search_entry list \<Rightarrow> 'r list \<Rightarrow> 'r list" where
  "search_loop allow nbrs emit cap goal maxDepth queue acc =
     (case queue of
        [] \<Rightarrow> acc
      | it # rest \<Rightarrow>
          if length acc \<ge> cap then acc
          else if int (length (q_path it)) - 1 \<ge> maxDepth
          then search_loop allow nbrs emit cap goal maxDepth rest acc
          else
            (let (push, hits) = expand_edges allow goal maxDepth it (nbrs (q_node it)) in
             search_loop allow nbrs emit cap goal maxDepth (rest @ push) (acc @ map emit hits)))"
  by pat_completeness auto
termination
proof (relation "inv_image (mult less_than) (\<lambda>(allow, nbrs, emit, cap, goal, maxDepth, queue, acc).
    image_mset (room maxDepth) (mset queue))", goal_cases)
  case 1
  show ?case by (simp add: wf_mult)
next
  case 2
  then show ?case by (simp add: mult_def) (metis add_mset_add_single mult1I trancl.r_into_trancl empty_neutral(2) empty_iff set_mset_empty)
next
  case (3 allow nbrs emit cap goal maxDepth queue acc it rest x push hits)
  then have "\<forall>y \<in> set push. room maxDepth y < room maxDepth it"
    using expand_edges_room [of _ allow goal maxDepth it "nbrs (q_node it)"] by (metis fst_conv)
  then have "(image_mset (room maxDepth) (mset rest) + image_mset (room maxDepth) (mset push),
      image_mset (room maxDepth) (mset rest) + {#room maxDepth it#}) \<in> mult less_than"
    by (intro one_step_implies_mult) auto
  with 3(1) show ?case by simp
qed

declare search_loop.simps [simp del]

text \<open>
  The loop as it is written, on the queue and the paths found: its condition, and one round. The recursion above is the
  value it ends with.
\<close>

definition search_going :: "nat \<Rightarrow> search_entry list \<times> 'r list \<Rightarrow> bool" where
  "search_going cap st = (length (fst st) > 0 \<and> length (snd st) < cap)"

definition search_round ::
  "(Relationship \<Rightarrow> bool) \<Rightarrow> (string \<Rightarrow> SecEdge list) \<Rightarrow> (search_entry \<Rightarrow> 'r) \<Rightarrow> string \<Rightarrow> int \<Rightarrow>
   search_entry list \<times> 'r list \<Rightarrow> search_entry list \<times> 'r list" where
  "search_round allow nbrs emit goal maxDepth st =
     (case st of
        ([], acc) \<Rightarrow> ([], acc)
      | (it # rest, acc) \<Rightarrow>
          if int (length (q_path it)) - 1 \<ge> maxDepth then (rest, acc)
          else
            (let (push, hits) = expand_edges allow goal maxDepth it (nbrs (q_node it)) in (rest @ push, acc @ map emit hits)))"

definition start_entry :: "string \<Rightarrow> search_entry" where
  "start_entry s = \<lparr>q_node = s, q_path = [s], q_edges = [], q_visited = {s}\<rparr>"

definition findPaths :: "SecGraph \<Rightarrow> string \<Rightarrow> string \<Rightarrow> int \<Rightarrow> string list list" where
  "findPaths g source target maxDepth =
     (let adj = adjacency g in
      search_loop (\<lambda>_. True) (\<lambda>i. or_else (adj i) []) q_path 20 target maxDepth [start_entry source] [])"

section \<open>Attack chains\<close>

record attack_chain =
  c_path :: "string list"
  c_edges :: "SecEdge list"
  c_start :: SecNode
  c_end :: SecNode
  c_score :: int

definition chain_allowed :: "Relationship \<Rightarrow> bool" where
  "chain_allowed r = (r \<in> ESCALATION_RELATIONSHIPS \<or> r \<in> ACCESS_RELATIONSHIPS)"

definition chain_score :: "NodeType \<Rightarrow> NodeType \<Rightarrow> nat \<Rightarrow> int" where
  "chain_score s e hops = max ((PRIVILEGE_LEVEL e - PRIVILEGE_LEVEL s) * 10 - int hops) 1"

definition chain_of :: "SecNode \<Rightarrow> SecNode \<Rightarrow> search_entry \<Rightarrow> attack_chain" where
  "chain_of s e it =
     \<lparr>c_path = q_path it, c_edges = q_edges it, c_start = s, c_end = e,
      c_score = chain_score (n_type s) (n_type e) (length (q_path it) - 1)\<rparr>"

definition chains_between ::
  "SecGraph \<Rightarrow> int \<Rightarrow> SecNode \<Rightarrow> SecNode \<Rightarrow> attack_chain list \<Rightarrow> attack_chain list" where
  "chains_between g maxDepth s e found =
     (if n_id s = n_id e then found
      else search_loop chain_allowed (\<lambda>i. or_else (adjacency g i) []) (chain_of s e) 50 (n_id e) maxDepth
             [start_entry (n_id s)] found)"

definition lowPriv :: "SecGraph \<Rightarrow> SecNode list" where
  "lowPriv g = filter (\<lambda>n. PRIVILEGE_LEVEL (n_type n) \<le> 2) (nodes g)"

definition highImpact :: "SecGraph \<Rightarrow> SecNode list" where
  "highImpact g = filter (\<lambda>n. PRIVILEGE_LEVEL (n_type n) \<ge> 4) (nodes g)"

text \<open>The chains in the order in which the two nested loops find them, and sorted by score.\<close>

definition collect_chains :: "SecGraph \<Rightarrow> int \<Rightarrow> attack_chain list" where
  "collect_chains g maxDepth =
     fold (\<lambda>s found. fold (\<lambda>e found. chains_between g maxDepth s e found) (highImpact g) found) (lowPriv g) []"

definition findAttackChains :: "SecGraph \<Rightarrow> int \<Rightarrow> attack_chain list" where
  "findAttackChains g maxDepth = sort_key (\<lambda>c. - c_score c) (collect_chains g maxDepth)"

section \<open>Summary\<close>

record graph_summary =
  s_nodes :: nat
  s_edges :: nat
  s_by_type :: "NodeType \<Rightarrow> nat"
  s_by_rel :: "Relationship \<Rightarrow> nat"
  s_boundaries :: "string list"
  s_creds :: nat
  s_findings :: nat
  s_crit_findings :: nat
  s_hypotheses :: nat
  s_top :: "(string \<times> string \<times> nat \<times> int) list"

definition count_by :: "('a \<Rightarrow> 'k) \<Rightarrow> 'a list \<Rightarrow> 'k \<Rightarrow> nat" where
  "count_by k xs = fold (\<lambda>x acc. acc(k x := acc (k x) + 1)) xs (\<lambda>_. 0)"

definition graphSummary :: "SecGraph \<Rightarrow> graph_summary option" where
  "graphSummary g =
     (if nodes g = [] then None
      else
        (let findings = filter (\<lambda>n. n_type n = Finding) (nodes g);
             topChains = take 5 (findAttackChains g 10)
         in Some \<lparr>s_nodes = length (nodes g), s_edges = length (edges g),
              s_by_type = count_by n_type (nodes g), s_by_rel = count_by e_relationship (edges g),
              s_boundaries = map n_label (filter (\<lambda>n. n_type n = Trust_Boundary) (nodes g)),
              s_creds = length (filter (\<lambda>n. n_type n = Credential \<or> n_type n = Token) (nodes g)),
              s_findings = length findings,
              s_crit_findings =
                length (filter (\<lambda>n. n_severity n = Some Critical \<or> n_severity n = Some High) findings),
              s_hypotheses = length (filter (\<lambda>n. n_type n = Hypothesis) (nodes g)),
              s_top = map (\<lambda>c. (n_label (c_start c), n_label (c_end c), length (c_path c) - 1, c_score c))
                        topChains\<rparr>))"

section \<open>The tools that change the graph\<close>

type_synonym sg_files = "attack_chain graph_files"

record add_params =
  ap_id :: string
  ap_type :: NodeType
  ap_label :: string
  ap_detail :: "string option"
  ap_severity :: "Severity option"
  ap_metadata :: "(string \<times> string) list option"

definition node_of_params :: "time \<Rightarrow> add_params \<Rightarrow> SecNode" where
  "node_of_params now p =
     \<lparr>n_id = ap_id p, n_type = ap_type p, n_label = ap_label p, n_detail = ap_detail p,
      n_severity = ap_severity p, n_metadata = ap_metadata p, n_created = Some now\<rparr>"

text \<open>The response of \<open>sec_graph_add\<close> gives the numbers of nodes and edges.\<close>

definition sec_graph_add :: "time \<Rightarrow> add_params \<Rightarrow> sg_files \<Rightarrow> sg_files \<times> nat \<times> nat" where
  "sec_graph_add now p f =
     (let g = sg_load f;
          node = node_of_params now p;
          node = (case findNode g (ap_id p) of
                    Some ex \<Rightarrow> (case n_created ex of Some c \<Rightarrow> node\<lparr>n_created := Some c\<rparr> | None \<Rightarrow> node)
                  | None \<Rightarrow> node);
          g = upsertNode g node;
          f = write_html (stamped now g) (sg_save now g f)
      in (f, length (nodes g), length (edges g)))"

record link_params =
  lp_from :: string
  lp_to :: string
  lp_relationship :: Relationship
  lp_detail :: "string option"

text \<open>The response of \<open>sec_graph_link\<close> lists the end points that are not in the graph.\<close>

definition sec_graph_link :: "time \<Rightarrow> link_params \<Rightarrow> sg_files \<Rightarrow> sg_files \<times> string list" where
  "sec_graph_link now p f =
     (let g = sg_load f;
          warnings = (if findNode g (lp_from p) = None then [lp_from p] else []) @
                     (if findNode g (lp_to p) = None then [lp_to p] else []);
          edge = \<lparr>e_from = lp_from p, e_to = lp_to p, e_relationship = lp_relationship p,
                  e_detail = lp_detail p\<rparr>;
          g = addEdge g edge
      in (write_html (stamped now g) (sg_save now g f), warnings))"

section \<open>Queries\<close>

definition path_edge :: "SecGraph \<Rightarrow> string \<Rightarrow> string \<Rightarrow> SecEdge option" where
  "path_edge g a b = find (\<lambda>e. e_from e = a \<and> e_to e = b) (edges g)"

definition hops :: "'a list \<Rightarrow> ('a \<times> 'a) list" where
  "hops p = zip p (tl p)"

definition label_of :: "SecGraph \<Rightarrow> string \<Rightarrow> string" where
  "label_of g i = (case findNode g i of Some n \<Rightarrow> n_label n | None \<Rightarrow> i)"

datatype direction = Out | In | Both

datatype graph_query =
    By_type "NodeType option"
  | By_relationship "Relationship option"
  | Paths "string option" "string option" "int option"
  | Search "string option"
  | Neighbors "string option" "direction option"

datatype query_response =
    Nodes_found "SecNode list"
  | Edges_found "SecEdge list"
  | Paths_found "(string list \<times> Relationship option list) list" int
  | Search_found "SecNode list" "SecEdge list"
  | Neighbors_found "SecEdge list" "SecEdge list" "SecNode list"
  | Query_error string

fun rel_name :: "Relationship \<Rightarrow> string" where
  "rel_name OWNS = ''OWNS''" | "rel_name ACCESSES = ''ACCESSES''" | "rel_name CALLS = ''CALLS''"
| "rel_name TRUSTS = ''TRUSTS''" | "rel_name BELONGS_TO = ''BELONGS_TO''"
| "rel_name AUTHENTICATES = ''AUTHENTICATES''" | "rel_name AUTHORIZES = ''AUTHORIZES''"
| "rel_name READS = ''READS''" | "rel_name WRITES = ''WRITES''" | "rel_name DEPENDS_ON = ''DEPENDS_ON''"
| "rel_name FLOWS_TO = ''FLOWS_TO''" | "rel_name EXPOSES = ''EXPOSES''" | "rel_name REQUIRES = ''REQUIRES''"
| "rel_name ENABLES = ''ENABLES''" | "rel_name COMBINES_WITH = ''COMBINES_WITH''"

definition includes_ci :: "string \<Rightarrow> string \<Rightarrow> bool" where
  "includes_ci q s = sublist q (toLowerCase s)"

definition search_graph :: "SecGraph \<Rightarrow> string \<Rightarrow> SecNode list \<times> SecEdge list" where
  "search_graph g txt =
     (let q = toLowerCase txt in
      (filter (\<lambda>n. includes_ci q (n_id n) \<or> includes_ci q (n_label n) \<or>
                   (case n_detail n of Some d \<Rightarrow> includes_ci q d | None \<Rightarrow> False)) (nodes g),
       filter (\<lambda>e. includes_ci q (e_from e) \<or> includes_ci q (e_to e) \<or>
                   includes_ci q (rel_name (e_relationship e)) \<or>
                   (case e_detail e of Some d \<Rightarrow> includes_ci q d | None \<Rightarrow> False)) (edges g)))"

definition add_once_key :: "'a \<Rightarrow> 'a list \<Rightarrow> 'a list" where
  "add_once_key x xs = (if x \<in> set xs then xs else xs @ [x])"

definition neighbors_of :: "SecGraph \<Rightarrow> string \<Rightarrow> direction \<Rightarrow> SecEdge list \<times> SecEdge list \<times> SecNode list" where
  "neighbors_of g source dir =
     (let outEdges = (if dir = In then [] else filter (\<lambda>e. e_from e = source) (edges g));
          inEdges = (if dir = Out then [] else filter (\<lambda>e. e_to e = source) (edges g));
          ids = fold (\<lambda>e ids. add_once_key (e_from e) ids) inEdges
                  (fold (\<lambda>e ids. add_once_key (e_to e) ids) outEdges [])
      in (outEdges, inEdges, List.map_filter (findNode g) ids))"

fun sec_graph_query :: "graph_query \<Rightarrow> SecGraph \<Rightarrow> query_response" where
  "sec_graph_query (By_type ty) g = Nodes_found (filter (\<lambda>n. Some (n_type n) = ty) (nodes g))"
| "sec_graph_query (By_relationship r) g = Edges_found (filter (\<lambda>e. Some (e_relationship e) = r) (edges g))"
| "sec_graph_query (Paths source target depth) g =
     (if \<not> truthy source \<or> \<not> truthy target
      then Query_error ''paths mode requires 'source' and 'target' parameters''
      else
        (let maxDepth = or_else depth 8;
             paths = findPaths g (the source) (the target) maxDepth
         in Paths_found
              (map (\<lambda>p. (map (label_of g) p,
                          map (\<lambda>(a, b). map_option e_relationship (path_edge g a b)) (hops p))) paths)
              maxDepth))"
| "sec_graph_query (Search txt) g =
     (if \<not> truthy txt then Query_error ''search mode requires 'search' parameter''
      else (let (ns, es) = search_graph g (the txt) in Search_found ns es))"
| "sec_graph_query (Neighbors source dir) g =
     (if \<not> truthy source then Query_error ''neighbors mode requires 'source' parameter''
      else (let (os, is, ns) = neighbors_of g (the source) (or_else dir Both)
            in Neighbors_found os is ns))"

section \<open>Chains and export\<close>

record chain_params =
  ch_max_depth :: "int option"
  ch_min_score :: "int option"
  ch_source :: "string option"
  ch_target :: "string option"
  ch_limit :: "int option"

text \<open>A path is given by its identifiers; the source prints each with its label and type.\<close>

record targeted_path =
  tp_path :: "string list"
  tp_edges :: "Relationship list"
  tp_score :: int

datatype chains_response =
    Graph_empty
  | Targeted "targeted_path list"
  | Chains "attack_chain list" nat bool

text \<open>\<open>new Map(..)\<close> over the nodes: a later node with the same identifier replaces an earlier one.\<close>

definition nodeMap :: "SecGraph \<Rightarrow> string \<Rightarrow> SecNode option" where
  "nodeMap g = fold (\<lambda>n m. m(n_id n \<mapsto> n)) (nodes g) (\<lambda>_. None)"

definition targeted_of :: "SecGraph \<Rightarrow> string list \<Rightarrow> targeted_path" where
  "targeted_of g p =
     \<lparr>tp_path = p,
      tp_edges = map e_relationship (List.map_filter (\<lambda>(a, b). path_edge g a b) (hops p)),
      tp_score = (case (nodeMap g (hd p), nodeMap g (last p)) of
          (Some s, Some e) \<Rightarrow> chain_score (n_type s) (n_type e) (length p - 1)
        | _ \<Rightarrow> max (- int (length p - 1)) 1)\<rparr>"

definition sec_graph_find_chains :: "chain_params \<Rightarrow> SecGraph \<Rightarrow> chains_response" where
  "sec_graph_find_chains p g =
     (if nodes g = [] then Graph_empty
      else
        (let maxDepth = or_else (ch_max_depth p) 10;
             minScore = or_else (ch_min_score p) 0;
             limit = or_else (ch_limit p) 20 in
         if truthy (ch_source p) \<and> truthy (ch_target p)
         then Targeted (map (targeted_of g) (findPaths g (the (ch_source p)) (the (ch_target p)) maxDepth))
         else
           (let found = findAttackChains g maxDepth;
                found = (if truthy (ch_source p) then filter (\<lambda>c. n_id (c_start c) = the (ch_source p)) found
                          else found);
                found = (if truthy (ch_target p) then filter (\<lambda>c. n_id (c_end c) = the (ch_target p)) found
                          else found);
                found = filter (\<lambda>c. c_score c \<ge> minScore) found
            in Chains (slice0 limit found) (length found) (int (length found) > limit))))"

datatype export_format = Json_format | Html_format | Both_formats

text \<open>The response of \<open>sec_graph_export\<close>: the numbers of nodes, edges and, when asked for, chains.\<close>

definition sec_graph_export ::
  "export_format option \<Rightarrow> bool option \<Rightarrow> sg_files \<Rightarrow> sg_files \<times> nat \<times> nat \<times> nat option" where
  "sec_graph_export format include f =
     (let g = sg_load f;
          fmt = or_else format Both_formats;
          includeChains = or_else include True;
          f = (if fmt = Json_format \<or> fmt = Both_formats
               then f\<lparr>export_file := Some (g, if includeChains then Some (take 50 (findAttackChains g 10)) else None)\<rparr>
               else f);
          f = (if fmt = Html_format \<or> fmt = Both_formats then write_html g f else f)
      in (f, length (nodes g), length (edges g),
          if includeChains then Some (length (findAttackChains g 10)) else None))"

text \<open>The hook before each agent turn adds the summary of a graph that has nodes.\<close>

definition before_agent_start :: "sg_files \<Rightarrow> graph_summary option" where
  "before_agent_start f = (if nodes (sg_load f) = [] then None else graphSummary (sg_load f))"

section \<open>Sequences of calls\<close>

datatype sg_call =
    Call_add time add_params
  | Call_link time link_params
  | Call_query graph_query
  | Call_chains chain_params
  | Call_export "export_format option" "bool option"

datatype sg_response =
    Resp_add nat nat | Resp_link "string list" | Resp_query query_response | Resp_chains chains_response
  | Resp_export nat nat "nat option"

fun sg_exec :: "sg_call \<Rightarrow> sg_files \<Rightarrow> sg_files \<times> sg_response" where
  "sg_exec (Call_add now p) f = (let (f', n, e) = sec_graph_add now p f in (f', Resp_add n e))"
| "sg_exec (Call_link now p) f = (let (f', w) = sec_graph_link now p f in (f', Resp_link w))"
| "sg_exec (Call_query q) f = (f, Resp_query (sec_graph_query q (sg_load f)))"
| "sg_exec (Call_chains p) f = (f, Resp_chains (sec_graph_find_chains p (sg_load f)))"
| "sg_exec (Call_export fmt inc) f =
     (let (f', n, e, c) = sec_graph_export fmt inc f in (f', Resp_export n e c))"

end
