(* ===== verification/Security_Graph_Correct.thy ===== *)
theory Security_Graph_Correct
  imports Security_Graph
begin

text \<open>
  What the search of the security graph computes. A walk is a list of edges of the graph, each
  starting where the one before it ends; the search returns the simple walks to its goal of at most
  the given number of edges, shortest first, and all of them when their number stays below the cap.
\<close>

section \<open>Adjacency\<close>

lemma adjacency_edges_aux:
  "or_else (fold (\<lambda>e adj. adj(e_from e \<mapsto> or_else (adj (e_from e)) [] @ [e])) es adj i) [] =
   or_else (adj i) [] @ filter (\<lambda>e. e_from e = i) es"
  by (induction es arbitrary: adj) auto

lemma adjacency_nodes_aux:
  "or_else (adj i) [] = [] \<Longrightarrow> or_else (fold (\<lambda>n adj. adj(n_id n \<mapsto> [])) ns adj i) [] = []"
  by (induction ns arbitrary: adj) auto

lemma adjacency_edges: "or_else (adjacency g i) [] = filter (\<lambda>e. e_from e = i) (edges g)"
  unfolding adjacency_def adjacency_edges_aux by (simp add: adjacency_nodes_aux)

section \<open>Walks\<close>

fun walk :: "SecEdge list \<Rightarrow> string \<Rightarrow> SecEdge list \<Rightarrow> bool" where
  "walk E s [] = True"
| "walk E s (e # es) = (e \<in> set E \<and> e_from e = s \<and> walk E (e_to e) es)"

definition trail :: "string \<Rightarrow> SecEdge list \<Rightarrow> string list" where
  "trail s es = s # map e_to es"

definition entry_of :: "string \<Rightarrow> SecEdge list \<Rightarrow> search_entry" where
  "entry_of s es = \<lparr>q_node = last (trail s es), q_path = trail s es, q_edges = es, q_visited = set (trail s es)\<rparr>"

lemma trail_simps [simp]:
  "trail s [] = [s]" "trail s (es @ [e]) = trail s es @ [e_to e]" "length (trail s es) = Suc (length es)"
  "trail s es \<noteq> []" "hd (trail s es) = s"
  by (simp_all add: trail_def)

lemma start_entry_of: "start_entry s = entry_of s []"
  by (simp add: start_entry_def entry_of_def)

lemma walk_snoc: "walk E s (es @ [e]) \<longleftrightarrow> walk E s es \<and> e \<in> set E \<and> e_from e = last (trail s es)"
  by (induction es arbitrary: s) (auto simp: trail_def)

lemma walk_append: "walk E s (es @ fs) \<longleftrightarrow> walk E s es \<and> walk E (last (trail s es)) fs"
  by (induction es arbitrary: s) (auto simp: trail_def)

text \<open>The simple walks from a node over allowed edges.\<close>

definition simple :: "(Relationship \<Rightarrow> bool) \<Rightarrow> SecEdge list \<Rightarrow> string \<Rightarrow> SecEdge list \<Rightarrow> bool" where
  "simple allow E s es =
     (walk E s es \<and> distinct (trail s es) \<and> list_all (\<lambda>e. allow (e_relationship e)) es)"

definition solution :: "(Relationship \<Rightarrow> bool) \<Rightarrow> SecEdge list \<Rightarrow> string \<Rightarrow> string \<Rightarrow> int \<Rightarrow> SecEdge list \<Rightarrow> bool" where
  "solution allow E s goal maxDepth es =
     (simple allow E s es \<and> last (trail s es) = goal \<and> int (length es) \<le> maxDepth)"

definition fresh :: "(Relationship \<Rightarrow> bool) \<Rightarrow> string \<Rightarrow> SecEdge list \<Rightarrow> SecEdge \<Rightarrow> bool" where
  "fresh allow s es e = (e_to e \<notin> set (trail s es) \<and> allow (e_relationship e))"

lemma simple_snoc:
  "simple allow E s (es @ [e]) \<longleftrightarrow>
     simple allow E s es \<and> fresh allow s es e \<and> e \<in> set (filter (\<lambda>e. e_from e = last (trail s es)) E)"
  by (auto simp: simple_def fresh_def walk_snoc)

lemma simple_prefix: "simple allow E s (es @ fs) \<Longrightarrow> simple allow E s es"
  by (induction fs rule: rev_induct) (auto simp: append_assoc [symmetric] simple_snoc simp del: append_assoc)

lemma expand_edges_entry:
  "expand_edges allow goal maxDepth (entry_of s es) nb =
     (map (\<lambda>e. entry_of s (es @ [e]))
        (filter (\<lambda>e. fresh allow s es e \<and> e_to e \<noteq> goal \<and> int (length es) + 1 < maxDepth) nb),
      map (\<lambda>e. entry_of s (es @ [e])) (filter (\<lambda>e. fresh allow s es e \<and> e_to e = goal) nb))"
  by (induction nb) (auto simp: fresh_def entry_of_def step_to_def Let_def)

lemma solution_ext:
  assumes "solution allow E s goal d (es @ fs)" "goal \<notin> set (trail s es)"
  shows "\<exists>e gs. fs = e # gs \<and> e \<in> set (filter (\<lambda>e. e_from e = last (trail s es)) E) \<and> fresh allow s es e \<and>
    (if e_to e = goal then gs = [] else goal \<notin> set (trail s (es @ [e])) \<and> int (length es) + 1 < d)"
proof (cases fs)
  case Nil
  then show ?thesis using assms last_in_set [of "trail s es"] by (auto simp: solution_def)
next
  case (Cons e gs)
  with assms(1) have sol: "solution allow E s goal d ((es @ [e]) @ gs)" by simp
  then have "simple allow E s (es @ [e])" unfolding solution_def using simple_prefix by blast
  then have e: "e \<in> set (filter (\<lambda>e. e_from e = last (trail s es)) E)" "fresh allow s es e"
    by (auto simp: simple_snoc)
  have "gs = []" if "e_to e = goal"
  proof (rule ccontr)
    assume "gs \<noteq> []"
    then have "last (trail s ((es @ [e]) @ gs)) = e_to (last gs)" by (simp add: trail_def last_map)
    then have "e_to (last gs) = goal" using sol by (simp add: solution_def)
    moreover have "e_to e \<notin> e_to ` set gs" using sol by (simp add: solution_def simple_def trail_def)
    ultimately show False using that \<open>gs \<noteq> []\<close> by (metis image_eqI last_in_set)
  qed
  moreover have "int (length es) + 1 < d" if "e_to e \<noteq> goal"
  proof -
    have "gs \<noteq> []" using sol that by (auto simp: solution_def)
    then show ?thesis using sol by (cases gs) (auto simp: solution_def)
  qed
  ultimately show ?thesis using Cons e assms(2) by auto
qed

section \<open>The loop\<close>

definition frontier :: "(Relationship \<Rightarrow> bool) \<Rightarrow> SecEdge list \<Rightarrow> string \<Rightarrow> string \<Rightarrow> SecEdge list \<Rightarrow> bool" where
  "frontier allow E s goal es = (simple allow E s es \<and> goal \<notin> set (trail s es))"

definition edges_from :: "SecEdge list \<Rightarrow> string \<Rightarrow> SecEdge list" where
  "edges_from E i = filter (\<lambda>e. e_from e = i) E"

text \<open>One round: the walks that join the queue and the walks that reach the goal.\<close>

definition onward :: "(Relationship \<Rightarrow> bool) \<Rightarrow> SecEdge list \<Rightarrow> string \<Rightarrow> string \<Rightarrow> int \<Rightarrow> SecEdge list \<Rightarrow> SecEdge list list" where
  "onward allow E s goal d es =
     map (\<lambda>e. es @ [e]) (filter (\<lambda>e. fresh allow s es e \<and> e_to e \<noteq> goal \<and> int (length es) + 1 < d)
       (edges_from E (last (trail s es))))"

definition arrivals :: "(Relationship \<Rightarrow> bool) \<Rightarrow> SecEdge list \<Rightarrow> string \<Rightarrow> string \<Rightarrow> SecEdge list \<Rightarrow> SecEdge list list" where
  "arrivals allow E s goal es =
     map (\<lambda>e. es @ [e]) (filter (\<lambda>e. fresh allow s es e \<and> e_to e = goal) (edges_from E (last (trail s es))))"

lemma search_loop_walks:
  "search_loop allow (edges_from E) emit cap goal d (map (entry_of s) ess) acc =
     (case ess of
        [] \<Rightarrow> acc
      | es # rest \<Rightarrow>
          if length acc \<ge> cap then acc
          else if int (length es) \<ge> d then search_loop allow (edges_from E) emit cap goal d (map (entry_of s) rest) acc
          else search_loop allow (edges_from E) emit cap goal d
                 (map (entry_of s) (rest @ onward allow E s goal d es))
                 (acc @ map (emit \<circ> entry_of s) (arrivals allow E s goal es)))"
  by (subst search_loop.simps)
    (auto simp: expand_edges_entry onward_def arrivals_def comp_def entry_of_def [of s "[]"] split: list.splits;
     simp add: entry_of_def comp_def)

text \<open>The same loop on walks: it returns the walks found from a queue when \<open>n\<close> results exist already.\<close>

function hits_loop ::
  "(Relationship \<Rightarrow> bool) \<Rightarrow> SecEdge list \<Rightarrow> string \<Rightarrow> string \<Rightarrow> nat \<Rightarrow> int \<Rightarrow> SecEdge list list \<Rightarrow> nat \<Rightarrow> SecEdge list list" where
  "hits_loop allow E s goal cap d [] n = []"
| "hits_loop allow E s goal cap d (es # rest) n =
     (if n \<ge> cap then []
      else if int (length es) \<ge> d then hits_loop allow E s goal cap d rest n
      else arrivals allow E s goal es @
           hits_loop allow E s goal cap d (rest @ onward allow E s goal d es)
             (n + length (arrivals allow E s goal es)))"
  by pat_completeness auto
termination
proof (relation "inv_image (mult less_than) (\<lambda>(allow, E, s, goal, cap, d, ess, n).
    image_mset (\<lambda>es. nat d - length es) (mset ess))", goal_cases)
  case 1
  show ?case by (simp add: wf_mult)
next
  case (2 allow E s goal cap d es rest n)
  show ?case using one_step_implies_mult [of "{#nat d - length es#}" "{#}" less_than
      "image_mset (\<lambda>es. nat d - length es) (mset rest)"] by simp
next
  case (3 allow E s goal cap d es rest n)
  have "\<forall>y \<in> set (onward allow E s goal d es). nat d - length y < nat d - length es"
    by (auto simp: onward_def)
  then have "(image_mset (\<lambda>es. nat d - length es) (mset rest) + image_mset (\<lambda>es. nat d - length es) (mset (onward allow E s goal d es)),
      image_mset (\<lambda>es. nat d - length es) (mset rest) + {#nat d - length es#}) \<in> mult less_than"
    by (intro one_step_implies_mult) auto
  then show ?case by simp
qed

lemma search_loop_hits:
  "search_loop allow (edges_from E) emit cap goal d (map (entry_of s) ess) acc =
   acc @ map (emit \<circ> entry_of s) (hits_loop allow E s goal cap d ess (length acc))"
proof (induction allow E s goal cap d ess "length acc" arbitrary: acc rule: hits_loop.induct)
  case (1 allow E s goal cap d)
  then show ?case by (subst search_loop_walks) simp
next
  case (2 allow E s goal cap d es rest acc)
  then show ?case by (subst search_loop_walks) simp
qed

lemma frontier_onward:
  assumes "frontier allow E s goal es" "x \<in> set (onward allow E s goal d es)"
  shows "frontier allow E s goal x"
  using assms by (auto simp: frontier_def onward_def simple_snoc edges_from_def fresh_def)

lemma arrivals_solution:
  assumes "frontier allow E s goal es" "h \<in> set (arrivals allow E s goal es)" "int (length es) < d"
  shows "solution allow E s goal d h"
  using assms by (auto simp: frontier_def arrivals_def simple_snoc edges_from_def solution_def)

lemma hits_loop_sound:
  assumes "\<forall>es \<in> set ess. frontier allow E s goal es" "h \<in> set (hits_loop allow E s goal cap d ess n)"
  shows "solution allow E s goal d h"
  using assms
proof (induction allow E s goal cap d ess n rule: hits_loop.induct)
  case (2 allow E s goal cap d es rest n)
  show ?case
  proof (cases "n \<ge> cap \<or> int (length es) \<ge> d")
    case True
    then show ?thesis using 2 by (auto split: if_splits)
  next
    case False
    then have "h \<in> set (arrivals allow E s goal es) \<or>
        h \<in> set (hits_loop allow E s goal cap d (rest @ onward allow E s goal d es) (n + length (arrivals allow E s goal es)))"
      using 2(4) by auto
    then show ?thesis
    proof
      assume "h \<in> set (arrivals allow E s goal es)"
      then show ?thesis using arrivals_solution False 2(3) by auto
    next
      assume "h \<in> set (hits_loop allow E s goal cap d (rest @ onward allow E s goal d es) (n + length (arrivals allow E s goal es)))"
      then show ?thesis using 2(2) False 2(3) frontier_onward by fastforce
    qed
  qed
qed simp

lemma hits_loop_complete:
  assumes "n + length (hits_loop allow E s goal cap d ess n) < cap"
    and "\<forall>es \<in> set ess. frontier allow E s goal es"
    and "es \<in> set ess" "solution allow E s goal d (es @ fs)"
  shows "es @ fs \<in> set (hits_loop allow E s goal cap d ess n)"
  using assms
proof (induction allow E s goal cap d ess n arbitrary: es fs rule: hits_loop.induct)
  case (2 allow E s goal cap d es' rest n)
  have cap: "\<not> n \<ge> cap" using 2(3) by (auto split: if_splits)
  have fr: "frontier allow E s goal es'" using 2(4) by simp
  show ?case
  proof (cases "int (length es') \<ge> d")
    case True
    have "es' \<noteq> es"
    proof
      assume eq: "es' = es"
      then obtain e gs where "fs = e # gs" using solution_ext [OF 2(6)] fr unfolding frontier_def by metis
      then show False using 2(6) True eq by (auto simp: solution_def)
    qed
    then show ?thesis using 2 True cap by simp
  next
    case False
    let ?q = "rest @ onward allow E s goal d es'"
    have fq: "\<forall>x \<in> set ?q. frontier allow E s goal x" using 2(4) fr frontier_onward by fastforce
    note IH = 2(2) [OF cap False _ fq]
    have cq: "n + length (arrivals allow E s goal es') +
        length (hits_loop allow E s goal cap d ?q (n + length (arrivals allow E s goal es'))) < cap"
      using 2(3) cap False by simp
    show ?thesis
    proof (cases "es = es'")
      case False': False
      then have "es \<in> set ?q" using 2(5) by simp
      then show ?thesis using IH [OF cq _ 2(6)] cap False by simp
    next
      case True
      obtain e gs where e: "fs = e # gs" "e \<in> set (edges_from E (last (trail s es')))" "fresh allow s es' e"
        "if e_to e = goal then gs = [] else goal \<notin> set (trail s (es' @ [e])) \<and> int (length es') + 1 < d"
        using solution_ext [of allow E s goal d es' fs] 2(6) fr True unfolding frontier_def edges_from_def by metis
      show ?thesis
      proof (cases "e_to e = goal")
        case at: True
        then have "es @ fs \<in> set (arrivals allow E s goal es')" using e True by (auto simp: arrivals_def)
        then show ?thesis using cap False by simp
      next
        case at: False
        then have "es' @ [e] \<in> set ?q" using e by (auto simp: onward_def)
        moreover have "solution allow E s goal d ((es' @ [e]) @ gs)" using 2(6) True e(1) by simp
        ultimately show ?thesis using IH [OF cq] cap False True e(1) by fastforce
      qed
    qed
  qed
qed simp

lemma hits_loop_sorted:
  assumes "sorted (map length ess)" "\<forall>es \<in> set ess. length es \<le> Suc (length (hd ess))"
  shows "sorted (map length (hits_loop allow E s goal cap d ess n)) \<and>
    (\<forall>h \<in> set (hits_loop allow E s goal cap d ess n). ess \<noteq> [] \<and> length (hd ess) < length h)"
  using assms
proof (induction allow E s goal cap d ess n rule: hits_loop.induct)
  case (2 allow E s goal cap d es rest n)
  let ?a = "arrivals allow E s goal es" and ?o = "onward allow E s goal d es"
  have la: "\<forall>x \<in> set ?a. length x = Suc (length es)" and lo: "\<forall>x \<in> set ?o. length x = Suc (length es)"
    by (auto simp: arrivals_def onward_def)
  have rest: "sorted (map length rest)" "\<forall>x \<in> set rest. length es \<le> length x \<and> length x \<le> Suc (length es)"
    using 2(3,4) by auto
  have hdr: "rest \<noteq> [] \<Longrightarrow> length es \<le> length (hd rest)" using rest by auto
  show ?case
  proof (cases "n \<ge> cap")
    case False
    show ?thesis
    proof (cases "int (length es) \<ge> d")
      case True
      have "\<forall>x \<in> set rest. length x \<le> Suc (length (hd rest))" using rest hdr by fastforce
      then show ?thesis using 2(1) [OF False True rest(1)] False True hdr by fastforce
    next
      case F: False
      have "sorted (map length ?o)" "sorted (map length ?a)"
        using la lo by (auto simp: sorted_iff_nth_mono)
      then have s: "sorted (map length (rest @ ?o))" using rest lo by (auto simp: sorted_append)
      have hdq: "rest @ ?o \<noteq> [] \<Longrightarrow> length es \<le> length (hd (rest @ ?o))"
        using hdr lo by (cases rest) auto
      have b: "\<forall>x \<in> set (rest @ ?o). length x \<le> Suc (length (hd (rest @ ?o)))"
      proof
        fix x assume x: "x \<in> set (rest @ ?o)"
        then have "rest @ ?o \<noteq> []" by (metis empty_iff empty_set)
        moreover have "length x \<le> Suc (length es)" using x rest lo by auto
        ultimately show "length x \<le> Suc (length (hd (rest @ ?o)))" using hdq by linarith
      qed
      let ?h = "hits_loop allow E s goal cap d (rest @ ?o) (n + length ?a)"
      have h: "sorted (map length ?h)" "\<forall>x \<in> set ?h. Suc (length es) \<le> length x"
        using 2(2) [OF False F s b] hdq by (blast, meson Suc_leI le_less_trans)
      have "hits_loop allow E s goal cap d (es # rest) n = ?a @ ?h" using False F by simp
      moreover have "sorted (map length (?a @ ?h))"
        using h la \<open>sorted (map length ?a)\<close> by (auto simp: sorted_append)
      ultimately show ?thesis using h(2) la by (simp del: hits_loop.simps) fastforce
    qed
  qed simp
qed simp

end
