(* ===== verification/Security_Graph_Props.thy ===== *)
theory Security_Graph_Props
  imports Security_Graph_Correct "HOL-Library.While_Combinator"
begin

text \<open>
  The properties of the security graph: the invariant of its file, what adding and linking do, and
  that the searches return exactly the simple paths and the attack chains within their bounds.
\<close>

declare hits_loop.simps [simp del]

section \<open>The search for paths\<close>

lemma nbrs_eq: "(\<lambda>i. or_else (adjacency g i) []) = edges_from (edges g)"
  by (simp add: fun_eq_iff adjacency_edges edges_from_def)

lemma findPaths_hits:
  "findPaths g s t d = map (trail s) (hits_loop (\<lambda>_. True) (edges g) s t 20 d [[]] 0)"
  unfolding findPaths_def Let_def nbrs_eq
  using search_loop_hits [of "\<lambda>_. True" "edges g" q_path 20 t d s "[[]]" "[]"]
  by (simp add: start_entry_of entry_of_def comp_def)

lemma frontier_start: "s \<noteq> goal \<Longrightarrow> \<forall>es \<in> set [[]]. frontier allow E s goal es"
  by (simp add: frontier_def simple_def)

lemma hits_loop_self: "hits_loop allow E s s cap d ess n = []"
proof -
  have "arrivals allow E s s es = []" for es
    by (auto simp: arrivals_def fresh_def trail_def filter_empty_conv)
  then have "goal = s \<Longrightarrow> hits_loop allow E s goal cap d ess n = []" for goal
    by (induction allow E s goal cap d ess n rule: hits_loop.induct) (simp_all add: hits_loop.simps)
  then show ?thesis by simp
qed

text \<open>Every path that \<open>findPaths\<close> returns is a path of the graph: it starts at the source, ends at the target,
  follows edges of the graph, visits no node twice and has between one and \<open>maxDepth\<close> edges; and the
  paths come shortest first.\<close>
theorem find_paths_sound:
  "(p \<in> set (findPaths g s t d) \<longrightarrow>
      (\<exists>es. p = trail s es \<and> walk (edges g) s es \<and> es \<noteq> [] \<and> int (length es) \<le> d \<and>
            last p = t \<and> distinct p)) \<and>
   sorted (map length (findPaths g s t d))"
proof
  show "p \<in> set (findPaths g s t d) \<longrightarrow>
      (\<exists>es. p = trail s es \<and> walk (edges g) s es \<and> es \<noteq> [] \<and> int (length es) \<le> d \<and> last p = t \<and> distinct p)"
  proof (cases "s = t")
    case True
    then show ?thesis by (simp add: findPaths_hits hits_loop_self)
  next
    case False
    then show ?thesis unfolding findPaths_hits
      by (force simp: solution_def simple_def dest!: hits_loop_sound [OF frontier_start [OF False]])
  qed
  have "sorted (map length (hits_loop (\<lambda>_. True) (edges g) s t 20 d [[]] 0))"
    using hits_loop_sorted [of "[[]]" "\<lambda>_. True" "edges g" s t 20 d 0] by simp
  then show "sorted (map length (findPaths g s t d))"
    by (simp add: findPaths_hits comp_def sorted_iff_nth_mono)
qed

definition demo_edge :: "string \<Rightarrow> Relationship \<Rightarrow> string \<Rightarrow> SecEdge" where
  "demo_edge a r b = \<lparr>e_from = a, e_to = b, e_relationship = r, e_detail = None\<rparr>"

definition demo_node :: "string \<Rightarrow> NodeType \<Rightarrow> SecNode" where
  "demo_node i ty = \<lparr>n_id = i, n_type = ty, n_label = i, n_detail = None, n_severity = None,
     n_metadata = None, n_created = Some 0\<rparr>"

definition demo_graph :: SecGraph where
  "demo_graph =
     \<lparr>nodes = [demo_node ''h'' Host, demo_node ''s'' Service, demo_node ''c'' Credential],
      edges = [demo_edge ''h'' EXPOSES ''s'', demo_edge ''h'' FLOWS_TO ''s'', demo_edge ''s'' READS ''c''],
      meta = no_meta\<rparr>"

lemma demo_paths:
  "findPaths demo_graph ''h'' ''c'' 8 = [[''h'', ''s'', ''c''], [''h'', ''s'', ''c'']]"
  unfolding findPaths_def
  by (simp add: search_loop.simps adjacency_def demo_graph_def demo_edge_def demo_node_def start_entry_def step_to_def Let_def)

theorem find_paths_sound_witness:
  "\<exists>es. [''h'', ''s'', ''c''] = trail ''h'' es \<and> walk (edges demo_graph) ''h'' es \<and> length es = 2"
proof -
  have "[''h'', ''s'', ''c''] \<in> set (findPaths demo_graph ''h'' ''c'' 8)" by (simp add: demo_paths)
  then obtain es where "[''h'', ''s'', ''c''] = trail ''h'' es" "walk (edges demo_graph) ''h'' es"
    using find_paths_sound [of "[''h'', ''s'', ''c'']" demo_graph "''h''" "''c''" 8] by blast
  moreover from this(1) have "length es = 2" by (metis One_nat_def Suc_inject length_Cons list.size(3) numeral_2_eq_2 trail_simps(3))
  ultimately show ?thesis by blast
qed

text \<open>C8: The search for paths is complete below its cap: when \<open>findPaths\<close> returns fewer than 20 paths, every
  simple path of the graph from the source to another node of at most \<open>maxDepth\<close> edges is among them.\<close>
theorem find_paths_complete:
  assumes "length (findPaths g s t d) < 20" "s \<noteq> t"
    and "walk (edges g) s es" "distinct (trail s es)" "last (trail s es) = t" "int (length es) \<le> d"
  shows "trail s es \<in> set (findPaths g s t d)"
proof -
  have "solution (\<lambda>_. True) (edges g) s t d ([] @ es)"
    using assms by (simp add: solution_def simple_def list_all_iff)
  then have "[] @ es \<in> set (hits_loop (\<lambda>_. True) (edges g) s t 20 d [[]] 0)"
    using assms(1) by (intro hits_loop_complete [OF _ frontier_start [OF assms(2)]]) (simp_all add: findPaths_hits)
  then show ?thesis by (simp add: findPaths_hits)
qed

theorem find_paths_complete_witness:
  "trail ''h'' [demo_edge ''h'' FLOWS_TO ''s'', demo_edge ''s'' READS ''c''] \<in> set (findPaths demo_graph ''h'' ''c'' 8)"
  by (rule find_paths_complete) (simp_all add: demo_paths, simp_all add: demo_graph_def demo_edge_def trail_def)

section \<open>Attack chains\<close>

definition chain_at :: "SecNode \<Rightarrow> SecNode \<Rightarrow> SecEdge list \<Rightarrow> attack_chain" where
  "chain_at s e es = chain_of s e (entry_of (n_id s) es)"

definition is_chain :: "SecGraph \<Rightarrow> int \<Rightarrow> SecNode \<Rightarrow> SecNode \<Rightarrow> SecEdge list \<Rightarrow> bool" where
  "is_chain g d s e es =
     (s \<in> set (nodes g) \<and> PRIVILEGE_LEVEL (n_type s) \<le> 2 \<and> e \<in> set (nodes g) \<and> PRIVILEGE_LEVEL (n_type e) \<ge> 4 \<and>
      n_id s \<noteq> n_id e \<and> walk (edges g) (n_id s) es \<and> distinct (trail (n_id s) es) \<and>
      last (trail (n_id s) es) = n_id e \<and> list_all (\<lambda>e. chain_allowed (e_relationship e)) es \<and>
      int (length es) \<le> d)"

lemma chains_between_hits:
  "chains_between g d s e acc =
     acc @ (if n_id s = n_id e then []
            else map (chain_at s e) (hits_loop chain_allowed (edges g) (n_id s) (n_id e) 50 d [[]] (length acc)))"
  using search_loop_hits [of chain_allowed "edges g" "chain_of s e" 50 "n_id e" d "n_id s" "[[]]" acc]
  by (simp add: chains_between_def nbrs_eq start_entry_of comp_def chain_at_def)

definition pairs :: "SecGraph \<Rightarrow> (SecNode \<times> SecNode) list" where
  "pairs g = concat (map (\<lambda>s. map (Pair s) (highImpact g)) (lowPriv g))"

lemma collect_chains_pairs: "collect_chains g d = fold (\<lambda>(s, e). chains_between g d s e) (pairs g) []"
proof -
  have in_: "fold (\<lambda>e. chains_between g d s e) es acc = fold (\<lambda>(s, e). chains_between g d s e) (map (Pair s) es) acc" for s es acc
    by (induction es arbitrary: acc) auto
  have "fold (\<lambda>s acc. fold (\<lambda>e acc. chains_between g d s e acc) (highImpact g) acc) ss acc =
        fold (\<lambda>(s, e). chains_between g d s e) (concat (map (\<lambda>s. map (Pair s) (highImpact g)) ss)) acc" for ss acc
    by (induction ss arbitrary: acc) (simp_all add: in_)
  then show ?thesis by (simp add: collect_chains_def pairs_def)
qed

lemma is_chain_solution:
  "is_chain g d s e es \<longleftrightarrow> (s, e) \<in> set (pairs g) \<and> n_id s \<noteq> n_id e \<and>
     solution chain_allowed (edges g) (n_id s) (n_id e) d es"
  by (auto simp: is_chain_def pairs_def lowPriv_def highImpact_def solution_def simple_def)

lemma fold_chains_sound:
  assumes "c \<in> set (fold (\<lambda>(s, e). chains_between g d s e) ps acc)" "set ps \<subseteq> set (pairs g)"
  shows "c \<in> set acc \<or> (\<exists>s e es. is_chain g d s e es \<and> c = chain_at s e es)"
  using assms
proof (induction ps arbitrary: acc)
  case (Cons p ps)
  obtain s e where p: "p = (s, e)" by (cases p)
  have "c \<in> set (chains_between g d s e acc) \<or> (\<exists>s e es. is_chain g d s e es \<and> c = chain_at s e es)"
    using Cons p by simp
  then show ?case
    using Cons.prems(2) p hits_loop_sound [OF frontier_start]
    by (fastforce simp: chains_between_hits is_chain_solution split: if_splits)
qed simp

lemma fold_chains_grows: "\<exists>r. fold (\<lambda>(s, e). chains_between g d s e) ps acc = acc @ r"
proof (induction ps arbitrary: acc)
  case (Cons p ps)
  obtain s e where p: "p = (s, e)" by (cases p)
  from Cons [of "chains_between g d s e acc"] obtain r where
    "fold (\<lambda>(s, e). chains_between g d s e) ps (chains_between g d s e acc) = chains_between g d s e acc @ r" ..
  then show ?case by (simp add: p) (simp add: chains_between_hits [of g d s e acc])
qed simp

lemma fold_chains_complete:
  assumes "length (fold (\<lambda>(s, e). chains_between g d s e) ps acc) < 50"
    and "(s, e) \<in> set ps" "n_id s \<noteq> n_id e" "solution chain_allowed (edges g) (n_id s) (n_id e) d es"
  shows "chain_at s e es \<in> set (fold (\<lambda>(s, e). chains_between g d s e) ps acc)"
  using assms(1,2)
proof (induction ps arbitrary: acc)
  case (Cons p ps)
  show ?case
  proof (cases "p = (s, e)")
    case False
    then show ?thesis using Cons by (auto split: prod.splits)
  next
    case True
    let ?h = "hits_loop chain_allowed (edges g) (n_id s) (n_id e) 50 d [[]] (length acc)"
    obtain r where r: "fold (\<lambda>(s, e). chains_between g d s e) (p # ps) acc = (acc @ map (chain_at s e) ?h) @ r"
      using fold_chains_grows [of g d ps "chains_between g d s e acc"] True assms(3)
      by (auto simp: chains_between_hits)
    then have "[] @ es \<in> set ?h"
      using Cons.prems(1) assms(4) by (intro hits_loop_complete [OF _ frontier_start [OF assms(3)]]) simp_all
    then show ?thesis unfolding r by simp
  qed
qed simp

text \<open>C7: Every attack chain reported is one: it leads from a node of privilege at most 2 to one of privilege
  at least 4 along escalation or access edges without visiting a node twice, within \<open>maxDepth\<close> edges, and its
  score is ten times the gap of privilege less the number of edges, at least 1. The chains come in
  descending order of score. When fewer than 50 are reported, they are all the chains of the graph.\<close>
theorem attack_chains_exact:
  "(\<forall>c \<in> set (findAttackChains g d). \<exists>s e es. is_chain g d s e es \<and> c_path c = trail (n_id s) es \<and> c_edges c = es \<and>
      c_start c = s \<and> c_end c = e \<and>
      c_score c = max (10 * (PRIVILEGE_LEVEL (n_type e) - PRIVILEGE_LEVEL (n_type s)) - int (length es)) 1) \<and>
   sorted_wrt (\<lambda>a b. c_score a \<ge> c_score b) (findAttackChains g d) \<and>
   (length (findAttackChains g d) < 50 \<longrightarrow> is_chain g d s e es \<longrightarrow>
      (\<exists>c \<in> set (findAttackChains g d). c_start c = s \<and> c_end c = e \<and> c_edges c = es))"
proof (intro conjI ballI impI)
  fix c assume "c \<in> set (findAttackChains g d)"
  then have "c \<in> set (fold (\<lambda>(s, e). chains_between g d s e) (pairs g) [])"
    by (simp add: findAttackChains_def collect_chains_pairs)
  then obtain s e es where c: "is_chain g d s e es" "c = chain_at s e es"
    using fold_chains_sound by fastforce
  then show "\<exists>s e es. is_chain g d s e es \<and> c_path c = trail (n_id s) es \<and> c_edges c = es \<and>
      c_start c = s \<and> c_end c = e \<and>
      c_score c = max (10 * (PRIVILEGE_LEVEL (n_type e) - PRIVILEGE_LEVEL (n_type s)) - int (length es)) 1"
    by (intro exI conjI) (simp_all add: chain_at_def chain_of_def entry_of_def chain_score_def algebra_simps)
next
  show "sorted_wrt (\<lambda>a b. c_score a \<ge> c_score b) (findAttackChains g d)"
    using sorted_sort_key [of "\<lambda>c. - c_score c" "collect_chains g d"]
    unfolding findAttackChains_def sorted_map by simp
next
  assume "length (findAttackChains g d) < 50" and ch: "is_chain g d s e es"
  then have "chain_at s e es \<in> set (fold (\<lambda>(s, e). chains_between g d s e) (pairs g) [])"
    by (intro fold_chains_complete) (simp_all add: findAttackChains_def collect_chains_pairs is_chain_solution)
  then show "\<exists>c \<in> set (findAttackChains g d). c_start c = s \<and> c_end c = e \<and> c_edges c = es"
    by (intro bexI [of _ "chain_at s e es"])
      (simp_all add: findAttackChains_def collect_chains_pairs chain_at_def chain_of_def entry_of_def)
qed

lemma demo_chains:
  "map c_path (findAttackChains demo_graph 10) = [[''h'', ''s'', ''c'']]"
  "map c_score (findAttackChains demo_graph 10) = [28]"
  by (simp_all add: findAttackChains_def collect_chains_def lowPriv_def highImpact_def chains_between_def
      search_loop.simps adjacency_def demo_graph_def demo_edge_def demo_node_def start_entry_def step_to_def
      chain_allowed_def ESCALATION_RELATIONSHIPS_def ACCESS_RELATIONSHIPS_def chain_of_def chain_score_def)

theorem attack_chains_exact_witness:
  "\<exists>c \<in> set (findAttackChains demo_graph 10). c_start c = demo_node ''h'' Host \<and> c_end c = demo_node ''c'' Credential \<and>
     c_edges c = [demo_edge ''h'' FLOWS_TO ''s'', demo_edge ''s'' READS ''c'']"
proof -
  have "length (findAttackChains demo_graph 10) < 50"
    using demo_chains(1) length_map [of c_path "findAttackChains demo_graph 10"] by simp
  moreover have "is_chain demo_graph 10 (demo_node ''h'' Host) (demo_node ''c'' Credential)
      [demo_edge ''h'' FLOWS_TO ''s'', demo_edge ''s'' READS ''c'']"
    by (simp add: is_chain_def demo_graph_def demo_node_def demo_edge_def trail_def chain_allowed_def
        ESCALATION_RELATIONSHIPS_def ACCESS_RELATIONSHIPS_def)
  ultimately show ?thesis using attack_chains_exact by blast
qed

section \<open>The invariant of the file\<close>

definition edge_key :: "SecEdge \<Rightarrow> string \<times> string \<times> Relationship" where
  "edge_key e = (e_from e, e_to e, e_relationship e)"

definition sg_wf :: "SecGraph \<Rightarrow> bool" where
  "sg_wf g = (distinct (map n_id (nodes g)) \<and> distinct (map edge_key (edges g)))"

lemma same_edge_key: "same_edge d = (\<lambda>e. edge_key e = edge_key d)"
  by (auto simp: fun_eq_iff same_edge_def edge_key_def)

lemma stamped_simps [simp]:
  "nodes (stamped now g) = nodes g" "edges (stamped now g) = edges g"
  "findNode (stamped now g) i = findNode g i" "sg_wf (stamped now g) = sg_wf g"
  by (simp_all add: stamped_def findNode_def sg_wf_def)

lemma load_simps [simp]:
  "sg_load (write_graph g f) = g" "sg_load (write_html h f) = sg_load f" "sg_load (sg_save now g f) = stamped now g"
  "html_file (write_html h f) = Some h"
  by (simp_all add: sg_load_def write_graph_def write_html_def sg_save_def)

lemma upsertNode_ids:
  "map n_id (nodes (upsertNode g n)) =
     map n_id (nodes g) @ (if findNode g (n_id n) = None then [n_id n] else [])"
  by (simp add: upsertNode_def map_map_first)

lemma sg_wf_upsert [inv_intros]: "sg_wf g \<Longrightarrow> sg_wf (upsertNode g n)"
proof -
  assume wf: "sg_wf g"
  have "edges (upsertNode g n) = edges g" by (simp add: upsertNode_def)
  moreover have "findNode g (n_id n) = None \<Longrightarrow> n_id n \<notin> set (map n_id (nodes g))"
    unfolding findNode_def find_None_key by simp
  ultimately show ?thesis using wf by (auto simp: sg_wf_def upsertNode_ids)
qed

lemma addEdge_keys:
  "map edge_key (edges (addEdge g e)) =
     map edge_key (edges g) @ (if edge_key e \<in> edge_key ` set (edges g) then [] else [edge_key e])"
proof (cases "find (same_edge e) (edges g)")
  case None
  then have "edge_key e \<notin> edge_key ` set (edges g)" unfolding same_edge_key find_None_key .
  then show ?thesis using None by (simp add: addEdge_def)
next
  case (Some d)
  then have "edge_key e \<in> edge_key ` set (edges g)"
    using find_SomeD [OF Some] unfolding same_edge_key by (intro image_eqI [of _ _ d]) auto
  moreover have "map edge_key (map_first (same_edge e) (\<lambda>d. d\<lparr>e_detail := e_detail e\<rparr>) (edges g)) =
      map edge_key (edges g)"
    by (rule map_map_first) (simp add: edge_key_def)
  ultimately show ?thesis using Some unfolding addEdge_def by auto
qed

lemma sg_wf_addEdge [inv_intros]: "sg_wf g \<Longrightarrow> sg_wf (addEdge g e)"
proof -
  assume "sg_wf g"
  moreover have "nodes (addEdge g e) = nodes g" by (simp add: addEdge_def)
  ultimately show ?thesis by (auto simp: sg_wf_def addEdge_keys)
qed

definition empty_files :: sg_files where
  "empty_files = \<lparr>graph_file = No_graph, html_file = None, export_file = None\<rparr>"

lemma sg_load_exec:
  "sg_load (fst (sg_exec c f)) =
     (case c of
        Call_add now p \<Rightarrow> sg_load (fst (sec_graph_add now p f))
      | Call_link now p \<Rightarrow> sg_load (fst (sec_graph_link now p f))
      | _ \<Rightarrow> sg_load f)"
  by (cases c) (auto simp: sec_graph_export_def Let_def sg_load_def write_html_def split: prod.splits)

interpretation sg: tool_server sg_load write_graph sg_exec sg_wf empty_files
proof
  fix c and f :: sg_files
  assume "sg_wf (sg_load f)"
  then show "sg_wf (sg_load (fst (sg_exec c f)))"
    unfolding sg_load_exec
    by (cases c) (simp_all add: sec_graph_add_def sec_graph_link_def Let_def inv_intros)
qed (simp_all, simp add: empty_files_def sg_load_def sg_wf_def)

lemma html_current:
  "html_file f \<in> {None, Some (sg_load f)} \<Longrightarrow> html_file (fst (sg_exec c f)) \<in> {None, Some (sg_load (fst (sg_exec c f)))}"
  by (cases c) (auto simp: sec_graph_add_def sec_graph_link_def sec_graph_export_def Let_def sg_load_def write_html_def sg_save_def write_graph_def)

text \<open>After any sequence of tool calls on a fresh data directory every identifier names one node, no edge
  occurs twice with the same ends and relationship, and the page, once drawn, shows the stored graph.\<close>
theorem graph_file_invariant:
  "let f = run_calls sg_exec cs empty_files; g = sg_load f in
   distinct (map n_id (nodes g)) \<and> distinct (map edge_key (edges g)) \<and> html_file f \<in> {None, Some g}"
proof -
  have "html_file (run_calls sg_exec cs empty_files) \<in> {None, Some (sg_load (run_calls sg_exec cs empty_files))}"
    by (rule run_calls_invariant [where P = "\<lambda>f. html_file f \<in> {None, Some (sg_load f)}"])
      (erule html_current, simp add: empty_files_def)
  then show ?thesis using sg.run_start_inv [of cs] unfolding sg_wf_def Let_def by blast
qed

text \<open>Adding a node is an upsert: afterwards the identifier names the given node, with the creation time
  of the node it replaces if that has one; every other node, the order of the nodes and all edges stay.\<close>
theorem add_node_upsert:
  "let g = sg_load f; g' = sg_load (fst (sec_graph_add now p f)) in
    findNode g' i =
      (if i = ap_id p
       then Some ((node_of_params now p)\<lparr>n_created := Some (or_else (Option.bind (findNode g (ap_id p)) n_created) now)\<rparr>)
       else findNode g i) \<and>
    map n_id (nodes g') = map n_id (nodes g) @ (if findNode g (ap_id p) = None then [ap_id p] else []) \<and>
    edges g' = edges g"
proof -
  have up: "findNode (upsertNode g n) i = (if i = n_id n then Some n else findNode g i)" for g n i
    unfolding upsertNode_def findNode_def
    by (auto simp: find_append find_map_first_same find_map_first_other split: option.splits)
  have ed: "edges (upsertNode g n) = edges g" for g n by (simp add: upsertNode_def)
  show ?thesis
    by (cases "findNode (sg_load f) (ap_id p)")
      (auto simp: sec_graph_add_def Let_def up ed upsertNode_ids node_of_params_def split: option.splits)
qed

text \<open>A targeted search ignores the filters of the chain analysis: with both source and target given,
  \<open>sec_graph_find_chains\<close> also follows edges that are neither escalation nor access, and disregards the
  minimum score and the limit, while the analysis itself finds no chain in the same graph.\<close>
theorem targeted_search_ignores_filters:
  "let g = demo_graph\<lparr>edges := [demo_edge ''h'' OWNS ''c'']\<rparr>;
       p = \<lparr>ch_max_depth = None, ch_min_score = Some 1000, ch_source = Some ''h'', ch_target = Some ''c'', ch_limit = Some 0\<rparr> in
   sec_graph_find_chains p g = Targeted [\<lparr>tp_path = [''h'', ''c''], tp_edges = [OWNS], tp_score = 29\<rparr>] \<and>
   findAttackChains g 10 = []"
  by (simp add: Let_def sec_graph_find_chains_def findPaths_def targeted_of_def nodeMap_def path_edge_def hops_def
      findAttackChains_def collect_chains_def lowPriv_def highImpact_def chains_between_def
      search_loop.simps adjacency_def demo_graph_def demo_edge_def demo_node_def start_entry_def step_to_def
      chain_allowed_def ESCALATION_RELATIONSHIPS_def ACCESS_RELATIONSHIPS_def chain_score_def List.map_filter_simps)

text \<open>Parallel edges hide each other in the path query: two nodes joined by two relationships give the same
  path twice, and both times it is labelled with the relationship stored first.\<close>
theorem parallel_edges_same_label:
  "sec_graph_query (Paths (Some ''h'') (Some ''c'') None) demo_graph =
     Paths_found [([''h'', ''s'', ''c''], [Some EXPOSES, Some READS]),
                  ([''h'', ''s'', ''c''], [Some EXPOSES, Some READS])] 8"
proof -
  have "map (label_of demo_graph) [''h'', ''s'', ''c''] = [''h'', ''s'', ''c'']"
    by (simp add: label_of_def findNode_def demo_graph_def demo_node_def)
  moreover have "map (\<lambda>(a, b). map_option e_relationship (path_edge demo_graph a b)) (hops [''h'', ''s'', ''c'']) =
      [Some EXPOSES, Some READS]"
    by (simp add: hops_def path_edge_def demo_graph_def demo_edge_def)
  ultimately show ?thesis by (simp add: demo_paths)
qed

section \<open>The loop ends\<close>

lemma search_round_step:
  "search_going cap (queue, acc) \<Longrightarrow>
   (case search_round allow nbrs emit goal d (queue, acc) of (queue', acc') \<Rightarrow> search_loop allow nbrs emit cap goal d queue' acc') =
     search_loop allow nbrs emit cap goal d queue acc"
proof (cases queue)
  case (Cons it rest)
  then show "search_going cap (queue, acc) \<Longrightarrow> ?thesis"
    by (auto simp: search_going_def search_round_def search_loop.simps [of allow nbrs emit cap goal d "it # rest" acc] Let_def split: prod.split)
qed (simp add: search_going_def)

lemma search_ended: "\<not> search_going cap (queue, acc) \<Longrightarrow> search_loop allow nbrs emit cap goal d queue acc = acc"
  by (subst search_loop.simps) (auto simp: search_going_def split: list.split)

lemma search_while:
  "\<exists>rest. while_option (search_going cap) (search_round allow nbrs emit goal d) (queue, acc) =
     Some (rest, search_loop allow nbrs emit cap goal d queue acc)"
proof (induction allow nbrs emit cap goal d queue acc rule: search_loop.induct)
  case (1 allow nbrs emit cap goal d queue acc)
  show ?case
  proof (cases "search_going cap (queue, acc)")
    case False
    then show ?thesis by (subst while_option_unfold) (simp add: search_ended)
  next
    case True
    then obtain it rest where q: "queue = it # rest" and cap: "\<not> cap \<le> length acc" by (cases queue) (auto simp: search_going_def)
    obtain queue' acc' where r: "search_round allow nbrs emit goal d (queue, acc) = (queue', acc')" by fastforce
    have "\<exists>rest. while_option (search_going cap) (search_round allow nbrs emit goal d) (queue', acc') =
        Some (rest, search_loop allow nbrs emit cap goal d queue' acc')"
    proof (cases "int (length (q_path it)) - 1 \<ge> d")
      case True
      then have "queue' = rest" "acc' = acc" using r q by (simp_all add: search_round_def)
      then show ?thesis using 1(1) [OF q cap True] by simp
    next
      case False
      then obtain push hits where e: "expand_edges allow goal d it (nbrs (q_node it)) = (push, hits)" "queue' = rest @ push" "acc' = acc @ map emit hits"
        using r q by (auto simp: search_round_def split: prod.splits)
      show ?thesis using 1(2) [OF q cap False refl, of push hits] e by simp
    qed
    moreover have "search_loop allow nbrs emit cap goal d queue' acc' = search_loop allow nbrs emit cap goal d queue acc"
      using search_round_step [OF True, of allow nbrs emit goal d] r by simp
    ultimately show ?thesis using True r by (subst while_option_unfold) simp
  qed
qed

text \<open>C23: The search for paths ends on every graph: the loop over the queue, with its condition and its round as the source has
  them, runs out of entries or reaches twenty paths after finitely many rounds for every source, target and depth, cycles
  included, and what it has collected then is \<open>findPaths\<close>, of which soundness and completeness are proved.\<close>

theorem path_search_terminates:
  "\<exists>rest. while_option (search_going 20) (search_round (\<lambda>_. True) (\<lambda>i. or_else (adjacency g i) []) q_path target maxDepth)
      ([start_entry source], []) = Some (rest, findPaths g source target maxDepth)"
  unfolding findPaths_def Let_def by (rule search_while)

end
