(* ===== verification/JSNumber.thy ===== *)
theory JSNumber
  imports JSString Json_Store
begin

text \<open>
  Numbers as the sources use them: \<open>toFixed\<close>, truth of a JSON value in a condition, and the conversion
  \<open>Number(x)\<close> of a JSON value. Numbers are rational, so the two infinite values have no counterpart; the
  literals \<open>Infinity\<close> and \<open>-Infinity\<close> read as no number here.
\<close>

section \<open>Rounding\<close>

text \<open>\<open>Number(x.toFixed(d))\<close>: the nearest multiple of the unit, halves away from zero.\<close>

definition to_fixed :: "nat \<Rightarrow> rat \<Rightarrow> rat" where
  "to_fixed d x = (if x < 0 then - (of_int (round (- x * 10 ^ d)) / 10 ^ d) else of_int (round (x * 10 ^ d)) / 10 ^ d)"

lemma to_fixed_minus: "to_fixed d (- x) = - to_fixed d x"
  by (cases "x = 0") (auto simp: to_fixed_def)

lemma to_fixed_error: "\<bar>to_fixed d x - x\<bar> \<le> 1 / (2 * 10 ^ d)"
proof -
  have pos: "\<bar>of_int (round (y * 10 ^ d)) / 10 ^ d - y\<bar> \<le> 1 / (2 * 10 ^ d)" for y :: rat
  proof -
    have "\<bar>of_int (round (y * 10 ^ d)) - y * 10 ^ d\<bar> \<le> 1 / 2"
      by (metis of_int_round_abs_le)
    then have "\<bar>of_int (round (y * 10 ^ d)) - y * 10 ^ d\<bar> / 10 ^ d \<le> (1 / 2) / 10 ^ d"
      by (rule divide_right_mono) simp
    moreover have "of_int (round (y * 10 ^ d)) / 10 ^ d - y = (of_int (round (y * 10 ^ d)) - y * 10 ^ d) / 10 ^ d"
      by (simp add: diff_divide_distrib)
    ultimately show ?thesis by (simp add: abs_divide)
  qed
  show ?thesis using pos [of x] pos [of "- x"] by (auto simp: to_fixed_def abs_minus_commute)
qed

section \<open>Truth of a JSON value\<close>

fun json_truthy :: "json \<Rightarrow> bool" where
  "json_truthy JNull = False"
| "json_truthy (JBool b) = b"
| "json_truthy (JNum n) = (n \<noteq> 0)"
| "json_truthy (JStr s) = (s \<noteq> [])"
| "json_truthy (JArr _) = True"
| "json_truthy (JObj _) = True"

text \<open>\<open>d[k]\<close>; a value that is not an object has none of the keys the sources ask for.\<close>

fun json_field :: "json \<Rightarrow> string \<Rightarrow> json option" where
  "json_field (JObj kvs) k = map_of kvs k"
| "json_field _ k = None"

fun as_number :: "json option \<Rightarrow> rat option" where
  "as_number (Some (JNum n)) = Some n"
| "as_number _ = None"

section \<open>Conversion to a number\<close>

text \<open>The digits of a literal in a base, and their value.\<close>

definition hex_val :: "char \<Rightarrow> nat option" where
  "hex_val c =
     (let k = char_code c in
      if is_digit c then Some (k - 48)
      else if 97 \<le> k \<and> k \<le> 102 then Some (k - 87)
      else if 65 \<le> k \<and> k \<le> 70 then Some (k - 55) else None)"

definition radix_literal :: "nat \<Rightarrow> string \<Rightarrow> rat option" where
  "radix_literal b s =
     (if s \<noteq> [] \<and> list_all (\<lambda>c. case hex_val c of None \<Rightarrow> False | Some d \<Rightarrow> d < b) s
      then Some (of_nat (foldl (\<lambda>a c. b * a + the (hex_val c)) 0 s)) else None)"

text \<open>An exponent part: nothing, or \<open>e\<close> with an optional sign and digits.\<close>

definition exponent :: "string \<Rightarrow> int option" where
  "exponent s =
     (case s of
        [] \<Rightarrow> Some 0
      | c # t \<Rightarrow>
          if c \<noteq> CHR ''e'' \<and> c \<noteq> CHR ''E'' then None
          else
            (let neg = (t \<noteq> [] \<and> hd t = CHR ''-'');
                 ds = (if t \<noteq> [] \<and> hd t \<in> set ''+-'' then tl t else t)
             in if ds \<noteq> [] \<and> list_all is_digit ds
                then Some (if neg then - int (dec_val ds) else int (dec_val ds)) else None))"

definition scale10 :: "rat \<Rightarrow> int \<Rightarrow> rat" where
  "scale10 x e = (if e \<ge> 0 then x * 10 ^ nat e else x / 10 ^ nat (- e))"

definition decimal_literal :: "string \<Rightarrow> rat option" where
  "decimal_literal s =
     (let whole = takeWhile is_digit s;
          rest = dropWhile is_digit s;
          dot = (rest \<noteq> [] \<and> hd rest = CHR ''.'');
          frac = (if dot then takeWhile is_digit (tl rest) else []);
          tail = (if dot then dropWhile is_digit (tl rest) else rest) in
      if whole @ frac = [] then None
      else map_option (\<lambda>e. scale10 (of_nat (dec_val (whole @ frac))) (e - int (length frac))) (exponent tail))"

definition string_to_number :: "string \<Rightarrow> rat option" where
  "string_to_number str =
     (case trim str of
        [] \<Rightarrow> Some 0
      | c # t \<Rightarrow>
          if c = CHR ''-'' then map_option uminus (decimal_literal t)
          else if c = CHR ''+'' then decimal_literal t
          else if c = CHR ''0'' \<and> t \<noteq> [] \<and> hd t \<in> set ''xX'' then radix_literal 16 (tl t)
          else if c = CHR ''0'' \<and> t \<noteq> [] \<and> hd t \<in> set ''oO'' then radix_literal 8 (tl t)
          else if c = CHR ''0'' \<and> t \<noteq> [] \<and> hd t \<in> set ''bB'' then radix_literal 2 (tl t)
          else decimal_literal (c # t))"

text \<open>An array converts through its text, in which \<open>null\<close> is empty and elements are separated by commas.\<close>

fun array_to_number :: "json list \<Rightarrow> rat option" where
  "array_to_number [] = Some 0"
| "array_to_number [JNull] = Some 0"
| "array_to_number [JNum n] = Some n"
| "array_to_number [JStr s] = string_to_number s"
| "array_to_number [JArr xs] = array_to_number xs"
| "array_to_number _ = None"

fun to_number :: "json option \<Rightarrow> rat option" where
  "to_number None = None"
| "to_number (Some JNull) = Some 0"
| "to_number (Some (JBool b)) = Some (if b then 1 else 0)"
| "to_number (Some (JNum n)) = Some n"
| "to_number (Some (JStr s)) = string_to_number s"
| "to_number (Some (JArr xs)) = array_to_number xs"
| "to_number (Some (JObj _)) = None"

lemma string_to_number_decimal: "string_to_number (nat_to_string n) = Some (of_nat n)"
proof -
  let ?s = "nat_to_string n"
  have ds: "list_all is_digit ?s" by (simp add: list_all_iff nat_to_string_digits)
  obtain c t where ct: "?s = c # t" by (cases ?s) auto
  have "tidy ?s" using nat_to_string_digits [of _ n] by (auto simp: tidy_def digit_not_space)
  then have trm: "trim ?s = c # t" by (simp add: trim_id ct)
  have t: "list_all is_digit t" and c: "is_digit c" using ds ct by simp_all
  have "t \<noteq> [] \<Longrightarrow> is_digit (hd t)" using t by (cases t) auto
  then have "\<not> (t \<noteq> [] \<and> hd t \<in> set ''xX'')" "\<not> (t \<noteq> [] \<and> hd t \<in> set ''oO'')" "\<not> (t \<noteq> [] \<and> hd t \<in> set ''bB'')"
    by (auto simp: is_digit_def)
  moreover have "c \<noteq> CHR ''-''" "c \<noteq> CHR ''+''" using c by (auto simp: is_digit_def)
  moreover have "decimal_literal ?s = Some (of_nat n)"
  proof -
    have tw: "takeWhile is_digit ?s = ?s" and dw: "dropWhile is_digit ?s = []"
      using ds by (simp_all add: takeWhile_eq_all_conv list_all_iff)
    show ?thesis unfolding decimal_literal_def Let_def tw dw by (simp add: exponent_def scale10_def)
  qed
  ultimately show ?thesis unfolding string_to_number_def trm list.case by (auto simp: ct)
qed

text \<open>The digits of a whole number, the printing of numbers the concrete runs use.\<close>

definition whole_text :: "rat \<Rightarrow> string" where
  "whole_text q = (if q < 0 then ''-'' else []) @ nat_to_string (nat \<lfloor>abs q\<rfloor>)"

end
