(* ===== verification/Budget_Manager.thy ===== *)
theory Budget_Manager
  imports JSNumber Task_Manager "HOL-Library.AList"
begin

text \<open>
  The budget manager (\<open>budget-manager.ts\<close>): cost entries, limits per investigation and model rates
  kept in the shared file \<open>swarm-state.json\<close>, the aggregation of costs, the status of a limit, the
  ranking of tasks and the routing of task types to models. Amounts are rational numbers: the
  rounding of floating-point arithmetic is not modelled, \<open>toFixed\<close> is. A parameter that is missing or
  not a number is \<open>None\<close>. A JavaScript object used as a dictionary is an association list in the
  order of insertion. The names of models are not those of inherited properties, whose lookup as a rate
  makes the cost of an entry not a number.
\<close>

section \<open>Data\<close>

record CostEntry =
  ce_id :: string
  ce_investigation_id :: "string option"
  ce_agent :: string
  ce_task_id :: string
  ce_tokens_in :: rat
  ce_tokens_out :: rat
  ce_model :: string
  ce_latency_ms :: rat
  ce_cost :: rat
  ce_timestamp :: time

record BudgetLimit =
  bl_investigation_id :: string
  bl_max_tokens :: "rat option"
  bl_max_cost :: "rat option"
  bl_created_at :: time

datatype tier = Cheap | Strong

record ModelRate =
  in_per_1k :: rat
  out_per_1k :: rat
  mr_tier :: tier

record BudgetState =
  costs :: "CostEntry list"
  budget_limits :: "(string \<times> BudgetLimit) list"
  model_rates :: "(string \<times> ModelRate) list"

section \<open>Persistence\<close>

text \<open>
  The shared file: absent or not JSON (\<open>None\<close>), or an object with the three keys of this extension,
  each of which may be missing or of another type, and the keys of the other extensions.
\<close>

record swarm_file =
  sw_costs :: "CostEntry list option"
  sw_budget_limits :: "(string \<times> BudgetLimit) list option"
  sw_model_rates :: "(string \<times> ModelRate) list option"
  sw_others :: "(string \<times> json) list"

definition MAX_COSTS :: nat where
  "MAX_COSTS = 5000"

definition DEFAULT_MODEL_RATES :: "(string \<times> ModelRate) list" where
  "DEFAULT_MODEL_RATES =
     [(''glm-5.2'', \<lparr>in_per_1k = 2/1000, out_per_1k = 8/1000, mr_tier = Cheap\<rparr>),
      (''glm-5.3'', \<lparr>in_per_1k = 3/1000, out_per_1k = 12/1000, mr_tier = Strong\<rparr>),
      (''kimi-k3'', \<lparr>in_per_1k = 2/1000, out_per_1k = 8/1000, mr_tier = Cheap\<rparr>)]"

definition UNKNOWN_RATE :: ModelRate where
  "UNKNOWN_RATE = \<lparr>in_per_1k = 2/1000, out_per_1k = 8/1000, mr_tier = Cheap\<rparr>"

definition no_swarm :: swarm_file where
  "no_swarm = \<lparr>sw_costs = None, sw_budget_limits = None, sw_model_rates = None, sw_others = []\<rparr>"

definition normalize :: "swarm_file \<Rightarrow> BudgetState" where
  "normalize raw =
     \<lparr>costs = or_else (sw_costs raw) [], budget_limits = or_else (sw_budget_limits raw) [],
      model_rates = spread DEFAULT_MODEL_RATES (or_else (sw_model_rates raw) [])\<rparr>"

definition bm_load :: "swarm_file option \<Rightarrow> BudgetState" where
  "bm_load f = normalize (or_else f no_swarm)"

definition bm_save :: "BudgetState \<Rightarrow> swarm_file option \<Rightarrow> swarm_file option" where
  "bm_save s f = Some ((or_else f no_swarm)\<lparr>sw_costs := Some (costs s),
     sw_budget_limits := Some (budget_limits s), sw_model_rates := Some (model_rates s)\<rparr>)"

fun loadTasks :: "tm_file \<Rightarrow> Task list" where
  "loadTasks (Parsed ts _) = or_else ts []"
| "loadTasks Unreadable = []"

definition rateFor :: "BudgetState \<Rightarrow> string \<Rightarrow> ModelRate" where
  "rateFor s model = or_else (map_of (model_rates s) model) UNKNOWN_RATE"

definition calcCost :: "BudgetState \<Rightarrow> string \<Rightarrow> rat \<Rightarrow> rat \<Rightarrow> rat" where
  "calcCost s model tokensIn tokensOut =
     (let r = rateFor s model in tokensIn / 1000 * in_per_1k r + tokensOut / 1000 * out_per_1k r)"

section \<open>Aggregation\<close>

record bucket =
  b_cost :: rat
  b_tokens :: rat
  b_calls :: nat

record Aggregates =
  total_tokens_in :: rat
  total_tokens_out :: rat
  total_tokens :: rat
  total_cost :: rat
  total_latency_ms :: rat
  entry_count :: nat
  avg_latency_ms :: rat
  cost_by_agent :: "(string \<times> bucket) list"
  cost_by_task :: "(string \<times> bucket) list"
  cost_by_model :: "(string \<times> bucket) list"
  cost_by_investigation :: "(string \<times> bucket) list"

definition ce_tokens :: "CostEntry \<Rightarrow> rat" where
  "ce_tokens c = ce_tokens_in c + ce_tokens_out c"

text \<open>
  \<open>dim[key] ??= {...}\<close>: under a name that every object inherits there is already a value, which takes the sums instead
  of a bucket of the object.
\<close>

definition charge :: "string \<Rightarrow> CostEntry \<Rightarrow> (string \<times> bucket) list \<Rightarrow> (string \<times> bucket) list" where
  "charge key c tbl =
     (if inherited key then tbl
      else let b = or_else (map_of tbl key) \<lparr>b_cost = 0, b_tokens = 0, b_calls = 0\<rparr> in
      AList.update key \<lparr>b_cost = b_cost b + ce_cost c, b_tokens = b_tokens b + ce_tokens c,
                        b_calls = b_calls b + 1\<rparr> tbl)"

definition inv_key :: "CostEntry \<Rightarrow> string" where
  "inv_key c = or_else (or_null (ce_investigation_id c)) ''(none)''"

definition aggregate_step :: "CostEntry \<Rightarrow> Aggregates \<Rightarrow> Aggregates" where
  "aggregate_step c agg =
     agg\<lparr>total_tokens_in := total_tokens_in agg + ce_tokens_in c,
         total_tokens_out := total_tokens_out agg + ce_tokens_out c,
         total_tokens := total_tokens agg + ce_tokens c,
         total_cost := total_cost agg + ce_cost c,
         total_latency_ms := total_latency_ms agg + ce_latency_ms c,
         cost_by_agent := charge (ce_agent c) c (cost_by_agent agg),
         cost_by_task := charge (ce_task_id c) c (cost_by_task agg),
         cost_by_model := charge (ce_model c) c (cost_by_model agg),
         cost_by_investigation := charge (inv_key c) c (cost_by_investigation agg)\<rparr>"

definition aggregate :: "CostEntry list \<Rightarrow> Aggregates" where
  "aggregate cs =
     (let agg = fold aggregate_step cs
            \<lparr>total_tokens_in = 0, total_tokens_out = 0, total_tokens = 0, total_cost = 0,
             total_latency_ms = 0, entry_count = length cs, avg_latency_ms = 0, cost_by_agent = [],
             cost_by_task = [], cost_by_model = [], cost_by_investigation = []\<rparr>
      in agg\<lparr>avg_latency_ms :=
           (if entry_count agg > 0 then total_latency_ms agg / of_nat (entry_count agg) else 0)\<rparr>)"

record limit_status =
  ls_investigation_id :: string
  ls_used_tokens :: rat
  ls_used_cost :: rat
  ls_max_tokens :: "rat option"
  ls_max_cost :: "rat option"
  ls_tokens_remaining :: "rat option"
  ls_cost_remaining :: "rat option"
  ls_tokens_exceeded :: bool
  ls_cost_exceeded :: bool

definition limitStatus :: "BudgetState \<Rightarrow> string \<Rightarrow> limit_status option" where
  "limitStatus s i =
     (case map_of (budget_limits s) i of
        None \<Rightarrow> None
      | Some limit \<Rightarrow>
          (let scoped = filter (\<lambda>c. ce_investigation_id c = Some i) (costs s);
               usedTokens = foldl (\<lambda>a c. a + ce_tokens_in c + ce_tokens_out c) 0 scoped;
               usedCost = foldl (\<lambda>a c. a + ce_cost c) 0 scoped
           in Some \<lparr>ls_investigation_id = i, ls_used_tokens = usedTokens, ls_used_cost = usedCost,
                ls_max_tokens = bl_max_tokens limit, ls_max_cost = bl_max_cost limit,
                ls_tokens_remaining = map_option (\<lambda>m. max 0 (m - usedTokens)) (bl_max_tokens limit),
                ls_cost_remaining = map_option (\<lambda>m. max 0 (m - usedCost)) (bl_max_cost limit),
                ls_tokens_exceeded = (case bl_max_tokens limit of None \<Rightarrow> False | Some m \<Rightarrow> usedTokens > m),
                ls_cost_exceeded = (case bl_max_cost limit of None \<Rightarrow> False | Some m \<Rightarrow> usedCost > m)\<rparr>))"

section \<open>Ranking\<close>

fun PRIORITY_IMPACT :: "Priority \<Rightarrow> rat" where
  "PRIORITY_IMPACT CRITICAL = 1"
| "PRIORITY_IMPACT HIGH = 75/100"
| "PRIORITY_IMPACT MEDIUM = 5/10"
| "PRIORITY_IMPACT LOW = 25/100"

definition EXPLOIT_KEYWORDS :: "string list" where
  "EXPLOIT_KEYWORDS =
     [''exploit'', ''rce'', ''injection'', ''sqli'', ''xss'', ''ssrf'', ''auth'', ''bypass'',
      ''privilege'', ''escalation'', ''unauthorized'', ''deserialization'', ''traversal'',
      ''overflow'', ''key'', ''secret'', ''token'', ''credential'']"

record factors =
  expected_impact :: rat
  f_evidence :: rat
  confidence :: rat
  novelty :: rat
  exploitability :: rat
  f_cost :: rat

definition deriveFactors :: "Task list \<Rightarrow> Task \<Rightarrow> factors" where
  "deriveFactors ts t =
     (let n = rat_of_nat (length (t_evidence t));
          sameTarget = rat_of_nat (length (filter (\<lambda>u. t_id u \<noteq> t_id t \<and> truthy (t_target u) \<and> t_target u = t_target t) ts));
          h = toLowerCase (t_hypothesis t);
          hits = rat_of_nat (length (filter (\<lambda>k. sublist k h) EXPLOIT_KEYWORDS))
      in \<lparr>expected_impact = PRIORITY_IMPACT (t_priority t),
          f_evidence = min 1 (n / 5),
          confidence = min 1 (4/10 + 12/100 * n),
          novelty = 1 / (1 + 3/10 * sameTarget),
          exploitability = min 1 (4/10 + 2/10 * hits),
          f_cost = max 1 (t_estimated_cost t + t_actual_cost t)\<rparr>)"

definition score :: "factors \<Rightarrow> rat" where
  "score f = (expected_impact f * f_evidence f * confidence f * novelty f * exploitability f) / max (1 / 10 ^ 9) (f_cost f)"

section \<open>Routing\<close>

definition CHEAP_TASK_TYPES :: "string list" where
  "CHEAP_TASK_TYPES =
     [''extraction'', ''classification'', ''normalization'', ''summarization'', ''deduplication'',
      ''formatting'', ''triage'']"

definition STRONG_TASK_TYPES :: "string list" where
  "STRONG_TASK_TYPES =
     [''architecture'', ''business_logic'', ''attack_chain'', ''attack-chain'', ''attackchain'', ''critic'',
      ''synthesis'', ''reasoning'', ''correlation'', ''exploit_development'']"

text \<open>\<open>replace(/[\s-]+/g, "_")\<close>.\<close>

fun collapse_sep :: "bool \<Rightarrow> string \<Rightarrow> string" where
  "collapse_sep prev [] = []"
| "collapse_sep prev (c # s) =
     (if is_space c \<or> c = CHR ''-'' then (if prev then collapse_sep True s else CHR ''_'' # collapse_sep True s)
      else c # collapse_sep False s)"

datatype routing = Route string tier

definition tier_models :: "BudgetState \<Rightarrow> tier \<Rightarrow> (string \<times> ModelRate) list" where
  "tier_models s t = filter (\<lambda>(_, r). mr_tier r = t) (model_rates s)"

definition first_or :: "(string \<times> ModelRate) list \<Rightarrow> string \<Rightarrow> string" where
  "first_or ms d = (case ms of [] \<Rightarrow> d | (m, _) # _ \<Rightarrow> m)"

definition routeModel :: "BudgetState \<Rightarrow> string \<Rightarrow> routing" where
  "routeModel s taskType =
     (let t = collapse_sep False (toLowerCase taskType);
          cheap = tier_models s Cheap;
          strong = tier_models s Strong in
      if t \<in> set CHEAP_TASK_TYPES
      then Route (first_or (sort_key (\<lambda>(_, r). in_per_1k r) cheap) ''glm-5.2'') Cheap
      else if t \<in> set STRONG_TASK_TYPES \<or> sublist ''chain'' t \<or> sublist ''logic'' t \<or> sublist ''architecture'' t
      then Route (first_or (sort_key (\<lambda>(_, r). - out_per_1k r) strong) ''glm-5.3'') Strong
      else Route (first_or (sort_key (\<lambda>(_, r). - out_per_1k r) strong) ''glm-5.3'') Strong)"

section \<open>The tools\<close>

record track_params =
  tr_agent :: string
  tr_task_id :: string
  tr_tokens_in :: "rat option"
  tr_tokens_out :: "rat option"
  tr_model :: string
  tr_latency_ms :: "rat option"
  tr_investigation_id :: "string option"

record track_response =
  rs_entry :: CostEntry
  rs_budget :: "limit_status option"
  rs_warning :: bool

definition entry_of_params :: "time \<Rightarrow> string \<Rightarrow> BudgetState \<Rightarrow> track_params \<Rightarrow> CostEntry" where
  "entry_of_params now rnd s p =
     \<lparr>ce_id = ''cost-'' @ nat_to_string (nat now) @ ''-'' @ rnd,
      ce_investigation_id = or_null (tr_investigation_id p),
      ce_agent = tr_agent p, ce_task_id = tr_task_id p,
      ce_tokens_in = max 0 (or_else (tr_tokens_in p) 0), ce_tokens_out = max 0 (or_else (tr_tokens_out p) 0),
      ce_model = tr_model p, ce_latency_ms = max 0 (or_else (tr_latency_ms p) 0),
      ce_cost = calcCost s (tr_model p) (or_else (tr_tokens_in p) 0) (or_else (tr_tokens_out p) 0),
      ce_timestamp = now\<rparr>"

definition push_cost :: "CostEntry \<Rightarrow> CostEntry list \<Rightarrow> CostEntry list" where
  "push_cost e cs =
     (let cs = cs @ [e] in if length cs > MAX_COSTS then drop (length cs - MAX_COSTS) cs else cs)"

definition budget_track ::
  "time \<Rightarrow> string \<Rightarrow> track_params \<Rightarrow> swarm_file option \<Rightarrow> swarm_file option \<times> track_response" where
  "budget_track now rnd p f =
     (let s = bm_load f;
          entry = entry_of_params now rnd s p;
          s = s\<lparr>costs := push_cost entry (costs s)\<rparr>;
          f = bm_save s f;
          ls = (case ce_investigation_id entry of
                  Some i \<Rightarrow> if map_of (budget_limits s) i \<noteq> None then limitStatus s i else None
                | None \<Rightarrow> None)
      in (f, \<lparr>rs_entry = entry, rs_budget = ls,
              rs_warning = (case ls of None \<Rightarrow> False | Some l \<Rightarrow> ls_tokens_exceeded l \<or> ls_cost_exceeded l)\<rparr>))"

record status_response =
  st_aggregates :: Aggregates
  st_total_cost :: rat
  st_avg_ms :: int
  st_budgets :: "limit_status list"

definition budget_status :: "string option \<Rightarrow> swarm_file option \<Rightarrow> status_response" where
  "budget_status invest f =
     (let s = bm_load f;
          cs = (if truthy invest then filter (\<lambda>c. ce_investigation_id c = invest) (costs s) else costs s);
          agg = aggregate cs;
          ids = (if truthy invest then [the invest] else map fst (budget_limits s))
      in \<lparr>st_aggregates = agg, st_total_cost = to_fixed 6 (total_cost agg),
          st_avg_ms = round (avg_latency_ms agg), st_budgets = List.map_filter (limitStatus s) ids\<rparr>)"

definition budget_set_limit ::
  "time \<Rightarrow> string \<Rightarrow> rat option \<Rightarrow> rat option \<Rightarrow> swarm_file option \<Rightarrow> swarm_file option \<times> limit_status option" where
  "budget_set_limit now i max_tokens max_cost f =
     (let s = bm_load f;
          limit = \<lparr>bl_investigation_id = i, bl_max_tokens = max_tokens, bl_max_cost = max_cost, bl_created_at = now\<rparr>;
          s = s\<lparr>budget_limits := AList.update i limit (budget_limits s)\<rparr>
      in (bm_save s f, limitStatus s i))"

record prioritize_params =
  pp_task_id :: "string option"
  pp_expected_impact :: "rat option"
  pp_evidence :: "rat option"
  pp_confidence :: "rat option"
  pp_novelty :: "rat option"
  pp_exploitability :: "rat option"
  pp_cost :: "rat option"
  pp_limit :: "int option"

datatype prioritize_response =
    Scored string factors rat
  | Ranked "(Task \<times> factors \<times> rat) list"

definition rank_task :: "Task list \<Rightarrow> Task \<Rightarrow> Task \<times> factors \<times> rat" where
  "rank_task ts t = (let f = deriveFactors ts t in (t, f, to_fixed 6 (score f)))"

definition rank_active :: "int option \<Rightarrow> Task list \<Rightarrow> (Task \<times> factors \<times> rat) list" where
  "rank_active limit ts =
     slice0 (max 1 (num_or limit 20))
       (sort_key (\<lambda>(_, _, sc). - sc)
         (map (rank_task ts) (filter (\<lambda>t. t_status t \<in> {PENDING, CLAIMED, RUNNING}) ts)))"

definition explicit_factors :: "prioritize_params \<Rightarrow> rat \<Rightarrow> factors" where
  "explicit_factors p ei =
     \<lparr>expected_impact = ei, f_evidence = or_else (pp_evidence p) (1/2),
      confidence = or_else (pp_confidence p) (1/2), novelty = or_else (pp_novelty p) (1/2),
      exploitability = or_else (pp_exploitability p) (1/2), f_cost = or_else (pp_cost p) 1\<rparr>"

text \<open>Without active tasks the ranking is empty.\<close>

definition budget_prioritize :: "prioritize_params \<Rightarrow> tm_file \<Rightarrow> prioritize_response" where
  "budget_prioritize p f =
     (let ts = loadTasks f in
      if truthy (pp_task_id p) \<and> pp_expected_impact p \<noteq> None
      then (let fac = explicit_factors p (the (pp_expected_impact p))
            in Scored (the (pp_task_id p)) fac (to_fixed 6 (score fac)))
      else Ranked (rank_active (pp_limit p) ts))"

definition budget_model_route :: "string option \<Rightarrow> swarm_file option \<Rightarrow> routing list" where
  "budget_model_route ty f =
     (let s = bm_load f in
      if truthy ty then [routeModel s (the ty)] else map (routeModel s) (CHEAP_TASK_TYPES @ STRONG_TASK_TYPES))"

section \<open>The command /budget\<close>

record budget_view =
  bv_aggregates :: Aggregates
  bv_by_agent :: "(string \<times> bucket \<times> rat) list"
  bv_by_model :: "(string \<times> bucket) list"
  bv_by_task :: "(string \<times> bucket) list"
  bv_limits :: "limit_status list"
  bv_recent :: "CostEntry list"

definition by_cost :: "(string \<times> bucket) list \<Rightarrow> (string \<times> bucket) list" where
  "by_cost = sort_key (\<lambda>(_, b). - b_cost b)"

text \<open>The dashboard, \<open>None\<close> when no entry is recorded; the share of an agent is in percent.\<close>

definition budget_command :: "swarm_file option \<Rightarrow> budget_view option" where
  "budget_command f =
     (let s = bm_load f in
      if costs s = [] then None
      else
        (let agg = aggregate (costs s)
         in Some \<lparr>bv_aggregates = agg,
              bv_by_agent = map (\<lambda>(a, b). (a, b, if total_cost agg > 0 then to_fixed 1 (b_cost b / total_cost agg * 100) else 0))
                              (take 15 (by_cost (cost_by_agent agg))),
              bv_by_model = by_cost (cost_by_model agg),
              bv_by_task = take 10 (by_cost (cost_by_task agg)),
              bv_limits = List.map_filter (limitStatus s) (map fst (budget_limits s)),
              bv_recent = rev (drop (length (costs s) - 8) (costs s))\<rparr>))"

section \<open>Sequences of calls\<close>

datatype bm_call =
    Call_track time string track_params
  | Call_status "string option"
  | Call_set_limit time string "rat option" "rat option"
  | Call_route "string option"

datatype bm_response =
    Resp_track track_response | Resp_status status_response | Resp_limit "limit_status option" | Resp_route "routing list"

fun bm_exec :: "bm_call \<Rightarrow> swarm_file option \<Rightarrow> swarm_file option \<times> bm_response" where
  "bm_exec (Call_track now rnd p) f = (let (f', r) = budget_track now rnd p f in (f', Resp_track r))"
| "bm_exec (Call_status i) f = (f, Resp_status (budget_status i f))"
| "bm_exec (Call_set_limit now i mt mc) f = (let (f', r) = budget_set_limit now i mt mc f in (f', Resp_limit r))"
| "bm_exec (Call_route ty) f = (f, Resp_route (budget_model_route ty f))"

end
