(* ===== verification/Budget_Manager_Props.thy ===== *)
theory Budget_Manager_Props
  imports Budget_Manager
begin

text \<open>
  The properties of the budget manager: the shared file keeps the keys of other extensions, the
  aggregates are the sums of the entries, a limit is judged by the entries still stored, and what
  the ranking and the routing return.
\<close>

section \<open>The shared file\<close>

lemma fold_update_skip:
  "k \<notin> fst ` set ps \<Longrightarrow> fold (\<lambda>(k, v). AList.update k v) ps ((k, v) # qs) = (k, v) # fold (\<lambda>(k, v). AList.update k v) ps qs"
  by (induction ps arbitrary: qs) auto

lemma fold_update_same_keys:
  "map fst ms = map fst ds \<Longrightarrow> distinct (map fst ms) \<Longrightarrow> fold (\<lambda>(k, v). AList.update k v) ms ds = ms"
proof (induction ms arbitrary: ds)
  case (Cons m ms)
  then obtain d ds' where "ds = d # ds'" "fst m = fst d" by (cases ds) auto
  moreover from this Cons.prems(1) have "fst ` set ms = fst ` set ds'" by (metis list.map(2) list.inject set_map)
  ultimately show ?case using Cons by (cases m) (auto simp: fold_update_skip)
qed simp

lemma update_new: "k \<notin> fst ` set qs \<Longrightarrow> AList.update k v qs = qs @ [(k, v)]"
  by (induction qs) auto

lemma fold_update_new:
  "distinct (map fst (qs @ ps)) \<Longrightarrow> fold (\<lambda>(k, v). AList.update k v) ps qs = qs @ ps"
proof (induction ps arbitrary: qs)
  case (Cons p ps)
  obtain k v where p: "p = (k, v)" by (cases p)
  have "fold (\<lambda>(k, v). AList.update k v) ps (qs @ [(k, v)]) = (qs @ [(k, v)]) @ ps"
    by (rule Cons.IH) (use Cons.prems p in auto)
  moreover have "AList.update k v qs = qs @ [(k, v)]"
    by (rule update_new) (use Cons.prems p in \<open>auto simp: rev_image_eqI\<close>)
  ultimately show ?case by (simp add: p)
qed simp

lemma spread_keys:
  "distinct (map fst a) \<Longrightarrow> distinct (map fst (spread a b)) \<and> prefix (map fst a) (map fst (spread a b))"
proof (induction b arbitrary: a)
  case (Cons p b)
  obtain k v where p: "p = (k, v)" by (cases p)
  have "prefix (map fst a) (map fst (AList.update k v a))" by (simp add: update_keys)
  moreover have "distinct (map fst (AList.update k v a))" using Cons.prems by (rule distinct_update)
  ultimately show ?case using Cons.IH [of "AList.update k v a"] by (auto simp: spread_def p intro: prefix_order.trans)
qed (simp add: spread_def)

lemma spread_idem:
  assumes "distinct (map fst a)"
  shows "spread a (spread a b) = spread a b"
proof -
  let ?m = "spread a b"
  obtain ks where ks: "map fst ?m = map fst a @ ks" using spread_keys [OF assms, of b] by (auto simp: prefix_def)
  let ?m1 = "take (length a) ?m" and ?m2 = "drop (length a) ?m"
  have d: "distinct (map fst ?m)" using spread_keys [OF assms] by blast
  have "map fst ?m1 = map fst a" using ks by (simp add: take_map [symmetric])
  moreover have "distinct (map fst ?m1)" using d by (simp add: take_map [symmetric] distinct_take)
  ultimately have "fold (\<lambda>(k, v). AList.update k v) ?m1 a = ?m1" by (rule fold_update_same_keys)
  moreover have "fold (\<lambda>(k, v). AList.update k v) ?m2 ?m1 = ?m1 @ ?m2"
    by (rule fold_update_new) (use d in \<open>simp only: append_take_drop_id\<close>)
  ultimately have "fold (\<lambda>(k, v). AList.update k v) (?m1 @ ?m2) a = ?m1 @ ?m2" by (simp only: fold_append comp_apply)
  then show ?thesis unfolding spread_def [of a ?m] by (simp only: append_take_drop_id)
qed

definition rates_merged :: "BudgetState \<Rightarrow> bool" where
  "rates_merged s = (spread DEFAULT_MODEL_RATES (model_rates s) = model_rates s)"

definition others :: "swarm_file option \<Rightarrow> (string \<times> json) list" where
  "others f = (case f of None \<Rightarrow> [] | Some g \<Rightarrow> sw_others g)"

lemma rates_merged_load: "rates_merged (bm_load f)"
proof -
  have "distinct (map fst DEFAULT_MODEL_RATES)" by (simp add: DEFAULT_MODEL_RATES_def)
  then show ?thesis by (simp add: rates_merged_def bm_load_def normalize_def spread_idem)
qed

interpretation bm: shared_server bm_load bm_save others rates_merged bm_exec
proof
  fix c f
  show "fst (bm_exec c f) = f \<or> (\<exists>s. rates_merged s \<and> fst (bm_exec c f) = bm_save s f)"
  proof (cases c)
    case (Call_track now rnd p)
    then show ?thesis using rates_merged_load [of f]
      by (intro disjI2 exI [of _ "(bm_load f)\<lparr>costs := push_cost (entry_of_params now rnd (bm_load f) p) (costs (bm_load f))\<rparr>"])
        (simp add: budget_track_def Let_def rates_merged_def)
  next
    case (Call_set_limit now i mt mc)
    then show ?thesis using rates_merged_load [of f]
      by (intro disjI2 exI [of _ "(bm_load f)\<lparr>budget_limits := AList.update i
            \<lparr>bl_investigation_id = i, bl_max_tokens = mt, bl_max_cost = mc, bl_created_at = now\<rparr> (budget_limits (bm_load f))\<rparr>"])
        (simp add: budget_set_limit_def Let_def rates_merged_def)
  qed simp_all
qed (rule rates_merged_load, simp_all add: bm_load_def bm_save_def normalize_def rates_merged_def others_def no_swarm_def split: option.splits)

text \<open>The keys of the shared state file that belong to other extensions are untouched by every sequence of
  calls to the budget tools, and saving what was loaded changes nothing this extension reads.\<close>
theorem other_keys_untouched:
  "others (run_calls bm_exec cs f) = others f \<and> bm_load (bm_save (bm_load f) f) = bm_load f"
  using bm.run_others bm.save_load by blast

section \<open>Aggregation\<close>

definition breaks_down :: "(CostEntry \<Rightarrow> string) \<Rightarrow> CostEntry list \<Rightarrow> (string \<times> bucket) list \<Rightarrow> bool" where
  "breaks_down k cs tbl =
     (distinct (map fst tbl) \<and>
      map_of tbl = (\<lambda>x. let es = filter (\<lambda>c. k c = x) cs in
        if es = [] \<or> inherited x then None
        else Some \<lparr>b_cost = sum_list (map ce_cost es), b_tokens = sum_list (map ce_tokens es), b_calls = length es\<rparr>) \<and>
      (let owned = filter (\<lambda>c. \<not> inherited (k c)) cs in
       sum_list (map (b_cost \<circ> snd) tbl) = sum_list (map ce_cost owned) \<and>
       sum_list (map (b_calls \<circ> snd) tbl) = length owned))"

lemma sum_update:
  fixes f :: "'v \<Rightarrow> 'a::comm_monoid_add"
  assumes "distinct (map fst tbl)"
  shows "sum_list (map (f \<circ> snd) (AList.update k v tbl)) + (case map_of tbl k of None \<Rightarrow> 0 | Some w \<Rightarrow> f w) =
    sum_list (map (f \<circ> snd) tbl) + f v"
  using assms by (induction tbl) (auto simp: ac_simps split: option.splits)

lemma breaks_down_charge:
  assumes "breaks_down k cs tbl"
  shows "breaks_down k (cs @ [c]) (charge (k c) c tbl)"
proof (cases "inherited (k c)")
  case True
  then show ?thesis using assms by (auto simp: breaks_down_def charge_def fun_eq_iff Let_def)
next
  case False
  let ?es = "filter (\<lambda>x. k x = k c) cs"
  have d: "distinct (map fst tbl)" using assms by (simp add: breaks_down_def)
  have m: "map_of tbl (k c) = (if ?es = [] then None
        else Some \<lparr>b_cost = sum_list (map ce_cost ?es), b_tokens = sum_list (map ce_tokens ?es), b_calls = length ?es\<rparr>)"
    using assms False by (simp add: breaks_down_def Let_def)
  define b where "b = \<lparr>b_cost = sum_list (map ce_cost ?es) + ce_cost c, b_tokens = sum_list (map ce_tokens ?es) + ce_tokens c,
    b_calls = length ?es + 1\<rparr>"
  have ch: "charge (k c) c tbl = AList.update (k c) b tbl"
    unfolding charge_def m b_def using False by (auto simp: Let_def)
  have "sum_list (map (b_cost \<circ> snd) (AList.update (k c) b tbl)) = sum_list (map (b_cost \<circ> snd) tbl) + ce_cost c"
    using sum_update [OF d, of b_cost "k c" b] unfolding m by (auto simp: b_def split: if_splits)
  moreover have "sum_list (map (b_calls \<circ> snd) (AList.update (k c) b tbl)) = sum_list (map (b_calls \<circ> snd) tbl) + 1"
    using sum_update [OF d, of b_calls "k c" b] unfolding m by (auto simp: b_def split: if_splits)
  ultimately show ?thesis
    using assms d False unfolding breaks_down_def ch
    by (auto simp: distinct_update update_conv' fun_eq_iff b_def Let_def)
qed

lemma breaks_down_fold:
  "breaks_down k cs (fold (\<lambda>c. charge (k c) c) cs [])"
  by (induction cs rule: rev_induct) (simp_all add: breaks_down_charge, simp add: breaks_down_def fun_eq_iff)

lemma fold_aggregate:
  "cost_by_agent (fold aggregate_step cs a) = fold (\<lambda>c. charge (ce_agent c) c) cs (cost_by_agent a)"
  "cost_by_task (fold aggregate_step cs a) = fold (\<lambda>c. charge (ce_task_id c) c) cs (cost_by_task a)"
  "cost_by_model (fold aggregate_step cs a) = fold (\<lambda>c. charge (ce_model c) c) cs (cost_by_model a)"
  "cost_by_investigation (fold aggregate_step cs a) = fold (\<lambda>c. charge (inv_key c) c) cs (cost_by_investigation a)"
  "total_cost (fold aggregate_step cs a) = total_cost a + sum_list (map ce_cost cs)"
  "total_tokens (fold aggregate_step cs a) = total_tokens a + sum_list (map ce_tokens cs)"
  "total_tokens_in (fold aggregate_step cs a) = total_tokens_in a + sum_list (map ce_tokens_in cs)"
  "total_tokens_out (fold aggregate_step cs a) = total_tokens_out a + sum_list (map ce_tokens_out cs)"
  "total_latency_ms (fold aggregate_step cs a) = total_latency_ms a + sum_list (map ce_latency_ms cs)"
  "entry_count (fold aggregate_step cs a) = entry_count a"
  by (induction cs arbitrary: a; simp add: aggregate_step_def algebra_simps)+

text \<open>C9: The aggregates are the sums of the entries: their number, the totals of cost, of incoming and of outgoing tokens
  and of the latency with its average, and for each of the four dimensions (agent, task, model, investigation) one bucket
  per key that occurs, holding the cost, the tokens and the number of the entries with that key, so that the buckets of
  a dimension add up to the cost and to the number of its entries. Keys named like a property that every object inherits
  (\<open>constructor\<close>) have no bucket and are left out of these sums, not of the totals.\<close>
theorem aggregate_exact:
  "let a = aggregate cs in
   entry_count a = length cs \<and> total_cost a = sum_list (map ce_cost cs) \<and>
   total_tokens_in a = sum_list (map ce_tokens_in cs) \<and> total_tokens_out a = sum_list (map ce_tokens_out cs) \<and>
   total_tokens a = total_tokens_in a + total_tokens_out a \<and>
   total_latency_ms a = sum_list (map ce_latency_ms cs) \<and> avg_latency_ms a * of_nat (length cs) = total_latency_ms a \<and>
   breaks_down ce_agent cs (cost_by_agent a) \<and> breaks_down ce_task_id cs (cost_by_task a) \<and>
   breaks_down ce_model cs (cost_by_model a) \<and> breaks_down inv_key cs (cost_by_investigation a)"
proof -
  have "sum_list (map ce_tokens cs) = sum_list (map ce_tokens_in cs) + sum_list (map ce_tokens_out cs)"
    by (induction cs) (simp_all add: ce_tokens_def)
  then show ?thesis by (simp add: aggregate_def Let_def fold_aggregate breaks_down_fold)
qed

section \<open>Limits\<close>

definition spent :: "(CostEntry \<Rightarrow> rat) \<Rightarrow> string \<Rightarrow> CostEntry list \<Rightarrow> rat" where
  "spent w i cs = sum_list (map w (filter (\<lambda>c. ce_investigation_id c = Some i) cs))"

lemma spent_append [simp]: "spent w i (xs @ ys) = spent w i xs + spent w i ys"
  by (simp add: spent_def)

lemma foldl_spent:
  "foldl (\<lambda>a c. a + ce_cost c) x cs = x + sum_list (map ce_cost cs)"
  "foldl (\<lambda>a c. a + ce_tokens_in c + ce_tokens_out c) x cs = x + sum_list (map ce_tokens cs)"
  by (induction cs arbitrary: x; simp add: ce_tokens_def algebra_simps)+

lemma limitStatus_eq:
  "limitStatus s i = map_option (\<lambda>l.
     \<lparr>ls_investigation_id = i, ls_used_tokens = spent ce_tokens i (costs s), ls_used_cost = spent ce_cost i (costs s),
      ls_max_tokens = bl_max_tokens l, ls_max_cost = bl_max_cost l,
      ls_tokens_remaining = map_option (\<lambda>m. max 0 (m - spent ce_tokens i (costs s))) (bl_max_tokens l),
      ls_cost_remaining = map_option (\<lambda>m. max 0 (m - spent ce_cost i (costs s))) (bl_max_cost l),
      ls_tokens_exceeded = (case bl_max_tokens l of None \<Rightarrow> False | Some m \<Rightarrow> spent ce_tokens i (costs s) > m),
      ls_cost_exceeded = (case bl_max_cost l of None \<Rightarrow> False | Some m \<Rightarrow> spent ce_cost i (costs s) > m)\<rparr>)
     (map_of (budget_limits s) i)"
  by (simp add: limitStatus_def spent_def foldl_spent Let_def split: option.splits)

lemma load_track:
  "bm_load (fst (budget_track now rnd p f)) =
     (bm_load f)\<lparr>costs := push_cost (entry_of_params now rnd (bm_load f) p) (costs (bm_load f))\<rparr>"
  using rates_merged_load [of f] by (simp add: budget_track_def Let_def bm.load_save rates_merged_def)

lemma push_cost_small: "length cs < MAX_COSTS \<Longrightarrow> push_cost e cs = cs @ [e]"
  by (simp add: push_cost_def)

lemma push_cost_full: "length cs = MAX_COSTS \<Longrightarrow> push_cost e cs = tl cs @ [e]"
  by (cases cs) (simp_all add: push_cost_def MAX_COSTS_def)

lemma length_push_cost: "length cs \<le> MAX_COSTS \<Longrightarrow> length (push_cost e cs) \<le> MAX_COSTS"
  by (simp add: push_cost_def Let_def MAX_COSTS_def)

text \<open>C10: Spend is counted against its budget: while the log holds fewer than 5000 entries, tracking work for an
  investigation with limits adds exactly the cost and the tokens of the new entry to what counts as used,
  and the answer carries a warning exactly when the use then exceeds one of the limits that are set.\<close>
theorem track_counts_against_limit:
  assumes "length (costs (bm_load f)) < MAX_COSTS" "tr_investigation_id p = Some i" "i \<noteq> []"
    and "map_of (budget_limits (bm_load f)) i = Some l"
  shows "let cs = costs (bm_load f); (f', r) = budget_track now rnd p f; e = rs_entry r;
      tokens = spent ce_tokens i cs + ce_tokens e; cost = spent ce_cost i cs + ce_cost e in
    costs (bm_load f') = cs @ [e] \<and>
    map_option ls_used_tokens (rs_budget r) = Some tokens \<and> map_option ls_used_cost (rs_budget r) = Some cost \<and>
    (rs_warning r \<longleftrightarrow> (\<exists>m. bl_max_tokens l = Some m \<and> m < tokens) \<or> (\<exists>m. bl_max_cost l = Some m \<and> m < cost))"
proof -
  let ?e = "entry_of_params now rnd (bm_load f) p"
  have i: "ce_investigation_id ?e = Some i" using assms(2,3) by (simp add: entry_of_params_def)
  have one: "spent w i [?e] = w ?e" for w using i by (simp add: spent_def)
  obtain f' r where fr: "budget_track now rnd p f = (f', r)" by (cases "budget_track now rnd p f")
  have "costs (bm_load f') = costs (bm_load f) @ [?e]"
    using load_track [of now rnd p f] assms(1) fr by (simp add: push_cost_small)
  moreover have "rs_entry r = ?e" and
    "rs_budget r = limitStatus ((bm_load f)\<lparr>costs := costs (bm_load f) @ [?e]\<rparr>) i" and
    "rs_warning r = (case rs_budget r of None \<Rightarrow> False | Some l \<Rightarrow> ls_tokens_exceeded l \<or> ls_cost_exceeded l)"
    using fr i assms(1,4) by (auto simp: budget_track_def Let_def push_cost_small)
  ultimately show ?thesis unfolding Let_def fr
    by (auto simp: limitStatus_eq assms(4) one split: option.splits)
qed

definition track_demo :: "rat \<Rightarrow> track_params" where
  "track_demo n = \<lparr>tr_agent = ''critic'', tr_task_id = ''T-001'', tr_tokens_in = Some n, tr_tokens_out = None,
     tr_model = ''glm-5.2'', tr_latency_ms = None, tr_investigation_id = Some ''I''\<rparr>"

definition limited_file :: "swarm_file option" where
  "limited_file = fst (budget_set_limit 0 ''I'' (Some 100) None None)"

lemma limited_load:
  "bm_load limited_file = \<lparr>costs = [], budget_limits = [(''I'', \<lparr>bl_investigation_id = ''I'', bl_max_tokens = Some 100,
     bl_max_cost = None, bl_created_at = 0\<rparr>)], model_rates = DEFAULT_MODEL_RATES\<rparr>"
  by (simp add: limited_file_def budget_set_limit_def bm_load_def bm_save_def normalize_def no_swarm_def spread_def
      DEFAULT_MODEL_RATES_def Let_def)

theorem track_counts_against_limit_witness:
  "rs_warning (snd (budget_track 1 ''r'' (track_demo 101) limited_file))"
proof -
  let ?l = "\<lparr>bl_investigation_id = ''I'', bl_max_tokens = Some 100, bl_max_cost = None, bl_created_at = 0\<rparr>"
  have "length (costs (bm_load limited_file)) < MAX_COSTS" "tr_investigation_id (track_demo 101) = Some ''I''"
    "map_of (budget_limits (bm_load limited_file)) ''I'' = Some ?l"
    by (simp_all add: limited_load MAX_COSTS_def track_demo_def)
  from track_counts_against_limit [OF this(1,2) _ this(3), of 1 "''r''"] show ?thesis
    by (simp add: Let_def split: prod.splits)
      (simp add: limited_load spent_def budget_track_def Let_def entry_of_params_def ce_tokens_def track_demo_def)
qed

text \<open>A full log forgets spend: with 5000 entries stored, tracking work of another investigation drops the
  oldest entry, and the cost used by the investigation it belonged to falls by the cost of that entry, so
  a budget that was exceeded can appear to have room again.\<close>
theorem full_log_forgets_spend:
  assumes "length (costs (bm_load f)) = MAX_COSTS" "ce_investigation_id (hd (costs (bm_load f))) = Some i"
    and "tr_investigation_id p \<noteq> Some i"
  shows "spent ce_cost i (costs (bm_load (fst (budget_track now rnd p f)))) =
         spent ce_cost i (costs (bm_load f)) - ce_cost (hd (costs (bm_load f)))"
proof -
  let ?e = "entry_of_params now rnd (bm_load f) p"
  obtain c cs where cs: "costs (bm_load f) = c # cs" using assms(1) by (cases "costs (bm_load f)") (auto simp: MAX_COSTS_def)
  have "ce_investigation_id ?e \<noteq> Some i" using assms(3) by (auto simp: entry_of_params_def or_null_def)
  then have "spent ce_cost i [?e] = 0" by (simp add: spent_def)
  then show ?thesis using assms(1,2) cs by (simp add: load_track push_cost_full) (simp add: spent_def)
qed

theorem full_log_forgets_spend_witness:
  "let e = \<lparr>ce_id = ''x'', ce_investigation_id = Some ''J'', ce_agent = ''a'', ce_task_id = ''t'', ce_tokens_in = 1,
      ce_tokens_out = 0, ce_model = ''glm-5.2'', ce_latency_ms = 0, ce_cost = 1, ce_timestamp = 0\<rparr>;
      f = Some (no_swarm\<lparr>sw_costs := Some (replicate 5000 e)\<rparr>) in
   spent ce_cost ''J'' (costs (bm_load (fst (budget_track 1 ''r'' (track_demo 5) f)))) = 4999"
proof -
  define e where "e = \<lparr>ce_id = ''x'', ce_investigation_id = Some ''J'', ce_agent = ''a'', ce_task_id = ''t'', ce_tokens_in = 1,
      ce_tokens_out = 0, ce_model = ''glm-5.2'', ce_latency_ms = 0, ce_cost = 1, ce_timestamp = 0\<rparr>"
  define f where "f = Some (no_swarm\<lparr>sw_costs := Some (replicate 5000 e)\<rparr>)"
  have cs: "costs (bm_load f) = replicate 5000 e" by (simp add: f_def bm_load_def normalize_def)
  have h: "hd (replicate 5000 e) = e" by (simp add: hd_replicate)
  have "spent ce_cost ''J'' (replicate 5000 e) = 5000"
    by (simp add: spent_def filter_replicate sum_list_replicate e_def)
  then have "spent ce_cost ''J'' (costs (bm_load (fst (budget_track 1 ''r'' (track_demo 5) f)))) = 4999"
    using full_log_forgets_spend [of f "''J''" "track_demo 5" 1 "''r''"]
    by (simp add: cs h MAX_COSTS_def track_demo_def) (simp add: e_def)
  then show ?thesis by (simp add: Let_def e_def f_def)
qed

text \<open>The cost of an entry is computed from the token counts as given, not from the clamped counts it
  stores: a negative count is stored as zero tokens but with a negative cost, which lowers the spend.\<close>
theorem negative_tokens_negative_cost:
  "let e = rs_entry (snd (budget_track 1 ''r'' (track_demo (- 1000)) limited_file)) in
   ce_tokens_in e = 0 \<and> ce_tokens_out e = 0 \<and> ce_cost e = - 2 / 1000"
  by (simp add: budget_track_def Let_def entry_of_params_def limited_load track_demo_def calcCost_def rateFor_def
      DEFAULT_MODEL_RATES_def)

section \<open>Ranking\<close>

lemma mult_unit:
  fixes a b :: rat
  assumes "0 \<le> a \<and> a \<le> 1" "0 \<le> b \<and> b \<le> 1"
  shows "0 \<le> a * b \<and> a * b \<le> 1"
  using assms by (simp add: mult_le_one)

lemma derived_unit:
  "0 \<le> expected_impact (deriveFactors ts t) \<and> expected_impact (deriveFactors ts t) \<le> 1"
  "0 \<le> f_evidence (deriveFactors ts t) \<and> f_evidence (deriveFactors ts t) \<le> 1"
  "0 \<le> confidence (deriveFactors ts t) \<and> confidence (deriveFactors ts t) \<le> 1"
  "0 \<le> novelty (deriveFactors ts t) \<and> novelty (deriveFactors ts t) \<le> 1"
  "0 \<le> exploitability (deriveFactors ts t) \<and> exploitability (deriveFactors ts t) \<le> 1"
  "1 \<le> f_cost (deriveFactors ts t)"
  by (cases "t_priority t"; simp add: deriveFactors_def Let_def)
    (simp_all add: deriveFactors_def Let_def)

lemma derived_score: "0 \<le> score (deriveFactors ts t) \<and> score (deriveFactors ts t) \<le> 1"
proof -
  let ?f = "deriveFactors ts t"
  have "0 \<le> expected_impact ?f * f_evidence ?f * confidence ?f * novelty ?f * exploitability ?f \<and>
        expected_impact ?f * f_evidence ?f * confidence ?f * novelty ?f * exploitability ?f \<le> 1"
    by (intro mult_unit derived_unit)
  moreover have "1 \<le> max (1 / 10 ^ 9) (f_cost ?f)" using derived_unit(6) [of ts t] by simp
  ultimately show ?thesis by (auto simp: score_def divide_le_eq)
qed

lemma to_fixed_unit: "0 \<le> x \<and> x \<le> 1 \<Longrightarrow> 0 \<le> to_fixed 6 x \<and> to_fixed 6 x \<le> 1"
proof -
  assume x: "0 \<le> x \<and> x \<le> 1"
  then have "0 \<le> round (x * 10 ^ 6)" "round (x * 10 ^ 6) \<le> 1000000"
    unfolding round_def by (simp_all add: floor_le_iff)
  then have "0 \<le> (of_int (round (x * 10 ^ 6)) :: rat)" "of_int (round (x * 10 ^ 6)) \<le> (1000000 :: rat)" by linarith+
  then show ?thesis using x by (simp add: to_fixed_def)
qed

text \<open>The ranking lists active tasks by descending score, up to the limit: each entry is a pending, claimed or
  running task with the score of its derived factors, between 0 and 1, and a task without evidence scores 0
  whatever its priority. No active task is missing when the limit is large enough.\<close>
theorem ranking_spec:
  assumes "0 \<le> n"
  shows "let ts = loadTasks f; active = filter (\<lambda>t. t_status t \<in> {PENDING, CLAIMED, RUNNING}) ts;
      rs = rank_active (Some n) ts in
    sorted_wrt (\<lambda>(_, _, a) (_, _, b). a \<ge> b) rs \<and>
    (\<forall>(t, fac, sc) \<in> set rs. t \<in> set active \<and> sc = to_fixed 6 (score (deriveFactors ts t)) \<and>
       0 \<le> sc \<and> sc \<le> 1 \<and> (t_evidence t = [] \<longrightarrow> sc = 0)) \<and>
    length rs = min (length active) (nat (max 1 (if n = 0 then 20 else n))) \<and>
    (length active \<le> nat n \<longrightarrow> mset (map fst rs) = mset active)"
proof -
  define ts where "ts = loadTasks f"
  define active where "active = filter (\<lambda>t. t_status t \<in> {PENDING, CLAIMED, RUNNING}) ts"
  define k where "k = (if n = 0 then 20 else n)"
  let ?all = "sort_key (\<lambda>(_, _, sc). - sc) (map (rank_task ts) active)"
  have rs: "rank_active (Some n) ts = take (nat (max 1 k)) ?all"
    using assms by (simp add: rank_active_def slice0_def active_def k_def)
  have "sorted_wrt (\<lambda>(_, _, a) (_, _, b). a \<ge> b) ?all"
    using sorted_sort_key [of "\<lambda>(_, _, sc). - sc" "map (rank_task ts) active"]
    unfolding sorted_map by (rule sorted_wrt_mono_rel [rotated]) auto
  then have "sorted_wrt (\<lambda>(_, _, a) (_, _, b). a \<ge> b) (rank_active (Some n) ts)"
    unfolding rs by (rule sorted_wrt_take)
  moreover have "t \<in> set active \<and> sc = to_fixed 6 (score (deriveFactors ts t)) \<and> 0 \<le> sc \<and> sc \<le> 1 \<and>
      (t_evidence t = [] \<longrightarrow> sc = 0)" if "(t, fac, sc) \<in> set (rank_active (Some n) ts)" for t fac sc
  proof -
    have "(t, fac, sc) \<in> set ?all" using that rs by (metis in_set_takeD)
    then have t: "t \<in> set active" "sc = to_fixed 6 (score (deriveFactors ts t))"
      by (auto simp: rank_task_def Let_def)
    moreover have "sc = 0" if "t_evidence t = []"
      using that t(2) by (simp add: score_def deriveFactors_def Let_def to_fixed_def)
    ultimately show ?thesis using to_fixed_unit [OF derived_score] by blast
  qed
  moreover have "length (rank_active (Some n) ts) = min (length active) (nat (max 1 k))" by (simp add: rs)
  moreover have "mset (map fst (rank_active (Some n) ts)) = mset active" if "length active \<le> nat n"
  proof -
    have "rank_active (Some n) ts = ?all" using that assms unfolding rs by (cases "n = 0") (simp_all add: k_def)
    then have "mset (map fst (rank_active (Some n) ts)) = image_mset (fst \<circ> rank_task ts) (mset active)"
      by (simp add: image_mset.compositionality)
    also have "\<dots> = mset active" by (simp add: comp_def rank_task_def Let_def)
    finally show ?thesis .
  qed
  ultimately show ?thesis unfolding Let_def ts_def active_def k_def by blast
qed

definition ranked_demo :: tm_file where
  "ranked_demo = fst (task_create 0 \<lparr>cp_hypothesis = ''RCE via upload'', cp_priority = CRITICAL, cp_target = None,
     cp_parent_task = None, cp_dependencies = None, cp_owner = None, cp_estimated_cost = None\<rparr> Unreadable)"

theorem ranking_spec_witness:
  "map (snd \<circ> snd) (rank_active (Some 5) (loadTasks ranked_demo)) = [0]"
proof -
  have act: "length (filter (\<lambda>t. t_status t \<in> {PENDING, CLAIMED, RUNNING}) (loadTasks ranked_demo)) = 1"
    and ev: "\<forall>t \<in> set (loadTasks ranked_demo). t_evidence t = []" by code_simp+
  note spec = ranking_spec [of 5 ranked_demo, unfolded Let_def]
  have "length (rank_active (Some 5) (loadTasks ranked_demo)) = 1" using spec act by simp
  then obtain t fac sc where r: "rank_active (Some 5) (loadTasks ranked_demo) = [(t, fac, sc)]"
    by (cases "rank_active (Some 5) (loadTasks ranked_demo)") auto
  have "sc = 0" using spec ev unfolding r by auto
  then show ?thesis by (simp add: r)
qed

section \<open>Routing\<close>

lemma first_or_sort:
  assumes "ms \<noteq> []"
  shows "\<exists>r. (first_or (sort_key k ms) d, r) \<in> set ms \<and> (\<forall>p \<in> set ms. k (first_or (sort_key k ms) d, r) \<le> k p)"
proof -
  obtain m r rest where s: "sort_key k ms = (m, r) # rest" using assms
    by (metis list.exhaust set_empty set_sort surj_pair)
  then have "(m, r) \<in> set ms" "set (sort_key k ms) = set ms" by (metis list.set_intros(1) set_sort) simp
  moreover have "k (m, r) \<le> k p" if "p \<in> set ms" for p
  proof -
    have "p = (m, r) \<or> p \<in> set rest" using that s by (metis set_ConsD set_sort)
    then show ?thesis using sorted_sort_key [of k ms] unfolding s by auto
  qed
  ultimately show ?thesis using s by (auto simp: first_or_def)
qed

text \<open>Routing respects the tiers: exactly the seven mechanical task types, up to case and separators, go to the
  cheap tier; the model recommended is one of the rate table with that tier whenever the table has one, the one with
  the lowest input rate for the cheap tier and the one with the highest output rate for the strong tier.\<close>
theorem routing_spec:
  assumes "routeModel s ty = Route m t" "tier_models s t \<noteq> []"
  shows "(t = Cheap \<longleftrightarrow> collapse_sep False (toLowerCase ty) \<in> set CHEAP_TASK_TYPES) \<and>
    (\<exists>r. (m, r) \<in> set (model_rates s) \<and> mr_tier r = t \<and>
      (\<forall>(m', r') \<in> set (model_rates s). mr_tier r' = t \<longrightarrow>
         (if t = Cheap then in_per_1k r \<le> in_per_1k r' else out_per_1k r' \<le> out_per_1k r)))"
proof (cases "collapse_sep False (toLowerCase ty) \<in> set CHEAP_TASK_TYPES")
  case True
  then have r: "t = Cheap" "m = first_or (sort_key (\<lambda>(_, r). in_per_1k r) (tier_models s Cheap)) ''glm-5.2''"
    using assms(1) by (simp_all add: routeModel_def Let_def)
  show ?thesis using first_or_sort [of "tier_models s Cheap" "\<lambda>(_, r). in_per_1k r" "''glm-5.2''"] assms(2) r True
    by (fastforce simp: tier_models_def)
next
  case False
  then have r: "t = Strong" "m = first_or (sort_key (\<lambda>(_, r). - out_per_1k r) (tier_models s Strong)) ''glm-5.3''"
    using assms(1) by (simp_all add: routeModel_def Let_def)
  show ?thesis using first_or_sort [of "tier_models s Strong" "\<lambda>(_, r). - out_per_1k r" "''glm-5.3''"] assms(2) r False
    by (fastforce simp: tier_models_def)
qed

theorem routing_spec_witness:
  "collapse_sep False (toLowerCase ''Triage'') \<in> set CHEAP_TASK_TYPES"
proof -
  have "routeModel (bm_load None) ''Triage'' = Route ''glm-5.2'' Cheap" by code_simp
  moreover have "tier_models (bm_load None) Cheap \<noteq> []" by code_simp
  ultimately show ?thesis using routing_spec [of "bm_load None" "''Triage''" "''glm-5.2''" Cheap] by simp
qed

end
