(* ===== verification/Collective_Memory.thy ===== *)
theory Collective_Memory
  imports JSString Json_Store
begin

text \<open>
  The shared memory of the swarm (\<open>collective-memory.ts\<close>): items in two levels and ten categories,
  storing with merge, targeted retrieval, ranked search, the check for duplicates and pruning.
  Scores are rational numbers. \<open>JSON.stringify\<close>, which only feeds the text that is searched, is a
  parameter. A result of a query is a position in the array of items, so that marking the results as
  accessed changes those very items.
\<close>

section \<open>Data\<close>

datatype MemoryLevel = Local | Collective

text \<open>
  The ten categories, and what the category of an item can be besides: the source looks names up in an object, which
  inherits \<open>constructor\<close> and \<open>__proto__\<close>. The function found under the first is not written to the file, so that the
  item is read back without a category; the object found under the second is read back as an empty object. Neither
  equals, by \<open>===\<close>, what a later lookup finds.
\<close>

datatype MemoryCategory =
    Assets | Architecture | Identities | Workflows | Observations | Hypotheses | Findings
  | Attack_Chains | False_Positives | Knowledge_Items
  | Inherited_function | Inherited_object

fun cat_name :: "MemoryCategory \<Rightarrow> string" where
  "cat_name Assets = ''assets''"
| "cat_name Architecture = ''architecture''"
| "cat_name Identities = ''identities''"
| "cat_name Workflows = ''workflows''"
| "cat_name Observations = ''observations''"
| "cat_name Hypotheses = ''hypotheses''"
| "cat_name Findings = ''findings''"
| "cat_name Attack_Chains = ''attack_chains''"
| "cat_name False_Positives = ''false_positives''"
| "cat_name Knowledge_Items = ''knowledge_items''"
| "cat_name Inherited_function = []"
| "cat_name Inherited_object = ''[object Object]''"

definition CATEGORIES :: "MemoryCategory list" where
  "CATEGORIES =
     [Assets, Architecture, Identities, Workflows, Observations, Hypotheses, Findings, Attack_Chains,
      False_Positives, Knowledge_Items]"

text \<open>\<open>i.category === cat\<close> for a category read from the file and one that was looked up.\<close>

definition same_category :: "MemoryCategory \<Rightarrow> MemoryCategory \<Rightarrow> bool" where
  "same_category c cat = (c = cat \<and> c \<in> set CATEGORIES)"

record MemoryItem =
  mi_id :: string
  mi_level :: MemoryLevel
  mi_category :: MemoryCategory
  mi_key :: string
  mi_value :: json
  mi_agent :: string
  mi_confidence :: rat
  mi_title :: string
  mi_target :: "string option"
  mi_created_at :: time
  mi_updated_at :: time
  mi_access_count :: nat
  mi_last_accessed_at :: "time option"

record MemoryStore =
  items :: "MemoryItem list"
  mem_counter :: nat

section \<open>Persistence\<close>

datatype mem_file = Mem_unreadable | Mem_parsed "MemoryItem list option" "nat option"

fun mem_load :: "mem_file \<Rightarrow> MemoryStore" where
  "mem_load (Mem_parsed is c) = \<lparr>items = or_else is [], mem_counter = or_else c 0\<rparr>"
| "mem_load Mem_unreadable = \<lparr>items = [], mem_counter = 0\<rparr>"

definition mem_save :: "MemoryStore \<Rightarrow> mem_file \<Rightarrow> mem_file" where
  "mem_save m f = Mem_parsed (Some (items m)) (Some (mem_counter m))"

definition mem_id :: "nat \<Rightarrow> string" where
  "mem_id n = ''M-'' @ padStart 4 (CHR ''0'') (nat_to_string n)"

definition mem_nextId :: "MemoryStore \<Rightarrow> string \<times> MemoryStore" where
  "mem_nextId m = (mem_id (mem_counter m + 1), m\<lparr>mem_counter := mem_counter m + 1\<rparr>)"

section \<open>Helpers\<close>

definition aliases :: "(string \<times> MemoryCategory) list" where
  "aliases =
     [(''asset'', Assets), (''hosts'', Assets), (''domains'', Assets), (''endpoints'', Assets),
      (''arch'', Architecture), (''map'', Architecture),
      (''identity'', Identities), (''users'', Identities), (''roles'', Identities), (''orgs'', Identities),
      (''permissions'', Identities),
      (''workflow'', Workflows), (''business_workflows'', Workflows),
      (''observation'', Observations), (''hypothesis'', Hypotheses), (''finding'', Findings),
      (''chains'', Attack_Chains), (''attack_chain'', Attack_Chains),
      (''fp'', False_Positives), (''false_positive'', False_Positives), (''rejected'', False_Positives),
      (''knowledge'', Knowledge_Items), (''knowledge_item'', Knowledge_Items)]"

definition normalizeCategory :: "string \<Rightarrow> MemoryCategory option" where
  "normalizeCategory c =
     (let lower = trim (toLowerCase c) in
      case find (\<lambda>k. cat_name k = lower) CATEGORIES of
        Some k \<Rightarrow> Some k
      | None \<Rightarrow>
          (case map_of aliases lower of
             Some k \<Rightarrow> Some k
           | None \<Rightarrow>
               if lower = ''__proto__'' then Some Inherited_object
               else if inherited lower then Some Inherited_function else None))"

definition text_field :: "(string \<times> json) list \<Rightarrow> string \<Rightarrow> string option" where
  "text_field v f = (case map_of v f of Some (JStr s) \<Rightarrow> if s = [] then None else Some s | _ \<Rightarrow> None)"

definition first_text :: "string list \<Rightarrow> (string \<times> json) list \<Rightarrow> string option" where
  "first_text fs v = (case List.map_filter (text_field v) fs of [] \<Rightarrow> None | s # _ \<Rightarrow> Some s)"

definition deriveTitle :: "json \<Rightarrow> string" where
  "deriveTitle value =
     (case value of
        JStr s \<Rightarrow> take 120 s
      | JObj v \<Rightarrow>
          (case first_text [''title'', ''name'', ''host'', ''domain'', ''url'', ''endpoint'', ''description'',
                            ''summary'', ''note''] v of
             Some s \<Rightarrow> take 120 s | None \<Rightarrow> [])
      | _ \<Rightarrow> [])"

definition deriveTarget :: "json \<Rightarrow> string option" where
  "deriveTarget value =
     (case value of
        JObj v \<Rightarrow> first_text [''target'', ''host'', ''domain'', ''url'', ''ip'', ''endpoint'', ''scope''] v
      | _ \<Rightarrow> None)"

definition itemText :: "(json \<Rightarrow> string) \<Rightarrow> MemoryItem \<Rightarrow> string" where
  "itemText stringify i =
     toLowerCase (join '' ''
       ([mi_title i, mi_key i, cat_name (mi_category i)] @
        (if truthy (mi_target i) then [the (mi_target i)] else []) @ [stringify (mi_value i)]))"

definition token_char :: "char \<Rightarrow> bool" where
  "token_char c =
     (97 \<le> char_code c \<and> char_code c \<le> 122 \<or> is_digit c \<or> is_space c \<or> c \<in> set ''.-_/'')"

definition tokenize :: "string \<Rightarrow> string list" where
  "tokenize s =
     filter (\<lambda>t. length t > 1)
       (split_ws (map (\<lambda>c. if token_char c then c else CHR '' '') (toLowerCase s)))"

definition relevanceScore :: "(json \<Rightarrow> string) \<Rightarrow> string \<Rightarrow> MemoryItem \<Rightarrow> rat" where
  "relevanceScore stringify query i =
     (let txt = itemText stringify i; tokens = tokenize query in
      if tokens = [] then 0
      else of_nat (length (filter (\<lambda>tok. sublist tok txt) tokens)) / of_nat (length tokens))"

definition similarity :: "string \<Rightarrow> string \<Rightarrow> rat" where
  "similarity a b =
     (let ta = remdups (tokenize a); tb = remdups (tokenize b) in
      if ta = [] \<or> tb = [] then 0
      else (let inter = length (filter (\<lambda>t. t \<in> set tb) ta)
            in of_nat inter / of_int (int (length ta) + int (length tb) - int inter)))"

definition accessed :: "time \<Rightarrow> MemoryItem \<Rightarrow> MemoryItem" where
  "accessed now i = i\<lparr>mi_access_count := mi_access_count i + 1, mi_last_accessed_at := Some now\<rparr>"

text \<open>\<open>markAccessed\<close> on the items at the given positions.\<close>

definition markAccessed :: "time \<Rightarrow> nat list \<Rightarrow> MemoryItem list \<Rightarrow> MemoryItem list" where
  "markAccessed now ps is = map (\<lambda>(p, i). if p \<in> set ps then accessed now i else i) (enumerate 0 is)"

text \<open>Ranking: the items with a positive score, best first; equal scores keep the order.\<close>

definition ranked_by :: "(MemoryItem \<Rightarrow> rat) \<Rightarrow> (nat \<times> MemoryItem) list \<Rightarrow> (nat \<times> MemoryItem) list" where
  "ranked_by sc ps = sort_key (\<lambda>(_, i). - sc i) (filter (\<lambda>(_, i). sc i > 0) ps)"

section \<open>Storing\<close>

record store_params =
  sp_category :: string
  sp_key :: string
  sp_value :: json
  sp_agent :: string
  sp_confidence :: "rat option"
  sp_level :: "MemoryLevel option"

datatype store_response =
    Bad_category
  | Key_required
  | Item_updated MemoryItem
  | Item_created MemoryItem

definition clamp01 :: "rat \<Rightarrow> rat" where
  "clamp01 x = (let x = (if x < 0 then 0 else x) in if x > 1 then 1 else x)"

definition same_slot :: "MemoryLevel \<Rightarrow> MemoryCategory \<Rightarrow> string \<Rightarrow> string \<Rightarrow> MemoryItem \<Rightarrow> bool" where
  "same_slot level cat key agent i =
     (mi_level i = level \<and> same_category (mi_category i) cat \<and> mi_key i = key \<and> (level = Collective \<or> mi_agent i = agent))"

definition refreshed :: "time \<Rightarrow> json \<Rightarrow> rat \<Rightarrow> string \<Rightarrow> MemoryItem \<Rightarrow> MemoryItem" where
  "refreshed now value conf agent i =
     i\<lparr>mi_value := value, mi_confidence := conf, mi_updated_at := now, mi_agent := agent\<rparr>"

definition new_item :: "time \<Rightarrow> string \<Rightarrow> MemoryLevel \<Rightarrow> MemoryCategory \<Rightarrow> string \<Rightarrow> json \<Rightarrow> string \<Rightarrow> rat \<Rightarrow> MemoryItem" where
  "new_item now i level cat key value agent conf =
     \<lparr>mi_id = i, mi_level = level, mi_category = cat, mi_key = key, mi_value = value, mi_agent = agent,
      mi_confidence = conf, mi_title = (if deriveTitle value = [] then key else deriveTitle value),
      mi_target = deriveTarget value, mi_created_at = now, mi_updated_at = now, mi_access_count = 0,
      mi_last_accessed_at = None\<rparr>"

definition memory_store :: "time \<Rightarrow> store_params \<Rightarrow> mem_file \<Rightarrow> mem_file \<times> store_response" where
  "memory_store now p f =
     (case normalizeCategory (sp_category p) of
        None \<Rightarrow> (f, Bad_category)
      | Some cat \<Rightarrow>
          (let level = or_else (sp_level p) Collective;
               agent = (if sp_agent p = [] then ''unknown'' else sp_agent p);
               key = trim (sp_key p) in
           if key = [] then (f, Key_required)
           else
             (let conf = clamp01 (or_else (sp_confidence p) (1/2));
                  m = mem_load f;
                  slot = same_slot level cat key agent in
              case find slot (items m) of
                Some ex \<Rightarrow>
                  (mem_save (m\<lparr>items := map_first slot (refreshed now (sp_value p) conf agent) (items m)\<rparr>) f,
                   Item_updated (refreshed now (sp_value p) conf agent ex))
              | None \<Rightarrow>
                  (let (i, m) = mem_nextId m;
                       it = new_item now i level cat key (sp_value p) agent conf
                   in (mem_save (m\<lparr>items := items m @ [it]\<rparr>) f, Item_created it)))))"

section \<open>Retrieving and searching\<close>

record retrieve_params =
  rp_category :: "string option"
  rp_key :: "string option"
  rp_key_prefix :: "string option"
  rp_query :: "string option"
  rp_level :: "MemoryLevel option"
  rp_agent :: "string option"
  rp_limit :: "int option"

text \<open>The items shown (as they are after being marked) and the number that matched.\<close>

datatype retrieve_response = Invalid_category | Retrieved "MemoryItem list" nat

definition filter_if :: "bool \<Rightarrow> ('a \<Rightarrow> bool) \<Rightarrow> 'a list \<Rightarrow> 'a list" where
  "filter_if b P xs = (if b then filter P xs else xs)"

definition memory_retrieve ::
  "(json \<Rightarrow> string) \<Rightarrow> time \<Rightarrow> retrieve_params \<Rightarrow> mem_file \<Rightarrow> mem_file \<times> retrieve_response" where
  "memory_retrieve stringify now p f =
     (let m = mem_load f; cat = normalizeCategory (or_else (rp_category p) []) in
      if truthy (rp_category p) \<and> cat = None then (f, Invalid_category)
      else
        (let ps = enumerate 0 (items m);
             ps = filter_if (truthy (rp_category p)) (\<lambda>(_, i). same_category (mi_category i) (the cat)) ps;
             ps = filter_if (truthy (rp_key p)) (\<lambda>(_, i). Some (mi_key i) = rp_key p) ps;
             ps = filter_if (truthy (rp_key_prefix p)) (\<lambda>(_, i). prefix (the (rp_key_prefix p)) (mi_key i)) ps;
             ps = filter_if (rp_level p \<noteq> None) (\<lambda>(_, i). Some (mi_level i) = rp_level p) ps;
             ps = filter_if (truthy (rp_agent p)) (\<lambda>(_, i). Some (mi_agent i) = rp_agent p) ps;
             ps = (if truthy (rp_query p) then ranked_by (relevanceScore stringify (the (rp_query p))) ps else ps);
             results = slice0 (num_or (rp_limit p) 25) ps;
             m' = m\<lparr>items := markAccessed now (map fst results) (items m)\<rparr>
         in (mem_save m' f, Retrieved (map (accessed now \<circ> snd) results) (length ps))))"

record search_params =
  se_query :: string
  se_limit :: "int option"
  se_min_confidence :: "rat option"

datatype search_response = Query_required | Found "(MemoryItem \<times> rat) list"

definition memory_search ::
  "(json \<Rightarrow> string) \<Rightarrow> time \<Rightarrow> search_params \<Rightarrow> mem_file \<Rightarrow> mem_file \<times> search_response" where
  "memory_search stringify now p f =
     (let m = mem_load f; query = trim (se_query p) in
      if query = [] then (f, Query_required)
      else
        (let ps = enumerate 0 (items m);
             ps = filter_if (se_min_confidence p \<noteq> None) (\<lambda>(_, i). mi_confidence i \<ge> the (se_min_confidence p)) ps;
             results = slice0 (num_or (se_limit p) 10) (ranked_by (relevanceScore stringify query) ps);
             m' = m\<lparr>items := markAccessed now (map fst results) (items m)\<rparr>
         in (mem_save m' f, Found (map (\<lambda>(_, i). (accessed now i, relevanceScore stringify query i)) results))))"

section \<open>Checking for duplicates\<close>

definition typeToCategories :: "(string \<times> MemoryCategory list) list" where
  "typeToCategories =
     [(''observation'', [Observations]), (''finding'', [Findings, False_Positives]), (''asset'', [Assets]),
      (''hypothesis'', [Hypotheses]), (''chain'', [Attack_Chains]), (''attack_chain'', [Attack_Chains]),
      (''workflow'', [Workflows]), (''identity'', [Identities]), (''architecture'', [Architecture]),
      (''knowledge_item'', [Knowledge_Items]), (''knowledge'', [Knowledge_Items])]"

definition duplicate_score :: "string \<Rightarrow> string \<Rightarrow> MemoryItem \<Rightarrow> rat" where
  "duplicate_score title target i =
     (let titleSim = similarity title (mi_title i @ '' '' @ mi_key i);
          targetSim = (if target = [] then 0 else similarity target (or_else (mi_target i) [] @ '' '' @ mi_key i))
      in titleSim * (7/10) + targetSim * (3/10))"

datatype duplicate_response = Duplicate_check bool rat "(MemoryItem \<times> rat) list" | Check_throws

text \<open>
  The scores of the answer, which the source rounds to three digits for display, are exact here. What is found under an
  inherited name has no method \<open>includes\<close>, which the first item calls.
\<close>

definition memory_check_duplicate ::
  "time \<Rightarrow> string \<Rightarrow> string \<Rightarrow> string \<Rightarrow> mem_file \<Rightarrow> mem_file \<times> duplicate_response" where
  "memory_check_duplicate now ty title target f =
     (let m = mem_load f; kind = trim (toLowerCase ty) in
      if inherited kind \<and> items m \<noteq> [] then (f, Check_throws)
      else
     (let cats = or_else (map_of typeToCategories kind) CATEGORIES;
          candidates = filter (\<lambda>(_, i). mi_category i \<in> set cats) (enumerate 0 (items m));
          sc = (\<lambda>(_, i). duplicate_score title target i);
          scored = take 5 (sort_key (\<lambda>x. - sc x) (filter (\<lambda>x. sc x > 1/10) candidates));
          isDuplicate = (scored \<noteq> [] \<and> sc (hd scored) \<ge> 1/2);
          best = (if scored = [] then 0 else sc (hd scored));
          m' = m\<lparr>items := markAccessed now (map fst (filter (\<lambda>x. sc x \<ge> 1/2) scored)) (items m)\<rparr>
      in (mem_save m' f, Duplicate_check isDuplicate best (map (\<lambda>x. (snd x, sc x)) scored))))"

section \<open>Pruning\<close>

record prune_params =
  pr_max_age_days :: "rat option"
  pr_dry_run :: bool
  pr_force :: bool
  pr_category :: "string option"

datatype prune_response =
    Bad_age
  | Bad_prune_category
  | Would_prune "MemoryItem list" nat
  | Pruned "MemoryItem list" nat

definition durable :: "MemoryCategory list" where
  "durable = [Findings, False_Positives]"

definition prunable :: "rat \<Rightarrow> bool \<Rightarrow> MemoryCategory option \<Rightarrow> MemoryItem \<Rightarrow> bool" where
  "prunable cutoff force cat i =
     (if cat \<noteq> None \<and> \<not> same_category (mi_category i) (the cat) then False
      else if \<not> force \<and> mi_category i \<in> set durable then False
      else of_int (mi_updated_at i) < cutoff)"

definition memory_prune :: "time \<Rightarrow> prune_params \<Rightarrow> mem_file \<Rightarrow> mem_file \<times> prune_response" where
  "memory_prune now p f =
     (let m = mem_load f in
      case pr_max_age_days p of
        None \<Rightarrow> (f, Bad_age)
      | Some days \<Rightarrow>
          if days \<le> 0 then (f, Bad_age)
          else
            (let cutoff = of_int now - days * 24 * 60 * 60 * 1000;
                 cat = (if truthy (pr_category p) then normalizeCategory (the (pr_category p)) else None) in
             if truthy (pr_category p) \<and> cat = None then (f, Bad_prune_category)
             else
               (let stale = prunable cutoff (pr_force p) cat;
                    toPrune = filter stale (items m);
                    kept = filter (\<lambda>i. \<not> stale i) (items m) in
                if pr_dry_run p then (f, Would_prune toPrune (length kept))
                else (mem_save (m\<lparr>items := kept\<rparr>) f, Pruned toPrune (length kept)))))"

section \<open>The command /memory\<close>

record memory_view =
  mv_by_category :: "(MemoryCategory \<times> nat \<times> nat) list"
  mv_collective :: nat
  mv_local :: nat
  mv_agents :: "(string \<times> nat) list"
  mv_recent :: "MemoryItem list"
  mv_hot :: "MemoryItem list"
  mv_buckets :: "nat list option"
  mv_stale :: "nat option"

definition count_agents :: "MemoryItem list \<Rightarrow> (string \<times> nat) list" where
  "count_agents is = map (\<lambda>a. (a, length (filter (\<lambda>i. mi_agent i = a) is))) (rev (remdups (rev (map mi_agent is))))"

definition bucket_index :: "rat \<Rightarrow> int" where
  "bucket_index c = min 4 (floor (c * 5))"

text \<open>
  Per category the numbers of collective and local items. A line of the recent or of the hot items pads the name of the
  category, which throws when the item has none.
\<close>

datatype memory_answer = Empty_memory | Overview memory_view | Overview_throws

definition recent_items :: "MemoryItem list \<Rightarrow> MemoryItem list" where
  "recent_items is = take 10 (sort_key (\<lambda>i. - mi_created_at i) is)"

definition hot_items :: "MemoryItem list \<Rightarrow> MemoryItem list" where
  "hot_items is = take 5 (filter (\<lambda>i. mi_access_count i > 0) (sort_key (\<lambda>i. - int (mi_access_count i)) is))"

definition memory_command :: "time \<Rightarrow> string \<Rightarrow> mem_file \<Rightarrow> memory_answer" where
  "memory_command now args f =
     (let is = items (mem_load f); sub = toLowerCase (trim args);
          on_level = (\<lambda>l. filter (\<lambda>i. mi_level i = l)) in
      if is = [] then Empty_memory
      else if list_ex (\<lambda>i. mi_category i \<notin> set CATEGORIES) (recent_items is @ hot_items is) then Overview_throws
      else Overview
        \<lparr>mv_by_category = filter (\<lambda>(_, c, l). c + l > 0)
           (map (\<lambda>k. (k, length (on_level Collective (filter (\<lambda>i. mi_category i = k) is)),
                       length (on_level Local (filter (\<lambda>i. mi_category i = k) is)))) CATEGORIES),
         mv_collective = length (on_level Collective is), mv_local = length (on_level Local is),
         mv_agents = take 12 (sort_key (\<lambda>(_, n). - int n) (count_agents is)),
         mv_recent = recent_items is, mv_hot = hot_items is,
         mv_buckets = (if sub = ''stats'' \<or> sub = ''full''
           then Some (map (\<lambda>b. length (filter (\<lambda>i. bucket_index (mi_confidence i) = b) is)) [0..4]) else None),
         mv_stale = (if sub = ''prune''
           then Some (length (filter (\<lambda>i. mi_category i \<noteq> Findings \<and> mi_category i \<noteq> False_Positives \<and>
                        mi_updated_at i < now - 30 * 24 * 60 * 60 * 1000) is)) else None)\<rparr>)"

section \<open>Sequences of calls\<close>

datatype mem_call =
    Call_store time store_params
  | Call_retrieve time retrieve_params
  | Call_search time search_params
  | Call_duplicate time string string string
  | Call_prune time prune_params

datatype mem_response =
    Resp_store store_response | Resp_retrieve retrieve_response | Resp_search search_response
  | Resp_duplicate duplicate_response | Resp_prune prune_response

fun mem_exec :: "(json \<Rightarrow> string) \<Rightarrow> mem_call \<Rightarrow> mem_file \<Rightarrow> mem_file \<times> mem_response" where
  "mem_exec st (Call_store now p) f = map_prod id Resp_store (memory_store now p f)"
| "mem_exec st (Call_retrieve now p) f = map_prod id Resp_retrieve (memory_retrieve st now p f)"
| "mem_exec st (Call_search now p) f = map_prod id Resp_search (memory_search st now p f)"
| "mem_exec st (Call_duplicate now ty ti ta) f = map_prod id Resp_duplicate (memory_check_duplicate now ty ti ta f)"
| "mem_exec st (Call_prune now p) f = map_prod id Resp_prune (memory_prune now p f)"

end
