(* ===== verification/Collective_Memory_Props.thy ===== *)
theory Collective_Memory_Props
  imports Collective_Memory
begin

text \<open>
  The properties of the collective memory: the invariant of the store, that what was stored is what a
  targeted retrieval returns, what search and the check for duplicates rank, and what pruning keeps.
\<close>

section \<open>The invariant\<close>

definition slot_of :: "MemoryItem \<Rightarrow> MemoryLevel \<times> MemoryCategory \<times> string \<times> string option" where
  "slot_of i = (mi_level i, mi_category i, mi_key i, if mi_level i = Local then Some (mi_agent i) else None)"

text \<open>
  Identifiers are numbered in creation order, no slot of a category is taken twice, and confidences are between 0
  and 1.
\<close>

definition categorized :: "MemoryItem \<Rightarrow> bool" where
  "categorized i = (mi_category i \<in> set CATEGORIES)"

definition slots_of :: "MemoryItem list \<Rightarrow> (MemoryLevel \<times> MemoryCategory \<times> string \<times> string option) list" where
  "slots_of is = map slot_of (filter categorized is)"

lemma slots_of_append [simp]: "slots_of (xs @ ys) = slots_of xs @ slots_of ys" "slots_of [] = []"
  by (simp_all add: slots_of_def)

lemma slots_of_cong:
  assumes "map slot_of xs = map slot_of ys"
  shows "slots_of xs = slots_of ys"
proof -
  have "categorized = (\<lambda>s. fst (snd s) \<in> set CATEGORIES) \<circ> slot_of" by (simp add: fun_eq_iff categorized_def slot_of_def)
  then have "slots_of zs = filter (\<lambda>s. fst (snd s) \<in> set CATEGORIES) (map slot_of zs)" for zs
    by (simp add: slots_of_def filter_map)
  with assms show ?thesis by simp
qed

definition num_of :: "string \<Rightarrow> nat" where
  "num_of s = dec_val (drop 2 s)"

lemma num_of_mem_id [simp]: "num_of (mem_id n) = n"
  by (simp add: num_of_def mem_id_def dec_val_padStart)

definition mem_wf :: "MemoryStore \<Rightarrow> bool" where
  "mem_wf m =
     (sorted_wrt (<) (map (num_of \<circ> mi_id) (items m)) \<and> distinct (slots_of (items m)) \<and>
      (\<forall>i \<in> set (items m). mi_id i = mem_id (num_of (mi_id i)) \<and> num_of (mi_id i) \<le> mem_counter m \<and>
         0 \<le> mi_confidence i \<and> mi_confidence i \<le> 1))"

lemma mem_load_save [simp]: "mem_load (mem_save m f) = m"
  by (simp add: mem_save_def)

lemma same_slot_iff:
  "same_slot level cat key agent i \<longleftrightarrow> categorized i \<and> slot_of i = (level, cat, key, if level = Local then Some agent else None)"
  by (cases level) (auto simp: same_slot_def same_category_def categorized_def slot_of_def)

lemma clamp01_bounds: "0 \<le> clamp01 x \<and> clamp01 x \<le> 1"
  by (simp add: clamp01_def Let_def)

lemma accessed_simps [simp]:
  "mi_id (accessed now i) = mi_id i" "slot_of (accessed now i) = slot_of i"
  "mi_confidence (accessed now i) = mi_confidence i" "mi_value (accessed now i) = mi_value i"
  by (simp_all add: accessed_def slot_of_def)

lemma length_markAccessed [simp]: "length (markAccessed now ps is) = length is"
  by (simp add: markAccessed_def)

lemma nth_markAccessed:
  "k < length is \<Longrightarrow> markAccessed now ps is ! k = (if k \<in> set ps then accessed now (is ! k) else is ! k)"
  by (simp add: markAccessed_def nth_enumerate_eq)

lemma map_markAccessed:
  assumes "\<And>i. g (accessed now i) = g i"
  shows "map g (markAccessed now ps is) = map g is"
  by (rule nth_equalityI) (simp_all add: nth_markAccessed assms)

lemma mem_wf_mark [inv_intros]: "mem_wf m \<Longrightarrow> mem_wf (m\<lparr>items := markAccessed now ps (items m)\<rparr>)"
proof -
  assume wf: "mem_wf m"
  let ?is = "markAccessed now ps (items m)"
  let ?g = "\<lambda>i. (mi_id i, mi_confidence i)"
  have "map ?g ?is = map ?g (items m)" by (rule map_markAccessed) simp
  then have s: "?g ` set ?is = ?g ` set (items m)" by (metis set_map)
  have "mi_id i = mem_id (num_of (mi_id i)) \<and> num_of (mi_id i) \<le> mem_counter m \<and> 0 \<le> mi_confidence i \<and> mi_confidence i \<le> 1"
    if i: "i \<in> set ?is" for i
  proof -
    have "?g i \<in> ?g ` set (items m)" using i s by blast
    then obtain j where "j \<in> set (items m)" "mi_id i = mi_id j" "mi_confidence i = mi_confidence j" by auto
    then show ?thesis using wf by (simp add: mem_wf_def)
  qed
  moreover have "map (num_of \<circ> mi_id) ?is = map (num_of \<circ> mi_id) (items m)" "map slot_of ?is = map slot_of (items m)"
    by (rule map_markAccessed, simp)+
  ultimately show ?thesis using wf slots_of_cong [of ?is "items m"] by (simp add: mem_wf_def)
qed

lemma mem_wf_filter [inv_intros]: "mem_wf m \<Longrightarrow> mem_wf (m\<lparr>items := filter P (items m)\<rparr>)"
  using distinct_map_filter [of slot_of "filter categorized (items m)" P]
  by (auto simp: mem_wf_def slots_of_def sorted_wrt_map conj_commute intro: sorted_wrt_filter)

lemma refreshed_simps [simp]:
  "mi_id (refreshed now v c a i) = mi_id i" "mi_confidence (refreshed now v c a i) = c"
  "mi_value (refreshed now v c a i) = v" "mi_key (refreshed now v c a i) = mi_key i"
  "mi_level (refreshed now v c a i) = mi_level i" "mi_category (refreshed now v c a i) = mi_category i"
  "mi_agent (refreshed now v c a i) = a"
  by (simp_all add: refreshed_def)

lemma slot_refreshed: "same_slot l k key a i \<Longrightarrow> slot_of (refreshed now v c a i) = slot_of i"
  by (cases l) (auto simp: same_slot_def slot_of_def)

lemma mem_wf_refresh [inv_intros]:
  assumes "mem_wf m" "0 \<le> c \<and> c \<le> 1"
  shows "mem_wf (m\<lparr>items := map_first (same_slot l k key a) (refreshed now v c a) (items m)\<rparr>)"
proof -
  let ?is = "map_first (same_slot l k key a) (refreshed now v c a) (items m)"
  have "map (num_of \<circ> mi_id) ?is = map (num_of \<circ> mi_id) (items m)" by (rule map_map_first) simp
  moreover have "map slot_of ?is = map slot_of (items m)" by (rule map_map_first) (rule slot_refreshed)
  moreover have "mi_id i = mem_id (num_of (mi_id i)) \<and> num_of (mi_id i) \<le> mem_counter m \<and> 0 \<le> mi_confidence i \<and> mi_confidence i \<le> 1"
    if "i \<in> set ?is" for i
    using set_map_first [OF that] assms by (auto simp: mem_wf_def dest!: find_SomeD)
  ultimately show ?thesis using assms(1) slots_of_cong [of ?is "items m"] by (simp add: mem_wf_def)
qed

lemma mem_wf_new [inv_intros]:
  assumes "mem_wf m" "0 \<le> c \<and> c \<le> 1" "find (same_slot l k key a) (items m) = None"
  shows "mem_wf (m\<lparr>mem_counter := Suc (mem_counter m),
    items := items m @ [new_item now (mem_id (Suc (mem_counter m))) l k key v a c]\<rparr>)"
proof -
  have "\<forall>i \<in> set (items m). \<not> same_slot l k key a i" using assms(3) by (auto simp: find_None_iff)
  then have "slot_of (new_item now (mem_id (Suc (mem_counter m))) l k key v a c) \<notin> set (slots_of (items m))"
    by (auto simp: same_slot_iff slot_of_def slots_of_def new_item_def)
  then have "distinct (slots_of (items m @ [new_item now (mem_id (Suc (mem_counter m))) l k key v a c]))"
    using assms(1) by (auto simp: mem_wf_def slots_of_def)
  then show ?thesis using assms(1,2)
    by (auto simp: mem_wf_def sorted_wrt_append new_item_def le_Suc_eq less_Suc_eq_le simp del: slots_of_append)
qed

lemma mem_wf_store:
  assumes "mem_wf (mem_load f)"
  shows "mem_wf (mem_load (fst (memory_store now p f)))"
  using assms clamp01_bounds
  by (auto simp: memory_store_def Let_def mem_nextId_def split: option.splits intro!: mem_wf_refresh mem_wf_new)

interpretation mem: tool_server mem_load mem_save "mem_exec st" mem_wf Mem_unreadable for st
proof
  fix c f assume "mem_wf (mem_load f)"
  then show "mem_wf (mem_load (fst (mem_exec st c f)))"
    by (cases c) (auto simp: mem_wf_store memory_retrieve_def memory_search_def memory_check_duplicate_def
        memory_prune_def Let_def inv_intros split: option.splits)
qed (simp_all add: mem_wf_def)

text \<open>C11: After any sequence of tool calls on a fresh data directory the memory is well formed: identifiers are
  numbered in the order of creation, two items with one of the ten categories never share level, category and key (for
  local memory: and agent), and every confidence is between 0 and 1. (Items stored under a name that every object inherits
  have none of the ten categories, see \<open>inherited_category_lost\<close>.)\<close>
theorem memory_invariant:
  "let is = items (mem_load (run_calls (mem_exec st) cs Mem_unreadable)) in
   sorted_wrt (<) (map (num_of \<circ> mi_id) is) \<and> distinct (map mi_id is) \<and> distinct (map slot_of (filter (\<lambda>i. mi_category i \<in> set CATEGORIES) is)) \<and>
   list_all (\<lambda>i. 0 \<le> mi_confidence i \<and> mi_confidence i \<le> 1) is"
proof -
  let ?is = "items (mem_load (run_calls (mem_exec st) cs Mem_unreadable))"
  have wf: "mem_wf (mem_load (run_calls (mem_exec st) cs Mem_unreadable))" by (rule mem.run_start_inv)
  then have "sorted_wrt (<) (map (num_of \<circ> mi_id) ?is)" by (simp add: mem_wf_def)
  then have "distinct (map num_of (map mi_id ?is))" by (simp add: strict_sorted_iff)
  then have "distinct (map mi_id ?is)" by (simp only: distinct_map)
  then show ?thesis using wf by (simp add: mem_wf_def slots_of_def categorized_def [abs_def] Let_def list_all_iff)
qed

section \<open>Storing and retrieving\<close>

definition exact_query :: "store_params \<Rightarrow> retrieve_params" where
  "exact_query p =
     \<lparr>rp_category = Some (sp_category p), rp_key = Some (trim (sp_key p)), rp_key_prefix = None, rp_query = None,
      rp_level = Some (or_else (sp_level p) Collective),
      rp_agent = Some (if sp_agent p = [] then ''unknown'' else sp_agent p), rp_limit = None\<rparr>"

lemma filter_unique:
  assumes "distinct is" "it \<in> set is" "\<And>i. i \<in> set is \<Longrightarrow> Q i \<longleftrightarrow> i = it"
  shows "map snd (filter (\<lambda>(_, i). Q i) (enumerate n is)) = [it]"
  using assms
proof (induction "is" arbitrary: n)
  case (Cons x xs)
  show ?case
  proof (cases "x = it")
    case True
    then have "\<forall>i \<in> set xs. \<not> Q i" using Cons.prems by auto
    then have "filter (\<lambda>(_, i). Q i) (enumerate (Suc n) xs) = []"
      by (auto simp: filter_empty_conv in_set_enumerate_eq)
    then show ?thesis using True Cons.prems by simp
  next
    case False
    then show ?thesis using Cons by auto
  qed
qed simp

lemma memory_store_cases:
  assumes "memory_store now p f = (f', r)" "r = Item_created it \<or> r = Item_updated it"
  obtains cat where "normalizeCategory (sp_category p) = Some cat" "trim (sp_key p) \<noteq> []"
    "it \<in> set (items (mem_load f'))" "mi_value it = sp_value p"
    "mi_level it = or_else (sp_level p) Collective" "mi_category it = cat" "mi_key it = trim (sp_key p)"
    "mi_agent it = (if sp_agent p = [] then ''unknown'' else sp_agent p)"
proof (cases "normalizeCategory (sp_category p)")
  case None
  then show ?thesis using assms by (auto simp: memory_store_def)
next
  case (Some cat)
  let ?l = "or_else (sp_level p) Collective" and ?a = "if sp_agent p = [] then ''unknown'' else sp_agent p"
    and ?k = "trim (sp_key p)"
  let ?slot = "same_slot ?l cat ?k ?a" and ?c = "clamp01 (or_else (sp_confidence p) (1/2))"
  have key: "?k \<noteq> []" using assms Some by (auto simp: memory_store_def Let_def)
  have ex: "y \<in> set xs \<Longrightarrow> P y \<Longrightarrow> \<exists>x. find P xs = Some x \<and> h x \<in> set (map_first P h xs)" for y P h and xs :: "MemoryItem list"
    by (induction xs) auto
  show ?thesis
  proof (cases "find ?slot (items (mem_load f))")
    case None
    then have r: "it = new_item now (mem_id (Suc (mem_counter (mem_load f)))) ?l cat ?k (sp_value p) ?a ?c"
      "items (mem_load f') = items (mem_load f) @ [it]"
      using assms \<open>normalizeCategory (sp_category p) = Some cat\<close> key
      unfolding memory_store_def Let_def mem_nextId_def by (simp_all add: None, auto simp: None)
    show ?thesis
      by (rule that [OF \<open>normalizeCategory (sp_category p) = Some cat\<close> key]) (simp add: r(2), simp_all add: r(1) new_item_def)
  next
    case (Some ex)
    have sl: "?slot ex" using find_SomeD [OF Some] by (rule conjunct2)
    have r: "it = refreshed now (sp_value p) ?c ?a ex"
      "items (mem_load f') = map_first ?slot (refreshed now (sp_value p) ?c ?a) (items (mem_load f))"
      using assms Some \<open>normalizeCategory (sp_category p) = Some cat\<close> key by (auto simp: memory_store_def Let_def)
    have "it \<in> set (items (mem_load f'))"
      using ex [of ex "items (mem_load f)" ?slot] Some sl find_SomeD [OF Some] unfolding r by fastforce
    then show ?thesis
      by (rule that [OF \<open>normalizeCategory (sp_category p) = Some cat\<close> key])
        (use sl in \<open>simp_all add: r same_slot_def same_category_def\<close>)
  qed
qed

lemma normalize_known:
  assumes "normalizeCategory c = Some cat" "\<not> inherited (trim (toLowerCase c))"
  shows "cat \<in> set CATEGORIES"
proof -
  have "snd ` set aliases \<subseteq> set CATEGORIES" by code_simp
  moreover have "\<not> inherited (trim (toLowerCase c)) \<Longrightarrow> trim (toLowerCase c) \<noteq> ''__proto__''" by (auto simp: inherited_def)
  ultimately show ?thesis using assms
    by (fastforce simp: normalizeCategory_def Let_def dest: find_SomeD map_of_SomeD split: option.splits if_splits)
qed

text \<open>C12: What was stored is what a targeted retrieval returns: after a call that created or updated an item, asking
  for its category, key, level and agent yields exactly that item, with the value just stored, provided the name of the
  category is not that of a property every object inherits.\<close>
theorem store_then_retrieve:
  assumes "mem_wf (mem_load f)" "memory_store now p f = (f', r)" "r = Item_created it \<or> r = Item_updated it"
    and "\<not> inherited (trim (toLowerCase (sp_category p)))"
  shows "snd (memory_retrieve st now' (exact_query p) f') = Retrieved [accessed now' it] 1 \<and> mi_value it = sp_value p"
proof -
  obtain cat where it: "normalizeCategory (sp_category p) = Some cat" "trim (sp_key p) \<noteq> []"
    "it \<in> set (items (mem_load f'))" "mi_value it = sp_value p"
    "mi_level it = or_else (sp_level p) Collective" "mi_category it = cat" "mi_key it = trim (sp_key p)"
    "mi_agent it = (if sp_agent p = [] then ''unknown'' else sp_agent p)"
    using memory_store_cases [OF assms(2,3)] by metis
  have wf: "mem_wf (mem_load f')" using mem_wf_store [OF assms(1), of now p] assms(2) by simp
  have "sorted_wrt (<) (map (num_of \<circ> mi_id) (items (mem_load f')))" using wf by (simp add: mem_wf_def)
  then have d: "distinct (items (mem_load f'))" by (simp add: strict_sorted_iff distinct_map)
  have k: "cat \<in> set CATEGORIES" by (rule normalize_known [OF it(1) assms(4)])
  have ne: "sp_category p \<noteq> []"
  proof
    assume "sp_category p = []"
    moreover have "normalizeCategory [] = None" by code_simp
    ultimately show False using it(1) by simp
  qed
  define Q where "Q = (\<lambda>i :: MemoryItem. mi_agent i = mi_agent it \<and> mi_level i = mi_level it \<and> mi_key i = mi_key it \<and>
    same_category (mi_category i) cat)"
  have uniq: "Q i \<longleftrightarrow> i = it" if i: "i \<in> set (items (mem_load f'))" for i
  proof
    assume "Q i"
    then have "slot_of i = slot_of it" "categorized i" "categorized it"
      using it(6) k by (simp_all add: Q_def slot_of_def same_category_def categorized_def)
    then show "i = it" using wf i it(3) by (auto simp: mem_wf_def slots_of_def distinct_map dest: inj_onD)
  qed (simp add: Q_def it(6) k same_category_def)
  note one = filter_unique [OF d it(3) uniq, of 0]
  let ?ps = "filter (\<lambda>(_, i). Q i) (enumerate 0 (items (mem_load f')))"
  have "\<exists>k. ?ps = [(k, it)]" using one by (cases ?ps) (auto simp: map_eq_Cons_conv)
  then obtain k where k: "?ps = [(k, it)]" ..
  have ag: "(if sp_agent p = [] then ''unknown'' else sp_agent p) \<noteq> []" by simp
  have "snd (memory_retrieve st now' (exact_query p) f') = Retrieved (map (accessed now' \<circ> snd) (slice0 25 ?ps)) (length ?ps)"
    using it ne ag unfolding memory_retrieve_def exact_query_def Let_def filter_if_def Q_def
    by (simp add: case_prod_unfold conj_ac del: if_split)
  then show ?thesis unfolding k using it(4) by (simp add: slice0_def)
qed

definition sample_item :: "string \<Rightarrow> store_params" where
  "sample_item note = \<lparr>sp_category = ''Findings'', sp_key = '' sqli '', sp_value = JStr note, sp_agent = ''api'',
     sp_confidence = Some 2, sp_level = None\<rparr>"

theorem store_then_retrieve_witness:
  "\<exists>it. snd (memory_retrieve (\<lambda>_. []) 5 (exact_query (sample_item ''x''))
          (fst (memory_store 3 (sample_item ''x'') Mem_unreadable))) = Retrieved [accessed 5 it] 1 \<and> mi_value it = JStr ''x''"
proof -
  let ?r = "memory_store 3 (sample_item ''x'') Mem_unreadable"
  have "\<exists>it. snd ?r = Item_created it"
    by (rule exI [of _ "case snd ?r of Item_created it \<Rightarrow> it"]) code_simp
  then obtain it where it: "?r = (fst ?r, Item_created it)" by (metis prod.collapse)
  have "mem_wf (mem_load Mem_unreadable)" by (simp add: mem_wf_def)
  moreover have "\<not> inherited (trim (toLowerCase (sp_category (sample_item ''x''))))" by code_simp
  ultimately show ?thesis using store_then_retrieve [OF _ it, of it "\<lambda>_. []" 5]
    by (intro exI [of _ it]) (auto simp: sample_item_def)
qed

text \<open>Two stores of one key under an inherited name make two items, and the retrieval by that name returns neither; the
  overview of the memory then throws.\<close>
theorem inherited_category_lost:
  "let p = sample_item ''x''\<lparr>sp_category := ''constructor''\<rparr>;
       f = fst (memory_store 2 p (fst (memory_store 1 p Mem_unreadable))) in
   map mi_key (items (mem_load f)) = [''sqli'', ''sqli''] \<and> snd (memory_retrieve (\<lambda>_. []) 3 (exact_query p) f) = Retrieved [] 0 \<and>
   memory_command 4 [] f = Overview_throws"
  unfolding Let_def by code_simp

section \<open>Pruning\<close>

text \<open>Pruning splits the memory: the items removed and the items kept are together the items that were there;
  every removed item was last updated before the cutoff and belongs to the category asked for, and it is neither a
  finding nor a false positive unless pruning is forced; every item older than the cutoff of a category that may be
  pruned is removed. A dry run reports the same items and leaves the file as it is.\<close>
theorem prune_exact:
  assumes "memory_prune now (p\<lparr>pr_dry_run := False\<rparr>) f = (f', Pruned gone n)"
  shows "\<exists>days cat. pr_max_age_days p = Some days \<and> days > 0 \<and> cat = Option.bind (or_null (pr_category p)) normalizeCategory \<and>
    mset (items (mem_load f)) = mset gone + mset (items (mem_load f')) \<and> n = length (items (mem_load f')) \<and>
    (\<forall>i \<in> set (items (mem_load f)). i \<in> set gone \<longleftrightarrow>
       of_int (mi_updated_at i) < of_int now - days * 86400000 \<and>
       (cat = None \<or> cat = Some (mi_category i) \<and> mi_category i \<in> set CATEGORIES) \<and>
       (pr_force p \<or> mi_category i \<notin> {Findings, False_Positives})) \<and>
    memory_prune now (p\<lparr>pr_dry_run := True\<rparr>) f = (f, Would_prune gone n)"
proof -
  obtain days where d: "pr_max_age_days p = Some days" "days > 0"
    using assms by (auto simp: memory_prune_def Let_def not_le split: option.splits if_splits)
  define cat where "cat = (if truthy (pr_category p) then normalizeCategory (the (pr_category p)) else None)"
  define stale where "stale = prunable (of_int now - days * 24 * 60 * 60 * 1000) (pr_force p) cat"
  have c: "cat = Option.bind (or_null (pr_category p)) normalizeCategory"
    unfolding cat_def by (cases "pr_category p") auto
  have ok: "\<not> (truthy (pr_category p) \<and> cat = None)"
    using assms d unfolding memory_prune_def Let_def cat_def by (auto split: if_splits)
  have run: "memory_prune now (p\<lparr>pr_dry_run := b\<rparr>) f =
     (if b then (f, Would_prune (filter stale (items (mem_load f))) (length (filter (\<lambda>i. \<not> stale i) (items (mem_load f)))))
      else (mem_save ((mem_load f)\<lparr>items := filter (\<lambda>i. \<not> stale i) (items (mem_load f))\<rparr>) f,
            Pruned (filter stale (items (mem_load f))) (length (filter (\<lambda>i. \<not> stale i) (items (mem_load f))))))" for b
    using d ok unfolding memory_prune_def Let_def stale_def cat_def by auto
  have r: "gone = filter stale (items (mem_load f))" "n = length (filter (\<lambda>i. \<not> stale i) (items (mem_load f)))"
    "items (mem_load f') = filter (\<lambda>i. \<not> stale i) (items (mem_load f))"
    using assms unfolding run by auto
  have st: "stale i \<longleftrightarrow> of_int (mi_updated_at i) < of_int now - days * 86400000 \<and>
       (cat = None \<or> cat = Some (mi_category i) \<and> mi_category i \<in> set CATEGORIES) \<and>
       (pr_force p \<or> mi_category i \<notin> {Findings, False_Positives})" for i
    by (cases cat) (auto simp: stale_def prunable_def durable_def same_category_def)
  show ?thesis unfolding r run using d c st by (intro exI [of _ days] exI [of _ cat]) (auto simp: multiset_partition)
qed

definition old_memory :: mem_file where
  "old_memory = fst (memory_store 0 (sample_item ''x''\<lparr>sp_category := ''assets''\<rparr>) (fst (memory_store 0 (sample_item ''y'') Mem_unreadable)))"

definition prune_demo :: prune_params where
  "prune_demo = \<lparr>pr_max_age_days = Some 1, pr_dry_run = False, pr_force = False, pr_category = None\<rparr>"

theorem prune_exact_witness:
  "fst (memory_prune 86400001 (prune_demo\<lparr>pr_dry_run := True\<rparr>) old_memory) = old_memory \<and>
   map mi_category (items (mem_load (fst (memory_prune 86400001 prune_demo old_memory)))) = [Findings]"
proof -
  let ?r = "memory_prune 86400001 (prune_demo\<lparr>pr_dry_run := False\<rparr>) old_memory"
  have e: "prune_demo\<lparr>pr_dry_run := False\<rparr> = prune_demo" by (simp add: prune_demo_def)
  have "\<exists>g n. snd ?r = Pruned g n"
    by (rule exI [of _ "case snd ?r of Pruned g n \<Rightarrow> g"], rule exI [of _ "case snd ?r of Pruned g n \<Rightarrow> n"]) code_simp
  then obtain g n where "?r = (fst ?r, Pruned g n)" by (metis prod.collapse)
  from prune_exact [OF this] have "fst (memory_prune 86400001 (prune_demo\<lparr>pr_dry_run := True\<rparr>) old_memory) = old_memory" by auto
  moreover have "map mi_category (items (mem_load (fst (memory_prune 86400001 prune_demo old_memory)))) = [Findings]" by code_simp
  ultimately show ?thesis ..
qed

section \<open>Searching\<close>

lemma relevance_bounds: "0 \<le> relevanceScore st q i \<and> relevanceScore st q i \<le> 1"
proof -
  have "length (filter (\<lambda>tok. sublist tok (itemText st i)) (tokenize q)) \<le> length (tokenize q)" by simp
  then have "(of_nat (length (filter (\<lambda>tok. sublist tok (itemText st i)) (tokenize q))) :: rat) \<le> of_nat (length (tokenize q))"
    by (rule of_nat_mono)
  then show ?thesis by (auto simp: relevanceScore_def Let_def divide_le_eq)
qed

lemma enumerate_snd: "(k, i) \<in> set (enumerate 0 is) \<Longrightarrow> k < length is \<and> is ! k = i"
  by (auto simp: in_set_enumerate_eq)

lemma sum_marked:
  assumes "distinct ps" "\<forall>k \<in> set ps. k < length is"
  shows "sum_list (map mi_access_count (markAccessed now ps is)) = sum_list (map mi_access_count is) + length ps"
proof -
  have "sum_list (map mi_access_count (markAccessed now ps is)) =
        (\<Sum>k<length is. mi_access_count (is ! k) + (if k \<in> set ps then 1 else 0))"
    by (auto simp: sum_list_sum_nth nth_markAccessed accessed_def atLeast0LessThan intro!: sum.cong)
  also have "\<dots> = sum_list (map mi_access_count is) + card {k. k < length is \<and> k \<in> set ps}"
    by (simp add: sum.distrib sum_list_sum_nth atLeast0LessThan sum.If_cases Int_def)
  also have "{k. k < length is \<and> k \<in> set ps} = set ps" using assms(2) by auto
  finally show ?thesis using assms(1) by (simp add: distinct_card)
qed

lemma ranked_by_props:
  "set (ranked_by sc ps) = {x \<in> set ps. sc (snd x) > 0}"
  "sorted_wrt (\<lambda>x y. sc (snd x) \<ge> sc (snd y)) (ranked_by sc ps)"
  "distinct (map fst ps) \<Longrightarrow> distinct (map fst (ranked_by sc ps))"
proof -
  show "set (ranked_by sc ps) = {x \<in> set ps. sc (snd x) > 0}" by (auto simp: ranked_by_def)
  have "sorted (map (\<lambda>(_, i). - sc i) (ranked_by sc ps))" unfolding ranked_by_def by (rule sorted_sort_key)
  then show "sorted_wrt (\<lambda>x y. sc (snd x) \<ge> sc (snd y)) (ranked_by sc ps)"
    unfolding sorted_map by (rule sorted_wrt_mono_rel [rotated]) (auto simp: case_prod_unfold)
  assume "distinct (map fst ps)"
  then show "distinct (map fst (ranked_by sc ps))"
    by (simp add: ranked_by_def distinct_map inj_on_def)
qed

lemma top_k:
  assumes "sorted_wrt R xs" "x \<in> set xs" "x \<notin> set (take k xs)"
  shows "length (take k xs) = k \<and> (\<forall>y \<in> set (take k xs). R y x)"
proof -
  have "x \<in> set (drop k xs)" using assms(2,3) by (metis append_take_drop_id Un_iff set_append)
  moreover have "sorted_wrt R (take k xs @ drop k xs)" using assms(1) by simp
  moreover have "k \<le> length xs" using \<open>x \<in> set (drop k xs)\<close> by (metis drop_all empty_iff list.set(1) nat_le_linear)
  ultimately show ?thesis by (auto simp only: sorted_wrt_append length_take min.absorb2)
qed

text \<open>Search returns the most relevant items: the scores of the results are between 0 (exclusive) and 1 and
  descend; an item that matches and meets the minimum confidence is missing only when the limit is reached, and then
  no result is less relevant. The search counts one access for each result and changes no other count.\<close>
theorem search_ranks:
  assumes "memory_search st now p f = (f', Found rs)" "0 \<le> num_or (se_limit p) 10"
  shows "sorted_wrt (\<lambda>(_, a) (_, b). a \<ge> b) rs \<and> list_all (\<lambda>(_, sc). 0 < sc \<and> sc \<le> 1) rs \<and>
    (\<forall>i \<in> set (items (mem_load f)). (case se_min_confidence p of None \<Rightarrow> True | Some c \<Rightarrow> c \<le> mi_confidence i) \<longrightarrow>
       relevanceScore st (trim (se_query p)) i > 0 \<longrightarrow>
       (accessed now i, relevanceScore st (trim (se_query p)) i) \<in> set rs \<or>
       int (length rs) = num_or (se_limit p) 10 \<and> (\<forall>(_, sc) \<in> set rs. relevanceScore st (trim (se_query p)) i \<le> sc)) \<and>
    sum_list (map mi_access_count (items (mem_load f'))) = sum_list (map mi_access_count (items (mem_load f))) + length rs"
proof -
  define k where "k = nat (num_or (se_limit p) 10)"
  define sc where "sc = relevanceScore st (trim (se_query p))"
  define ps where "ps = filter_if (se_min_confidence p \<noteq> None) (\<lambda>(_, i). mi_confidence i \<ge> the (se_min_confidence p))
    (enumerate 0 (items (mem_load f)))"
  let ?all = "ranked_by sc ps"
  have q: "trim (se_query p) \<noteq> []" using assms(1) by (auto simp: memory_search_def Let_def)
  have r: "rs = map (\<lambda>(_, i). (accessed now i, sc i)) (take k ?all)"
    "items (mem_load f') = markAccessed now (map fst (take k ?all)) (items (mem_load f))"
    using assms q unfolding memory_search_def Let_def sc_def ps_def k_def by (auto simp: slice0_def)
  have sub: "set ps \<subseteq> set (enumerate 0 (items (mem_load f)))" by (auto simp: ps_def filter_if_def)
  have "distinct (map fst ps)" by (auto simp: ps_def filter_if_def distinct_map_filter)
  then have "distinct (map fst (take k ?all))" using ranked_by_props(3) by (metis distinct_take take_map)
  moreover have "\<forall>j \<in> set (map fst (take k ?all)). j < length (items (mem_load f))"
    using sub ranked_by_props(1) [of sc ps] by (fastforce dest!: in_set_takeD enumerate_snd)
  ultimately have count: "sum_list (map mi_access_count (items (mem_load f'))) =
      sum_list (map mi_access_count (items (mem_load f))) + length rs"
    using sum_marked [of "map fst (take k ?all)" "items (mem_load f)" now] unfolding r by simp
  have srt: "sorted_wrt (\<lambda>(_, a) (_, b). a \<ge> b) rs"
    using sorted_wrt_take [OF ranked_by_props(2) [of sc ps], of k] unfolding r(1) sorted_wrt_map
    by (rule sorted_wrt_mono_rel [rotated]) auto
  have bnd: "list_all (\<lambda>(_, sc). 0 < sc \<and> sc \<le> 1) rs"
    using ranked_by_props(1) [of sc ps] relevance_bounds [of st "trim (se_query p)"]
    unfolding r(1) list_all_iff by (auto simp: sc_def dest!: in_set_takeD)
  have "(accessed now i, sc i) \<in> set rs \<or> int (length rs) = num_or (se_limit p) 10 \<and> (\<forall>(_, x) \<in> set rs. sc i \<le> x)"
    if i: "i \<in> set (items (mem_load f))" and cf: "case se_min_confidence p of None \<Rightarrow> True | Some c \<Rightarrow> c \<le> mi_confidence i"
      and pos: "sc i > 0" for i
  proof -
    obtain j where "j < length (items (mem_load f))" "items (mem_load f) ! j = i"
      using i by (auto simp: in_set_conv_nth)
    then have "(j, i) \<in> set (enumerate 0 (items (mem_load f)))" by (simp add: in_set_enumerate_eq)
    then have "(j, i) \<in> set ps" using cf by (auto simp: ps_def filter_if_def split: option.splits)
    then have m: "(j, i) \<in> set ?all" using pos ranked_by_props(1) [of sc ps] by simp
    show ?thesis
    proof (cases "(j, i) \<in> set (take k ?all)")
      case True
      then show ?thesis unfolding r(1) by force
    next
      case False
      from top_k [OF ranked_by_props(2) m False] show ?thesis using assms(2) unfolding r(1) k_def by auto
    qed
  qed
  then show ?thesis using srt bnd count unfolding sc_def by blast
qed

theorem search_ranks_witness:
  "sum_list (map mi_access_count (items (mem_load (fst (memory_search (\<lambda>_. []) 9
     \<lparr>se_query = ''sqli'', se_limit = Some 1, se_min_confidence = None\<rparr> old_memory))))) = 1"
proof -
  let ?p = "\<lparr>se_query = ''sqli'', se_limit = Some 1, se_min_confidence = None\<rparr>"
  let ?r = "memory_search (\<lambda>_. []) 9 ?p old_memory"
  have "case snd ?r of Found rs \<Rightarrow> length rs = 1 | Query_required \<Rightarrow> False" by code_simp
  then obtain rs where r: "?r = (fst ?r, Found rs)" "length rs = 1"
    by (cases ?r) (auto split: search_response.splits)
  have "sum_list (map mi_access_count (items (mem_load old_memory))) = 0"
    by code_simp
  with search_ranks [OF r(1)] r(2) show ?thesis by simp
qed

section \<open>Similarity\<close>

text \<open>The similarity of two texts is the Jaccard index of their sets of tokens: the number of common tokens by the
  number of all tokens, 0 when one text has none. So it is symmetric, between 0 and 1, and 1 exactly for texts with
  the same tokens.\<close>
theorem similarity_jaccard:
  "let A = set (tokenize a); B = set (tokenize b) in
   similarity a b = (if A = {} \<or> B = {} then 0 else of_nat (card (A \<inter> B)) / of_nat (card (A \<union> B))) \<and>
   similarity a b = similarity b a \<and> 0 \<le> similarity a b \<and> similarity a b \<le> 1 \<and>
   (similarity a b = 1 \<longleftrightarrow> A = B \<and> A \<noteq> {})"
proof -
  have jac: "similarity a b = (if set (tokenize a) = {} \<or> set (tokenize b) = {} then 0
      else of_nat (card (set (tokenize a) \<inter> set (tokenize b))) / of_nat (card (set (tokenize a) \<union> set (tokenize b))))" for a b
  proof -
    let ?A = "set (tokenize a)" and ?B = "set (tokenize b)"
    have "length (filter (\<lambda>t. t \<in> ?B) (remdups (tokenize a))) = card (?A \<inter> ?B)"
      by (simp add: distinct_card [symmetric] Int_def)
    moreover have "int (card ?A) + int (card ?B) - int (card (?A \<inter> ?B)) = int (card (?A \<union> ?B))"
      using card_Un_Int [of ?A ?B] by simp
    ultimately show ?thesis by (simp add: similarity_def Let_def length_remdups_card_conv)
  qed
  let ?A = "set (tokenize a)" and ?B = "set (tokenize b)"
  have le: "card (?A \<inter> ?B) \<le> card (?A \<union> ?B)" by (rule card_mono) auto
  have "card (?A \<union> ?B) > 0 \<and> (card (?A \<inter> ?B) = card (?A \<union> ?B) \<longleftrightarrow> ?A = ?B)" if "?A \<noteq> {}"
  proof -
    have "?A \<inter> ?B = ?A \<union> ?B" if "card (?A \<inter> ?B) = card (?A \<union> ?B)" using that by (intro card_subset_eq) auto
    then show ?thesis using that by (auto simp: card_gt_0_iff)
  qed
  then show ?thesis unfolding Let_def jac [of a b] jac [of b a] using le
    by (auto simp: Int_commute Un_commute divide_le_eq)
qed

text \<open>The check for duplicates dilutes the title with the key: an item with the very same title and target counts as a
  duplicate or not depending on how many words its key has.\<close>
theorem same_title_not_duplicate:
  "let it = \<lambda>key. new_item 0 ''M-0001'' Collective Findings key
       (JObj [(''title'', JStr ''SQLi''), (''target'', JStr ''a.com'')]) ''api'' (1/2) in
   duplicate_score ''SQLi'' ''a.com'' (it ''sqli'') \<ge> 1/2 \<and>
   duplicate_score ''SQLi'' ''a.com'' (it ''login form of the shop'') < 1/2"
  unfolding Let_def by code_simp

end
