(* ===== verification/Learning_Loop.thy ===== *)
theory Learning_Loop
  imports JSNumber Security_Graph Collective_Memory
begin

text \<open>
  The learning loop (\<open>learning-loop.ts\<close>): knowledge extracted from confirmed findings and rejected
  hypotheses, written to the pattern library, the false-positive memory, the benchmark, the collective memory
  and the security graph. A call returns the files after it together with its value or the exception it threw,
  so that what was written before the exception remains visible.

  A directory is the list of its files in the order in which the system lists them. A file that carries the
  name of a document of this extension holds such a document or is unreadable (\<open>None\<close>); the two index files
  and the memory file are objects in which the key this extension uses may be missing. The texts of memory
  entries are represented by their parts. The dash between the parts of the detail of a rejected hypothesis,
  which is not a Latin-1 character, is written as a hyphen.
\<close>

section \<open>Data\<close>

record LearnedPattern =
  lp_finding_id :: string
  lp_extracted_at :: time
  lp_vulnerability_class :: string
  lp_root_cause :: string
  lp_architecture_pattern :: "string option"
  lp_observable_signals :: "string list"
  lp_attack_path :: "string list"
  lp_validation_method :: string
  lp_remediation :: string
  lp_severity :: "Severity option"
  lp_target_context :: "(string \<times> string) list option"

record FalsePositiveEntry =
  fp_hypothesis_id :: string
  fp_recorded_at :: time
  fp_rejection_reason :: string
  fp_looked_like_vuln :: string
  fp_why_it_wasnt :: string
  fp_detection_heuristics :: "string list"
  fp_vulnerability_class :: "string option"

record LearnedCase =
  lc_case_id :: string
  lc_source_finding :: string
  lc_added_at :: time
  lc_vulnerability_class :: string
  lc_severity :: "Severity option"
  lc_target_context :: "(string \<times> string) list option"
  lc_observable_signals :: "string list"
  lc_attack_path :: "string list"
  lc_validation_method :: string
  lc_remediation :: string

datatype memory_kind = Confirmed_finding | Rejected_hypothesis

datatype memory_summary =
    Finding_summary string "Severity option" string
  | Rejection_summary "string option" string string

datatype memory_details =
    Finding_details string "string list" "string list" string string
  | Rejection_details string string "string list"

record CollectiveMemoryEntry =
  me_id :: string
  me_recorded_at :: time
  me_kind :: memory_kind
  me_summary :: memory_summary
  me_details :: memory_details
  me_tags :: "string list"

record pattern_ref =
  pr_finding_id :: string
  pr_vulnerability_class :: string
  pr_added_at :: time
  pr_file :: string

record fp_ref =
  fr_hypothesis_id :: string
  fr_vulnerability_class :: "string option"
  fr_added_at :: time
  fr_file :: string

section \<open>Files\<close>

text \<open>An index file: missing or unreadable, or an object whose array may be missing.\<close>

datatype 'a index_file = No_index | Index_json "'a list option"

text \<open>
  The memory file, which is shared with the collective memory: the two keys of that extension and the two of this one.
\<close>

datatype memory_json =
    No_memory
  | Memory_json "MemoryItem list option" "nat option" "CollectiveMemoryEntry list option" "time option"

record learn_files =
  pattern_files :: "(string \<times> LearnedPattern option) list"
  pattern_index :: "pattern_ref index_file"
  fp_files :: "(string \<times> FalsePositiveEntry option) list"
  fp_index :: "fp_ref index_file"
  bench_files :: "(string \<times> LearnedCase option) list"
  memory_file :: memory_json
  graph_store :: graph_json

text \<open>\<open>loadJson(file, fallback)\<close> followed by the access to the array; \<open>None\<close> is undefined.\<close>

fun index_entries :: "'a index_file \<Rightarrow> 'a list option" where
  "index_entries No_index = Some []"
| "index_entries (Index_json es) = es"

fun memory_entries :: "memory_json \<Rightarrow> CollectiveMemoryEntry list option" where
  "memory_entries No_memory = Some []"
| "memory_entries (Memory_json _ _ es _) = es"

fun write_entries :: "time \<Rightarrow> CollectiveMemoryEntry list \<Rightarrow> memory_json \<Rightarrow> memory_json" where
  "write_entries now es No_memory = Memory_json None None (Some es) (Some now)"
| "write_entries now es (Memory_json is c _ _) = Memory_json is c (Some es) (Some now)"

text \<open>\<open>fs.writeFileSync\<close> in a directory: the content of an existing file is replaced.\<close>

fun put_file :: "string \<Rightarrow> 'd \<Rightarrow> (string \<times> 'd option) list \<Rightarrow> (string \<times> 'd option) list" where
  "put_file n d [] = [(n, Some d)]"
| "put_file n d ((m, e) # fs) = (if m = n then (m, Some d) # fs else (m, e) # put_file n d fs)"

definition graph_of :: "graph_json \<Rightarrow> SecGraph" where
  "graph_of j = (case j of Graph_json g \<Rightarrow> g | No_graph \<Rightarrow> \<lparr>nodes = [], edges = [], meta = no_meta\<rparr>)"

definition findGraphFinding :: "string \<Rightarrow> learn_files \<Rightarrow> SecNode option" where
  "findGraphFinding fid f =
     (let findings = filter (\<lambda>n. n_type n = Finding) (nodes (graph_of (graph_store f))) in
      case find (\<lambda>n. n_id n = fid) findings of
        Some n \<Rightarrow> Some n
      | None \<Rightarrow> find (\<lambda>n. suffix ('':'' @ fid) (n_id n) \<or> sublist fid (n_id n)) findings)"

text \<open>\<open>/^(?:info|informational|best.practice|hardening)$/i\<close>.\<close>

definition informational :: "string \<Rightarrow> bool" where
  "informational cls =
     (let s = toLowerCase cls in
      s \<in> set [''info'', ''informational'', ''hardening''] \<or>
      length s = 13 \<and> take 4 s = ''best'' \<and> \<not> is_newline (s ! 4) \<and> drop 5 s = ''practice'')"

definition benchmarkSuitable :: "LearnedPattern \<Rightarrow> bool" where
  "benchmarkSuitable p =
     (lp_observable_signals p \<noteq> [] \<and> trim (lp_validation_method p) \<noteq> [] \<and> lp_attack_path p \<noteq> [] \<and>
      \<not> informational (lp_vulnerability_class p))"

definition bare_node :: "time \<Rightarrow> string \<Rightarrow> string \<Rightarrow> string option \<Rightarrow> SecNode" where
  "bare_node now i label detail =
     \<lparr>n_id = i, n_type = Finding, n_label = label, n_detail = detail, n_severity = None, n_metadata = None,
      n_created = Some now\<rparr>"

definition knowledge_graph ::
  "time \<Rightarrow> string \<Rightarrow> string \<Rightarrow> string \<Rightarrow> string \<Rightarrow> Relationship \<Rightarrow> SecGraph \<Rightarrow> SecGraph" where
  "knowledge_graph now i label detail linkTo rel g =
     (let node = bare_node now i label (Some detail);
          ns = (if list_ex (\<lambda>n. n_id n = i) (nodes g) then map_first (\<lambda>n. n_id n = i) (\<lambda>_. node) (nodes g)
                else nodes g @ [node]);
          ns = (if linkTo \<noteq> [] \<and> \<not> list_ex (\<lambda>n. n_id n = linkTo) ns
                then ns @ [bare_node now linkTo linkTo None] else ns);
          dup = list_ex (\<lambda>e. e_from e = linkTo \<and> e_to e = i \<and> e_relationship e = rel) (edges g);
          es = (if linkTo \<noteq> [] \<and> \<not> dup
                then edges g @ [\<lparr>e_from = linkTo, e_to = i, e_relationship = rel, e_detail = Some label\<rparr>]
                else edges g)
      in stamped now (g\<lparr>nodes := ns, edges := es\<rparr>))"

definition updateGraphKnowledge ::
  "time \<Rightarrow> string \<Rightarrow> string \<Rightarrow> string \<Rightarrow> string \<Rightarrow> Relationship \<Rightarrow> learn_files \<Rightarrow> learn_files" where
  "updateGraphKnowledge now i label detail linkTo rel f =
     f\<lparr>graph_store := Graph_json (knowledge_graph now i label detail linkTo rel (graph_of (graph_store f)))\<rparr>"

definition MAX_ENTRIES :: nat where
  "MAX_ENTRIES = 500"

definition push_entry :: "CollectiveMemoryEntry \<Rightarrow> CollectiveMemoryEntry list \<Rightarrow> CollectiveMemoryEntry list" where
  "push_entry e es =
     (let es = filter (\<lambda>x. me_id x \<noteq> me_id e) es @ [e] in drop (length es - MAX_ENTRIES) es)"

definition addCollectiveMemory ::
  "time \<Rightarrow> CollectiveMemoryEntry \<Rightarrow> learn_files \<Rightarrow> learn_files \<times> (js_error + unit)" where
  "addCollectiveMemory now e f =
     (case memory_entries (memory_file f) of
        None \<Rightarrow> (f, Inl TypeError)
      | Some es \<Rightarrow> (f\<lparr>memory_file := write_entries now (push_entry e es) (memory_file f)\<rparr>, Inr ()))"

section \<open>Status\<close>

record LearnStatus =
  patterns_learned :: nat
  false_positives_recorded :: nat
  benchmark_cases :: nat
  knowledge_items_extracted :: nat
  collective_memory_entries :: nat
  recent_patterns :: "(string \<times> string \<times> time) list"
  recent_false_positives :: "(string \<times> time) list"
  recent_benchmark :: "(string \<times> time) list"

definition recent :: "('a \<Rightarrow> time) \<Rightarrow> (string \<times> 'a option) list \<Rightarrow> 'a list" where
  "recent stamp fs = take 10 (sort_key (\<lambda>x. - stamp x) (List.map_filter snd fs))"

definition computeStatus :: "learn_files \<Rightarrow> js_error + LearnStatus" where
  "computeStatus f =
     (case memory_entries (memory_file f) of
        None \<Rightarrow> Inl TypeError
      | Some es \<Rightarrow> Inr
          \<lparr>patterns_learned = length (pattern_files f),
           false_positives_recorded = length (fp_files f),
           benchmark_cases = length (bench_files f),
           knowledge_items_extracted = length (pattern_files f) + length (fp_files f) + length (bench_files f),
           collective_memory_entries = length es,
           recent_patterns =
             map (\<lambda>p. (lp_finding_id p, lp_vulnerability_class p, lp_extracted_at p)) (recent lp_extracted_at (pattern_files f)),
           recent_false_positives = map (\<lambda>e. (fp_hypothesis_id e, fp_recorded_at e)) (recent fp_recorded_at (fp_files f)),
           recent_benchmark = map (\<lambda>c. (lc_case_id c, lc_added_at c)) (recent lc_added_at (bench_files f))\<rparr>)"

text \<open>The digest that is added to the system prompt at the start of a turn; \<open>None\<close> when nothing was learned.\<close>

record digest =
  dg_counts :: "nat \<times> nat \<times> nat"
  dg_patterns :: "(string \<times> string) list"
  dg_false_positives :: "string list"
  dg_memory :: "(memory_kind \<times> memory_summary) list"

definition knowledgeDigest :: "learn_files \<Rightarrow> js_error + digest option" where
  "knowledgeDigest f =
     (case computeStatus f of
        Inl e \<Rightarrow> Inl e
      | Inr s \<Rightarrow>
          if knowledge_items_extracted s = 0 then Inr None
          else
            (let es = or_else (memory_entries (memory_file f)) [] in
             Inr (Some
               \<lparr>dg_counts = (patterns_learned s, false_positives_recorded s, benchmark_cases s),
                dg_patterns = map (\<lambda>(i, c, _). (c, i)) (take 5 (recent_patterns s)),
                dg_false_positives = map fst (take 5 (recent_false_positives s)),
                dg_memory = map (\<lambda>e. (me_kind e, me_summary e)) (drop (length es - 8) es)\<rparr>)))"

section \<open>The tools\<close>

definition safe_char :: "char \<Rightarrow> bool" where
  "safe_char c = (is_word c \<or> c = CHR ''-'')"

definition safeId :: "string \<Rightarrow> string" where
  "safeId s = map (\<lambda>c. if safe_char c then c else CHR ''_'') s"

fun sev_name :: "Severity \<Rightarrow> string" where
  "sev_name Critical = ''critical''"
| "sev_name High = ''high''"
| "sev_name Medium = ''medium''"
| "sev_name Low = ''low''"
| "sev_name Info = ''info''"

record finding_params =
  lf_finding_id :: string
  lf_vulnerability_class :: string
  lf_root_cause :: string
  lf_architecture_pattern :: "string option"
  lf_observable_signals :: "string list option"
  lf_attack_path :: "string list option"
  lf_validation_method :: string
  lf_remediation :: string
  lf_severity :: "Severity option"
  lf_target_context :: "(string \<times> string) list option"

text \<open>\<open>{ ...a, ...b }\<close> on dictionaries.\<close>

definition merge_context :: "(string \<times> string) list \<Rightarrow> (string \<times> string) list \<Rightarrow> (string \<times> string) list" where
  "merge_context a b = filter (\<lambda>(k, _). k \<notin> fst ` set b) a @ b"

definition context_of :: "finding_params \<Rightarrow> SecNode option \<Rightarrow> (string \<times> string) list" where
  "context_of p node =
     merge_context (or_else (Option.bind node n_metadata) []) (or_else (lf_target_context p) [])"

definition severity_of :: "finding_params \<Rightarrow> SecNode option \<Rightarrow> Severity option" where
  "severity_of p node = (case lf_severity p of Some s \<Rightarrow> Some s | None \<Rightarrow> Option.bind node n_severity)"

text \<open>
  The object literal of the pattern reads the variable \<open>target_context\<close>, which does not exist, when the merged
  context is not empty.
\<close>

definition pattern_of_params :: "time \<Rightarrow> finding_params \<Rightarrow> SecNode option \<Rightarrow> js_error + LearnedPattern" where
  "pattern_of_params now p node =
     (if context_of p node \<noteq> [] then Inl ReferenceError
      else Inr
        \<lparr>lp_finding_id = lf_finding_id p, lp_extracted_at = now,
         lp_vulnerability_class = lf_vulnerability_class p, lp_root_cause = lf_root_cause p,
         lp_architecture_pattern = lf_architecture_pattern p,
         lp_observable_signals = or_else (lf_observable_signals p) [],
         lp_attack_path = or_else (lf_attack_path p) [],
         lp_validation_method = lf_validation_method p, lp_remediation = lf_remediation p,
         lp_severity = severity_of p node, lp_target_context = None\<rparr>)"

definition pattern_name :: "string \<Rightarrow> string" where
  "pattern_name fid = ''learned-'' @ safeId fid @ ''.json''"

definition index_pattern ::
  "string \<Rightarrow> time \<Rightarrow> string \<Rightarrow> LearnedPattern \<Rightarrow> learn_files \<Rightarrow> learn_files \<times> (js_error + unit)" where
  "index_pattern dir now path pat f =
     (case index_entries (pattern_index f) of
        None \<Rightarrow> (f, Inl TypeError)
      | Some es \<Rightarrow>
          (f\<lparr>pattern_index := Index_json (Some
             (filter (\<lambda>e. pr_finding_id e \<noteq> lp_finding_id pat) es @
              [\<lparr>pr_finding_id = lp_finding_id pat, pr_vulnerability_class = lp_vulnerability_class pat,
                pr_added_at = now, pr_file = dir @ ''/patterns/'' @ path\<rparr>]))\<rparr>, Inr ()))"

definition finding_entry :: "time \<Rightarrow> LearnedPattern \<Rightarrow> CollectiveMemoryEntry" where
  "finding_entry now pat =
     \<lparr>me_id = ''finding:'' @ lp_finding_id pat, me_recorded_at = now, me_kind = Confirmed_finding,
      me_summary = Finding_summary (lp_vulnerability_class pat) (lp_severity pat) (lp_finding_id pat),
      me_details = Finding_details (lp_root_cause pat) (lp_observable_signals pat) (lp_attack_path pat)
                     (lp_validation_method pat) (lp_remediation pat),
      me_tags = [''confirmed-finding'', toLowerCase (lp_vulnerability_class pat)] @
                (case lp_severity pat of None \<Rightarrow> [] | Some s \<Rightarrow> [sev_name s])\<rparr>"

definition link_pattern :: "time \<Rightarrow> SecNode option \<Rightarrow> LearnedPattern \<Rightarrow> learn_files \<Rightarrow> learn_files" where
  "link_pattern now node pat f =
     updateGraphKnowledge now (''pattern:'' @ safeId (lp_finding_id pat)) (''Pattern: '' @ lp_vulnerability_class pat)
       (''Learned from '' @ lp_finding_id pat @ ''. Root cause: '' @ lp_root_cause pat)
       (case node of Some n \<Rightarrow> n_id n | None \<Rightarrow> ''finding:'' @ lp_finding_id pat) ENABLES f"

definition case_of_pattern :: "time \<Rightarrow> LearnedPattern \<Rightarrow> LearnedCase" where
  "case_of_pattern now pat =
     \<lparr>lc_case_id = ''case-'' @ safeId (lp_finding_id pat), lc_source_finding = lp_finding_id pat, lc_added_at = now,
      lc_vulnerability_class = lp_vulnerability_class pat, lc_severity = lp_severity pat,
      lc_target_context = lp_target_context pat, lc_observable_signals = lp_observable_signals pat,
      lc_attack_path = lp_attack_path pat, lc_validation_method = lp_validation_method pat,
      lc_remediation = lp_remediation pat\<rparr>"

definition add_benchmark :: "time \<Rightarrow> LearnedPattern \<Rightarrow> learn_files \<Rightarrow> learn_files" where
  "add_benchmark now pat f =
     (if benchmarkSuitable pat
      then f\<lparr>bench_files := put_file (''case-'' @ safeId (lp_finding_id pat) @ ''.json'') (case_of_pattern now pat) (bench_files f)\<rparr>
      else f)"

record finding_response =
  fr_pattern :: LearnedPattern
  fr_benchmark_added :: bool
  fr_status :: LearnStatus

definition learn_from_finding ::
  "string \<Rightarrow> time \<Rightarrow> finding_params \<Rightarrow> learn_files \<Rightarrow> learn_files \<times> (js_error + finding_response)" where
  "learn_from_finding dir now p f =
     (let node = findGraphFinding (lf_finding_id p) f in
      case pattern_of_params now p node of
        Inl e \<Rightarrow> (f, Inl e)
      | Inr pat \<Rightarrow>
          (let name = pattern_name (lf_finding_id p);
               f = f\<lparr>pattern_files := put_file name pat (pattern_files f)\<rparr> in
           case index_pattern dir now name pat f of
             (f, Inl e) \<Rightarrow> (f, Inl e)
           | (f, Inr _) \<Rightarrow>
               (case addCollectiveMemory now (finding_entry now pat) f of
                  (f, Inl e) \<Rightarrow> (f, Inl e)
                | (f, Inr _) \<Rightarrow>
                    (let f = add_benchmark now pat (link_pattern now node pat f) in
                     case computeStatus f of
                       Inl e \<Rightarrow> (f, Inl e)
                     | Inr s \<Rightarrow> (f, Inr \<lparr>fr_pattern = pat, fr_benchmark_added = benchmarkSuitable pat, fr_status = s\<rparr>)))))"

record rejection_params =
  lr_hypothesis_id :: string
  lr_rejection_reason :: string
  lr_looked_like_vuln :: string
  lr_why_it_wasnt :: string
  lr_detection_heuristics :: "string list option"
  lr_vulnerability_class :: "string option"

definition fp_of_params :: "time \<Rightarrow> rejection_params \<Rightarrow> FalsePositiveEntry" where
  "fp_of_params now p =
     \<lparr>fp_hypothesis_id = lr_hypothesis_id p, fp_recorded_at = now, fp_rejection_reason = lr_rejection_reason p,
      fp_looked_like_vuln = lr_looked_like_vuln p, fp_why_it_wasnt = lr_why_it_wasnt p,
      fp_detection_heuristics = or_else (lr_detection_heuristics p) [],
      fp_vulnerability_class = lr_vulnerability_class p\<rparr>"

definition fp_name :: "string \<Rightarrow> string" where
  "fp_name hid = safeId hid @ ''.json''"

text \<open>
  The file of a false positive. Its name can be that of the index file, which then holds an object without the array
  of the index.
\<close>

definition write_fp :: "FalsePositiveEntry \<Rightarrow> learn_files \<Rightarrow> learn_files" where
  "write_fp e f =
     (let name = fp_name (fp_hypothesis_id e) in
      if name = ''index.json'' then f\<lparr>fp_index := Index_json None\<rparr>
      else f\<lparr>fp_files := put_file name e (fp_files f)\<rparr>)"

definition index_fp :: "string \<Rightarrow> time \<Rightarrow> FalsePositiveEntry \<Rightarrow> learn_files \<Rightarrow> learn_files \<times> (js_error + unit)" where
  "index_fp dir now e f =
     (case index_entries (fp_index f) of
        None \<Rightarrow> (f, Inl TypeError)
      | Some es \<Rightarrow>
          (f\<lparr>fp_index := Index_json (Some
             (filter (\<lambda>x. fr_hypothesis_id x \<noteq> fp_hypothesis_id e) es @
              [\<lparr>fr_hypothesis_id = fp_hypothesis_id e, fr_vulnerability_class = fp_vulnerability_class e,
                fr_added_at = now, fr_file = dir @ ''/false-positives/'' @ fp_name (fp_hypothesis_id e)\<rparr>]))\<rparr>, Inr ()))"

text \<open>The texts of the memory entry join the heuristics, which throws when that parameter is missing.\<close>

definition rejection_entry :: "time \<Rightarrow> rejection_params \<Rightarrow> js_error + CollectiveMemoryEntry" where
  "rejection_entry now p =
     (case lr_detection_heuristics p of
        None \<Rightarrow> Inl TypeError
      | Some hs \<Rightarrow> Inr
          \<lparr>me_id = ''rejected:'' @ lr_hypothesis_id p, me_recorded_at = now, me_kind = Rejected_hypothesis,
           me_summary = Rejection_summary (lr_vulnerability_class p) (lr_hypothesis_id p) (lr_rejection_reason p),
           me_details = Rejection_details (lr_looked_like_vuln p) (lr_why_it_wasnt p) hs,
           me_tags = [''rejected-hypothesis'', ''false-positive''] @
             (if truthy (lr_vulnerability_class p) then [toLowerCase (the (lr_vulnerability_class p))] else [])\<rparr>)"

definition link_rejection :: "time \<Rightarrow> rejection_params \<Rightarrow> learn_files \<Rightarrow> learn_files" where
  "link_rejection now p f =
     updateGraphKnowledge now (''rejected:'' @ safeId (lr_hypothesis_id p))
       (''Rejected: '' @ or_else (lr_vulnerability_class p) (lr_hypothesis_id p))
       (lr_looked_like_vuln p @ '' - but not exploitable: '' @ lr_why_it_wasnt p)
       (''hypothesis:'' @ lr_hypothesis_id p) COMBINES_WITH f"

record rejection_response =
  rj_entry :: FalsePositiveEntry
  rj_status :: LearnStatus

definition learn_from_rejection ::
  "string \<Rightarrow> time \<Rightarrow> rejection_params \<Rightarrow> learn_files \<Rightarrow> learn_files \<times> (js_error + rejection_response)" where
  "learn_from_rejection dir now p f =
     (let entry = fp_of_params now p; f = write_fp entry f in
      case index_fp dir now entry f of
        (f, Inl e) \<Rightarrow> (f, Inl e)
      | (f, Inr _) \<Rightarrow>
          (case rejection_entry now p of
             Inl e \<Rightarrow> (f, Inl e)
           | Inr me \<Rightarrow>
               (case addCollectiveMemory now me f of
                  (f, Inl e) \<Rightarrow> (f, Inl e)
                | (f, Inr _) \<Rightarrow>
                    (let f = link_rejection now p f in
                     case computeStatus f of
                       Inl e \<Rightarrow> (f, Inl e)
                     | Inr s \<Rightarrow> (f, Inr \<lparr>rj_entry = entry, rj_status = s\<rparr>)))))"

definition learn_status :: "learn_files \<Rightarrow> js_error + LearnStatus" where
  "learn_status f = computeStatus f"

text \<open>The hook at the start of a turn: the digest that is appended to the prompt.\<close>

definition on_agent_start :: "learn_files \<Rightarrow> js_error + digest option" where
  "on_agent_start f = knowledgeDigest f"

section \<open>Sequences of calls\<close>

datatype ll_call =
    Learn_finding time finding_params
  | Learn_rejection time rejection_params
  | Learn_status
  | Agent_start

datatype ll_response =
    Resp_finding finding_response | Resp_rejection rejection_response | Resp_status LearnStatus
  | Resp_start "digest option"

fun ll_exec :: "string \<Rightarrow> ll_call \<Rightarrow> learn_files \<Rightarrow> learn_files \<times> (js_error + ll_response)" where
  "ll_exec dir (Learn_finding now p) f = map_prod id (map_sum id Resp_finding) (learn_from_finding dir now p f)"
| "ll_exec dir (Learn_rejection now p) f = map_prod id (map_sum id Resp_rejection) (learn_from_rejection dir now p f)"
| "ll_exec dir Learn_status f = (f, map_sum id Resp_status (learn_status f))"
| "ll_exec dir Agent_start f = (f, map_sum id Resp_start (on_agent_start f))"

definition no_learn_files :: learn_files where
  "no_learn_files =
     \<lparr>pattern_files = [], pattern_index = No_index, fp_files = [], fp_index = No_index, bench_files = [],
      memory_file = No_memory, graph_store = No_graph\<rparr>"

section \<open>The collective memory on the same file\<close>

text \<open>
  The collective memory reads its two keys and writes the object it read back, so that the keys of the learning loop
  survive.
\<close>

fun memory_view :: "memory_json \<Rightarrow> mem_file" where
  "memory_view No_memory = Mem_unreadable"
| "memory_view (Memory_json is c _ _) = Mem_parsed is c"

fun memory_put :: "mem_file \<Rightarrow> memory_json \<Rightarrow> memory_json" where
  "memory_put Mem_unreadable j = j"
| "memory_put (Mem_parsed is c) No_memory = Memory_json is c None None"
| "memory_put (Mem_parsed is c) (Memory_json _ _ es u) = Memory_json is c es u"

datatype shared_call = By_loop ll_call | By_memory mem_call

fun shared_exec ::
  "(json \<Rightarrow> string) \<Rightarrow> string \<Rightarrow> shared_call \<Rightarrow> learn_files \<Rightarrow> learn_files \<times> (js_error + ll_response + mem_response)" where
  "shared_exec st dir (By_loop c) f = map_prod id (map_sum id Inl) (ll_exec dir c f)"
| "shared_exec st dir (By_memory c) f =
     (let (m, r) = mem_exec st c (memory_view (memory_file f))
      in (f\<lparr>memory_file := memory_put m (memory_file f)\<rparr>, Inr (Inr r)))"

end
