(* ===== verification/Learning_Loop_Props.thy ===== *)
theory Learning_Loop_Props
  imports Learning_Loop Security_Graph_Props Collective_Memory_Props
begin

text \<open>
  Correctness of the learning loop: what a successful extraction leaves in each of the five stores, when it
  throws, the invariant of the files under all calls of the learning loop and of the collective memory, and the
  states from which it never recovers.
\<close>

section \<open>Files\<close>

lemma memory_entries_write [simp]: "memory_entries (write_entries now es j) = Some es"
  by (cases j) simp_all

lemma put_file_lookup [simp]: "map_of (put_file n d fs) n = Some (Some d)"
  by (induction fs) auto

lemma put_file_other: "m \<noteq> n \<Longrightarrow> map_of (put_file n d fs) m = map_of fs m"
  by (induction fs) auto

lemma put_file_names: "map fst (put_file n d fs) = map fst fs @ (if n \<in> fst ` set fs then [] else [n])"
  by (induction fs) (auto simp: rev_image_eqI)

lemma put_file_distinct [inv_intros]: "distinct (map fst fs) \<Longrightarrow> distinct (map fst (put_file n d fs))"
  by (simp add: put_file_names)

lemma graph_of_json [simp]: "graph_of (Graph_json g) = g"
  by (simp add: graph_of_def)

lemma distinct_filter_snoc:
  "distinct (map k xs) \<Longrightarrow> distinct (map k (filter (\<lambda>x. k x \<noteq> k e) xs @ [e]))"
  by (auto simp: distinct_map_filter)

lemma push_entry_distinct [inv_intros]: "distinct (map me_id es) \<Longrightarrow> distinct (map me_id (push_entry e es))"
  unfolding push_entry_def Let_def drop_map [symmetric] by (rule distinct_drop) (rule distinct_filter_snoc)

lemma push_entry_length: "length (push_entry e es) \<le> MAX_ENTRIES"
  by (simp add: push_entry_def Let_def)

lemma push_entry_last: "push_entry e es \<noteq> []" "last (push_entry e es) = e"
  by (simp_all add: push_entry_def Let_def MAX_ENTRIES_def last_drop)

section \<open>The knowledge graph\<close>

lemma list_ex_id: "list_ex (\<lambda>x. k x = a) xs \<longleftrightarrow> a \<in> set (map k xs)"
  by (induction xs) auto

lemma knowledge_nodes:
  "map n_id (nodes (knowledge_graph now i label detail linkTo rel g)) =
     (let ids = map n_id (nodes g);
          ids = ids @ (if i \<in> set ids then [] else [i])
      in ids @ (if linkTo = [] \<or> linkTo \<in> set ids then [] else [linkTo]))"
  by (simp add: knowledge_graph_def list_ex_id bare_node_def map_map_first Let_def del: set_map)

lemma knowledge_edges:
  "map edge_key (edges (knowledge_graph now i label detail linkTo rel g)) =
     map edge_key (edges g) @
     (if linkTo = [] \<or> (linkTo, i, rel) \<in> edge_key ` set (edges g) then [] else [(linkTo, i, rel)])"
  by (auto simp: knowledge_graph_def edge_key_def list_ex_iff Let_def image_iff)

lemma knowledge_wf [inv_intros]: "sg_wf g \<Longrightarrow> sg_wf (knowledge_graph now i label detail linkTo rel g)"
  by (auto simp: sg_wf_def knowledge_nodes knowledge_edges Let_def)


section \<open>The outcome of a call\<close>

text \<open>The files between the steps of \<open>learn_from_finding\<close>: the first writes, then those that follow the memory.\<close>

definition healthy :: "learn_files \<Rightarrow> bool" where
  "healthy f = (index_entries (pattern_index f) \<noteq> None \<and> memory_entries (memory_file f) \<noteq> None)"

definition learned :: "string \<Rightarrow> time \<Rightarrow> SecNode option \<Rightarrow> LearnedPattern \<Rightarrow> learn_files \<Rightarrow> learn_files" where
  "learned dir now node pat f =
     (let name = pattern_name (lp_finding_id pat);
          f = f\<lparr>pattern_files := put_file name pat (pattern_files f)\<rparr>;
          f = fst (index_pattern dir now name pat f);
          f = fst (addCollectiveMemory now (finding_entry now pat) f)
      in add_benchmark now pat (link_pattern now node pat f))"

lemma link_pattern_frame [frame]:
  "pattern_files (link_pattern now node pat f) = pattern_files f"
  "pattern_index (link_pattern now node pat f) = pattern_index f"
  "fp_files (link_pattern now node pat f) = fp_files f" "fp_index (link_pattern now node pat f) = fp_index f"
  "bench_files (link_pattern now node pat f) = bench_files f"
  "memory_file (link_pattern now node pat f) = memory_file f"
  by (simp_all add: link_pattern_def updateGraphKnowledge_def)

lemma add_benchmark_frame [frame]:
  "pattern_files (add_benchmark now pat f) = pattern_files f" "pattern_index (add_benchmark now pat f) = pattern_index f"
  "fp_files (add_benchmark now pat f) = fp_files f" "fp_index (add_benchmark now pat f) = fp_index f"
  "memory_file (add_benchmark now pat f) = memory_file f" "graph_store (add_benchmark now pat f) = graph_store f"
  by (simp_all add: add_benchmark_def)

lemma computeStatus_defined: "memory_entries (memory_file f) = Some es \<Longrightarrow> \<exists>s. computeStatus f = Inr s"
  by (simp add: computeStatus_def)

lemma pattern_of_params_id: "pattern_of_params now p node = Inr pat \<Longrightarrow> lp_finding_id pat = lf_finding_id p"
  by (auto simp: pattern_of_params_def split: if_splits)

lemma learn_finding_healthy:
  assumes "pattern_of_params now p (findGraphFinding (lf_finding_id p) f) = Inr pat" "healthy f"
  shows "\<exists>r. learn_from_finding dir now p f =
           (learned dir now (findGraphFinding (lf_finding_id p) f) pat f, Inr r) \<and> fr_pattern r = pat \<and>
           fr_benchmark_added r = benchmarkSuitable pat"
proof -
  obtain es ix where "memory_entries (memory_file f) = Some es" "index_entries (pattern_index f) = Some ix"
    using assms(2) by (auto simp: healthy_def)
  then show ?thesis
    using assms(1) pattern_of_params_id [OF assms(1)]
    by (simp add: learn_from_finding_def learned_def index_pattern_def addCollectiveMemory_def computeStatus_def frame Let_def)
qed

lemma learn_finding_unhealthy:
  assumes "pattern_of_params now p (findGraphFinding (lf_finding_id p) f) = Inr pat" "\<not> healthy f"
  shows "snd (learn_from_finding dir now p f) = Inl TypeError"
  using assms
  by (cases "index_entries (pattern_index f)"; cases "memory_entries (memory_file f)")
    (simp_all add: healthy_def learn_from_finding_def index_pattern_def addCollectiveMemory_def Let_def)

lemma learn_finding_context:
  assumes "context_of p (findGraphFinding (lf_finding_id p) f) \<noteq> []"
  shows "learn_from_finding dir now p f = (f, Inl ReferenceError)"
  using assms by (simp add: learn_from_finding_def pattern_of_params_def)

lemma pattern_of_params_cases:
  "(\<exists>pat. pattern_of_params now p node = Inr pat) \<longleftrightarrow> context_of p node = []"
  by (simp add: pattern_of_params_def)

lemma finding_context_outcome:
  "let ctx = context_of p (findGraphFinding (lf_finding_id p) f); (f', r) = learn_from_finding dir now p f in
     (r = Inl ReferenceError \<longleftrightarrow> ctx \<noteq> []) \<and> (ctx = [] \<or> f' = f) \<and> (isl r \<longleftrightarrow> \<not> (ctx = [] \<and> healthy f))"
proof (cases "context_of p (findGraphFinding (lf_finding_id p) f) = []")
  case True
  then obtain pat where pat: "pattern_of_params now p (findGraphFinding (lf_finding_id p) f) = Inr pat"
    using pattern_of_params_cases by blast
  show ?thesis
    using learn_finding_healthy [OF pat, of dir] learn_finding_unhealthy [OF pat, of dir] True
    by (cases "healthy f"; cases "learn_from_finding dir now p f") auto
next
  case False
  then show ?thesis using learn_finding_context [of p f dir now] by simp
qed

text \<open>The extraction from a confirmed finding throws a reference error, before anything is written, exactly when there is
  any context for the target, given as a parameter or found at the node of the security graph; otherwise it returns exactly
  when the index of patterns and the memory file have the arrays this extension expects.\<close>
theorem finding_context_throws:
  "let ctx = context_of p (findGraphFinding (lf_finding_id p) f); (f', r) = learn_from_finding dir now p f in
     (r = Inl ReferenceError \<longleftrightarrow> ctx \<noteq> []) \<and> (ctx = [] \<or> f' = f) \<and> (isl r \<longleftrightarrow> \<not> (ctx = [] \<and> healthy f))"
  by (rule finding_context_outcome)


section \<open>What a confirmed finding leaves behind\<close>

lemma find_upserted:
  assumes "k y = i"
  shows "find (\<lambda>x. k x = i) (if list_ex (\<lambda>x. k x = i) xs then map_first (\<lambda>x. k x = i) (\<lambda>_. y) xs else xs @ [y]) = Some y"
  using assms by (induction xs) auto

lemma knowledge_findNode:
  "findNode (knowledge_graph now i label detail linkTo rel g) i = Some (bare_node now i label (Some detail))"
proof -
  have "n_id (bare_node now i label (Some detail)) = i" by (simp add: bare_node_def)
  from find_upserted [of n_id, OF this, of "nodes g"] show ?thesis
    unfolding knowledge_graph_def Let_def stamped_simps findNode_def by (simp add: find_append)
qed

text \<open>
  The node from which the pattern is linked, said without the two searches of the code: the finding of that very
  identifier, else the first finding whose identifier contains it, else a node of its own.
\<close>

definition linked_from :: "string \<Rightarrow> SecNode list \<Rightarrow> string" where
  "linked_from fid ns =
     (let ids = map n_id (filter (\<lambda>n. n_type n = Finding) ns) in
      if fid \<in> set ids then fid
      else case filter (sublist fid) ids of [] \<Rightarrow> ''finding:'' @ fid | i # _ \<Rightarrow> i)"

lemma find_none_id: "find (\<lambda>n. k n = i) xs = None \<longleftrightarrow> i \<notin> k ` set xs"
  by (auto simp: find_None_iff)

lemma find_map_id: "find (\<lambda>n. k n = i) xs = Some n \<Longrightarrow> k n = i \<and> i \<in> k ` set xs"
  by (auto simp: find_Some_iff)

lemma find_filter_ids:
  "map_option k (find (\<lambda>n. P (k n)) xs) = (case filter P (map k xs) of [] \<Rightarrow> None | i # _ \<Rightarrow> Some i)"
  by (induction xs) auto

lemma names_inside: "suffix ('':'' @ fid) i \<or> sublist fid i \<longleftrightarrow> sublist fid i"
  by (meson suffix_appendD suffix_imp_sublist)

lemma finding_linked_from:
  "(case findGraphFinding fid f of Some n \<Rightarrow> n_id n | None \<Rightarrow> ''finding:'' @ fid) =
     linked_from fid (nodes (graph_of (graph_store f)))"
proof -
  let ?fs = "filter (\<lambda>n. n_type n = Finding) (nodes (graph_of (graph_store f)))"
  have search: "findGraphFinding fid f =
      (case find (\<lambda>n. n_id n = fid) ?fs of Some n \<Rightarrow> Some n | None \<Rightarrow> find (\<lambda>n. sublist fid (n_id n)) ?fs)"
    unfolding findGraphFinding_def names_inside Let_def ..
  show ?thesis
  proof (cases "find (\<lambda>n. n_id n = fid) ?fs")
    case None
    then have "fid \<notin> set (map n_id ?fs)" by (simp only: find_none_id set_map not_False_eq_True)
    then show ?thesis
      unfolding search None linked_from_def Let_def using find_filter_ids [of n_id "sublist fid" ?fs]
      by (cases "find (\<lambda>n. sublist fid (n_id n)) ?fs"; cases "filter (sublist fid) (map n_id ?fs)") simp_all
  next
    case (Some n)
    from find_map_id [OF this] show ?thesis by (simp add: search Some linked_from_def)
  qed
qed

lemma knowledge_edge_set:
  "edge_key ` set (edges (knowledge_graph now i label detail linkTo rel g)) =
     edge_key ` set (edges g) \<union> (if linkTo = [] then {} else {(linkTo, i, rel)})"
  unfolding set_map [symmetric] knowledge_edges by (auto simp: image_iff)

lemma link_pattern_graph:
  "map_option n_label (findNode (graph_of (graph_store (link_pattern now node pat f))) (''pattern:'' @ safeId (lp_finding_id pat)))
     = Some (''Pattern: '' @ lp_vulnerability_class pat)"
  "edge_key ` set (edges (graph_of (graph_store (link_pattern now node pat f)))) =
     (let src = (case node of Some n \<Rightarrow> n_id n | None \<Rightarrow> ''finding:'' @ lp_finding_id pat) in
      edge_key ` set (edges (graph_of (graph_store f))) \<union>
      (if src = [] then {} else {(src, ''pattern:'' @ safeId (lp_finding_id pat), ENABLES)}))"
  unfolding link_pattern_def updateGraphKnowledge_def Let_def
  by (simp_all add: knowledge_findNode bare_node_def knowledge_edge_set)

lemma learned_graph:
  assumes "healthy f"
  shows "\<exists>f2. graph_store (learned dir now node pat f) = graph_store (link_pattern now node pat f2) \<and>
              graph_store f2 = graph_store f"
proof -
  obtain es ix where "memory_entries (memory_file f) = Some es" "index_entries (pattern_index f) = Some ix"
    using assms by (auto simp: healthy_def)
  then show ?thesis
    by (auto simp: learned_def frame index_pattern_def addCollectiveMemory_def Let_def
        intro!: exI [of _ "fst (addCollectiveMemory now (finding_entry now pat) (fst (index_pattern dir now
          (pattern_name (lp_finding_id pat)) pat (f\<lparr>pattern_files := put_file (pattern_name (lp_finding_id pat)) pat (pattern_files f)\<rparr>))))"])
qed

text \<open>C27: A finding that is extracted successfully reaches every knowledge store: its pattern file holds the extracted
  pattern, the index has exactly one entry for it, the newest entry of the memory is about it, the security graph has
  the pattern's node, and the benchmark has a case exactly when the pattern is suitable. The edges of the graph gain
  exactly the \<open>ENABLES\<close> edge to the pattern, and \<open>linked_from\<close> says where it starts: at the finding of that very
  identifier if the graph has one, else at the first finding whose identifier contains it, which may be another one
  (\<open>pattern_linked_from_other\<close>), else at a node \<open>finding:\<close> of its own; an empty identifier gets no edge. The
  false-positive memory is untouched.\<close>
theorem finding_reaches_all_stores:
  assumes "snd (learn_from_finding dir now p f) = Inr r"
  shows "let f' = fst (learn_from_finding dir now p f); pat = fr_pattern r; fid = lf_finding_id p;
             g = graph_of (graph_store f); g' = graph_of (graph_store f'); src = linked_from fid (nodes g) in
         pattern_of_params now p (findGraphFinding fid f) = Inr pat \<and>
         map_of (pattern_files f') (pattern_name fid) = Some (Some pat) \<and>
         map pr_added_at (filter (\<lambda>e. pr_finding_id e = fid) (or_else (index_entries (pattern_index f')) [])) = [now] \<and>
         last (or_else (memory_entries (memory_file f')) []) = finding_entry now pat \<and>
         map_option n_label (findNode g' (''pattern:'' @ safeId fid)) = Some (''Pattern: '' @ lf_vulnerability_class p) \<and>
         edge_key ` set (edges g') =
           edge_key ` set (edges g) \<union> (if src = [] then {} else {(src, ''pattern:'' @ safeId fid, ENABLES)}) \<and>
         bench_files f' = (if benchmarkSuitable pat
           then put_file (''case-'' @ safeId fid @ ''.json'') (case_of_pattern now pat) (bench_files f) else bench_files f) \<and>
         fp_files f' = fp_files f \<and> fp_index f' = fp_index f"
proof -
  let ?node = "findGraphFinding (lf_finding_id p) f"
  have "context_of p ?node = []" "healthy f"
    using finding_context_outcome [of p f dir now] assms by (auto simp: split_beta Let_def)
  then obtain pat where pat: "pattern_of_params now p ?node = Inr pat" using pattern_of_params_cases by blast
  from learn_finding_healthy [OF this \<open>healthy f\<close>, of dir] assms
  have f': "fst (learn_from_finding dir now p f) = learned dir now ?node pat f" and r: "fr_pattern r = pat" by auto
  obtain es ix where "memory_entries (memory_file f) = Some es" "index_entries (pattern_index f) = Some ix"
    using \<open>healthy f\<close> by (auto simp: healthy_def)
  moreover have "lp_finding_id pat = lf_finding_id p" "lp_vulnerability_class pat = lf_vulnerability_class p"
    using pat by (auto simp: pattern_of_params_def split: if_splits)
  moreover from learned_graph [OF \<open>healthy f\<close>]
  obtain f2 where g: "graph_store (learned dir now ?node pat f) = graph_store (link_pattern now ?node pat f2)"
    and "graph_store f2 = graph_store f" by blast
  moreover from this
  have "edge_key ` set (edges (graph_of (graph_store (link_pattern now ?node pat f2)))) =
      (let src = linked_from (lp_finding_id pat) (nodes (graph_of (graph_store f))) in
       edge_key ` set (edges (graph_of (graph_store f))) \<union>
       (if src = [] then {} else {(src, ''pattern:'' @ safeId (lp_finding_id pat), ENABLES)}))"
    by (simp only: link_pattern_graph finding_linked_from [symmetric] pattern_of_params_id [OF pat])
  ultimately show ?thesis
    unfolding f' r Let_def g
    using link_pattern_graph(1) [where now = now and node = ?node and pat = pat and f = f2]
    by (simp add: pat learned_def index_pattern_def addCollectiveMemory_def frame push_entry_last add_benchmark_def Let_def
        del: append_Cons append.simps)
qed

definition demo_finding :: finding_params where
  "demo_finding =
     \<lparr>lf_finding_id = ''F-1'', lf_vulnerability_class = ''SSRF'', lf_root_cause = ''no check'', lf_architecture_pattern = None,
      lf_observable_signals = Some [''timing''], lf_attack_path = Some [''a'', ''b''], lf_validation_method = ''canary'',
      lf_remediation = ''allowlist'', lf_severity = Some High, lf_target_context = None\<rparr>"

theorem finding_reaches_all_stores_witness:
  "\<exists>r. snd (learn_from_finding ''d'' 7 demo_finding no_learn_files) = Inr r \<and>
       map_of (pattern_files (fst (learn_from_finding ''d'' 7 demo_finding no_learn_files))) (pattern_name ''F-1'') = Some (Some (fr_pattern r))"
proof -
  have "\<not> isl (snd (learn_from_finding ''d'' 7 demo_finding no_learn_files))" by code_simp
  then obtain r where r: "snd (learn_from_finding ''d'' 7 demo_finding no_learn_files) = Inr r"
    using sum.collapse(2) by metis
  have "lf_finding_id demo_finding = ''F-1''" by (simp add: demo_finding_def)
  with r finding_reaches_all_stores [OF r] show ?thesis unfolding Let_def by metis
qed

text \<open>The search for a finding accepts one whose identifier merely contains the one asked for. After F-10 was learned, the
  pattern of F-1 hangs on the pattern of F-10: the only edge to it starts there, none at F-1.\<close>
theorem pattern_linked_from_other:
  "let ex = (\<lambda>t i f. fst (learn_from_finding ''d'' t (demo_finding\<lparr>lf_finding_id := i\<rparr>) f));
       f = ex 2 ''F-1'' (ex 1 ''F-10'' no_learn_files) in
   map edge_key (edges (graph_of (graph_store f))) =
     [(''finding:F-10'', ''pattern:F-10'', ENABLES), (''pattern:F-10'', ''pattern:F-1'', ENABLES)]"
  by code_simp

section \<open>The invariant\<close>

definition ll_wf :: "learn_files \<Rightarrow> bool" where
  "ll_wf f =
     (distinct (map fst (pattern_files f)) \<and> distinct (map fst (fp_files f)) \<and> distinct (map fst (bench_files f)) \<and>
      distinct (map pr_finding_id (or_else (index_entries (pattern_index f)) [])) \<and>
      distinct (map fr_hypothesis_id (or_else (index_entries (fp_index f)) [])) \<and>
      distinct (map me_id (or_else (memory_entries (memory_file f)) [])) \<and>
      length (or_else (memory_entries (memory_file f)) []) \<le> MAX_ENTRIES \<and>
      sg_wf (graph_of (graph_store f)) \<and> mem_wf (mem_load (memory_view (memory_file f))))"

lemma view_write [simp]: "mem_load (memory_view (write_entries now es j)) = mem_load (memory_view j)"
  by (cases j) simp_all

lemma wf_put_pattern [inv_intros]: "ll_wf f \<Longrightarrow> ll_wf (f\<lparr>pattern_files := put_file n d (pattern_files f)\<rparr>)"
  by (simp add: ll_wf_def inv_intros)

lemma wf_index_pattern: "index_pattern dir now n pat f = (f', r) \<Longrightarrow> ll_wf f \<Longrightarrow> ll_wf f'"
  by (auto simp: index_pattern_def ll_wf_def distinct_map_filter split: option.splits)

lemma wf_addMemory: "addCollectiveMemory now e f = (f', r) \<Longrightarrow> ll_wf f \<Longrightarrow> ll_wf f'"
  by (auto simp: addCollectiveMemory_def ll_wf_def push_entry_length inv_intros split: option.splits)

lemma wf_graph [inv_intros]: "ll_wf f \<Longrightarrow> ll_wf (updateGraphKnowledge now i l d t rel f)"
  by (simp add: updateGraphKnowledge_def ll_wf_def inv_intros)

lemma wf_links [inv_intros]: "ll_wf f \<Longrightarrow> ll_wf (link_pattern now node pat f)" "ll_wf f \<Longrightarrow> ll_wf (link_rejection now p f)"
  by (simp_all add: link_pattern_def link_rejection_def inv_intros)

lemma wf_benchmark [inv_intros]: "ll_wf f \<Longrightarrow> ll_wf (add_benchmark now pat f)"
  by (simp add: add_benchmark_def ll_wf_def inv_intros)

lemma wf_write_fp [inv_intros]: "ll_wf f \<Longrightarrow> ll_wf (write_fp e f)"
  by (simp add: write_fp_def ll_wf_def inv_intros Let_def)

lemma wf_index_fp: "index_fp dir now e f = (f', r) \<Longrightarrow> ll_wf f \<Longrightarrow> ll_wf f'"
  by (auto simp: index_fp_def ll_wf_def distinct_map_filter split: option.splits)

lemma wf_finding: "ll_wf f \<Longrightarrow> ll_wf (fst (learn_from_finding dir now p f))"
  unfolding learn_from_finding_def Let_def
  by (auto split: sum.splits prod.splits intro!: wf_links wf_benchmark)
    (metis wf_index_pattern wf_addMemory wf_put_pattern)+

lemma wf_rejection: "ll_wf f \<Longrightarrow> ll_wf (fst (learn_from_rejection dir now p f))"
  unfolding learn_from_rejection_def Let_def
  by (auto split: sum.splits prod.splits intro!: wf_links) (metis wf_index_fp wf_addMemory wf_write_fp)+

lemma ll_exec_fst:
  "fst (ll_exec dir c f) =
     (case c of Learn_finding now p \<Rightarrow> fst (learn_from_finding dir now p f)
      | Learn_rejection now p \<Rightarrow> fst (learn_from_rejection dir now p f) | _ \<Rightarrow> f)"
  by (cases c) simp_all

lemma wf_loop: "ll_wf f \<Longrightarrow> ll_wf (fst (ll_exec dir c f))"
  by (cases c) (simp_all add: ll_exec_fst wf_finding wf_rejection)

lemma mem_exec_writes:
  "fst (mem_exec st c f) = f \<or> (\<exists>is n. fst (mem_exec st c f) = Mem_parsed (Some is) (Some n))"
  by (cases c)
    (auto simp: memory_store_def memory_retrieve_def memory_search_def memory_check_duplicate_def memory_prune_def mem_save_def
      mem_nextId_def Let_def split: option.splits)

lemma memory_put_view [simp]:
  "memory_put (memory_view j) j = j" "memory_view (memory_put (Mem_parsed is n) j) = Mem_parsed is n"
  "or_else (memory_entries (memory_put m j)) [] = or_else (memory_entries j) []"
  by (cases j; simp; cases m; simp)+

lemma memory_view_exec:
  "memory_view (memory_put (fst (mem_exec st c (memory_view j))) j) = fst (mem_exec st c (memory_view j))"
  using mem_exec_writes [of st c "memory_view j"] by auto

lemma shared_exec_fst:
  "fst (shared_exec st dir c f) =
     (case c of By_loop l \<Rightarrow> fst (ll_exec dir l f)
      | By_memory m \<Rightarrow> f\<lparr>memory_file := memory_put (fst (mem_exec st m (memory_view (memory_file f)))) (memory_file f)\<rparr>)"
  by (cases c) (simp_all add: split_beta)

lemma wf_shared: "ll_wf f \<Longrightarrow> ll_wf (fst (shared_exec st dir c f))"
  unfolding shared_exec_fst using mem.inv_exec
  by (cases c) (simp_all add: wf_loop, simp add: ll_wf_def memory_view_exec)

interpretation ll: tool_server "\<lambda>f. f" "\<lambda>s f. s" "shared_exec st dir" ll_wf no_learn_files for st dir
  by unfold_locales
    (simp_all add: wf_shared, simp add: ll_wf_def no_learn_files_def sg_wf_def graph_of_def mem_wf_def)

text \<open>C34: Whatever calls of the learning loop and of the collective memory run on a fresh data directory, in any order: the
  memory entries have distinct identifiers and are at most 500, both indexes name a finding or hypothesis once, no file
  is listed twice, the security graph keeps distinct nodes and edges, and the items of the collective memory stay well
  formed although both extensions write the same file.\<close>
theorem learning_invariant:
  "let f = run_calls (shared_exec st dir) cs no_learn_files; es = or_else (memory_entries (memory_file f)) [];
       g = graph_of (graph_store f) in
   distinct (map me_id es) \<and> length es \<le> 500 \<and>
   distinct (map pr_finding_id (or_else (index_entries (pattern_index f)) [])) \<and>
   distinct (map fr_hypothesis_id (or_else (index_entries (fp_index f)) [])) \<and>
   distinct (map fst (pattern_files f)) \<and> distinct (map fst (fp_files f)) \<and> distinct (map fst (bench_files f)) \<and>
   distinct (map n_id (nodes g)) \<and> distinct (map edge_key (edges g)) \<and> mem_wf (mem_load (memory_view (memory_file f)))"
  using ll.run_start_inv [of st dir cs] by (simp add: ll_wf_def sg_wf_def MAX_ENTRIES_def Let_def)

section \<open>States without recovery\<close>

text \<open>A memory file without the array of the learning loop.\<close>

abbreviation stuck :: "learn_files \<Rightarrow> bool" where
  "stuck f \<equiv> memory_entries (memory_file f) = None"

lemma stuck_memory: "memory_entries (memory_file f) = None \<Longrightarrow> addCollectiveMemory now e f = (f, Inl TypeError)"
  by (simp add: addCollectiveMemory_def)

lemma index_frame:
  "index_pattern dir now n pat f = (f', r) \<Longrightarrow> memory_file f' = memory_file f"
  "index_fp dir now e f = (f', r) \<Longrightarrow> memory_file f' = memory_file f"
  by (auto simp: index_pattern_def index_fp_def split: option.splits)

lemma write_fp_memory [simp]: "memory_file (write_fp e f) = memory_file f"
  by (simp add: write_fp_def Let_def)

lemma stuck_finding:
  assumes "stuck f"
  shows "memory_file (fst (learn_from_finding dir now p f)) = memory_file f \<and> isl (snd (learn_from_finding dir now p f))"
  using assms unfolding learn_from_finding_def Let_def
  by (auto split: sum.splits prod.splits simp: addCollectiveMemory_def dest!: index_frame split: option.splits)

lemma stuck_rejection:
  assumes "stuck f"
  shows "memory_file (fst (learn_from_rejection dir now p f)) = memory_file f \<and> isl (snd (learn_from_rejection dir now p f))"
  using assms unfolding learn_from_rejection_def Let_def
  by (auto split: sum.splits prod.splits simp: addCollectiveMemory_def dest!: index_frame split: option.splits)

lemma stuck_loop: "stuck f \<Longrightarrow> stuck (fst (ll_exec dir c f)) \<and> isl (snd (ll_exec dir c f))"
  using stuck_finding [of f] stuck_rejection [of f]
  by (cases c) (simp_all add: learn_status_def on_agent_start_def knowledgeDigest_def computeStatus_def isl_map_sum)

lemma memory_put_stuck: "memory_entries j = None \<Longrightarrow> memory_entries (memory_put m j) = None"
  by (cases j; cases m) simp_all

lemma stuck_shared: "stuck f \<Longrightarrow> stuck (fst (shared_exec st dir c f))"
  unfolding shared_exec_fst by (cases c) (simp_all add: stuck_loop memory_put_stuck)

text \<open>The collective memory disables the learning loop for good. If a tool of the collective memory is the first to
  write the shared memory file, then after any further calls of both extensions every operation of the learning loop
  throws: both extractions, the status, and the hook that runs at the start of each turn.\<close>
theorem memory_first_disables_learning:
  assumes "memory_file f = No_memory" "fst (mem_exec st m Mem_unreadable) \<noteq> Mem_unreadable"
  shows "isl (snd (ll_exec dir c (run_calls (shared_exec st dir) (By_memory m # cs) f)))"
proof -
  obtain xs n where "fst (mem_exec st m Mem_unreadable) = Mem_parsed (Some xs) (Some n)"
    using mem_exec_writes [of st m Mem_unreadable] assms(2) by auto
  then have "stuck (fst (shared_exec st dir (By_memory m) f))" unfolding shared_exec_fst by (simp add: assms(1))
  then have "stuck (run_calls (shared_exec st dir) cs (fst (shared_exec st dir (By_memory m) f)))"
    by (rule run_calls_invariant [where P = stuck, rotated]) (rule stuck_shared)
  then show ?thesis using stuck_loop by simp
qed

theorem memory_first_disables_learning_witness:
  "isl (snd (ll_exec ''d'' Agent_start (run_calls (shared_exec (\<lambda>_. []) ''d'')
     [By_memory (Call_duplicate 0 ''finding'' ''x'' ''y''), By_loop (Learn_finding 1 demo_finding)] no_learn_files)))"
  by (rule memory_first_disables_learning) code_simp+

text \<open>An index of false positives without its array.\<close>

abbreviation index_lost :: "learn_files \<Rightarrow> bool" where
  "index_lost f \<equiv> index_entries (fp_index f) = None"

lemma finding_fp_index: "fp_index (fst (learn_from_finding dir now p f)) = fp_index f"
  by (auto simp: learn_from_finding_def index_pattern_def addCollectiveMemory_def frame Let_def split: sum.splits option.splits)

lemma lost_rejection:
  "index_lost f \<or> safeId (lr_hypothesis_id p) = ''index'' \<Longrightarrow>
   index_lost (fst (learn_from_rejection dir now p f)) \<and> isl (snd (learn_from_rejection dir now p f))"
  by (auto simp: learn_from_rejection_def index_fp_def write_fp_def fp_name_def fp_of_params_def Let_def)

lemma lost_shared: "index_lost f \<Longrightarrow> index_lost (fst (shared_exec st dir c f))"
  unfolding shared_exec_fst ll_exec_fst
  by (cases c) (auto simp: finding_fp_index lost_rejection split: ll_call.split)

text \<open>A hypothesis whose identifier becomes the file name of the index destroys the index of false positives: the
  rejection that records it throws, and so does every later rejection, whatever calls come in between.\<close>
theorem index_named_hypothesis_disables_rejections:
  assumes "safeId (lr_hypothesis_id p) = ''index''"
  shows "isl (snd (learn_from_rejection dir t q
           (run_calls (shared_exec st dir) (By_loop (Learn_rejection now p) # cs) f)))"
proof -
  have "index_lost (fst (shared_exec st dir (By_loop (Learn_rejection now p)) f))"
    unfolding shared_exec_fst using lost_rejection [of f p dir now] assms by simp
  then have "index_lost (run_calls (shared_exec st dir) cs (fst (shared_exec st dir (By_loop (Learn_rejection now p)) f)))"
    by (rule run_calls_invariant [where P = index_lost, rotated]) (rule lost_shared)
  then show ?thesis using lost_rejection by simp
qed

definition demo_rejection :: "string \<Rightarrow> rejection_params" where
  "demo_rejection hid =
     \<lparr>lr_hypothesis_id = hid, lr_rejection_reason = ''r'', lr_looked_like_vuln = ''l'', lr_why_it_wasnt = ''w'',
      lr_detection_heuristics = Some [''h''], lr_vulnerability_class = None\<rparr>"

theorem index_named_hypothesis_disables_rejections_witness:
  "isl (snd (learn_from_rejection ''d'' 2 (demo_rejection ''H-2'')
     (run_calls (shared_exec (\<lambda>_. []) ''d'') (By_loop (Learn_rejection 1 (demo_rejection ''index'')) # []) no_learn_files)))"
  by (rule index_named_hypothesis_disables_rejections) code_simp

text \<open>Two findings whose identifiers differ only in replaced characters share one pattern file: the index lists both, the
  pattern of the first is lost.\<close>
theorem pattern_file_collision:
  "let ex = (\<lambda>t i f. fst (learn_from_finding ''d'' t (demo_finding\<lparr>lf_finding_id := i\<rparr>) f));
       f = ex 2 ''F_1'' (ex 1 ''F.1'' no_learn_files) in
   map pr_finding_id (or_else (index_entries (pattern_index f)) []) = [''F.1'', ''F_1''] \<and>
   map (map_option lp_finding_id \<circ> snd) (pattern_files f) = [Some ''F_1'']"
  by code_simp

text \<open>A rejection without heuristics throws after its file and its index entry were written; the collective memory and the
  security graph never hear of it.\<close>
theorem rejection_half_written:
  "let (f, r) = learn_from_rejection ''d'' 1 ((demo_rejection ''H-1'')\<lparr>lr_detection_heuristics := None\<rparr>) no_learn_files in
   isl r \<and> map fst (fp_files f) = [''H-1.json''] \<and> memory_file f = No_memory \<and> graph_store f = No_graph"
  by code_simp

end
