(* ===== verification/Evaluation.thy ===== *)
theory Evaluation
  imports JSNumber
begin

text \<open>
  The evaluation of the swarm (\<open>evaluation.ts\<close>): the store of benchmark cases, the metrics file with its
  counters, log of outcomes and log of benchmark runs, the six tools and the command \<open>/eval\<close>. Numbers are
  rational. A key that is missing in the metrics file, or an array that is no array, is \<open>None\<close>. The metrics
  of a version are looked up by a function from version labels to files.
\<close>

section \<open>Data\<close>

record BenchmarkCase =
  case_id :: string
  architecture :: string
  observations :: string
  investigation_context :: string
  actual_vulnerability :: string
  root_cause :: string
  expected_reasoning_path :: string
  false_positive_alternatives :: string
  validation_result :: string
  created_at :: "time option"

record BenchmarkStore =
  cases :: "BenchmarkCase list"
  case_counter :: int

datatype RecordType = R_finding | R_hypothesis | R_duplicate

datatype RecordResult = Confirmed | Rejected | Duplicate

record OutcomeRecord =
  or_timestamp :: time
  or_type :: RecordType
  or_result :: RecordResult
  or_details :: json

datatype run_outcome = Success | Failure

record BenchmarkRun =
  br_case_id :: string
  br_timestamp :: time
  br_outcome :: run_outcome

record Metrics =
  true_findings :: rat
  false_positives :: rat
  duplicate_investigations :: rat
  validation_accuracy :: rat
  time_to_discovery :: rat
  token_cost :: rat
  tool_calls :: rat
  hypotheses_created :: rat
  hypotheses_rejected :: rat
  attack_chains_discovered :: rat
  high_impact_findings :: rat
  benchmark_success_rate :: rat
  benchmark_runs :: "BenchmarkRun list"
  records :: "OutcomeRecord list"
  updated_at :: time

section \<open>Persistence\<close>

datatype cases_file = No_cases | Cases_json "BenchmarkCase list option" "int option"

text \<open>What \<open>JSON.parse\<close> finds in a metrics file.\<close>

record partial_metrics =
  p_true_findings :: "rat option"
  p_false_positives :: "rat option"
  p_duplicate_investigations :: "rat option"
  p_validation_accuracy :: "rat option"
  p_time_to_discovery :: "rat option"
  p_token_cost :: "rat option"
  p_tool_calls :: "rat option"
  p_hypotheses_created :: "rat option"
  p_hypotheses_rejected :: "rat option"
  p_attack_chains_discovered :: "rat option"
  p_high_impact_findings :: "rat option"
  p_benchmark_success_rate :: "rat option"
  p_benchmark_runs :: "BenchmarkRun list option"
  p_records :: "OutcomeRecord list option"
  p_updated_at :: "time option"

datatype metrics_file = No_metrics | Metrics_json partial_metrics

fun loadCases :: "cases_file \<Rightarrow> BenchmarkStore" where
  "loadCases (Cases_json cs n) = \<lparr>cases = or_else cs [], case_counter = or_else n 0\<rparr>"
| "loadCases No_cases = \<lparr>cases = [], case_counter = 0\<rparr>"

definition saveCases :: "BenchmarkStore \<Rightarrow> cases_file" where
  "saveCases s = Cases_json (Some (cases s)) (Some (case_counter s))"

definition defaultMetrics :: "time \<Rightarrow> Metrics" where
  "defaultMetrics now =
     \<lparr>true_findings = 0, false_positives = 0, duplicate_investigations = 0, validation_accuracy = 0,
      time_to_discovery = 0, token_cost = 0, tool_calls = 0, hypotheses_created = 0,
      hypotheses_rejected = 0, attack_chains_discovered = 0, high_impact_findings = 0,
      benchmark_success_rate = 0, benchmark_runs = [], records = [], updated_at = now\<rparr>"

text \<open>\<open>{ ...defaultMetrics(), ...parsed }\<close>: what the file has, and the default for the rest.\<close>

definition merge_defaults :: "time \<Rightarrow> partial_metrics \<Rightarrow> Metrics" where
  "merge_defaults now p =
     (let d = defaultMetrics now in
      \<lparr>true_findings = or_else (p_true_findings p) (true_findings d),
       false_positives = or_else (p_false_positives p) (false_positives d),
       duplicate_investigations = or_else (p_duplicate_investigations p) (duplicate_investigations d),
       validation_accuracy = or_else (p_validation_accuracy p) (validation_accuracy d),
       time_to_discovery = or_else (p_time_to_discovery p) (time_to_discovery d),
       token_cost = or_else (p_token_cost p) (token_cost d),
       tool_calls = or_else (p_tool_calls p) (tool_calls d),
       hypotheses_created = or_else (p_hypotheses_created p) (hypotheses_created d),
       hypotheses_rejected = or_else (p_hypotheses_rejected p) (hypotheses_rejected d),
       attack_chains_discovered = or_else (p_attack_chains_discovered p) (attack_chains_discovered d),
       high_impact_findings = or_else (p_high_impact_findings p) (high_impact_findings d),
       benchmark_success_rate = or_else (p_benchmark_success_rate p) (benchmark_success_rate d),
       benchmark_runs = or_else (p_benchmark_runs p) (benchmark_runs d),
       records = or_else (p_records p) (records d),
       updated_at = or_else (p_updated_at p) (updated_at d)\<rparr>)"

fun loadMetrics :: "time \<Rightarrow> metrics_file \<Rightarrow> Metrics" where
  "loadMetrics now (Metrics_json p) = merge_defaults now p"
| "loadMetrics now No_metrics = defaultMetrics now"

definition metrics_json :: "Metrics \<Rightarrow> metrics_file" where
  "metrics_json m =
     Metrics_json \<lparr>p_true_findings = Some (true_findings m), p_false_positives = Some (false_positives m),
       p_duplicate_investigations = Some (duplicate_investigations m),
       p_validation_accuracy = Some (validation_accuracy m), p_time_to_discovery = Some (time_to_discovery m),
       p_token_cost = Some (token_cost m), p_tool_calls = Some (tool_calls m),
       p_hypotheses_created = Some (hypotheses_created m), p_hypotheses_rejected = Some (hypotheses_rejected m),
       p_attack_chains_discovered = Some (attack_chains_discovered m),
       p_high_impact_findings = Some (high_impact_findings m),
       p_benchmark_success_rate = Some (benchmark_success_rate m),
       p_benchmark_runs = Some (benchmark_runs m), p_records = Some (records m),
       p_updated_at = Some (updated_at m)\<rparr>"

definition saveMetrics :: "time \<Rightarrow> Metrics \<Rightarrow> metrics_file" where
  "saveMetrics now m = metrics_json (m\<lparr>updated_at := now\<rparr>)"

fun loadVersionedMetrics :: "time \<Rightarrow> (string \<Rightarrow> metrics_file) \<Rightarrow> string \<Rightarrow> Metrics option" where
  "loadVersionedMetrics now dir version =
     (case dir version of Metrics_json p \<Rightarrow> Some (merge_defaults now p) | No_metrics \<Rightarrow> None)"

section \<open>Derived metrics\<close>

definition recompute :: "Metrics \<Rightarrow> Metrics" where
  "recompute m =
     (let judged = true_findings m + false_positives m;
          runs = benchmark_runs m;
          successes = length (filter (\<lambda>r. br_outcome r = Success) runs) in
      m\<lparr>validation_accuracy := (if judged > 0 then true_findings m / judged else 0),
        benchmark_success_rate := (if length runs > 0 then of_nat successes / of_nat (length runs) else 0)\<rparr>)"

definition discovery_times :: "OutcomeRecord list \<Rightarrow> rat list" where
  "discovery_times rs =
     List.map_filter
       (\<lambda>r. if or_type r = R_finding \<and> or_result r = Confirmed \<and> json_truthy (or_details r)
            then to_number (json_field (or_details r) ''time_to_discovery'') else None) rs"

definition timeToDiscoveryAvg :: "Metrics \<Rightarrow> rat" where
  "timeToDiscoveryAvg m =
     (let times = discovery_times (records m) in
      if length times > 0 then foldl (\<lambda>a b. a + b) 0 times / of_nat (length times) else 0)"

section \<open>Helpers\<close>

text \<open>\<open>truncate\<close>: the ellipsis, which is not a Latin-1 character, is a flag.\<close>

definition truncated :: "nat \<Rightarrow> string \<Rightarrow> string \<times> bool" where
  "truncated n s = (if length s \<le> n then (s, False) else (take (n - 1) s, True))"

definition publicMetrics :: "Metrics \<Rightarrow> (string \<times> rat) list" where
  "publicMetrics m =
     [(''true_findings'', true_findings m),
      (''false_positives'', false_positives m),
      (''duplicate_investigations'', duplicate_investigations m),
      (''validation_accuracy'', validation_accuracy m),
      (''time_to_discovery'', timeToDiscoveryAvg m),
      (''token_cost'', token_cost m),
      (''tool_calls'', tool_calls m),
      (''hypotheses_created'', hypotheses_created m),
      (''hypotheses_rejected'', hypotheses_rejected m),
      (''attack_chains_discovered'', attack_chains_discovered m),
      (''high_impact_findings'', high_impact_findings m),
      (''benchmark_success_rate'', benchmark_success_rate m)]"

datatype case_field =
    F_case_id | F_architecture | F_observations | F_investigation_context | F_actual_vulnerability
  | F_root_cause | F_expected_reasoning_path | F_false_positive_alternatives | F_validation_result

definition CASE_FIELDS :: "case_field list" where
  "CASE_FIELDS =
     [F_case_id, F_architecture, F_observations, F_investigation_context, F_actual_vulnerability,
      F_root_cause, F_expected_reasoning_path, F_false_positive_alternatives, F_validation_result]"

section \<open>The tools\<close>

record eval_files =
  ev_cases :: cases_file
  ev_metrics :: metrics_file

record metrics_report =
  mr_metrics :: "(string \<times> rat) list"
  mr_updated_at :: time
  mr_benchmark_runs :: nat
  mr_total_records :: nat

definition eval_metrics :: "time \<Rightarrow> eval_files \<Rightarrow> metrics_report" where
  "eval_metrics now f =
     (let m = loadMetrics now (ev_metrics f) in
      \<lparr>mr_metrics = publicMetrics m, mr_updated_at = updated_at m,
       mr_benchmark_runs = length (benchmark_runs m), mr_total_records = length (records m)\<rparr>)"

datatype run_response =
    Case_not_found string "string list"
  | Case_loaded BenchmarkCase bool

definition eval_benchmark_run ::
  "time \<Rightarrow> string \<Rightarrow> run_outcome option \<Rightarrow> eval_files \<Rightarrow> eval_files \<times> run_response" where
  "eval_benchmark_run now cid outcome f =
     (let s = loadCases (ev_cases f) in
      case find (\<lambda>x. case_id x = cid) (cases s) of
        None \<Rightarrow> (f, Case_not_found cid (map case_id (cases s)))
      | Some c \<Rightarrow>
          (case outcome of
             None \<Rightarrow> (f, Case_loaded c False)
           | Some out \<Rightarrow>
               (let m = loadMetrics now (ev_metrics f);
                    run = \<lparr>br_case_id = case_id c, br_timestamp = now, br_outcome = out\<rparr>;
                    m = recompute (m\<lparr>benchmark_runs := benchmark_runs m @ [run]\<rparr>)
                in (f\<lparr>ev_metrics := saveMetrics now m\<rparr>, Case_loaded c True))))"

datatype add_response =
    Missing_fields "case_field list"
  | Case_exists string
  | Case_added string nat

definition missing_fields :: "(case_field \<Rightarrow> string option) \<Rightarrow> case_field list" where
  "missing_fields p = filter (\<lambda>fd. \<not> truthy (p fd) \<or> trim (or_else (p fd) []) = []) CASE_FIELDS"

definition case_of_params :: "time \<Rightarrow> (case_field \<Rightarrow> string option) \<Rightarrow> BenchmarkCase" where
  "case_of_params now p =
     (let v = (\<lambda>fd. or_else (p fd) []) in
      \<lparr>case_id = v F_case_id, architecture = v F_architecture, observations = v F_observations,
       investigation_context = v F_investigation_context, actual_vulnerability = v F_actual_vulnerability,
       root_cause = v F_root_cause, expected_reasoning_path = v F_expected_reasoning_path,
       false_positive_alternatives = v F_false_positive_alternatives,
       validation_result = v F_validation_result, created_at = Some now\<rparr>)"

definition eval_benchmark_add ::
  "time \<Rightarrow> (case_field \<Rightarrow> string option) \<Rightarrow> eval_files \<Rightarrow> eval_files \<times> add_response" where
  "eval_benchmark_add now p f =
     (if missing_fields p \<noteq> [] then (f, Missing_fields (missing_fields p))
      else
        (let s = loadCases (ev_cases f); c = case_of_params now p in
         if list_ex (\<lambda>x. case_id x = case_id c) (cases s) then (f, Case_exists (case_id c))
         else
           (let s = s\<lparr>cases := cases s @ [c], case_counter := case_counter s + 1\<rparr>
            in (f\<lparr>ev_cases := saveCases s\<rparr>, Case_added (case_id c) (length (cases s))))))"

record case_summary =
  cs_case_id :: string
  cs_architecture :: "string \<times> bool"
  cs_actual_vulnerability :: "string \<times> bool"
  cs_created_at :: "time option"

definition eval_benchmark_list :: "eval_files \<Rightarrow> case_summary list" where
  "eval_benchmark_list f =
     map (\<lambda>c. \<lparr>cs_case_id = case_id c, cs_architecture = truncated 80 (architecture c),
                cs_actual_vulnerability = truncated 80 (actual_vulnerability c), cs_created_at = created_at c\<rparr>)
       (cases (loadCases (ev_cases f)))"

datatype verdict = Improvement | Regression | Neutral

definition lowerIsBetter :: "string list" where
  "lowerIsBetter =
     [''false_positives'', ''duplicate_investigations'', ''time_to_discovery'', ''token_cost'', ''tool_calls'',
      ''hypotheses_rejected'']"

record comparison_row =
  cr_metric :: string
  cr_version_a :: rat
  cr_version_b :: rat
  cr_delta :: rat
  cr_pct_change :: "rat option"
  cr_verdict :: verdict

definition verdict_of :: "string \<Rightarrow> rat \<Rightarrow> verdict" where
  "verdict_of key delta =
     (if delta = 0 then Neutral
      else if key \<in> set lowerIsBetter then (if delta < 0 then Improvement else Regression)
      else (if delta > 0 then Improvement else Regression))"

definition compare_metric :: "(string \<times> rat) list \<Rightarrow> string \<times> rat \<Rightarrow> comparison_row" where
  "compare_metric pb kv =
     (let (key, va) = kv; vb = or_else (map_of pb key) 0; delta = vb - va in
      \<lparr>cr_metric = key, cr_version_a = va, cr_version_b = vb, cr_delta = to_fixed 4 delta,
       cr_pct_change = (if va \<noteq> 0 then Some (to_fixed 1 (delta / \<bar>va\<bar> * 100)) else None),
       cr_verdict = verdict_of key delta\<rparr>)"

datatype compare_response =
    No_version string
  | Compared "comparison_row list" nat nat nat verdict

definition overall_verdict :: "nat \<Rightarrow> nat \<Rightarrow> verdict" where
  "overall_verdict improved regressed =
     (if improved > regressed then Improvement else if regressed > improved then Regression else Neutral)"

definition eval_compare ::
  "time \<Rightarrow> (string \<Rightarrow> metrics_file) \<Rightarrow> string \<Rightarrow> string \<Rightarrow> compare_response" where
  "eval_compare now dir version_a version_b =
     (case loadVersionedMetrics now dir version_a of
        None \<Rightarrow> No_version version_a
      | Some a \<Rightarrow>
          (case loadVersionedMetrics now dir version_b of
             None \<Rightarrow> No_version version_b
           | Some b \<Rightarrow>
               (let comparison = map (compare_metric (publicMetrics b)) (publicMetrics a);
                    improved = length (filter (\<lambda>r. cr_verdict r = Improvement) comparison);
                    regressed = length (filter (\<lambda>r. cr_verdict r = Regression) comparison)
                in Compared comparison improved regressed (length comparison - improved - regressed)
                     (overall_verdict improved regressed))))"

record record_params =
  rp_type :: RecordType
  rp_result :: RecordResult
  rp_details :: "json option"

definition details_of :: "record_params \<Rightarrow> json" where
  "details_of p = (case rp_details p of Some d \<Rightarrow> if json_truthy d then d else JObj [] | None \<Rightarrow> JObj [])"

definition is_true :: "json option \<Rightarrow> bool" where
  "is_true v = (v = Some (JBool True))"

definition count_outcome :: "RecordType \<Rightarrow> RecordResult \<Rightarrow> json \<Rightarrow> Metrics \<Rightarrow> Metrics" where
  "count_outcome ty res d m =
     (case ty of
        R_finding \<Rightarrow>
          (case res of
             Confirmed \<Rightarrow>
               m\<lparr>true_findings := true_findings m + 1,
                 attack_chains_discovered :=
                   attack_chains_discovered m + (if is_true (json_field d ''attack_chain'') then 1 else 0),
                 high_impact_findings :=
                   high_impact_findings m + (if is_true (json_field d ''high_impact'') then 1 else 0)\<rparr>
           | Rejected \<Rightarrow> m\<lparr>false_positives := false_positives m + 1\<rparr>
           | Duplicate \<Rightarrow> m)
      | R_hypothesis \<Rightarrow>
          (if res = Confirmed \<or> res = Rejected
           then m\<lparr>hypotheses_created := hypotheses_created m + 1,
                  hypotheses_rejected := hypotheses_rejected m + (if res = Rejected then 1 else 0)\<rparr>
           else m)
      | R_duplicate \<Rightarrow> m\<lparr>duplicate_investigations := duplicate_investigations m + 1\<rparr>)"

definition account_cost :: "json \<Rightarrow> Metrics \<Rightarrow> Metrics" where
  "account_cost d m =
     (let n = (\<lambda>k. or_else (as_number (json_field d k)) 0) in
      m\<lparr>token_cost := token_cost m + n ''tokens'' + n ''token_cost'', tool_calls := tool_calls m + n ''tool_calls''\<rparr>)"

record record_response =
  rr_recorded :: "RecordType \<times> RecordResult"
  rr_metrics :: "(string \<times> rat) list"

definition eval_record :: "time \<Rightarrow> record_params \<Rightarrow> eval_files \<Rightarrow> eval_files \<times> record_response" where
  "eval_record now p f =
     (let d = details_of p;
          m = account_cost d (count_outcome (rp_type p) (rp_result p) d (loadMetrics now (ev_metrics f)));
          r = \<lparr>or_timestamp = now, or_type = rp_type p, or_result = rp_result p, or_details = d\<rparr>;
          m = recompute (m\<lparr>records := records m @ [r]\<rparr>)
      in (f\<lparr>ev_metrics := saveMetrics now m\<rparr>,
          \<lparr>rr_recorded = (rp_type p, rp_result p), rr_metrics = publicMetrics (m\<lparr>updated_at := now\<rparr>)\<rparr>))"

section \<open>The command /eval\<close>

record eval_view =
  ew_metrics :: "(string \<times> rat) list"
  ew_cases :: "(string \<times> string \<times> bool) list"
  ew_runs :: nat
  ew_successes :: nat
  ew_recent :: "BenchmarkRun list"
  ew_earlier :: nat
  ew_updated_at :: time

definition eval_command :: "time \<Rightarrow> eval_files \<Rightarrow> eval_view" where
  "eval_command now f =
     (let m = loadMetrics now (ev_metrics f); s = loadCases (ev_cases f); runs = benchmark_runs m in
      \<lparr>ew_metrics = publicMetrics m,
       ew_cases = map (\<lambda>c. (case_id c, truncated 44 (actual_vulnerability c))) (cases s),
       ew_runs = length runs,
       ew_successes = length (filter (\<lambda>r. br_outcome r = Success) runs),
       ew_recent = rev (drop (length runs - 8) runs),
       ew_earlier = length runs - 8,
       ew_updated_at = updated_at m\<rparr>)"

section \<open>Sequences of calls\<close>

datatype ev_call =
    Call_record time record_params
  | Call_run time string "run_outcome option"
  | Call_add time "case_field \<Rightarrow> string option"
  | Call_metrics time
  | Call_list

datatype ev_response =
    Resp_record record_response | Resp_run run_response | Resp_add add_response
  | Resp_metrics metrics_report | Resp_list "case_summary list"

fun ev_exec :: "ev_call \<Rightarrow> eval_files \<Rightarrow> eval_files \<times> ev_response" where
  "ev_exec (Call_record now p) f = (let (f', r) = eval_record now p f in (f', Resp_record r))"
| "ev_exec (Call_run now cid out) f = (let (f', r) = eval_benchmark_run now cid out f in (f', Resp_run r))"
| "ev_exec (Call_add now p) f = (let (f', r) = eval_benchmark_add now p f in (f', Resp_add r))"
| "ev_exec (Call_metrics now) f = (f, Resp_metrics (eval_metrics now f))"
| "ev_exec Call_list f = (f, Resp_list (eval_benchmark_list f))"

definition no_eval_files :: eval_files where
  "no_eval_files = \<lparr>ev_cases = No_cases, ev_metrics = No_metrics\<rparr>"

end
