(* ===== verification/Evaluation_Props.thy ===== *)
theory Evaluation_Props
  imports Evaluation
begin

text \<open>
  Correctness of the evaluation: its files refine a log of outcomes, of benchmark runs and of cases, from
  which every counter and rate can be computed; the store of cases; the comparison of versions.
\<close>

section \<open>Reading back what was written\<close>

lemma loadCases_save [simp]: "loadCases (saveCases s) = s"
  by (simp add: saveCases_def)

lemma loadMetrics_json [simp]: "loadMetrics now (metrics_json m) = m"
  by (simp add: metrics_json_def merge_defaults_def)

lemma loadMetrics_save [simp]: "loadMetrics now (saveMetrics then' m) = m\<lparr>updated_at := then'\<rparr>"
  by (simp add: saveMetrics_def)

lemma list_ex_key: "list_ex (\<lambda>x. k x = a) xs \<longleftrightarrow> a \<in> k ` set xs"
  by (induction xs) auto

section \<open>The specification\<close>

record eval_spec =
  sp_log :: "OutcomeRecord list"
  sp_runs :: "BenchmarkRun list"
  sp_cases :: "BenchmarkCase list"

definition spec_init :: eval_spec where
  "spec_init = \<lparr>sp_log = [], sp_runs = [], sp_cases = []\<rparr>"

fun spec_step :: "ev_call \<Rightarrow> eval_spec \<Rightarrow> eval_spec" where
  "spec_step (Call_record now p) s =
     s\<lparr>sp_log := sp_log s @ [\<lparr>or_timestamp = now, or_type = rp_type p, or_result = rp_result p, or_details = details_of p\<rparr>]\<rparr>"
| "spec_step (Call_run now cid (Some out)) s =
     (if cid \<in> case_id ` set (sp_cases s)
      then s\<lparr>sp_runs := sp_runs s @ [\<lparr>br_case_id = cid, br_timestamp = now, br_outcome = out\<rparr>]\<rparr> else s)"
| "spec_step (Call_add now p) s =
     (if missing_fields p = [] \<and> case_id (case_of_params now p) \<notin> case_id ` set (sp_cases s)
      then s\<lparr>sp_cases := sp_cases s @ [case_of_params now p]\<rparr> else s)"
| "spec_step _ s = s"

definition tally :: "(OutcomeRecord \<Rightarrow> bool) \<Rightarrow> OutcomeRecord list \<Rightarrow> rat" where
  "tally P lg = of_nat (length (filter P lg))"

definition outcome_is :: "RecordType \<Rightarrow> RecordResult \<Rightarrow> OutcomeRecord \<Rightarrow> bool" where
  "outcome_is ty res r = (or_type r = ty \<and> or_result r = res)"

definition flagged :: "string \<Rightarrow> OutcomeRecord \<Rightarrow> bool" where
  "flagged k r = (outcome_is R_finding Confirmed r \<and> json_field (or_details r) k = Some (JBool True))"

definition amount :: "string \<Rightarrow> OutcomeRecord list \<Rightarrow> rat" where
  "amount k lg = sum_list (map (\<lambda>r. or_else (as_number (json_field (or_details r) k)) 0) lg)"

definition ratio :: "rat \<Rightarrow> rat \<Rightarrow> rat" where
  "ratio a b = (if b > 0 then a / b else 0)"

definition metrics_of :: "eval_spec \<Rightarrow> time \<Rightarrow> Metrics" where
  "metrics_of s now =
     (let lg = sp_log s;
          tf = tally (outcome_is R_finding Confirmed) lg;
          fp = tally (outcome_is R_finding Rejected) lg;
          hr = tally (outcome_is R_hypothesis Rejected) lg in
      \<lparr>true_findings = tf, false_positives = fp,
       duplicate_investigations = tally (\<lambda>r. or_type r = R_duplicate) lg,
       validation_accuracy = ratio tf (tf + fp),
       time_to_discovery = 0,
       token_cost = amount ''tokens'' lg + amount ''token_cost'' lg,
       tool_calls = amount ''tool_calls'' lg,
       hypotheses_created = tally (outcome_is R_hypothesis Confirmed) lg + hr,
       hypotheses_rejected = hr,
       attack_chains_discovered = tally (flagged ''attack_chain'') lg,
       high_impact_findings = tally (flagged ''high_impact'') lg,
       benchmark_success_rate =
         ratio (of_nat (length (filter (\<lambda>r. br_outcome r = Success) (sp_runs s)))) (of_nat (length (sp_runs s))),
       benchmark_runs = sp_runs s, records = lg, updated_at = now\<rparr>)"

definition ev_refines :: "eval_files \<Rightarrow> eval_spec \<Rightarrow> bool" where
  "ev_refines f s =
     (cases (loadCases (ev_cases f)) = sp_cases s \<and>
      case_counter (loadCases (ev_cases f)) = int (length (sp_cases s)) \<and>
      (\<forall>now. \<exists>t. loadMetrics now (ev_metrics f) = metrics_of s t))"

lemma tally_simps [simp]:
  "tally P [] = 0" "tally P (lg @ [r]) = tally P lg + (if P r then 1 else 0)"
  by (simp_all add: tally_def)

lemma amount_simps [simp]:
  "amount k [] = 0" "amount k (lg @ [r]) = amount k lg + or_else (as_number (json_field (or_details r) k)) 0"
  by (simp_all add: amount_def)

lemma metrics_of_stamp [simp]: "(metrics_of s t)\<lparr>updated_at := u\<rparr> = metrics_of s u"
  by (simp add: metrics_of_def Let_def)

lemma metrics_of_cases [simp]: "metrics_of (s\<lparr>sp_cases := cs\<rparr>) t = metrics_of s t"
  by (simp add: metrics_of_def Let_def)

lemma metrics_of_runs:
  "recompute ((metrics_of s t)\<lparr>benchmark_runs := sp_runs s @ [r]\<rparr>) = metrics_of (s\<lparr>sp_runs := sp_runs s @ [r]\<rparr>) t"
  by (simp add: recompute_def metrics_of_def ratio_def Let_def)

lemma metrics_of_record:
  assumes "or_type r = ty" "or_result r = res" "or_details r = d"
  shows "recompute ((account_cost d (count_outcome ty res d (metrics_of s t)))\<lparr>records := sp_log s @ [r]\<rparr>) =
         metrics_of (s\<lparr>sp_log := sp_log s @ [r]\<rparr>) t"
  using assms
  by (cases ty; cases res)
    (simp_all add: recompute_def account_cost_def count_outcome_def metrics_of_def ratio_def outcome_is_def flagged_def
      is_true_def Let_def)

lemma ev_refines_run:
  assumes "ev_refines f s"
  shows "ev_refines (fst (eval_benchmark_run now cid out f)) (spec_step (Call_run now cid out) s)"
proof (cases "find (\<lambda>x. case_id x = cid) (cases (loadCases (ev_cases f)))")
  case None
  then have "cid \<notin> case_id ` set (sp_cases s)" using assms by (auto simp: find_None_iff ev_refines_def)
  then show ?thesis using assms None by (cases out) (simp_all add: eval_benchmark_run_def)
next
  case (Some c)
  then have c: "case_id c = cid" "cid \<in> case_id ` set (sp_cases s)"
    using assms find_SomeD [OF Some] by (auto simp: ev_refines_def)
  show ?thesis
  proof (cases out)
    case (Some o')
    obtain t where "loadMetrics now (ev_metrics f) = metrics_of s t" using assms by (auto simp: ev_refines_def)
    moreover have "benchmark_runs (metrics_of s t) = sp_runs s" by (simp add: metrics_of_def Let_def)
    ultimately show ?thesis
      using assms Some c \<open>find _ _ = Some c\<close>
      by (auto simp: ev_refines_def eval_benchmark_run_def metrics_of_runs Let_def)
  qed (use assms Some in \<open>simp add: eval_benchmark_run_def\<close>)
qed

lemma ev_refines_record:
  assumes "ev_refines f s"
  shows "ev_refines (fst (eval_record now p f)) (spec_step (Call_record now p) s)"
proof -
  obtain t where "loadMetrics now (ev_metrics f) = metrics_of s t" using assms by (auto simp: ev_refines_def)
  moreover have "records (account_cost d (count_outcome ty res d (metrics_of s t))) = sp_log s" for d ty res
    by (simp add: account_cost_def count_outcome_def metrics_of_def Let_def split: RecordType.split RecordResult.split)
  ultimately show ?thesis
    using assms by (auto simp: ev_refines_def eval_record_def metrics_of_record Let_def)
qed

lemma ev_refines_add:
  assumes "ev_refines f s"
  shows "ev_refines (fst (eval_benchmark_add now p f)) (spec_step (Call_add now p) s)"
  using assms by (simp add: ev_refines_def eval_benchmark_add_def Let_def list_ex_key)

lemma ev_refines_exec: "ev_refines f s \<Longrightarrow> ev_refines (fst (ev_exec c f)) (spec_step c s)"
  using ev_refines_run [of f s] ev_refines_record [of f s] ev_refines_add [of f s]
  by (cases c) (auto simp: split_beta)

lemma ev_refines_start: "ev_refines no_eval_files spec_init"
  by (simp add: ev_refines_def no_eval_files_def spec_init_def metrics_of_def defaultMetrics_def ratio_def)

interpretation ev_sim: simulation ev_exec spec_step ev_refines no_eval_files spec_init
  by unfold_locales (rule ev_refines_start, rule ev_refines_exec)

section \<open>Properties of the metrics\<close>

text \<open>C28: The evaluation files refine a specification that keeps nothing but logs. Whatever sequence of calls was made
  since the files did not exist, the metrics in the file are those computed from the log of the recorded outcomes and
  the log of the benchmark runs (each counter the number of matching entries, the costs the sums of the reported
  amounts, the rates the quotients), and the benchmark cases are those of the specification.\<close>
theorem metrics_refine_log:
  "let f = run_calls ev_exec cs no_eval_files; s = fold spec_step cs spec_init in
     (\<exists>t. loadMetrics now (ev_metrics f) = metrics_of s t) \<and> cases (loadCases (ev_cases f)) = sp_cases s"
  using ev_sim.run_refines [of cs] by (simp add: ev_refines_def Let_def)

lemma tally_nonneg [simp]: "0 \<le> tally P lg"
  by (simp add: tally_def)

lemma tally_mono: "(\<And>r. P r \<Longrightarrow> Q r) \<Longrightarrow> tally P lg \<le> tally Q lg"
  by (induction lg) (auto simp: tally_def)

lemma ratio_bounds:
  assumes "0 \<le> a" "a \<le> b"
  shows "0 \<le> ratio a b" "ratio a b \<le> 1"
  using assms by (auto simp: ratio_def)

text \<open>In every reachable metrics file both rates lie between 0 and 1, no more hypotheses are rejected than created,
  and attack chains and high-impact findings never outnumber the confirmed findings.\<close>
theorem metrics_bounded:
  "let m = loadMetrics now (ev_metrics (run_calls ev_exec cs no_eval_files)) in
     0 \<le> validation_accuracy m \<and> validation_accuracy m \<le> 1 \<and>
     0 \<le> benchmark_success_rate m \<and> benchmark_success_rate m \<le> 1 \<and>
     hypotheses_rejected m \<le> hypotheses_created m \<and>
     attack_chains_discovered m \<le> true_findings m \<and> high_impact_findings m \<le> true_findings m"
proof -
  obtain s t where m: "loadMetrics now (ev_metrics (run_calls ev_exec cs no_eval_files)) = metrics_of s t"
    using ev_sim.run_refines [of cs] unfolding ev_refines_def by blast
  have "tally (flagged k) lg \<le> tally (outcome_is R_finding Confirmed) lg" for k lg
    by (rule tally_mono) (simp add: flagged_def)
  moreover have "length (filter P xs) \<le> length xs" for P and xs :: "BenchmarkRun list" by simp
  ultimately show ?thesis unfolding m Let_def
    by (simp add: metrics_of_def Let_def ratio_bounds)
qed

section \<open>The store of benchmark cases\<close>

text \<open>A complete case with a new identifier is stored: the reply counts it, \<open>eval_benchmark_run\<close> then returns
  exactly this case without writing anything, adding it again is refused without writing anything, and the identifiers
  stay distinct.\<close>
theorem benchmark_case_roundtrip:
  assumes "missing_fields p = []" "case_id (case_of_params now p) \<notin> case_id ` set (cases (loadCases (ev_cases f)))"
  shows "let c = case_of_params now p; (f', r) = eval_benchmark_add now p f in
           r = Case_added (case_id c) (Suc (length (cases (loadCases (ev_cases f))))) \<and>
           eval_benchmark_run t (case_id c) None f' = (f', Case_loaded c False) \<and>
           eval_benchmark_add u p f' = (f', Case_exists (case_id c)) \<and>
           (distinct (map case_id (cases (loadCases (ev_cases f'))))
              = distinct (map case_id (cases (loadCases (ev_cases f)))))"
proof -
  have id: "case_id (case_of_params u p) = case_id (case_of_params now p)"
    by (simp add: case_of_params_def Let_def)
  have "find (\<lambda>x. case_id x = case_id (case_of_params now p)) (cases (loadCases (ev_cases f))) = None"
    using assms(2) by (simp add: find_None_key)
  moreover have "\<not> list_ex (\<lambda>x. case_id x = case_id (case_of_params now p)) (cases (loadCases (ev_cases f)))"
    using assms(2) by (simp add: list_ex_key)
  ultimately show ?thesis
    using assms by (simp add: eval_benchmark_add_def eval_benchmark_run_def find_append id Let_def)
qed

theorem benchmark_case_roundtrip_witness:
  "let p = (\<lambda>_. Some ''x''); c = case_of_params 1 p; (f', r) = eval_benchmark_add 1 p no_eval_files in
           r = Case_added (case_id c) (Suc (length (cases (loadCases (ev_cases no_eval_files))))) \<and>
           eval_benchmark_run 2 (case_id c) None f' = (f', Case_loaded c False) \<and>
           eval_benchmark_add 3 p f' = (f', Case_exists (case_id c)) \<and>
           (distinct (map case_id (cases (loadCases (ev_cases f'))))
              = distinct (map case_id (cases (loadCases (ev_cases no_eval_files)))))"
  unfolding Let_def [where s = "\<lambda>_. Some ''x''"]
  by (rule benchmark_case_roundtrip) code_simp+

section \<open>The comparison of versions\<close>

fun flip_verdict :: "verdict \<Rightarrow> verdict" where
  "flip_verdict Improvement = Regression"
| "flip_verdict Regression = Improvement"
| "flip_verdict Neutral = Neutral"

lemma flip_verdict_eq [simp]:
  "flip_verdict v = Improvement \<longleftrightarrow> v = Regression" "flip_verdict v = Regression \<longleftrightarrow> v = Improvement"
  by (cases v; simp)+

lemma verdict_of_minus: "verdict_of k (- d) = flip_verdict (verdict_of k d)"
  by (auto simp: verdict_of_def)

lemma overall_flip: "overall_verdict i r = flip_verdict (overall_verdict r i)"
  by (simp add: overall_verdict_def)

lemma alist_by_keys: "distinct (map fst xs) \<Longrightarrow> xs = map (\<lambda>k. (k, the (map_of xs k))) (map fst xs)"
  unfolding map_map by (rule map_idI [symmetric]) auto

definition metric_names :: "string list" where
  "metric_names = map fst (publicMetrics (defaultMetrics 0))"

lemma publicMetrics_keys: "map fst (publicMetrics m) = metric_names"
  by (simp add: publicMetrics_def metric_names_def)

lemma metric_names_distinct: "distinct metric_names"
  by code_simp

definition metric :: "Metrics \<Rightarrow> string \<Rightarrow> rat" where
  "metric m k = the (map_of (publicMetrics m) k)"

lemma publicMetrics_eq: "publicMetrics m = map (\<lambda>k. (k, metric m k)) metric_names"
  using alist_by_keys [of "publicMetrics m"] by (simp add: publicMetrics_keys metric_names_distinct metric_def)

definition metric_row :: "Metrics \<Rightarrow> Metrics \<Rightarrow> string \<Rightarrow> comparison_row" where
  "metric_row a b k = compare_metric [(k, metric b k)] (k, metric a k)"

lemma comparison_rows:
  "map (compare_metric (publicMetrics b)) (publicMetrics a) = map (metric_row a b) metric_names"
  unfolding publicMetrics_eq [of a]
  by (auto simp: publicMetrics_eq [of b] metric_row_def compare_metric_def map_of_map_restrict Let_def)

lemma metric_row_swap:
  "cr_metric (metric_row b a k) = cr_metric (metric_row a b k)"
  "cr_delta (metric_row b a k) = - cr_delta (metric_row a b k)"
  "cr_verdict (metric_row b a k) = flip_verdict (cr_verdict (metric_row a b k))"
proof -
  have d: "metric a k - metric b k = - (metric b k - metric a k)" by simp
  show "cr_delta (metric_row b a k) = - cr_delta (metric_row a b k)"
    by (simp add: metric_row_def compare_metric_def Let_def) (subst d, rule to_fixed_minus)
  show "cr_verdict (metric_row b a k) = flip_verdict (cr_verdict (metric_row a b k))"
    by (simp add: metric_row_def compare_metric_def Let_def) (subst d, rule verdict_of_minus)
qed (simp add: metric_row_def compare_metric_def Let_def)

lemma eval_compare_eq:
  "loadVersionedMetrics now dir va = Some a \<Longrightarrow> loadVersionedMetrics now dir vb = Some b \<Longrightarrow>
   eval_compare now dir va vb =
     (let rows = map (metric_row a b) metric_names;
          i = length (filter (\<lambda>k. cr_verdict (metric_row a b k) = Improvement) metric_names);
          r = length (filter (\<lambda>k. cr_verdict (metric_row a b k) = Regression) metric_names)
      in Compared rows i r (length metric_names - i - r) (overall_verdict i r))"
  by (simp add: eval_compare_def comparison_rows filter_map o_def Let_def)

text \<open>The comparison of two versions is antisymmetric: exchanging the versions keeps the metrics and their order,
  negates every delta, turns every improvement into a regression and back, exchanges the two counts and reverses the
  overall verdict.\<close>
theorem compare_antisymmetric:
  assumes "eval_compare now dir va vb = Compared rows i r n v"
  shows "\<exists>rows'. eval_compare now dir vb va = Compared rows' r i n (flip_verdict v) \<and>
           map cr_metric rows' = map cr_metric rows \<and>
           map cr_delta rows' = map (\<lambda>x. - cr_delta x) rows \<and>
           map cr_verdict rows' = map (\<lambda>x. flip_verdict (cr_verdict x)) rows"
proof -
  from assms obtain a b where ab: "loadVersionedMetrics now dir va = Some a" "loadVersionedMetrics now dir vb = Some b"
    by (auto simp: eval_compare_def split: option.splits)
  have eq: "rows = map (metric_row a b) metric_names"
      "i = length (filter (\<lambda>k. cr_verdict (metric_row a b k) = Improvement) metric_names)"
      "r = length (filter (\<lambda>k. cr_verdict (metric_row a b k) = Regression) metric_names)"
      "n = length metric_names - i - r" "v = overall_verdict i r"
    using assms unfolding eval_compare_eq [OF ab] by (auto simp: Let_def)
  show ?thesis
    unfolding eval_compare_eq [OF ab(2,1)] Let_def
    by (intro exI [of _ "map (metric_row b a) metric_names"])
      (simp add: eq metric_row_swap [of b a] overall_flip [symmetric] diff_right_commute)
qed

theorem compare_antisymmetric_witness:
  "let m = metrics_json (defaultMetrics 0); m' = metrics_json ((defaultMetrics 0)\<lparr>true_findings := 3\<rparr>);
       dir = (\<lambda>v. if v = ''v1'' then m else m') in
   \<exists>rows i r n v rows'. eval_compare 0 dir ''v1'' ''v2'' = Compared rows i r n v \<and> i = 1 \<and> v = Improvement \<and>
     eval_compare 0 dir ''v2'' ''v1'' = Compared rows' r i n Regression"
proof -
  let ?m = "metrics_json (defaultMetrics 0)" and ?m' = "metrics_json ((defaultMetrics 0)\<lparr>true_findings := 3\<rparr>)"
  let ?dir = "\<lambda>v. if v = ''v1'' then ?m else ?m'"
  have *: "(case eval_compare 0 ?dir ''v1'' ''v2'' of Compared _ i _ _ v \<Rightarrow> i = 1 \<and> v = Improvement | _ \<Rightarrow> False)"
    by code_simp
  then obtain rows i r n v where c: "eval_compare 0 ?dir ''v1'' ''v2'' = Compared rows i r n v"
    by (cases "eval_compare 0 ?dir ''v1'' ''v2''") simp_all
  then have "i = 1" "v = Improvement" using * by simp_all
  with c compare_antisymmetric [OF c] show ?thesis unfolding Let_def by fastforce
qed

section \<open>Findings\<close>

text \<open>A discovery time that was reported as \<open>null\<close> counts as a discovery within zero minutes and halves the average.\<close>
theorem null_time_counts_as_zero:
  "timeToDiscoveryAvg ((defaultMetrics 0)\<lparr>records :=
     [\<lparr>or_timestamp = 0, or_type = R_finding, or_result = Confirmed, or_details = JObj [(''time_to_discovery'', JNum 30)]\<rparr>,
      \<lparr>or_timestamp = 0, or_type = R_finding, or_result = Confirmed, or_details = JObj [(''time_to_discovery'', JNull)]\<rparr>]\<rparr>) = 15"
  by (simp add: timeToDiscoveryAvg_def discovery_times_def)

end
