(* ===== verification/Observability.thy ===== *)
theory Observability
  imports JSNumber Budget_Manager
begin

text \<open>
  The observability of the swarm (\<open>observability.ts\<close>): agents, tasks, hypotheses, findings and the activity log in
  \<open>swarm-state.json\<close>, the aggregations, the three tools, the hook at the start of a session and the command \<open>/swarm\<close>.
  The file is shared with the budget manager: the keys this extension does not know are carried along as a
  \<open>swarm_file\<close> of that extension. A dictionary is an association list in the order of insertion. The replies are the
  data they print; a command returns its data or the exception it throws. The dash in the message of the session hook,
  which is not a Latin-1 character, is written as a hyphen.
\<close>

section \<open>Data\<close>

datatype AgentStatus = Online | Working | Idle | Agent_blocked | Agent_failed

datatype SwarmTaskStatus = Task_pending | Task_running | Task_completed | Task_blocked

datatype HypothesisStatus = Created | Investigating | Criticized | Validating | Hyp_confirmed | Hyp_rejected

datatype FindingConfidence = Conf_high | Conf_medium | Conf_rejected

datatype activity_type =
    A_message | A_task_assigned | A_task_completed | A_discovery | A_hypothesis | A_status_change | A_error

record Agent =
  ag_id :: string
  ag_name :: string
  ag_role :: string
  ag_status :: AgentStatus
  ag_lastSeen :: time
  ag_currentTask :: "string option"
  ag_messages :: rat
  ag_tokensIn :: rat
  ag_tokensOut :: rat
  ag_model :: string
  ag_estimatedCost :: rat

record SwarmTask =
  st_id :: string
  st_title :: string
  st_assignedTo :: string
  st_status :: SwarmTaskStatus
  st_createdAt :: time
  st_updatedAt :: time
  st_tokensIn :: rat
  st_tokensOut :: rat
  st_estimatedCost :: rat
  st_model :: string

record SwarmHypothesis =
  sh_id :: string
  sh_text :: string
  sh_status :: HypothesisStatus
  sh_createdBy :: string
  sh_createdAt :: time
  sh_updatedAt :: time

record SwarmFinding =
  sf_id :: string
  sf_title :: string
  sf_confidence :: FindingConfidence
  sf_severity :: string
  sf_discoveredBy :: string
  sf_discoveredAt :: time
  sf_detail :: "string option"

record ActivityEntry =
  ac_id :: string
  ac_timestamp :: time
  ac_agentId :: string
  ac_agentName :: string
  ac_type :: activity_type
  ac_summary :: string
  ac_detail :: "string option"

record SwarmState =
  agents :: "(string \<times> Agent) list"
  swarm_tasks :: "(string \<times> SwarmTask) list"
  hypotheses :: "(string \<times> SwarmHypothesis) list"
  swarm_findings :: "(string \<times> SwarmFinding) list"
  activity :: "ActivityEntry list"
  createdAt :: time
  updatedAt :: time
  totalTokensIn :: rat
  totalTokensOut :: rat
  totalCost :: rat
  carried :: swarm_file

section \<open>Persistence\<close>

text \<open>The object in the file: each key of this extension may be missing.\<close>

record swarm_doc =
  sd_agents :: "(string \<times> Agent) list option"
  sd_tasks :: "(string \<times> SwarmTask) list option"
  sd_hypotheses :: "(string \<times> SwarmHypothesis) list option"
  sd_findings :: "(string \<times> SwarmFinding) list option"
  sd_activity :: "ActivityEntry list option"
  sd_createdAt :: "time option"
  sd_updatedAt :: "time option"
  sd_totalTokensIn :: "rat option"
  sd_totalTokensOut :: "rat option"
  sd_totalCost :: "rat option"
  sd_carried :: swarm_file

definition MAX_ACTIVITY :: nat where
  "MAX_ACTIVITY = 500"

definition emptyState :: "time \<Rightarrow> SwarmState" where
  "emptyState now =
     \<lparr>agents = [], swarm_tasks = [], hypotheses = [], swarm_findings = [], activity = [], createdAt = now,
      updatedAt = now, totalTokensIn = 0, totalTokensOut = 0, totalCost = 0, carried = no_swarm\<rparr>"

definition saveState :: "time \<Rightarrow> SwarmState \<Rightarrow> swarm_doc" where
  "saveState now s =
     \<lparr>sd_agents = Some (agents s), sd_tasks = Some (swarm_tasks s), sd_hypotheses = Some (hypotheses s),
      sd_findings = Some (swarm_findings s), sd_activity = Some (activity s), sd_createdAt = Some (createdAt s),
      sd_updatedAt = Some now, sd_totalTokensIn = Some (totalTokensIn s), sd_totalTokensOut = Some (totalTokensOut s),
      sd_totalCost = Some (totalCost s), sd_carried = carried s\<rparr>"

definition merge_state :: "time \<Rightarrow> swarm_doc \<Rightarrow> SwarmState" where
  "merge_state now d =
     \<lparr>agents = or_else (sd_agents d) [], swarm_tasks = or_else (sd_tasks d) [], hypotheses = or_else (sd_hypotheses d) [],
      swarm_findings = or_else (sd_findings d) [], activity = or_else (sd_activity d) [],
      createdAt = or_else (sd_createdAt d) now, updatedAt = or_else (sd_updatedAt d) now,
      totalTokensIn = or_else (sd_totalTokensIn d) 0, totalTokensOut = or_else (sd_totalTokensOut d) 0,
      totalCost = or_else (sd_totalCost d) 0, carried = sd_carried d\<rparr>"

text \<open>\<open>loadState\<close> writes a fresh state when the file is missing or unreadable (\<open>None\<close>).\<close>

fun loadState :: "time \<Rightarrow> swarm_doc option \<Rightarrow> swarm_doc option \<times> SwarmState" where
  "loadState now None =
     (let s = (emptyState now)\<lparr>updatedAt := now\<rparr> in (Some (saveState now s), s))"
| "loadState now (Some d) = (Some d, merge_state now d)"

definition addActivity ::
  "time \<Rightarrow> string \<Rightarrow> string \<Rightarrow> string \<Rightarrow> activity_type \<Rightarrow> string \<Rightarrow> string option \<Rightarrow> SwarmState \<Rightarrow> SwarmState" where
  "addActivity now rnd agentId agentName ty summary detail s =
     (let e = \<lparr>ac_id = ''act-'' @ nat_to_string (nat now) @ ''-'' @ rnd, ac_timestamp = now, ac_agentId = agentId,
               ac_agentName = agentName, ac_type = ty, ac_summary = summary, ac_detail = detail\<rparr>;
          acts = e # activity s
      in s\<lparr>activity := (if length acts > MAX_ACTIVITY then take MAX_ACTIVITY acts else acts)\<rparr>)"

section \<open>Pricing\<close>

definition PRICING :: "(string \<times> rat \<times> rat) list" where
  "PRICING =
     [(''claude-sonnet-4-20250514'', 3, 15), (''claude-opus-4-20250514'', 15, 75),
      (''claude-3-5-sonnet-20241022'', 3, 15), (''claude-3-opus-20240229'', 15, 75),
      (''claude-3-haiku-20240307'', 25/100, 125/100), (''gpt-4o'', 25/10, 10), (''gpt-4o-mini'', 15/100, 6/10),
      (''gpt-4-turbo'', 10, 30), (''o1'', 15, 60), (''o1-mini'', 3, 12), (''o3-mini'', 3, 12),
      (''gemini-2.0-flash'', 1/10, 4/10), (''gemini-1.5-pro'', 125/100, 5), (''gemini-1.5-flash'', 75/1000, 3/10),
      (''deepseek-chat'', 27/100, 11/10), (''deepseek-reasoner'', 55/100, 219/100), (''default'', 3, 15)]"

definition computeCost :: "string \<Rightarrow> rat \<Rightarrow> rat \<Rightarrow> rat" where
  "computeCost model tokensIn tokensOut =
     (let (inp, out) = or_else (map_of PRICING model) (3, 15)
      in tokensIn / 1000000 * inp + tokensOut / 1000000 * out)"

section \<open>Aggregation\<close>

definition AGENT_STATES :: "AgentStatus list" where
  "AGENT_STATES = [Online, Working, Idle, Agent_blocked, Agent_failed]"

definition TASK_STATES :: "SwarmTaskStatus list" where
  "TASK_STATES = [Task_pending, Task_running, Task_completed, Task_blocked]"

definition HYP_STATES :: "HypothesisStatus list" where
  "HYP_STATES = [Created, Investigating, Criticized, Validating, Hyp_confirmed, Hyp_rejected]"

definition FINDING_STATES :: "FindingConfidence list" where
  "FINDING_STATES = [Conf_high, Conf_medium, Conf_rejected]"

text \<open>A table that starts with zeros and is incremented for each value of the dictionary.\<close>

definition count_status :: "'k list \<Rightarrow> ('v \<Rightarrow> 'k) \<Rightarrow> (string \<times> 'v) list \<Rightarrow> ('k \<times> nat) list" where
  "count_status ks status vs =
     fold (\<lambda>(_, v) t. AList.update (status v) (or_else (map_of t (status v)) 0 + 1) t) vs (map (\<lambda>k. (k, 0)) ks)"

record StatusSummary =
  sum_agents :: "(AgentStatus \<times> nat) list"
  sum_tasks :: "(SwarmTaskStatus \<times> nat) list"
  sum_hypotheses :: "(HypothesisStatus \<times> nat) list"
  sum_findings :: "(FindingConfidence \<times> nat) list"
  tot_agents :: nat
  tot_tasks :: nat
  tot_hypotheses :: nat
  tot_findings :: nat
  tot_activity :: nat
  tot_tokensIn :: rat
  tot_tokensOut :: rat
  tot_cost :: rat

definition summarize :: "SwarmState \<Rightarrow> StatusSummary" where
  "summarize s =
     \<lparr>sum_agents = count_status AGENT_STATES ag_status (agents s),
      sum_tasks = count_status TASK_STATES st_status (swarm_tasks s),
      sum_hypotheses = count_status HYP_STATES sh_status (hypotheses s),
      sum_findings = count_status FINDING_STATES sf_confidence (swarm_findings s),
      tot_agents = length (agents s), tot_tasks = length (swarm_tasks s), tot_hypotheses = length (hypotheses s),
      tot_findings = length (swarm_findings s), tot_activity = length (activity s),
      tot_tokensIn = totalTokensIn s, tot_tokensOut = totalTokensOut s, tot_cost = totalCost s\<rparr>"

definition recomputeTotals :: "SwarmState \<Rightarrow> SwarmState" where
  "recomputeTotals s =
     (let (tIn, tOut, tCost) =
        fold (\<lambda>(_, a) (i, out, c). (i + ag_tokensIn a, out + ag_tokensOut a, c + ag_estimatedCost a)) (agents s) (0, 0, 0)
      in s\<lparr>totalTokensIn := tIn, totalTokensOut := tOut, totalCost := tCost\<rparr>)"

record usage =
  us_tokensIn :: rat
  us_tokensOut :: rat
  us_cost :: rat

text \<open>A model named like an inherited property is found in the empty object already and gets no row.\<close>

definition add_usage :: "Agent \<Rightarrow> (string \<times> usage) list \<Rightarrow> (string \<times> usage) list" where
  "add_usage a t =
     (if inherited (ag_model a) then t
      else
        (let u = or_else (map_of t (ag_model a)) \<lparr>us_tokensIn = 0, us_tokensOut = 0, us_cost = 0\<rparr> in
         AList.update (ag_model a)
           \<lparr>us_tokensIn = us_tokensIn u + ag_tokensIn a, us_tokensOut = us_tokensOut u + ag_tokensOut a,
            us_cost = us_cost u + ag_estimatedCost a\<rparr> t))"

definition computeModelUsage :: "SwarmState \<Rightarrow> (string \<times> usage) list" where
  "computeModelUsage s = fold (\<lambda>(_, a). add_usage a) (agents s) []"

section \<open>Rendering\<close>

text \<open>
  \<open>C\<close> is an object of escape sequences, that is of strings. \<open>bar\<close> calls two of them as functions, in both of its branches.
\<close>

datatype color = C_gray | C_green

datatype callable = Is_function | Is_string

fun color_value :: "color \<Rightarrow> callable" where
  "color_value C_gray = Is_string"
| "color_value C_green = Is_string"

definition call_color :: "color \<Rightarrow> nat \<Rightarrow> js_error + nat" where
  "call_color c n = (case color_value c of Is_function \<Rightarrow> Inr n | Is_string \<Rightarrow> Inl TypeError)"

definition bar :: "nat \<Rightarrow> nat \<Rightarrow> nat \<Rightarrow> js_error + nat" where
  "bar n tot width =
     (if tot = 0 then call_color C_gray width
      else
        (let filled = nat (round (rat_of_nat n / rat_of_nat tot * rat_of_nat width)) in
         case call_color C_green filled of
           Inl e \<Rightarrow> Inl e
         | Inr g \<Rightarrow> (case call_color C_gray (width - filled) of Inl e \<Rightarrow> Inl e | Inr h \<Rightarrow> Inr (g + h))))"

text \<open>\<open>pad\<close>: the ellipsis, which is not a Latin-1 character, is a flag.\<close>

definition pad :: "string \<Rightarrow> nat \<Rightarrow> string \<times> bool" where
  "pad str len = (if length str > len then (take (len - 1) str, True) else (str @ replicate (len - length str) (CHR '' ''), False))"

datatype token_text = Tok_M rat | Tok_k rat | Tok rat

definition formatTokens :: "rat \<Rightarrow> token_text" where
  "formatTokens n =
     (if n \<ge> 1000000 then Tok_M (to_fixed 2 (n / 1000000))
      else if n \<ge> 1000 then Tok_k (to_fixed 1 (n / 1000)) else Tok n)"

text \<open>Tokens in, tokens out and the cost with four digits, as they are printed.\<close>

definition usage_text :: "usage \<Rightarrow> token_text \<times> token_text \<times> rat" where
  "usage_text u = (formatTokens (us_tokensIn u), formatTokens (us_tokensOut u), to_fixed 4 (us_cost u))"

text \<open>The rows of one status table: a status, its bar and its count.\<close>

fun status_rows :: "('k \<times> nat) list \<Rightarrow> nat \<Rightarrow> 'k list \<Rightarrow> js_error + ('k \<times> nat \<times> nat) list" where
  "status_rows t tot [] = Inr []"
| "status_rows t tot (k # ks) =
     (let n = or_else (map_of t k) 0 in
      case bar n tot 20 of
        Inl e \<Rightarrow> Inl e
      | Inr b \<Rightarrow> (case status_rows t tot ks of Inl e \<Rightarrow> Inl e | Inr rs \<Rightarrow> Inr ((k, b, n) # rs)))"

section \<open>The tools\<close>

definition on_swarm_session_start :: "time \<Rightarrow> string \<Rightarrow> swarm_doc option \<Rightarrow> swarm_doc option" where
  "on_swarm_session_start now rnd f =
     (let (f, s) = loadState now f in
      if agents s = []
      then Some (saveState now (addActivity now rnd ''system'' ''system'' A_message
                  ''Swarm observability initialized - no agents registered yet'' None s))
      else f)"

datatype section_name = Sec_all | Sec_agents | Sec_tasks | Sec_hypotheses | Sec_findings | Sec_cost

record cost_agent_row =
  ca_id :: string
  ca_name :: string
  ca_model :: string
  ca_usage :: usage

definition agent_usage :: "Agent \<Rightarrow> usage" where
  "agent_usage a = \<lparr>us_tokensIn = ag_tokensIn a, us_tokensOut = ag_tokensOut a, us_cost = ag_estimatedCost a\<rparr>"

definition totals_of :: "SwarmState \<Rightarrow> usage" where
  "totals_of s = \<lparr>us_tokensIn = totalTokensIn s, us_tokensOut = totalTokensOut s, us_cost = totalCost s\<rparr>"

datatype status_reply =
    Agents_reply "(string \<times> Agent) list" "(AgentStatus \<times> nat) list"
  | Tasks_reply "(string \<times> SwarmTask) list" "(SwarmTaskStatus \<times> nat) list"
  | Hypotheses_reply "(string \<times> SwarmHypothesis) list" "(HypothesisStatus \<times> nat) list"
  | Findings_reply "(string \<times> SwarmFinding) list" "(FindingConfidence \<times> nat) list"
  | Cost_reply usage "(string \<times> usage) list" "cost_agent_row list"
  | All_reply StatusSummary SwarmState usage "(string \<times> usage) list" "ActivityEntry list"

definition swarm_status :: "time \<Rightarrow> section_name option \<Rightarrow> swarm_doc option \<Rightarrow> swarm_doc option \<times> status_reply" where
  "swarm_status now sec f =
     (let (f, s) = loadState now f in
      (f, case or_else sec Sec_all of
            Sec_agents \<Rightarrow> Agents_reply (agents s) (sum_agents (summarize s))
          | Sec_tasks \<Rightarrow> Tasks_reply (swarm_tasks s) (sum_tasks (summarize s))
          | Sec_hypotheses \<Rightarrow> Hypotheses_reply (hypotheses s) (sum_hypotheses (summarize s))
          | Sec_findings \<Rightarrow> Findings_reply (swarm_findings s) (sum_findings (summarize s))
          | Sec_cost \<Rightarrow> Cost_reply (totals_of s) (computeModelUsage s)
              (map (\<lambda>(_, a). \<lparr>ca_id = ag_id a, ca_name = ag_name a, ca_model = ag_model a, ca_usage = agent_usage a\<rparr>) (agents s))
          | Sec_all \<Rightarrow> All_reply (summarize s) s (totals_of s) (computeModelUsage s) (take 20 (activity s))))"

record activity_params =
  ap_agentId :: "string option"
  ap_type :: "activity_type option"
  ap_limit :: "int option"

record activity_reply =
  ar_count :: nat
  ar_total :: nat
  ar_activity :: "ActivityEntry list"

definition swarm_activity :: "time \<Rightarrow> activity_params \<Rightarrow> swarm_doc option \<Rightarrow> swarm_doc option \<times> activity_reply" where
  "swarm_activity now p f =
     (let (f, s) = loadState now f;
          es = (if truthy (ap_agentId p) then filter (\<lambda>e. Some (ac_agentId e) = ap_agentId p) (activity s) else activity s);
          es = (if ap_type p \<noteq> None then filter (\<lambda>e. Some (ac_type e) = ap_type p) es else es);
          es = slice0 (or_else (ap_limit p) 50) es
      in (f, \<lparr>ar_count = length es, ar_total = length (activity s), ar_activity = es\<rparr>))"

datatype cost_by = By_agent | By_task | By_model | By_all

record cost_agent =
  cg_agent :: Agent
  cg_tasks :: nat

record cost_task =
  ct_task :: SwarmTask
  ct_agent :: "string option"

record cost_reply =
  cr_totals :: usage
  cr_byAgent :: "cost_agent list option"
  cr_byTask :: "cost_task list option"
  cr_byModel :: "(string \<times> usage) list option"

definition swarm_cost :: "time \<Rightarrow> cost_by option \<Rightarrow> string option \<Rightarrow> swarm_doc option \<Rightarrow> swarm_doc option \<times> cost_reply" where
  "swarm_cost now by agentFilter f =
     (let (f, s) = loadState now f;
          b = or_else by By_all;
          as = map snd (agents s);
          ts = map snd (swarm_tasks s);
          as = (if truthy agentFilter then filter (\<lambda>a. Some (ag_id a) = agentFilter) as else as);
          ts = (if truthy agentFilter then filter (\<lambda>t. Some (st_assignedTo t) = agentFilter) ts else ts)
      in (f, \<lparr>cr_totals = totals_of s,
              cr_byAgent = (if b = By_agent \<or> b = By_all
                then Some (map (\<lambda>a. \<lparr>cg_agent = a, cg_tasks = length (filter (\<lambda>t. st_assignedTo t = ag_id a) ts)\<rparr>) as) else None),
              cr_byTask = (if b = By_task \<or> b = By_all
                then Some (map (\<lambda>t. \<lparr>ct_task = t, ct_agent = map_option ag_name (map_of (agents s) (st_assignedTo t))\<rparr>) ts) else None),
              cr_byModel = (if b = By_model \<or> b = By_all then Some (computeModelUsage s) else None)\<rparr>))"

section \<open>The command /swarm\<close>

datatype swarm_view =
    Was_reset
  | Agents_view "(AgentStatus \<times> nat \<times> nat) list"
  | Tasks_view "(SwarmTaskStatus \<times> nat \<times> nat) list"
  | Hypotheses_view "(HypothesisStatus \<times> nat \<times> nat) list"
  | Findings_view "(FindingConfidence \<times> nat \<times> nat) list"
  | Cost_view "token_text \<times> token_text \<times> rat" "((string \<times> bool) \<times> token_text \<times> token_text \<times> rat) list"
      "((string \<times> bool) \<times> (string \<times> bool) \<times> token_text \<times> token_text \<times> rat) list"
  | Activity_view "(time \<times> activity_type \<times> (string \<times> bool) \<times> string) list" nat
  | Dashboard_view "(AgentStatus \<times> nat \<times> nat) list" "(SwarmTaskStatus \<times> nat \<times> nat) list"
      "(HypothesisStatus \<times> nat \<times> nat) list" "(FindingConfidence \<times> nat \<times> nat) list"

text \<open>\<open>renderDashboard\<close> up to its four tables, in their order; what follows a table needs the table to be rendered.\<close>

definition renderDashboard :: "SwarmState \<Rightarrow> js_error + swarm_view" where
  "renderDashboard s =
     (let u = summarize s in
      case status_rows (sum_agents u) (tot_agents u) AGENT_STATES of
        Inl e \<Rightarrow> Inl e
      | Inr as \<Rightarrow>
          (case status_rows (sum_tasks u) (tot_tasks u) TASK_STATES of
             Inl e \<Rightarrow> Inl e
           | Inr ts \<Rightarrow>
               (case status_rows (sum_hypotheses u) (tot_hypotheses u) HYP_STATES of
                  Inl e \<Rightarrow> Inl e
                | Inr hs \<Rightarrow>
                    (case status_rows (sum_findings u) (tot_findings u) FINDING_STATES of
                       Inl e \<Rightarrow> Inl e
                     | Inr fs \<Rightarrow> Inr (Dashboard_view as ts hs fs)))))"

definition cost_view :: "SwarmState \<Rightarrow> swarm_view" where
  "cost_view s =
     Cost_view (usage_text (totals_of s))
       (map (\<lambda>(m, u). (pad m 30, usage_text u)) (sort_key (\<lambda>(_, u). - us_cost u) (computeModelUsage s)))
       (map (\<lambda>a. (pad (ag_name a) 16, pad (ag_model a) 28, usage_text (agent_usage a)))
         (sort_key (\<lambda>a. - ag_estimatedCost a) (map snd (agents s))))"

definition activity_view :: "SwarmState \<Rightarrow> swarm_view" where
  "activity_view s =
     Activity_view (map (\<lambda>e. (ac_timestamp e, ac_type e, pad (ac_agentName e) 14, ac_summary e)) (take 20 (activity s)))
       (length (activity s))"

definition swarm_command :: "time \<Rightarrow> string \<Rightarrow> swarm_doc option \<Rightarrow> swarm_doc option \<times> (js_error + swarm_view)" where
  "swarm_command now args f =
     (let (f, s) = loadState now f;
          sub = hd (split_ws (trim args));
          u = summarize s in
      if sub = ''reset'' then (Some (saveState now (emptyState now)), Inr Was_reset)
      else if sub = ''agents'' then (f, map_sum id Agents_view (status_rows (sum_agents u) (tot_agents u) AGENT_STATES))
      else if sub = ''tasks'' then (f, map_sum id Tasks_view (status_rows (sum_tasks u) (tot_tasks u) TASK_STATES))
      else if sub = ''hypotheses''
      then (f, map_sum id Hypotheses_view (status_rows (sum_hypotheses u) (tot_hypotheses u) HYP_STATES))
      else if sub = ''findings''
      then (f, map_sum id Findings_view (status_rows (sum_findings u) (tot_findings u) FINDING_STATES))
      else if sub = ''cost'' then (f, Inr (cost_view s))
      else if sub = ''activity'' then (f, Inr (activity_view s))
      else (f, renderDashboard s))"

section \<open>Sequences of calls\<close>

datatype obs_call =
    Session_start time string
  | Status_call time "section_name option"
  | Activity_call time activity_params
  | Cost_call time "cost_by option" "string option"
  | Swarm_command time string

datatype obs_response =
    Started | Status_resp status_reply | Activity_resp activity_reply | Cost_resp cost_reply
  | Command_resp "js_error + swarm_view"

fun obs_exec :: "obs_call \<Rightarrow> swarm_doc option \<Rightarrow> swarm_doc option \<times> obs_response" where
  "obs_exec (Session_start now rnd) f = (on_swarm_session_start now rnd f, Started)"
| "obs_exec (Status_call now sec) f = map_prod id Status_resp (swarm_status now sec f)"
| "obs_exec (Activity_call now p) f = map_prod id Activity_resp (swarm_activity now p f)"
| "obs_exec (Cost_call now by a) f = map_prod id Cost_resp (swarm_cost now by a f)"
| "obs_exec (Swarm_command now args) f = map_prod id Command_resp (swarm_command now args f)"

text \<open>The file as the budget manager sees it, and what its writes leave of the keys of this extension.\<close>

definition budget_view_of :: "swarm_doc option \<Rightarrow> swarm_file option" where
  "budget_view_of f = map_option sd_carried f"

definition empty_doc :: "swarm_file \<Rightarrow> swarm_doc" where
  "empty_doc c =
     \<lparr>sd_agents = None, sd_tasks = None, sd_hypotheses = None, sd_findings = None, sd_activity = None,
      sd_createdAt = None, sd_updatedAt = None, sd_totalTokensIn = None, sd_totalTokensOut = None, sd_totalCost = None,
      sd_carried = c\<rparr>"

definition budget_exec :: "bm_call \<Rightarrow> swarm_doc option \<Rightarrow> swarm_doc option \<times> bm_response" where
  "budget_exec c f =
     (case bm_exec c (budget_view_of f) of
        (None, r) \<Rightarrow> (f, r)
      | (Some b, r) \<Rightarrow> (Some (case f of None \<Rightarrow> empty_doc b | Some d \<Rightarrow> d\<lparr>sd_carried := b\<rparr>), r))"

end
