(* ===== verification/Observability_Props.thy ===== *)
theory Observability_Props
  imports Observability Budget_Manager_Props
begin

text \<open>
  Correctness of the observability: the summary counts, the usage per model, the bound of the activity log, the sharing
  of the state file with the budget manager, and the views that cannot be rendered.
\<close>

section \<open>Grouping\<close>

text \<open>The loop behind both tables: the entry of a key is replaced by a function of the old entry, or of a start value.\<close>

definition group_step :: "('x \<Rightarrow> 'k) \<Rightarrow> ('x \<Rightarrow> 'v \<Rightarrow> 'v) \<Rightarrow> 'v \<Rightarrow> 'x \<Rightarrow> ('k \<times> 'v) list \<Rightarrow> ('k \<times> 'v) list" where
  "group_step key f z x t = AList.update (key x) (f x (or_else (map_of t (key x)) z)) t"

lemma group_distinct: "distinct (map fst t) \<Longrightarrow> distinct (map fst (fold (group_step key f z) xs t))"
  by (induction xs arbitrary: t) (simp_all add: group_step_def distinct_update)

lemma group_lookup:
  "or_else (map_of (fold (group_step key f z) xs t) k) z = fold f (filter (\<lambda>x. key x = k) xs) (or_else (map_of t k) z)"
  by (induction xs arbitrary: t) (simp_all add: group_step_def update_conv')

lemma group_keys:
  "fst ` set (fold (group_step key f z) xs t) = fst ` set t \<union> key ` set xs"
  by (induction xs arbitrary: t) (auto simp: group_step_def set_map [symmetric] update_keys simp del: set_map)

lemma group_keys_closed:
  "key ` set xs \<subseteq> fst ` set t \<Longrightarrow> map fst (fold (group_step key f z) xs t) = map fst t"
  by (induction xs arbitrary: t) (simp_all add: group_step_def update_keys, metis image_set update_keys)

lemma group_sum:
  fixes g :: "'v \<Rightarrow> 'a::cancel_comm_monoid_add"
  assumes "g z = 0" "\<And>x u. g (f x u) = g u + w x" "distinct (map fst t)"
  shows "sum_list (map (g \<circ> snd) (fold (group_step key f z) xs t)) = sum_list (map (g \<circ> snd) t) + sum_list (map w xs)"
  using assms(3)
proof (induction xs arbitrary: t)
  case (Cons x xs)
  let ?t = "group_step key f z x t"
  have "sum_list (map (g \<circ> snd) ?t) + (case map_of t (key x) of None \<Rightarrow> 0 | Some v \<Rightarrow> g v) =
      sum_list (map (g \<circ> snd) t) + (g (or_else (map_of t (key x)) z) + w x)"
    unfolding group_step_def sum_update [OF Cons.prems] assms(2) by simp
  moreover have "g (or_else (map_of t (key x)) z) = (case map_of t (key x) of None \<Rightarrow> 0 | Some v \<Rightarrow> g v)"
    by (simp add: assms(1) split: option.split)
  ultimately have "sum_list (map (g \<circ> snd) ?t) + g (or_else (map_of t (key x)) z) =
      (sum_list (map (g \<circ> snd) t) + w x) + g (or_else (map_of t (key x)) z)"
    by (simp only: ac_simps)
  then have "sum_list (map (g \<circ> snd) ?t) = sum_list (map (g \<circ> snd) t) + w x"
    by (rule add_right_imp_eq)
  moreover have "distinct (map fst ?t)" using Cons.prems by (simp add: group_step_def distinct_update)
  ultimately show ?case using Cons.IH [of ?t] by (simp add: ac_simps comp_def)
qed simp

section \<open>The summary\<close>

lemma count_status_group:
  "count_status ks status vs = fold (group_step (status \<circ> snd) (\<lambda>_ n. n + 1) 0) vs (map (\<lambda>k. (k, 0)) ks)"
proof -
  have "(\<lambda>(_::string, v) t. AList.update (status v) (or_else (map_of t (status v)) 0 + 1) t) = group_step (status \<circ> snd) (\<lambda>_ n. n + 1) (0::nat)"
    by (auto simp: fun_eq_iff group_step_def)
  then show ?thesis by (simp only: count_status_def)
qed

lemma zero_table: "or_else (map_of (map (\<lambda>k. (k, 0)) ks) k) 0 = (0::nat)"
  by (induction ks) auto

lemma fold_count: "fold (\<lambda>_ n. n + 1) xs m = (m::nat) + length xs"
  by (induction xs arbitrary: m) simp_all

lemma count_status_exact:
  assumes "distinct ks" "set ks = UNIV"
  shows "map fst (count_status ks status vs) = ks"
    and "map_of (count_status ks status vs) k = Some (length (filter (\<lambda>(_, v). status v = k) vs))"
    and "sum_list (map snd (count_status ks status vs)) = length vs"
proof -
  let ?t = "map (\<lambda>k. (k, 0::nat)) ks"
  have keys: "map fst ?t = ks" by (simp add: o_def)
  then have "distinct (map fst ?t)" "(status \<circ> snd) ` set vs \<subseteq> fst ` set ?t"
    using assms by (simp_all only: set_map [symmetric]) auto
  then show k: "map fst (count_status ks status vs) = ks"
    unfolding count_status_group using group_keys_closed keys by metis
  have "or_else (map_of (count_status ks status vs) k) 0 = length (filter (\<lambda>(_, v). status v = k) vs)"
    unfolding count_status_group group_lookup fold_count zero_table by (simp add: case_prod_unfold)
  moreover have "k \<in> fst ` set (count_status ks status vs)" using k assms(2) by (metis UNIV_I set_map)
  then obtain n where "map_of (count_status ks status vs) k = Some n" by (meson map_of_eq_None_iff not_Some_eq)
  ultimately show "map_of (count_status ks status vs) k = Some (length (filter (\<lambda>(_, v). status v = k) vs))" by simp
  have "sum_list (map (id \<circ> snd) (count_status ks status vs)) = sum_list (map (id \<circ> snd) ?t) + sum_list (map (\<lambda>_. 1) vs)"
    unfolding count_status_group by (rule group_sum) (use \<open>distinct (map fst ?t)\<close> in simp_all)
  then show "sum_list (map snd (count_status ks status vs)) = length vs" by (simp add: o_def sum_list_triv)
qed

lemma states_complete:
  "distinct AGENT_STATES" "set AGENT_STATES = UNIV" "distinct TASK_STATES" "set TASK_STATES = UNIV"
  "distinct HYP_STATES" "set HYP_STATES = UNIV" "distinct FINDING_STATES" "set FINDING_STATES = UNIV"
proof -
  show "set AGENT_STATES = UNIV" by (auto simp: AGENT_STATES_def) (metis AgentStatus.exhaust)
  show "set TASK_STATES = UNIV" by (auto simp: TASK_STATES_def) (metis SwarmTaskStatus.exhaust)
  show "set HYP_STATES = UNIV" by (auto simp: HYP_STATES_def) (metis HypothesisStatus.exhaust)
  show "set FINDING_STATES = UNIV" by (auto simp: FINDING_STATES_def) (metis FindingConfidence.exhaust)
qed (simp_all add: AGENT_STATES_def TASK_STATES_def HYP_STATES_def FINDING_STATES_def)

text \<open>The summary of the swarm is a partition: for every status its table holds the number of agents, tasks, hypotheses
  or findings that have it, the tables list every status once and in the order of the source, and each adds up to the
  total.\<close>
theorem summary_partitions:
  "let u = summarize s in
   map fst (sum_agents u) = AGENT_STATES \<and> map fst (sum_tasks u) = TASK_STATES \<and>
   map fst (sum_hypotheses u) = HYP_STATES \<and> map fst (sum_findings u) = FINDING_STATES \<and>
   map_of (sum_agents u) a = Some (length (filter (\<lambda>(_, x). ag_status x = a) (agents s))) \<and>
   map_of (sum_tasks u) t = Some (length (filter (\<lambda>(_, x). st_status x = t) (swarm_tasks s))) \<and>
   map_of (sum_hypotheses u) h = Some (length (filter (\<lambda>(_, x). sh_status x = h) (hypotheses s))) \<and>
   map_of (sum_findings u) c = Some (length (filter (\<lambda>(_, x). sf_confidence x = c) (swarm_findings s))) \<and>
   sum_list (map snd (sum_agents u)) = tot_agents u \<and> sum_list (map snd (sum_tasks u)) = tot_tasks u \<and>
   sum_list (map snd (sum_hypotheses u)) = tot_hypotheses u \<and> sum_list (map snd (sum_findings u)) = tot_findings u"
  by (simp add: summarize_def count_status_exact states_complete)

section \<open>Usage per model\<close>

text \<open>The agents whose model can get a row.\<close>

definition counted :: "SwarmState \<Rightarrow> (string \<times> Agent) list" where
  "counted s = filter (\<lambda>(_, a). \<not> inherited (ag_model a)) (agents s)"

lemma computeModelUsage_group:
  "computeModelUsage s =
     fold (group_step (ag_model \<circ> snd)
       (\<lambda>(_, a) u. \<lparr>us_tokensIn = us_tokensIn u + ag_tokensIn a, us_tokensOut = us_tokensOut u + ag_tokensOut a,
                    us_cost = us_cost u + ag_estimatedCost a\<rparr>) \<lparr>us_tokensIn = 0, us_tokensOut = 0, us_cost = 0\<rparr>)
       (counted s) []"
proof -
  let ?step = "group_step (ag_model \<circ> snd)
       (\<lambda>(_, a) u. \<lparr>us_tokensIn = us_tokensIn u + ag_tokensIn a, us_tokensOut = us_tokensOut u + ag_tokensOut a,
                    us_cost = us_cost u + ag_estimatedCost a\<rparr>) \<lparr>us_tokensIn = 0, us_tokensOut = 0, us_cost = 0\<rparr>"
  have one: "add_usage a t = (if inherited (ag_model a) then t else ?step (i, a) t)" for i :: string and a t
    by (simp add: group_step_def add_usage_def Let_def)
  have "fold (\<lambda>(_, a). add_usage a) as t = fold ?step (filter (\<lambda>(_, a). \<not> inherited (ag_model a)) as) t"
    for as :: "(string \<times> Agent) list" and t
  proof (induction as arbitrary: t)
    case (Cons x as)
    obtain i a where "x = (i, a)" by (cases x)
    with Cons one [of a t i, unfolded comp_def] show ?case by (simp add: comp_def)
  qed simp
  then show ?thesis by (simp only: computeModelUsage_def counted_def)
qed

lemma recompute_fold:
  "fold (\<lambda>(_, a) (i, out, c). (i + ag_tokensIn a, out + ag_tokensOut a, c + ag_estimatedCost a)) as (i, out, c) =
     (i + sum_list (map (ag_tokensIn \<circ> snd) as), out + sum_list (map (ag_tokensOut \<circ> snd) as),
      c + sum_list (map (ag_estimatedCost \<circ> snd) as))"
  by (induction as arbitrary: i out c) (simp_all add: split_beta)

text \<open>The usage per model accounts for everything but models named like inherited properties: every other model of an agent
  has exactly one row, and the rows add up to the totals that \<open>recomputeTotals\<close> computes from these agents.\<close>
theorem model_usage_adds_up:
  "let u = computeModelUsage s; r = recomputeTotals (s\<lparr>agents := counted s\<rparr>) in
   distinct (map fst u) \<and> fst ` set u = (ag_model \<circ> snd) ` set (counted s) \<and>
   sum_list (map (us_tokensIn \<circ> snd) u) = totalTokensIn r \<and>
   sum_list (map (us_tokensOut \<circ> snd) u) = totalTokensOut r \<and>
   sum_list (map (us_cost \<circ> snd) u) = totalCost r"
proof -
  have sums: "sum_list (map (g \<circ> snd) (computeModelUsage s)) = sum_list (map (w \<circ> snd) (counted s))"
    if "g = us_tokensIn \<and> w = ag_tokensIn \<or> g = us_tokensOut \<and> w = ag_tokensOut \<or> g = us_cost \<and> w = ag_estimatedCost"
    for g :: "usage \<Rightarrow> rat" and w
    unfolding computeModelUsage_group
    by (subst group_sum [where g = g and w = "w \<circ> snd"]) (use that in auto)
  have "distinct (map fst (computeModelUsage s))" unfolding computeModelUsage_group by (rule group_distinct) simp
  moreover have "fst ` set (computeModelUsage s) = (ag_model \<circ> snd) ` set (counted s)"
    unfolding computeModelUsage_group group_keys by simp
  ultimately show ?thesis by (simp add: recomputeTotals_def recompute_fold sums)
qed

section \<open>Views that cannot be rendered\<close>

lemma bar_throws: "bar n tot width = Inl TypeError"
  by (simp add: bar_def call_color_def Let_def)

lemma status_rows_throw: "ks \<noteq> [] \<Longrightarrow> status_rows t tot ks = Inl TypeError"
  by (cases ks) (simp_all add: bar_throws Let_def)

lemma states_nonempty: "AGENT_STATES \<noteq> []" "TASK_STATES \<noteq> []" "HYP_STATES \<noteq> []" "FINDING_STATES \<noteq> []"
  by (simp_all add: AGENT_STATES_def TASK_STATES_def HYP_STATES_def FINDING_STATES_def)

text \<open>The dashboard can never be shown. Because \<open>bar\<close> calls a string as a function, \<open>/swarm\<close> throws a type error on every
  state of the swarm, unless its first word is \<open>reset\<close>, \<open>cost\<close> or \<open>activity\<close>.\<close>
theorem dashboard_always_throws:
  "isl (snd (swarm_command now args f)) \<longleftrightarrow> hd (split_ws (trim args)) \<notin> set [''reset'', ''cost'', ''activity'']"
  by (simp add: swarm_command_def renderDashboard_def status_rows_throw states_nonempty split_beta Let_def)

section \<open>The shared state file\<close>

fun is_reset :: "obs_call \<Rightarrow> bool" where
  "is_reset (Swarm_command now args) = (hd (split_ws (trim args)) = ''reset'')"
| "is_reset _ = False"

text \<open>The calls of this extension without the resets, as a server on the shared file.\<close>

definition obs_keep :: "obs_call \<Rightarrow> swarm_doc option \<Rightarrow> swarm_doc option \<times> obs_response" where
  "obs_keep c f = (if is_reset c then (f, Started) else obs_exec c f)"

definition obs_others :: "swarm_doc option \<Rightarrow> swarm_file" where
  "obs_others f = or_else (budget_view_of f) no_swarm"

definition obs_load :: "time \<Rightarrow> swarm_doc option \<Rightarrow> SwarmState" where
  "obs_load now f = (snd (loadState now f))\<lparr>carried := no_swarm\<rparr>"

definition obs_write :: "SwarmState \<Rightarrow> swarm_doc option \<Rightarrow> swarm_doc option" where
  "obs_write s f = Some (saveState (updatedAt s) (s\<lparr>carried := obs_others f\<rparr>))"

definition owns :: "SwarmState \<Rightarrow> bool" where
  "owns s = (carried s = no_swarm)"

lemma merge_save: "merge_state now (saveState u s) = s\<lparr>updatedAt := u\<rparr>"
  by (simp add: merge_state_def saveState_def)

lemma obs_fst:
  "fst (swarm_status now sec f) = fst (loadState now f)" "fst (swarm_activity now p f) = fst (loadState now f)"
  "fst (swarm_cost now by a f) = fst (loadState now f)"
  "fst (swarm_command now args f) =
     (if hd (split_ws (trim args)) = ''reset'' then Some (saveState now (emptyState now)) else fst (loadState now f))"
  by (simp_all add: swarm_status_def swarm_activity_def swarm_cost_def swarm_command_def split_beta Let_def)

lemma load_writes: "fst (loadState now f) = f \<or> (\<exists>s. owns s \<and> fst (loadState now f) = obs_write s f)"
proof (cases f)
  case None
  then show ?thesis
    by (intro disjI2 exI [of _ "emptyState now"])
      (simp add: owns_def obs_write_def obs_others_def budget_view_of_def emptyState_def saveState_def Let_def)
qed simp

lemma session_writes:
  "\<exists>s. owns s \<and> (on_swarm_session_start now rnd f = obs_write s f \<or> on_swarm_session_start now rnd f = fst (loadState now f))"
proof -
  let ?s = "addActivity now rnd ''system'' ''system'' A_message
    ''Swarm observability initialized - no agents registered yet'' None (snd (loadState now f))"
  have "carried (snd (loadState now f)) = obs_others f"
    by (cases f) (simp_all add: obs_others_def budget_view_of_def emptyState_def merge_state_def Let_def)
  then have "carried ?s = obs_others f" by (simp add: addActivity_def Let_def)
  then have "saveState now ?s = saveState now (?s\<lparr>carried := obs_others f\<rparr>)"
    by (simp add: saveState_def)
  then show ?thesis
    by (intro exI [of _ "?s\<lparr>carried := no_swarm, updatedAt := now\<rparr>"])
      (auto simp: on_swarm_session_start_def owns_def obs_write_def saveState_def split_beta Let_def)
qed

lemma obs_load_write: "owns s \<Longrightarrow> obs_load now (obs_write s f) = s"
  by (cases s) (simp add: obs_load_def obs_write_def owns_def merge_save)

interpretation obs: shared_server "obs_load now" obs_write obs_others owns obs_keep for now
proof
  fix c f
  show "fst (obs_keep c f) = f \<or> (\<exists>s. owns s \<and> fst (obs_keep c f) = obs_write s f)"
    using load_writes session_writes by (cases c) (auto simp: obs_keep_def obs_fst, metis)
qed (simp add: obs_load_def owns_def, simp add: obs_load_write,
    simp add: obs_write_def obs_others_def budget_view_of_def saveState_def)

lemma bm_load_others: "bm_load (budget_view_of f) = normalize (obs_others f)"
  by (simp add: bm_load_def obs_others_def)

text \<open>The swarm's state file also holds the budgets. A call of this extension leaves the cost log, the limits and the
  rates of the budget manager as they are, with one exception: \<open>/swarm reset\<close> erases every cost entry and every limit,
  so that no investigation is limited any more.\<close>
theorem reset_erases_budgets:
  "let s = bm_load (budget_view_of f); s' = bm_load (budget_view_of (fst (obs_exec c f))) in
   if is_reset c then costs s' = [] \<and> budget_limits s' = [] \<and> limitStatus s' i = None else s' = s"
proof (cases "is_reset c")
  case True
  then obtain now args where "c = Swarm_command now args" "hd (split_ws (trim args)) = ''reset''" by (cases c) auto
  then show ?thesis
    by (simp add: obs_fst budget_view_of_def saveState_def emptyState_def bm_load_def normalize_def no_swarm_def limitStatus_def)
next
  case False
  then show ?thesis using obs.exec_others [of c f] by (simp add: bm_load_others obs_keep_def)
qed

lemma budgets_survive_views:
  assumes "list_all (\<lambda>c. \<not> is_reset c) cs"
  shows "bm_load (budget_view_of (run_calls obs_exec cs f)) = bm_load (budget_view_of f)"
proof -
  have "run_calls obs_exec cs f = run_calls obs_keep cs f"
    using assms by (induction cs arbitrary: f) (simp_all add: obs_keep_def)
  then show ?thesis using obs.run_others [of cs f] by (simp add: bm_load_others)
qed

section \<open>The activity log\<close>

lemma activity_doc:
  "length (or_else (sd_activity (saveState now s)) []) = length (activity s)" by (simp add: saveState_def)

definition log_bounded :: "swarm_doc option \<Rightarrow> bool" where
  "log_bounded f = (length (activity (snd (loadState 0 f))) \<le> MAX_ACTIVITY)"

lemma activity_load: "activity (snd (loadState now f)) = activity (snd (loadState 0 f))"
  by (cases f) (simp_all add: emptyState_def merge_state_def Let_def)

lemma log_bounded_obs: "log_bounded f \<Longrightarrow> log_bounded (fst (obs_exec c f))"
proof -
  assume f: "log_bounded f"
  have load: "log_bounded (fst (loadState now f))" for now
    using f by (cases f) (simp_all add: log_bounded_def merge_save emptyState_def Let_def)
  show ?thesis
  proof (cases c)
    case (Session_start now rnd)
    then show ?thesis using load [of now]
      by (simp add: on_swarm_session_start_def log_bounded_def merge_save addActivity_def split_beta Let_def)
  next
    case (Swarm_command now args)
    then show ?thesis using load [of now] by (simp add: obs_fst log_bounded_def merge_save emptyState_def)
  qed (simp_all add: obs_fst load)
qed

lemma log_bounded_budget: "log_bounded f \<Longrightarrow> log_bounded (fst (budget_exec c f))"
  by (cases f)
    (auto simp: budget_exec_def log_bounded_def merge_state_def empty_doc_def split: option.splits prod.splits)

text \<open>Calls of both extensions on one file.\<close>

fun swarm_exec :: "obs_call + bm_call \<Rightarrow> swarm_doc option \<Rightarrow> swarm_doc option \<times> (obs_response + bm_response)" where
  "swarm_exec (Inl c) f = map_prod id Inl (obs_exec c f)"
| "swarm_exec (Inr c) f = map_prod id Inr (budget_exec c f)"

text \<open>However many sessions start and whatever the two extensions do to the shared file, the activity log never holds
  more than 500 entries, and a session start without agents puts its entry first.\<close>
theorem activity_log_bounded:
  "length (activity (snd (loadState now (run_calls swarm_exec cs None)))) \<le> 500 \<and>
   (let s = snd (loadState now f); s' = snd (loadState now (on_swarm_session_start now rnd f)) in
    activity s' = (if agents s = [] then take 500 (hd (activity s') # activity s) else activity s))"
proof
  have "log_bounded (run_calls swarm_exec cs None)"
  proof (rule run_calls_invariant)
    fix c f assume "log_bounded f"
    then show "log_bounded (fst (swarm_exec c f))" by (cases c) (simp_all add: log_bounded_obs log_bounded_budget)
  qed (simp add: log_bounded_def emptyState_def Let_def)
  then show "length (activity (snd (loadState now (run_calls swarm_exec cs None)))) \<le> 500"
    by (simp add: log_bounded_def MAX_ACTIVITY_def activity_load [of now])
  show "let s = snd (loadState now f); s' = snd (loadState now (on_swarm_session_start now rnd f)) in
    activity s' = (if agents s = [] then take 500 (hd (activity s') # activity s) else activity s)"
    by (cases f)
      (simp_all add: on_swarm_session_start_def merge_save addActivity_def MAX_ACTIVITY_def split_beta Let_def)
qed

section \<open>Findings\<close>

text \<open>The cost breakdown filtered to one agent still reports the usage of the models of all agents.\<close>
theorem cost_filter_keeps_models:
  "cr_byModel (snd (swarm_cost now by (Some a) f)) = cr_byModel (snd (swarm_cost now by None f))"
  by (simp add: swarm_cost_def split_beta Let_def)

end
