(* ===== verification/JSPath.thy ===== *)
theory JSPath
  imports JSString
begin

text \<open>
  The module \<open>path\<close> of Node.js on POSIX systems, as far as the sources use it, and lemmas on paths that are made of
  plain segments.
\<close>

section \<open>Paths\<close>

text \<open>\<open>path.normalize\<close> and \<open>path.join\<close> of POSIX systems; the accumulator holds the segments in reverse.\<close>

fun norm_segs :: "bool \<Rightarrow> string list \<Rightarrow> string list \<Rightarrow> string list" where
  "norm_segs absolute acc [] = rev acc"
| "norm_segs absolute acc (s # ss) =
     (if s = [] \<or> s = ''.'' then norm_segs absolute acc ss
      else if s = ''..'' then
        (if acc \<noteq> [] \<and> hd acc \<noteq> ''..'' then norm_segs absolute (tl acc) ss
         else if absolute then norm_segs absolute acc ss
         else norm_segs absolute (s # acc) ss)
      else norm_segs absolute (s # acc) ss)"

definition path_normalize :: "string \<Rightarrow> string" where
  "path_normalize p =
     (if p = [] then ''.''
      else
        (let absolute = (hd p = CHR ''/''); trailing = (last p = CHR ''/'');
             body = join ''/'' (norm_segs absolute [] (split_on (CHR ''/'') p));
             body = (if body = [] \<and> \<not> absolute then ''.'' else body);
             body = (if trailing \<and> body \<noteq> [] then body @ ''/'' else body)
         in if absolute then ''/'' @ body else body))"

definition path_join :: "string list \<Rightarrow> string" where
  "path_join ps =
     (let j = join ''/'' (filter (\<lambda>p. p \<noteq> []) ps) in if j = [] then ''.'' else path_normalize j)"

definition path_basename :: "string \<Rightarrow> string" where
  "path_basename p =
     (let segs = split_on (CHR ''/'') (rev (dropWhile (\<lambda>c. c = CHR ''/'') (rev p))) in last segs)"

text \<open>\<open>s.replace(/^~/, home)\<close>.\<close>

definition expand_home :: "string \<Rightarrow> string \<Rightarrow> string" where
  "expand_home home s = (case s of c # t \<Rightarrow> if c = CHR ''~'' then home @ t else s | [] \<Rightarrow> [])"

text \<open>\<open>path.dirname\<close>: up to the last slash that is neither trailing nor the root.\<close>

definition path_dirname :: "string \<Rightarrow> string" where
  "path_dirname p =
     (let absolute = prefix ''/'' p;
          core = dropWhile (\<lambda>c. c = CHR ''/'') (rev p);
          d = rev (drop 1 (dropWhile (\<lambda>c. c \<noteq> CHR ''/'') core))
      in if d = [] then (if absolute then ''/'' else ''.'') else if d = ''/'' then ''//'' else d)"

text \<open>\<open>path.extname\<close>: from the last dot of the last segment on; a leading dot starts no extension, nor does the second
  dot of the segment \<^verbatim>\<open>..\<close>.\<close>

definition path_extname :: "string \<Rightarrow> string" where
  "path_extname p =
     (let b = path_basename p; tail = takeWhile (\<lambda>c. c \<noteq> CHR ''.'') (rev b); n = length b - length tail in
      if length tail = length b \<or> n = 1 \<or> b = ''..'' then [] else CHR ''.'' # rev tail)"

section \<open>Paths of plain segments\<close>

definition plain_seg :: "string \<Rightarrow> bool" where
  "plain_seg s = (s \<noteq> [] \<and> s \<noteq> ''.'' \<and> s \<noteq> ''..'' \<and> CHR ''/'' \<notin> set s)"

definition absolute_path :: "string list \<Rightarrow> string" where
  "absolute_path ss = ''/'' @ join ''/'' ss"

lemma norm_segs_plain: "list_all plain_seg ss \<Longrightarrow> norm_segs ab acc ss = rev acc @ ss"
  by (induction ss arbitrary: acc) (auto simp: plain_seg_def)

lemma split_on_absolute:
  "ss \<noteq> [] \<Longrightarrow> list_all plain_seg ss \<Longrightarrow> split_on (CHR ''/'') (absolute_path ss) = [] # ss"
  using split_on_join [of ss "CHR ''/''"] by (simp add: absolute_path_def plain_seg_def list_all_iff)

lemma join_last: "ws \<noteq> [] \<Longrightarrow> last ws \<noteq> [] \<Longrightarrow> join s ws \<noteq> [] \<and> last (join s ws) = last (last ws)"
  by (induction s ws rule: join.induct) (auto split: if_splits)

lemma join_plain:
  assumes "ss \<noteq> []" "list_all plain_seg ss"
  shows "join ''/'' ss \<noteq> []" "last (join ''/'' ss) \<noteq> CHR ''/''"
proof -
  have "plain_seg (last ss)" using assms by (simp add: list_all_iff)
  then have "last ss \<noteq> []" "last (last ss) \<noteq> CHR ''/''" by (auto simp: plain_seg_def dest: last_in_set)
  then show "join ''/'' ss \<noteq> []" "last (join ''/'' ss) \<noteq> CHR ''/''" using join_last [OF assms(1)] by simp_all
qed

lemma normalize_absolute:
  assumes "ss \<noteq> []" "list_all plain_seg ss"
  shows "path_normalize (absolute_path ss) = absolute_path ss"
proof -
  have "norm_segs True [] ([] # ss) = ss" using assms(2) by (simp add: norm_segs_plain)
  then show ?thesis using join_plain [OF assms] split_on_absolute [OF assms]
    by (simp add: path_normalize_def absolute_path_def Let_def)
qed

lemma path_join_plain:
  assumes "hs \<noteq> []" "list_all plain_seg (hs @ ss)"
  shows "path_join (absolute_path hs # ss) = absolute_path (hs @ ss)"
proof -
  have "filter (\<lambda>p. p \<noteq> []) ss = ss" using assms(2) by (auto simp: filter_id_conv list_all_iff plain_seg_def)
  moreover have "join ''/'' (absolute_path hs # ss) = absolute_path (hs @ ss)"
    using assms(1) by (cases ss) (simp_all add: absolute_path_def join_append)
  ultimately show ?thesis using assms normalize_absolute [of "hs @ ss"]
    by (simp add: path_join_def absolute_path_def Let_def)
qed

lemma basename_plain:
  assumes "list_all plain_seg (hs @ [s])"
  shows "path_basename (absolute_path (hs @ [s])) = s"
proof -
  have "dropWhile (\<lambda>c. c = CHR ''/'') (rev (absolute_path (hs @ [s]))) = rev (absolute_path (hs @ [s]))"
    using join_plain [of "hs @ [s]"] assms
    by (cases "join ''/'' (hs @ [s])" rule: rev_cases) (simp_all add: absolute_path_def)
  then show ?thesis using split_on_absolute [of "hs @ [s]"] assms by (simp add: path_basename_def Let_def)
qed

section \<open>Segments\<close>

text \<open>The segments of a normalized path: only a relative path starts with parent segments.\<close>

lemma norm_segs_abs:
  assumes "list_all plain_seg acc" "\<forall>s \<in> set ss. CHR ''/'' \<notin> set s"
  shows "list_all plain_seg (norm_segs True acc ss)"
  using assms
proof (induction ss arbitrary: acc)
  case (Cons s ss)
  then have "plain_seg s \<or> s = [] \<or> s = ''.'' \<or> s = ''..''" by (auto simp: plain_seg_def)
  with Cons show ?case by (cases acc) auto
qed simp

lemma norm_segs_rel:
  assumes "\<exists>k. \<exists>ps. rev acc = replicate k ''..'' @ ps \<and> list_all plain_seg ps" "\<forall>s \<in> set ss. CHR ''/'' \<notin> set s"
  shows "\<exists>k. \<exists>ps. norm_segs False acc ss = replicate k ''..'' @ ps \<and> list_all plain_seg ps"
  using assms
proof (induction ss arbitrary: acc)
  case (Cons s ss)
  obtain k ps where kp: "rev acc = replicate k ''..'' @ ps" "list_all plain_seg ps" using Cons.prems(1) by blast
  consider "s = [] \<or> s = ''.''" | "s = ''..''" "acc \<noteq> []" "hd acc \<noteq> ''..''" | "s = ''..''" "acc = [] \<or> hd acc = ''..''" | "plain_seg s"
    using Cons.prems(2) by (auto simp: plain_seg_def)
  then show ?case
  proof cases
    case 1
    then show ?thesis using Cons by auto
  next
    case 2
    then obtain a as where acc: "acc = a # as" by (cases acc) auto
    with kp 2 obtain qs where "ps = qs @ [a]"
      by (cases ps rule: rev_cases; cases k) (auto simp: replicate_append_same [symmetric])
    with kp acc have "rev as = replicate k ''..'' @ qs" "list_all plain_seg qs" by auto
    then show ?thesis using 2 acc Cons.IH [of as] Cons.prems(2) by auto
  next
    case 3
    have "ps = []"
    proof (rule ccontr)
      assume "ps \<noteq> []"
      then obtain qs q where q: "ps = qs @ [q]" by (cases ps rule: rev_cases) auto
      with kp have "acc \<noteq> []" "hd acc = q" by (auto simp: rev_swap)
      with 3 q kp show False by (auto simp: plain_seg_def)
    qed
    with kp have "\<exists>k. \<exists>ps. rev (s # acc) = replicate k ''..'' @ ps \<and> list_all plain_seg ps"
      using 3 by (intro exI [of _ "Suc k"] exI [of _ "[]"]) (simp add: replicate_append_same)
    from Cons.IH [OF this] Cons.prems(2) show ?thesis using 3 by auto
  next
    case 4
    then have "s \<noteq> []" "s \<noteq> ''.''" "s \<noteq> ''..''" by (auto simp: plain_seg_def)
    moreover have "\<exists>k. \<exists>ps. rev (s # acc) = replicate k ''..'' @ ps \<and> list_all plain_seg ps"
      using kp 4 by (intro exI [of _ k] exI [of _ "ps @ [s]"]) simp
    from Cons.IH [OF this] have "\<exists>k. \<exists>ps. norm_segs False (s # acc) ss = replicate k ''..'' @ ps \<and> list_all plain_seg ps"
      using Cons.prems(2) by simp
    ultimately show ?thesis by simp
  qed
qed auto

lemma join_Cons: "ws \<noteq> [] \<Longrightarrow> join s (w # ws) = w @ s @ join s ws"
  by (cases ws) auto

text \<open>A segment that normalization keeps or drops.\<close>

definition sub_seg :: "string \<Rightarrow> bool" where
  "sub_seg u = (u = [] \<or> plain_seg u)"

lemma split_plain:
  assumes "list_all plain_seg ps" "e = [] \<or> e = ''/''"
  shows "list_all sub_seg (split_on (CHR ''/'') (join ''/'' ps @ e))"
proof (cases "ps = []")
  case False
  have "\<forall>w \<in> set ps. CHR ''/'' \<notin> set w" using assms(1) by (auto simp: list_all_iff plain_seg_def)
  from split_on_join [OF False this] show ?thesis
    using assms split_on_sep_append [of "CHR ''/''" "join ''/'' ps" "[]"] by (auto simp: list_all_iff sub_seg_def)
qed (use assms(2) in \<open>auto simp: sub_seg_def\<close>)

lemma norm_segs_sub: "list_all sub_seg us \<Longrightarrow> norm_segs True acc us = rev acc @ filter (\<lambda>u. u \<noteq> []) us"
  by (induction us arbitrary: acc) (auto simp: sub_seg_def plain_seg_def)

text \<open>The segments of a suffix: the first is cut, the others are the last segments of the whole.\<close>

lemma suffix_split: "suffix (tl (split_on c r)) (tl (split_on c (u @ r)))"
proof (induction u)
  case (Cons x u)
  then show ?case by (cases "split_on c (u @ r)") (auto intro: suffix_ConsI)
qed simp

end
