(* ===== verification/Pi_Profiles.thy ===== *)
theory Pi_Profiles
  imports JSPath Json_Store "HOL-Library.AList"
begin

text \<open>
  The profile manager (\<open>profiles/reference/_common/pi-profiles.ts\<close>): reading profiles, merging a profile's packages into
  the project settings, the translation of a profile to command-line arguments and environment, the command
  \<open>/profile\<close> and the hook at the start of a turn.

  The file system is a record: the entries of the profile directory, the profile file that a name leads to, the state
  file, the settings of the working directory, and which paths exist. A process that is spawned is appended to a list.
  The collation order behind \<open>localeCompare\<close> is an argument. The home directory contains no dollar sign, which
  \<open>String.replace\<close> would interpret.
\<close>

section \<open>Data\<close>

record mcp_server =
  mcp_name :: string
  mcp_command :: string
  mcp_args :: "string list option"

record swarm_config =
  sc_enabled :: "bool option"
  sc_subagents :: "string list option"

record scope_config =
  sp_authorized :: "bool option"
  sp_targets :: "string list option"
  sp_enforce :: "bool option"

record ProfileConfig =
  pc_name :: string
  pc_description :: string
  pc_model :: "string option"
  pc_provider :: "string option"
  pc_thinking :: "string option"
  pc_packages :: "string list option"
  pc_extensions :: "string list option"
  pc_skills :: "string list option"
  pc_systemPrompt :: "string option"
  pc_excludeTools :: "string list option"
  pc_allowTools :: "string list option"
  pc_env :: "(string \<times> string) list option"
  pc_sessionDir :: "string option"
  pc_mcpServers :: "mcp_server list option"
  pc_swarm :: "swarm_config option"
  pc_scope :: "scope_config option"

datatype profile_file = No_profile | Broken_profile | Profile_json ProfileConfig

datatype state_file = No_state | Broken_state | State_json "string option"

text \<open>The settings of the working directory: the packages and all other keys.\<close>

datatype settings_file = No_settings | Broken_settings | Settings_json "string list option" "(string \<times> json) list"

record process =
  ps_args :: "string list"
  ps_env :: "(string \<times> string) list"

record profile_world =
  pw_dir_exists :: bool
  pw_entries :: "(string \<times> bool) list"
  pw_profile :: "string \<Rightarrow> profile_file"
  pw_state :: state_file
  pw_settings :: settings_file
  pw_path_exists :: "string \<Rightarrow> bool"
  pw_spawned :: "process list"

text \<open>The process itself: home and working directory and environment.\<close>

record process_env =
  pe_home :: string
  pe_cwd :: string
  pe_vars :: "(string \<times> string) list"

section \<open>Reading profiles\<close>

definition readCurrentProfile :: "profile_world \<Rightarrow> string option" where
  "readCurrentProfile w = (case pw_state w of State_json p \<Rightarrow> p | _ \<Rightarrow> None)"

definition writeCurrentProfile :: "string \<Rightarrow> profile_world \<Rightarrow> profile_world" where
  "writeCurrentProfile name w = w\<lparr>pw_state := State_json (Some name)\<rparr>"

definition loadProfile :: "profile_world \<Rightarrow> string \<Rightarrow> ProfileConfig option" where
  "loadProfile w name = (case pw_profile w name of Profile_json c \<Rightarrow> Some c | _ \<Rightarrow> None)"

definition listed :: "profile_world \<Rightarrow> string \<times> bool \<Rightarrow> (string \<times> ProfileConfig) option" where
  "listed w e =
     (case e of (name, isDir) \<Rightarrow>
        if \<not> isDir \<or> prefix ''_'' name \<or> prefix ''.'' name then None
        else map_option (Pair name) (loadProfile w name))"

definition listProfiles :: "(string \<Rightarrow> int) \<Rightarrow> profile_world \<Rightarrow> (string \<times> ProfileConfig) list" where
  "listProfiles collate w =
     (if \<not> pw_dir_exists w then []
      else sort_key (\<lambda>(name, _). collate name) (List.map_filter (listed w) (pw_entries w)))"

text \<open>The rows of the printed list: the mark of the current profile, name, model and description.\<close>

definition formatProfileList ::
  "(string \<times> ProfileConfig) list \<Rightarrow> string option \<Rightarrow> (bool \<times> string \<times> string option \<times> string) list" where
  "formatProfileList ps current =
     map (\<lambda>(name, c). (current = Some name, name, or_null (pc_model c), pc_description c)) ps"

section \<open>Project settings\<close>

definition nonempty :: "'a list option \<Rightarrow> bool" where
  "nonempty l = (case l of Some (_ # _) \<Rightarrow> True | _ \<Rightarrow> False)"

text \<open>\<open>new Set(xs)\<close> spread into an array: first occurrences in their order.\<close>

definition uniq :: "'a list \<Rightarrow> 'a list" where
  "uniq xs = rev (remdups (rev xs))"

fun settings_packages :: "settings_file \<Rightarrow> string list" where
  "settings_packages (Settings_json ps _) = or_else ps []"
| "settings_packages _ = []"

fun settings_others :: "settings_file \<Rightarrow> (string \<times> json) list" where
  "settings_others (Settings_json _ o') = o'"
| "settings_others _ = []"

definition merge_packages :: "string list \<Rightarrow> string list \<Rightarrow> string list" where
  "merge_packages existing new = uniq existing @ filter (\<lambda>p. p \<notin> set existing) new"

definition writeProjectSettings :: "ProfileConfig \<Rightarrow> string \<Rightarrow> profile_world \<Rightarrow> profile_world \<times> string option" where
  "writeProjectSettings c cwd w =
     (if \<not> nonempty (pc_packages c) then (w, None)
      else
        (w\<lparr>pw_settings := Settings_json (Some (merge_packages (settings_packages (pw_settings w)) (or_else (pc_packages c) [])))
              (settings_others (pw_settings w))\<rparr>,
         Some (path_join [path_join [cwd, ''.pi''], ''settings.json''])))"

section \<open>Arguments and environment\<close>

definition resolve :: "string \<Rightarrow> string \<Rightarrow> string \<Rightarrow> string" where
  "resolve home dir p = (if prefix ''/'' p \<or> prefix ''~'' p then expand_home home p else path_join [dir, p])"

definition BUILTINS :: "string list" where
  "BUILTINS = [''read'', ''bash'', ''edit'', ''write'']"

definition model_args :: "ProfileConfig \<Rightarrow> string list" where
  "model_args c =
     (case or_null (pc_model c) of
        None \<Rightarrow> []
      | Some m \<Rightarrow>
          if CHR ''/'' \<in> set m then [''--model'', m]
          else if truthy (pc_provider c) then [''--model'', the (pc_provider c) @ ''/'' @ m]
          else [''--model'', m])"

definition prompt_args :: "(string \<Rightarrow> bool) \<Rightarrow> string \<Rightarrow> string \<Rightarrow> ProfileConfig \<Rightarrow> string list" where
  "prompt_args exists home dir c =
     (case or_null (pc_systemPrompt c) of
        None \<Rightarrow> []
      | Some p \<Rightarrow>
          (let promptPath = resolve home dir p in
           if exists promptPath then [''--append-system-prompt'', promptPath] else [''--append-system-prompt'', p]))"

definition session_dir :: "string \<Rightarrow> string \<Rightarrow> ProfileConfig \<Rightarrow> string" where
  "session_dir home dir c =
     (case or_null (pc_sessionDir c) of
        Some d \<Rightarrow> expand_home home d
      | None \<Rightarrow> path_join [home, ''.pi'', ''agent'', ''sessions'', path_basename dir])"

definition buildPiArgs ::
  "process_env \<Rightarrow> ProfileConfig \<Rightarrow> string \<Rightarrow> string list \<Rightarrow> profile_world \<Rightarrow> profile_world \<times> string list" where
  "buildPiArgs e c dir extra w =
     (let (w, settings) = writeProjectSettings c (pe_cwd e) w; home = pe_home e in
      (w,
       (if truthy settings then [''--approve''] else []) @
       model_args c @
       (case or_null (pc_thinking c) of None \<Rightarrow> [] | Some t \<Rightarrow> [''--thinking'', t]) @
       prompt_args (pw_path_exists w) home dir c @
       concat (map (\<lambda>x. [''--extension'', resolve home dir x]) (or_else (pc_extensions c) [])) @
       concat (map (\<lambda>x. [''--skill'', resolve home dir x]) (or_else (pc_skills c) [])) @
       (if nonempty (pc_excludeTools c) then [''--exclude-tools'', join '','' (the (pc_excludeTools c))] else []) @
       (if nonempty (pc_allowTools c) then [''--tools'', join '','' (uniq (BUILTINS @ the (pc_allowTools c)))] else []) @
       [''--session-dir'', session_dir home dir c] @
       extra))"

definition buildEnv :: "process_env \<Rightarrow> ProfileConfig \<Rightarrow> (string \<times> string) list" where
  "buildEnv e c =
     fold (\<lambda>(k, v) env. AList.update k (expand_home (pe_home e) v) env) (or_else (pc_env c) []) (pe_vars e)"

section \<open>Launching\<close>

definition profiles_dir :: "string \<Rightarrow> string" where
  "profiles_dir home = path_join [home, ''.pi'', ''agent'', ''profiles'']"

definition launchProfile :: "process_env \<Rightarrow> string \<Rightarrow> string list \<Rightarrow> profile_world \<Rightarrow> profile_world \<times> bool" where
  "launchProfile e name extra w =
     (case loadProfile w name of
        None \<Rightarrow> (w, False)
      | Some c \<Rightarrow>
          (let w = writeCurrentProfile name w;
               dir = path_join [profiles_dir (pe_home e), name];
               (w, args) = buildPiArgs e c dir extra w
           in (w\<lparr>pw_spawned := pw_spawned w @ [\<lparr>ps_args = args, ps_env = buildEnv e c\<rparr>]\<rparr>, True)))"

section \<open>The command /profile\<close>

datatype profile_reply =
    No_profiles
  | Profile_list "(bool \<times> string \<times> string option \<times> string) list"
  | No_current
  | Current_missing string
  | Profile_info ProfileConfig
  | Info_usage
  | Not_found string
  | Not_found_list string "(bool \<times> string \<times> string option \<times> string) list"
  | Switching string

definition profile_command ::
  "(string \<Rightarrow> int) \<Rightarrow> process_env \<Rightarrow> string \<Rightarrow> profile_world \<Rightarrow> profile_world \<times> profile_reply" where
  "profile_command collate e args w =
     (let parts = split_ws (trim args);
          sub = hd parts;
          arg = (if length parts > 1 then parts ! 1 else []);
          current = readCurrentProfile w in
      if sub = [] then
        (let ps = listProfiles collate w in
         (w, if ps = [] then No_profiles else Profile_list (formatProfileList ps current)))
      else if sub = ''current'' then
        (w, case or_null current of
              None \<Rightarrow> No_current
            | Some n \<Rightarrow> (case loadProfile w n of None \<Rightarrow> Current_missing n | Some c \<Rightarrow> Profile_info c))
      else if sub = ''info'' then
        (w, if arg = [] then Info_usage
            else (case loadProfile w arg of None \<Rightarrow> Not_found arg | Some c \<Rightarrow> Profile_info c))
      else
        (case loadProfile w sub of
           None \<Rightarrow> (w, Not_found_list sub (formatProfileList (listProfiles collate w) current))
         | Some _ \<Rightarrow> (let (w, ok) = launchProfile e sub [] w in (w, Switching sub))))"

section \<open>The hook at the start of a turn\<close>

datatype agent_action = Set_model string | Set_thinking string | Set_tools "string list"

definition tool_action :: "ProfileConfig \<Rightarrow> string list \<Rightarrow> agent_action list" where
  "tool_action c active =
     (if nonempty (pc_excludeTools c)
      then [Set_tools (filter (\<lambda>t. t \<notin> set (the (pc_excludeTools c))) active)]
      else if nonempty (pc_allowTools c) then [Set_tools (uniq (BUILTINS @ the (pc_allowTools c)))]
      else [])"

definition on_profile_start :: "string option \<Rightarrow> string list \<Rightarrow> profile_world \<Rightarrow> profile_world \<times> agent_action list" where
  "on_profile_start flag active w =
     (case or_null flag of
        None \<Rightarrow> (w, [])
      | Some name \<Rightarrow>
          (case loadProfile w name of
             None \<Rightarrow> (w, [])
           | Some c \<Rightarrow>
               (writeCurrentProfile name w,
                (case or_null (pc_model c) of None \<Rightarrow> [] | Some m \<Rightarrow> [Set_model m]) @
                (case or_null (pc_thinking c) of None \<Rightarrow> [] | Some t \<Rightarrow> [Set_thinking t]) @
                tool_action c active)))"

end
