(* ===== verification/Pi_Profiles_Props.thy ===== *)
theory Pi_Profiles_Props
  imports Pi_Profiles
begin

text \<open>
  Correctness of the profile manager: the arguments of a launched process carry the whole profile, sessions of
  different profiles are kept apart, package lists are merged, and what these merges do to the isolation of profiles.
\<close>

section \<open>Sessions\<close>

lemma fixed_segs: "list_all plain_seg [''.pi'', ''agent'', ''profiles'', ''sessions'']"
  by code_simp

lemma default_session_dir:
  assumes "hs \<noteq> []" "list_all plain_seg hs" "plain_seg name" "\<not> truthy (pc_sessionDir c)"
  shows "session_dir (absolute_path hs) (path_join [profiles_dir (absolute_path hs), name]) c =
           absolute_path (hs @ [''.pi'', ''agent'', ''sessions'', name])"
proof -
  have "profiles_dir (absolute_path hs) = absolute_path (hs @ [''.pi'', ''agent'', ''profiles''])"
    unfolding profiles_dir_def by (rule path_join_plain) (use assms fixed_segs in simp_all)
  moreover have "path_join [absolute_path (hs @ [''.pi'', ''agent'', ''profiles'']), name] =
      absolute_path ((hs @ [''.pi'', ''agent'', ''profiles'']) @ [name])"
    by (rule path_join_plain) (use assms fixed_segs in simp_all)
  moreover have "path_basename (absolute_path ((hs @ [''.pi'', ''agent'', ''profiles'']) @ [name])) = name"
    by (rule basename_plain) (use assms fixed_segs in simp)
  moreover have "path_join (absolute_path hs # [''.pi'', ''agent'', ''sessions'', name]) =
      absolute_path (hs @ [''.pi'', ''agent'', ''sessions'', name])"
    by (rule path_join_plain) (use assms fixed_segs in simp_all)
  ultimately show ?thesis using assms(4) by (simp add: session_dir_def or_null_def)
qed

lemma child_injective:
  assumes "list_all plain_seg ps" "plain_seg a" "plain_seg b"
  shows "absolute_path (ps @ [a]) = absolute_path (ps @ [b]) \<longleftrightarrow> a = b"
proof
  assume "absolute_path (ps @ [a]) = absolute_path (ps @ [b])"
  then have "path_basename (absolute_path (ps @ [a])) = path_basename (absolute_path (ps @ [b]))" by simp
  then show "a = b" using assms by (simp add: basename_plain)
qed simp

text \<open>C29: Profiles without a session directory of their own keep their sessions apart, as long as their names are single
  path segments: neither empty, nor dot or double dot, nor with a slash, as the names of directory entries are. Under a
  home directory of such segments the session directory of a profile is then the child of \<open>.pi/agent/sessions\<close> with the
  profile's name, and two such profiles share one exactly when their names are equal. The restriction is needed, because
  the name given to a launch is not checked (\<open>nested_names_share_sessions\<close>).\<close>
theorem sessions_isolated:
  assumes "hs \<noteq> []" "list_all plain_seg hs" "plain_seg name" "plain_seg other"
    "\<not> truthy (pc_sessionDir c)" "\<not> truthy (pc_sessionDir d)"
  shows "let home = absolute_path hs;
             own = session_dir home (path_join [profiles_dir home, name]) c;
             others = session_dir home (path_join [profiles_dir home, other]) d in
         own = absolute_path (hs @ [''.pi'', ''agent'', ''sessions'', name]) \<and> (own = others \<longleftrightarrow> name = other)"
  using child_injective [of "hs @ [''.pi'', ''agent'', ''sessions'']" name other] default_session_dir [of hs name c]
    default_session_dir [of hs other d] assms fixed_segs by simp

definition plain_profile :: "string \<Rightarrow> ProfileConfig" where
  "plain_profile name =
     \<lparr>pc_name = name, pc_description = [], pc_model = None, pc_provider = None, pc_thinking = None, pc_packages = None,
      pc_extensions = None, pc_skills = None, pc_systemPrompt = None, pc_excludeTools = None, pc_allowTools = None,
      pc_env = None, pc_sessionDir = None, pc_mcpServers = None, pc_swarm = None, pc_scope = None\<rparr>"

definition demo_nested :: profile_world where
  "demo_nested =
     \<lparr>pw_dir_exists = True, pw_entries = [(''team'', True), (''x'', True)],
      pw_profile = (\<lambda>n. if n \<in> set [''x'', ''team/x''] then Profile_json (plain_profile n) else No_profile),
      pw_state = No_state, pw_settings = No_settings, pw_path_exists = (\<lambda>_. False), pw_spawned = []\<rparr>"

theorem sessions_isolated_witness:
  "let home = absolute_path [''home'', ''u''];
       own = session_dir home (path_join [profiles_dir home, ''sec'']) (plain_profile ''sec'');
       others = session_dir home (path_join [profiles_dir home, ''web'']) (plain_profile ''web'') in
   own = absolute_path ([''home'', ''u''] @ [''.pi'', ''agent'', ''sessions'', ''sec'']) \<and>
   (own = others \<longleftrightarrow> ''sec'' = ''web'')"
  by (rule sessions_isolated) code_simp+

text \<open>A profile in a directory inside the directory of another name shares its sessions with the profile of its last
  segment: the command accepts a name with a slash, and only the last segment names the session directory.\<close>
theorem nested_names_share_sessions:
  "let w = demo_nested; run = (\<lambda>n. fst (profile_command (\<lambda>_. 0) \<lparr>pe_home = ''/h'', pe_cwd = ''/w'', pe_vars = []\<rparr> n w)) in
   map ps_args (pw_spawned (run ''team/x'')) = [[''--session-dir'', ''/h/.pi/agent/sessions/x'']] \<and>
   map ps_args (pw_spawned (run ''x'')) = [[''--session-dir'', ''/h/.pi/agent/sessions/x'']]"
  by code_simp

section \<open>The command line\<close>

text \<open>Reading a command line back: the flag without a value, then pairs of a flag and its value.\<close>

fun flag_pairs :: "string list \<Rightarrow> (string \<times> string) list" where
  "flag_pairs (k # v # r) = (k, v) # flag_pairs r"
| "flag_pairs _ = []"

definition flags :: "(string \<times> string) list \<Rightarrow> string list" where
  "flags kvs = concat (map (\<lambda>(k, v). [k, v]) kvs)"

definition values_of :: "string list \<Rightarrow> string \<Rightarrow> string list" where
  "values_of args k =
     map snd (filter (\<lambda>(f, _). f = k) (flag_pairs (if args \<noteq> [] \<and> hd args = ''--approve'' then tl args else args)))"

lemma flags_append: "flags (xs @ ys) = flags xs @ flags ys"
  by (simp add: flags_def)

lemma flags_simps [simp]: "flags [] = []" "flags ((k, v) # r) = k # v # flags r"
  by (simp_all add: flags_def)

lemma flag_pairs_flags [simp]: "flag_pairs (flags kvs) = kvs"
  by (induction kvs) auto

text \<open>The flags of a profile.\<close>

definition profile_flags :: "process_env \<Rightarrow> ProfileConfig \<Rightarrow> string \<Rightarrow> (string \<Rightarrow> bool) \<Rightarrow> (string \<times> string) list" where
  "profile_flags e c dir exists =
     (let home = pe_home e;
          one = (\<lambda>k v. case v of None \<Rightarrow> [] | Some x \<Rightarrow> [(k, x)]);
          many = (\<lambda>k xs. map (\<lambda>x. (k, resolve home dir x)) (or_else xs [])) in
      one ''--model'' (map_option (\<lambda>m. if CHR ''/'' \<notin> set m \<and> truthy (pc_provider c) then the (pc_provider c) @ ''/'' @ m else m) (or_null (pc_model c))) @
      one ''--thinking'' (or_null (pc_thinking c)) @
      one ''--append-system-prompt'' (map_option (\<lambda>p. if exists (resolve home dir p) then resolve home dir p else p) (or_null (pc_systemPrompt c))) @
      many ''--extension'' (pc_extensions c) @ many ''--skill'' (pc_skills c) @
      one ''--exclude-tools'' (if nonempty (pc_excludeTools c) then Some (join '','' (the (pc_excludeTools c))) else None) @
      one ''--tools'' (if nonempty (pc_allowTools c) then Some (join '','' (uniq (BUILTINS @ the (pc_allowTools c)))) else None) @
      [(''--session-dir'', session_dir home dir c)])"

lemma flags_many: "concat (map (\<lambda>x. [k, f x]) xs) = flags (map (\<lambda>x. (k, f x)) xs)"
  by (induction xs) auto

lemma settings_frame: "pw_path_exists (fst (writeProjectSettings c cwd w)) = pw_path_exists w"
  by (simp add: writeProjectSettings_def)

lemma path_join_nonempty: "path_join ps \<noteq> []"
  by (auto simp: path_join_def path_normalize_def Let_def)

lemma settings_truthy: "truthy (snd (writeProjectSettings c cwd w)) = nonempty (pc_packages c)"
  by (simp add: writeProjectSettings_def path_join_nonempty)

lemma buildPiArgs_flags:
  "snd (buildPiArgs e c dir extra w) =
     (if nonempty (pc_packages c) then [''--approve''] else []) @ flags (profile_flags e c dir (pw_path_exists w)) @ extra"
  by (simp add: buildPiArgs_def profile_flags_def model_args_def prompt_args_def flags_append flags_many settings_frame
      settings_truthy split_beta Let_def split: option.split)

lemma profile_flags_head: "profile_flags e c dir exists \<noteq> []" "fst (hd (profile_flags e c dir exists)) \<noteq> ''--approve''"
proof -
  have keys: "fst ` set (profile_flags e c dir exists) \<subseteq> set [''--model'', ''--thinking'', ''--append-system-prompt'', ''--extension'',
      ''--skill'', ''--exclude-tools'', ''--tools'', ''--session-dir'']"
    by (auto simp: profile_flags_def Let_def split: option.splits if_splits)
  show ne: "profile_flags e c dir exists \<noteq> []" by (simp add: profile_flags_def Let_def)
  then have "fst (hd (profile_flags e c dir exists)) \<in> fst ` set (profile_flags e c dir exists)" by simp
  then show "fst (hd (profile_flags e c dir exists)) \<noteq> ''--approve''" using keys by auto
qed

lemma values_of_build:
  "values_of (snd (buildPiArgs e c dir [] w)) k = map snd (filter (\<lambda>(f, _). f = k) (profile_flags e c dir (pw_path_exists w)))"
proof -
  obtain f v r where pf: "profile_flags e c dir (pw_path_exists w) = (f, v) # r" "f \<noteq> ''--approve''"
    using profile_flags_head [of e c dir "pw_path_exists w"] by (cases "profile_flags e c dir (pw_path_exists w)") auto
  then show ?thesis unfolding values_of_def buildPiArgs_flags by simp
qed

text \<open>What the claim says of paths and lists, independently of the functions that build the command line.\<close>

definition placed :: "string \<Rightarrow> string \<Rightarrow> string \<Rightarrow> string" where
  "placed home dir p =
     (if take 1 p = ''~'' then home @ drop 1 p else if take 1 p = ''/'' then p else path_join [dir, p])"

definition sessions_of :: "string \<Rightarrow> string \<Rightarrow> string option \<Rightarrow> string" where
  "sessions_of home dir d =
     (case d of Some (c # r) \<Rightarrow> if c = CHR ''~'' then home @ r else c # r
      | _ \<Rightarrow> path_join [home, ''.pi'', ''agent'', ''sessions'', path_basename dir])"

lemma resolve_placed: "resolve home dir p = placed home dir p"
  by (cases p) (simp_all add: resolve_def placed_def expand_home_def)

lemma session_dir_of: "session_dir home dir c = sessions_of home dir (pc_sessionDir c)"
  by (auto simp: session_dir_def sessions_of_def expand_home_def or_null_def split: option.splits list.splits)

lemma uniq_append: "uniq (xs @ ys) = uniq xs @ filter (\<lambda>y. y \<notin> set xs) (uniq ys)"
proof -
  have "rev (remdups (bs @ as)) = rev (remdups as) @ filter (\<lambda>b. b \<notin> set as) (rev (remdups bs))" for as bs :: "'a list"
    by (induction bs) auto
  from this [of "rev ys" "rev xs"] show ?thesis by (simp add: uniq_def)
qed

lemma uniq_subseq: "subseq (uniq xs) xs"
proof (induction xs rule: rev_induct)
  case (snoc x xs)
  have "subseq (filter (\<lambda>y. y \<notin> set xs) (uniq [x])) [x]" by (simp add: uniq_def)
  with snoc show ?case unfolding uniq_append by (rule list_emb_append_mono)
qed (simp add: uniq_def)

lemma allowed_tools:
  "\<exists>extra. uniq (BUILTINS @ xs) = [''read'', ''bash'', ''edit'', ''write''] @ extra \<and> distinct extra \<and> subseq extra xs \<and>
           set extra = set xs - {''read'', ''bash'', ''edit'', ''write''}"
proof (intro exI conjI)
  show "uniq (BUILTINS @ xs) = [''read'', ''bash'', ''edit'', ''write''] @ filter (\<lambda>x. x \<notin> set BUILTINS) (uniq xs)"
    by (simp add: uniq_append) (simp add: uniq_def BUILTINS_def)
  show "subseq (filter (\<lambda>x. x \<notin> set BUILTINS) (uniq xs)) xs"
    using uniq_subseq by (meson subseq_filter_left subseq_order.trans)
qed (auto simp: uniq_def BUILTINS_def)

text \<open>C30: The command line of a launched profile carries the whole of the profile that has flags. Read back as flags and
  values it gives every extension and every skill in order, at its place: under the home directory after a tilde, as it is
  when absolute, else inside the profile's directory. The system prompt is appended, as that place if something exists
  there and as the text itself otherwise. There is one session directory, the profile's own or the one named after its
  directory; the denied tools are all joined, and the allowed ones follow the four that are built in, each once and in
  their order; the model comes with the provider unless it names one. Local trust is requested exactly when the profile
  brings packages, and the further arguments come last.\<close>
theorem profile_args_roundtrip:
  "let args = snd (buildPiArgs e c dir [] w); home = pe_home e in
   snd (buildPiArgs e c dir extra w) = args @ extra \<and>
   (hd args = ''--approve'' \<longleftrightarrow> nonempty (pc_packages c)) \<and>
   values_of args ''--extension'' = map (placed home dir) (or_else (pc_extensions c) []) \<and>
   values_of args ''--skill'' = map (placed home dir) (or_else (pc_skills c) []) \<and>
   values_of args ''--append-system-prompt'' = (if truthy (pc_systemPrompt c)
     then [let p = the (pc_systemPrompt c); q = placed home dir p in if pw_path_exists w q then q else p] else []) \<and>
   values_of args ''--session-dir'' = [sessions_of home dir (pc_sessionDir c)] \<and>
   values_of args ''--thinking'' = (if truthy (pc_thinking c) then [the (pc_thinking c)] else []) \<and>
   values_of args ''--exclude-tools'' = (if nonempty (pc_excludeTools c) then [join '','' (the (pc_excludeTools c))] else []) \<and>
   (\<exists>own. values_of args ''--tools'' =
       (if nonempty (pc_allowTools c) then [join '','' ([''read'', ''bash'', ''edit'', ''write''] @ own)] else []) \<and>
     distinct own \<and> subseq own (or_else (pc_allowTools c) []) \<and>
     set own = set (or_else (pc_allowTools c) []) - {''read'', ''bash'', ''edit'', ''write''}) \<and>
   values_of args ''--model'' = (if truthy (pc_model c)
     then [if CHR ''/'' \<notin> set (the (pc_model c)) \<and> truthy (pc_provider c) then the (pc_provider c) @ ''/'' @ the (pc_model c) else the (pc_model c)]
     else [])"
proof -
  have "hd (snd (buildPiArgs e c dir [] w)) = ''--approve'' \<longleftrightarrow> nonempty (pc_packages c)"
    using profile_flags_head [of e c dir "pw_path_exists w"]
    by (cases "profile_flags e c dir (pw_path_exists w)") (auto simp: buildPiArgs_flags)
  moreover have "filter (\<lambda>(f, _). f = k) (map (\<lambda>x. (k', g x)) xs) = (if k' = k then map (\<lambda>x. (k', g x)) xs else [])"
    for k k' :: string and g :: "string \<Rightarrow> string" and xs by (induction xs) auto
  moreover obtain own where "uniq (BUILTINS @ or_else (pc_allowTools c) []) = [''read'', ''bash'', ''edit'', ''write''] @ own"
    "distinct own" "subseq own (or_else (pc_allowTools c) [])"
    "set own = set (or_else (pc_allowTools c) []) - {''read'', ''bash'', ''edit'', ''write''}"
    using allowed_tools by blast
  ultimately show ?thesis
    unfolding values_of_build Let_def
    by (intro conjI exI [of _ own])
      (auto simp: profile_flags_def buildPiArgs_flags or_null_def o_def resolve_placed session_dir_of nonempty_def Let_def
        split: option.split list.splits)
qed

section \<open>Packages\<close>

lemma set_uniq [simp]: "set (uniq xs) = set xs" "distinct (uniq xs)"
  by (simp_all add: uniq_def)

lemma set_merge_packages: "set (merge_packages a b) = set a \<union> set b"
  by (auto simp: merge_packages_def)

lemma nonempty_or_else: "\<not> nonempty l \<Longrightarrow> or_else l [] = []"
  by (auto simp: nonempty_def split: option.splits list.splits)

lemma settings_after:
  "set (settings_packages (pw_settings (fst (writeProjectSettings c cwd w)))) =
     set (settings_packages (pw_settings w)) \<union> set (or_else (pc_packages c) [])"
  by (simp add: writeProjectSettings_def set_merge_packages nonempty_or_else)

lemma launch_settings:
  "loadProfile w name = Some c \<Longrightarrow>
   pw_settings (fst (launchProfile e name extra w)) = pw_settings (fst (writeProjectSettings c (pe_cwd e) w))"
  by (simp add: launchProfile_def buildPiArgs_def writeProjectSettings_def writeCurrentProfile_def split_beta Let_def)

lemma launch_frame:
  "pw_profile (fst (launchProfile e name extra w)) = pw_profile w"
  by (simp add: launchProfile_def buildPiArgs_def writeProjectSettings_def writeCurrentProfile_def split_beta Let_def split: option.split)

text \<open>Launching a profile merges its packages into the settings of the working directory: the packages after it are those
  that were there and those of the profile, all other keys are kept unless the file was unreadable, the profile becomes the
  current one, and one process is spawned.\<close>
theorem launch_merges_packages:
  assumes "loadProfile w name = Some c"
  shows "let w' = fst (launchProfile e name extra w) in
         set (settings_packages (pw_settings w')) = set (settings_packages (pw_settings w)) \<union> set (or_else (pc_packages c) []) \<and>
         settings_others (pw_settings w') = settings_others (pw_settings w) \<and>
         readCurrentProfile w' = Some name \<and> length (pw_spawned w') = Suc (length (pw_spawned w))"
proof -
  have "settings_others (pw_settings (fst (writeProjectSettings c cwd w))) = settings_others (pw_settings w)" for cwd
    by (simp add: writeProjectSettings_def)
  moreover have "readCurrentProfile (fst (launchProfile e name extra w)) = Some name"
    "length (pw_spawned (fst (launchProfile e name extra w))) = Suc (length (pw_spawned w))"
    using assms by (simp_all add: launchProfile_def buildPiArgs_def writeProjectSettings_def writeCurrentProfile_def
        readCurrentProfile_def split_beta Let_def)
  ultimately show ?thesis by (simp add: launch_settings [OF assms] settings_after Let_def)
qed

definition demo_world :: profile_world where
  "demo_world =
     \<lparr>pw_dir_exists = True, pw_entries = [(''sec'', True), (''web'', True)],
      pw_profile = (\<lambda>n. if n = ''sec'' then Profile_json ((plain_profile ''sec'')\<lparr>pc_packages := Some [''npm:scanner'']\<rparr>)
                        else if n = ''web'' then Profile_json ((plain_profile ''web'')\<lparr>pc_packages := Some [''npm:react'']\<rparr>)
                        else if n = ''current'' then Profile_json (plain_profile ''current'') else No_profile),
      pw_state = No_state, pw_settings = No_settings, pw_path_exists = (\<lambda>_. False), pw_spawned = []\<rparr>"

definition demo_env :: process_env where
  "demo_env = \<lparr>pe_home = ''/h'', pe_cwd = ''/w'', pe_vars = []\<rparr>"

theorem launch_merges_packages_witness:
  "let w' = fst (launchProfile demo_env ''sec'' [] demo_world) in
   set (settings_packages (pw_settings w')) = {''npm:scanner''} \<and>
   readCurrentProfile w' = Some ''sec'' \<and> length (pw_spawned w') = 1"
proof -
  have "loadProfile demo_world ''sec'' = Some ((plain_profile ''sec'')\<lparr>pc_packages := Some [''npm:scanner'']\<rparr>)"
    by (simp add: loadProfile_def demo_world_def)
  from launch_merges_packages [OF this, of demo_env "[]"] show ?thesis by (simp add: demo_world_def Let_def)
qed

text \<open>Profiles are not isolated by their packages: after a second profile is launched in the same directory the settings
  still list every package of the first, because packages are only ever added.\<close>
theorem packages_accumulate:
  assumes "loadProfile w a = Some ca" "loadProfile w b = Some cb"
  shows "let w' = fst (launchProfile e b xb (fst (launchProfile e a xa w))) in
         set (or_else (pc_packages ca) []) \<union> set (or_else (pc_packages cb) []) \<subseteq> set (settings_packages (pw_settings w'))"
proof -
  let ?w = "fst (launchProfile e a xa w)"
  have "loadProfile ?w b = Some cb" using assms(2) by (simp add: loadProfile_def launch_frame)
  from launch_settings [OF this, of e xb] settings_after [of cb "pe_cwd e" ?w]
    launch_settings [OF assms(1), of e xa] settings_after [of ca "pe_cwd e" w]
  show ?thesis by (auto simp: Let_def)
qed

theorem packages_accumulate_witness:
  "let w' = fst (launchProfile demo_env ''web'' [] (fst (launchProfile demo_env ''sec'' [] demo_world))) in
   {''npm:scanner''} \<union> {''npm:react''} \<subseteq> set (settings_packages (pw_settings w'))"
proof -
  have "loadProfile demo_world ''sec'' = Some ((plain_profile ''sec'')\<lparr>pc_packages := Some [''npm:scanner'']\<rparr>)"
    "loadProfile demo_world ''web'' = Some ((plain_profile ''web'')\<lparr>pc_packages := Some [''npm:react'']\<rparr>)"
    by (simp_all add: loadProfile_def demo_world_def)
  from packages_accumulate [OF this, of demo_env "[]" "[]"] show ?thesis by (simp add: Let_def)
qed

section \<open>Findings\<close>

text \<open>A profile named like a subcommand is listed but can never be launched by the command.\<close>
theorem reserved_name_never_launched:
  "hd (split_ws (trim args)) \<in> set [''current'', ''info''] \<Longrightarrow> fst (profile_command collate e args w) = w"
  by (auto simp: profile_command_def Let_def)

text \<open>With both tool lists the hook applies only the exclusions: a tool that the allow list leaves out stays active, although the
  command line of the same profile would pass the allow list too.\<close>
theorem allow_list_ignored_with_exclusions:
  "let c = (plain_profile ''p'')\<lparr>pc_excludeTools := Some [''web''], pc_allowTools := Some [''grep'']\<rparr> in
   tool_action c [''read'', ''web'', ''deploy''] = [Set_tools [''read'', ''deploy'']] \<and>
   values_of (snd (buildPiArgs demo_env c ''/p'' [] demo_world)) ''--tools'' = [''read,bash,edit,write,grep'']"
  by code_simp

text \<open>The name given to the command is joined to a path without a check, so it can lead out of the directory of profiles.\<close>
theorem profile_name_escapes:
  "path_join [profiles_dir ''/home/u'', ''../../../../../tmp/x'', ''profile.json''] = ''/tmp/x/profile.json''"
  by code_simp

end
