(* ===== verification/Sdk.thy ===== *)
theory Sdk
  imports JSString Json_Store Target_Policy
begin

text \<open>
  The SDK (\<open>sdk/src/client.ts\<close>, \<open>sdk/src/scope.ts\<close>) and the extension that offers it as tools
  (\<open>extensions/coordinator.ts\<close>). The platform's URL parser and its \<open>fetch\<close> are parameters: a parser
  maps a string to a \<open>url\<close> or fails, a transport maps a request to a response or fails.
\<close>

section \<open>URLs\<close>

record url =
  u_protocol :: string
  u_username :: string
  u_password :: string
  u_hostname :: string
  u_pathname :: string
  u_search :: string
  u_hash :: string
  u_origin :: string
  u_href :: string

type_synonym url_parser = "string \<Rightarrow> url option"

section \<open>URLScope\<close>

datatype scope_error = No_origins | Bad_url | Not_an_origin

definition exact_origin :: "url \<Rightarrow> bool" where
  "exact_origin u =
     (u_protocol u \<in> {''http:'', ''https:''} \<and> u_username u = [] \<and> u_password u = [] \<and>
      u_pathname u = ''/'' \<and> u_search u = [] \<and> u_hash u = [])"

fun origins_of :: "url_parser \<Rightarrow> string list \<Rightarrow> scope_error + string list" where
  "origins_of parse [] = Inr []"
| "origins_of parse (v # vs) =
     (case parse v of
        None \<Rightarrow> Inl Bad_url
      | Some u \<Rightarrow>
          if \<not> exact_origin u then Inl Not_an_origin
          else (case origins_of parse vs of Inl e \<Rightarrow> Inl e | Inr os \<Rightarrow> Inr (u_origin u # os)))"

definition URLScope :: "url_parser \<Rightarrow> string list \<Rightarrow> scope_error + string set" where
  "URLScope parse origins =
     (if origins = [] then Inl No_origins
      else case origins_of parse origins of Inl e \<Rightarrow> Inl e | Inr os \<Rightarrow> Inr (set os))"

definition allows :: "url_parser \<Rightarrow> string set \<Rightarrow> string \<Rightarrow> bool" where
  "allows parse scope v =
     (case parse v of
        None \<Rightarrow> False
      | Some u \<Rightarrow> u_username u = [] \<and> u_password u = [] \<and> u_origin u \<in> scope)"

section \<open>The client\<close>

datatype verb = GET | POST

record http_request =
  r_url :: string
  r_method :: verb
  r_authorization :: string
  r_body :: "json option"

text \<open>A response has a status and a body that is JSON or not (\<open>None\<close>).\<close>

record http_response =
  h_status :: nat
  h_body :: "json option"

datatype client_error =
    Invalid_coordinator_url
  | Requires_https
  | Token_too_short
  | Network_error
  | APIError nat string
  | Invalid_json

type_synonym transport = "http_request \<Rightarrow> http_response option"

record coordinator =
  c_base :: string
  c_token :: string

definition strip_slash :: "string \<Rightarrow> string" where
  "strip_slash s = (if suffix ''/'' s then butlast s else s)"

definition Coordinator :: "url_parser \<Rightarrow> string \<Rightarrow> string \<Rightarrow> client_error + coordinator" where
  "Coordinator parse base token =
     (case parse base of
        None \<Rightarrow> Inl Invalid_coordinator_url
      | Some u \<Rightarrow>
          if u_protocol u \<notin> {''http:'', ''https:''} \<or> u_username u \<noteq> [] \<or> u_password u \<noteq> [] \<or>
             u_search u \<noteq> [] \<or> u_hash u \<noteq> []
          then Inl Invalid_coordinator_url
          else if u_protocol u \<noteq> ''https:'' \<and> u_hostname u \<notin> {''localhost'', ''127.0.0.1'', ''[::1]''}
          then Inl Requires_https
          else if length token < 32 then Inl Token_too_short
          else Inr \<lparr>c_base = strip_slash (u_href u), c_token = token\<rparr>)"

definition error_message :: "nat \<Rightarrow> json option \<Rightarrow> string" where
  "error_message status detail =
     (let fallback = ''Coordinator returned '' @ nat_to_string status in
      case detail of
        Some (JObj fs) \<Rightarrow> (case map_of fs ''error'' of Some (JStr m) \<Rightarrow> m | _ \<Rightarrow> fallback)
      | _ \<Rightarrow> fallback)"

definition request_of :: "coordinator \<Rightarrow> string \<Rightarrow> json option \<Rightarrow> http_request" where
  "request_of c path body =
     \<lparr>r_url = c_base c @ path, r_method = (if body = None then GET else POST),
      r_authorization = ''Bearer '' @ c_token c, r_body = body\<rparr>"

definition request :: "transport \<Rightarrow> coordinator \<Rightarrow> string \<Rightarrow> json option \<Rightarrow> client_error + json" where
  "request fetch c path body =
     (case fetch (request_of c path body) of
        None \<Rightarrow> Inl Network_error
      | Some r \<Rightarrow>
          if \<not> (200 \<le> h_status r \<and> h_status r \<le> 299) then Inl (APIError (h_status r) (error_message (h_status r) (h_body r)))
          else if h_status r = 204 then Inr JNull
          else (case h_body r of None \<Rightarrow> Inl Invalid_json | Some j \<Rightarrow> Inr j))"

section \<open>encodeURIComponent\<close>

definition hex_digit :: "nat \<Rightarrow> char" where
  "hex_digit n = (if n < 10 then char_of (48 + n) else char_of (55 + n))"

definition pct :: "nat \<Rightarrow> string" where
  "pct b = [CHR ''%'', hex_digit (b div 16), hex_digit (b mod 16)]"

definition unreserved :: "char \<Rightarrow> bool" where
  "unreserved c = (is_word c \<or> c \<in> set ''-.!~*'' \<or> c = CHR 0x27 \<or> c = CHR ''('' \<or> c = CHR '')'')"

text \<open>A character from 128 to 255 is two bytes in UTF-8.\<close>

definition encode_char :: "char \<Rightarrow> string" where
  "encode_char c =
     (if unreserved c then [c]
      else if char_code c < 128 then pct (char_code c)
      else pct (192 + char_code c div 64) @ pct (128 + char_code c mod 64))"

definition encodeURIComponent :: "string \<Rightarrow> string" where
  "encodeURIComponent s = concat (map encode_char s)"

section \<open>The operations\<close>

datatype finish_action = heartbeat | complete | fail

fun action_name :: "finish_action \<Rightarrow> string" where
  "action_name heartbeat = ''heartbeat''"
| "action_name complete = ''complete''"
| "action_name fail = ''fail''"

datatype client_call =
    Create json
  | Snapshot
  | Get string
  | Claim string string
  | Finish finish_action string string string json

text \<open>The path and the body of each method; \<open>Finish action id worker lease_token result\<close>.\<close>

fun call_path :: "client_call \<Rightarrow> string" where
  "call_path (Create _) = ''/api/tasks''"
| "call_path Snapshot = ''/api/snapshot''"
| "call_path (Get i) = ''/api/tasks/'' @ encodeURIComponent i"
| "call_path (Claim _ _) = ''/api/claim''"
| "call_path (Finish a i _ _ _) = ''/api/tasks/'' @ encodeURIComponent i @ ''/'' @ action_name a"

fun call_body :: "client_call \<Rightarrow> json option" where
  "call_body (Create input) = Some input"
| "call_body Snapshot = None"
| "call_body (Get _) = None"
| "call_body (Claim worker kind) = Some (JObj [(''worker'', JStr worker), (''kind'', JStr kind)])"
| "call_body (Finish _ _ worker tok result) =
     Some (JObj [(''worker'', JStr worker), (''lease_token'', JStr tok), (''result'', result)])"

definition invoke :: "transport \<Rightarrow> coordinator \<Rightarrow> client_call \<Rightarrow> client_error + json" where
  "invoke fetch c call = request fetch c (call_path call) (call_body call)"

section \<open>The tools of the extension\<close>

definition client_of_env :: "url_parser \<Rightarrow> string option \<Rightarrow> string option \<Rightarrow> client_error + coordinator" where
  "client_of_env parse url_env token_env =
     Coordinator parse (or_else url_env ''http://127.0.0.1:8787'') (or_else token_env [])"

definition with_client :: "client_error + coordinator \<Rightarrow> (coordinator \<Rightarrow> client_error + json) \<Rightarrow> client_error + json" where
  "with_client c k = (case c of Inl e \<Rightarrow> Inl e | Inr x \<Rightarrow> k x)"

definition task_id_field :: "json \<Rightarrow> string option" where
  "task_id_field j = (case j of JObj fs \<Rightarrow> (case map_of fs ''id'' of Some (JStr i) \<Rightarrow> Some i | _ \<Rightarrow> None) | _ \<Rightarrow> None)"

text \<open>
  \<open>workbench_update_task\<close> fetches the task and then finishes its lease under the identifier the
  coordinator returned; an answer without an identifier is taken as JavaScript prints it.
\<close>

definition update_task :: "transport \<Rightarrow> client_error + coordinator \<Rightarrow> string \<Rightarrow> string \<Rightarrow> string \<Rightarrow> finish_action \<Rightarrow> json option \<Rightarrow> client_error + json" where
  "update_task fetch client i worker tok action result =
     with_client client (\<lambda>c.
       case invoke fetch c (Get i) of
         Inl e \<Rightarrow> Inl e
       | Inr task \<Rightarrow>
           invoke fetch c (Finish action (or_else (task_id_field task) ''undefined'') worker tok (or_else result (JObj []))))"

section \<open>Correctness\<close>

interpretation us: target_policy "allows parse" id "\<lambda>_. {}"
    "\<lambda>v origin. \<exists>u. parse v = Some u \<and> u_username u = [] \<and> u_password u = [] \<and> u_origin u = origin" for parse
  by unfold_locales (auto simp: allows_def split: option.splits)

lemma origins_of_exact:
  "origins_of parse vs = Inr os \<Longrightarrow>
     os = map (\<lambda>v. u_origin (the (parse v))) vs \<and> (\<forall>v \<in> set vs. \<exists>u. parse v = Some u \<and> exact_origin u)"
  by (induction vs arbitrary: os) (auto split: option.splits if_splits sum.splits)

lemma not_reserved: "\<not> unreserved (CHR ''/'')" "\<not> unreserved (CHR ''?'')" "\<not> unreserved (CHR ''#'')" "\<not> unreserved (CHR ''%'')"
  by code_simp+

lemma hex_digit_word:
  assumes "n < 16"
  shows "is_word (hex_digit n)"
proof (cases "n < 10")
  case True
  then have "char_code (hex_digit n) = 48 + n" by (simp add: hex_digit_def char_code_def of_char_of)
  then show ?thesis using True unfolding is_word_def is_digit_def char_code_def by simp
next
  case False
  then have "char_code (hex_digit n) = 55 + n" using assms by (simp add: hex_digit_def char_code_def of_char_of)
  then show ?thesis using False assms unfolding is_word_def by simp
qed

lemma word_unreserved: "is_word c \<Longrightarrow> unreserved c"
  by (simp add: unreserved_def)

lemma pct_chars:
  assumes "b < 256" "c \<in> set (pct b)"
  shows "c = CHR ''%'' \<or> unreserved c"
proof -
  have "b div 16 < 16" "b mod 16 < 16" using assms(1) by simp_all
  then have "unreserved (hex_digit (b div 16))" "unreserved (hex_digit (b mod 16))"
    using hex_digit_word word_unreserved by blast+
  then show ?thesis using assms(2) unfolding pct_def by auto
qed

lemma encode_chars: "c \<in> set (encodeURIComponent s) \<Longrightarrow> c = CHR ''%'' \<or> unreserved c"
proof -
  assume "c \<in> set (encodeURIComponent s)"
  then obtain x where "c \<in> set (encode_char x)" by (auto simp: encodeURIComponent_def)
  moreover have "char_code x < 256" by (simp add: char_code_def)
  then have "192 + char_code x div 64 < 256" "128 + char_code x mod 64 < 256" by auto
  ultimately show ?thesis
    using pct_chars [of "char_code x" c] pct_chars [of "192 + char_code x div 64" c]
      pct_chars [of "128 + char_code x mod 64" c]
    unfolding encode_char_def by (cases "unreserved x"; cases "char_code x < 128") auto
qed

end
