(* ===== verification/Sdk_Props.thy ===== *)
theory Sdk_Props
  imports Sdk
begin

text \<open>The properties of the SDK: what its URL policy admits and what its requests can address.\<close>

text \<open>C31: A URL scope admits exactly the URLs on its origins: once constructed, each entry was an HTTP(S) origin
  without credentials, path, query and fragment, and a value is allowed iff it parses, carries no credentials
  and its origin is the origin of one of the entries.\<close>
theorem url_scope_exact:
  assumes "URLScope parse origins = Inr scope"
  shows "list_all (\<lambda>v. case parse v of None \<Rightarrow> False | Some u \<Rightarrow> exact_origin u) origins \<and>
    (allows parse scope v \<longleftrightarrow>
      (case parse v of None \<Rightarrow> False
       | Some u \<Rightarrow> u_username u = [] \<and> u_password u = [] \<and>
           (\<exists>w \<in> set origins. map_option u_origin (parse w) = Some (u_origin u))))"
proof -
  obtain os where os: "origins_of parse origins = Inr os" "scope = set os"
    using assms by (auto simp: URLScope_def split: if_splits sum.splits)
  have ex: "\<exists>u. parse w = Some u \<and> exact_origin u" if "w \<in> set origins" for w
    using origins_of_exact [OF os(1)] that by blast
  have "x \<in> scope \<longleftrightarrow> (\<exists>w \<in> set origins. map_option u_origin (parse w) = Some x)" for x
    using origins_of_exact [OF os(1)] ex os(2) by force
  moreover have "list_all (\<lambda>v. case parse v of None \<Rightarrow> False | Some u \<Rightarrow> exact_origin u) origins"
    using ex by (fastforce simp: list_all_iff split: option.splits)
  ultimately show ?thesis using us.permit_iff [of parse scope v] by (auto split: option.splits)
qed

definition demo_url :: "string \<Rightarrow> string \<Rightarrow> url" where
  "demo_url h path = \<lparr>u_protocol = ''https:'', u_username = [], u_password = [], u_hostname = h, u_pathname = path,
     u_search = [], u_hash = [], u_origin = ''https://'' @ h, u_href = ''https://'' @ h @ path\<rparr>"

text \<open>A small parser for the examples: \<open>https://host\<close> followed by nothing or by a path.\<close>

definition demo_parse :: url_parser where
  "demo_parse s =
     (if prefix ''https://'' s
      then (let h = takeWhile (\<lambda>c. c \<noteq> CHR ''/'') (drop 8 s); p = dropWhile (\<lambda>c. c \<noteq> CHR ''/'') (drop 8 s)
            in Some (demo_url h (if p = [] then ''/'' else p)))
      else None)"

theorem url_scope_exact_witness:
  "allows demo_parse {''https://a.org''} ''https://a.org/x'' \<and> \<not> allows demo_parse {''https://a.org''} ''https://b.org/''"
proof -
  have "URLScope demo_parse [''https://a.org''] = Inr {''https://a.org''}" by code_simp
  from url_scope_exact [OF this] show ?thesis by (simp add: demo_parse_def demo_url_def Let_def)
qed

text \<open>A client exists only for a safe channel: when the constructor succeeds, the coordinator's URL is HTTPS or on
  the local host and carries neither credentials nor query nor fragment, and the token has at least 32 characters;
  every request goes to that URL followed by the path of its method, with the token in the authorization header.\<close>
theorem client_channel_safe:
  assumes "Coordinator parse base token = Inr c"
  shows "\<exists>u. parse base = Some u \<and> (u_protocol u = ''https:'' \<or> u_hostname u \<in> {''localhost'', ''127.0.0.1'', ''[::1]''}) \<and>
    u_username u = [] \<and> u_password u = [] \<and> u_search u = [] \<and> u_hash u = [] \<and> 32 \<le> length token \<and>
    (let r = request_of c (call_path call) (call_body call) in
     r_url r = strip_slash (u_href u) @ call_path call \<and> r_authorization r = ''Bearer '' @ token \<and>
     (r_method r = GET \<longleftrightarrow> r_body r = None))"
  using assms by (auto simp: Coordinator_def request_of_def Let_def not_less split: option.splits if_splits)

theorem client_channel_safe_witness:
  "\<exists>u. demo_parse ''https://c.org'' = Some u \<and> u_username u = [] \<and> u_password u = [] \<and>
     32 \<le> length (replicate 32 (CHR ''x''))"
proof -
  have "Coordinator demo_parse ''https://c.org'' (replicate 32 (CHR ''x'')) =
      Inr \<lparr>c_base = ''https://c.org'', c_token = replicate 32 (CHR ''x'')\<rparr>" by code_simp
  from client_channel_safe [OF this, of Snapshot] show ?thesis by blast
qed

text \<open>No task identifier can redirect a request: whatever characters it has, it fills exactly one segment of the
  path, and the path has neither a query nor a fragment.\<close>
theorem task_path_confined:
  "split_on (CHR ''/'') (call_path (Get i)) = [[], ''api'', ''tasks'', encodeURIComponent i] \<and>
   split_on (CHR ''/'') (call_path (Finish a i w tok r)) = [[], ''api'', ''tasks'', encodeURIComponent i, action_name a] \<and>
   CHR ''?'' \<notin> set (call_path (Finish a i w tok r)) \<and> CHR ''#'' \<notin> set (call_path (Finish a i w tok r))"
proof -
  have slash_pct: "CHR ''/'' \<noteq> CHR ''%''" "CHR ''?'' \<noteq> CHR ''%''" "CHR ''#'' \<noteq> CHR ''%''" by simp_all
  have enc: "CHR ''/'' \<notin> set (encodeURIComponent i)" "CHR ''?'' \<notin> set (encodeURIComponent i)"
    "CHR ''#'' \<notin> set (encodeURIComponent i)"
    by (metis (no_types) encode_chars not_reserved(1) slash_pct, metis (no_types) encode_chars not_reserved(2) slash_pct,
      metis (no_types) encode_chars not_reserved(3) slash_pct)
  have an: "CHR ''/'' \<notin> set (action_name a)" "CHR ''?'' \<notin> set (action_name a)" "CHR ''#'' \<notin> set (action_name a)"
    by (cases a; simp)+
  show ?thesis using enc an by (simp add: split_on_free split_on_append)
qed

end
