(* ===== verification/JSRegex.thy ===== *)
theory JSRegex
  imports JSString
begin

text \<open>
  Regular expressions as JavaScript runs them: a backtracking matcher that tries the alternatives in order, with greedy
  and lazy repetition, one captured group and word boundaries. A position is the character before it and the rest of the
  text; \<open>rmatch\<close> lists the positions where a match can end, in the order in which the engine tries them, so the first is
  the one it takes. On top of it: the first match in a text, \<open>match\<close> and \<open>replace\<close> with the flag for all matches.

  The lemmas: a text is the gaps and matches that a search divides it into; a pattern of a prefix and a run of characters
  finds every word of that shape, so that no gap contains one (\<open>pieces_free\<close>); words over an alphabet are kept apart by a
  character outside of it; a captured group is part of the text.
\<close>

section \<open>The matcher\<close>

datatype regex =
    Eps
  | Cls "char \<Rightarrow> bool"
  | Seq regex regex
  | Alt regex regex
  | Rep nat "nat option" bool regex
  | Group regex
  | Word_boundary

text \<open>Previous character, rest of the text, captured group.\<close>

type_synonym rpos = "char option \<times> string \<times> string option"

definition rest_of :: "rpos \<Rightarrow> string" where
  "rest_of st = fst (snd st)"

text \<open>
  Repetition: at least \<open>lo\<close> and at most \<open>hi\<close> times, greedy or lazy. An optional round that consumes nothing fails. The first
  argument bounds the number of rounds; \<open>lo\<close> plus the length of the text is enough.
\<close>

fun rep_match :: "nat \<Rightarrow> (rpos \<Rightarrow> rpos list) \<Rightarrow> nat \<Rightarrow> nat option \<Rightarrow> bool \<Rightarrow> rpos \<Rightarrow> rpos list" where
  "rep_match 0 f lo hi greedy st = (if lo = 0 then [st] else [])"
| "rep_match (Suc k) f lo hi greedy st =
     (let more =
        (if hi = Some 0 then []
         else concat (map (\<lambda>st'. if lo = 0 \<and> rest_of st' = rest_of st then []
                                 else rep_match k f (lo - 1) (map_option (\<lambda>n. n - 1) hi) greedy st') (f st)))
      in if lo > 0 then more else if greedy then more @ [st] else st # more)"

definition word_at :: "char option \<Rightarrow> bool" where
  "word_at c = (case c of None \<Rightarrow> False | Some x \<Rightarrow> is_word x)"

fun rmatch :: "regex \<Rightarrow> rpos \<Rightarrow> rpos list" where
  "rmatch Eps st = [st]"
| "rmatch (Cls p) st = (case st of (_, c # s, cap) \<Rightarrow> if p c then [(Some c, s, cap)] else [] | _ \<Rightarrow> [])"
| "rmatch (Seq a b) st = concat (map (rmatch b) (rmatch a st))"
| "rmatch (Alt a b) st = rmatch a st @ rmatch b st"
| "rmatch (Rep lo hi greedy r) st = rep_match (lo + length (rest_of st)) (rmatch r) lo hi greedy st"
| "rmatch (Group r) st =
     map (\<lambda>(p, s, _). (p, s, Some (take (length (rest_of st) - length s) (rest_of st)))) (rmatch r st)"
| "rmatch Word_boundary st =
     (case st of (p, s, _) \<Rightarrow> if word_at p \<noteq> word_at (case s of [] \<Rightarrow> None | c # _ \<Rightarrow> Some c) then [st] else [])"

text \<open>Abbreviations for the patterns of the sources.\<close>

fun lit :: "string \<Rightarrow> regex" where
  "lit [] = Eps"
| "lit (c # s) = Seq (Cls (\<lambda>x. x = c)) (lit s)"

text \<open>A literal under the flag for ignoring case, written in lower-case ASCII.\<close>

fun lit_ci :: "string \<Rightarrow> regex" where
  "lit_ci [] = Eps"
| "lit_ci (c # s) = Seq (Cls (\<lambda>x. to_lower x = c)) (lit_ci s)"

fun seqs :: "regex list \<Rightarrow> regex" where
  "seqs [] = Eps"
| "seqs [r] = r"
| "seqs (r # rs) = Seq r (seqs rs)"

fun alts :: "regex list \<Rightarrow> regex" where
  "alts [] = Cls (\<lambda>_. False)"
| "alts [r] = r"
| "alts (r # rs) = Alt r (alts rs)"

definition opt :: "regex \<Rightarrow> regex" where
  "opt r = Rep 0 (Some 1) True r"

definition many :: "regex \<Rightarrow> regex" where
  "many r = Rep 0 None True r"

definition many1 :: "regex \<Rightarrow> regex" where
  "many1 r = Rep 1 None True r"

definition any_of :: "string \<Rightarrow> regex" where
  "any_of cs = Cls (\<lambda>c. c \<in> set cs)"

definition is_alnum :: "char \<Rightarrow> bool" where
  "is_alnum c = (is_word c \<and> c \<noteq> CHR ''_'')"

section \<open>Searching\<close>

record found =
  fd_gap :: string
  fd_match :: string
  fd_prev :: "char option"
  fd_rest :: string
  fd_group :: "string option"

fun first_match :: "regex \<Rightarrow> char option \<Rightarrow> string \<Rightarrow> found option" where
  "first_match r p s =
     (case rmatch r (p, s, None) of
        (p', s', cap) # _ \<Rightarrow>
          Some \<lparr>fd_gap = [], fd_match = take (length s - length s') s, fd_prev = p', fd_rest = s', fd_group = cap\<rparr>
      | [] \<Rightarrow>
          (case s of
             [] \<Rightarrow> None
           | c # t \<Rightarrow> map_option (\<lambda>m. m\<lparr>fd_gap := c # fd_gap m\<rparr>) (first_match r (Some c) t)))"

declare first_match.simps [simp del]

lemma rep_suffix:
  assumes "\<And>st st'. st' \<in> set (f st) \<Longrightarrow> suffix (rest_of st') (rest_of st)"
  shows "st' \<in> set (rep_match k f lo hi g st) \<Longrightarrow> suffix (rest_of st') (rest_of st)"
proof (induction k arbitrary: lo hi st)
  case (Suc k)
  consider "st' = st" | x where "x \<in> set (f st)" "st' \<in> set (rep_match k f (lo - 1) (map_option (\<lambda>n. n - 1) hi) g x)"
    using Suc.prems by (auto simp: Let_def split: if_splits)
  then show ?case
  proof cases
    case 2
    then show ?thesis using assms Suc.IH suffix_order.trans by blast
  qed simp
qed (auto split: if_splits)

text \<open>More rounds than the bound change nothing.\<close>

lemma rep_match_bound:
  assumes "\<And>st st'. st' \<in> set (f st) \<Longrightarrow> suffix (rest_of st') (rest_of st)"
  shows "lo + length (rest_of st) \<le> k \<Longrightarrow> rep_match (Suc k) f lo hi g st = rep_match k f lo hi g st"
proof (induction k arbitrary: lo hi st)
  case 0
  then have "rest_of st' = rest_of st" if "st' \<in> set (f st)" for st' using assms [OF that] by simp
  then show ?case using 0 by (auto simp: Let_def)
next
  case (Suc k)
  have "rep_match (Suc k) f (lo - 1) h g st' = rep_match k f (lo - 1) h g st'"
    if "st' \<in> set (f st)" "\<not> (lo = 0 \<and> rest_of st' = rest_of st)" for st' h
  proof -
    have s: "suffix (rest_of st') (rest_of st)" by (rule assms [OF that(1)])
    have "lo - 1 + length (rest_of st') \<le> k"
    proof (cases lo)
      case 0
      then have "rest_of st' \<noteq> rest_of st" using that(2) by simp
      then have "length (rest_of st') < length (rest_of st)" using s by (auto simp: suffix_def)
      then show ?thesis using 0 Suc.prems by simp
    next
      case (Suc l)
      then show ?thesis using \<open>lo + length (rest_of st) \<le> Suc k\<close> suffix_length_le [OF s] by simp
    qed
    then show ?thesis by (rule Suc.IH)
  qed
  then have eq: "concat (map (\<lambda>st'. if lo = 0 \<and> rest_of st' = rest_of st then [] else rep_match (Suc k) f (lo - 1) h g st') (f st)) =
      concat (map (\<lambda>st'. if lo = 0 \<and> rest_of st' = rest_of st then [] else rep_match k f (lo - 1) h g st') (f st))" for h
    by (intro arg_cong [where f = concat] map_cong) auto
  show ?case by (simp only: rep_match.simps(2) [of "Suc k" f lo hi g st] rep_match.simps(2) [of k f lo hi g st] Let_def eq)
qed

lemma rep_match_enough:
  assumes "\<And>st st'. st' \<in> set (f st) \<Longrightarrow> suffix (rest_of st') (rest_of st)" "lo + length (rest_of st) \<le> k"
  shows "rep_match k f lo hi g st = rep_match (lo + length (rest_of st)) f lo hi g st"
  using assms(2)
proof (induction k rule: dec_induct)
  case (step n)
  then show ?case using rep_match_bound [of f lo st n hi g] assms(1) by simp
qed simp

lemma rmatch_suffix: "st' \<in> set (rmatch r st) \<Longrightarrow> suffix (rest_of st') (rest_of st)"
proof (induction r arbitrary: st st')
  case (Cls p)
  then show ?case by (auto simp: rest_of_def suffix_ConsI split: prod.splits list.splits if_splits)
next
  case (Seq a b)
  then obtain x where "x \<in> set (rmatch a st)" "st' \<in> set (rmatch b x)" by auto
  then show ?case using Seq.IH suffix_order.trans by blast
next
  case (Rep lo hi g r)
  then show ?case using rep_suffix [of "rmatch r"] by auto
next
  case (Group r)
  then obtain x where "x \<in> set (rmatch r st)" "rest_of st' = rest_of x" by (auto simp: rest_of_def)
  then show ?case using Group.IH by metis
qed (auto split: prod.splits if_splits)

lemma first_match_here:
  assumes "rmatch r (p, s, None) = st # sts" "first_match r p s = Some m"
  shows "s = fd_gap m @ fd_match m @ fd_rest m"
proof -
  obtain p' s' cap where st: "st = (p', s', cap)" by (cases st)
  have "suffix s' s" using rmatch_suffix [of st r "(p, s, None)"] assms(1) st by (simp add: rest_of_def)
  then obtain u where "s = u @ s'" by (auto simp: suffix_def)
  moreover have "m = \<lparr>fd_gap = [], fd_match = take (length s - length s') s, fd_prev = p', fd_rest = s', fd_group = cap\<rparr>"
    using assms st by (simp add: first_match.simps [of r p s])
  ultimately show ?thesis by simp
qed

lemma first_match_split: "first_match r p s = Some m \<Longrightarrow> s = fd_gap m @ fd_match m @ fd_rest m"
proof (induction s arbitrary: p m)
  case Nil
  then show ?case
    by (cases "rmatch r (p, [], None)") (simp add: first_match.simps [of r p "[]"], rule first_match_here)
next
  case (Cons c s)
  show ?case
  proof (cases "rmatch r (p, c # s, None)")
    case Nil
    with Cons show ?thesis by (auto simp: first_match.simps [of r p "c # s"])
  qed (use Cons.prems first_match_here in blast)
qed

text \<open>All matches from left to right: the text before each, and the text after the last. After an empty match the
  search goes on one character further.\<close>

function pieces :: "regex \<Rightarrow> char option \<Rightarrow> string \<Rightarrow> (string \<times> string) list \<times> string" where
  "pieces r p s =
     (case first_match r p s of
        None \<Rightarrow> ([], s)
      | Some m \<Rightarrow>
          if fd_match m \<noteq> [] then
            (let (ps, tail) = pieces r (fd_prev m) (fd_rest m) in ((fd_gap m, fd_match m) # ps, tail))
          else
            (case fd_rest m of
               [] \<Rightarrow> ([(fd_gap m, [])], [])
             | c # t \<Rightarrow>
                 (case pieces r (Some c) t of
                    ([], tail) \<Rightarrow> ([(fd_gap m, [])], c # tail)
                  | ((g, w) # ps, tail) \<Rightarrow> ((fd_gap m, []) # (c # g, w) # ps, tail))))"
  by pat_completeness auto
termination
proof (relation "measure (\<lambda>(r, p, s). length s)")
  show "wf (measure (\<lambda>(r :: regex, p :: char option, s :: string). length s))" by simp
next
  fix r p s m
  assume "first_match r p s = Some m" "fd_match m \<noteq> []"
  then show "((r, fd_prev m, fd_rest m), (r, p, s)) \<in> measure (\<lambda>(r, p, s). length s)"
    using first_match_split by (metis (no_types, lifting) case_prod_conv in_measure length_append length_greater_0_conv
      less_add_same_cancel2 add.assoc trans_less_add2)
next
  fix r p s m c t
  assume "first_match r p s = Some m" "fd_rest m = c # t"
  then show "((r, Some c, t), (r, p, s)) \<in> measure (\<lambda>(r, p, s). length s)"
    using first_match_split [of r p s m] by (auto dest!: arg_cong [where f = length])
qed

declare pieces.simps [simp del]

text \<open>\<open>s.match(/r/g)\<close> (empty instead of \<open>null\<close>) and \<open>s.replace(/r/g, t)\<close>.\<close>

definition match_all :: "regex \<Rightarrow> string \<Rightarrow> string list" where
  "match_all r s = map snd (fst (pieces r None s))"

definition replace_all :: "regex \<Rightarrow> string \<Rightarrow> string \<Rightarrow> string" where
  "replace_all r t s = (case pieces r None s of (ps, tail) \<Rightarrow> concat (map (\<lambda>(g, _). g @ t) ps) @ tail)"

text \<open>The group captured by the first match, \<open>s.match(/r/)[1]\<close>.\<close>

definition first_group :: "regex \<Rightarrow> string \<Rightarrow> string option" where
  "first_group r s = (case first_match r None s of None \<Rightarrow> None | Some m \<Rightarrow> fd_group m)"

lemma pieces_split: "pieces r p s = (ps, tail) \<Longrightarrow> s = concat (map (\<lambda>(g, m). g @ m) ps) @ tail"
proof (induction r p s arbitrary: ps tail rule: pieces.induct)
  case (1 r p s)
  show ?case
  proof (cases "first_match r p s")
    case (Some m)
    have s: "s = fd_gap m @ fd_match m @ fd_rest m" by (rule first_match_split [OF Some])
    show ?thesis
    proof (cases "fd_match m = []")
      case True
      show ?thesis
      proof (cases "fd_rest m")
        case Nil
        then have "pieces r p s = ([(fd_gap m, [])], [])" by (simp add: pieces.simps [of r p s] Some True)
        then show ?thesis using "1.prems" True Nil s by auto
      next
        case (Cons c t)
        obtain qs u where q: "pieces r (Some c) t = (qs, u)" by (cases "pieces r (Some c) t")
        have "t = concat (map (\<lambda>(g, m). g @ m) qs) @ u" using 1(2) [OF Some _ Cons q] True by simp
        moreover have "pieces r p s = (case qs of [] \<Rightarrow> ([(fd_gap m, [])], c # u) | (g, w) # qs' \<Rightarrow> ((fd_gap m, []) # (c # g, w) # qs', u))"
          by (auto simp: pieces.simps [of r p s] Some True Cons q split: list.split)
        moreover have "s = fd_gap m @ c # t" using s True Cons by simp
        ultimately show ?thesis using "1.prems" by (cases qs) auto
      qed
    next
      case False
      obtain qs t where q: "pieces r (fd_prev m) (fd_rest m) = (qs, t)" by (cases "pieces r (fd_prev m) (fd_rest m)")
      then have "pieces r p s = ((fd_gap m, fd_match m) # qs, t)" by (simp add: pieces.simps [of r p s] Some False)
      then show ?thesis using 1(1) [OF Some False q] "1.prems" s by auto
    qed
  qed (use "1.prems" in \<open>simp add: pieces.simps [of r p s]\<close>)
qed

lemma match_all_none: "match_all r s = [] \<Longrightarrow> replace_all r t s = s"
  using pieces_split [of r None s] by (auto simp: match_all_def replace_all_def split: prod.splits)

section \<open>Patterns for runs of characters\<close>

text \<open>A prefix followed by at least \<open>n\<close> characters of a class: what such a pattern finds.\<close>

definition run_words :: "string \<Rightarrow> nat \<Rightarrow> (char \<Rightarrow> bool) \<Rightarrow> string set" where
  "run_words pre n p = {pre @ u | u. length u = n \<and> list_all p u}"

lemma rep_cls_nonempty:
  assumes "lo \<le> k" "list_all p (take lo s)" "lo \<le> length s" "\<forall>h. hi = Some h \<longrightarrow> lo \<le> h"
  shows "rep_match k (rmatch (Cls p)) lo hi True (q, s, cap) \<noteq> []"
  using assms
proof (induction k arbitrary: lo hi q s)
  case (Suc k)
  show ?case
  proof (cases lo)
    case (Suc l)
    then obtain c t where s: "s = c # t" using Suc.prems by (cases s) auto
    have "rep_match k (rmatch (Cls p)) l (map_option (\<lambda>n. n - 1) hi) True (Some c, t, cap) \<noteq> []"
      by (rule Suc.IH) (use Suc.prems \<open>lo = Suc l\<close> s in auto)
    moreover have "rmatch (Cls p) (q, s, cap) = [(Some c, t, cap)]" using Suc.prems(2) \<open>lo = Suc l\<close> s by simp
    ultimately show ?thesis using \<open>lo = Suc l\<close> Suc.prems(4) by (auto simp: Let_def simp del: rmatch.simps)
  qed (simp add: Let_def)
qed simp

lemma lit_match: "rmatch (lit w) (q, s, cap) = (if prefix w s then [(if w = [] then q else Some (last w), drop (length w) s, cap)] else [])"
proof (induction w arbitrary: q s)
  case (Cons c w)
  then show ?case by (cases s) auto
qed simp

lemma run_matches:
  assumes "w \<in> run_words pre n p" "\<forall>h. hi = Some h \<longrightarrow> n \<le> h"
  shows "rmatch (Seq (lit pre) (Rep n hi True (Cls p))) (q, w @ s, None) \<noteq> []"
proof -
  obtain u where u: "w = pre @ u" "length u = n" "list_all p u" using assms(1) by (auto simp: run_words_def)
  then show ?thesis using assms(2) by (simp add: lit_match rest_of_def rep_cls_nonempty)
qed

lemma rep_nonempty_consumes:
  assumes "st \<in> set (rep_match k (rmatch (Cls p)) lo hi g (q, s, cap))" "0 < lo"
  shows "length (rest_of st) < length s"
proof (cases k)
  case (Suc j)
  then obtain c t where "s = c # t" "st \<in> set (rep_match j (rmatch (Cls p)) (lo - 1) (map_option (\<lambda>n. n - 1) hi) g (Some c, t, cap))"
    using assms by (cases s) (auto simp: Let_def split: if_splits)
  then show ?thesis using rep_suffix [of "rmatch (Cls p)" st] rmatch_suffix
    by (metis (no_types, lifting) fst_conv length_Cons less_Suc_eq_le rest_of_def snd_conv suffix_length_le)
qed (use assms in simp)

text \<open>Such a pattern never matches the empty text.\<close>

definition eats :: "regex \<Rightarrow> bool" where
  "eats r = (\<forall>q s cap. \<forall>st \<in> set (rmatch r (q, s, cap)). length (rest_of st) < length s)"

lemma run_eats: "0 < n \<Longrightarrow> eats (Seq (lit pre) (Rep n hi True (Cls p)))"
proof -
  assume n: "0 < n"
  have "length (rest_of st) < length s" if "st \<in> set (rmatch (Seq (lit pre) (Rep n hi True (Cls p))) (q, s, cap))" for st q s cap
  proof -
    have "st \<in> set (rep_match (n + length (drop (length pre) s)) (rmatch (Cls p)) n hi True
        (if pre = [] then q else Some (last pre), drop (length pre) s, cap))"
      using that by (auto simp: lit_match rest_of_def split: if_splits)
    from rep_nonempty_consumes [OF this n] show ?thesis by (metis le_trans length_drop diff_le_self not_le)
  qed
  then show ?thesis by (simp add: eats_def)
qed

section \<open>What a replacement leaves\<close>

lemma first_match_none: "first_match r p (a @ b) = None \<Longrightarrow> \<exists>q. rmatch r (q, b, None) = []"
proof (induction a arbitrary: p)
  case Nil
  then show ?case by (auto simp: first_match.simps [of r p b] split: list.splits)
next
  case (Cons c a)
  then show ?case by (auto simp: first_match.simps [of r p "c # a @ b"] split: list.splits)
qed

lemma first_match_gap:
  "first_match r p s = Some m \<Longrightarrow> fd_gap m = a @ b \<Longrightarrow> b \<noteq> [] \<Longrightarrow> \<exists>q. rmatch r (q, b @ fd_match m @ fd_rest m, None) = []"
proof (induction s arbitrary: p m a)
  case Nil
  then show ?case by (auto simp: first_match.simps [of r p "[]"] split: list.splits)
next
  case (Cons c s)
  show ?case
  proof (cases "rmatch r (p, c # s, None)")
    case Nil
    with Cons.prems(1) obtain m' where m: "first_match r (Some c) s = Some m'" "m = m'\<lparr>fd_gap := c # fd_gap m'\<rparr>"
      by (auto simp: first_match.simps [of r p "c # s"])
    show ?thesis
    proof (cases a)
      case Nil
      with Cons.prems m have "c # s = b @ fd_match m @ fd_rest m" using first_match_split [OF m(1)] by auto
      with \<open>rmatch r (p, c # s, None) = []\<close> show ?thesis by metis
    next
      case (Cons d a')
      then show ?thesis using Cons.IH [OF m(1), of a'] Cons.prems m(2) \<open>b \<noteq> []\<close> by auto
    qed
  next
    case (Cons st sts)
    then show ?thesis using Cons.prems by (cases st) (auto simp: first_match.simps [of r p "c # s"])
  qed
qed

lemma first_match_eats: "eats r \<Longrightarrow> first_match r p s = Some m \<Longrightarrow> fd_match m \<noteq> []"
proof (induction s arbitrary: p m)
  case Nil
  have "rmatch r (p, [], None) = []" using \<open>eats r\<close> unfolding eats_def by (metis less_nat_zero_code list.set_intros(1) list.size(3) neq_Nil_conv)
  then show ?case using Nil.prems by (simp add: first_match.simps [of r p "[]"])
next
  case (Cons c s)
  show ?case
  proof (cases "rmatch r (p, c # s, None)")
    case Nil
    then show ?thesis using Cons by (auto simp: first_match.simps [of r p "c # s"])
  next
    case (Cons st sts)
    then have "length (rest_of st) < length (c # s)" using \<open>eats r\<close> unfolding eats_def by (metis list.set_intros(1))
    then show ?thesis using Cons Cons.prems(2) by (cases st) (auto simp: first_match.simps [of r p "c # s"] rest_of_def)
  qed
qed

definition free :: "string set \<Rightarrow> string \<Rightarrow> bool" where
  "free K s = (\<forall>k \<in> K. \<not> sublist k s)"

lemma freeI: "(\<And>k a b. k \<in> K \<Longrightarrow> s = a @ k @ b \<Longrightarrow> False) \<Longrightarrow> free K s"
  unfolding free_def sublist_def by blast

lemma pieces_free:
  assumes "eats r" "\<And>k q s. k \<in> K \<Longrightarrow> rmatch r (q, k @ s, None) \<noteq> []" "[] \<notin> K"
  shows "pieces r p s = (ps, tail) \<Longrightarrow> (\<forall>g \<in> fst ` set ps. free K g) \<and> free K tail"
proof (induction s arbitrary: p ps tail rule: length_induct)
  case (1 s)
  show ?case
  proof (cases "first_match r p s")
    case None
    have "free K s"
    proof (rule freeI)
      fix k a b assume "k \<in> K" "s = a @ k @ b"
      then show False using first_match_none [of r p a "k @ b"] None assms(2) by auto
    qed
    then show ?thesis using "1.prems" None by (simp add: pieces.simps [of r p s])
  next
    case (Some m)
    have ne: "fd_match m \<noteq> []" by (rule first_match_eats [OF assms(1) Some])
    obtain qs where q: "pieces r (fd_prev m) (fd_rest m) = (qs, tail)" "ps = (fd_gap m, fd_match m) # qs"
      using "1.prems" ne Some by (auto simp: pieces.simps [of r p s] split: prod.splits)
    have "length (fd_rest m) < length s" using first_match_split [OF Some] ne by (auto dest!: arg_cong [where f = length])
    then have "(\<forall>g \<in> fst ` set qs. free K g) \<and> free K tail" using "1.IH" q(1) by blast
    moreover have "free K (fd_gap m)"
    proof (rule freeI)
      fix k a b assume k: "k \<in> K" "fd_gap m = a @ k @ b"
      then have "k @ b \<noteq> []" using assms(3) by auto
      from first_match_gap [OF Some k(2) this] show False using assms(2) [OF k(1)] by auto
    qed
    ultimately show ?thesis using q(2) by simp
  qed
qed

text \<open>Words over an alphabet, and texts in which no run of the alphabet is long enough for them.\<close>

fun longest_run :: "(char \<Rightarrow> bool) \<Rightarrow> nat \<Rightarrow> string \<Rightarrow> nat" where
  "longest_run A n [] = n"
| "longest_run A n (c # s) = (if A c then longest_run A (Suc n) s else max n (longest_run A 0 s))"

definition over :: "(char \<Rightarrow> bool) \<Rightarrow> nat \<Rightarrow> string set \<Rightarrow> bool" where
  "over A n K = (\<forall>k \<in> K. list_all A k \<and> n \<le> length k)"

lemma longest_run_mono: "n \<le> longest_run A n s"
  by (induction A n s rule: longest_run.induct) auto

lemma longest_run_le: "m \<le> n \<Longrightarrow> longest_run A m s \<le> longest_run A n s"
  by (induction s arbitrary: m n) (auto simp: max.coboundedI1 le_max_iff_disj)

lemma longest_run_word: "list_all A k \<Longrightarrow> length k + n \<le> longest_run A n (k @ b)"
proof (induction k arbitrary: n)
  case (Cons c k)
  then show ?case using Cons.IH [of "Suc n"] by simp
qed (simp add: longest_run_mono)

lemma longest_run_inside: "list_all A k \<Longrightarrow> length k \<le> longest_run A n (a @ k @ b)"
proof (induction a arbitrary: n)
  case Nil
  then show ?case using longest_run_word [of A k n b] by simp
qed (auto simp: le_max_iff_disj)

lemma short_runs_free: "over A n K \<Longrightarrow> longest_run A 0 s < n \<Longrightarrow> free K s"
proof (rule freeI)
  fix k a b assume "over A n K" "longest_run A 0 s < n" "k \<in> K" "s = a @ k @ b"
  then show False using longest_run_inside [of A k 0 a b] by (auto simp: over_def)
qed

text \<open>A character outside of the alphabet separates.\<close>

lemma free_split:
  assumes "over A n K" "\<not> A c" "free K u" "free K v"
  shows "free K (u @ c # v)"
  unfolding free_def
proof (intro ballI notI)
  fix k assume k: "k \<in> K" "sublist k (u @ c # v)"
  have c: "c \<notin> set k" using assms(1,2) k(1) by (auto simp: over_def list_all_iff)
  have "\<not> sublist k u" "\<not> sublist k v" using assms(3,4) k(1) by (auto simp: free_def)
  with k(2) c show False
    by (auto simp: sublist_append sublist_Cons_right prefix_Cons dest: suffix_imp_sublist)
qed

lemma free_sublist: "free K s \<Longrightarrow> sublist t s \<Longrightarrow> free K t"
  unfolding free_def using sublist_order.order.trans by blast

lemma free_around:
  assumes "over A n K" "\<not> A c" "\<not> A d" "free K u" "free K (c # mid @ [d])" "free K v"
  shows "free K (u @ (c # mid @ [d]) @ v)"
proof -
  have "sublist mid (c # mid @ [d])" using sublist_appendI [of mid "[c]" "[d]"] by simp
  then have "free K (mid @ d # v)" using free_split [OF assms(1,3) free_sublist [OF assms(5)] assms(6)] by blast
  from free_split [OF assms(1,2,4) this] show ?thesis by simp
qed

lemma tags_free:
  assumes "over A n K" "\<not> A c" "\<not> A d" "free K (c # mid @ [d])" "\<forall>g \<in> fst ` set ps. free K g" "free K tail"
  shows "free K (concat (map (\<lambda>(g, _). g @ c # mid @ [d]) ps) @ tail)"
  using assms(5)
proof (induction ps)
  case (Cons x ps)
  obtain g m where x: "x = (g, m)" by (cases x)
  have "free K (concat (map (\<lambda>(g, _). g @ c # mid @ [d]) ps) @ tail)" "free K g" using Cons x by auto
  from free_around [OF assms(1,2,3) this(2) assms(4) this(1)] show ?case using x by simp
qed (simp add: assms(6))

lemma gap_sublist: "pieces r p s = (ps, tail) \<Longrightarrow> g \<in> fst ` set ps \<Longrightarrow> sublist g s"
  and tail_sublist: "pieces r p s = (ps, tail) \<Longrightarrow> sublist tail s"
proof -
  assume p: "pieces r p s = (ps, tail)"
  note s = pieces_split [OF p]
  show "sublist tail s" using s by (metis append_Nil2 sublist_appendI append.assoc)
  assume "g \<in> fst ` set ps"
  then obtain m where "(g, m) \<in> set ps" by auto
  then obtain xs ys where "ps = xs @ (g, m) # ys" by (meson split_list)
  then have "s = concat (map (\<lambda>(g, m). g @ m) xs) @ g @ (m @ concat (map (\<lambda>(g, m). g @ m) ys) @ tail)" using s by simp
  then show "sublist g s" by (metis sublist_appendI)
qed

section \<open>Captured text\<close>

lemma sublist_suffix: "suffix t s \<Longrightarrow> sublist u t \<Longrightarrow> sublist u s"
  by (meson suffix_imp_sublist sublist_order.order.trans)

text \<open>A captured group is part of the text that was searched.\<close>

definition cap_in :: "string \<Rightarrow> rpos \<Rightarrow> bool" where
  "cap_in b st = (suffix (rest_of st) b \<and> (\<forall>g. snd (snd st) = Some g \<longrightarrow> sublist g b))"

lemma rep_cap:
  assumes "\<And>st st'. st' \<in> set (f st) \<Longrightarrow> cap_in b st \<Longrightarrow> cap_in b st'"
  shows "st' \<in> set (rep_match k f lo hi g st) \<Longrightarrow> cap_in b st \<Longrightarrow> cap_in b st'"
proof (induction k arbitrary: lo hi st)
  case (Suc k)
  consider "st' = st" | x where "x \<in> set (f st)" "st' \<in> set (rep_match k f (lo - 1) (map_option (\<lambda>n. n - 1) hi) g x)"
    using Suc.prems(1) by (auto simp: Let_def split: if_splits)
  then show ?case using assms Suc.IH Suc.prems(2) by cases blast+
qed (auto split: if_splits)

lemma rmatch_cap: "st' \<in> set (rmatch r st) \<Longrightarrow> cap_in b st \<Longrightarrow> cap_in b st'"
proof (induction r arbitrary: st st')
  case (Cls p)
  then show ?case by (auto simp: cap_in_def rest_of_def split: prod.splits list.splits if_splits dest: suffix_ConsD)
next
  case (Seq a b')
  then obtain x where "x \<in> set (rmatch a st)" "st' \<in> set (rmatch b' x)" by auto
  then show ?case using Seq.IH Seq.prems(2) by blast
next
  case (Rep lo hi g r)
  then show ?case using rep_cap [of "rmatch r" b] by auto
next
  case (Group r)
  then obtain x where x: "x \<in> set (rmatch r st)" "rest_of st' = rest_of x"
    "snd (snd st') = Some (take (length (rest_of st) - length (rest_of x)) (rest_of st))" by (auto simp: rest_of_def)
  have "suffix (rest_of st) b" using Group.prems(2) by (simp add: cap_in_def)
  then have "sublist (take n (rest_of st)) b" for n by (rule sublist_suffix) (rule sublist_take)
  moreover have "suffix (rest_of x) b" using Group.IH [OF x(1) Group.prems(2)] by (simp add: cap_in_def)
  ultimately show ?case using x(2,3) by (simp add: cap_in_def)
qed (auto split: prod.splits if_splits)

lemma first_match_group_here:
  assumes "rmatch r (p, s, None) = st # sts" "first_match r p s = Some m" "fd_group m = Some g"
  shows "sublist g s"
proof -
  have "cap_in s (p, s, None)" by (simp add: cap_in_def rest_of_def)
  then have "cap_in s st" using rmatch_cap [of st r "(p, s, None)" s] assms(1) by simp
  moreover have "snd (snd st) = Some g" using assms by (cases st) (auto simp: first_match.simps [of r p s])
  ultimately show ?thesis by (simp add: cap_in_def)
qed

lemma first_match_group: "first_match r p s = Some m \<Longrightarrow> fd_group m = Some g \<Longrightarrow> sublist g s"
proof (induction s arbitrary: p m)
  case Nil
  then show ?case
    by (cases "rmatch r (p, [], None)") (simp add: first_match.simps [of r p "[]"], rule first_match_group_here)
next
  case (Cons c s)
  show ?case
  proof (cases "rmatch r (p, c # s, None)")
    case Nil
    with Cons.prems obtain m' where "first_match r (Some c) s = Some m'" "fd_group m' = Some g"
      by (auto simp: first_match.simps [of r p "c # s"])
    then have "sublist g s" by (rule Cons.IH)
    then show ?thesis by (simp add: sublist_Cons_right)
  qed (use Cons.prems first_match_group_here in blast)
qed

lemma first_group_sublist: "first_group r s = Some g \<Longrightarrow> sublist g s"
  by (auto simp: first_group_def split: option.splits intro: first_match_group)

end
