(* ===== verification/Corpus_Ingestor.thy ===== *)
theory Corpus_Ingestor
  imports JSRegex JSPath "HOL-Library.AList"
begin

text \<open>
  The ingestion of a document corpus (\<open>corpus-ingestor.ts\<close>): scanning a directory, redacting and quarantining sensitive
  files, extracting structured knowledge and building the indexes for retrieval, with the four tools and the command
  \<open>/corpus\<close>. A directory is a tree; a file has the size its \<open>stat\<close> reports and its contents, each of which may fail to be
  read. The directories the tools write to hold nothing else and lie outside the scanned directory. A dictionary is an
  association list in the order of insertion; a directory named like a property that every object inherits, for which the
  counts of a scan would be texts, is not considered.
\<close>

section \<open>Sensitive data\<close>

definition upper_digit :: "char \<Rightarrow> bool" where
  "upper_digit c = (is_digit c \<or> 65 \<le> char_code c \<and> char_code c \<le> 90)"

definition word_dash :: "char \<Rightarrow> bool" where
  "word_dash c = (is_word c \<or> c = CHR ''-'')"

definition base64_char :: "char \<Rightarrow> bool" where
  "base64_char c = (is_alnum c \<or> c \<in> set ''/+='')"

definition hex_char :: "char \<Rightarrow> bool" where
  "hex_char c = (is_digit c \<or> c \<in> set ''abcdefABCDEF'')"

definition is_quote :: "char \<Rightarrow> bool" where
  "is_quote c = (c = CHR 0x22 \<or> c = CHR 0x27)"

definition url_char :: "char \<Rightarrow> bool" where
  "url_char c = (\<not> is_space c \<and> \<not> is_quote c \<and> c \<notin> set ''<>'')"

definition spaces :: regex where
  "spaces = many (Cls is_space)"

definition spaces1 :: regex where
  "spaces1 = many1 (Cls is_space)"

definition at_least :: "nat \<Rightarrow> (char \<Rightarrow> bool) \<Rightarrow> regex" where
  "at_least n p = Rep n None True (Cls p)"

definition exactly :: "nat \<Rightarrow> (char \<Rightarrow> bool) \<Rightarrow> regex" where
  "exactly n p = Rep n (Some n) True (Cls p)"

text \<open>\<^verbatim>\<open>\s*[=:]\s*\<close>\<close>

definition assign :: regex where
  "assign = seqs [spaces, any_of ''=:'', spaces]"

definition opt_quote :: regex where
  "opt_quote = opt (Cls is_quote)"

definition key_kind :: regex where
  "key_kind = opt (alts (map (\<lambda>k. Seq (lit k) spaces1) [''RSA'', ''EC'', ''OPENSSH'', ''PGP'']))"

definition SEED_WORDS :: "string list" where
  "SEED_WORDS = [''abandon'', ''ability'', ''able'', ''about'', ''above'', ''absent'', ''absorb'', ''abstract'', ''absurd'',
     ''abuse'', ''access'', ''accident'']"

definition SENSITIVE_PATTERNS :: "(string \<times> regex \<times> string) list" where
  "SENSITIVE_PATTERNS =
     [(''AWS Access Key'', Seq (lit ''AKIA'') (exactly 16 upper_digit), ''critical''),
      (''AWS Secret Key'',
        seqs [lit_ci ''aws_secret_access_key'', assign, opt_quote, exactly 40 base64_char, opt_quote], ''critical''),
      (''Stripe Live Key'', Seq (lit ''sk_live_'') (at_least 24 is_alnum), ''critical''),
      (''Stripe Test Key'', Seq (lit ''sk_test_'') (at_least 24 is_alnum), ''high''),
      (''Private Key Block'',
        seqs [lit ''-----BEGIN'', spaces1, key_kind, lit ''PRIVATE KEY-----'', Rep 0 None False (Cls (\<lambda>_. True)),
              lit ''-----END'', spaces1, key_kind, lit ''PRIVATE KEY-----''], ''critical''),
      (''JWT Token'',
        seqs [lit ''eyJ'', at_least 10 word_dash, lit ''.'', lit ''eyJ'', at_least 10 word_dash, lit ''.'',
              many (Cls word_dash)], ''high''),
      (''Generic API Key'',
        seqs [alts [seqs [lit_ci ''api'', opt (any_of ''_-''), lit_ci ''key''], lit_ci ''apikey''], assign, opt_quote,
              at_least 32 is_alnum, opt_quote], ''high''),
      (''Google API Key'', Seq (lit ''AIza'') (exactly 35 word_dash), ''high''),
      (''MongoDB Connection'',
        seqs [lit_ci ''mongodb'', opt (lit_ci ''+srv''), lit ''://'', many1 (Cls url_char)], ''critical''),
      (''PostgreSQL Connection'',
        seqs [lit_ci ''postgres'', opt (lit_ci ''ql''), lit ''://'', many1 (Cls url_char)], ''critical''),
      (''Password Assignment'',
        seqs [alts [lit_ci ''password'', lit_ci ''passwd'', lit_ci ''pwd''], assign, Cls is_quote,
              at_least 6 (\<lambda>c. \<not> is_quote c \<and> \<not> is_space c), Cls is_quote], ''medium''),
      (''Bearer Token'',
        seqs [lit ''Bearer'', spaces1, at_least 20 word_dash, lit ''.'', at_least 20 word_dash], ''high''),
      (''Session Cookie'',
        seqs [alts (map lit_ci [''session'', ''sess'', ''sid'', ''jsessionid'', ''phpsessid'']), assign, opt_quote,
              at_least 16 base64_char, opt_quote], ''medium''),
      (''Private Key Hex'', Seq (lit ''0x'') (exactly 64 hex_char), ''critical''),
      (''Mnemonic Seed'',
        seqs [Word_boundary, alts (map lit SEED_WORDS),
              at_least 200 (\<lambda>c. 97 \<le> char_code c \<and> char_code c \<le> 122 \<or> is_space c)], ''critical'')]"

section \<open>Tables\<close>

definition RELEVANT_EXTENSIONS :: "string list" where
  "RELEVANT_EXTENSIONS = [''.md'', ''.txt'', ''.json'', ''.js'', ''.ts'', ''.py'', ''.sol'', ''.sh'', ''.yml'', ''.yaml'',
     ''.xml'', ''.html'', ''.log'', ''.jsonl'', ''.har'']"

definition MAX_FILE_SIZE :: nat where
  "MAX_FILE_SIZE = 5 * 1024 * 1024"

definition COLLECTIONS :: "(string \<times> string list) list" where
  "COLLECTIONS =
     [(''api'', [''api'', ''endpoint'', ''rest'', ''graphql'', ''openapi'', ''swagger'', ''route'']),
      (''auth'', [''auth'', ''login'', ''session'', ''oauth'', ''oidc'', ''jwt'', ''token'', ''password'', ''mfa'']),
      (''authorization'', [''authorization'', ''authorisation'', ''rbac'', ''role'', ''permission'', ''tenant'', ''idor'',
         ''bola'', ''privilege'']),
      (''business-logic'', [''business'', ''logic'', ''workflow'', ''invariant'', ''race'', ''state'', ''transaction'']),
      (''cloud'', [''aws'', ''azure'', ''gcp'', ''s3'', ''bucket'', ''iam'', ''cloud'', ''lambda'', ''serverless'']),
      (''mobile'', [''apk'', ''android'', ''ios'', ''mobile'', ''react-native'', ''flutter'', ''swift'', ''kotlin'']),
      (''web'', [''xss'', ''csrf'', ''cors'', ''csp'', ''dom'', ''frontend'', ''browser'', ''cookie'']),
      (''smart-contract'', [''solidity'', ''evm'', ''defi'', ''reentrancy'', ''oracle'', ''flash'', ''contract'', ''abi'']),
      (''reverse-engineering'', [''decompile'', ''disassembl'', ''binary'', ''firmware'', ''reverse'', ''ghidra'', ''jadx'']),
      (''dataflow'', [''dataflow'', ''data flow'', ''trust boundary'', ''sensitive'', ''pii'', ''transformation'']),
      (''attack-chains'', [''chain'', ''exploit'', ''pivot'', ''lateral'', ''escalat'', ''combined'']),
      (''false-positives'', [''false positive'', ''false alarm'', ''duplicate'', ''benign'', ''expected behavior'']),
      (''validation'', [''validation'', ''poc'', ''proof of concept'', ''reproduce'', ''confirm'', ''verify'']),
      (''architecture'', [''architecture'', ''microservice'', ''infrastructure'', ''topology'', ''diagram''])]"

section \<open>Walking a directory\<close>

text \<open>A file: what \<open>stat\<close> and \<open>read\<close> give, each of which may throw (\<open>None\<close>). \<open>FLocked\<close> is a directory that cannot be listed.\<close>

datatype fs_node = FFile "nat option" "string option" | FDir "(string \<times> fs_node) list" | FLocked | FOther

text \<open>A file found: its path, its names below the start, size and contents.\<close>

record corpus_file =
  cf_path :: string
  cf_rel :: "string list"
  cf_size :: nat
  cf_content :: "string option"

definition skipped_name :: "string \<Rightarrow> bool" where
  "skipped_name name = (prefix ''.'' name \<or> name = ''node_modules'' \<or> name = ''__pycache__'')"

definition relevant_name :: "string \<Rightarrow> bool" where
  "relevant_name name = (toLowerCase (path_extname name) \<in> set RELEVANT_EXTENSIONS)"

text \<open>An exception in the loop is caught outside of it: the files found so far are returned.\<close>

fun walkDir :: "string \<Rightarrow> string list \<Rightarrow> int \<Rightarrow> int \<Rightarrow> fs_node \<Rightarrow> corpus_file list"
  and walk_entries :: "string \<Rightarrow> string list \<Rightarrow> int \<Rightarrow> int \<Rightarrow> (string \<times> fs_node) list \<Rightarrow> corpus_file list" where
  "walkDir dir rel maxDepth depth node =
     (if depth > maxDepth then []
      else case node of FDir entries \<Rightarrow> walk_entries dir rel maxDepth depth entries | _ \<Rightarrow> [])"
| "walk_entries dir rel maxDepth depth [] = []"
| "walk_entries dir rel maxDepth depth ((name, node) # es) =
     (if skipped_name name then walk_entries dir rel maxDepth depth es
      else
        (let fullPath = path_join [dir, name]; here = rel @ [name] in
         case node of
           FDir _ \<Rightarrow> walkDir fullPath here maxDepth (depth + 1) node @ walk_entries dir rel maxDepth depth es
         | FLocked \<Rightarrow> walk_entries dir rel maxDepth depth es
         | FFile sz content \<Rightarrow>
             if relevant_name name then
               (case sz of
                  None \<Rightarrow> []
                | Some n \<Rightarrow>
                    if n \<le> MAX_FILE_SIZE
                    then \<lparr>cf_path = fullPath, cf_rel = here, cf_size = n, cf_content = content\<rparr> #
                         walk_entries dir rel maxDepth depth es
                    else walk_entries dir rel maxDepth depth es)
             else walk_entries dir rel maxDepth depth es
         | FOther \<Rightarrow> walk_entries dir rel maxDepth depth es))"

section \<open>Classification, redaction, extraction\<close>

definition classifyCollection :: "string \<Rightarrow> string \<Rightarrow> string list" where
  "classifyCollection filePath content =
     (let lowerPath = toLowerCase filePath; lowerContent = take 5000 (toLowerCase content);
          matched = map fst (filter (\<lambda>(_, keywords). list_ex (\<lambda>kw. sublist kw lowerPath \<or> sublist kw lowerContent) keywords)
                      COLLECTIONS)
      in if matched \<noteq> [] then matched else [''general''])"

record sensitive_finding =
  sn_name :: string
  sn_severity :: string
  sn_count :: nat

definition redaction_tag :: "string \<Rightarrow> string" where
  "redaction_tag name = ''[REDACTED:'' @ name @ '']''"

text \<open>The matches are counted in the original text; the replacement runs on the text as redacted so far.\<close>

definition sanitize_step ::
  "string \<Rightarrow> string \<times> regex \<times> string \<Rightarrow> string \<times> sensitive_finding list \<Rightarrow> string \<times> sensitive_finding list" where
  "sanitize_step content pat st =
     (case pat of (name, regex, severity) \<Rightarrow>
        (let matches = match_all regex content in
         if matches \<noteq> [] then
           (replace_all regex (redaction_tag name) (fst st),
            snd st @ [\<lparr>sn_name = name, sn_severity = severity, sn_count = length matches\<rparr>])
         else st))"

definition sanitizeContent :: "string \<Rightarrow> string \<times> sensitive_finding list" where
  "sanitizeContent content = fold (sanitize_step content) SENSITIVE_PATTERNS (content, [])"

record extracted =
  ex_vuln_class :: "string option"
  ex_root_cause :: "string option"
  ex_prerequisites :: "string list option"
  ex_impact :: "string option"
  ex_remediation :: "string option"
  ex_false_positive_indicators :: "string list option"

definition VULN_CLASSES :: "string list" where
  "VULN_CLASSES = [''idor'', ''bola'', ''ssrf'', ''xss'', ''sqli'', ''sql injection'', ''csrf'', ''rce'', ''lfi'', ''rfi'',
     ''reentrancy'', ''authentication bypass'', ''authorization bypass'', ''privilege escalation'', ''mass assignment'',
     ''race condition'', ''open redirect'', ''information disclosure'', ''insecure deserialization'']"

text \<open>\<^verbatim>\<open>head[:\s]+([^\n.]+)\<close>\<close>

definition labelled :: "regex \<Rightarrow> regex" where
  "labelled head =
     seqs [head, many1 (Cls (\<lambda>c. c = CHR '':'' \<or> is_space c)), Group (many1 (Cls (\<lambda>c. c \<noteq> CHR 0x0A \<and> c \<noteq> CHR ''.'')))]"

definition ROOT_CAUSE_PATTERNS :: "regex list" where
  "ROOT_CAUSE_PATTERNS =
     [labelled (lit_ci ''root cause''), labelled (lit_ci ''caused by''),
      labelled (seqs [lit_ci ''the '', alts (map lit_ci [''vulnerability'', ''issue'', ''bug'']), lit_ci '' '',
                      alts (map lit_ci [''is'', ''was'', ''occurs'']), lit_ci '' '',
                      alts (map lit_ci [''due to'', ''because'', ''when''])])]"

text \<open>The first pattern of a list that matches.\<close>

fun first_of :: "regex list \<Rightarrow> string \<Rightarrow> string option" where
  "first_of [] s = None"
| "first_of (r # rs) s = (case first_group r s of Some g \<Rightarrow> Some g | None \<Rightarrow> first_of rs s)"

definition normalizeFile :: "string \<Rightarrow> extracted" where
  "normalizeFile content =
     (let lower = toLowerCase content in
      \<lparr>ex_vuln_class = find (\<lambda>vc. sublist vc lower) VULN_CLASSES,
       ex_root_cause = map_option trim (first_of ROOT_CAUSE_PATTERNS content),
       ex_prerequisites = map_option (\<lambda>g. [trim g])
         (first_group (labelled (alts [lit_ci ''prerequisite'', Seq (lit_ci ''require'') (opt (lit_ci ''s'')), lit_ci ''precondition''])) content),
       ex_impact = map_option trim (first_group (labelled (alts (map lit_ci [''impact'', ''severity'', ''consequence'']))) content),
       ex_remediation = map_option trim
         (first_group (labelled (alts (map lit_ci [''remediation'', ''fix'', ''mitigation'', ''solution'']))) content),
       ex_false_positive_indicators =
         (if sublist ''false positive'' lower \<or> sublist ''benign'' lower \<or> sublist ''expected behavior'' lower
          then Some [''mentioned in document''] else None)\<rparr>)"

text \<open>\<open>Object.keys(extracted).length > 0\<close>.\<close>

definition has_knowledge :: "extracted \<Rightarrow> bool" where
  "has_knowledge e =
     (ex_vuln_class e \<noteq> None \<or> ex_root_cause e \<noteq> None \<or> ex_prerequisites e \<noteq> None \<or> ex_impact e \<noteq> None \<or>
      ex_remediation e \<noteq> None \<or> ex_false_positive_indicators e \<noteq> None)"

section \<open>The files of the tools\<close>

record scan_record =
  sc_directory :: string
  sc_timestamp :: int
  sc_file_count :: nat
  sc_total_size :: nat
  sc_by_extension :: "(string \<times> nat) list"
  sc_by_directory :: "(string \<times> nat) list"

record sanitize_report =
  rep_directory :: string
  rep_files_scanned :: nat
  rep_files_with_sensitive_data :: nat
  rep_total_sensitive_findings :: nat
  rep_dry_run :: bool
  rep_findings :: "(string \<times> sensitive_finding list) list"

record norm_item =
  ni_id :: string
  ni_source_file :: string
  ni_collections :: "string list"
  ni_extracted :: extracted
  ni_content_preview :: string

record index_item =
  ix_id :: string
  ix_source_file :: string
  ix_vuln_class :: "string option"
  ix_root_cause :: "string option"
  ix_impact :: "string option"
  ix_remediation :: "string option"
  ix_content_preview :: string

text \<open>
  What a path leads to, the two directories of copies (which always exist, \<open>ensureDirs\<close>), the record of the last scan in
  the catalog, the report, the normalized items and the index of each collection.
\<close>

record corpus_world =
  cw_home :: string
  cw_data :: string
  cw_tree :: "string \<Rightarrow> fs_node option"
  cw_sensitive :: "(string \<times> fs_node) list"
  cw_sanitized :: "(string \<times> fs_node) list"
  cw_last_scan :: "scan_record option"
  cw_report :: "sanitize_report option"
  cw_normalized :: "norm_item list option"
  cw_indexes :: "(string \<times> index_item list) list"

definition sanitized_dir :: "corpus_world \<Rightarrow> string" where
  "sanitized_dir w = path_join [cw_data w, ''corpus-sanitized'']"

definition node_at :: "corpus_world \<Rightarrow> string \<Rightarrow> fs_node option" where
  "node_at w dir = (if dir = sanitized_dir w then Some (FDir (cw_sanitized w)) else cw_tree w dir)"

definition files_below :: "corpus_world \<Rightarrow> string \<Rightarrow> int \<Rightarrow> corpus_file list" where
  "files_below w dir maxDepth = (case node_at w dir of None \<Rightarrow> [] | Some n \<Rightarrow> walkDir dir [] maxDepth 0 n)"

text \<open>\<open>dir.replace(/^~/, home) || default\<close>.\<close>

definition chosen_dir :: "corpus_world \<Rightarrow> string option \<Rightarrow> string \<Rightarrow> string" where
  "chosen_dir w p d = (case map_option (expand_home (cw_home w)) p of Some s \<Rightarrow> if s = [] then d else s | None \<Rightarrow> d)"

definition knowledge_dir :: "corpus_world \<Rightarrow> string" where
  "knowledge_dir w = path_join [cw_home w, ''Documents'', ''knowledge'']"

section \<open>corpus\_scan\<close>

definition ext_key :: "corpus_file \<Rightarrow> string" where
  "ext_key f = (let e = toLowerCase (path_extname (cf_path f)) in if e = [] then ''(no ext)'' else e)"

definition dir_key :: "string \<Rightarrow> corpus_file \<Rightarrow> string" where
  "dir_key dir f =
     (let d = hd (split_on (CHR ''/'') (remove_first (dir @ ''/'') (path_dirname (cf_path f)))) in if d = [] then ''.'' else d)"

datatype scan_response = No_directory string | Scanned scan_record

definition corpus_scan :: "int \<Rightarrow> string option \<Rightarrow> int option \<Rightarrow> corpus_world \<Rightarrow> corpus_world \<times> scan_response" where
  "corpus_scan now directory max_depth w =
     (let dir = chosen_dir w directory (knowledge_dir w); maxDepth = num_or max_depth 5 in
      if node_at w dir = None then (w, No_directory dir)
      else
        (let files = files_below w dir maxDepth;
             r = \<lparr>sc_directory = dir, sc_timestamp = now, sc_file_count = length files,
                  sc_total_size = sum_list (map cf_size files),
                  sc_by_extension = fold (\<lambda>f. bump (ext_key f)) files [],
                  sc_by_directory = fold (\<lambda>f. bump (dir_key dir f)) files []\<rparr>
         in (w\<lparr>cw_last_scan := Some r\<rparr>, Scanned r)))"

section \<open>corpus\_sanitize\<close>

text \<open>
  Writing a file below a directory, with the directories on the way; it throws (\<open>None\<close>) where a name on the way is a
  file, or the target is a directory.
\<close>

fun put_below :: "string list \<Rightarrow> fs_node \<Rightarrow> (string \<times> fs_node) list \<Rightarrow> (string \<times> fs_node) list option" where
  "put_below [] f es = None"
| "put_below [name] f es = (case map_of es name of Some (FDir _) \<Rightarrow> None | _ \<Rightarrow> Some (AList.update name f es))"
| "put_below (d # n # ns) f es =
     (case map_of es d of
        None \<Rightarrow> map_option (\<lambda>sub. AList.update d (FDir sub) es) (put_below (n # ns) f [])
      | Some (FDir sub) \<Rightarrow> map_option (\<lambda>sub'. AList.update d (FDir sub') es) (put_below (n # ns) f sub)
      | Some _ \<Rightarrow> None)"

text \<open>The size of a text in UTF-8.\<close>

definition utf8_size :: "string \<Rightarrow> nat" where
  "utf8_size s = sum_list (map (\<lambda>c. if char_code c < 128 then 1 else 2) s)"

definition text_file :: "string \<Rightarrow> fs_node" where
  "text_file s = FFile (Some (utf8_size s)) (Some s)"

record sanitize_state =
  sa_sensitive :: "(string \<times> fs_node) list"
  sa_sanitized :: "(string \<times> fs_node) list"
  sa_scanned :: nat
  sa_with_findings :: nat
  sa_total :: nat
  sa_findings :: "(string \<times> sensitive_finding list) list"

definition put_or_keep :: "string list \<Rightarrow> string \<Rightarrow> (string \<times> fs_node) list \<Rightarrow> (string \<times> fs_node) list" where
  "put_or_keep rel s es = (case put_below rel (text_file s) es of Some es' \<Rightarrow> es' | None \<Rightarrow> es)"

text \<open>One file: when the copy to the quarantine throws, nothing is written to the sanitized directory either.\<close>

definition sanitize_file :: "string \<Rightarrow> bool \<Rightarrow> corpus_file \<Rightarrow> sanitize_state \<Rightarrow> sanitize_state" where
  "sanitize_file dir dryRun f st =
     (case cf_content f of
        None \<Rightarrow> st
      | Some content \<Rightarrow>
          (let (sanitized, findings) = sanitizeContent content; st1 = st\<lparr>sa_scanned := sa_scanned st + 1\<rparr> in
           if findings \<noteq> [] then
             (let st2 = st1\<lparr>sa_with_findings := sa_with_findings st1 + 1,
                         sa_total := sa_total st1 + sum_list (map sn_count findings),
                         sa_findings := sa_findings st1 @ [(remove_first (dir @ ''/'') (cf_path f), findings)]\<rparr> in
              if dryRun then st2
              else
                (case put_below (cf_rel f) (text_file content) (sa_sensitive st2) of
                   None \<Rightarrow> st2
                 | Some q \<Rightarrow> st2\<lparr>sa_sensitive := q, sa_sanitized := put_or_keep (cf_rel f) sanitized (sa_sanitized st2)\<rparr>))
           else if \<not> dryRun then st1\<lparr>sa_sanitized := put_or_keep (cf_rel f) content (sa_sanitized st1)\<rparr>
           else st1))"

definition corpus_sanitize ::
  "string option \<Rightarrow> int option \<Rightarrow> bool option \<Rightarrow> corpus_world \<Rightarrow> corpus_world \<times> sanitize_report" where
  "corpus_sanitize directory max_files dry_run w =
     (let dir = chosen_dir w directory (knowledge_dir w); dryRun = or_else dry_run False;
          files = slice0 (num_or max_files 500) (files_below w dir 5);
          st = fold (sanitize_file dir dryRun) files
                 \<lparr>sa_sensitive = cw_sensitive w, sa_sanitized = cw_sanitized w, sa_scanned = 0, sa_with_findings = 0,
                  sa_total = 0, sa_findings = []\<rparr>;
          report = \<lparr>rep_directory = dir, rep_files_scanned = sa_scanned st, rep_files_with_sensitive_data = sa_with_findings st,
                    rep_total_sensitive_findings = sa_total st, rep_dry_run = dryRun, rep_findings = take 50 (sa_findings st)\<rparr>
      in (w\<lparr>cw_sensitive := sa_sensitive st, cw_sanitized := sa_sanitized st, cw_report := Some report\<rparr>, report))"

section \<open>corpus\_normalize\<close>

definition norm_id :: "nat \<Rightarrow> string" where
  "norm_id n = ''N-'' @ padStart 4 (CHR ''0'') (nat_to_string n)"

definition normalize_file :: "string \<Rightarrow> corpus_file \<Rightarrow> norm_item list \<Rightarrow> norm_item list" where
  "normalize_file dir f normalized =
     (case cf_content f of
        None \<Rightarrow> normalized
      | Some content \<Rightarrow>
          (let e = normalizeFile content in
           if has_knowledge e then
             normalized @
               [\<lparr>ni_id = norm_id (length normalized + 1), ni_source_file = remove_first (dir @ ''/'') (cf_path f),
                 ni_collections = classifyCollection (cf_path f) content, ni_extracted = e,
                 ni_content_preview = take 500 content\<rparr>]
           else normalized))"

datatype normalize_response = Sanitize_first | Normalized nat nat "(string \<times> nat) list"

definition corpus_normalize :: "string option \<Rightarrow> int option \<Rightarrow> corpus_world \<Rightarrow> corpus_world \<times> normalize_response" where
  "corpus_normalize directory max_files w =
     (let dir = chosen_dir w directory (sanitized_dir w) in
      if node_at w dir = None then (w, Sanitize_first)
      else
        (let files = slice0 (num_or max_files 500) (files_below w dir 5);
             items = fold (normalize_file dir) files [];
             byClass = fold (\<lambda>n t. case ex_vuln_class (ni_extracted n) of Some vc \<Rightarrow> bump vc t | None \<Rightarrow> t) items []
         in (w\<lparr>cw_normalized := Some items\<rparr>, Normalized (length files) (length items) byClass)))"

section \<open>corpus\_index\<close>

definition index_item_of :: "norm_item \<Rightarrow> index_item" where
  "index_item_of n =
     \<lparr>ix_id = ni_id n, ix_source_file = ni_source_file n, ix_vuln_class = ex_vuln_class (ni_extracted n),
      ix_root_cause = ex_root_cause (ni_extracted n), ix_impact = ex_impact (ni_extracted n),
      ix_remediation = ex_remediation (ni_extracted n), ix_content_preview = ni_content_preview n\<rparr>"

definition push_index :: "norm_item \<Rightarrow> string \<Rightarrow> (string \<times> index_item list) list \<Rightarrow> (string \<times> index_item list) list" where
  "push_index n coll ixs = AList.update coll (or_else (map_of ixs coll) [] @ [index_item_of n]) ixs"

definition build_indexes :: "norm_item list \<Rightarrow> (string \<times> index_item list) list" where
  "build_indexes items =
     fold (\<lambda>n. fold (push_index n) (ni_collections n)) items (map (\<lambda>(c, _). (c, [])) COLLECTIONS @ [(''general'', [])])"

datatype index_response = Normalize_first | Indexed nat "(string \<times> nat) list" nat

definition corpus_index :: "corpus_world \<Rightarrow> corpus_world \<times> index_response" where
  "corpus_index w =
     (case cw_normalized w of
        None \<Rightarrow> (w, Normalize_first)
      | Some items \<Rightarrow>
          (let indexes = build_indexes items; summary = map (\<lambda>(c, is). (c, length is)) indexes in
           (w\<lparr>cw_indexes := fold (\<lambda>(c, is). AList.update c is) indexes (cw_indexes w)\<rparr>,
            Indexed (length indexes) summary (sum_list (map snd summary)))))"

section \<open>/corpus\<close>

datatype corpus_reply =
    Corpus_status "(string \<times> nat \<times> nat) option" "(string \<times> nat) list" "nat option"
  | Run_tool string
  | Corpus_usage

definition corpus_command :: "string \<Rightarrow> corpus_world \<Rightarrow> corpus_reply" where
  "corpus_command args w =
     (if trim args = [] then
        Corpus_status
          (map_option (\<lambda>r. (sc_directory r, sc_file_count r, sc_total_size r)) (cw_last_scan w))
          (map (\<lambda>(c, is). (c @ ''.json'', length is)) (cw_indexes w))
          (map_option rep_files_with_sensitive_data (cw_report w))
      else
        (let cmd = hd (split_ws (trim args)) in
         if cmd = ''scan'' then Run_tool ''corpus_scan''
         else if cmd = ''sanitize'' then Run_tool ''corpus_sanitize''
         else if cmd = ''normalize'' then Run_tool ''corpus_normalize''
         else if cmd = ''index'' then Run_tool ''corpus_index''
         else Corpus_usage))"

end
