(* ===== verification/JSJson.thy ===== *)
theory JSJson
  imports JSNumber "HOL-Library.AList"
begin

text \<open>
  JSON values as the sources handle them without knowing their shape: field access, the operators for missing values,
  conversion to text and \<open>JSON.stringify\<close>. A value is a \<open>json option\<close>, where \<open>None\<close> is \<open>undefined\<close>; an object lists its
  properties in the order in which the engine enumerates them. How a number is written is an argument of the
  conversions.
\<close>

section \<open>Values of unknown shape\<close>

text \<open>\<open>v.k\<close>, which throws on \<open>undefined\<close> and \<open>null\<close>; and \<open>v?.k\<close>.\<close>

fun member :: "json option \<Rightarrow> string \<Rightarrow> js_error + json option" where
  "member None k = Inl TypeError"
| "member (Some JNull) k = Inl TypeError"
| "member (Some j) k = Inr (json_field j k)"

fun opt_member :: "json option \<Rightarrow> string \<Rightarrow> json option" where
  "opt_member None k = None"
| "opt_member (Some j) k = json_field j k"

text \<open>\<open>v ?? d\<close>.\<close>

fun nullish :: "json option \<Rightarrow> json option \<Rightarrow> json option" where
  "nullish None d = d"
| "nullish (Some JNull) d = d"
| "nullish v d = v"

text \<open>\<open>v.includes(s)\<close> on a string or an array; other values have no such method.\<close>

fun js_includes :: "json option \<Rightarrow> string \<Rightarrow> js_error + bool" where
  "js_includes (Some (JStr t)) s = Inr (sublist s t)"
| "js_includes (Some (JArr xs)) s = Inr (JStr s \<in> set xs)"
| "js_includes _ s = Inl TypeError"

text \<open>The values a loop \<open>for (const x of v)\<close> runs over.\<close>

fun iterate :: "json \<Rightarrow> js_error + json list" where
  "iterate (JArr xs) = Inr xs"
| "iterate (JStr s) = Inr (map (\<lambda>c. JStr [c]) s)"
| "iterate _ = Inl TypeError"

text \<open>\<open>xs.filter(p)\<close> with a test that may throw.\<close>

fun try_filter :: "('a \<Rightarrow> js_error + bool) \<Rightarrow> 'a list \<Rightarrow> js_error + 'a list" where
  "try_filter p [] = Inr []"
| "try_filter p (x # xs) =
     (case p x of
        Inl e \<Rightarrow> Inl e
      | Inr b \<Rightarrow> (case try_filter p xs of Inl e \<Rightarrow> Inl e | Inr ys \<Rightarrow> Inr (if b then x # ys else ys)))"

text \<open>\<open>xs.slice(a, b)\<close> with bounds that may be NaN (\<open>None\<close>), which counts as zero, or negative.\<close>

definition bound :: "nat \<Rightarrow> int option \<Rightarrow> nat" where
  "bound n v = (case v of None \<Rightarrow> 0 | Some i \<Rightarrow> if i < 0 then nat (int n + i) else min (nat i) n)"

definition js_slice :: "int option \<Rightarrow> int option \<Rightarrow> 'a list \<Rightarrow> 'a list" where
  "js_slice a b xs = (let s = bound (length xs) a in take (bound (length xs) b - s) (drop s xs))"

section \<open>Text of a value\<close>

text \<open>\<open>JSON.stringify(s)\<close> of a string: quotes, backslashes and control characters are escaped.\<close>

definition hex_lower :: "nat \<Rightarrow> char" where
  "hex_lower n = (if n < 10 then char_of (48 + n) else char_of (87 + n))"

definition quote_char :: "char \<Rightarrow> string" where
  "quote_char c =
     (if c = CHR 0x22 then [CHR 0x5C, CHR 0x22]
      else if c = CHR 0x5C then [CHR 0x5C, CHR 0x5C]
      else if c = CHR 0x08 then [CHR 0x5C, CHR ''b'']
      else if c = CHR 0x0C then [CHR 0x5C, CHR ''f'']
      else if c = CHR 0x0A then [CHR 0x5C, CHR ''n'']
      else if c = CHR 0x0D then [CHR 0x5C, CHR ''r'']
      else if c = CHR 0x09 then [CHR 0x5C, CHR ''t'']
      else if char_code c < 32 then [CHR 0x5C, CHR ''u'', CHR ''0'', CHR ''0'', hex_lower (char_code c div 16), hex_lower (char_code c mod 16)]
      else [c])"

definition quote_string :: "string \<Rightarrow> string" where
  "quote_string s = [CHR 0x22] @ concat (map quote_char s) @ [CHR 0x22]"

text \<open>\<open>JSON.stringify(j)\<close> without indentation.\<close>

fun stringify :: "(rat \<Rightarrow> string) \<Rightarrow> json \<Rightarrow> string"
  and stringify_all :: "(rat \<Rightarrow> string) \<Rightarrow> json list \<Rightarrow> string list"
  and stringify_fields :: "(rat \<Rightarrow> string) \<Rightarrow> (string \<times> json) list \<Rightarrow> string list" where
  "stringify num JNull = ''null''"
| "stringify num (JBool b) = (if b then ''true'' else ''false'')"
| "stringify num (JNum n) = num n"
| "stringify num (JStr s) = quote_string s"
| "stringify num (JArr xs) = ''['' @ join '','' (stringify_all num xs) @ '']''"
| "stringify num (JObj fs) = ''{'' @ join '','' (stringify_fields num fs) @ ''}''"
| "stringify_all num [] = []"
| "stringify_all num (x # xs) = stringify num x # stringify_all num xs"
| "stringify_fields num [] = []"
| "stringify_fields num ((k, v) # fs) = (quote_string k @ '':'' @ stringify num v) # stringify_fields num fs"

text \<open>\<open>String(v)\<close>, which is also the name a value has as a property key.\<close>

fun js_text :: "(rat \<Rightarrow> string) \<Rightarrow> json option \<Rightarrow> string"
  and js_texts :: "(rat \<Rightarrow> string) \<Rightarrow> json list \<Rightarrow> string list" where
  "js_text num None = ''undefined''"
| "js_text num (Some JNull) = ''null''"
| "js_text num (Some (JBool b)) = (if b then ''true'' else ''false'')"
| "js_text num (Some (JNum n)) = num n"
| "js_text num (Some (JStr s)) = s"
| "js_text num (Some (JArr xs)) = join '','' (js_texts num xs)"
| "js_text num (Some (JObj fs)) = ''[object Object]''"
| "js_texts num [] = []"
| "js_texts num (JNull # xs) = [] # js_texts num xs"
| "js_texts num (x # xs) = js_text num (Some x) # js_texts num xs"

text \<open>Truth of a value that may be undefined, and \<open>v || d\<close>.\<close>

definition js_truthy :: "json option \<Rightarrow> bool" where
  "js_truthy v = (case v of None \<Rightarrow> False | Some j \<Rightarrow> json_truthy j)"

definition js_or :: "json option \<Rightarrow> json \<Rightarrow> json" where
  "js_or v d = (if js_truthy v then the v else d)"

text \<open>The text of a file that should hold JSON, and \<open>JSON.parse\<close> of it.\<close>

datatype json_text = Bad_json | Good_json json

definition parse_json :: "json_text \<Rightarrow> js_error + json" where
  "parse_json t = (case t of Bad_json \<Rightarrow> Inl SyntaxError | Good_json j \<Rightarrow> Inr j)"

lemma quote_plain: "list_all (\<lambda>c. quote_char c = [c]) s \<Longrightarrow> concat (map quote_char s) = s"
  by (induction s) auto

lemma quoted: "list_all (\<lambda>c. quote_char c = [c]) s \<Longrightarrow> quote_string s = [CHR 0x22] @ s @ [CHR 0x22]"
  by (simp add: quote_string_def quote_plain)

lemma sublist_join: "w \<in> set ws \<Longrightarrow> sublist w (join sep ws)"
proof (induction sep ws rule: join.induct)
  case (3 sep a b ws)
  consider "w = a" | "w \<in> set (b # ws)" using "3.prems" by auto
  then show ?case
  proof cases
    case 1
    then show ?thesis using sublist_appendI [of a "[]"] by simp
  next
    case 2
    obtain u v where "join sep (b # ws) = u @ w @ v" using "3.IH" [OF 2] by (auto simp: sublist_def)
    then have "join sep (a # b # ws) = (a @ sep @ u) @ w @ v" by simp
    then show ?thesis by (metis sublist_appendI)
  qed
qed auto

text \<open>The text of a field is part of the text of the object.\<close>

lemma field_in_text:
  assumes "(k, v) \<in> set fs"
  shows "sublist (stringify num v) (stringify num (JObj fs))"
proof -
  have "quote_string k @ '':'' @ stringify num v \<in> set (stringify_fields num fs)" using assms
    by (induction fs) auto
  then have "sublist (quote_string k @ '':'' @ stringify num v) (join '','' (stringify_fields num fs))" by (rule sublist_join)
  moreover have "sublist (stringify num v) (quote_string k @ '':'' @ stringify num v)"
    using sublist_appendI [of "stringify num v" "quote_string k @ '':''" "[]"] by simp
  moreover have "sublist (join '','' (stringify_fields num fs)) (stringify num (JObj fs))"
    unfolding stringify.simps(6) by (rule sublist_appendI)
  ultimately show ?thesis by (meson sublist_order.order.trans)
qed

end
