(* ===== verification/Security_Rag.thy ===== *)
theory Security_Rag
  imports JSJson JSPath
begin

text \<open>
  Retrieval over the knowledge indexes (\<open>security-rag.ts\<close>): the tokenizer and the score, the four tools and the command
  \<open>/rag\<close>. The files are a map from paths to what they hold, the directories a map from paths to their listings. What the
  files contain is unknown to the code, so values are JSON and every access that can throw does. Scores are real numbers;
  how a number is written into a text is an argument (\<open>num\<close>).
\<close>

section \<open>Tokens and scores\<close>

definition STOP_WORDS :: "string list" where
  "STOP_WORDS = [''the'', ''and'', ''for'', ''are'', ''but'', ''not'', ''you'', ''all'', ''can'', ''had'', ''her'', ''was'', ''one'',
     ''our'', ''out'', ''has'', ''have'', ''from'', ''this'', ''that'', ''with'', ''will'', ''your'', ''they'', ''been'', ''them'',
     ''were'', ''what'', ''about'', ''which'', ''when'', ''would'', ''there'', ''their'', ''each'', ''make'', ''like'', ''does'',
     ''into'', ''over'', ''more'', ''some'', ''than'', ''only'', ''very'', ''also'']"

text \<open>\<^verbatim>\<open>[^\w\s-]\<close> becomes a space.\<close>

definition rag_char :: "char \<Rightarrow> char" where
  "rag_char c = (if is_word c \<or> is_space c \<or> c = CHR ''-'' then c else CHR '' '')"

definition rag_tokenize :: "string \<Rightarrow> string list" where
  "rag_tokenize text =
     filter (\<lambda>t. t \<notin> set STOP_WORDS) (filter (\<lambda>t. length t > 2) (split_ws (map rag_char (toLowerCase text))))"

definition termFrequency :: "string list \<Rightarrow> (string \<times> nat) list" where
  "termFrequency tokens = fold bump tokens []"

definition scoreDocument :: "string list \<Rightarrow> string \<Rightarrow> real" where
  "scoreDocument queryTokens docText =
     (let docTokens = rag_tokenize docText; docTf = termFrequency docTokens; queryTf = termFrequency queryTokens;
          score = foldl (\<lambda>score (term, qFreq).
                    let dFreq = or_else (map_of docTf term) 0 in
                    if dFreq > 0 then score + real qFreq * (1 + ln (real dFreq)) else score) 0 queryTf
      in score / real (max (length docTokens) 1) * 100)"

section \<open>Files\<close>

record rag_world =
  rw_data :: string
  rw_files :: "string \<Rightarrow> json_text option"
  rw_dirs :: "string \<Rightarrow> string list option"

definition knowledge_indexes :: "rag_world \<Rightarrow> string" where
  "knowledge_indexes w = path_join [rw_data w, ''knowledge-indexes'']"

definition patterns_path :: "rag_world \<Rightarrow> string" where
  "patterns_path w = path_join [path_join [rw_data w, ''patterns''], ''patterns.json'']"

definition false_positives_dir :: "rag_world \<Rightarrow> string" where
  "false_positives_dir w = path_join [rw_data w, ''false-positives'']"

definition cases_path :: "rag_world \<Rightarrow> string" where
  "cases_path w = path_join [path_join [rw_data w, ''benchmark''], ''cases.json'']"

text \<open>The array methods \<open>filter\<close> and \<open>map\<close> exist on arrays only.\<close>

fun as_array :: "json \<Rightarrow> js_error + json list" where
  "as_array (JArr xs) = Inr xs"
| "as_array _ = Inl TypeError"

definition loadCollection :: "string \<Rightarrow> rag_world \<Rightarrow> json" where
  "loadCollection name w =
     (case rw_files w (path_join [knowledge_indexes w, name @ ''.json'']) of
        Some (Good_json data) \<Rightarrow> (case member (Some data) ''items'' of Inr v \<Rightarrow> js_or v (JArr []) | Inl _ \<Rightarrow> JArr [])
      | _ \<Rightarrow> JArr [])"

definition is_index :: "string \<Rightarrow> bool" where
  "is_index file = (suffix ''.json'' file \<and> file \<noteq> ''catalog.json'')"

definition base_json :: "string \<Rightarrow> string" where
  "base_json file = take (length file - 5) file"

definition loadAllCollections :: "rag_world \<Rightarrow> (string \<times> json) list" where
  "loadAllCollections w =
     (case rw_dirs w (knowledge_indexes w) of
        None \<Rightarrow> []
      | Some files \<Rightarrow>
          fold (\<lambda>file result. if is_index file then AList.update (base_json file) (loadCollection (base_json file) w) result else result)
            files [])"

section \<open>sec\_rag\_query\<close>

record rag_result =
  rr_source :: json
  rr_collection :: string
  rr_score :: real
  rr_confidence :: real
  rr_vuln_class :: "json option"
  rr_root_cause :: "json option"
  rr_impact :: "json option"
  rr_remediation :: "json option"
  rr_content_preview :: "json option"

text \<open>\<open>Math.round(x * 100) / 100\<close>.\<close>

definition round2 :: "real \<Rightarrow> real" where
  "round2 x = of_int \<lfloor>x * 100 + 1 / 2\<rfloor> / 100"

text \<open>\<open>${v || ""}\<close>.\<close>

definition text_or_empty :: "(rat \<Rightarrow> string) \<Rightarrow> json option \<Rightarrow> string" where
  "text_or_empty num v = js_text num (Some (js_or v (JStr [])))"

definition DOC_FIELDS :: "string list" where
  "DOC_FIELDS = [''content_preview'', ''vuln_class'', ''root_cause'', ''impact'', ''remediation'']"

definition doc_text :: "(rat \<Rightarrow> string) \<Rightarrow> json \<Rightarrow> string" where
  "doc_text num item = join '' '' (map (\<lambda>k. text_or_empty num (json_field item k)) DOC_FIELDS)"

definition rag_result_of :: "string \<Rightarrow> real \<Rightarrow> json \<Rightarrow> rag_result" where
  "rag_result_of coll score item =
     \<lparr>rr_source = js_or (json_field item ''source_file'') (JStr ''unknown''), rr_collection = coll,
      rr_score = round2 score, rr_confidence = min (score / 10) 1, rr_vuln_class = json_field item ''vuln_class'',
      rr_root_cause = json_field item ''root_cause'', rr_impact = json_field item ''impact'',
      rr_remediation = json_field item ''remediation'', rr_content_preview = json_field item ''content_preview''\<rparr>"

text \<open>The inner loop: an item that is \<open>null\<close> throws.\<close>

fun score_items :: "(rat \<Rightarrow> string) \<Rightarrow> string list \<Rightarrow> string \<Rightarrow> json list \<Rightarrow> js_error + rag_result list" where
  "score_items num q coll [] = Inr []"
| "score_items num q coll (item # items) =
     (if item = JNull then Inl TypeError
      else
        (let score = scoreDocument q (doc_text num item) in
         case score_items num q coll items of
           Inl e \<Rightarrow> Inl e
         | Inr rs \<Rightarrow> Inr (if score > 0 then rag_result_of coll score item # rs else rs)))"

fun score_collections :: "(rat \<Rightarrow> string) \<Rightarrow> string list \<Rightarrow> (string \<times> json) list \<Rightarrow> js_error + rag_result list" where
  "score_collections num q [] = Inr []"
| "score_collections num q ((coll, v) # cs) =
     (case iterate v of
        Inl e \<Rightarrow> Inl e
      | Inr items \<Rightarrow>
          (case score_items num q coll items of
             Inl e \<Rightarrow> Inl e
           | Inr rs \<Rightarrow> (case score_collections num q cs of Inl e \<Rightarrow> Inl e | Inr rs' \<Rightarrow> Inr (rs @ rs'))))"

record rag_reply =
  rq_query :: string
  rq_total_matches :: nat
  rq_results :: "rag_result list"

definition sec_rag_query ::
  "(rat \<Rightarrow> string) \<Rightarrow> string \<Rightarrow> string option \<Rightarrow> int option \<Rightarrow> rag_world \<Rightarrow> js_error + rag_reply" where
  "sec_rag_query num query collection limit w =
     (let q = rag_tokenize query;
          collections = (if truthy collection then [(the collection, loadCollection (the collection) w)] else loadAllCollections w)
      in case score_collections num q collections of
           Inl e \<Rightarrow> Inl e
         | Inr results \<Rightarrow>
             Inr \<lparr>rq_query = query, rq_total_matches = length results,
                  rq_results = slice0 (num_or limit 5) (sort_key (\<lambda>r. - rr_score r) results)\<rparr>)"

section \<open>Patterns and benchmark cases\<close>

text \<open>\<open>{...p, score}\<close> with a positive score, best first: an element and its score.\<close>

definition rank_items :: "(rat \<Rightarrow> string) \<Rightarrow> string \<Rightarrow> int \<Rightarrow> json list \<Rightarrow> (json \<times> real) list" where
  "rank_items num query limit items =
     slice0 limit (sort_key (\<lambda>(_, s). - s) (filter (\<lambda>(_, s). s > 0)
       (map (\<lambda>p. (p, scoreDocument (rag_tokenize query) (stringify num p))) items)))"

text \<open>\<open>v.k || []\<close>.\<close>

definition field_or_empty :: "json \<Rightarrow> string \<Rightarrow> js_error + json" where
  "field_or_empty data k = (case member (Some data) k of Inl e \<Rightarrow> Inl e | Inr v \<Rightarrow> Inr (js_or v (JArr [])))"

datatype 'a lookup = No_data string | Answer 'a

definition sec_rag_pattern_search ::
  "(rat \<Rightarrow> string) \<Rightarrow> string \<Rightarrow> string option \<Rightarrow> int option \<Rightarrow> rag_world \<Rightarrow> js_error + (json \<times> real) list lookup" where
  "sec_rag_pattern_search num query vuln_class limit w =
     (case rw_files w (patterns_path w) of
        None \<Rightarrow> Inr (No_data ''No patterns found. Run pattern_add or pattern_library init first.'')
      | Some t \<Rightarrow>
          (case parse_json t of
             Inl e \<Rightarrow> Inl e
           | Inr patterns \<Rightarrow>
               (case field_or_empty patterns ''patterns'' of
                  Inl e \<Rightarrow> Inl e
                | Inr v \<Rightarrow>
                    (case as_array v of
                       Inl e \<Rightarrow> Inl e
                     | Inr xs \<Rightarrow>
                         (case (if truthy vuln_class
                                then try_filter (\<lambda>p. map_sum id (\<lambda>f. f = map_option JStr vuln_class) (member (Some p) ''vuln_class'')) xs
                                else Inr xs) of
                            Inl e \<Rightarrow> Inl e
                          | Inr ys \<Rightarrow> Inr (Answer (rank_items num query (num_or limit 10) ys)))))))"

record bench_reply =
  bl_total_cases :: nat
  bl_results :: "(json \<times> real) list"

definition sec_rag_benchmark_lookup ::
  "(rat \<Rightarrow> string) \<Rightarrow> string \<Rightarrow> int option \<Rightarrow> rag_world \<Rightarrow> js_error + bench_reply lookup" where
  "sec_rag_benchmark_lookup num query limit w =
     (case rw_files w (cases_path w) of
        None \<Rightarrow> Inr (No_data ''No benchmark cases found. Use eval_benchmark_add to add cases.'')
      | Some t \<Rightarrow>
          (case parse_json t of
             Inl e \<Rightarrow> Inl e
           | Inr data \<Rightarrow>
               (case field_or_empty data ''cases'' of
                  Inl e \<Rightarrow> Inl e
                | Inr v \<Rightarrow>
                    (case as_array v of
                       Inl e \<Rightarrow> Inl e
                     | Inr cases \<Rightarrow>
                         Inr (Answer \<lparr>bl_total_cases = length cases, bl_results = rank_items num query (num_or limit 3) cases\<rparr>)))))"

section \<open>sec\_rag\_false\_positive\_check\<close>

text \<open>\<open>{ file, score, ...fp }\<close>: the file's own fields win.\<close>

record fp_match =
  fm_file :: string
  fm_score :: real
  fm_fp :: json

text \<open>
  The field \<open>score\<close> of the match: that of the file when it has one. A file whose own score is not a number makes the
  comparison meaningless; it counts as zero here.
\<close>

definition match_score :: "fp_match \<Rightarrow> real" where
  "match_score m =
     (case json_field (fm_fp m) ''score'' of None \<Rightarrow> fm_score m | v \<Rightarrow> (case to_number v of Some n \<Rightarrow> of_rat n | None \<Rightarrow> 0))"

datatype fp_recommendation =
    No_matches
  | Warning rat
  | Caution rat
  | Normal_confidence nat nat

record fp_reply =
  fr_similar_cases_found :: nat
  fr_false_positive_count :: nat
  fr_false_positive_rate :: rat
  fr_recommendation :: fp_recommendation
  fr_similar_cases :: "fp_match list"

definition fp_rate :: "nat \<Rightarrow> nat \<Rightarrow> rat" where
  "fp_rate fpCount totalCount = (if totalCount > 0 then of_nat fpCount / of_nat totalCount else 0)"

definition recommend :: "nat \<Rightarrow> nat \<Rightarrow> fp_recommendation" where
  "recommend fpCount totalCount =
     (let fpRate = fp_rate fpCount totalCount in
      if fpRate > 7 / 10 then Warning (to_fixed 0 (fpRate * 100))
      else if fpRate > 4 / 10 then Caution (to_fixed 0 (fpRate * 100))
      else if totalCount > 0 then Normal_confidence fpCount totalCount
      else No_matches)"

definition fp_matches :: "(rat \<Rightarrow> string) \<Rightarrow> string list \<Rightarrow> rag_world \<Rightarrow> string list \<Rightarrow> fp_match list" where
  "fp_matches num q w fpFiles =
     List.map_filter (\<lambda>file.
       case rw_files w (path_join [false_positives_dir w, file]) of
         Some (Good_json fp) \<Rightarrow>
           (let score = scoreDocument q (stringify num fp) in
            if score > 0 then Some \<lparr>fm_file = file, fm_score = score, fm_fp = fp\<rparr> else None)
       | _ \<Rightarrow> None) fpFiles"

definition is_false_positive :: "fp_match \<Rightarrow> bool" where
  "is_false_positive m = (json_field (fm_fp m) ''outcome'' = Some (JStr ''false_positive''))"

definition ensure_fp_dir :: "rag_world \<Rightarrow> rag_world" where
  "ensure_fp_dir w =
     (if rw_dirs w (false_positives_dir w) = None
      then w\<lparr>rw_dirs := (rw_dirs w)(false_positives_dir w \<mapsto> [])\<rparr> else w)"

definition sec_rag_false_positive_check ::
  "(rat \<Rightarrow> string) \<Rightarrow> string \<Rightarrow> string option \<Rightarrow> rag_world \<Rightarrow> rag_world \<times> fp_reply" where
  "sec_rag_false_positive_check num hypothesis_title evidence w =
     (let w1 = ensure_fp_dir w;
          fpFiles = filter (suffix ''.json'') (or_else (rw_dirs w1 (false_positives_dir w1)) []);
          q = rag_tokenize (hypothesis_title @ '' '' @ or_else evidence []);
          matches = sort_key (\<lambda>m. - match_score m) (fp_matches num q w1 fpFiles);
          fpCount = length (filter is_false_positive matches); totalCount = length matches
      in (w1, \<lparr>fr_similar_cases_found = totalCount, fr_false_positive_count = fpCount,
               fr_false_positive_rate = of_int \<lfloor>fp_rate fpCount totalCount * 100 + 1 / 2\<rfloor> / 100,
               fr_recommendation = recommend fpCount totalCount, fr_similar_cases = take 5 matches\<rparr>))"

section \<open>/rag\<close>

text \<open>\<open>v.length\<close> of a value, where \<open>None\<close> is \<open>undefined\<close>.\<close>

fun js_length :: "json \<Rightarrow> json option" where
  "js_length (JArr xs) = Some (JNum (of_nat (length xs)))"
| "js_length (JStr s) = Some (JNum (of_nat (length s)))"
| "js_length j = json_field j ''length''"

text \<open>The running total \<open>totalItems += count\<close>: a number, not a number, or a text once a count was not a number.\<close>

datatype js_total = Total rat | Total_NaN | Total_text string

fun total_text :: "(rat \<Rightarrow> string) \<Rightarrow> js_total \<Rightarrow> string" where
  "total_text num (Total n) = num n"
| "total_text num Total_NaN = ''NaN''"
| "total_text num (Total_text s) = s"

definition add_number :: "js_total \<Rightarrow> rat option \<Rightarrow> js_total" where
  "add_number t n = (case (t, n) of (Total a, Some b) \<Rightarrow> Total (a + b) | _ \<Rightarrow> Total_NaN)"

definition add_count :: "(rat \<Rightarrow> string) \<Rightarrow> js_total \<Rightarrow> json option \<Rightarrow> js_total" where
  "add_count num t v =
     (case t of
        Total_text s \<Rightarrow> Total_text (s @ js_text num v)
      | _ \<Rightarrow>
          (case v of
             None \<Rightarrow> Total_NaN
           | Some JNull \<Rightarrow> add_number t (Some 0)
           | Some (JBool b) \<Rightarrow> add_number t (Some (if b then 1 else 0))
           | Some (JNum n) \<Rightarrow> add_number t (Some n)
           | _ \<Rightarrow> Total_text (total_text num t @ js_text num v)))"

text \<open>\<open>data.count || (data.items || []).length\<close>, or the exception the loop swallows.\<close>

definition item_count :: "json \<Rightarrow> js_error + json option" where
  "item_count data =
     (case member (Some data) ''count'' of
        Inl e \<Rightarrow> Inl e
      | Inr c \<Rightarrow> Inr (if js_truthy c then c else js_length (js_or (json_field data ''items'') (JArr []))))"

definition status_step ::
  "(rat \<Rightarrow> string) \<Rightarrow> rag_world \<Rightarrow> string \<Rightarrow> string list \<times> js_total \<Rightarrow> string list \<times> js_total" where
  "status_step num w file st =
     (case rw_files w (path_join [knowledge_indexes w, file]) of
        Some (Good_json data) \<Rightarrow>
          (case item_count data of
             Inl _ \<Rightarrow> st
           | Inr n \<Rightarrow>
               (fst st @ [''  '' @ base_json file @ '': '' @ js_text num n @ '' items''], add_count num (snd st) n))
      | _ \<Rightarrow> st)"

text \<open>\<open>v.k?.length || 0\<close>, as text.\<close>

definition length_or_zero :: "(rat \<Rightarrow> string) \<Rightarrow> json \<Rightarrow> string \<Rightarrow> js_error + string" where
  "length_or_zero num data k =
     (case member (Some data) k of
        Inl e \<Rightarrow> Inl e
      | Inr v \<Rightarrow> Inr (js_text num (Some (js_or (case v of None \<Rightarrow> None | Some JNull \<Rightarrow> None | Some j \<Rightarrow> js_length j) (JNum 0)))))"

definition file_line :: "(rat \<Rightarrow> string) \<Rightarrow> rag_world \<Rightarrow> string \<Rightarrow> string \<Rightarrow> (string \<Rightarrow> string) \<Rightarrow> js_error + string list" where
  "file_line num w path k line =
     (case rw_files w path of
        None \<Rightarrow> Inr []
      | Some t \<Rightarrow>
          (case parse_json t of
             Inl e \<Rightarrow> Inl e
           | Inr data \<Rightarrow> map_sum id (\<lambda>n. [line n]) (length_or_zero num data k)))"

datatype rag_answer = No_indexes | Rag_status "string list" | Use_tool string

definition rag_command :: "(rat \<Rightarrow> string) \<Rightarrow> string \<Rightarrow> rag_world \<Rightarrow> js_error + rag_answer" where
  "rag_command num args w =
     (if trim args \<noteq> [] then Inr (Use_tool (trim args))
      else
        (case rw_dirs w (knowledge_indexes w) of
           None \<Rightarrow> Inr No_indexes
         | Some files \<Rightarrow>
             (let (lines, total) = fold (status_step num w) (filter is_index files) ([''''  , ''Security RAG Status:'', ''''], Total 0);
                  fps = (case rw_dirs w (false_positives_dir w) of
                           None \<Rightarrow> []
                         | Some fs \<Rightarrow> [''  False positives: '' @ nat_to_string (length (filter (suffix ''.json'') fs)) @ '' recorded''])
              in case file_line num w (patterns_path w) ''patterns'' (\<lambda>n. ''  Patterns: '' @ n @ '' vulnerability patterns'') of
                   Inl e \<Rightarrow> Inl e
                 | Inr ps \<Rightarrow>
                     (case file_line num w (cases_path w) ''cases'' (\<lambda>n. ''  Benchmark cases: '' @ n) of
                        Inl e \<Rightarrow> Inl e
                      | Inr bs \<Rightarrow>
                          Inr (Rag_status (lines @ ['''', ''  Total: '' @ total_text num total @ '' indexed items'', ''''] @ ps @ fps @ bs @
                            ['''', ''  Usage: /rag <query> to search'', '''']))))))"

end
