(* ===== verification/Security_Rag_Props.thy ===== *)
theory Security_Rag_Props
  imports Security_Rag Corpus_Ingestor_Props Learning_Loop_Props
begin

text \<open>
  Retrieval. The score is the sum over the common tokens that its loops compute, so it is positive exactly when a token is
  shared; from there what a query returns and what it leaves out. The indexes are those the corpus tools write, and the
  false positives those the learning loop records: both compositions are stated over the operations that wrote the files.
\<close>

section \<open>The score\<close>

lemma tf_keys: "set (map fst (termFrequency ts)) = set ts" "distinct (map fst (termFrequency ts))"
  using bumps_keys [of ts "[]"] bumps_distinct [of "[]" ts] by (simp_all add: termFrequency_def)

lemma tf_get: "or_else (map_of (termFrequency ts) t) 0 = count_list ts t"
  using bump_fold [of "\<lambda>t. t" ts "[]" t] by (simp add: termFrequency_def count_list_eq_length_filter) (metis (mono_tags, lifting) filter_cong)

lemma tf_entry: "(t, n) \<in> set (termFrequency ts) \<Longrightarrow> n = count_list ts t"
  using tf_get [of ts t] tf_keys(2) [of ts] by (simp add: map_of_is_SomeI)

lemma foldl_score:
  "foldl (\<lambda>score (t, n). let d = f t in if d > 0 then score + real n * (1 + ln (real d)) else score) a xs =
     a + (\<Sum>(t, n) \<leftarrow> xs. if f t > 0 then real n * (1 + ln (real (f t))) else 0)"
  by (induction xs arbitrary: a) (auto simp: Let_def)

lemma score_formula:
  "scoreDocument q d =
     (\<Sum>t \<in> set q \<inter> set (rag_tokenize d). real (count_list q t) * (1 + ln (real (count_list (rag_tokenize d) t)))) / real (max (length (rag_tokenize d)) 1) * 100"
proof -
  let ?w = "\<lambda>t n. if count_list (rag_tokenize d) t > 0 then real n * (1 + ln (real (count_list (rag_tokenize d) t))) else 0"
  have "(\<Sum>(t, n) \<leftarrow> termFrequency q. ?w t n) = (\<Sum>t \<leftarrow> map fst (termFrequency q). ?w t (count_list q t))"
    unfolding map_map by (rule arg_cong [where f = sum_list], rule map_cong [OF refl]) (auto dest!: tf_entry)
  also have "\<dots> = (\<Sum>t \<in> set q. ?w t (count_list q t))" 
    using sum_list_distinct_conv_sum_set [OF tf_keys(2), of "\<lambda>t. ?w t (count_list q t)" q] by (simp only: tf_keys(1))
  also have "\<dots> = (\<Sum>t \<in> set q \<inter> set (rag_tokenize d). real (count_list q t) * (1 + ln (real (count_list (rag_tokenize d) t))))"
    by (rule sum.mono_neutral_cong_right) (auto simp: count_list_0_iff)
  finally show ?thesis unfolding scoreDocument_def Let_def foldl_score [unfolded Let_def] tf_get by simp
qed

lemma term_weight: "t \<in> set q \<Longrightarrow> t \<in> set d \<Longrightarrow> 0 < real (count_list q t) * (1 + ln (real (count_list d t)))"
proof -
  assume "t \<in> set q" "t \<in> set d"
  then have "count_list q t > 0" "1 \<le> count_list d t" using count_list_0_iff [of q t] count_list_0_iff [of d t] by auto
  then show ?thesis using ln_ge_zero [of "real (count_list d t)"] by (simp add: add_pos_nonneg)
qed

lemma score_pos_iff: "scoreDocument q d > 0 \<longleftrightarrow> set q \<inter> set (rag_tokenize d) \<noteq> {}"
proof -
  let ?s = "\<Sum>t \<in> set q \<inter> set (rag_tokenize d). real (count_list q t) * (1 + ln (real (count_list (rag_tokenize d) t)))"
  have "?s > 0 \<longleftrightarrow> set q \<inter> set (rag_tokenize d) \<noteq> {}"
  proof (cases "set q \<inter> set (rag_tokenize d) = {}")
    case False
    have "?s > 0" by (rule sum_pos) (use False in \<open>auto intro: term_weight\<close>)
    with False show ?thesis by blast
  qed simp
  moreover have "scoreDocument q d > 0 \<longleftrightarrow> ?s > 0" unfolding score_formula by (simp add: zero_less_mult_iff zero_less_divide_iff less_max_iff_disj)
  ultimately show ?thesis by blast
qed

section \<open>Queries\<close>

text \<open>The docs of a collection that can be searched, and those that share a token with the query.\<close>

definition shares :: "(rat \<Rightarrow> string) \<Rightarrow> string \<Rightarrow> json \<Rightarrow> bool" where
  "shares num query item = (set (rag_tokenize query) \<inter> set (rag_tokenize (doc_text num item)) \<noteq> {})"

definition result_for :: "(rat \<Rightarrow> string) \<Rightarrow> string \<Rightarrow> string \<Rightarrow> json \<Rightarrow> rag_result" where
  "result_for num query coll item = rag_result_of coll (scoreDocument (rag_tokenize query) (doc_text num item)) item"

definition searched :: "string option \<Rightarrow> rag_world \<Rightarrow> (string \<times> json) list" where
  "searched collection w =
     (if truthy collection then [(the collection, loadCollection (the collection) w)] else loadAllCollections w)"

lemma score_items_eq:
  "JNull \<notin> set docs \<Longrightarrow>
   score_items num (rag_tokenize query) coll docs = Inr (map (result_for num query coll) (filter (shares num query) docs))"
  by (induction docs) (auto simp: Let_def result_for_def score_pos_iff shares_def)

lemma score_items_ok: "score_items num q coll docs = Inr rs \<Longrightarrow> JNull \<notin> set docs"
  by (induction docs arbitrary: rs) (auto simp: Let_def split: if_splits sum.splits)

definition results_in :: "(rat \<Rightarrow> string) \<Rightarrow> string \<Rightarrow> string \<times> json \<Rightarrow> rag_result set" where
  "results_in num query cv =
     {result_for num query (fst cv) item | docs item. iterate (snd cv) = Inr docs \<and> item \<in> set docs \<and> shares num query item}"

lemma score_collections_set:
  "score_collections num (rag_tokenize query) cs = Inr rs \<Longrightarrow> set rs = (\<Union>cv \<in> set cs. results_in num query cv)"
proof (induction cs arbitrary: rs)
  case (Cons x cs)
  obtain c v where x: "x = (c, v)" by (cases x)
  obtain docs where i: "iterate v = Inr docs" using Cons.prems x by (cases "iterate v") auto
  obtain rs1 where r1: "score_items num (rag_tokenize query) c docs = Inr rs1"
    using Cons.prems x i by (cases "score_items num (rag_tokenize query) c docs") auto
  obtain rs2 where r2: "score_collections num (rag_tokenize query) cs = Inr rs2"
    using Cons.prems x i r1 by (cases "score_collections num (rag_tokenize query) cs") auto
  have rs: "rs = rs1 @ rs2" using Cons.prems x i r1 r2 by simp
  have "set rs1 = results_in num query x"
    using score_items_eq [OF score_items_ok [OF r1]] r1 i by (auto simp: results_in_def x)
  then show ?case using Cons.IH [OF r2] rs by simp
qed simp

lemma query_inv:
  assumes "sec_rag_query num query collection limit w = Inr r"
  obtains rs where "score_collections num (rag_tokenize query) (searched collection w) = Inr rs" "rq_total_matches r = length rs"
    "rq_results r = slice0 (num_or limit 5) (sort_key (\<lambda>r. - rr_score r) rs)"
  using assms by (auto simp: sec_rag_query_def Let_def searched_def split: sum.splits)

lemma round2_mono: "x \<le> y \<Longrightarrow> round2 x \<le> round2 y"
  unfolding round2_def by (intro divide_right_mono) (simp_all add: floor_mono)

lemma round2_error: "\<bar>round2 x - x\<bar> \<le> 1 / 200"
  unfolding round2_def by linarith

lemma query_sound:
  assumes "sec_rag_query num query collection limit w = Inr r" "x \<in> set (rq_results r)"
  shows "0 < rr_confidence x \<and> rr_confidence x \<le> 1 \<and>
    (\<exists>v docs item. (rr_collection x, v) \<in> set (searched collection w) \<and> iterate v = Inr docs \<and> item \<in> set docs \<and>
       x = result_for num query (rr_collection x) item \<and>
       set (rag_tokenize query) \<inter> set (rag_tokenize (doc_text num item)) \<noteq> {})"
proof (rule query_inv [OF assms(1)])
  fix rs assume rs: "score_collections num (rag_tokenize query) (searched collection w) = Inr rs"
    "rq_results r = slice0 (num_or limit 5) (sort_key (\<lambda>r. - rr_score r) rs)"
  have "x \<in> set rs" using assms(2) set_slice0 [of "num_or limit 5" "sort_key (\<lambda>r. - rr_score r) rs"] rs(2) by auto
  then obtain c v docs item where i: "x = result_for num query c item" "(c, v) \<in> set (searched collection w)"
    "iterate v = Inr docs" "item \<in> set docs" "shares num query item" unfolding score_collections_set [OF rs(1)] results_in_def by auto
  have c: "rr_collection x = c" using i(1) by (simp add: result_for_def rag_result_of_def)
  have conf: "0 < rr_confidence x" "rr_confidence x \<le> 1"
    using i(1,5) by (simp_all add: result_for_def rag_result_of_def score_pos_iff shares_def)
  from i(5) have "set (rag_tokenize query) \<inter> set (rag_tokenize (doc_text num item)) \<noteq> {}" by (simp only: shares_def not_False_eq_True)
  with i(2-4) i(1) have "\<exists>v docs item. (c, v) \<in> set (searched collection w) \<and> iterate v = Inr docs \<and> item \<in> set docs \<and>
      x = result_for num query c item \<and> set (rag_tokenize query) \<inter> set (rag_tokenize (doc_text num item)) \<noteq> {}" by blast
  with conf show ?thesis unfolding c by simp
qed

section \<open>Retrieval over the corpus indexes\<close>

definition opt_text :: "string \<Rightarrow> string option \<Rightarrow> (string \<times> json) list" where
  "opt_text k v = (case v of None \<Rightarrow> [] | Some s \<Rightarrow> [(k, JStr s)])"

definition index_json :: "index_item \<Rightarrow> json" where
  "index_json i =
     JObj ([(''id'', JStr (ix_id i)), (''source_file'', JStr (ix_source_file i))] @
           opt_text ''vuln_class'' (ix_vuln_class i) @ opt_text ''root_cause'' (ix_root_cause i) @
           opt_text ''impact'' (ix_impact i) @ opt_text ''remediation'' (ix_remediation i) @
           [(''content_preview'', JStr (ix_content_preview i))])"

definition index_document :: "string \<times> index_item list \<Rightarrow> json" where
  "index_document e =
     JObj [(''collection'', JStr (fst e)), (''count'', JNum (of_nat (length (snd e)))), (''items'', JArr (map index_json (snd e)))]"

definition norm_json :: "norm_item \<Rightarrow> json" where
  "norm_json n =
     (let e = ni_extracted n; texts = (\<lambda>k. map_option (\<lambda>ts. [(k, JArr (map JStr ts))])) in
      JObj ([(''id'', JStr (ni_id n)), (''source_file'', JStr (ni_source_file n)), (''collections'', JArr (map JStr (ni_collections n)))] @
            opt_text ''vuln_class'' (ex_vuln_class e) @ opt_text ''root_cause'' (ex_root_cause e) @
            or_else (texts ''prerequisites'' (ex_prerequisites e)) [] @ opt_text ''impact'' (ex_impact e) @
            opt_text ''remediation'' (ex_remediation e) @
            or_else (texts ''false_positive_indicators'' (ex_false_positive_indicators e)) [] @
            [(''content_preview'', JStr (ni_content_preview n))]))"

definition norm_document :: "norm_item list \<Rightarrow> json" where
  "norm_document ns = JObj [(''count'', JNum (of_nat (length ns))), (''items'', JArr (map norm_json ns))]"

definition counts_json :: "(string \<times> nat) list \<Rightarrow> json" where
  "counts_json t = JObj (map (\<lambda>(k, n). (k, JNum (of_nat n))) t)"

definition catalog_document :: "scan_record \<Rightarrow> json" where
  "catalog_document r =
     JObj [(''files'', JArr []), (''stats'', JObj []),
       (''last_scan'', JObj [(''directory'', JStr (sc_directory r)), (''timestamp'', JNum (of_int (sc_timestamp r))),
          (''file_count'', JNum (of_nat (sc_file_count r))), (''total_size'', JNum (of_nat (sc_total_size r))),
          (''by_extension'', counts_json (sc_by_extension r)), (''by_directory'', counts_json (sc_by_directory r))])]"

text \<open>
  The files the corpus tools leave below the data directory: the indexes, the normalized items, the catalog, the quarantined
  originals and the sanitized copies. \<open>parse\<close> is \<open>JSON.parse\<close>, and \<open>other\<close> gives every other file.
\<close>

fun text_at :: "string list \<Rightarrow> (string \<times> fs_node) list \<Rightarrow> string option" where
  "text_at [] es = None"
| "text_at [n] es = (case map_of es n of Some (FFile _ c) \<Rightarrow> c | _ \<Rightarrow> None)"
| "text_at (d # n # ns) es = (case map_of es d of Some (FDir sub) \<Rightarrow> text_at (n # ns) sub | _ \<Rightarrow> None)"

definition index_file_of :: "corpus_world \<Rightarrow> string list \<Rightarrow> json option" where
  "index_file_of w rest =
     (case rest of
        [f] \<Rightarrow>
          if f = ''catalog.json'' then map_option catalog_document (cw_last_scan w)
          else map_option index_document (find (\<lambda>(c, _). c @ ''.json'' = f) (cw_indexes w))
      | [d, f] \<Rightarrow> if d = ''normalized'' \<and> f = ''normalized.json'' then map_option norm_document (cw_normalized w) else None
      | _ \<Rightarrow> None)"

definition data_file :: "(string \<Rightarrow> json_text) \<Rightarrow> (string list \<Rightarrow> json_text option) \<Rightarrow> corpus_world \<Rightarrow> string list \<Rightarrow> json_text option" where
  "data_file parse other w segs =
     (case segs of
        [] \<Rightarrow> None
      | d # rest \<Rightarrow>
          if d = ''knowledge-indexes'' then map_option Good_json (index_file_of w rest)
          else if d = ''sensitive'' then map_option parse (text_at rest (cw_sensitive w))
          else if d = ''corpus-sanitized'' then map_option parse (text_at rest (cw_sanitized w))
          else other segs)"

definition segments_below :: "string \<Rightarrow> string \<Rightarrow> string list option" where
  "segments_below dir p =
     (if prefix (dir @ ''/'') p then Some (split_on (CHR ''/'') (drop (length dir + 1) p)) else None)"

definition rag_of :: "(string \<Rightarrow> json_text) \<Rightarrow> (string list \<Rightarrow> json_text option) \<Rightarrow> corpus_world \<Rightarrow> rag_world" where
  "rag_of parse other w =
     \<lparr>rw_data = cw_data w,
      rw_files = (\<lambda>p. case segments_below (cw_data w) p of
                        Some segs \<Rightarrow> data_file parse other w segs
                      | None \<Rightarrow> other (split_on (CHR ''/'') p)),
      rw_dirs = [path_join [cw_data w, ''knowledge-indexes''] \<mapsto>
        map (\<lambda>(c, _). c @ ''.json'') (cw_indexes w) @ (if cw_last_scan w = None then [] else [''catalog.json'']) @ [''normalized'']]\<rparr>"

lemma index_field:
  "json_field (index_json i) k =
     (if k = ''id'' then Some (JStr (ix_id i)) else if k = ''source_file'' then Some (JStr (ix_source_file i))
      else if k = ''content_preview'' then Some (JStr (ix_content_preview i))
      else map_option JStr (if k = ''vuln_class'' then ix_vuln_class i else if k = ''root_cause'' then ix_root_cause i
        else if k = ''impact'' then ix_impact i else if k = ''remediation'' then ix_remediation i else None))"
  by (auto simp: index_json_def opt_text_def map_add_def split: option.splits)

lemma segments_below_plain:
  assumes "ds \<noteq> []" "ss \<noteq> []" "list_all plain_seg ss"
  shows "segments_below (absolute_path ds) (absolute_path (ds @ ss)) = Some ss"
proof -
  have "absolute_path (ds @ ss) = (absolute_path ds @ ''/'') @ join ''/'' ss"
    using assms(1,2) by (simp add: absolute_path_def join_append)
  moreover have "split_on (CHR ''/'') (join ''/'' ss) = ss"
    using split_on_join [OF assms(2), of "CHR ''/''"] assms(3) by (simp add: plain_seg_def list_all_iff)
  ultimately show ?thesis by (simp add: segments_below_def)
qed

text \<open>A data directory as \<open>path.resolve\<close> gives it.\<close>

definition resolved_data :: "corpus_world \<Rightarrow> bool" where
  "resolved_data w = (\<exists>ds. ds \<noteq> [] \<and> list_all plain_seg ds \<and> cw_data w = absolute_path ds)"

lemma plain_json: "CHR ''/'' \<notin> set name \<Longrightarrow> plain_seg (name @ ''.json'')"
  by (cases name) (auto simp: plain_seg_def)

lemma rag_file:
  assumes "resolved_data w" "CHR ''/'' \<notin> set name"
  shows "rw_files (rag_of parse other w) (path_join [knowledge_indexes (rag_of parse other w), name @ ''.json'']) =
    map_option Good_json (index_file_of w [name @ ''.json''])"
proof -
  obtain ds where ds: "ds \<noteq> []" "list_all plain_seg ds" "cw_data w = absolute_path ds" using assms(1) by (auto simp: resolved_data_def)
  have ki: "plain_seg ''knowledge-indexes''" by code_simp
  note n = plain_json [OF assms(2)]
  have "knowledge_indexes (rag_of parse other w) = absolute_path (ds @ [''knowledge-indexes''])"
    using path_join_plain [of ds "[''knowledge-indexes'']"] ds ki by (simp add: knowledge_indexes_def rag_of_def)
  moreover have "path_join [absolute_path (ds @ [''knowledge-indexes'']), name @ ''.json''] =
      absolute_path (ds @ [''knowledge-indexes'', name @ ''.json''])"
    using path_join_plain [of "ds @ [''knowledge-indexes'']" "[name @ ''.json'']"] ds ki n by simp
  moreover have "segments_below (absolute_path ds) (absolute_path (ds @ [''knowledge-indexes'', name @ ''.json''])) =
      Some [''knowledge-indexes'', name @ ''.json'']"
    by (rule segments_below_plain) (use ds ki n in simp_all)
  ultimately show ?thesis by (simp add: rag_of_def ds(3) data_file_def)
qed

lemma rag_collection:
  assumes "resolved_data w" "CHR ''/'' \<notin> set name"
  shows "loadCollection name (rag_of parse other w) = JArr [] \<or>
   (\<exists>c is. (c, is) \<in> set (cw_indexes w) \<and> loadCollection name (rag_of parse other w) = JArr (map index_json is))"
proof (cases "name = ''catalog''")
  case True
  then show ?thesis using rag_file [OF assms, of parse other]
    by (cases "cw_last_scan w") (simp_all add: loadCollection_def index_file_of_def catalog_document_def js_or_def js_truthy_def)
next
  case False
  then have c: "name @ ''.json'' \<noteq> ''catalog.json''" by auto
  show ?thesis
  proof (cases "find (\<lambda>(c, _). c @ ''.json'' = name @ ''.json'') (cw_indexes w)")
    case None
    then show ?thesis using rag_file [OF assms, of parse other] c by (simp add: loadCollection_def index_file_of_def)
  next
    case (Some e)
    then have "e \<in> set (cw_indexes w)" by (blast dest: find_SomeD)
    moreover have "loadCollection name (rag_of parse other w) = JArr (map index_json (snd e))"
      using rag_file [OF assms, of parse other] Some c
      by (simp add: loadCollection_def index_file_of_def index_document_def js_or_def js_truthy_def)
    ultimately show ?thesis by (metis prod.collapse)
  qed
qed

lemma all_collections_from:
  assumes "(c, v) \<in> set (loadAllCollections w)" "rw_dirs w (knowledge_indexes w) = Some files"
  shows "\<exists>name. v = loadCollection name w \<and> name @ ''.json'' \<in> set files"
proof -
  have base: "base_json f @ ''.json'' = f" if "is_index f" for f
    using that by (auto simp: is_index_def base_json_def suffix_def)
  have "(c, v) \<in> set (fold (\<lambda>file result. if is_index file then AList.update (base_json file) (loadCollection (base_json file) w) result else result) files acc) \<Longrightarrow>
      (c, v) \<in> set acc \<or> (\<exists>name. v = loadCollection name w \<and> name @ ''.json'' \<in> set files)" for files acc
  proof (induction files arbitrary: acc)
    case (Cons f files)
    show ?case
    proof (cases "is_index f")
      case True
      from Cons.prems True have "(c, v) \<in> set (AList.update (base_json f) (loadCollection (base_json f) w) acc) \<or>
          (\<exists>name. v = loadCollection name w \<and> name @ ''.json'' \<in> set files)" by (intro Cons.IH) simp
      then show ?thesis using set_update [of "base_json f" "loadCollection (base_json f) w" acc] base [OF True] by auto
    qed (use Cons in auto)
  qed simp
  from this [of files "[]"] assms show ?thesis by (simp add: loadAllCollections_def)
qed

text \<open>The names of the indexes are those of the collections, which have no slash.\<close>

definition slashless :: "string \<Rightarrow> bool" where
  "slashless s = (CHR ''/'' \<notin> set s)"

definition names_plain :: "corpus_world \<Rightarrow> bool" where
  "names_plain w =
     (list_all (slashless \<circ> fst) (cw_indexes w) \<and>
      list_all (\<lambda>n. list_all slashless (ni_collections n)) (or_else (cw_normalized w) []))"

lemma update_plain: "list_all (slashless \<circ> fst) t \<Longrightarrow> slashless k \<Longrightarrow> list_all (slashless \<circ> fst) (AList.update k v t)"
  using set_update [of k v t] by (auto simp: list_all_iff)

lemma build_plain:
  assumes "list_all (\<lambda>n. list_all slashless (ni_collections n)) its"
  shows "list_all (slashless \<circ> fst) (build_indexes its)"
proof -
  have one: "list_all slashless cs \<Longrightarrow> list_all (slashless \<circ> fst) t \<Longrightarrow> list_all (slashless \<circ> fst) (fold (push_index n) cs t)" for n cs t
    by (induction cs arbitrary: t) (simp_all add: push_index_def update_plain)
  have "list_all (\<lambda>n. list_all slashless (ni_collections n)) ns \<Longrightarrow> list_all (slashless \<circ> fst) t \<Longrightarrow>
      list_all (slashless \<circ> fst) (fold (\<lambda>n. fold (push_index n) (ni_collections n)) ns t)" for ns t
    by (induction ns arbitrary: t) (simp_all add: one)
  moreover have "list_all (slashless \<circ> fst) (map (\<lambda>(c, _). (c, [] :: index_item list)) COLLECTIONS @ [(''general'', [])])" by code_simp
  ultimately show ?thesis using assms by (simp only: build_indexes_def)
qed

lemma classify_plain: "list_all slashless (classifyCollection p c)"
proof -
  have "list_all (slashless \<circ> fst) COLLECTIONS" "slashless ''general''" by code_simp+
  then show ?thesis by (auto simp: classifyCollection_def Let_def list_all_iff)
qed

lemma norm_path_plain:
  "list_all (\<lambda>n. list_all slashless (ni_collections n)) ns \<Longrightarrow>
   list_all (\<lambda>n. list_all slashless (ni_collections n)) (fold (normalize_file dir) fs ns)"
  by (induction fs arbitrary: ns) (simp_all add: normalize_file_def Let_def classify_plain split: option.split)

lemma merge_plain:
  "list_all (slashless \<circ> fst) ixs \<Longrightarrow> list_all (slashless \<circ> fst) old \<Longrightarrow> list_all (slashless \<circ> fst) (fold (\<lambda>(c, is). AList.update c is) ixs old)"
  by (induction ixs arbitrary: old) (auto simp: update_plain)

lemma names_plain_exec: "names_plain w \<Longrightarrow> names_plain (fst (corpus_exec c w)) \<and> cw_data (fst (corpus_exec c w)) = cw_data w"
proof (cases c)
  case Index
  assume "names_plain w"
  with Index show ?thesis
    by (cases "cw_normalized w") (simp_all add: corpus_exec_def corpus_index_def names_plain_def Let_def build_plain merge_plain)
next
  case (Normalize dir n)
  assume "names_plain w"
  with Normalize show ?thesis
    by (simp add: corpus_exec_def corpus_normalize_def names_plain_def Let_def norm_path_plain)
qed (simp_all add: corpus_exec_def corpus_scan_def corpus_sanitize_def names_plain_def Let_def)

lemma names_plain_run: "names_plain w \<Longrightarrow> names_plain (run_calls corpus_exec cs w) \<and> cw_data (run_calls corpus_exec cs w) = cw_data w"
  by (induction cs arbitrary: w) (simp_all add: names_plain_exec)

lemma member_parts: "x \<in> set (xs @ (if b then [] else [y]) @ [z]) \<Longrightarrow> x \<in> set xs \<or> x = y \<or> x = z"
  by (auto split: if_splits)

lemma searched_rag:
  assumes "(c, v) \<in> set (searched collection (rag_of parse other w))" "resolved_data w" "names_plain w"
    and "slashless (or_else collection [])"
  shows "\<exists>is. v = JArr (map index_json is) \<and> (is = [] \<or> (\<exists>c. (c, is) \<in> set (cw_indexes w)))"
proof -
  have "\<exists>name. v = loadCollection name (rag_of parse other w) \<and> CHR ''/'' \<notin> set name"
  proof (cases "truthy collection")
    case True
    with assms(1,4) show ?thesis by (cases collection) (auto simp: searched_def slashless_def)
  next
    case False
    then have "(c, v) \<in> set (loadAllCollections (rag_of parse other w))" using assms(1) by (simp add: searched_def)
    moreover have "rw_dirs (rag_of parse other w) (knowledge_indexes (rag_of parse other w)) =
        Some (map (\<lambda>(c, _). c @ ''.json'') (cw_indexes w) @ (if cw_last_scan w = None then [] else [''catalog.json'']) @ [''normalized''])"
      by (simp add: rag_of_def knowledge_indexes_def)
    ultimately obtain name where n: "v = loadCollection name (rag_of parse other w)"
        "name @ ''.json'' \<in> set (map (\<lambda>(c, _). c @ ''.json'') (cw_indexes w) @ (if cw_last_scan w = None then [] else [''catalog.json'']) @ [''normalized''])"
      using all_collections_from by blast
    then have m: "name @ ''.json'' \<in> (\<lambda>(c, _). c @ ''.json'') ` set (cw_indexes w) \<or> name @ ''.json'' = ''catalog.json'' \<or> name @ ''.json'' = ''normalized''"
      using member_parts [OF n(2)] by (simp only: set_map)
    have "CHR ''/'' \<notin> set name" using m
    proof (elim disjE)
      assume "name @ ''.json'' \<in> (\<lambda>(c, _). c @ ''.json'') ` set (cw_indexes w)"
      then obtain e where "e \<in> set (cw_indexes w)" "name = fst e" by (auto simp: case_prod_beta)
      then show ?thesis using assms(3) by (simp add: names_plain_def slashless_def list_all_iff)
    next
      assume "name @ ''.json'' = ''catalog.json''"
      then have "set (name @ ''.json'') = set ''catalog.json''" by (rule arg_cong)
      moreover have "CHR ''/'' \<notin> set ''catalog.json''" by code_simp
      ultimately show ?thesis by (metis UnCI set_append)
    next
      assume "name @ ''.json'' = ''normalized''"
      then have "last (name @ ''.json'') = last ''normalized''" by (rule arg_cong)
      then show ?thesis by simp
    qed
    with n(1) show ?thesis by blast
  qed
  then obtain name where n: "v = loadCollection name (rag_of parse other w)" "CHR ''/'' \<notin> set name" by blast
  from rag_collection [OF assms(2) n(2), of parse other] show ?thesis unfolding n(1) by (metis list.simps(8))
qed

text \<open>
  A collection name with parent segments leaves the directory of the indexes: the quarantine holds the originals, and those
  that are JSON with \<open>items\<close> are searched.
\<close>

lemma quarantine_is_searched:
  assumes "cw_data w = ''/d''" "map_of (cw_sensitive w) (name @ ''.json'') = Some (FFile n (Some s))" "CHR ''/'' \<notin> set name"
    and "parse s = Good_json (JObj [(''items'', JArr docs)])"
  shows "searched (Some (''../sensitive/'' @ name)) (rag_of parse other w) = [(''../sensitive/'' @ name, JArr docs)]"
proof -
  have ki: "knowledge_indexes (rag_of parse other w) = ''/d/knowledge-indexes''"
  proof -
    have "path_join [''/d'', ''knowledge-indexes''] = ''/d/knowledge-indexes''" by code_simp
    then show ?thesis by (simp add: knowledge_indexes_def rag_of_def assms(1))
  qed
  have parts: "split_on (CHR ''/'') (''/d/knowledge-indexes/../sensitive/'' @ name @ ''.json'') =
      [[], ''d'', ''knowledge-indexes'', ''..'', ''sensitive'', name @ ''.json'']"
    using split_on_join [of "[[], ''d'', ''knowledge-indexes'', ''..'', ''sensitive'', name @ ''.json'']" "CHR ''/''"] assms(3) by simp
  have "path_join [''/d/knowledge-indexes'', (''../sensitive/'' @ name) @ ''.json''] = absolute_path [''d'', ''sensitive'', name @ ''.json'']"
    using parts plain_json [OF assms(3)]
    by (simp add: path_join_def path_normalize_def Let_def absolute_path_def plain_seg_def)
  moreover have "segments_below ''/d'' (absolute_path [''d'', ''sensitive'', name @ ''.json'']) = Some [''sensitive'', name @ ''.json'']"
  proof -
    have "plain_seg ''sensitive''" by code_simp
    then show ?thesis using segments_below_plain [of "[''d'']" "[''sensitive'', name @ ''.json'']"] plain_json [OF assms(3)]
      by (simp add: absolute_path_def)
  qed
  ultimately show ?thesis
    using assms by (simp add: searched_def loadCollection_def ki) (simp add: rag_of_def data_file_def js_or_def js_truthy_def)
qed

lemma score_collections_defined:
  "\<forall>(c, v) \<in> set cs. \<exists>docs. iterate v = Inr docs \<and> JNull \<notin> set docs \<Longrightarrow> \<exists>rs. score_collections num (rag_tokenize query) cs = Inr rs"
  by (induction cs) (auto simp: score_items_eq)

lemma text_option [simp]: "Some (JStr t) = map_option JStr v \<longleftrightarrow> v = Some t"
  by (cases v) auto

section \<open>False positives\<close>

text \<open>The files of the learning loop as the check reads them; \<open>fmt\<close> writes a time.\<close>

definition entry_json :: "(time \<Rightarrow> string) \<Rightarrow> FalsePositiveEntry \<Rightarrow> json" where
  "entry_json fmt e =
     JObj ([(''hypothesis_id'', JStr (fp_hypothesis_id e)), (''recorded_at'', JStr (fmt (fp_recorded_at e))),
            (''rejection_reason'', JStr (fp_rejection_reason e)), (''looked_like_vuln'', JStr (fp_looked_like_vuln e)),
            (''why_it_wasnt'', JStr (fp_why_it_wasnt e)), (''detection_heuristics'', JArr (map JStr (fp_detection_heuristics e)))] @
           opt_text ''vulnerability_class'' (fp_vulnerability_class e) @ [(''source'', JStr ''rejected_hypothesis'')])"

definition ref_json :: "(time \<Rightarrow> string) \<Rightarrow> fp_ref \<Rightarrow> json" where
  "ref_json fmt r =
     JObj ((''hypothesis_id'', JStr (Learning_Loop.fr_hypothesis_id r)) # opt_text ''vulnerability_class'' (fr_vulnerability_class r) @
           [(''added_at'', JStr (fmt (fr_added_at r))), (''file'', JStr (fr_file r))])"

definition fp_file_at :: "(time \<Rightarrow> string) \<Rightarrow> string \<Rightarrow> learn_files \<Rightarrow> string \<Rightarrow> json_text option" where
  "fp_file_at fmt dir f p =
     (if p = path_join [dir, ''index.json''] then
        (case fp_index f of
           No_index \<Rightarrow> None
         | Index_json None \<Rightarrow> Some (Good_json (JObj []))
         | Index_json (Some rs) \<Rightarrow> Some (Good_json (JObj [(''false_positives'', JArr (map (ref_json fmt) rs))])))
      else map_option (\<lambda>(_, e). case e of None \<Rightarrow> Bad_json | Some e \<Rightarrow> Good_json (entry_json fmt e))
             (find (\<lambda>(n, _). path_join [dir, n] = p) (fp_files f)))"

definition fp_world :: "(time \<Rightarrow> string) \<Rightarrow> string \<Rightarrow> learn_files \<Rightarrow> rag_world" where
  "fp_world fmt data f =
     (let dir = path_join [data, ''false-positives''] in
      \<lparr>rw_data = data, rw_files = fp_file_at fmt dir f,
       rw_dirs = [dir \<mapsto> map fst (fp_files f) @ (if fp_index f = No_index then [] else [''index.json''])]\<rparr>)"

lemma entry_no_outcome: "json_field (entry_json fmt e) ''outcome'' = None"
  by (simp add: entry_json_def opt_text_def split: option.split)

lemma fp_file_no_outcome: "fp_file_at fmt dir f p = Some (Good_json j) \<Longrightarrow> json_field j ''outcome'' = None"
  by (auto simp: fp_file_at_def entry_no_outcome split: if_splits index_file.splits option.splits)

lemma fp_matches_no_outcome: "m \<in> set (fp_matches num q (fp_world fmt data f) files) \<Longrightarrow> \<not> is_false_positive m"
proof -
  assume "m \<in> set (fp_matches num q (fp_world fmt data f) files)"
  then obtain p where "rw_files (fp_world fmt data f) p = Some (Good_json (fm_fp m))"
    by (auto simp: fp_matches_def List.map_filter_def Let_def split: option.splits json_text.splits if_splits)
  then have "json_field (fm_fp m) ''outcome'' = None" by (auto simp: fp_world_def Let_def intro: fp_file_no_outcome)
  then show ?thesis by (simp add: is_false_positive_def)
qed

definition demo_fp :: FalsePositiveEntry where
  "demo_fp =
     \<lparr>fp_hypothesis_id = ''H-1'', fp_recorded_at = 0, fp_rejection_reason = ''sanitized'', fp_looked_like_vuln = ''sql error'', fp_why_it_wasnt = ''parameterized'',
      fp_detection_heuristics = [], fp_vulnerability_class = Some ''sqli''\<rparr>"

definition demo_learned :: learn_files where
  "demo_learned = no_learn_files\<lparr>fp_files := [(''H-1.json'', Some demo_fp)]\<rparr>"

section \<open>Properties\<close>

text \<open>C20: A query that succeeds leaves out nothing better than what it returns: for every item of a searched collection that
  shares a token with the query, its result is among those returned, or the limit is reached and every returned result has
  at least its score.\<close>

theorem query_best:
  assumes "sec_rag_query num query collection limit w = Inr r" "0 \<le> num_or limit 5"
    and "(coll, v) \<in> set (searched collection w)" "iterate v = Inr docs" "item \<in> set docs"
    and "set (rag_tokenize query) \<inter> set (rag_tokenize (doc_text num item)) \<noteq> {}"
  shows "result_for num query coll item \<in> set (rq_results r) \<or>
    int (length (rq_results r)) = num_or limit 5 \<and>
    (\<forall>x \<in> set (rq_results r). rr_score (result_for num query coll item) \<le> rr_score x)"
proof (rule query_inv [OF assms(1)])
  fix rs assume rs: "score_collections num (rag_tokenize query) (searched collection w) = Inr rs"
    "rq_results r = slice0 (num_or limit 5) (sort_key (\<lambda>r. - rr_score r) rs)"
  let ?x = "result_for num query coll item" and ?ys = "sort_key (\<lambda>r. - rr_score r) rs"
  have "shares num query item" using assms(6) by (simp add: shares_def)
  then have x: "?x \<in> set ?ys" unfolding set_sort score_collections_set [OF rs(1)] using assms(3-5) by (auto simp: results_in_def intro!: bexI [of _ "(coll, v)"])
  have res: "rq_results r = take (nat (num_or limit 5)) ?ys" using rs(2) assms(2) by (simp add: slice0_def)
  show ?thesis
  proof (cases "?x \<in> set (rq_results r)")
    case False
    then have "nat (num_or limit 5) \<le> length ?ys" using x res by (metis nat_le_linear take_all)
    then have "int (length (rq_results r)) = num_or limit 5" using res assms(2) by simp
    moreover have "rr_score ?x \<le> rr_score y" if "y \<in> set (rq_results r)" for y
      using take_sorted_le [OF sorted_sort_key, of y _ "\<lambda>r. - rr_score r" rs ?x] that False x unfolding res by simp
    ultimately show ?thesis by blast
  qed simp
qed

definition demo_rag :: rag_world where
  "demo_rag =
     \<lparr>rw_data = ''/d'',
      rw_files = [''/d/knowledge-indexes/web.json'' \<mapsto> Good_json (JObj [(''items'', JArr [JObj [(''vuln_class'', JStr ''ssrf'')]])])],
      rw_dirs = Map.empty\<rparr>"

theorem query_best_witness:
  "\<exists>r. sec_rag_query whole_text ''ssrf'' (Some ''web'') None demo_rag = Inr r \<and>
    (result_for whole_text ''ssrf'' ''web'' (JObj [(''vuln_class'', JStr ''ssrf'')]) \<in> set (rq_results r) \<or> length (rq_results r) = 5)"
proof -
  let ?item = "JObj [(''vuln_class'', JStr ''ssrf'')]"
  have p: "path_join [path_join [''/d'', ''knowledge-indexes''], ''web.json''] = ''/d/knowledge-indexes/web.json''" by code_simp
  have s: "searched (Some ''web'') demo_rag = [(''web'', JArr [?item])]"
    using p by (simp add: searched_def loadCollection_def knowledge_indexes_def demo_rag_def js_or_def js_truthy_def)
  then obtain r where r: "sec_rag_query whole_text ''ssrf'' (Some ''web'') None demo_rag = Inr r"
    using score_collections_defined [of "searched (Some ''web'') demo_rag" whole_text "''ssrf''"]
    by (auto simp: sec_rag_query_def searched_def Let_def)
  have "set (rag_tokenize ''ssrf'') \<inter> set (rag_tokenize (doc_text whole_text ?item)) \<noteq> {}" by code_simp
  then show ?thesis using query_best [OF r, of "''web''" "JArr [?item]" "[?item]" ?item] r s by auto
qed

text \<open>C19: Whatever sequence of corpus tools built the indexes (\<open>corpus_normalize\<close> on its default), every retrieval over them
  succeeds, for any query, limit and collection name without a slash, or none, and no text taken from a document into the results (everything
  but the name of its file) contains an AWS, Stripe or Google key or a hexadecimal private key, although the originals lie
  in the quarantine beside the indexes. (With a slash the name can lead there, see \<open>quarantine_is_searched\<close>.)\<close>

theorem retrieval_leaks_no_key:
  assumes "fresh_corpus w" "resolved_data w" "list_all from_sanitized calls" "slashless (or_else collection [])" "k \<in> key_words"
  shows "\<exists>r. sec_rag_query num query collection limit (rag_of parse other (run_calls corpus_exec calls w)) = Inr r \<and>
    (\<forall>x \<in> set (rq_results r). \<forall>t. Some (JStr t) \<in> {rr_vuln_class x, rr_root_cause x, rr_impact x, rr_remediation x, rr_content_preview x} \<longrightarrow>
       \<not> sublist k t)"
proof -
  let ?w = "run_calls corpus_exec calls w"
  have "corpus_clean w" using assms(1) by (simp add: fresh_corpus_def corpus_clean_def indexes_free_def)
  from corpus_run_clean [OF assms(3) this] have clean: "indexes_free (cw_indexes ?w)" by (simp add: corpus_clean_def)
  have "names_plain w" using assms(1) by (simp add: fresh_corpus_def names_plain_def)
  from names_plain_run [OF this, of calls] assms(2) have rag: "resolved_data ?w" "names_plain ?w" by (simp_all add: resolved_data_def)
  note searched = searched_rag [OF _ rag assms(4)]
  have "\<exists>docs. iterate v = Inr docs \<and> JNull \<notin> set docs" if "(c, v) \<in> set (searched collection (rag_of parse other ?w))" for c v
    using searched [OF that] by (auto simp: index_json_def)
  then have "\<forall>(c, v) \<in> set (searched collection (rag_of parse other ?w)). \<exists>docs. iterate v = Inr docs \<and> JNull \<notin> set docs" by blast
  from score_collections_defined [OF this, of num query] obtain r where r: "sec_rag_query num query collection limit (rag_of parse other ?w) = Inr r"
    by (auto simp: sec_rag_query_def searched_def Let_def)
  have "\<not> sublist k t" if x: "x \<in> set (rq_results r)"
    and t: "Some (JStr t) \<in> {rr_vuln_class x, rr_root_cause x, rr_impact x, rr_remediation x, rr_content_preview x}" for x t
  proof -
    from query_sound [OF r x] obtain v docs item where i: "(rr_collection x, v) \<in> set (searched collection (rag_of parse other ?w))" "iterate v = Inr docs"
      "item \<in> set docs" "x = result_for num query (rr_collection x) item" by blast
    from searched [OF i(1)] i(2,3) obtain c "is" it where it: "(c, is) \<in> set (cw_indexes ?w)" "it \<in> set is" "item = index_json it" by auto
    have "index_free key_words it" using clean it(1,2) by (force simp: indexes_free_def list_all_iff)
    moreover have "t = ix_content_preview it \<or> ix_vuln_class it = Some t \<or> ix_root_cause it = Some t \<or> ix_impact it = Some t \<or> ix_remediation it = Some t"
      using t arg_cong [OF i(4), of rr_vuln_class] arg_cong [OF i(4), of rr_root_cause] arg_cong [OF i(4), of rr_impact]
        arg_cong [OF i(4), of rr_remediation] arg_cong [OF i(4), of rr_content_preview]
      by (auto simp: result_for_def rag_result_of_def it(3) index_field)
    ultimately show ?thesis using assms(5) by (auto simp: index_free_def free_def)
  qed
  with r show ?thesis by blast
qed

theorem retrieval_leaks_no_key_witness:
  "\<exists>r. sec_rag_query whole_text ''ssrf'' None None (rag_of (\<lambda>_. Bad_json) Map.empty (run_calls corpus_exec demo_calls demo_corpus)) = Inr r \<and>
    (\<forall>x \<in> set (rq_results r). rr_content_preview x \<noteq> Some (JStr demo_text))"
proof -
  have "demo_key = ''AKIA'' @ ''ABCDEFGHIJKLMNOP''" "length ''ABCDEFGHIJKLMNOP'' = 16" "list_all upper_digit ''ABCDEFGHIJKLMNOP''" by code_simp+
  then have k: "demo_key \<in> key_words" unfolding key_words_def run_words_def by blast
  have "fresh_corpus demo_corpus" "list_all from_sanitized demo_calls"
    by (simp_all add: fresh_corpus_def demo_corpus_def demo_calls_def from_sanitized_def)
  moreover have "resolved_data demo_corpus"
    unfolding resolved_data_def by (intro exI [of _ "[''d'']"]) (simp add: plain_seg_def absolute_path_def demo_corpus_def)
  moreover have "slashless (or_else None [])" by (simp add: slashless_def)
  ultimately obtain r where
    r: "sec_rag_query whole_text ''ssrf'' None None (rag_of (\<lambda>_. Bad_json) Map.empty (run_calls corpus_exec demo_calls demo_corpus)) = Inr r"
      "\<forall>x \<in> set (rq_results r). \<forall>t. Some (JStr t) \<in> {rr_vuln_class x, rr_root_cause x, rr_impact x, rr_remediation x, rr_content_preview x} \<longrightarrow>
        \<not> sublist demo_key t"
    using retrieval_leaks_no_key [OF _ _ _ _ k, of demo_corpus demo_calls None whole_text "''ssrf''" None "\<lambda>_. Bad_json" Map.empty] by blast
  have "sublist demo_key demo_text" unfolding demo_text_def using sublist_appendI [of demo_key "''SSRF with ''" "[]"] by simp
  with r show ?thesis by force
qed

text \<open>Over the files the learning loop writes, the check for known false positives never counts one: the entries carry no
  \<open>outcome\<close>, so whatever has been rejected before, the rate is zero and the recommendation is \<open>No historical matches\<close> or that
  0 of the similar cases were false positives, never a warning.\<close>

theorem rejections_never_warn:
  "let r = snd (sec_rag_false_positive_check num title evidence (fp_world fmt data f)) in
     fr_false_positive_count r = 0 \<and> fr_false_positive_rate r = 0 \<and>
     fr_recommendation r = (if fr_similar_cases_found r = 0 then No_matches else Normal_confidence 0 (fr_similar_cases_found r))"
proof -
  have "ensure_fp_dir (fp_world fmt data f) = fp_world fmt data f"
    by (simp add: ensure_fp_dir_def fp_world_def Let_def false_positives_dir_def)
  moreover have "filter is_false_positive (sort_key k (fp_matches num q (fp_world fmt data f) files)) = []" for k :: "fp_match \<Rightarrow> real" and q files
    using fp_matches_no_outcome by (fastforce simp: filter_empty_conv)
  moreover have "\<lfloor>1 / 2 :: rat\<rfloor> = 0" by (simp add: floor_eq_iff)
  ultimately show ?thesis
    by (simp add: sec_rag_false_positive_check_def Let_def recommend_def fp_rate_def)
qed

text \<open>A rejection recorded before is found, as a case that was not a false positive.\<close>

lemma rejection_found:
  "fr_recommendation (snd (sec_rag_false_positive_check num ''SQL error in search'' None (fp_world (\<lambda>_. ''now'') ''/d'' demo_learned))) =
     Normal_confidence 0 1"
proof -
  let ?w = "fp_world (\<lambda>_. ''now'') ''/d'' demo_learned" and ?j = "entry_json (\<lambda>_. ''now'') demo_fp"
  have dirs: "path_join [''/d'', ''false-positives''] = ''/d/false-positives''" "path_join [''/d/false-positives'', ''H-1.json''] = ''/d/false-positives/H-1.json''"
    "path_join [''/d/false-positives'', ''index.json''] = ''/d/false-positives/index.json''" by code_simp+
  have files: "fp_files demo_learned = [(''H-1.json'', Some demo_fp)]" "fp_index demo_learned = No_index"
    by (simp_all add: demo_learned_def no_learn_files_def)
  have name: "suffix ''.json'' ''H-1.json''" by code_simp
  have tokens: "rag_tokenize ''SQL error in search '' = [''sql'', ''error'', ''search'']" by code_simp
  have "''sql'' \<in> set (rag_tokenize (stringify num ?j))" by code_simp
  then have "scoreDocument [''sql'', ''error'', ''search''] (stringify num ?j) > 0" by (auto simp: score_pos_iff)
  then show ?thesis
    using tokens name by (simp add: sec_rag_false_positive_check_def Let_def ensure_fp_dir_def false_positives_dir_def fp_world_def files dirs
      fp_matches_def fp_file_at_def List.map_filter_def is_false_positive_def entry_no_outcome recommend_def fp_rate_def)
qed

end
