(* ===== verification/Pattern_Library.thy ===== *)
theory Pattern_Library
  imports JSJson "HOL-Library.List_Lexorder" "HOL-Library.Char_ord"
begin

text \<open>
  The library of vulnerability patterns (\<open>pattern-library.ts\<close>): the twenty seeds, the file and its fallbacks, the four tools
  and the command \<open>/patterns\<close>. The array of seeds is a module-level value which \<open>loadPatterns\<close> hands out itself when the
  file is missing or broken, so a tool that appends to the patterns it loaded may change the seeds: it is part of the
  state. Loaded patterns are JSON. The two characters of the seeds outside of Latin-1, an arrow and a dash, are written as
  the Latin-1 characters \<open>0xBB\<close> and \<open>0xAD\<close>, which occur nowhere else.
\<close>

section \<open>Seeds\<close>

record Pattern =
  pt_id :: string
  pt_name :: string
  pt_architecture_pattern :: string
  pt_security_invariant :: string
  pt_weakness_pattern :: string
  pt_observable_signals :: "string list"
  pt_validation_strategy :: string
  pt_potential_impact :: string
  pt_vuln_class :: string
  pt_tags :: "string list"

definition arrow :: string where
  "arrow = [CHR 0xBB]"

definition dash :: string where
  "dash = [CHR 0xAD]"

definition dquote :: string where
  "dquote = [CHR 0x22]"

definition squote :: string where
  "squote = [CHR 0x27]"

definition SEED_PATTERNS_1 :: "Pattern list" where
  "SEED_PATTERNS_1 =
     [\<lparr>pt_id = ''PTN-001'',
       pt_name = ''IDOR/BOLA in REST APIs'',
       pt_architecture_pattern = ''REST API with object IDs in URL paths (/api/users/:id, /api/orders/:id)'',
       pt_security_invariant = ''User A can only access resources owned by User A. Object IDs must be validated against ownership.'',
       pt_weakness_pattern = ''Object ID in URL is used directly to fetch resource without checking if the requesting user owns or has access to that resource.'',
       pt_observable_signals = [''Sequential object IDs (1, 2, 3)'', ''No ownership check in API handler'', ''Same response for different authenticated users requesting same ID'', ''IDOR parameter in URL path not validated''],
       pt_validation_strategy = ''1. Authenticate as User A, note resource ID. 2. Authenticate as User B. 3. Request User A's resource ID as User B. 4. If response contains User A's data '' @ arrow @ '' confirmed IDOR.'',
       pt_potential_impact = ''Unauthorized data access, mass data exfiltration, account takeover if sensitive resources exposed.'',
       pt_vuln_class = ''idor'',
       pt_tags = [''api'', ''authorization'', ''rest'', ''bola'']\<rparr>,
      \<lparr>pt_id = ''PTN-002'',
       pt_name = ''IDOR/BOLA in GraphQL'',
       pt_architecture_pattern = ''GraphQL API with type-based resolvers and object fetching by ID'',
       pt_security_invariant = ''Field resolvers must enforce authorization per-object, not just at the query level.'',
       pt_weakness_pattern = ''GraphQL resolver fetches object by ID without checking if the requesting user has access to that object. Introspection reveals all types and fields.'',
       pt_observable_signals = [''GraphQL endpoint accepts arbitrary IDs'', ''No field-level authorization'', ''Introspection enabled in production'', ''Batch queries allow mass IDOR'', ''Alias-based attacks for brute force''],
       pt_validation_strategy = ''1. Query an object owned by User A. 2. Re-query same object as User B. 3. If data returned '' @ arrow @ '' confirmed. 4. Test with aliases for mass extraction.'',
       pt_potential_impact = ''Mass data exfiltration via batched queries, full database enumeration through GraphQL.'',
       pt_vuln_class = ''idor'',
       pt_tags = [''api'', ''graphql'', ''authorization'']\<rparr>,
      \<lparr>pt_id = ''PTN-003'',
       pt_name = ''JWT Algorithm Confusion (RS256'' @ arrow @ ''HS256)'',
       pt_architecture_pattern = ''JWT authentication with RS256 (asymmetric) signing'',
       pt_security_invariant = ''The server must enforce the expected signing algorithm and reject tokens with different algorithms.'',
       pt_weakness_pattern = ''Server accepts HS256 algorithm and uses the public key as the HMAC secret, allowing token forgery.'',
       pt_observable_signals = [''JWT with alg:RS256 in header'', ''Public key available (e.g. /jwks.json, /.well-known/jwks.json)'', ''Server doesn't pin algorithm'', ''Library vulnerable to algorithm confusion''],
       pt_validation_strategy = ''1. Obtain public key. 2. Craft JWT with alg:HS256 using public key as HMAC secret. 3. Send forged token. 4. If accepted '' @ arrow @ '' confirmed.'',
       pt_potential_impact = ''Authentication bypass, complete account impersonation, admin access if admin tokens forged.'',
       pt_vuln_class = ''auth-bypass'',
       pt_tags = [''jwt'', ''auth'', ''algorithm-confusion'']\<rparr>,
      \<lparr>pt_id = ''PTN-004'',
       pt_name = ''OAuth Redirect URI Manipulation'',
       pt_architecture_pattern = ''OAuth 2.0 authorization code flow with redirect_uri validation'',
       pt_security_invariant = ''Redirect URI must be strictly validated against an allowlist. Open redirects must not be used as intermediaries.'',
       pt_weakness_pattern = ''Redirect URI validation is insufficient '' @ dash @ '' allows path traversal, subdomain takeover, or open redirect chains to exfiltrate authorization codes.'',
       pt_observable_signals = [''redirect_uri parameter in URL'', ''Validation only checks domain prefix'', ''Path traversal in redirect_uri'', ''Open redirect on same domain'', ''State parameter missing or not validated''],
       pt_validation_strategy = ''1. Start OAuth flow with malicious redirect_uri. 2. Test path traversal (https://app.com/redirect?url=https://evil.com). 3. Test subdomain takeover. 4. If code lands on attacker-controlled URL '' @ arrow @ '' confirmed.'',
       pt_potential_impact = ''Authorization code theft, account takeover, token theft via malicious redirect.'',
       pt_vuln_class = ''oauth'',
       pt_tags = [''oauth'', ''auth'', ''redirect'', ''open-redirect'']\<rparr>,
      \<lparr>pt_id = ''PTN-005'',
       pt_name = ''SSRF via URL Parameters'',
       pt_architecture_pattern = ''Server-side HTTP requests based on user input (webhooks, URL previews, image fetching, PDF rendering)'',
       pt_security_invariant = ''User-supplied URLs must be validated against an allowlist. Internal IP ranges must be blocked.'',
       pt_weakness_pattern = ''Server fetches user-supplied URL without validating destination, allowing access to internal services, cloud metadata, or localhost services.'',
       pt_observable_signals = [''URL parameter accepted and fetched server-side'', ''No IP range blocking (169.254.169.254, 10.x, 172.16-31.x, 192.168.x)'', ''Response contains fetched content'', ''Timing differences for internal vs external'', ''Error messages reveal internal topology''],
       pt_validation_strategy = ''1. Submit URL to cloud metadata (http://169.254.169.254/latest/meta-data/). 2. Submit URL to localhost services. 3. If internal content returned '' @ arrow @ '' confirmed. 4. Test DNS rebinding if IP filtering exists.'',
       pt_potential_impact = ''Cloud credential theft via metadata service, internal port scanning, access to internal admin panels, database access.'',
       pt_vuln_class = ''ssrf'',
       pt_tags = [''ssrf'', ''server-side'', ''cloud'', ''metadata'']\<rparr>,
      \<lparr>pt_id = ''PTN-006'',
       pt_name = ''SSRF via DNS Rebinding'',
       pt_architecture_pattern = ''Server-side URL fetching with IP-based filtering'',
       pt_security_invariant = ''IP validation must occur at connection time, not just at DNS resolution time.'',
       pt_weakness_pattern = ''Server validates IP at DNS resolution time, but connects to a different IP (rebinding) that bypasses the filter.'',
       pt_observable_signals = [''IP-based filtering exists'', ''URL fetched server-side'', ''Filtering happens before connection'', ''No re-resolution at connect time''],
       pt_validation_strategy = ''1. Set up DNS rebinding domain. 2. First resolution returns public IP (passes filter). 3. Second resolution returns 169.254.169.254. 4. If metadata returned '' @ arrow @ '' confirmed.'',
       pt_potential_impact = ''Bypass IP filtering to reach internal services, cloud metadata access.'',
       pt_vuln_class = ''ssrf'',
       pt_tags = [''ssrf'', ''dns-rebinding'', ''bypass'']\<rparr>,
      \<lparr>pt_id = ''PTN-007'',
       pt_name = ''SQL Injection in ORDER BY'',
       pt_architecture_pattern = ''SQL query with dynamic ORDER BY clause from user input'',
       pt_security_invariant = ''ORDER BY parameters must be validated against a column allowlist. Parameterized queries don't protect ORDER BY.'',
       pt_weakness_pattern = ''User input placed directly in ORDER BY clause without validation, allowing boolean-based or time-based injection.'',
       pt_observable_signals = [''Sort parameter in API'', ''Different response ordering with different sort values'', ''Error when special characters in sort param'', ''Time delay with SLEEP() in sort param''],
       pt_validation_strategy = ''1. Test sort parameter with normal column. 2. Test with non-existent column (error?). 3. Test boolean: (CASE WHEN 1=1 THEN column1 ELSE column2 END). 4. Test time-based: SLEEP(5). 5. If response changes or delays '' @ arrow @ '' confirmed.'',
       pt_potential_impact = ''Database enumeration, data extraction via boolean/time-based injection, potential RCE via INTO OUTFILE.'',
       pt_vuln_class = ''sqli'',
       pt_tags = [''sqli'', ''order-by'', ''injection'']\<rparr>,
      \<lparr>pt_id = ''PTN-008'',
       pt_name = ''SQL Injection via JSON'',
       pt_architecture_pattern = ''JSON API with JSON fields parsed and used in SQL queries'',
       pt_security_invariant = ''JSON field values must be parameterized, not string-interpolated into SQL.'',
       pt_weakness_pattern = ''JSON field values are extracted and used in SQL query construction without parameterization.'',
       pt_observable_signals = [''JSON request body with fields used in queries'', ''SQL errors when special characters in JSON values'', ''Different responses with injection payloads in JSON fields'', ''JSON path injection''],
       pt_validation_strategy = ''1. Send JSON with ' in field value. 2. Check for SQL error. 3. Test boolean: '' @ dquote @ squote @ '' OR 1=1--'' @ dquote @ ''. 4. Test UNION: '' @ dquote @ squote @ '' UNION SELECT 1,2,3--'' @ dquote @ ''. 5. If data returned or error '' @ arrow @ '' confirmed.'',
       pt_potential_impact = ''Full database access, data exfiltration, potential RCE.'',
       pt_vuln_class = ''sqli'',
       pt_tags = [''sqli'', ''json'', ''injection'']\<rparr>,
      \<lparr>pt_id = ''PTN-009'',
       pt_name = ''NoSQL Injection'',
       pt_architecture_pattern = ''NoSQL database (MongoDB) with query parameters from user input'',
       pt_security_invariant = ''Query operators must not be injectable. User input must not allow $-prefixed operators.'',
       pt_weakness_pattern = ''User input parsed as JSON allows MongoDB operators like $ne, $gt, $regex to bypass authentication or extract data.'',
       pt_observable_signals = [''JSON input used in MongoDB queries'', ''No sanitization of $-prefixed keys'', ''Authentication bypass with {'' @ dquote @ ''password'' @ dquote @ '':{'' @ dquote @ ''$ne'' @ dquote @ '':'' @ dquote @ dquote @ ''}}'', ''Different responses with $regex operators''],
       pt_validation_strategy = ''1. Send {'' @ dquote @ ''username'' @ dquote @ '':'' @ dquote @ ''admin'' @ dquote @ '','' @ dquote @ ''password'' @ dquote @ '':{'' @ dquote @ ''$ne'' @ dquote @ '':'' @ dquote @ dquote @ ''}}. 2. If login succeeds '' @ arrow @ '' confirmed auth bypass. 3. Test {$gt:'' @ dquote @ dquote @ ''} for data extraction. 4. Test $regex for blind extraction.'',
       pt_potential_impact = ''Authentication bypass, full database enumeration, data exfiltration.'',
       pt_vuln_class = ''nosqli'',
       pt_tags = [''nosql'', ''injection'', ''mongodb'', ''auth-bypass'']\<rparr>,
      \<lparr>pt_id = ''PTN-010'',
       pt_name = ''XSS via Template Injection'',
       pt_architecture_pattern = ''Server-side template rendering with user input in template context'',
       pt_security_invariant = ''User input must be treated as data, not as template syntax. Templates must use auto-escaping.'',
       pt_weakness_pattern = ''User input is placed in template context allowing template syntax injection (Jinja2, Twig, Handlebars, etc.) leading to XSS or RCE.'',
       pt_observable_signals = [''User input rendered in page'', ''Template syntax ({{}}, ${}, <%= %>) in input causes different output'', ''Mathematical expressions evaluated'', ''Server-side errors with template syntax''],
       pt_validation_strategy = ''1. Test {{7*7}} in input fields. 2. If 49 rendered '' @ arrow @ '' SSTI confirmed. 3. Escalate to RCE with template-specific payloads. 4. If only <script> tags work '' @ arrow @ '' XSS not SSTI.'',
       pt_potential_impact = ''Cross-site scripting, server-side code execution, full server compromise.'',
       pt_vuln_class = ''xss'',
       pt_tags = [''xss'', ''ssti'', ''template'', ''rce'']\<rparr>]"

definition SEED_PATTERNS_2 :: "Pattern list" where
  "SEED_PATTERNS_2 =
     [\<lparr>pt_id = ''PTN-011'',
       pt_name = ''XSS via DOM Sinks'',
       pt_architecture_pattern = ''Client-side JavaScript that writes user-controlled data to DOM without sanitization'',
       pt_security_invariant = ''All user input written to DOM must be sanitized. Dangerous sinks (innerHTML, document.write, eval) must be avoided.'',
       pt_weakness_pattern = ''JavaScript reads URL parameters or postMessage data and writes to DOM sinks (innerHTML, outerHTML, document.write, eval, setTimeout with string).'',
       pt_observable_signals = [''URL parameters reflected in page'', ''innerHTML or document.write in JS'', ''No CSP or weak CSP'', ''postMessage without origin check'', ''Fragment (#) used for data passing''],
       pt_validation_strategy = ''1. Identify DOM sink in JS source. 2. Trace data flow from source (URL param, postMessage, hash). 3. Inject payload via source. 4. If script executes '' @ arrow @ '' confirmed. 5. Check CSP headers.'',
       pt_potential_impact = ''Cookie theft, session hijacking, credential phishing, browser exploitation.'',
       pt_vuln_class = ''xss'',
       pt_tags = [''xss'', ''dom'', ''client-side'', ''csp'']\<rparr>,
      \<lparr>pt_id = ''PTN-012'',
       pt_name = ''CSRF on Stateless API'',
       pt_architecture_pattern = ''Stateless API using JWT in cookies (not Authorization header)'',
       pt_security_invariant = ''Stateless APIs using cookie-based auth are vulnerable to CSRF unless CSRF tokens or SameSite cookies are used.'',
       pt_weakness_pattern = ''API accepts JWT from cookies without CSRF protection. SameSite cookie attribute not set. No custom header requirement.'',
       pt_observable_signals = [''Auth token in cookie not header'', ''No SameSite attribute'', ''No CSRF token'', ''Content-Type: application/x-www-form-urlencoded accepted'', ''No custom header check (X-Requested-With)''],
       pt_validation_strategy = ''1. Identify state-changing endpoint. 2. Create HTML form that submits to API. 3. If request succeeds from different origin '' @ arrow @ '' confirmed. 4. Check SameSite cookie. 5. Test if custom header required.'',
       pt_potential_impact = ''Unauthorized state changes, fund transfers, email changes, account modifications.'',
       pt_vuln_class = ''csrf'',
       pt_tags = [''csrf'', ''api'', ''cookie'', ''stateless'']\<rparr>,
      \<lparr>pt_id = ''PTN-013'',
       pt_name = ''Mass Assignment'',
       pt_architecture_pattern = ''API that accepts JSON and maps directly to model properties'',
       pt_security_invariant = ''API must use explicit field allowlists (DTOs), not accept arbitrary properties.'',
       pt_weakness_pattern = ''API accepts JSON and binds all properties to model, allowing user to set fields like role, isAdmin, balance, etc.'',
       pt_observable_signals = [''API accepts JSON body'', ''Extra fields not rejected'', ''Model has sensitive fields (role, isAdmin, balance)'', ''No DTO/allowlist in controller'', ''Update endpoint accepts all fields''],
       pt_validation_strategy = ''1. Send normal update request. 2. Add '' @ dquote @ ''role'' @ dquote @ '':'' @ dquote @ ''admin'' @ dquote @ '' to JSON body. 3. If role changes '' @ arrow @ '' confirmed. 4. Test other sensitive fields: isAdmin, balance, verified, status.'',
       pt_potential_impact = ''Privilege escalation, account modification, financial manipulation.'',
       pt_vuln_class = ''mass-assignment'',
       pt_tags = [''api'', ''authorization'', ''privilege-escalation'']\<rparr>,
      \<lparr>pt_id = ''PTN-014'',
       pt_name = ''Race Condition in Payment'',
       pt_architecture_pattern = ''Payment processing with balance check then deduction (non-atomic)'',
       pt_security_invariant = ''Balance check and deduction must be atomic. Database transactions with proper isolation must be used.'',
       pt_weakness_pattern = ''Balance checked first, then deducted separately. Concurrent requests can both pass the check before either deduction.'',
       pt_observable_signals = [''Balance check and deduction in separate operations'', ''No database transaction'', ''No pessimistic locking'', ''No idempotency key'', ''No rate limiting on payment endpoint''],
       pt_validation_strategy = ''1. Identify balance check endpoint. 2. Send 10 concurrent requests to use same balance. 3. If multiple succeed '' @ arrow @ '' confirmed race. 4. Check if double-spend occurred.'',
       pt_potential_impact = ''Free purchases, balance manipulation, double-spending, financial fraud.'',
       pt_vuln_class = ''race-condition'',
       pt_tags = [''business-logic'', ''payment'', ''race'', ''concurrency'']\<rparr>,
      \<lparr>pt_id = ''PTN-015'',
       pt_name = ''Rate Limit Bypass'',
       pt_architecture_pattern = ''Rate limiting based on IP address or single identifier'',
       pt_security_invariant = ''Rate limiting must account for all possible ways to identify a client, not just IP.'',
       pt_weakness_pattern = ''Rate limit only on IP, allowing bypass via X-Forwarded-For, multiple accounts, or rotating IPs.'',
       pt_observable_signals = [''Rate limit on IP only'', ''X-Forwarded-For accepted'', ''No limit per-account'', ''Different endpoints have separate limits'', ''No limit on GraphQL batch queries''],
       pt_validation_strategy = ''1. Hit rate-limited endpoint until blocked. 2. Add X-Forwarded-For: random IP. 3. If unblocked '' @ arrow @ '' confirmed. 4. Test different paths to same resource. 5. Test batch queries.'',
       pt_potential_impact = ''Brute force attacks, credential stuffing, data scraping, OTP bypass.'',
       pt_vuln_class = ''rate-limit'',
       pt_tags = [''rate-limit'', ''bypass'', ''brute-force'']\<rparr>,
      \<lparr>pt_id = ''PTN-016'',
       pt_name = ''Privilege Escalation via Parameter Pollution'',
       pt_architecture_pattern = ''API that accepts parameters from multiple sources (query, body, headers)'',
       pt_security_invariant = ''Parameter source must be deterministic. Priority must be explicit and consistent.'',
       pt_weakness_pattern = ''API accepts role/permission from query parameter that overrides body value, or header overrides body.'',
       pt_observable_signals = [''Parameters accepted from multiple sources'', ''Different values in query vs body'', ''Role/permission parameter in URL'', ''No source priority enforcement''],
       pt_validation_strategy = ''1. Send normal request with role:member in body. 2. Add role=admin in query string. 3. If role becomes admin '' @ arrow @ '' confirmed. 4. Test header vs body. 5. Test JSON vs form encoding.'',
       pt_potential_impact = ''Privilege escalation, authorization bypass.'',
       pt_vuln_class = ''privilege-escalation'',
       pt_tags = [''api'', ''authorization'', ''parameter-pollution'']\<rparr>,
      \<lparr>pt_id = ''PTN-017'',
       pt_name = ''Session Fixation'',
       pt_architecture_pattern = ''Session management that doesn't rotate session ID on authentication'',
       pt_security_invariant = ''Session ID must be regenerated after login to prevent fixation attacks.'',
       pt_weakness_pattern = ''Session ID remains the same before and after login, allowing attacker to set a known session ID.'',
       pt_observable_signals = [''Session cookie same before/after login'', ''No Set-Cookie on login response'', ''Session ID in URL'', ''No session rotation on privilege change''],
       pt_validation_strategy = ''1. Note session cookie before login. 2. Login. 3. Check if cookie changed. 4. If same '' @ arrow @ '' confirmed session fixation. 5. Test if pre-set session ID accepted after login.'',
       pt_potential_impact = ''Session hijacking, account takeover via pre-set session ID.'',
       pt_vuln_class = ''session'',
       pt_tags = [''auth'', ''session'', ''fixation'']\<rparr>,
      \<lparr>pt_id = ''PTN-018'',
       pt_name = ''Insecure Deserialization'',
       pt_architecture_pattern = ''Application that deserializes user-supplied data (Java, .NET, Python pickle, PHP unserialize)'',
       pt_security_invariant = ''User-supplied data must never be deserialized. Use JSON or other safe formats.'',
       pt_weakness_pattern = ''Application deserializes objects from user input, allowing code execution via gadget chains.'',
       pt_observable_signals = [''Serialized data in parameters/cookies'', ''Java/Ruby/PHP/Python backend'', ''Base64-encoded serialized objects'', ''Magic methods called during deserialization'', ''ysoserial-style payloads cause errors''],
       pt_validation_strategy = ''1. Identify serialized data format. 2. Generate payload with gadget chain (ysoserial, pickle, etc.). 3. Send payload. 4. If code executes (DNS callback, file creation) '' @ arrow @ '' confirmed RCE. 5. Test blind deserialization with OOB.'',
       pt_potential_impact = ''Remote code execution, full server compromise.'',
       pt_vuln_class = ''deserialization'',
       pt_tags = [''rce'', ''deserialization'', ''java'', ''python'']\<rparr>,
      \<lparr>pt_id = ''PTN-019'',
       pt_name = ''Path Traversal in File Upload'',
       pt_architecture_pattern = ''File upload with filename used in storage path'',
       pt_security_invariant = ''Filenames must be sanitized. Generated filenames should be used, not user-supplied.'',
       pt_weakness_pattern = ''User-supplied filename is used in file path construction allowing ../ traversal to overwrite system files.'',
       pt_observable_signals = [''Filename in upload used for storage path'', ''No filename sanitization'', ''../ in filename accepted'', ''Absolute path in filename'', ''Null byte in filename''],
       pt_validation_strategy = ''1. Upload file with filename ../../../tmp/test.txt. 2. Check if file written outside upload dir. 3. Try absolute path /etc/cron.d/test. 4. If file exists '' @ arrow @ '' confirmed.'',
       pt_potential_impact = ''Arbitrary file write, code execution via overwrite, path traversal to read sensitive files.'',
       pt_vuln_class = ''path-traversal'',
       pt_tags = [''file-upload'', ''path-traversal'', ''rce'']\<rparr>,
      \<lparr>pt_id = ''PTN-020'',
       pt_name = ''Open Redirect Chains'',
       pt_architecture_pattern = ''Multiple redirect endpoints that validate against different criteria'',
       pt_security_invariant = ''All redirect endpoints must validate against the same allowlist. No redirect chains allowed.'',
       pt_weakness_pattern = ''Redirect A validates domain but allows redirect to redirect B, which allows external redirect. Or open redirect used for OAuth token theft.'',
       pt_observable_signals = [''Multiple redirect parameters in flow'', ''Different validation for different redirect endpoints'', ''Redirect chain possible'', ''Open redirect on same domain as OAuth''],
       pt_validation_strategy = ''1. Identify redirect endpoints. 2. Test each for open redirect. 3. Chain: redirect A '' @ arrow @ '' redirect B '' @ arrow @ '' external. 4. If chain reaches external URL '' @ arrow @ '' confirmed. 5. Test in OAuth flow for code theft.'',
       pt_potential_impact = ''Phishing via trusted domain, OAuth token theft, SSRF via redirect chains.'',
       pt_vuln_class = ''open-redirect'',
       pt_tags = [''redirect'', ''oauth'', ''phishing'', ''chain'']\<rparr>]"

definition pattern_json :: "Pattern \<Rightarrow> json" where
  "pattern_json p =
     JObj [(''id'', JStr (pt_id p)), (''name'', JStr (pt_name p)), (''architecture_pattern'', JStr (pt_architecture_pattern p)),
           (''security_invariant'', JStr (pt_security_invariant p)), (''weakness_pattern'', JStr (pt_weakness_pattern p)),
           (''observable_signals'', JArr (map JStr (pt_observable_signals p))),
           (''validation_strategy'', JStr (pt_validation_strategy p)), (''potential_impact'', JStr (pt_potential_impact p)),
           (''vuln_class'', JStr (pt_vuln_class p)), (''tags'', JArr (map JStr (pt_tags p)))]"

definition SEED_PATTERNS :: "json list" where
  "SEED_PATTERNS = map pattern_json (SEED_PATTERNS_1 @ SEED_PATTERNS_2)"

section \<open>The file\<close>

text \<open>The module's array of seeds, and the file.\<close>

record pattern_lib =
  pl_seeds :: "json list"
  pl_file :: "json_text option"

text \<open>The loaded value, and whether its patterns are the array of seeds itself.\<close>

definition loadPatterns :: "pattern_lib \<Rightarrow> pattern_lib \<times> json \<times> bool" where
  "loadPatterns l =
     (let seeds = JObj [(''patterns'', JArr (pl_seeds l))] in
      case pl_file l of
        None \<Rightarrow> (l\<lparr>pl_file := Some (Good_json seeds)\<rparr>, seeds, True)
      | Some (Good_json data) \<Rightarrow> (l, data, False)
      | Some Bad_json \<Rightarrow> (l, seeds, True))"

definition savePatterns :: "json \<Rightarrow> pattern_lib \<Rightarrow> pattern_lib" where
  "savePatterns data l = l\<lparr>pl_file := Some (Good_json data)\<rparr>"

text \<open>The module as loaded: the file is created when it is missing.\<close>

definition init_library :: "json_text option \<Rightarrow> pattern_lib" where
  "init_library file = fst (loadPatterns \<lparr>pl_seeds = SEED_PATTERNS, pl_file = file\<rparr>)"

text \<open>\<open>data.patterns\<close> where an array method or a loop follows.\<close>

definition patterns_of :: "json \<Rightarrow> js_error + json list" where
  "patterns_of data =
     (case member (Some data) ''patterns'' of Inr (Some (JArr ps)) \<Rightarrow> Inr ps | _ \<Rightarrow> Inl TypeError)"

section \<open>pattern\_add\<close>

fun max_id :: "int \<Rightarrow> json list \<Rightarrow> js_error + int" where
  "max_id m [] = Inr m"
| "max_id m (p # ps) =
     (case member (Some p) ''id'' of
        Inr (Some (JStr s)) \<Rightarrow>
          (case parseInt (remove_first ''PTN-'' s) of
             None \<Rightarrow> max_id m ps
           | Some num \<Rightarrow> max_id (if num > m then num else m) ps)
      | _ \<Rightarrow> Inl TypeError)"

definition pattern_id :: "nat \<Rightarrow> string" where
  "pattern_id n = ''PTN-'' @ padStart 3 (CHR ''0'') (nat_to_string n)"

definition nextPatternId :: "json list \<Rightarrow> js_error + string" where
  "nextPatternId patterns = map_sum id (\<lambda>m. pattern_id (nat (m + 1))) (max_id 0 patterns)"

record add_reply =
  ar_id :: string
  ar_message :: string

definition new_pattern :: "string \<Rightarrow> (string \<times> json) list \<Rightarrow> json" where
  "new_pattern pid params =
     JObj (spread [(''id'', JStr pid), (''tags'', js_or (map_of params ''tags'') (JArr []))] params)"

text \<open>The loaded value after \<open>data.patterns.push\<close>.\<close>

definition with_patterns :: "json \<Rightarrow> json list \<Rightarrow> json" where
  "with_patterns data ps = (case data of JObj fs \<Rightarrow> JObj (AList.update ''patterns'' (JArr ps) fs) | _ \<Rightarrow> data)"

definition pattern_add ::
  "(rat \<Rightarrow> string) \<Rightarrow> (string \<times> json) list \<Rightarrow> pattern_lib \<Rightarrow> pattern_lib \<times> (js_error + add_reply)" where
  "pattern_add num params l =
     (let (l1, data, shared) = loadPatterns l in
      case patterns_of data of
        Inl e \<Rightarrow> (l1, Inl e)
      | Inr ps \<Rightarrow>
          (case nextPatternId ps of
             Inl e \<Rightarrow> (l1, Inl e)
           | Inr pid \<Rightarrow>
               (let ps' = ps @ [new_pattern pid params]; l2 = (if shared then l1\<lparr>pl_seeds := ps'\<rparr> else l1)
                in (savePatterns (with_patterns data ps') l2,
                    Inr \<lparr>ar_id = pid, ar_message = ''Pattern added: '' @ js_text num (map_of params ''name'')\<rparr>))))"

section \<open>pattern\_search\<close>

definition HIT_FIELDS :: "string list" where
  "HIT_FIELDS = [''id'', ''name'', ''vuln_class'', ''observable_signals'', ''validation_strategy'', ''potential_impact'']"

type_synonym pattern_hit = "(string \<times> json option) list"

definition hit_of :: "json \<Rightarrow> js_error + pattern_hit" where
  "hit_of p = (if p = JNull then Inl TypeError else Inr (map (\<lambda>k. (k, json_field p k)) HIT_FIELDS))"

fun try_map :: "('a \<Rightarrow> js_error + 'b) \<Rightarrow> 'a list \<Rightarrow> js_error + 'b list" where
  "try_map f [] = Inr []"
| "try_map f (x # xs) =
     (case f x of Inl e \<Rightarrow> Inl e | Inr y \<Rightarrow> (case try_map f xs of Inl e \<Rightarrow> Inl e | Inr ys \<Rightarrow> Inr (y # ys)))"

definition mentions :: "(rat \<Rightarrow> string) \<Rightarrow> string \<Rightarrow> json \<Rightarrow> bool" where
  "mentions num query p = sublist query (toLowerCase (stringify num p))"

definition of_class :: "string option \<Rightarrow> json \<Rightarrow> js_error + bool" where
  "of_class cls p = map_sum id (\<lambda>f. f = map_option JStr cls) (member (Some p) ''vuln_class'')"

record search_reply =
  sr_query :: string
  sr_vuln_class :: string
  sr_results :: "pattern_hit list"

definition pattern_search ::
  "(rat \<Rightarrow> string) \<Rightarrow> string \<Rightarrow> string option \<Rightarrow> int option \<Rightarrow> pattern_lib \<Rightarrow> pattern_lib \<times> (js_error + search_reply)" where
  "pattern_search num query vuln_class limit l =
     (let (l1, data, _) = loadPatterns l in
      (l1,
       case patterns_of data of
         Inl e \<Rightarrow> Inl e
       | Inr ps \<Rightarrow>
           (case (if truthy vuln_class then try_filter (of_class vuln_class) ps else Inr ps) of
              Inl e \<Rightarrow> Inl e
            | Inr qs \<Rightarrow>
                (case try_map hit_of (slice0 (num_or limit 10) (filter (mentions num (toLowerCase query)) qs)) of
                   Inl e \<Rightarrow> Inl e
                 | Inr hits \<Rightarrow>
                     Inr \<lparr>sr_query = query, sr_vuln_class = (if truthy vuln_class then the vuln_class else ''all''),
                          sr_results = hits\<rparr>))))"

section \<open>pattern\_list and pattern\_export\<close>

text \<open>
  \<open>byClass[p.vuln_class]\<close>: the key is the text of the class. For a class named like an inherited property the lookup gives
  a function or an object, which has no \<open>push\<close>. A class named like an array index would come first.
\<close>

definition class_key :: "(rat \<Rightarrow> string) \<Rightarrow> json \<Rightarrow> js_error + string" where
  "class_key num p = map_sum id (js_text num) (member (Some p) ''vuln_class'')"

fun group_patterns ::
  "(rat \<Rightarrow> string) \<Rightarrow> json list \<Rightarrow> (string \<times> json list) list \<Rightarrow> js_error + (string \<times> json list) list" where
  "group_patterns num [] g = Inr g"
| "group_patterns num (p # ps) g =
     (case class_key num p of
        Inl e \<Rightarrow> Inl e
      | Inr k \<Rightarrow>
          if inherited k then Inl TypeError
          else group_patterns num ps (AList.update k (or_else (map_of g k) [] @ [p]) g))"

record list_reply =
  lr_total_patterns :: nat
  lr_by_class :: "(string \<times> (json option \<times> json option) list) list"

definition pattern_list :: "(rat \<Rightarrow> string) \<Rightarrow> pattern_lib \<Rightarrow> pattern_lib \<times> (js_error + list_reply)" where
  "pattern_list num l =
     (let (l1, data, _) = loadPatterns l in
      (l1,
       case patterns_of data of
         Inl e \<Rightarrow> Inl e
       | Inr ps \<Rightarrow>
           map_sum id (\<lambda>g. \<lparr>lr_total_patterns = length ps,
                            lr_by_class = map (\<lambda>(c, qs). (c, map (\<lambda>p. (json_field p ''id'', json_field p ''name'')) qs)) g\<rparr>)
             (group_patterns num ps [])))"

definition pattern_export :: "pattern_lib \<Rightarrow> pattern_lib \<times> json" where
  "pattern_export l = (let (l1, data, _) = loadPatterns l in (l1, data))"

section \<open>/patterns\<close>

text \<open>
  \<open>Object.entries(byClass).sort()\<close> compares the texts of the pairs. Classes named like an inherited property, whose count
  would be a text, are left out of the model.
\<close>

fun count_classes :: "(rat \<Rightarrow> string) \<Rightarrow> json list \<Rightarrow> (string \<times> nat) list \<Rightarrow> js_error + (string \<times> nat) list" where
  "count_classes num [] g = Inr g"
| "count_classes num (p # ps) g = (case class_key num p of Inl e \<Rightarrow> Inl e | Inr k \<Rightarrow> count_classes num ps (bump k g))"

text \<open>The two lines of a match; \<open>potential_impact\<close> must be a text.\<close>

definition match_lines :: "(rat \<Rightarrow> string) \<Rightarrow> json \<Rightarrow> js_error + string list" where
  "match_lines num p =
     (case json_field p ''potential_impact'' of
        Some (JStr impact) \<Rightarrow>
          Inr [''  '' @ js_text num (json_field p ''id'') @ '' '' @ dash @ '' '' @ js_text num (json_field p ''name'') @ '' ['' @
                 js_text num (json_field p ''vuln_class'') @ '']'',
               ''    Impact: '' @ take 80 impact @ ''...'']
      | _ \<Rightarrow> Inl TypeError)"

definition patterns_command ::
  "(rat \<Rightarrow> string) \<Rightarrow> string \<Rightarrow> pattern_lib \<Rightarrow> pattern_lib \<times> (js_error + string list)" where
  "patterns_command num args l =
     (let (l1, data, _) = loadPatterns l in
      (l1,
       case patterns_of data of
         Inl e \<Rightarrow> Inl e
       | Inr ps \<Rightarrow>
           (if trim args = [] then
              map_sum id (\<lambda>counts.
                  ['''', ''Vulnerability Pattern Library:'', '''', ''  Total: '' @ nat_to_string (length ps) @ '' patterns'', '''', ''  By class:''] @
                  map (\<lambda>(c, n). ''    '' @ c @ '': '' @ nat_to_string n) (sort_key (\<lambda>(c, n). c @ '','' @ nat_to_string n) counts) @
                  ['''', ''  Usage: /patterns <search query>'', ''''])
                (count_classes num ps [])
            else
              (let results = filter (mentions num (toLowerCase (trim args))) ps in
               map_sum id (\<lambda>ls.
                   [[CHR 0x0A] @ ''  Search: '' @ dquote @ trim args @ dquote @ '' '' @ dash @ '' '' @
                      nat_to_string (length results) @ '' matches'' @ [CHR 0x0A]] @ concat ls @ [''''])
                 (try_map (match_lines num) (take 10 results))))))"

end
