(* ===== verification/Pattern_Library_Props.thy ===== *)
theory Pattern_Library_Props
  imports Pattern_Library Security_Rag_Props
begin

text \<open>
  The pattern library. A new identifier is larger than every number in the library (\<open>max_id_bound\<close>), so it is fresh, and as
  long as no caller passes an identifier of its own the file is the seeds followed by the additions, numbered in order.
  What was added is found by the library's own search and by retrieval, which reads the same file. The last lemmas show
  what a caller's own identifier and a broken file do.
\<close>

section \<open>Identifiers\<close>

lemma pattern_number: "parseInt (remove_first ''PTN-'' (pattern_id n)) = Some (int n)"
proof -
  have "padStart 3 (CHR ''0'') (nat_to_string n) \<noteq> []" by (simp add: padStart_def)
  then show ?thesis
    using parseInt_digits [OF _ padStart_digits] dec_val_padStart unfolding pattern_id_def remove_prefix by simp
qed

definition id_number :: "json \<Rightarrow> int option" where
  "id_number p = (case json_field p ''id'' of Some (JStr s) \<Rightarrow> parseInt (remove_first ''PTN-'' s) | _ \<Rightarrow> None)"

definition has_text_id :: "json \<Rightarrow> bool" where
  "has_text_id p = (\<exists>s. json_field p ''id'' = Some (JStr s))"

lemma text_id_not_null: "has_text_id p \<Longrightarrow> p \<noteq> JNull \<and> member (Some p) k = Inr (json_field p k)"
  by (cases p) (auto simp: has_text_id_def)

lemma max_id_step:
  "max_id m (p # ps) =
     (if has_text_id p then max_id (case id_number p of None \<Rightarrow> m | Some n \<Rightarrow> max m n) ps else Inl TypeError)"
proof (cases "has_text_id p")
  case True
  then obtain s where "json_field p ''id'' = Some (JStr s)" by (auto simp: has_text_id_def)
  then show ?thesis using text_id_not_null [OF True] True by (auto simp: id_number_def max_def split: option.split)
next
  case False
  then show ?thesis by (cases p) (auto simp: has_text_id_def split: option.split json.split sum.split)
qed

declare max_id.simps(2) [simp del]

lemma max_id_append: "max_id m (ps @ qs) = (case max_id m ps of Inl e \<Rightarrow> Inl e | Inr k \<Rightarrow> max_id k qs)"
  by (induction ps arbitrary: m) (simp_all add: max_id_step)

lemma max_id_ok: "(\<exists>k. max_id m ps = Inr k) \<longleftrightarrow> list_all has_text_id ps"
  by (induction ps arbitrary: m) (simp_all add: max_id_step)

lemma max_id_bound:
  "max_id m ps = Inr k \<Longrightarrow> m \<le> k \<and> (\<forall>p \<in> set ps. \<forall>n. id_number p = Some n \<longrightarrow> n \<le> k)"
proof (induction ps arbitrary: m)
  case (Cons p ps)
  then have "max_id (case id_number p of None \<Rightarrow> m | Some n \<Rightarrow> max m n) ps = Inr k" by (simp add: max_id_step split: if_splits)
  from Cons.IH [OF this] show ?case by (cases "id_number p") auto
qed simp

lemma new_pattern_field: "json_field (new_pattern pid params) k =
    (case map_of (rev params) k of Some v \<Rightarrow> Some v
     | None \<Rightarrow> if k = ''id'' then Some (JStr pid) else if k = ''tags'' then Some (js_or (map_of params ''tags'') (JArr [])) else None)"
  by (simp add: new_pattern_def spread_get split: option.split)

text \<open>A new identifier differs from every identifier in the library.\<close>

lemma next_id_fresh:
  assumes "nextPatternId ps = Inr pid" "p \<in> set ps"
  shows "json_field p ''id'' \<noteq> Some (JStr pid)"
proof
  assume p: "json_field p ''id'' = Some (JStr pid)"
  from assms(1) obtain k where k: "max_id 0 ps = Inr k" "pid = pattern_id (nat (k + 1))"
    by (cases "max_id 0 ps") (auto simp: nextPatternId_def)
  have "id_number p = Some (int (nat (k + 1)))" using p k(2) by (simp add: id_number_def pattern_number)
  then show False using max_id_bound [OF k(1)] assms(2) by fastforce
qed

section \<open>The state after a call\<close>

definition lib_file :: "json list \<Rightarrow> json_text option" where
  "lib_file ps = Some (Good_json (JObj [(''patterns'', JArr ps)]))"

lemma load_plain: "pl_file l = lib_file ps \<Longrightarrow> loadPatterns l = (l, JObj [(''patterns'', JArr ps)], False)"
  by (simp add: loadPatterns_def lib_file_def Let_def)

lemma add_inv:
  assumes "pattern_add num params l = (l', Inr r)"
  obtains l1 data sh ps k where "loadPatterns l = (l1, data, sh)" "patterns_of data = Inr ps" "max_id 0 ps = Inr k"
    "ar_id r = pattern_id (nat (k + 1))" "pl_file l' = Some (Good_json (with_patterns data (ps @ [new_pattern (ar_id r) params])))"
    "pl_seeds l' = (if sh then ps @ [new_pattern (ar_id r) params] else pl_seeds l1)"
proof -
  obtain l1 data sh where l: "loadPatterns l = (l1, data, sh)" by (metis surj_pair)
  obtain ps where ps: "patterns_of data = Inr ps" using assms l by (cases "patterns_of data") (auto simp: pattern_add_def)
  obtain k where k: "max_id 0 ps = Inr k" using assms l ps by (cases "max_id 0 ps") (auto simp: pattern_add_def nextPatternId_def)
  show ?thesis
    by (rule that [OF l ps k]) (use assms l ps k in \<open>auto simp: pattern_add_def nextPatternId_def Let_def savePatterns_def\<close>)
qed

lemma patterns_of_with: "patterns_of data = Inr ps \<Longrightarrow> patterns_of (with_patterns data qs) = Inr qs"
  by (cases data) (auto simp: patterns_of_def with_patterns_def update_conv' split: option.splits json.splits)

text \<open>What a successful call leaves: the old patterns, which all have a text as identifier, and the new one.\<close>

lemma add_leaves:
  assumes "pattern_add num params l = (l', Inr r)"
  obtains data ps where "loadPatterns l' = (l', data, False)" "patterns_of data = Inr (ps @ [new_pattern (ar_id r) params])"
    "list_all has_text_id ps" "pl_file l' = Some (Good_json data)" "nextPatternId ps = Inr (ar_id r)"
proof (rule add_inv [OF assms])
  fix l1 data sh ps k
  assume a: "patterns_of data = Inr ps" "max_id 0 ps = Inr k" "ar_id r = pattern_id (nat (k + 1))"
    "pl_file l' = Some (Good_json (with_patterns data (ps @ [new_pattern (ar_id r) params])))"
  have "list_all has_text_id ps" using a(2) max_id_ok [of 0 ps] by blast
  moreover have "loadPatterns l' = (l', with_patterns data (ps @ [new_pattern (ar_id r) params]), False)"
    using a(4) by (simp add: loadPatterns_def Let_def)
  ultimately show ?thesis using that patterns_of_with [OF a(1)] a(2-4) by (simp add: nextPatternId_def)
qed

section \<open>Calls\<close>

datatype pattern_call =
    Add "(string \<times> json) list"
  | Search string "string option" "int option"
  | List_all
  | Export
  | Patterns_command string

definition lib_exec :: "(rat \<Rightarrow> string) \<Rightarrow> pattern_call \<Rightarrow> pattern_lib \<Rightarrow> pattern_lib \<times> unit" where
  "lib_exec num c l =
     (case c of
        Add ps \<Rightarrow> (fst (pattern_add num ps l), ())
      | Search q cls n \<Rightarrow> (fst (pattern_search num q cls n l), ())
      | List_all \<Rightarrow> (fst (pattern_list num l), ())
      | Export \<Rightarrow> (fst (pattern_export l), ())
      | Patterns_command args \<Rightarrow> (fst (patterns_command num args l), ()))"

definition no_own_id :: "pattern_call \<Rightarrow> bool" where
  "no_own_id c = (case c of Add ps \<Rightarrow> ''id'' \<notin> fst ` set ps | _ \<Rightarrow> True)"

text \<open>The patterns that calls append: numbered from \<open>n\<close> on.\<close>

fun added :: "nat \<Rightarrow> pattern_call list \<Rightarrow> json list" where
  "added n [] = []"
| "added n (Add ps # cs) = new_pattern (pattern_id n) ps # added (Suc n) cs"
| "added n (_ # cs) = added n cs"

lemma exec_reads: "pl_file l = lib_file ps \<Longrightarrow> (\<And>qs. c \<noteq> Add qs) \<Longrightarrow> fst (lib_exec num c l) = l"
  by (cases c) (auto simp: lib_exec_def load_plain pattern_search_def pattern_list_def pattern_export_def patterns_command_def)

lemma exec_add:
  assumes "pl_file l = lib_file ps" "max_id 0 ps = Inr (int n)"
  shows "pl_file (fst (lib_exec num (Add qs) l)) = lib_file (ps @ [new_pattern (pattern_id (Suc n)) qs])"
  using assms load_plain [OF assms(1)]
  by (simp add: lib_exec_def pattern_add_def patterns_of_def nextPatternId_def savePatterns_def with_patterns_def lib_file_def nat_add_distrib)

lemma library_grows_from:
  "pl_file l = lib_file ps \<Longrightarrow> max_id 0 ps = Inr (int n) \<Longrightarrow> list_all no_own_id cs \<Longrightarrow>
   pl_file (run_calls (lib_exec num) cs l) = lib_file (ps @ added (Suc n) cs)"
proof (induction cs arbitrary: l ps n)
  case (Cons c cs)
  show ?case
  proof (cases "\<exists>qs. c = Add qs")
    case True
    then obtain qs where c: "c = Add qs" by blast
    let ?p = "new_pattern (pattern_id (Suc n)) qs"
    have "map_of (rev qs) ''id'' = None" using Cons.prems(3) c by (simp add: no_own_id_def map_of_eq_None_iff)
    then have "json_field ?p ''id'' = Some (JStr (pattern_id (Suc n)))" by (simp add: new_pattern_field)
    then have "has_text_id ?p" "id_number ?p = Some (int (Suc n))" by (simp_all add: has_text_id_def id_number_def pattern_number)
    then have "max_id 0 (ps @ [?p]) = Inr (int (Suc n))" using Cons.prems(2) by (simp add: max_id_append max_id_step)
    from Cons.IH [OF exec_add [OF Cons.prems(1,2)] this] show ?thesis using Cons.prems(3) c by simp
  next
    case False
    then have "fst (lib_exec num c l) = l" using exec_reads [OF Cons.prems(1)] by blast
    moreover have "added (Suc n) (c # cs) = added (Suc n) cs" using False by (cases c) auto
    ultimately show ?thesis using Cons.IH [OF Cons.prems(1,2)] Cons.prems(3) by simp
  qed
qed simp

lemma seeds_number: "max_id 0 SEED_PATTERNS = Inr 20"
  by code_simp

section \<open>Searches\<close>

lemma try_map_ok: "(\<And>x. x \<in> set xs \<Longrightarrow> f x = Inr (g x)) \<Longrightarrow> try_map f xs = Inr (map g xs)"
  by (induction xs) auto

lemma try_filter_ok: "(\<And>x. x \<in> set xs \<Longrightarrow> f x = Inr (g x)) \<Longrightarrow> try_filter f xs = Inr (filter g xs)"
  by (induction xs) auto

definition the_hit :: "json \<Rightarrow> pattern_hit" where
  "the_hit p = map (\<lambda>k. (k, json_field p k)) HIT_FIELDS"

lemma hit_ok: "has_text_id p \<Longrightarrow> hit_of p = Inr (the_hit p)"
  by (simp add: hit_of_def the_hit_def text_id_not_null)

text \<open>A text that needs no escapes occurs, between quotes, in the text of an object that has it as a field.\<close>

lemma field_text:
  assumes "json_field j k = Some (JStr s)" "list_all (\<lambda>c. quote_char c = [c]) s"
  shows "sublist ([CHR 0x22] @ s @ [CHR 0x22]) (stringify num j)"
proof -
  obtain fs where j: "j = JObj fs" "map_of fs k = Some (JStr s)" using assms(1) by (cases j) auto
  then show ?thesis using field_in_text [OF map_of_SomeD [OF j(2)], of num] quoted [OF assms(2)] by simp
qed

lemma own_id_leaves:
  assumes "pattern_add num params l = (l', Inr r)" "map_of (rev params) ''id'' = Some v" "\<And>s. v \<noteq> JStr s"
  shows "pattern_add num' params' l' = (l', Inl TypeError)"
proof (rule add_leaves [OF assms(1)])
  fix data qs
  let ?p = "new_pattern (ar_id r) params"
  assume l: "loadPatterns l' = (l', data, False)" "patterns_of data = Inr (qs @ [?p])" "list_all has_text_id qs"
  have "\<not> has_text_id ?p" using assms(2,3) by (simp add: has_text_id_def new_pattern_field)
  moreover obtain k where "max_id 0 qs = Inr k" using l(3) max_id_ok [of 0 qs] by blast
  ultimately have "max_id 0 (qs @ [?p]) = Inl TypeError" by (simp add: max_id_append max_id_step)
  then show ?thesis using l(1,2) by (simp add: pattern_add_def nextPatternId_def)
qed

section \<open>Retrieval of patterns\<close>

definition token_word :: "string \<Rightarrow> bool" where
  "token_word c = (length c > 2 \<and> list_all (\<lambda>x. to_lower x = x \<and> (is_word x \<or> x = CHR ''-'')) c \<and> c \<notin> set STOP_WORDS)"

lemma word_char: "is_word x \<or> x = CHR ''-'' \<Longrightarrow> rag_char x = x \<and> \<not> is_space x \<and> quote_char x = [x]"
proof -
  have "list_all (\<lambda>x. is_word x \<or> x = CHR ''-'' \<longrightarrow> rag_char x = x \<and> \<not> is_space x \<and> quote_char x = [x]) (enum_class.enum :: char list)"
    by code_simp
  then show "is_word x \<or> x = CHR ''-'' \<Longrightarrow> ?thesis" unfolding list_all_iff enum_UNIV by blast
qed

lemma quoted_token:
  assumes "token_word c" "sublist ([CHR 0x22] @ c @ [CHR 0x22]) s"
  shows "c \<in> set (rag_tokenize s)"
proof -
  have chars: "list_all (\<lambda>x. to_lower x = x \<and> rag_char x = x \<and> \<not> is_space x) c"
    using assms(1) word_char by (auto simp: token_word_def list_all_iff)
  have q: "to_lower (CHR 0x22) = CHR 0x22" "rag_char (CHR 0x22) = CHR '' ''" "is_space (CHR '' '')" by code_simp+
  obtain a b where "s = a @ ([CHR 0x22] @ c @ [CHR 0x22]) @ b" using assms(2) by (auto simp: sublist_def)
  moreover have "map rag_char (map to_lower c) = c" using chars by (simp add: list_all_iff map_idI)
  ultimately have "map rag_char (toLowerCase s) =
      map rag_char (toLowerCase a) @ CHR '' '' # c @ CHR '' '' # map rag_char (toLowerCase b)"
    using q by (simp add: toLowerCase_def)
  moreover have "c \<noteq> []" "list_all (\<lambda>c. \<not> is_space c) c" using assms(1) chars by (auto simp: token_word_def list_all_iff)
  ultimately have "c \<in> set (split_ws (map rag_char (toLowerCase s)))" using split_ws_word q(3) by (simp add: split_ws_def)
  then show ?thesis using assms(1) by (simp add: rag_tokenize_def token_word_def)
qed

lemma token_alone: "token_word c \<Longrightarrow> c \<in> set (rag_tokenize c)"
proof -
  assume c: "token_word c"
  have chars: "list_all (\<lambda>x. to_lower x = x \<and> rag_char x = x \<and> \<not> is_space x) c"
    using c word_char by (auto simp: token_word_def list_all_iff)
  have "split_ws_from u w = [u @ w]" if "list_all (\<lambda>x. \<not> is_space x) w" for u w
    using that by (induction w arbitrary: u) auto
  moreover have "map rag_char (toLowerCase c) = c" using chars by (simp add: toLowerCase_def list_all_iff map_idI)
  ultimately have "split_ws (map rag_char (toLowerCase c)) = [c]" using chars by (simp add: split_ws_def list_all_iff)
  then show ?thesis using c by (simp add: rag_tokenize_def token_word_def)
qed

lemma class_shared:
  assumes "json_field p k = Some (JStr c)" "token_word c"
  shows "scoreDocument (rag_tokenize c) (stringify num p) > 0"
proof -
  have "list_all (\<lambda>x. quote_char x = [x]) c" using assms(2) word_char by (auto simp: token_word_def list_all_iff)
  then have "c \<in> set (rag_tokenize (stringify num p))" by (intro quoted_token [OF assms(2)] field_text [OF assms(1)])
  then show ?thesis using token_alone [OF assms(2)] by (auto simp: score_pos_iff)
qed

definition demo_params :: "(string \<times> json) list" where
  "demo_params = [(''name'', JStr ''Path Traversal''), (''vuln_class'', JStr ''path-traversal'')]"

definition demo_library :: pattern_lib where
  "demo_library = \<lparr>pl_seeds = [], pl_file = lib_file [JObj [(''id'', JStr ''PTN-001''), (''tags'', JArr []), (''name'', JStr ''Path Traversal''), (''vuln_class'', JStr ''path-traversal'')]]\<rparr>"

lemma demo_added: "pattern_add num demo_params \<lparr>pl_seeds = [], pl_file = lib_file []\<rparr> = (demo_library, Inr \<lparr>ar_id = ''PTN-001'', ar_message = ''Pattern added: Path Traversal''\<rparr>)"
  "patterns_of (snd (pattern_export demo_library)) = Inr [JObj [(''id'', JStr ''PTN-001''), (''tags'', JArr []), (''name'', JStr ''Path Traversal''), (''vuln_class'', JStr ''path-traversal'')]]"
  by code_simp+

section \<open>Properties\<close>

text \<open>C22: From a missing file on, through any calls of the five operations in which no addition brings its own \<open>id\<close>, the file
  holds the twenty seeds followed by the added patterns in order, numbered consecutively from \<open>PTN-021\<close>.\<close>

theorem library_grows:
  assumes "list_all no_own_id calls"
  shows "pl_file (run_calls (lib_exec num) calls (init_library None)) =
    Some (Good_json (JObj [(''patterns'', JArr (SEED_PATTERNS @ added 21 calls))]))"
proof -
  have "pl_file (init_library None) = lib_file SEED_PATTERNS" by (simp add: init_library_def loadPatterns_def lib_file_def Let_def)
  from library_grows_from [OF this, of 20 calls num] assms seeds_number show ?thesis by (simp add: lib_file_def)
qed

theorem library_grows_witness:
  "pl_file (run_calls (lib_exec whole_text) [Export, Add [(''name'', JStr ''x'')], List_all, Add []] (init_library None)) =
    Some (Good_json (JObj [(''patterns'', JArr (SEED_PATTERNS @
      [JObj [(''id'', JStr ''PTN-021''), (''tags'', JArr []), (''name'', JStr ''x'')], JObj [(''id'', JStr ''PTN-022''), (''tags'', JArr [])]]))]))"
proof -
  have "new_pattern (pattern_id 21) [(''name'', JStr ''x'')] = JObj [(''id'', JStr ''PTN-021''), (''tags'', JArr []), (''name'', JStr ''x'')]"
    "new_pattern (pattern_id 22) [] = JObj [(''id'', JStr ''PTN-022''), (''tags'', JArr [])]" by code_simp+
  then show ?thesis using library_grows [of "[Export, Add [(''name'', JStr ''x'')], List_all, Add []]" whole_text] by (simp add: no_own_id_def)
qed

text \<open>What was added is found: after a successful \<open>pattern_add\<close>, \<open>pattern_search\<close> for any part of any of its text fields
  (without characters that JSON escapes, in any case), with a limit that covers the library, returns the new pattern.\<close>

theorem added_pattern_found:
  assumes "pattern_add num params l = (l', Inr r)" "''id'' \<notin> fst ` set params"
    and "map_of (rev params) k = Some (JStr s)" "list_all (\<lambda>c. quote_char c = [c]) s" "sublist q s"
    and "patterns_of (snd (pattern_export l')) = Inr ps" "int (length ps) \<le> n"
  shows "\<exists>reply. pattern_search num q None (Some n) l' = (l', Inr reply) \<and>
    map (\<lambda>k. (k, json_field (new_pattern (ar_id r) params) k)) HIT_FIELDS \<in> set (sr_results reply)"
proof (rule add_leaves [OF assms(1)])
  fix data qs
  let ?p = "new_pattern (ar_id r) params"
  assume l: "loadPatterns l' = (l', data, False)" "patterns_of data = Inr (qs @ [?p])" "list_all has_text_id qs"
  have ps: "ps = qs @ [?p]" using l(1,2) assms(6) by (simp add: pattern_export_def)
  have "map_of (rev params) ''id'' = None" using assms(2) by (simp add: map_of_eq_None_iff)
  then have "has_text_id ?p" by (simp add: has_text_id_def new_pattern_field)
  then have ids: "\<forall>p \<in> set ps. has_text_id p" using l(3) by (auto simp: ps list_all_iff)
  have "sublist ([CHR 0x22] @ s @ [CHR 0x22]) (stringify num ?p)" 
    by (rule field_text [OF _ assms(4), of _ k]) (use assms(3) in \<open>simp add: new_pattern_field\<close>)
  moreover have "sublist q ([CHR 0x22] @ s @ [CHR 0x22])"
    using assms(5) sublist_appendI [of s "[CHR 0x22]" "[CHR 0x22]"] by (meson sublist_order.order.trans)
  ultimately have "sublist q (stringify num ?p)" by (meson sublist_order.order.trans)
  then have m: "mentions num (toLowerCase q) ?p" unfolding mentions_def by (rule toLowerCase_sublist)
  let ?found = "filter (mentions num (toLowerCase q)) ps"
  have "n > 0" using assms(7) by (simp add: ps)
  moreover have "length ?found \<le> nat n" using assms(7) length_filter_le [of "mentions num (toLowerCase q)" ps] by linarith
  ultimately have "slice0 (num_or (Some n) 10) ?found = ?found" by (simp add: slice0_def)
  moreover have "try_map hit_of ?found = Inr (map the_hit ?found)" using ids by (intro try_map_ok hit_ok) auto
  ultimately have "pattern_search num q None (Some n) l' = (l', Inr \<lparr>sr_query = q, sr_vuln_class = ''all'', sr_results = map the_hit ?found\<rparr>)"
    using l(1,2) by (simp add: pattern_search_def ps)
  moreover have "the_hit ?p \<in> set (map the_hit ?found)" using m by (simp add: ps)
  ultimately show ?thesis by (auto simp: the_hit_def)
qed

theorem added_pattern_found_witness:
  "\<exists>reply. pattern_search whole_text ''Travers'' None (Some 1) demo_library = (demo_library, Inr reply) \<and>
    [(''id'', Some (JStr ''PTN-001'')), (''name'', Some (JStr ''Path Traversal'')), (''vuln_class'', Some (JStr ''path-traversal'')),
     (''observable_signals'', None), (''validation_strategy'', None), (''potential_impact'', None)] \<in> set (sr_results reply)"
proof -
  have a: "''id'' \<notin> fst ` set demo_params" "map_of (rev demo_params) ''name'' = Some (JStr ''Path Traversal'')"
    "list_all (\<lambda>c. quote_char c = [c]) ''Path Traversal''" "sublist ''Travers'' ''Path Traversal''" by code_simp+
  have "map (\<lambda>k. (k, json_field (new_pattern ''PTN-001'' demo_params) k)) HIT_FIELDS =
    [(''id'', Some (JStr ''PTN-001'')), (''name'', Some (JStr ''Path Traversal'')), (''vuln_class'', Some (JStr ''path-traversal'')),
     (''observable_signals'', None), (''validation_strategy'', None), (''potential_impact'', None)]" by code_simp
  then show ?thesis using added_pattern_found [OF demo_added(1) a demo_added(2), of 1] by simp
qed

text \<open>A pattern added to the library is retrieved by \<open>sec_rag_pattern_search\<close>, which reads the same file: searching its
  class, when that is a single token, with the class as filter and a limit that covers the library, the result contains
  the pattern.\<close>

theorem added_pattern_retrieved:
  assumes "pattern_add num params l = (l', Inr r)" "''id'' \<notin> fst ` set params"
    and "map_of (rev params) ''vuln_class'' = Some (JStr c)" "token_word c"
    and "rw_files w (patterns_path w) = pl_file l'" "patterns_of (snd (pattern_export l')) = Inr ps" "int (length ps) \<le> n"
  shows "\<exists>found. sec_rag_pattern_search num c (Some c) (Some n) w = Inr (Answer found) \<and>
    new_pattern (ar_id r) params \<in> fst ` set found"
proof (rule add_leaves [OF assms(1)])
  fix data qs
  let ?p = "new_pattern (ar_id r) params" and ?cls = "\<lambda>p. json_field p ''vuln_class'' = Some (JStr c)"
  assume l: "loadPatterns l' = (l', data, False)" "patterns_of data = Inr (qs @ [?p])" "list_all has_text_id qs"
    "pl_file l' = Some (Good_json data)"
  have ps: "ps = qs @ [?p]" using l(1,2) assms(6) by (simp add: pattern_export_def)
  have "map_of (rev params) ''id'' = None" using assms(2) by (simp add: map_of_eq_None_iff)
  then have "has_text_id ?p" by (simp add: has_text_id_def new_pattern_field)
  then have ids: "\<forall>p \<in> set ps. has_text_id p" using l(3) by (auto simp: ps list_all_iff)
  have "c \<noteq> []" using assms(4) by (auto simp: token_word_def)
  have data: "field_or_empty data ''patterns'' = Inr (JArr ps)"
    using l(2) by (cases data) (auto simp: patterns_of_def field_or_empty_def js_or_def js_truthy_def ps split: option.splits json.splits)
  have "try_filter (\<lambda>p. map_sum id (\<lambda>f. f = Some (JStr c)) (member (Some p) ''vuln_class'')) ps = Inr (filter ?cls ps)"
    using ids text_id_not_null by (intro try_filter_ok) auto
  then have s: "sec_rag_pattern_search num c (Some c) (Some n) w = Inr (Answer (rank_items num c (num_or (Some n) 10) (filter ?cls ps)))"
    using assms(5) l(4) data \<open>c \<noteq> []\<close> by (simp add: sec_rag_pattern_search_def parse_json_def)
  let ?scored = "filter (\<lambda>(_, s). s > 0) (map (\<lambda>p. (p, scoreDocument (rag_tokenize c) (stringify num p))) (filter ?cls ps))"
  have cls: "?cls ?p" using assms(3) by (simp add: new_pattern_field)
  have "?p \<in> fst ` set ?scored" using class_shared [OF cls assms(4)] cls by (force simp: ps)
  moreover have "length ?scored \<le> nat n"
  proof -
    have "length ?scored \<le> length (filter ?cls ps)" by (rule order_trans [OF length_filter_le]) simp
    also have "\<dots> \<le> length ps" by (rule length_filter_le)
    finally show ?thesis using assms(7) by linarith
  qed
  moreover have "n > 0" using assms(7) by (simp add: ps)
  ultimately have "?p \<in> fst ` set (rank_items num c (num_or (Some n) 10) (filter ?cls ps))"
    by (simp add: rank_items_def slice0_def)
  with s show ?thesis by blast
qed

theorem added_pattern_retrieved_witness:
  "\<exists>found. sec_rag_pattern_search whole_text ''path-traversal'' (Some ''path-traversal'') (Some 1)
       \<lparr>rw_data = ''/d'', rw_files = (\<lambda>_. pl_file demo_library), rw_dirs = Map.empty\<rparr> = Inr (Answer found) \<and> found \<noteq> []"
proof -
  have a: "''id'' \<notin> fst ` set demo_params" "map_of (rev demo_params) ''vuln_class'' = Some (JStr ''path-traversal'')"
    "token_word ''path-traversal''" by code_simp+
  show ?thesis
    using added_pattern_retrieved [OF demo_added(1) a _ demo_added(2), of "\<lparr>rw_data = ''/d'', rw_files = (\<lambda>_. pl_file demo_library), rw_dirs = Map.empty\<rparr>" 1]
    by fastforce
qed

text \<open>The parameters of \<open>pattern_add\<close> are spread over the new pattern, so an \<open>id\<close> among them replaces the number: one that is
  not a text ends additions. The call succeeds and reports the number, every later \<open>pattern_add\<close> throws, and no call of the
  tools repairs the library.\<close>

theorem own_id_blocks_library:
  assumes "pattern_add num params l = (l', Inr r)" "map_of (rev params) ''id'' = Some v" "\<And>s. v \<noteq> JStr s"
  shows "run_calls (lib_exec num') cs l' = l' \<and> pattern_add num' params' l' = (l', Inl TypeError)"
proof -
  note fails = own_id_leaves [OF assms]
  obtain data where "loadPatterns l' = (l', data, False)" by (rule add_leaves [OF assms(1)]) blast
  then have "fst (lib_exec num' c l') = l'" for c
    using fails by (cases c) (simp_all add: lib_exec_def pattern_search_def pattern_list_def pattern_export_def patterns_command_def)
  then have "run_calls (lib_exec num') cs l' = l'" by (induction cs) simp_all
  with fails show ?thesis by blast
qed

theorem own_id_blocks_library_witness:
  "pattern_add whole_text [(''name'', JStr ''x'')] (fst (pattern_add whole_text [(''id'', JNum 7)] \<lparr>pl_seeds = [], pl_file = lib_file []\<rparr>)) =
     (fst (pattern_add whole_text [(''id'', JNum 7)] \<lparr>pl_seeds = [], pl_file = lib_file []\<rparr>), Inl TypeError)"
proof -
  have "pattern_add whole_text [(''id'', JNum 7)] \<lparr>pl_seeds = [], pl_file = lib_file []\<rparr> =
      (\<lparr>pl_seeds = [], pl_file = lib_file [new_pattern ''PTN-001'' [(''id'', JNum 7)]]\<rparr>,
       Inr \<lparr>ar_id = ''PTN-001'', ar_message = ''Pattern added: undefined''\<rparr>)" by code_simp
  from own_id_blocks_library [OF this, of "JNum 7"] this show ?thesis by simp
qed

text \<open>
  When the file is broken, the loaded patterns are the module's array of seeds, and the addition changes that array: after
  the file is lost, the library starts with the seeds and the addition.
\<close>

lemma broken_file_changes_seeds:
  assumes "pattern_add num params \<lparr>pl_seeds = seeds, pl_file = Some Bad_json\<rparr> = (l', Inr r)"
  shows "pl_seeds l' = seeds @ [new_pattern (ar_id r) params]"
    "patterns_of (snd (pattern_export (l'\<lparr>pl_file := None\<rparr>))) = Inr (seeds @ [new_pattern (ar_id r) params])"
proof -
  show s: "pl_seeds l' = seeds @ [new_pattern (ar_id r) params]"
    by (rule add_inv [OF assms]) (auto simp: loadPatterns_def Let_def patterns_of_def)
  show "patterns_of (snd (pattern_export (l'\<lparr>pl_file := None\<rparr>))) = Inr (seeds @ [new_pattern (ar_id r) params])"
    by (simp add: pattern_export_def loadPatterns_def Let_def patterns_of_def s)
qed

end
