(* ===== verification/Web_Api.thy ===== *)
theory Web_Api
  imports JSPath JSJson Observability Task_Manager Security_Graph
begin

text \<open>
  The REST interface of the web console (\<open>web-ui/index.ts\<close>): reading the state files of the other extensions, the
  snapshot sent to a new client, and one definition per endpoint, composed by \<open>handleApiRequest\<close> in the order of the
  source. The state files have the types of the extensions that write them; a file that is missing or is not JSON is
  \<open>None\<close> (\<open>No_graph\<close>, \<open>Unreadable\<close>), which \<open>readJSON\<close> replaces by its fallback. The event log is a list of lines. A
  handler returns a reply or the exception it throws; the replies are the data they print. Field accesses on a value
  of unknown shape (an event of the log, the profile) are modelled on JSON, where \<open>None\<close> is \<open>undefined\<close>.
\<close>

section \<open>decodeURIComponent\<close>

text \<open>
  The escapes are decoded as UTF-8; a malformed sequence throws. The second component is whether all characters are
  Latin-1: another character is written as a question mark, and the flag makes the name equal to no Latin-1 name.
\<close>

definition pct_byte :: "string \<Rightarrow> (nat \<times> string) option" where
  "pct_byte s =
     (case s of
        p # a # b # t \<Rightarrow>
          (case (hex_val a, hex_val b) of
             (Some x, Some y) \<Rightarrow> if p = CHR ''%'' then Some (16 * x + y, t) else None
           | _ \<Rightarrow> None)
      | _ \<Rightarrow> None)"

text \<open>Number of continuation bytes, the bits of the first byte and the least code point of this length.\<close>

definition utf8_head :: "nat \<Rightarrow> (nat \<times> nat \<times> nat) option" where
  "utf8_head b =
     (if b < 128 then Some (0, b, 0)
      else if 192 \<le> b \<and> b < 224 then Some (1, b - 192, 128)
      else if 224 \<le> b \<and> b < 240 then Some (2, b - 224, 2048)
      else if 240 \<le> b \<and> b < 248 then Some (3, b - 240, 65536) else None)"

fun utf8_tail :: "nat \<Rightarrow> nat \<Rightarrow> string \<Rightarrow> (nat \<times> string) option" where
  "utf8_tail 0 v s = Some (v, s)"
| "utf8_tail (Suc n) v s =
     (case pct_byte s of
        Some (b, t) \<Rightarrow> if 128 \<le> b \<and> b < 192 then utf8_tail n (64 * v + (b - 128)) t else None
      | None \<Rightarrow> None)"

definition utf8_point :: "string \<Rightarrow> (nat \<times> string) option" where
  "utf8_point s =
     (case pct_byte s of
        None \<Rightarrow> None
      | Some (b, t) \<Rightarrow>
          (case utf8_head b of
             None \<Rightarrow> None
           | Some (n, v, least) \<Rightarrow>
               (case utf8_tail n v t of
                  None \<Rightarrow> None
                | Some (c, u) \<Rightarrow>
                    if c < least \<or> 55296 \<le> c \<and> c \<le> 57343 \<or> 1114111 < c then None else Some (c, u))))"

lemma pct_byte_shorter: "pct_byte s = Some (b, t) \<Longrightarrow> length t < length s"
  by (auto simp: pct_byte_def split: list.splits option.splits if_splits)

lemma utf8_tail_shorter: "utf8_tail n v s = Some (c, t) \<Longrightarrow> length t \<le> length s"
  by (induction n v s rule: utf8_tail.induct) (force split: option.splits if_splits dest: pct_byte_shorter)+

lemma utf8_point_shorter: "utf8_point s = Some (c, t) \<Longrightarrow> length t < length s"
  by (auto simp: utf8_point_def split: option.splits if_splits dest!: pct_byte_shorter utf8_tail_shorter)

function decode_from :: "string \<Rightarrow> js_error + string \<times> bool" where
  "decode_from s =
     (case s of
        [] \<Rightarrow> Inr ([], True)
      | c # t \<Rightarrow>
          if c \<noteq> CHR ''%'' then
            (case decode_from t of Inl e \<Rightarrow> Inl e | Inr (u, ok) \<Rightarrow> Inr (c # u, ok))
          else
            (case utf8_point s of
               None \<Rightarrow> Inl URIError
             | Some (p, r) \<Rightarrow>
                 (case decode_from r of
                    Inl e \<Rightarrow> Inl e
                  | Inr (u, ok) \<Rightarrow> if p < 256 then Inr (char_of p # u, ok) else Inr (CHR ''?'' # u, False))))"
  by pat_completeness auto
termination
  by (relation "measure length") (auto dest: utf8_point_shorter)

declare decode_from.simps [simp del]

text \<open>A decoded name, and its comparison with a Latin-1 string.\<close>

datatype decoded = Latin1 string | Wider

definition decodeURIComponent :: "string \<Rightarrow> js_error + decoded" where
  "decodeURIComponent s =
     (case decode_from s of Inl e \<Rightarrow> Inl e | Inr (t, ok) \<Rightarrow> Inr (if ok then Latin1 t else Wider))"

section \<open>The files\<close>

text \<open>A line of the event log: empty, not JSON, or a record.\<close>

datatype log_line = Blank_line | Malformed_line | Json_line json

record ui_files =
  uf_swarm :: "swarm_doc option"
  uf_graph :: graph_json
  uf_tasks :: tm_file
  uf_scope :: "string option"
  uf_profile :: "json option"
  uf_events :: "log_line list option"

definition readJSON :: "'a option \<Rightarrow> 'a \<Rightarrow> 'a" where
  "readJSON file fallback = (case file of Some v \<Rightarrow> v | None \<Rightarrow> fallback)"

datatype yaml_value = Y_bool bool | Y_str string | Y_list "string list"

type_synonym yaml_doc = "(string \<times> yaml_value) list"

text \<open>\<^verbatim>\<open>val.replace(/^["']|["']$/g, "")\<close>\<close>

definition strip_quotes :: "string \<Rightarrow> string" where
  "strip_quotes s =
     (let q = (\<lambda>c. c = CHR 0x22 \<or> c = CHR 0x27); t = (if s \<noteq> [] \<and> q (hd s) then tl s else s)
      in if t \<noteq> [] \<and> q (last t) then butlast t else t)"

text \<open>One line of the loop; the state is the section being filled and the result.\<close>

definition yaml_step :: "string \<Rightarrow> string \<times> yaml_doc \<Rightarrow> string \<times> yaml_doc" where
  "yaml_step line st =
     (let (currentKey, result) = st; trimmed = trim line in
      if trimmed = [] \<or> prefix ''#'' trimmed then st
      else if prefix ''- '' trimmed then
        (let items = (case map_of result currentKey of Some (Y_list xs) \<Rightarrow> xs | _ \<Rightarrow> []) in
         (currentKey, AList.update currentKey (Y_list (items @ [trim (drop 2 trimmed)])) result))
      else case indexOf '':'' trimmed of
        None \<Rightarrow> st
      | Some i \<Rightarrow>
          (let key = trim (take i trimmed); v = trim (drop (i + 1) trimmed) in
           if v = [] then (key, result) else (currentKey, AList.update key (Y_str (strip_quotes v)) result)))"

definition parse_yaml :: "string \<Rightarrow> yaml_doc" where
  "parse_yaml raw = snd (fold yaml_step (split_on (CHR 0x0A) raw) ([], []))"

definition readYAML :: "string option \<Rightarrow> yaml_doc \<Rightarrow> yaml_doc" where
  "readYAML file fallback = (case file of None \<Rightarrow> fallback | Some raw \<Rightarrow> spread fallback (parse_yaml raw))"

definition readJSONL :: "log_line list option \<Rightarrow> json list" where
  "readJSONL file =
     (case file of
        None \<Rightarrow> []
      | Some lines \<Rightarrow> List.map_filter (\<lambda>l. case l of Json_line j \<Rightarrow> Some j | _ \<Rightarrow> None) lines)"

definition appendJSONL :: "json \<Rightarrow> ui_files \<Rightarrow> ui_files" where
  "appendJSONL r f = f\<lparr>uf_events := Some (or_else (uf_events f) [] @ [Json_line r])\<rparr>"

section \<open>The snapshot\<close>

record snapshot =
  sn_swarm :: "swarm_doc option"
  sn_graph :: SecGraph
  sn_tasks :: TaskGraph
  sn_scope :: yaml_doc
  sn_timestamp :: time

definition graph_or_empty :: "ui_files \<Rightarrow> SecGraph" where
  "graph_or_empty f =
     readJSON (case uf_graph f of Graph_json g \<Rightarrow> Some g | No_graph \<Rightarrow> None) \<lparr>nodes = [], edges = [], meta = no_meta\<rparr>"

definition buildSnapshot :: "time \<Rightarrow> ui_files \<Rightarrow> snapshot" where
  "buildSnapshot now f =
     \<lparr>sn_swarm = uf_swarm f, sn_graph = graph_or_empty f, sn_tasks = tm_load (uf_tasks f),
      sn_scope = readYAML (uf_scope f) [(''authorized'', Y_bool False), (''targets'', Y_list [])],
      sn_timestamp = now\<rparr>"

section \<open>Replies\<close>

record swarm_counts =
  sw_agents :: nat
  sw_tasks :: nat
  sw_hypotheses :: nat
  sw_findings :: nat
  sw_totalTokensIn :: rat
  sw_totalTokensOut :: rat
  sw_totalCost :: rat
  sw_createdAt :: "time option option"
  sw_updatedAt :: "time option option"

record model_cost =
  mc_tokensIn :: rat
  mc_tokensOut :: rat
  mc_cost :: rat
  mc_agents :: nat

record chain =
  ch_path :: "string list"
  ch_nodes :: "SecNode list"

datatype scope_view = Profile_scope json | Yaml_scope yaml_doc

text \<open>A row of \<open>byAgent\<close> is the agent it is built from: every field of the row is a field of the agent.\<close>

datatype missing = No_agent decoded | No_hypothesis decoded | No_replay decoded | No_endpoint string

datatype api_body =
    Status_body swarm_counts time
  | Agents_body nat "Agent list"
  | Agent_body Agent "json list"
  | Events_body nat nat "int option" "int option" "json list"
  | Hypotheses_body nat "SwarmHypothesis list"
  | Hypothesis_body "SwarmHypothesis option" "json list"
  | Findings_body nat "SwarmFinding list"
  | Tasks_body nat nat "Task list"
  | Graph_body SecGraph nat nat
  | Chains_body nat "chain list"
  | Scope_body scope_view
  | Cost_body rat rat rat "(string \<times> model_cost) list" "Agent list"
  | Replay_body string nat json json "json list"
  | Missing_body missing
  | Error_text string
  | File_body string string string
  | Empty_body

record reply =
  rp_status :: nat
  rp_headers :: "(string \<times> string) list"
  rp_body :: api_body

definition cors_headers :: "(string \<times> string) list" where
  "cors_headers =
     [(''Access-Control-Allow-Origin'', ''*''), (''Access-Control-Allow-Methods'', ''GET, OPTIONS''),
      (''Access-Control-Allow-Headers'', ''Content-Type, Authorization'')]"

definition sendJSON :: "api_body \<Rightarrow> nat \<Rightarrow> reply" where
  "sendJSON data status =
     \<lparr>rp_status = status, rp_headers = (''Content-Type'', ''application/json'') # cors_headers, rp_body = data\<rparr>"

definition sendError :: "nat \<Rightarrow> api_body \<Rightarrow> reply" where
  "sendError status msg = sendJSON msg status"

section \<open>State of the swarm\<close>

text \<open>\<open>Object.values(d ?? {})\<close>.\<close>

definition values_or_none :: "(string \<times> 'a) list option \<Rightarrow> 'a list" where
  "values_or_none d = map snd (or_else d [])"

definition no_doc :: swarm_doc where
  "no_doc = \<lparr>sd_agents = Some [], sd_tasks = Some [], sd_hypotheses = Some [], sd_findings = Some [], sd_activity = Some [],
     sd_createdAt = None, sd_updatedAt = None, sd_totalTokensIn = Some 0, sd_totalTokensOut = Some 0,
     sd_totalCost = Some 0, sd_carried = no_swarm\<rparr>"

text \<open>A time stamp of the reply is absent, \<open>null\<close> (from the fallback) or a time.\<close>

definition api_status :: "time \<Rightarrow> ui_files \<Rightarrow> reply" where
  "api_status now f =
     (let state = readJSON (uf_swarm f) no_doc;
          stamp = (\<lambda>field. case uf_swarm f of None \<Rightarrow> Some None | Some d \<Rightarrow> map_option Some (field d)) in
      sendJSON
        (Status_body
          \<lparr>sw_agents = length (or_else (sd_agents state) []), sw_tasks = length (or_else (sd_tasks state) []),
           sw_hypotheses = length (or_else (sd_hypotheses state) []),
           sw_findings = length (or_else (sd_findings state) []),
           sw_totalTokensIn = or_else (sd_totalTokensIn state) 0,
           sw_totalTokensOut = or_else (sd_totalTokensOut state) 0,
           sw_totalCost = or_else (sd_totalCost state) 0,
           sw_createdAt = stamp sd_createdAt, sw_updatedAt = stamp sd_updatedAt\<rparr> now) 200)"

definition api_agents :: "ui_files \<Rightarrow> reply" where
  "api_agents f =
     (let agents = values_or_none (sd_agents (readJSON (uf_swarm f) no_doc))
      in sendJSON (Agents_body (length agents) agents) 200)"

text \<open>\<open>e.source === name || e.target === name\<close>.\<close>

definition event_names :: "string \<Rightarrow> json \<Rightarrow> js_error + bool" where
  "event_names name e =
     (case member (Some e) ''source'' of
        Inl err \<Rightarrow> Inl err
      | Inr s \<Rightarrow> Inr (s = Some (JStr name) \<or> json_field e ''target'' = Some (JStr name)))"

definition api_agent :: "decoded \<Rightarrow> ui_files \<Rightarrow> js_error + reply" where
  "api_agent nm f =
     (let agents = values_or_none (sd_agents (readJSON (uf_swarm f) no_doc)) in
      case nm of
        Wider \<Rightarrow> Inr (sendError 404 (Missing_body (No_agent nm)))
      | Latin1 name \<Rightarrow>
          (case find (\<lambda>a. ag_name a = name \<or> ag_id a = name) agents of
             None \<Rightarrow> Inr (sendError 404 (Missing_body (No_agent nm)))
           | Some agent \<Rightarrow>
               (case try_filter (event_names name) (readJSONL (uf_events f)) of
                  Inl e \<Rightarrow> Inl e
                | Inr events \<Rightarrow> Inr (sendJSON (Agent_body agent (take 50 events)) 200))))"

section \<open>Events\<close>

text \<open>
  The query of a request. \<open>handleApiRequest\<close> is written for \<open>URLSearchParams\<close>, which has a method \<open>get\<close>;
  \<open>url.parse(.., true)\<close> gives a plain object, on which calling \<open>get\<close> throws.
\<close>

datatype query = Search_params "(string \<times> string) list" | Plain_object "(string \<times> string list) list"

fun query_get :: "query \<Rightarrow> string \<Rightarrow> js_error + string option" where
  "query_get (Search_params kvs) k = Inr (map_of kvs k)"
| "query_get (Plain_object kvs) k = Inl TypeError"

definition event_has_type :: "string \<Rightarrow> json \<Rightarrow> js_error + bool" where
  "event_has_type ty e =
     (case member (Some e) ''event_type'' of
        Inl err \<Rightarrow> Inl err
      | Inr v \<Rightarrow> if v = Some (JStr ty) then Inr True else js_includes v ty)"

definition filter_if :: "string option \<Rightarrow> (string \<Rightarrow> json \<Rightarrow> js_error + bool) \<Rightarrow> json list \<Rightarrow> js_error + json list" where
  "filter_if v p es = (if truthy v then try_filter (p (the v)) es else Inr es)"

definition api_events :: "query \<Rightarrow> ui_files \<Rightarrow> js_error + reply" where
  "api_events q f =
     (let events = readJSONL (uf_events f) in
      case (query_get q ''limit'', query_get q ''offset'', query_get q ''agent'', query_get q ''type'') of
        (Inr l, Inr s, Inr agentFilter, Inr typeFilter) \<Rightarrow>
          (let limit = parseInt (or_else l ''100''); offset = parseInt (or_else s ''0'') in
           case filter_if agentFilter event_names events of
             Inl e \<Rightarrow> Inl e
           | Inr events1 \<Rightarrow>
               (case filter_if typeFilter event_has_type events1 of
                  Inl e \<Rightarrow> Inl e
                | Inr events2 \<Rightarrow>
                    (let until = (case (offset, limit) of (Some a, Some b) \<Rightarrow> Some (a + b) | _ \<Rightarrow> None);
                         page = js_slice offset until events2 in
                     Inr (sendJSON (Events_body (length page) (length events2) offset limit page) 200))))
      | _ \<Rightarrow> Inl TypeError)"

section \<open>Hypotheses, findings, tasks\<close>

definition api_hypotheses :: "ui_files \<Rightarrow> reply" where
  "api_hypotheses f =
     (let hyps = values_or_none (sd_hypotheses (readJSON (uf_swarm f) no_doc))
      in sendJSON (Hypotheses_body (length hyps) hyps) 200)"

definition in_timeline :: "string \<Rightarrow> json \<Rightarrow> js_error + bool" where
  "in_timeline i e =
     (case member (Some e) ''target'' of
        Inl err \<Rightarrow> Inl err
      | Inr t \<Rightarrow>
          Inr (t = Some (JStr i) \<or> json_field e ''source'' = Some (JStr i) \<or>
               opt_member (json_field e ''data'') ''hypothesisId'' = Some (JStr i)))"

text \<open>An inherited name is found too; its value is not a hypothesis and is printed without one.\<close>

definition api_hypothesis :: "decoded \<Rightarrow> ui_files \<Rightarrow> js_error + reply" where
  "api_hypothesis nm f =
     (let hyps = or_else (sd_hypotheses (readJSON (uf_swarm f) no_doc)) [] in
      case nm of
        Wider \<Rightarrow> Inr (sendError 404 (Missing_body (No_hypothesis nm)))
      | Latin1 i \<Rightarrow>
          if map_of hyps i = None \<and> \<not> inherited i then Inr (sendError 404 (Missing_body (No_hypothesis nm)))
          else
            (case try_filter (in_timeline i) (readJSONL (uf_events f)) of
               Inl e \<Rightarrow> Inl e
             | Inr timeline \<Rightarrow> Inr (sendJSON (Hypothesis_body (map_of hyps i) timeline) 200)))"

definition api_findings :: "ui_files \<Rightarrow> reply" where
  "api_findings f =
     (let findings = values_or_none (sd_findings (readJSON (uf_swarm f) no_doc))
      in sendJSON (Findings_body (length findings) findings) 200)"

definition api_tasks :: "ui_files \<Rightarrow> reply" where
  "api_tasks f =
     (let g = tm_load (uf_tasks f) in sendJSON (Tasks_body (length (tasks g)) (counter g) (tasks g)) 200)"

definition api_graph :: "ui_files \<Rightarrow> reply" where
  "api_graph f =
     (let g = graph_or_empty f in sendJSON (Graph_body g (length (nodes g)) (length (edges g))) 200)"

section \<open>Chains\<close>

type_synonym adjacency_map = "string \<Rightarrow> string list option"

text \<open>The adjacency list; an inherited key holds a value without a method \<open>push\<close>.\<close>

fun build_adj :: "SecEdge list \<Rightarrow> adjacency_map \<Rightarrow> js_error + adjacency_map" where
  "build_adj [] adj = Inr adj"
| "build_adj (e # es) adj =
     (if inherited (e_from e) then Inl TypeError
      else build_adj es (adj(e_from e \<mapsto> or_else (adj (e_from e)) [] @ [e_to e])))"

definition severe :: "SecNode \<Rightarrow> bool" where
  "severe n = (n_severity n = Some Critical \<or> n_severity n = Some High)"

definition path_nodes :: "SecNode list \<Rightarrow> string list \<Rightarrow> SecNode list" where
  "path_nodes ns path = List.map_filter (\<lambda>i. find (\<lambda>n. n_id n = i) ns) path"

text \<open>The chain found at the end of a path, if there is one.\<close>

definition record_chain :: "SecNode list \<Rightarrow> string \<Rightarrow> string list \<Rightarrow> chain list \<Rightarrow> chain list" where
  "record_chain ns current path found =
     (case find (\<lambda>n. n_id n = current) ns of
        Some node \<Rightarrow>
          if severe node \<and> length path > 1 then found @ [\<lparr>ch_path = path, ch_nodes = path_nodes ns path\<rparr>] else found
      | None \<Rightarrow> found)"

text \<open>
  The recursive search and its loop over the neighbours. \<open>visited.delete(next)\<close> after the recursive call restores the
  set, so the loop goes on with the set it had.
\<close>

function (sequential)
  dfs :: "SecNode list \<Rightarrow> adjacency_map \<Rightarrow> string \<Rightarrow> string set \<Rightarrow> string list \<Rightarrow> chain list \<Rightarrow> js_error + chain list" and
  dfs_loop :: "SecNode list \<Rightarrow> adjacency_map \<Rightarrow> string list \<Rightarrow> string set \<Rightarrow> string list \<Rightarrow> chain list \<Rightarrow> js_error + chain list"
where
  "dfs ns adj current visited path found =
     (if length found \<ge> 50 then Inr found
      else if length path > 10 then Inr found
      else
        (let found' = record_chain ns current path found in
         if inherited current then Inl TypeError
         else dfs_loop ns adj (or_else (adj current) []) visited path found'))"
| "dfs_loop ns adj [] visited path found = Inr found"
| "dfs_loop ns adj (next # neighbors) visited path found =
     (if next \<in> visited then dfs_loop ns adj neighbors visited path found
      else case dfs ns adj next (insert next visited) (path @ [next]) found of
        Inl e \<Rightarrow> Inl e
      | Inr found' \<Rightarrow> dfs_loop ns adj neighbors visited path found')"
  by pat_completeness auto
termination
  by (relation
    "(\<lambda>x. case x of Inl (ns, adj, c, v, path, cs) \<Rightarrow> 2 * (11 - length path)
                 | Inr (ns, adj, nb, v, path, cs) \<Rightarrow> 2 * (10 - length path) + 1) <*mlex*>
     measure (\<lambda>x. case x of Inl _ \<Rightarrow> 0 | Inr (ns, adj, nb, v, path, cs) \<Rightarrow> length nb)")
    (auto simp: mlex_prod_def wf_mlex intro!: wf_mlex)

declare dfs.simps [simp del]

fun dfs_all :: "SecNode list \<Rightarrow> adjacency_map \<Rightarrow> SecNode list \<Rightarrow> chain list \<Rightarrow> js_error + chain list" where
  "dfs_all ns adj [] found = Inr found"
| "dfs_all ns adj (node # rest) found =
     (if adj (n_id node) = None \<and> \<not> inherited (n_id node) then dfs_all ns adj rest found
      else case dfs ns adj (n_id node) {n_id node} [n_id node] found of
        Inl e \<Rightarrow> Inl e
      | Inr found' \<Rightarrow> dfs_all ns adj rest found')"

definition api_chains :: "ui_files \<Rightarrow> js_error + reply" where
  "api_chains f =
     (let g = graph_or_empty f in
      case build_adj (edges g) (\<lambda>_. None) of
        Inl e \<Rightarrow> Inl e
      | Inr adj \<Rightarrow>
          (case dfs_all (nodes g) adj (nodes g) [] of
             Inl e \<Rightarrow> Inl e
           | Inr found \<Rightarrow> Inr (sendJSON (Chains_body (length found) (take 50 found)) 200)))"

section \<open>Scope, cost, replay\<close>

definition api_scope :: "ui_files \<Rightarrow> js_error + reply" where
  "api_scope f =
     (let scope = readYAML (uf_scope f)
            [(''authorized'', Y_bool False), (''targets'', Y_list []), (''excluded'', Y_list []), (''enforce'', Y_bool True)];
          profile = readJSON (uf_profile f) (JObj [(''scope'', JNull)]) in
      case member (Some profile) ''scope'' of
        Inl e \<Rightarrow> Inl e
      | Inr s \<Rightarrow>
          Inr (sendJSON (Scope_body (case nullish s None of Some j \<Rightarrow> Profile_scope j | None \<Rightarrow> Yaml_scope scope)) 200))"

text \<open>A model named like an inherited property is found in the empty object already and gets no row.\<close>

definition add_model_cost :: "Agent \<Rightarrow> (string \<times> model_cost) list \<Rightarrow> (string \<times> model_cost) list" where
  "add_model_cost a byModel =
     (if inherited (ag_model a) then byModel
      else
        (let m = or_else (map_of byModel (ag_model a)) \<lparr>mc_tokensIn = 0, mc_tokensOut = 0, mc_cost = 0, mc_agents = 0\<rparr> in
         AList.update (ag_model a)
           \<lparr>mc_tokensIn = mc_tokensIn m + ag_tokensIn a, mc_tokensOut = mc_tokensOut m + ag_tokensOut a,
            mc_cost = mc_cost m + ag_estimatedCost a, mc_agents = mc_agents m + 1\<rparr> byModel))"

definition api_cost :: "ui_files \<Rightarrow> reply" where
  "api_cost f =
     (let state = readJSON (uf_swarm f) no_doc; agents = values_or_none (sd_agents state) in
      sendJSON
        (Cost_body (or_else (sd_totalTokensIn state) 0) (or_else (sd_totalTokensOut state) 0)
          (or_else (sd_totalCost state) 0) (fold add_model_cost agents []) agents) 200)"

definition in_replay :: "string \<Rightarrow> json \<Rightarrow> js_error + bool" where
  "in_replay i e =
     (case member (Some e) ''data'' of
        Inl err \<Rightarrow> Inl err
      | Inr d \<Rightarrow>
          Inr (opt_member d ''investigationId'' = Some (JStr i) \<or> opt_member d ''investigation'' = Some (JStr i) \<or>
               json_field e ''source'' = Some (JStr i) \<or> json_field e ''target'' = Some (JStr i)))"

text \<open>A name that is not Latin-1 equals no field of the log, but each event is still inspected.\<close>

definition api_replay :: "decoded \<Rightarrow> ui_files \<Rightarrow> js_error + reply" where
  "api_replay nm f =
     (let test = (case nm of Latin1 i \<Rightarrow> in_replay i | Wider \<Rightarrow> (\<lambda>e. map_sum id (\<lambda>_. False) (member (Some e) ''data''))) in
      case try_filter test (readJSONL (uf_events f)) of
        Inl e \<Rightarrow> Inl e
      | Inr [] \<Rightarrow> Inr (sendError 404 (Missing_body (No_replay nm)))
      | Inr (e # es) \<Rightarrow>
          Inr (sendJSON
            (Replay_body (case nm of Latin1 i \<Rightarrow> i | Wider \<Rightarrow> []) (length (e # es)) e (last (e # es)) (e # es)) 200))"

section \<open>Dispatch\<close>

text \<open>\<^verbatim>\<open>pathname.match(/^base([^/]+)$/)\<close>\<close>

definition path_param :: "string \<Rightarrow> string \<Rightarrow> string option" where
  "path_param base pathname =
     (if prefix base pathname
      then (let rest = drop (length base) pathname in if rest \<noteq> [] \<and> CHR ''/'' \<notin> set rest then Some rest else None)
      else None)"

definition with_param :: "string \<Rightarrow> (decoded \<Rightarrow> js_error + reply) \<Rightarrow> js_error + reply" where
  "with_param raw handler = (case decodeURIComponent raw of Inl e \<Rightarrow> Inl e | Inr nm \<Rightarrow> handler nm)"

definition handleApiRequest :: "time \<Rightarrow> ui_files \<Rightarrow> string \<Rightarrow> query \<Rightarrow> js_error + reply" where
  "handleApiRequest now f pathname q =
     (if pathname = ''/api/status'' then Inr (api_status now f)
      else if pathname = ''/api/agents'' then Inr (api_agents f)
      else if path_param ''/api/agents/'' pathname \<noteq> None
      then with_param (the (path_param ''/api/agents/'' pathname)) (\<lambda>nm. api_agent nm f)
      else if pathname = ''/api/events'' then api_events q f
      else if pathname = ''/api/hypotheses'' then Inr (api_hypotheses f)
      else if path_param ''/api/hypotheses/'' pathname \<noteq> None
      then with_param (the (path_param ''/api/hypotheses/'' pathname)) (\<lambda>nm. api_hypothesis nm f)
      else if pathname = ''/api/findings'' then Inr (api_findings f)
      else if pathname = ''/api/tasks'' then Inr (api_tasks f)
      else if pathname = ''/api/graph'' then Inr (api_graph f)
      else if pathname = ''/api/graph/chains'' then api_chains f
      else if pathname = ''/api/scope'' then api_scope f
      else if pathname = ''/api/cost'' then Inr (api_cost f)
      else if path_param ''/api/replay/'' pathname \<noteq> None
      then with_param (the (path_param ''/api/replay/'' pathname)) (\<lambda>nm. api_replay nm f)
      else Inr (sendError 404 (Missing_body (No_endpoint pathname))))"

end
