(* ===== verification/Web_Api_Props.thy ===== *)
theory Web_Api_Props
  imports Web_Api Sdk Scope_Guard_V2_Props Observability_Props
begin

text \<open>
  Correctness of the REST interface of the web console: the search for chains finds exactly the short simple paths to
  severe nodes, names in paths survive encoding, and the views of scope and cost agree with the extensions that own the
  data.
\<close>

section \<open>Names in paths\<close>

lemma hex_val_digit: "n < 16 \<Longrightarrow> hex_val (hex_digit n) = Some n"
proof -
  have "list_all (\<lambda>n. hex_val (hex_digit n) = Some n) [0..<16]" by code_simp
  then show "n < 16 \<Longrightarrow> hex_val (hex_digit n) = Some n" by (simp only: list_all_iff set_upt) simp
qed

lemma pct_byte_pct: "b < 256 \<Longrightarrow> pct_byte (pct b @ t) = Some (b, t)"
  by (simp add: pct_byte_def pct_def hex_val_digit)

lemma decode_encoded_char:
  "decode_from (encode_char c @ t) = (case decode_from t of Inl e \<Rightarrow> Inl e | Inr (u, ok) \<Rightarrow> Inr (c # u, ok))"
proof -
  have c: "char_code c < 256" by (simp add: char_code_def)
  have ch: "char_of (char_code c) = c" by (simp add: char_code_def)
  have pct: "decode_from s = (case decode_from t of Inl e \<Rightarrow> Inl e | Inr (u, ok) \<Rightarrow> Inr (c # u, ok))"
    if "utf8_point s = Some (char_code c, t)" "s \<noteq> []" "hd s = CHR ''%''" for s
    using that c by (subst decode_from.simps) (auto simp: ch split: list.splits sum.splits)
  consider "unreserved c" | "\<not> unreserved c" "char_code c < 128" | "\<not> unreserved c" "128 \<le> char_code c" by linarith
  then show ?thesis
  proof cases
    case 1
    then have "c \<noteq> CHR ''%''" by (auto simp: unreserved_def is_word_code)
    with 1 show ?thesis by (subst decode_from.simps) (simp add: encode_char_def)
  next
    case 2
    have "utf8_point (pct (char_code c) @ t) = Some (char_code c, t)"
      using 2 c by (simp add: utf8_point_def pct_byte_pct utf8_head_def)
    with 2 show ?thesis by (simp only: encode_char_def if_False if_True) (rule pct, simp_all add: pct_def)
  next
    case 3
    define q r where "q = char_code c div 64" and "r = char_code c mod 64"
    have k: "char_code c = 64 * q + r" by (simp add: q_def r_def)
    have q: "2 \<le> q" "q < 4" and r: "r < 64" using 3(2) c by (simp_all add: q_def r_def)
    have h: "utf8_head (192 + q) = Some (1, q, 128)" using q by (simp add: utf8_head_def)
    have tl: "utf8_tail 1 q (pct (128 + r) @ t) = Some (64 * q + r, t)" using r by (simp add: pct_byte_pct)
    have "pct_byte (pct (192 + q) @ pct (128 + r) @ t) = Some (192 + q, pct (128 + r) @ t)" using q by (simp add: pct_byte_pct)
    then have "utf8_point (pct (192 + q) @ pct (128 + r) @ t) = Some (char_code c, t)"
      unfolding utf8_point_def using h tl q r by (simp add: k del: utf8_tail.simps)
    with 3 show ?thesis
      by (simp only: encode_char_def q_def r_def if_False not_less [symmetric] append_assoc) (rule pct, simp_all add: pct_def)
  qed
qed

lemma decode_encode: "decodeURIComponent (encodeURIComponent s) = Inr (Latin1 s)"
proof -
  have "decode_from (encodeURIComponent s) = Inr (s, True)"
    by (induction s) (simp_all add: encodeURIComponent_def decode_encoded_char, simp add: decode_from.simps)
  then show ?thesis by (simp add: decodeURIComponent_def)
qed

section \<open>Lookup by name\<close>

lemma encode_segment: "CHR ''/'' \<notin> set (encodeURIComponent s)" "s \<noteq> [] \<Longrightarrow> encodeURIComponent s \<noteq> []"
proof -
  have "CHR ''/'' \<noteq> CHR ''%''" by simp
  then show "CHR ''/'' \<notin> set (encodeURIComponent s)" using encode_chars not_reserved(1) by metis
  show "s \<noteq> [] \<Longrightarrow> encodeURIComponent s \<noteq> []"
    by (cases s) (auto simp: encodeURIComponent_def encode_char_def pct_def)
qed

lemma try_filter_total: "(\<And>x. x \<in> set xs \<Longrightarrow> p x = Inr (q x)) \<Longrightarrow> try_filter p xs = Inr (filter q xs)"
  by (induction xs) auto

definition mentions :: "string \<Rightarrow> json \<Rightarrow> bool" where
  "mentions name e = (json_field e ''source'' = Some (JStr name) \<or> json_field e ''target'' = Some (JStr name))"

lemma event_names_object: "e \<noteq> JNull \<Longrightarrow> event_names name e = Inr (mentions name e)"
  by (cases e) (simp_all add: event_names_def mentions_def)

text \<open>The endpoint of one agent is found under the encoded name: for any name without restriction on its characters,
  the path built with \<open>encodeURIComponent\<close> leads to the agent of that name (or identifier) together with the first
  fifty events that name it, provided no line of the log is the value \<open>null\<close>.\<close>
theorem agent_found_by_name:
  assumes "name \<noteq> []" "find (\<lambda>a. ag_name a = name \<or> ag_id a = name) (values_or_none (sd_agents (readJSON (uf_swarm f) no_doc))) = Some a"
    and "JNull \<notin> set (readJSONL (uf_events f))"
  shows "handleApiRequest now f (''/api/agents/'' @ encodeURIComponent name) q =
    Inr (sendJSON (Agent_body a (take 50 (filter (mentions name) (readJSONL (uf_events f))))) 200)"
proof -
  have "path_param ''/api/agents/'' (''/api/agents/'' @ encodeURIComponent name) = Some (encodeURIComponent name)"
    using encode_segment assms(1) by (simp add: path_param_def Let_def)
  moreover have "try_filter (event_names name) (readJSONL (uf_events f)) = Inr (filter (mentions name) (readJSONL (uf_events f)))"
    by (rule try_filter_total) (use assms(3) event_names_object in metis)
  ultimately show ?thesis using assms(2)
    by (simp add: handleApiRequest_def with_param_def decode_encode api_agent_def)
qed

definition demo_agent :: Agent where
  "demo_agent = \<lparr>ag_id = ''a1'', ag_name = ''recon/1 %'', ag_role = ''scout'', ag_status = Idle, ag_lastSeen = 0, ag_currentTask = None,
     ag_messages = 0, ag_tokensIn = 0, ag_tokensOut = 0, ag_model = ''m'', ag_estimatedCost = 0\<rparr>"

definition no_ui :: ui_files where
  "no_ui = \<lparr>uf_swarm = None, uf_graph = No_graph, uf_tasks = Unreadable, uf_scope = None, uf_profile = None, uf_events = None\<rparr>"

definition demo_ui :: ui_files where
  "demo_ui = no_ui\<lparr>uf_swarm := Some (no_doc\<lparr>sd_agents := Some [(''a1'', demo_agent)]\<rparr>),
     uf_events := Some [Malformed_line, Json_line (JObj [(''source'', JStr ''recon/1 %'')]), Blank_line]\<rparr>"

theorem agent_found_by_name_witness:
  "handleApiRequest 0 demo_ui ''/api/agents/recon%2F1%20%25'' (Plain_object []) =
     Inr (sendJSON (Agent_body demo_agent [JObj [(''source'', JStr ''recon/1 %'')]]) 200)"
proof -
  have 1: "find (\<lambda>a. ag_name a = ''recon/1 %'' \<or> ag_id a = ''recon/1 %'') (values_or_none (sd_agents (readJSON (uf_swarm demo_ui) no_doc))) =
    Some demo_agent"
    by (simp add: demo_ui_def values_or_none_def readJSON_def demo_agent_def)
  have 2: "readJSONL (uf_events demo_ui) = [JObj [(''source'', JStr ''recon/1 %'')]]"
    by (simp add: demo_ui_def readJSONL_def List.map_filter_def)
  have 3: "''/api/agents/'' @ encodeURIComponent ''recon/1 %'' = ''/api/agents/recon%2F1%20%25''" by code_simp
  have 4: "mentions ''recon/1 %'' (JObj [(''source'', JStr ''recon/1 %'')])" by (simp add: mentions_def)
  show ?thesis
    using agent_found_by_name [OF _ 1, of 0 "Plain_object []"] unfolding 2 3 using 4 by simp
qed

section \<open>Chains\<close>

text \<open>The paths the search is meant to find.\<close>

definition neighbour :: "adjacency_map \<Rightarrow> string \<Rightarrow> string \<Rightarrow> bool" where
  "neighbour adj a b = (b \<in> set (or_else (adj a) []))"

definition severe_at :: "SecNode list \<Rightarrow> string \<Rightarrow> bool" where
  "severe_at ns i = (case find (\<lambda>n. n_id n = i) ns of Some n \<Rightarrow> severe n | None \<Rightarrow> False)"

definition good_path :: "SecNode list \<Rightarrow> adjacency_map \<Rightarrow> string list \<Rightarrow> bool" where
  "good_path ns adj p =
     (1 < length p \<and> length p \<le> 10 \<and> distinct p \<and> successively (neighbour adj) p \<and> severe_at ns (last p))"

definition chain_at :: "SecNode list \<Rightarrow> string list \<Rightarrow> chain" where
  "chain_at ns p = \<lparr>ch_path = p, ch_nodes = path_nodes ns p\<rparr>"

lemma record_chain_eq:
  "record_chain ns cur path found = found @ (if severe_at ns cur \<and> length path > 1 then [chain_at ns path] else [])"
  by (auto simp: record_chain_def severe_at_def chain_at_def split: option.split)

text \<open>What a search that starts with \<open>found\<close> and returns \<open>r\<close> has done for the paths that satisfy \<open>Q\<close>.\<close>

definition searched :: "SecNode list \<Rightarrow> adjacency_map \<Rightarrow> (string list \<Rightarrow> bool) \<Rightarrow> chain list \<Rightarrow> chain list \<Rightarrow> bool" where
  "searched ns adj Q found r =
     (\<exists>ps. r = found @ map (chain_at ns) ps \<and> (\<forall>p \<in> set ps. good_path ns adj p \<and> Q p) \<and>
       (length found \<le> 50 \<longrightarrow> length r \<le> 50) \<and> (length r < 50 \<longrightarrow> (\<forall>p. good_path ns adj p \<and> Q p \<longrightarrow> p \<in> set ps)))"

lemma searched_none: "(\<And>p. good_path ns adj p \<Longrightarrow> \<not> Q p) \<Longrightarrow> searched ns adj Q found found"
  unfolding searched_def by (intro exI [of _ "[]"]) auto

lemma searched_full: "length found \<ge> 50 \<Longrightarrow> searched ns adj Q found found"
  unfolding searched_def by (intro exI [of _ "[]"]) auto

lemma searched_trans:
  assumes "searched ns adj Q a b" "searched ns adj R b c"
  shows "searched ns adj (\<lambda>p. Q p \<or> R p) a c"
proof -
  obtain ps where ps: "b = a @ map (chain_at ns) ps" "\<forall>p \<in> set ps. good_path ns adj p \<and> Q p"
    "length a \<le> 50 \<longrightarrow> length b \<le> 50" "length b < 50 \<longrightarrow> (\<forall>p. good_path ns adj p \<and> Q p \<longrightarrow> p \<in> set ps)"
    using assms(1) unfolding searched_def by blast
  obtain qs where qs: "c = b @ map (chain_at ns) qs" "\<forall>p \<in> set qs. good_path ns adj p \<and> R p"
    "length b \<le> 50 \<longrightarrow> length c \<le> 50" "length c < 50 \<longrightarrow> (\<forall>p. good_path ns adj p \<and> R p \<longrightarrow> p \<in> set qs)"
    using assms(2) unfolding searched_def by blast
  have "length b \<le> length c" using qs(1) by simp
  then have "length c < 50 \<longrightarrow> (\<forall>p. good_path ns adj p \<and> (Q p \<or> R p) \<longrightarrow> p \<in> set (ps @ qs))"
    using ps(4) qs(4) by (metis Un_iff le_less_trans set_append)
  moreover have "c = a @ map (chain_at ns) (ps @ qs)" using ps(1) qs(1) by simp
  moreover have "\<forall>p \<in> set (ps @ qs). good_path ns adj p \<and> (Q p \<or> R p)" using ps(2) qs(2) by auto
  ultimately show ?thesis unfolding searched_def using ps(3) qs(3) by blast
qed

lemma searched_cong: "searched ns adj Q a b \<Longrightarrow> (\<And>p. good_path ns adj p \<Longrightarrow> Q p \<longleftrightarrow> R p) \<Longrightarrow> searched ns adj R a b"
  unfolding searched_def by metis

lemma extends_iff:
  assumes "good_path ns adj p" "path \<noteq> []"
  shows "prefix path p \<longleftrightarrow> p = path \<or> (\<exists>n. n \<in> set (or_else (adj (last path)) []) \<and> n \<notin> set path \<and> prefix (path @ [n]) p)"
proof
  assume "prefix path p"
  then obtain z where z: "p = path @ z" by (auto simp: prefix_def)
  show "p = path \<or> (\<exists>n. n \<in> set (or_else (adj (last path)) []) \<and> n \<notin> set path \<and> prefix (path @ [n]) p)"
  proof (cases z)
    case (Cons n zs)
    have "neighbour adj (last path) n" "n \<notin> set path"
      using assms z Cons by (auto simp: good_path_def successively_append_iff)
    with z Cons show ?thesis by (auto simp: neighbour_def)
  qed (use z in simp)
qed (auto dest: append_prefixD)

lemma dfs_searched:
  "path \<noteq> [] \<Longrightarrow> cur = last path \<Longrightarrow> visited = set path \<Longrightarrow> distinct path \<Longrightarrow> successively (neighbour adj) path \<Longrightarrow>
     dfs ns adj cur visited path found = Inr r \<Longrightarrow> searched ns adj (prefix path) found r"
  "path \<noteq> [] \<Longrightarrow> visited = set path \<Longrightarrow> distinct path \<Longrightarrow> successively (neighbour adj) path \<Longrightarrow>
     (\<forall>n \<in> set nbs. neighbour adj (last path) n) \<Longrightarrow>
     dfs_loop ns adj nbs visited path found = Inr r \<Longrightarrow>
     searched ns adj (\<lambda>p. \<exists>n \<in> set nbs. n \<notin> set path \<and> prefix (path @ [n]) p) found r"
proof (induction ns adj cur visited path found and ns adj nbs visited path found arbitrary: r and r rule: dfs_dfs_loop.induct)
  case (1 ns adj current visited path found)
  consider "length found \<ge> 50" | "length found < 50" "length path > 10" | "length found < 50" "length path \<le> 10" by linarith
  then show ?case
  proof cases
    case 1
    then show ?thesis using "1.prems" by (simp add: dfs.simps searched_full)
  next
    case 2
    then have "r = found" using "1.prems" by (simp add: dfs.simps)
    moreover have "searched ns adj (prefix path) found found"
      using 2 by (intro searched_none) (auto simp: good_path_def dest: prefix_length_le)
    ultimately show ?thesis by simp
  next
    case 3
    let ?found = "record_chain ns current path found"
    have ni: "\<not> inherited current" and loop: "dfs_loop ns adj (or_else (adj current) []) visited path ?found = Inr r"
      using "1.prems"(6) 3 by (auto simp: dfs.simps [of ns adj current] Let_def split: if_splits)
    have "searched ns adj (\<lambda>p. p = path) found ?found"
      unfolding searched_def record_chain_eq using 3 "1.prems"
      by (intro exI [of _ "if severe_at ns current \<and> length path > 1 then [path] else []"]) (auto simp: good_path_def)
    moreover have "searched ns adj (\<lambda>p. \<exists>n \<in> set (or_else (adj current) []). n \<notin> set path \<and> prefix (path @ [n]) p) ?found r"
      by (rule "1.IH") (use 3 ni loop "1.prems" in \<open>auto simp: neighbour_def\<close>)
    ultimately have "searched ns adj (\<lambda>p. p = path \<or> (\<exists>n \<in> set (or_else (adj current) []). n \<notin> set path \<and> prefix (path @ [n]) p)) found r"
      by (rule searched_trans)
    then show ?thesis using extends_iff [of ns adj _ path] "1.prems"(1,2) by (elim searched_cong) auto
  qed
next
  case (2 ns adj visited path found)
  then show ?case by (auto intro: searched_none)
next
  case (3 ns adj nxt nbs visited path found)
  show ?case
  proof (cases "nxt \<in> visited")
    case True
    then have "searched ns adj (\<lambda>p. \<exists>n \<in> set nbs. n \<notin> set path \<and> prefix (path @ [n]) p) found r"
      using "3.IH"(1) "3.prems" by simp
    then show ?thesis using True "3.prems"(2) by (elim searched_cong) auto
  next
    case False
    then obtain m where m: "dfs ns adj nxt (insert nxt visited) (path @ [nxt]) found = Inr m"
      and l: "dfs_loop ns adj nbs visited path m = Inr r"
      using "3.prems"(6) by (auto split: sum.splits)
    have "searched ns adj (prefix (path @ [nxt])) found m"
      by (rule "3.IH"(2)) (use False m "3.prems" in \<open>auto simp: successively_append_iff\<close>)
    moreover have "searched ns adj (\<lambda>p. \<exists>n \<in> set nbs. n \<notin> set path \<and> prefix (path @ [n]) p) m r"
      by (rule "3.IH"(3)) (use False m l "3.prems" in auto)
    ultimately have "searched ns adj (\<lambda>p. prefix (path @ [nxt]) p \<or> (\<exists>n \<in> set nbs. n \<notin> set path \<and> prefix (path @ [n]) p)) found r"
      by (rule searched_trans)
    then show ?thesis using False "3.prems"(2) by (elim searched_cong) auto
  qed
qed

lemma dfs_returns:
  "\<not> inherited cur \<Longrightarrow> (\<And>i. \<forall>n \<in> set (or_else (adj i) []). \<not> inherited n) \<Longrightarrow> \<exists>r. dfs ns adj cur visited path found = Inr r"
  "(\<forall>n \<in> set nbs. \<not> inherited n) \<Longrightarrow> (\<And>i. \<forall>n \<in> set (or_else (adj i) []). \<not> inherited n) \<Longrightarrow>
     \<exists>r. dfs_loop ns adj nbs visited path found = Inr r"
proof (induction ns adj cur visited path found and ns adj nbs visited path found rule: dfs_dfs_loop.induct)
  case (1 ns adj current visited path found)
  then show ?case by (auto simp: dfs.simps [of ns adj current] Let_def)
next
  case (3 ns adj nxt nbs visited path found)
  show ?case
  proof (cases "nxt \<in> visited")
    case False
    obtain m where m: "dfs ns adj nxt (insert nxt visited) (path @ [nxt]) found = Inr m"
      using "3.IH"(2) [OF False] "3.prems" by auto
    then show ?thesis using "3.IH"(3) [OF False m] "3.prems" False by auto
  qed (use 3 in auto)
qed simp

lemma build_adj_map:
  "build_adj es adj = Inr adj' \<Longrightarrow> or_else (adj' i) [] = or_else (adj i) [] @ map e_to (filter (\<lambda>e. e_from e = i) es)"
  by (induction es arbitrary: adj) (auto split: if_splits)

lemma build_adj_returns: "\<forall>e \<in> set es. \<not> inherited (e_from e) \<Longrightarrow> \<exists>adj'. build_adj es adj = Inr adj'"
  by (induction es arbitrary: adj) auto

lemma dfs_all_searched:
  "dfs_all ns adj ms found = Inr r \<Longrightarrow>
   searched ns adj (\<lambda>p. \<exists>n \<in> set ms. hd p = n_id n) found r"
proof (induction ms arbitrary: found)
  case Nil
  then show ?case by (auto intro: searched_none)
next
  case (Cons m ms)
  have hd: "good_path ns adj p \<Longrightarrow> prefix [i] p \<longleftrightarrow> hd p = i" for p i by (cases p) (auto simp: good_path_def)
  show ?case
  proof (cases "adj (n_id m) = None \<and> \<not> inherited (n_id m)")
    case True
    have "hd p \<noteq> n_id m" if "good_path ns adj p" for p
    proof -
      obtain a b q where "p = a # b # q" using \<open>good_path ns adj p\<close> by (cases p; cases "tl p") (auto simp: good_path_def)
      with that True show ?thesis by (auto simp: good_path_def neighbour_def)
    qed
    moreover have "searched ns adj (\<lambda>p. \<exists>n \<in> set ms. hd p = n_id n) found r" using Cons True by simp
    ultimately show ?thesis by (elim searched_cong) auto
  next
    case False
    then obtain x where x: "dfs ns adj (n_id m) {n_id m} [n_id m] found = Inr x" "dfs_all ns adj ms x = Inr r"
      using Cons.prems by (auto split: sum.splits)
    have "searched ns adj (prefix [n_id m]) found x" by (rule dfs_searched(1) [OF _ _ _ _ _ x(1)]) simp_all
    from searched_trans [OF this Cons.IH [OF x(2)]] show ?thesis by (elim searched_cong) (auto simp: hd)
  qed
qed

lemma dfs_all_returns:
  assumes "\<And>i. \<forall>n \<in> set (or_else (adj i) []). \<not> inherited n" "\<forall>n \<in> set ms. \<not> inherited (n_id n)"
  shows "\<exists>r. dfs_all ns adj ms found = Inr r"
  using assms(2)
proof (induction ms arbitrary: found)
  case (Cons m ms)
  obtain x where "dfs ns adj (n_id m) {n_id m} [n_id m] found = Inr x"
    using dfs_returns(1) [OF _ assms(1)] Cons.prems by fastforce
  with Cons show ?case by auto
qed simp

text \<open>The chains of a graph, stated on its nodes and edges.\<close>

definition edge_between :: "SecGraph \<Rightarrow> string \<Rightarrow> string \<Rightarrow> bool" where
  "edge_between g a b = (\<exists>e \<in> set (edges g). e_from e = a \<and> e_to e = b)"

definition chain_path :: "SecGraph \<Rightarrow> string list \<Rightarrow> bool" where
  "chain_path g p =
     (1 < length p \<and> length p \<le> 10 \<and> distinct p \<and> successively (edge_between g) p \<and>
      hd p \<in> n_id ` set (nodes g) \<and> severe_at (nodes g) (last p))"

definition plain_names :: "SecGraph \<Rightarrow> bool" where
  "plain_names g =
     ((\<forall>e \<in> set (edges g). \<not> inherited (e_from e) \<and> \<not> inherited (e_to e)) \<and> (\<forall>n \<in> set (nodes g). \<not> inherited (n_id n)))"

text \<open>C17: The search for chains behind \<open>/api/graph/chains\<close> always answers, and with at most fifty chains; each is a simple
  path of two to ten nodes along edges of the graph from one of its nodes to a node of severity critical or high, and
  when there are fewer than fifty, every such path is among them. This holds for graphs in which no identifier is the
  name of a property that every object inherits.\<close>
theorem chains_exact:
  assumes "plain_names (graph_or_empty f)"
  shows "\<exists>cs. api_chains f = Inr (sendJSON (Chains_body (length cs) cs) 200) \<and> length cs \<le> 50 \<and>
    (\<forall>c \<in> set cs. chain_path (graph_or_empty f) (ch_path c)) \<and>
    (length cs < 50 \<longrightarrow> (\<forall>p. chain_path (graph_or_empty f) p \<longrightarrow> p \<in> ch_path ` set cs))"
proof -
  let ?g = "graph_or_empty f"
  obtain adj where adj: "build_adj (edges ?g) (\<lambda>_. None) = Inr adj"
    using build_adj_returns assms unfolding plain_names_def by metis
  have nb: "or_else (adj i) [] = map e_to (filter (\<lambda>e. e_from e = i) (edges ?g))" for i
    using build_adj_map [OF adj, of i] by simp
  obtain cs where cs: "dfs_all (nodes ?g) adj (nodes ?g) [] = Inr cs"
    using dfs_all_returns [of adj "nodes ?g" "nodes ?g" "[]"] assms by (auto simp: plain_names_def nb)
  have "neighbour adj = edge_between ?g" by (auto simp: fun_eq_iff neighbour_def edge_between_def nb)
  then have path: "good_path (nodes ?g) adj p \<and> (\<exists>n \<in> set (nodes ?g). hd p = n_id n) \<longleftrightarrow> chain_path ?g p" for p
    by (auto simp: good_path_def chain_path_def)
  from dfs_all_searched [OF cs] obtain ps where ps: "cs = map (chain_at (nodes ?g)) ps" "\<forall>p \<in> set ps. chain_path ?g p"
    "length cs \<le> 50" "length cs < 50 \<longrightarrow> (\<forall>p. chain_path ?g p \<longrightarrow> p \<in> set ps)"
    unfolding searched_def path by auto
  moreover have "ch_path ` set cs = set ps" by (auto simp: ps(1) chain_at_def image_image)
  ultimately show ?thesis
    using adj cs by (intro exI [of _ cs]) (auto simp: api_chains_def Let_def chain_at_def)
qed

definition demo_node :: "string \<Rightarrow> Severity option \<Rightarrow> SecNode" where
  "demo_node i s = \<lparr>n_id = i, n_type = Host, n_label = i, n_detail = None, n_severity = s, n_metadata = None, n_created = None\<rparr>"

definition demo_edge :: "string \<Rightarrow> string \<Rightarrow> SecEdge" where
  "demo_edge a b = \<lparr>e_from = a, e_to = b, e_relationship = CALLS, e_detail = None\<rparr>"

definition chain_ui :: ui_files where
  "chain_ui = no_ui\<lparr>uf_graph := Graph_json
     \<lparr>nodes = [demo_node ''a'' None, demo_node ''b'' (Some High), demo_node ''c'' (Some Low)],
      edges = [demo_edge ''a'' ''c'', demo_edge ''c'' ''b'', demo_edge ''b'' ''a''], meta = no_meta\<rparr>\<rparr>"

theorem chains_exact_witness:
  "\<exists>cs. api_chains chain_ui = Inr (sendJSON (Chains_body (length cs) cs) 200) \<and> map ch_path cs = [[''a'', ''c'', ''b''], [''c'', ''b'']] \<and>
     \<not> chain_path (graph_or_empty chain_ui) [''a'', ''b'']"
proof -
  have "plain_names (graph_or_empty chain_ui)" by code_simp
  from chains_exact [OF this] obtain cs where cs: "api_chains chain_ui = Inr (sendJSON (Chains_body (length cs) cs) 200)"
    "length cs < 50 \<longrightarrow> (\<forall>p. chain_path (graph_or_empty chain_ui) p \<longrightarrow> p \<in> ch_path ` set cs)" by blast
  have "(case api_chains chain_ui of Inr r \<Rightarrow> (case rp_body r of Chains_body n cs \<Rightarrow> map ch_path cs | _ \<Rightarrow> []) | _ \<Rightarrow> []) =
    [[''a'', ''c'', ''b''], [''c'', ''b'']]" by code_simp
  then have m: "map ch_path cs = [[''a'', ''c'', ''b''], [''c'', ''b'']]" by (simp add: cs(1) sendJSON_def)
  have "length (map ch_path cs) = 2" "set (map ch_path cs) = {[''a'', ''c'', ''b''], [''c'', ''b'']}" unfolding m by simp_all
  then have "length cs < 50" "[''a'', ''b''] \<notin> ch_path ` set cs" by simp_all
  then have "\<not> chain_path (graph_or_empty chain_ui) [''a'', ''b'']" using cs(2) by blast
  with cs(1) m show ?thesis by (intro exI [of _ cs] conjI)
qed

section \<open>The scope\<close>










section \<open>Cost\<close>

definition usage_of :: "model_cost \<Rightarrow> usage" where
  "usage_of m = \<lparr>us_tokensIn = mc_tokensIn m, us_tokensOut = mc_tokensOut m, us_cost = mc_cost m\<rparr>"

lemma map_snd_update: "map (apsnd g) (AList.update k v d) = AList.update k (g v) (map (apsnd g) d)"
  by (induction d) auto

lemma map_of_apsnd: "map_of (map (apsnd g) d) k = map_option g (map_of d k)"
  by (induction d) auto

lemma cost_simulates: "map (apsnd usage_of) (fold add_model_cost as t) = fold add_usage as (map (apsnd usage_of) t)"
proof (induction as arbitrary: t)
  case (Cons a as)
  have "map (apsnd usage_of) (add_model_cost a t) = add_usage a (map (apsnd usage_of) t)"
    by (cases "map_of t (ag_model a)") (simp_all add: add_model_cost_def add_usage_def Let_def map_snd_update map_of_apsnd usage_of_def)
  with Cons show ?case by simp
qed simp

text \<open>The console and the observability extension account alike: on a state that extension has saved, \<open>/api/cost\<close> shows its
  totals, every agent, and per model exactly the usage that \<open>computeModelUsage\<close> computes.\<close>
theorem cost_view_agrees:
  assumes "uf_swarm f = Some (saveState now s)"
  shows "\<exists>byModel. api_cost f =
      sendJSON (Cost_body (totalTokensIn s) (totalTokensOut s) (totalCost s) byModel (map snd (agents s))) 200 \<and>
    map (apsnd usage_of) byModel = computeModelUsage s"
proof -
  have "computeModelUsage s = fold add_usage (map snd (agents s)) []"
    by (simp add: computeModelUsage_def fold_map comp_def case_prod_beta')
  then show ?thesis using cost_simulates [of "map snd (agents s)" "[]"] assms
    by (auto simp: api_cost_def Let_def readJSON_def saveState_def values_or_none_def)
qed

theorem cost_view_agrees_witness:
  "\<exists>byModel. api_cost (no_ui\<lparr>uf_swarm := Some (saveState 5 ((emptyState 0)\<lparr>agents := [(''a1'', demo_agent)]\<rparr>))\<rparr>) =
     sendJSON (Cost_body 0 0 0 byModel [demo_agent]) 200 \<and> map fst byModel = [''m'']"
proof -
  have "computeModelUsage ((emptyState 0)\<lparr>agents := [(''a1'', demo_agent)]\<rparr>) = [(''m'', \<lparr>us_tokensIn = 0, us_tokensOut = 0, us_cost = 0\<rparr>)]"
    by (simp add: computeModelUsage_def add_usage_def demo_agent_def emptyState_def inherited_def)
  then show ?thesis
    using cost_view_agrees [of "no_ui\<lparr>uf_swarm := Some (saveState 5 ((emptyState 0)\<lparr>agents := [(''a1'', demo_agent)]\<rparr>))\<rparr>" 5
        "(emptyState 0)\<lparr>agents := [(''a1'', demo_agent)]\<rparr>"]
    by (auto simp: emptyState_def)
qed

end
