(* ===== verification/Web_Server.thy ===== *)
theory Web_Server
  imports Web_Api
begin

text \<open>
  The server of the web console (\<open>web-ui/index.ts\<close>): the request listener with its authentication and its static files,
  the upgrade to a web socket, the tap on the event bus, and the commands that start and stop the server.

  A request is given as \<open>url.parse\<close> leaves it: the path and the query, in which a repeated key has several values. The
  file system below the console is a function from paths to entries. The event bus is a parameter: which event types it
  accepts, whether \<open>pi.on\<close> returns a function that ends the subscription, and which subscriptions an event reaches.
  Objects of the run time (servers, subscriptions, sockets) have numbers. What happens later, a listening server, a closed
  server, an expired timer, is a pending callback; \<open>console_step\<close> runs the callbacks and the requests in any order.
\<close>

section \<open>Static files\<close>

datatype fs_entry = Dir_entry | File_entry "string option"

type_synonym fs = "string \<Rightarrow> fs_entry option"

definition mimeTypes :: "(string \<times> string) list" where
  "mimeTypes =
     [(''.html'', ''text/html; charset=utf-8''), (''.css'', ''text/css; charset=utf-8''),
      (''.js'', ''application/javascript; charset=utf-8''), (''.json'', ''application/json; charset=utf-8''),
      (''.png'', ''image/png''), (''.jpg'', ''image/jpeg''), (''.svg'', ''image/svg+xml''), (''.ico'', ''image/x-icon''),
      (''.woff2'', ''font/woff2''), (''.woff'', ''font/woff''), (''.map'', ''application/json'')]"

text \<open>A file whose contents cannot be read (\<open>None\<close>) makes \<open>readFileSync\<close> throw.\<close>

definition serveStatic :: "fs \<Rightarrow> string \<Rightarrow> reply" where
  "serveStatic fs filePath =
     (case fs filePath of
        Some (File_entry content) \<Rightarrow>
          (let contentType = or_else (map_of mimeTypes (toLowerCase (path_extname filePath))) ''application/octet-stream'' in
           case content of
             Some data \<Rightarrow>
               \<lparr>rp_status = 200, rp_headers = [(''Content-Type'', contentType), (''Cache-Control'', ''no-cache'')],
                rp_body = File_body filePath contentType data\<rparr>
           | None \<Rightarrow> sendError 500 (Error_text ''Failed to serve file''))
      | _ \<Rightarrow> sendError 404 (Error_text ''Not found''))"

text \<open>\<^verbatim>\<open>s.replace(/^(\.\.[/\\])+/, "")\<close>\<close>

fun strip_dots :: "string \<Rightarrow> string" where
  "strip_dots (a # b # c # s) =
     (if a = CHR ''.'' \<and> b = CHR ''.'' \<and> (c = CHR ''/'' \<or> c = CHR 0x5C) then strip_dots s else a # b # c # s)"
| "strip_dots s = s"

section \<open>Authentication\<close>

definition checkAuth :: "string option \<Rightarrow> bool \<Rightarrow> string \<Rightarrow> bool" where
  "checkAuth auth requireToken expected =
     (if \<not> requireToken then True
      else if \<not> truthy auth then False
      else if prefix ''Bearer '' (the auth) then drop 7 (the auth) = expected else False)"

section \<open>Requests\<close>

record http_req =
  rq_method :: string
  rq_pathname :: "string option"
  rq_query :: "(string \<times> string list) list"
  rq_authorization :: "string option"

text \<open>What the request listener of a server has captured when the server was made.\<close>

record http_server =
  hs_id :: nat
  hs_host :: string
  hs_port :: int
  hs_token :: "string option"

definition isRemote :: "string \<Rightarrow> bool" where
  "isRemote host = (host \<noteq> ''localhost'' \<and> host \<noteq> ''127.0.0.1'')"

definition on_request :: "time \<Rightarrow> fs \<Rightarrow> string \<Rightarrow> http_server \<Rightarrow> ui_files \<Rightarrow> http_req \<Rightarrow> js_error + reply" where
  "on_request now fs public srv f req =
     (let pathname = or_else (rq_pathname req) ''/'' in
      if rq_method req = ''OPTIONS'' then Inr \<lparr>rp_status = 204, rp_headers = cors_headers, rp_body = Empty_body\<rparr>
      else if isRemote (hs_host srv) \<and> (prefix ''/api/'' pathname \<or> prefix ''/ws'' pathname) \<and>
              \<not> checkAuth (rq_authorization req) True (or_else (hs_token srv) [])
      then Inr (sendError 401 (Error_text ''Authentication required. Provide Bearer token in Authorization header.''))
      else if prefix ''/api/'' pathname then handleApiRequest now f pathname (Plain_object (rq_query req))
      else if pathname = ''/'' \<or> pathname = ''/index.html'' then Inr (serveStatic fs (path_join [public, ''index.html'']))
      else
        (let requestedPath = strip_dots (path_normalize pathname);
             filePath = path_join [public, requestedPath] in
         if \<not> prefix public filePath then Inr (sendError 403 (Error_text ''Forbidden''))
         else Inr (serveStatic fs filePath)))"

section \<open>Web sockets\<close>

text \<open>A value of the query: a string, or several when the key is repeated.\<close>

datatype qval = Q_str string | Q_list "string list"

definition query_value :: "(string \<times> string list) list \<Rightarrow> string \<Rightarrow> qval option" where
  "query_value q k =
     (case map_of q k of None \<Rightarrow> None | Some [] \<Rightarrow> None | Some [v] \<Rightarrow> Some (Q_str v) | Some vs \<Rightarrow> Some (Q_list vs))"

fun q_truthy :: "qval option \<Rightarrow> bool" where
  "q_truthy None = False"
| "q_truthy (Some (Q_str s)) = (s \<noteq> [])"
| "q_truthy (Some (Q_list vs)) = True"

record ws_client =
  wc_id :: nat
  wc_open :: bool
  wc_agent :: "qval option"
  wc_type :: "qval option"
  wc_server :: http_server
  wc_request :: http_req

datatype upgrade_verdict = Destroyed | Unauthorized | Accepted

definition upgrade_auth :: "http_server \<Rightarrow> http_req \<Rightarrow> upgrade_verdict" where
  "upgrade_auth srv req =
     (if rq_pathname req \<noteq> Some ''/ws'' then Destroyed
      else if isRemote (hs_host srv) \<and>
              (\<not> truthy (hs_token srv) \<or>
               map_option (drop 7) (rq_authorization req) \<noteq> hs_token srv \<and>
               query_value (rq_query req) ''token'' \<noteq> map_option Q_str (hs_token srv))
      then Unauthorized else Accepted)"

section \<open>State\<close>

datatype ws_message = Snapshot_msg snapshot | Event_msg json

datatype callback = Listen_done http_server | Close_done http_server | Force_timer

record event_bus =
  bus_supports :: "string \<Rightarrow> bool"
  bus_returns_unsub :: bool
  bus_reaches :: "string \<Rightarrow> string \<Rightarrow> bool"

text \<open>
  \<open>ServerState\<close> of the module, then what lives outside of it: the bound servers, the subscriptions of the bus, the
  pending callbacks, the messages sent and the files.
\<close>

record ServerState =
  ss_server :: "http_server option"
  ss_wss :: "nat option"
  ss_clients :: "ws_client list"
  ss_eventSubscriptions :: "nat list"
  ss_startedAt :: "time option"
  ss_port :: int
  ss_host :: string

record console =
  con_state :: ServerState
  con_bound :: "http_server list"
  con_subs :: "(nat \<times> string) list"
  con_pending :: "callback list"
  con_sent :: "(nat \<times> ws_message) list"
  con_fresh :: nat
  con_files :: ui_files

definition DEFAULT_PORT :: int where
  "DEFAULT_PORT = 8787"

definition DEFAULT_HOST :: string where
  "DEFAULT_HOST = ''localhost''"

definition serverState :: ServerState where
  "serverState =
     \<lparr>ss_server = None, ss_wss = None, ss_clients = [], ss_eventSubscriptions = [], ss_startedAt = None,
      ss_port = DEFAULT_PORT, ss_host = DEFAULT_HOST\<rparr>"

definition idle_console :: "ui_files \<Rightarrow> console" where
  "idle_console f =
     \<lparr>con_state = serverState, con_bound = [], con_subs = [], con_pending = [], con_sent = [], con_fresh = 0, con_files = f\<rparr>"

definition on_state :: "(ServerState \<Rightarrow> ServerState) \<Rightarrow> console \<Rightarrow> console" where
  "on_state g c = c\<lparr>con_state := g (con_state c)\<rparr>"

section \<open>The tap on the event bus\<close>

definition PI_EVENT_TYPES :: "string list" where
  "PI_EVENT_TYPES =
     [''session_start'', ''session_end'', ''before_agent_start'', ''after_agent_start'', ''tool_call'', ''tool_result'',
      ''message'', ''task.created'', ''task.claimed'', ''task.completed'', ''asset.discovered'', ''endpoint.discovered'',
      ''identity.discovered'', ''hypothesis.created'', ''hypothesis.updated'', ''hypothesis.disputed'',
      ''hypothesis.validated'', ''hypothesis.rejected'', ''finding.discovered'', ''scope.violation'', ''agent.spawned'',
      ''agent.failed'']"

text \<open>The loop that subscribes: a type the bus rejects is skipped.\<close>

definition subscribe :: "event_bus \<Rightarrow> string \<Rightarrow> console \<Rightarrow> console" where
  "subscribe bus ty c =
     (if \<not> bus_supports bus ty then c
      else
        (let k = con_fresh c; c1 = c\<lparr>con_subs := con_subs c @ [(k, ty)], con_fresh := k + 1\<rparr> in
         if bus_returns_unsub bus
         then on_state (\<lambda>s. s\<lparr>ss_eventSubscriptions := ss_eventSubscriptions s @ [k]\<rparr>) c1 else c1))"

text \<open>The \<open>SwarmEvent\<close> of an event: \<open>event?.k ?? ..\<close> for each field.\<close>

definition or_json :: "json option \<Rightarrow> json \<Rightarrow> json" where
  "or_json v d = or_else (nullish v None) d"

definition swarm_event :: "time \<Rightarrow> string \<Rightarrow> string \<Rightarrow> json option \<Rightarrow> json" where
  "swarm_event now rnd eventType event =
     JObj
       [(''id'', JStr (''evt-'' @ nat_to_string (nat now) @ ''-'' @ rnd)),
        (''event_type'', or_json (nullish (opt_member event ''event_type'') (opt_member event ''type'')) (JStr eventType)),
        (''source'', or_json (nullish (opt_member event ''source'') (opt_member event ''agent'')) (JStr ''unknown'')),
        (''target'', or_json (opt_member event ''target'') (JStr [])),
        (''data'', or_json (nullish (opt_member event ''data'') (opt_member event ''detail'')) (JObj [])),
        (''timestamp'', or_json (opt_member event ''timestamp'') (JNum (of_int now)))]"

text \<open>The two filters of a client.\<close>

definition agent_passes :: "qval option \<Rightarrow> json \<Rightarrow> bool" where
  "agent_passes flt ev =
     (\<not> q_truthy flt \<or>
      (case flt of
         Some (Q_str a) \<Rightarrow> json_field ev ''source'' = Some (JStr a) \<or> json_field ev ''target'' = Some (JStr a)
       | _ \<Rightarrow> False))"

text \<open>\<open>includes\<close> turns several values into one text separated by commas, and finds no array in an array.\<close>

definition type_passes :: "qval option \<Rightarrow> json \<Rightarrow> js_error + bool" where
  "type_passes flt ev =
     (if \<not> q_truthy flt then Inr True
      else
        (let ty = json_field ev ''event_type'' in
         case flt of
           Some (Q_str t) \<Rightarrow> if ty = Some (JStr t) then Inr True else js_includes ty t
         | Some (Q_list ts) \<Rightarrow> (case ty of Some (JArr _) \<Rightarrow> Inr False | _ \<Rightarrow> js_includes ty (join '','' ts))
         | None \<Rightarrow> Inr True))"

text \<open>The clients an event is sent to; an exception ends the loop after the clients served before it.\<close>

fun broadcast :: "json \<Rightarrow> ws_client list \<Rightarrow> nat list \<times> js_error option" where
  "broadcast ev [] = ([], None)"
| "broadcast ev (c # cs) =
     (if \<not> wc_open c then broadcast ev cs
      else if \<not> agent_passes (wc_agent c) ev then broadcast ev cs
      else case type_passes (wc_type c) ev of
        Inl e \<Rightarrow> ([], Some e)
      | Inr ok \<Rightarrow> (let (ids, err) = broadcast ev cs in (if ok then wc_id c # ids else ids, err)))"

definition tap :: "time \<Rightarrow> string \<Rightarrow> string \<Rightarrow> json option \<Rightarrow> console \<Rightarrow> console" where
  "tap now rnd eventType event c =
     (let ev = swarm_event now rnd eventType event;
          ids = fst (broadcast ev (ss_clients (con_state c)))
      in c\<lparr>con_files := appendJSONL ev (con_files c), con_sent := con_sent c @ map (\<lambda>i. (i, Event_msg ev)) ids\<rparr>)"

text \<open>An event on the bus runs the tap once for every subscription it reaches, each with random letters of its own.\<close>

definition bus_event :: "event_bus \<Rightarrow> time \<Rightarrow> (nat \<Rightarrow> string) \<Rightarrow> string \<Rightarrow> json option \<Rightarrow> console \<Rightarrow> console" where
  "bus_event bus now rnd ty event c =
     fold (\<lambda>(k, sub). tap now (rnd k) sub event) (filter (\<lambda>(_, sub). bus_reaches bus sub ty) (con_subs c)) c"

section \<open>Start and stop\<close>

record web_env =
  env_port :: "string option"
  env_host :: "string option"
  env_token :: "string option"

datatype console_reply =
    Already_running string int
  | Token_required string
  | Starting
  | Running string int nat
  | Port_in_use int
  | Start_failed
  | Not_running
  | Stopping
  | Stopped int
  | Force_stopped
  | Nothing

text \<open>\<open>listen\<close> throws when the port is not a number from 0 to 65535; by then the server has been recorded.\<close>

definition startServer :: "event_bus \<Rightarrow> web_env \<Rightarrow> console \<Rightarrow> console \<times> (js_error + console_reply)" where
  "startServer bus env c =
     (case ss_server (con_state c) of
        Some _ \<Rightarrow> (c, Inr (Already_running (ss_host (con_state c)) (ss_port (con_state c))))
      | None \<Rightarrow>
          (let port = parseInt (or_else (env_port env) ''8787'');
               host = or_else (env_host env) DEFAULT_HOST;
               token = env_token env in
           if isRemote host \<and> \<not> truthy token then (c, Inr (Token_required host))
           else
             (let srv = \<lparr>hs_id = con_fresh c, hs_host = host, hs_port = or_else port 0, hs_token = token\<rparr>;
                  c1 = on_state (\<lambda>s. s\<lparr>ss_server := Some srv, ss_wss := Some (con_fresh c)\<rparr>) (c\<lparr>con_fresh := con_fresh c + 1\<rparr>);
                  c2 = fold (subscribe bus) (PI_EVENT_TYPES @ [''*'']) c1 in
              case port of
                Some p \<Rightarrow>
                  if 0 \<le> p \<and> p \<le> 65535 then (c2\<lparr>con_pending := Listen_done srv # con_pending c2\<rparr>, Inr Starting)
                  else (c2, Inl RangeError)
              | None \<Rightarrow> (c2, Inl RangeError))))"

definition on_listening :: "time \<Rightarrow> http_server \<Rightarrow> console \<Rightarrow> console \<times> console_reply" where
  "on_listening now srv c =
     (on_state (\<lambda>s. s\<lparr>ss_startedAt := Some now, ss_port := hs_port srv, ss_host := hs_host srv\<rparr>)
        (c\<lparr>con_bound := srv # con_bound c\<rparr>),
      Running (hs_host srv) (hs_port srv) (length PI_EVENT_TYPES + 1))"

definition on_error :: "http_server \<Rightarrow> bool \<Rightarrow> console \<Rightarrow> console \<times> console_reply" where
  "on_error srv in_use c =
     (on_state (\<lambda>s. s\<lparr>ss_server := None, ss_wss := None, ss_startedAt := None\<rparr>) c,
      if in_use then Port_in_use (hs_port srv) else Start_failed)"

text \<open>\<open>close\<close> unbinds the port at once and calls back when the last connection has ended.\<close>

definition stopServer :: "console \<Rightarrow> console \<times> console_reply" where
  "stopServer c =
     (case ss_server (con_state c) of
        None \<Rightarrow> (c, Not_running)
      | Some srv \<Rightarrow>
          (on_state (\<lambda>s. s\<lparr>ss_eventSubscriptions := [], ss_clients := [], ss_wss := None\<rparr>)
             (c\<lparr>con_subs := filter (\<lambda>(k, _). k \<notin> set (ss_eventSubscriptions (con_state c))) (con_subs c),
               con_bound := filter (\<lambda>b. hs_id b \<noteq> hs_id srv) (con_bound c),
               con_pending := Force_timer # Close_done srv # con_pending c\<rparr>),
           Stopping))"

definition on_closed :: "console \<Rightarrow> console \<times> console_reply" where
  "on_closed c =
     (on_state (\<lambda>s. s\<lparr>ss_server := None, ss_startedAt := None\<rparr>) c, Stopped (ss_port (con_state c)))"

definition on_timer :: "console \<Rightarrow> console \<times> console_reply" where
  "on_timer c =
     (if ss_server (con_state c) \<noteq> None
      then (on_state (\<lambda>s. s\<lparr>ss_server := None, ss_startedAt := None\<rparr>) c, Force_stopped) else (c, Nothing))"

definition on_session_end :: "console \<Rightarrow> console" where
  "on_session_end c = (if ss_server (con_state c) \<noteq> None then fst (stopServer c) else c)"

section \<open>Connections\<close>

text \<open>\<open>serverState.wss!.handleUpgrade\<close> throws when the server is being stopped.\<close>

definition on_upgrade :: "time \<Rightarrow> http_server \<Rightarrow> http_req \<Rightarrow> console \<Rightarrow> console \<times> (js_error + upgrade_verdict)" where
  "on_upgrade now srv req c =
     (case upgrade_auth srv req of
        Accepted \<Rightarrow>
          (case ss_wss (con_state c) of
             None \<Rightarrow> (c, Inl TypeError)
           | Some _ \<Rightarrow>
               (let k = con_fresh c;
                    client = \<lparr>wc_id = k, wc_open = True, wc_agent = query_value (rq_query req) ''agent'',
                              wc_type = query_value (rq_query req) ''type'', wc_server = srv, wc_request = req\<rparr>;
                    snap = buildSnapshot now (con_files c) in
                (on_state (\<lambda>s. s\<lparr>ss_clients := ss_clients s @ [client]\<rparr>)
                   (c\<lparr>con_fresh := k + 1, con_sent := con_sent c @ [(k, Snapshot_msg snap)]\<rparr>), Inr Accepted)))
      | v \<Rightarrow> (c, Inr v))"

text \<open>A message of a client: \<open>None\<close> is not JSON; every exception is caught.\<close>

definition on_message :: "time \<Rightarrow> nat \<Rightarrow> json option \<Rightarrow> console \<Rightarrow> console" where
  "on_message now k msg c =
     (case msg of
        None \<Rightarrow> c
      | Some j \<Rightarrow>
          (case member (Some j) ''type'' of
             Inl _ \<Rightarrow> c
           | Inr t \<Rightarrow>
               if t = Some (JStr ''snapshot'')
               then c\<lparr>con_sent := con_sent c @ [(k, Snapshot_msg (buildSnapshot now (con_files c)))]\<rparr> else c))"

definition on_close :: "nat \<Rightarrow> console \<Rightarrow> console" where
  "on_close k c = on_state (\<lambda>s. s\<lparr>ss_clients := filter (\<lambda>w. wc_id w \<noteq> k) (ss_clients s)\<rparr>) c"

section \<open>Interleaving\<close>

text \<open>A callback runs once.\<close>

definition taken :: "callback \<Rightarrow> console \<Rightarrow> console" where
  "taken cb c = c\<lparr>con_pending := remove1 cb (con_pending c)\<rparr>"

text \<open>
  The steps of the console: the two commands and the end of a session, the pending callbacks, requests on a bound
  server, messages and ends of connections, and events of the bus. Binding a port fails when another server has it, and
  may fail for reasons outside of the program.
\<close>

inductive console_step :: "event_bus \<Rightarrow> console \<Rightarrow> console \<Rightarrow> bool" for bus :: event_bus where
  cmd_start: "console_step bus c (fst (startServer bus env c))"
| cmd_stop: "console_step bus c (fst (stopServer c))"
| session_end: "console_step bus c (on_session_end c)"
| listening: "Listen_done srv \<in> set (con_pending c) \<Longrightarrow> hs_port srv \<notin> hs_port ` set (con_bound c) \<Longrightarrow>
    console_step bus c (fst (on_listening now srv (taken (Listen_done srv) c)))"
| listen_error: "Listen_done srv \<in> set (con_pending c) \<Longrightarrow>
    console_step bus c (fst (on_error srv in_use (taken (Listen_done srv) c)))"
| closed: "Close_done srv \<in> set (con_pending c) \<Longrightarrow>
    console_step bus c (fst (on_closed (taken (Close_done srv) c)))"
| timer: "Force_timer \<in> set (con_pending c) \<Longrightarrow>
    console_step bus c (fst (on_timer (taken Force_timer c)))"
| upgrade: "srv \<in> set (con_bound c) \<Longrightarrow> console_step bus c (fst (on_upgrade now srv req c))"
| message: "console_step bus c (on_message now k msg c)"
| close: "console_step bus c (on_close k c)"
| event: "console_step bus c (bus_event bus now rnd ty ev c)"

inductive console_reachable :: "event_bus \<Rightarrow> ui_files \<Rightarrow> console \<Rightarrow> bool" for bus :: event_bus and f :: ui_files where
  start: "console_reachable bus f (idle_console f)"
| step: "console_reachable bus f c \<Longrightarrow> console_step bus c c' \<Longrightarrow> console_reachable bus f c'"

end
