(* ===== verification/Web_Server_Props.thy ===== *)
theory Web_Server_Props
  imports Web_Server Web_Api_Props
begin

text \<open>
  Correctness of the server of the web console: only the holder of the token reaches the interface of a remote console,
  no request leaves the directory of static files, an event is recorded once and sent to the clients that asked for it,
  and what a restart or a failed start does to the state.
\<close>

section \<open>Authentication\<close>

lemma checkAuth_exact: "checkAuth auth True tok \<longleftrightarrow> auth = Some (''Bearer '' @ tok)"
proof
  assume a: "checkAuth auth True tok"
  then obtain h where h: "auth = Some h" "prefix ''Bearer '' h" "drop 7 h = tok"
    by (cases auth) (auto simp: checkAuth_def split: if_splits)
  from h(2) obtain t where "h = ''Bearer '' @ t" by (auto simp: prefix_def)
  with h show "auth = Some (''Bearer '' @ tok)" by simp
qed (simp add: checkAuth_def)

text \<open>What every bound, starting or current server of the console satisfies.\<close>

definition guarded :: "http_server \<Rightarrow> bool" where
  "guarded srv = (isRemote (hs_host srv) \<longrightarrow> truthy (hs_token srv))"

definition presented :: "ws_client \<Rightarrow> bool" where
  "presented w =
     (isRemote (hs_host (wc_server w)) \<longrightarrow>
      (\<exists>tok. hs_token (wc_server w) = Some tok \<and> tok \<noteq> [] \<and>
        ((\<exists>p. length p = 7 \<and> rq_authorization (wc_request w) = Some (p @ tok)) \<or>
         query_value (rq_query (wc_request w)) ''token'' = Some (Q_str tok))))"

definition console_inv :: "console \<Rightarrow> bool" where
  "console_inv c =
     ((\<forall>srv \<in> set (con_bound c). guarded srv) \<and> (\<forall>srv. Listen_done srv \<in> set (con_pending c) \<longrightarrow> guarded srv) \<and>
      (\<forall>srv. Close_done srv \<in> set (con_pending c) \<longrightarrow> guarded srv) \<and>
      (\<forall>srv. ss_server (con_state c) = Some srv \<longrightarrow> guarded srv) \<and> (\<forall>w \<in> set (ss_clients (con_state c)). presented w))"

lemma con_state_on [simp]:
  "con_state (on_state g c) = g (con_state c)" "con_bound (on_state g c) = con_bound c" "con_subs (on_state g c) = con_subs c"
  "con_pending (on_state g c) = con_pending c" "con_sent (on_state g c) = con_sent c" "con_fresh (on_state g c) = con_fresh c"
  "con_files (on_state g c) = con_files c"
  by (simp_all add: on_state_def)

lemma subscribe_frame [frame]:
  "con_bound (subscribe bus ty c) = con_bound c" "con_pending (subscribe bus ty c) = con_pending c"
  "con_sent (subscribe bus ty c) = con_sent c" "con_files (subscribe bus ty c) = con_files c"
  "ss_server (con_state (subscribe bus ty c)) = ss_server (con_state c)"
  "ss_wss (con_state (subscribe bus ty c)) = ss_wss (con_state c)"
  "ss_clients (con_state (subscribe bus ty c)) = ss_clients (con_state c)"
  "ss_host (con_state (subscribe bus ty c)) = ss_host (con_state c)"
  "ss_port (con_state (subscribe bus ty c)) = ss_port (con_state c)"
  by (simp_all add: subscribe_def Let_def)

lemma subscribe_all_frame [frame]:
  "con_bound (fold (subscribe bus) ts c) = con_bound c" "con_pending (fold (subscribe bus) ts c) = con_pending c"
  "con_sent (fold (subscribe bus) ts c) = con_sent c" "con_files (fold (subscribe bus) ts c) = con_files c"
  "ss_server (con_state (fold (subscribe bus) ts c)) = ss_server (con_state c)"
  "ss_wss (con_state (fold (subscribe bus) ts c)) = ss_wss (con_state c)"
  "ss_clients (con_state (fold (subscribe bus) ts c)) = ss_clients (con_state c)"
  "ss_host (con_state (fold (subscribe bus) ts c)) = ss_host (con_state c)"
  "ss_port (con_state (fold (subscribe bus) ts c)) = ss_port (con_state c)"
  by (induction ts arbitrary: c) (simp_all add: frame)

lemma tap_frame [frame]:
  "con_bound (tap now rnd ty ev c) = con_bound c" "con_pending (tap now rnd ty ev c) = con_pending c"
  "con_state (tap now rnd ty ev c) = con_state c" "con_subs (tap now rnd ty ev c) = con_subs c"
  by (simp_all add: tap_def Let_def)

lemma bus_event_frame [frame]:
  "con_bound (bus_event bus now rnd ty ev c) = con_bound c" "con_pending (bus_event bus now rnd ty ev c) = con_pending c"
  "con_state (bus_event bus now rnd ty ev c) = con_state c" "con_subs (bus_event bus now rnd ty ev c) = con_subs c"
proof -
  have "con_bound (fold (\<lambda>(k, sub). tap now (rnd k) sub ev) ss d) = con_bound d \<and>
        con_pending (fold (\<lambda>(k, sub). tap now (rnd k) sub ev) ss d) = con_pending d \<and>
        con_state (fold (\<lambda>(k, sub). tap now (rnd k) sub ev) ss d) = con_state d \<and>
        con_subs (fold (\<lambda>(k, sub). tap now (rnd k) sub ev) ss d) = con_subs d" for ss :: "(nat \<times> string) list" and d
    by (induction ss arbitrary: d) (auto simp: frame)
  then show "con_bound (bus_event bus now rnd ty ev c) = con_bound c" "con_pending (bus_event bus now rnd ty ev c) = con_pending c"
    "con_state (bus_event bus now rnd ty ev c) = con_state c" "con_subs (bus_event bus now rnd ty ev c) = con_subs c"
    by (simp_all add: bus_event_def)
qed

lemma inv_start [inv_intros]: "console_inv c \<Longrightarrow> console_inv (fst (startServer bus env c))"
  by (auto simp: startServer_def Let_def console_inv_def frame guarded_def split: option.splits)

lemma inv_stop [inv_intros]: "console_inv c \<Longrightarrow> console_inv (fst (stopServer c))"
  by (auto simp: stopServer_def console_inv_def split: option.splits)

lemma inv_upgrade [inv_intros]:
  assumes "console_inv c" "srv \<in> set (con_bound c)"
  shows "console_inv (fst (on_upgrade now srv req c))"
proof (cases "upgrade_auth srv req")
  case Accepted
  have "presented \<lparr>wc_id = k, wc_open = b, wc_agent = a, wc_type = t, wc_server = srv, wc_request = req\<rparr>" for k b a t
  proof (cases "isRemote (hs_host srv)")
    case True
    then obtain tok where tok: "hs_token srv = Some tok" "tok \<noteq> []"
      using assms unfolding console_inv_def guarded_def by (blast elim: truthyE)
    with Accepted True
    consider h where "rq_authorization req = Some h" "drop 7 h = tok" | "query_value (rq_query req) ''token'' = Some (Q_str tok)"
      by (auto simp: upgrade_auth_def split: if_splits)
    then show ?thesis
    proof cases
      case 1
      then have "h = take 7 h @ tok" "length (take 7 h) = 7"
        using tok(2) by (metis append_take_drop_id, cases "length h < 7", auto)
      with 1 tok show ?thesis unfolding presented_def ws_client.simps by (metis (no_types))
    qed (use tok in \<open>simp add: presented_def\<close>)
  qed (simp add: presented_def)
  then show ?thesis using assms Accepted by (auto simp: on_upgrade_def Let_def console_inv_def split: option.splits)
qed (use assms in \<open>simp_all add: on_upgrade_def\<close>)

lemma set_taken: "set (con_pending (taken cb c)) \<subseteq> set (con_pending c)"
  by (simp add: taken_def set_remove1_subset)

lemma inv_taken [inv_intros]: "console_inv c \<Longrightarrow> console_inv (taken cb c)"
  using set_taken [of cb c] by (auto simp: console_inv_def taken_def)

lemma inv_step: "console_step bus c c' \<Longrightarrow> console_inv c \<Longrightarrow> console_inv c'"
proof (induction rule: console_step.induct)
  case (session_end c)
  then show ?case by (simp add: on_session_end_def inv_intros)
next
  case (listening srv c now)
  then show ?case
    using inv_taken [OF listening(3), of "Listen_done srv"] by (auto simp: on_listening_def console_inv_def taken_def)
next
  case (listen_error srv c in_use)
  then show ?case
    using inv_taken [OF listen_error(2), of "Listen_done srv"] by (auto simp: on_error_def console_inv_def)
next
  case (closed srv c)
  then show ?case using inv_taken [OF closed(2), of "Close_done srv"] by (auto simp: on_closed_def console_inv_def)
next
  case (timer c)
  then show ?case using inv_taken [OF timer(2), of Force_timer] by (auto simp: on_timer_def console_inv_def)
next
  case (message c now k msg)
  then show ?case by (auto simp: on_message_def console_inv_def split: option.splits sum.splits)
next
  case (close c k)
  then show ?case by (auto simp: on_close_def console_inv_def)
next
  case (event c now rnd ty ev)
  then show ?case by (simp add: console_inv_def frame)
qed (simp_all add: inv_intros)

lemma reachable_steps: "console_reachable bus f c \<Longrightarrow> (console_step bus)\<^sup>*\<^sup>* (idle_console f) c"
  by (induction rule: console_reachable.induct) auto

interpretation con: machine "console_step bus" "idle_console f" console_inv for bus f
proof
  show "console_inv (idle_console f)" by (simp add: console_inv_def idle_console_def serverState_def)
qed (rule inv_step)

lemma reachable_inv: "console_reachable bus f c \<Longrightarrow> console_inv c"
  using con.reach_inv reachable_steps by blast

text \<open>C13: Whatever commands, callbacks and connections came before, a server bound to a remote address has a token that is
  not empty, and a request to its interface is answered from the state files only with the header \<open>Bearer\<close> and exactly
  this token; any other request is answered 401 (and a preflight without data).\<close>
theorem remote_api_needs_token:
  assumes "console_reachable bus f c" "srv \<in> set (con_bound c)" "isRemote (hs_host srv)"
    and "prefix ''/api/'' path"
  shows "\<exists>tok. hs_token srv = Some tok \<and> tok \<noteq> [] \<and>
    on_request now fs public srv files
      \<lparr>rq_method = m, rq_pathname = Some path, rq_query = q, rq_authorization = auth\<rparr> =
    (if m = ''OPTIONS'' then Inr \<lparr>rp_status = 204, rp_headers = cors_headers, rp_body = Empty_body\<rparr>
     else if auth = Some (''Bearer '' @ tok) then handleApiRequest now files path (Plain_object q)
     else Inr (sendError 401 (Error_text ''Authentication required. Provide Bearer token in Authorization header.'')))"
proof -
  from assms(1-3) obtain tok where "hs_token srv = Some tok" "tok \<noteq> []"
    using reachable_inv unfolding console_inv_def guarded_def by (blast elim: truthyE)
  then show ?thesis using assms(3,4) by (auto simp: on_request_def Let_def checkAuth_exact)
qed

text \<open>C14: In every reachable state, each web socket that receives snapshots and events of a remote server presented the token
  of that server, in the query or in the authorization header. In the header the token counts after any seven
  characters: the scheme is not checked here.\<close>
theorem remote_clients_presented_token:
  assumes "console_reachable bus f c" "w \<in> set (ss_clients (con_state c))" "isRemote (hs_host (wc_server w))"
  shows "\<exists>tok. hs_token (wc_server w) = Some tok \<and> tok \<noteq> [] \<and>
    ((\<exists>p. length p = 7 \<and> rq_authorization (wc_request w) = Some (p @ tok)) \<or>
     query_value (rq_query (wc_request w)) ''token'' = Some (Q_str tok))"
  using reachable_inv [OF assms(1)] assms(2,3) unfolding console_inv_def presented_def by blast

section \<open>Runs of the console\<close>

text \<open>An environment with which the console starts: a port, and a token when the host is remote.\<close>

definition startable :: "web_env \<Rightarrow> int \<Rightarrow> bool" where
  "startable env p =
     (parseInt (or_else (env_port env) ''8787'') = Some p \<and> 0 \<le> p \<and> p \<le> 65535 \<and>
      (isRemote (or_else (env_host env) DEFAULT_HOST) \<longrightarrow> truthy (env_token env)))"

definition server_of :: "web_env \<Rightarrow> int \<Rightarrow> console \<Rightarrow> http_server" where
  "server_of env p c =
     \<lparr>hs_id = con_fresh c, hs_host = or_else (env_host env) DEFAULT_HOST, hs_port = p, hs_token = env_token env\<rparr>"

definition started :: "event_bus \<Rightarrow> time \<Rightarrow> web_env \<Rightarrow> int \<Rightarrow> console \<Rightarrow> console" where
  "started bus now env p c =
     fst (on_listening now (server_of env p c) (taken (Listen_done (server_of env p c)) (fst (startServer bus env c))))"

lemma start_result:
  assumes "ss_server (con_state c) = None" "startable env p"
  shows "snd (startServer bus env c) = Inr Starting"
    "con_pending (fst (startServer bus env c)) = Listen_done (server_of env p c) # con_pending c"
    "con_bound (fst (startServer bus env c)) = con_bound c"
    "ss_server (con_state (fst (startServer bus env c))) = Some (server_of env p c)"
    "ss_clients (con_state (fst (startServer bus env c))) = ss_clients (con_state c)"
    "con_files (fst (startServer bus env c)) = con_files c"
    "map snd (con_subs (fst (startServer bus env c))) = map snd (con_subs c) @ filter (bus_supports bus) (PI_EVENT_TYPES @ [''*''])"
proof -
  have subs: "map snd (con_subs (fold (subscribe bus) ts d)) = map snd (con_subs d) @ filter (bus_supports bus) ts" for ts d
    by (induction ts arbitrary: d) (auto simp: subscribe_def Let_def)
  show "snd (startServer bus env c) = Inr Starting"
    "con_pending (fst (startServer bus env c)) = Listen_done (server_of env p c) # con_pending c"
    "con_bound (fst (startServer bus env c)) = con_bound c"
    "ss_server (con_state (fst (startServer bus env c))) = Some (server_of env p c)"
    "ss_clients (con_state (fst (startServer bus env c))) = ss_clients (con_state c)"
    "con_files (fst (startServer bus env c)) = con_files c"
    "map snd (con_subs (fst (startServer bus env c))) = map snd (con_subs c) @ filter (bus_supports bus) (PI_EVENT_TYPES @ [''*''])"
    using assms by (auto simp: startServer_def startable_def server_of_def Let_def frame subs simp del: fold_append filter_append)
qed

lemma started_result:
  assumes "ss_server (con_state c) = None" "startable env p"
  shows "con_pending (started bus now env p c) = con_pending c"
    "con_bound (started bus now env p c) = server_of env p c # con_bound c"
    "ss_server (con_state (started bus now env p c)) = Some (server_of env p c)"
    "ss_clients (con_state (started bus now env p c)) = ss_clients (con_state c)"
    "con_files (started bus now env p c) = con_files c"
    "map snd (con_subs (started bus now env p c)) = map snd (con_subs c) @ filter (bus_supports bus) (PI_EVENT_TYPES @ [''*''])"
  using start_result [OF assms, of bus] by (simp_all add: started_def on_listening_def taken_def)

lemma reachable_started:
  assumes "console_reachable bus f c" "ss_server (con_state c) = None" "startable env p" "p \<notin> hs_port ` set (con_bound c)"
  shows "console_reachable bus f (started bus now env p c)"
  unfolding started_def using assms start_result [OF assms(2,3), of bus]
  by (intro console_reachable.step [OF console_reachable.step [OF assms(1) console_step.cmd_start [of bus c env]] console_step.listening])
    (auto simp: server_of_def)

section \<open>A restart within two seconds\<close>

definition local_env :: web_env where
  "local_env = \<lparr>env_port = None, env_host = None, env_token = None\<rparr>"

lemma local_startable: "startable local_env 8787"
  by code_simp

lemma stop_result:
  assumes "ss_server (con_state c) = Some srv"
  shows "con_pending (fst (stopServer c)) = Force_timer # Close_done srv # con_pending c"
    "con_bound (fst (stopServer c)) = filter (\<lambda>b. hs_id b \<noteq> hs_id srv) (con_bound c)"
    "ss_server (con_state (fst (stopServer c))) = Some srv"
  using assms by (simp_all add: stopServer_def)

text \<open>Stopping the console and starting it again within two seconds loses the new server: the timer of the first stop
  expires and clears the reference to the second server, which stays bound to its port; the console then reports that
  it is not running, cannot be stopped, and a further start takes a port that is in use.\<close>
theorem restart_loses_server:
  "\<exists>c srv. console_reachable bus f c \<and> con_bound c = [srv] \<and> con_pending c = [] \<and>
     ss_server (con_state c) = None \<and> snd (stopServer c) = Not_running \<and>
     snd (startServer bus local_env c) = Inr Starting \<and>
     (\<exists>srv'. con_pending (fst (startServer bus local_env c)) = [Listen_done srv'] \<and> hs_port srv' = hs_port srv)"
proof -
  define c1 where "c1 = started bus 0 local_env 8787 (idle_console f)"
  define s1 where "s1 = server_of local_env 8787 (idle_console f)"
  define c2 where "c2 = fst (stopServer c1)"
  define c3 where "c3 = fst (on_closed (taken (Close_done s1) c2))"
  define c4 where "c4 = started bus 1 local_env 8787 c3"
  define s4 where "s4 = server_of local_env 8787 c3"
  define c5 where "c5 = fst (on_timer (taken Force_timer c4))"
  have i: "ss_server (con_state (idle_console f)) = None" "con_bound (idle_console f) = []" "con_pending (idle_console f) = []"
    by (simp_all add: idle_console_def serverState_def)
  note r1 = started_result [OF i(1) local_startable, of bus 0, folded c1_def s1_def, unfolded i]
  have 1: "console_reachable bus f c1"
    unfolding c1_def by (rule reachable_started) (simp_all add: i local_startable console_reachable.start)
  have 2: "console_reachable bus f c2" unfolding c2_def by (rule console_reachable.step [OF 1 console_step.cmd_stop])
  have p2: "con_pending c2 = [Force_timer, Close_done s1]" "con_bound c2 = []"
    using stop_result [OF r1(3)] r1 by (simp_all add: c2_def)
  have 3: "console_reachable bus f c3"
    unfolding c3_def by (rule console_reachable.step [OF 2 console_step.closed]) (simp add: p2)
  have p3: "con_pending c3 = [Force_timer]" "con_bound c3 = []" "ss_server (con_state c3) = None"
    using p2 by (simp_all add: c3_def on_closed_def taken_def)
  note r4 = started_result [OF p3(3) local_startable, of bus 1, folded c4_def s4_def, unfolded p3]
  have 4: "console_reachable bus f c4"
    unfolding c4_def by (rule reachable_started) (simp_all add: 3 p3 local_startable)
  have 5: "console_reachable bus f c5"
    unfolding c5_def by (rule console_reachable.step [OF 4 console_step.timer]) (simp add: r4)
  have p5: "con_bound c5 = [s4]" "con_pending c5 = []" "ss_server (con_state c5) = None"
    using r4 by (simp_all add: c5_def on_timer_def taken_def)
  have "hs_port (server_of local_env 8787 c5) = hs_port s4" by (simp add: server_of_def s4_def)
  with 5 p5 start_result [OF p5(3) local_startable, of bus] show ?thesis
    by (intro exI [of _ c5] exI [of _ s4]) (auto simp: stopServer_def)
qed

section \<open>The event log\<close>

lemma readJSONL_append: "readJSONL (uf_events (appendJSONL r f)) = readJSONL (uf_events f) @ [r]"
  by (cases "uf_events f") (auto simp: readJSONL_def appendJSONL_def List.map_filter_def)

lemma taps:
  "readJSONL (uf_events (con_files (fold (\<lambda>(k, sub). tap now (rnd k) sub ev) ss c))) =
     readJSONL (uf_events (con_files c)) @ map (\<lambda>(k, sub). swarm_event now (rnd k) sub ev) ss \<and>
   con_sent (fold (\<lambda>(k, sub). tap now (rnd k) sub ev) ss c) =
     con_sent c @ concat (map (\<lambda>e. map (\<lambda>i. (i, Event_msg e)) (fst (broadcast e (ss_clients (con_state c)))))
       (map (\<lambda>(k, sub). swarm_event now (rnd k) sub ev) ss))"
  by (induction ss arbitrary: c) (auto simp: tap_def Let_def readJSONL_append)

text \<open>The subscriptions an event reaches.\<close>

definition reached :: "event_bus \<Rightarrow> string \<Rightarrow> console \<Rightarrow> (nat \<times> string) list" where
  "reached bus ty c = filter (\<lambda>(_, sub). bus_reaches bus sub ty) (con_subs c)"

lemma bus_event_result:
  "readJSONL (uf_events (con_files (bus_event bus now rnd ty ev c))) =
     readJSONL (uf_events (con_files c)) @ map (\<lambda>(k, sub). swarm_event now (rnd k) sub ev) (reached bus ty c)"
  "con_sent (bus_event bus now rnd ty ev c) =
     con_sent c @ concat (map (\<lambda>e. map (\<lambda>i. (i, Event_msg e)) (fst (broadcast e (ss_clients (con_state c)))))
       (map (\<lambda>(k, sub). swarm_event now (rnd k) sub ev) (reached bus ty c)))"
  using taps [of now rnd ev "reached bus ty c" c] by (simp_all add: bus_event_def reached_def)

lemma reached_types: "map snd (reached bus ty c) = filter (\<lambda>sub. bus_reaches bus sub ty) (map snd (con_subs c))"
proof -
  have "map snd (filter (\<lambda>(_, s). P s) xs) = filter P (map snd xs)" for P and xs :: "(nat \<times> string) list" by (induction xs) auto
  then show ?thesis by (simp add: reached_def)
qed






lemma types_once: "ty \<in> set PI_EVENT_TYPES \<Longrightarrow> filter (\<lambda>s. s = ty) PI_EVENT_TYPES = [ty] \<and> ty \<noteq> ''*''"
proof -
  have "list_all (\<lambda>ty. filter (\<lambda>s. s = ty) PI_EVENT_TYPES = [ty] \<and> ty \<noteq> ''*'') PI_EVENT_TYPES" by code_simp
  then show "ty \<in> set PI_EVENT_TYPES \<Longrightarrow> filter (\<lambda>s. s = ty) PI_EVENT_TYPES = [ty] \<and> ty \<noteq> ''*''"
    unfolding list_all_iff by (rule bspec)
qed





text \<open>A start that fails leaves its subscriptions behind; after the next start every event is logged twice (here on a bus
  that accepts every type and delivers an event to the subscriptions of its type).\<close>

definition exact_bus :: "event_bus \<Rightarrow> bool" where
  "exact_bus bus = ((\<forall>t. bus_supports bus t) \<and> (\<forall>s t. bus_reaches bus s t \<longleftrightarrow> s = t))"

lemma exact_bus_all: "exact_bus bus \<Longrightarrow> filter (bus_supports bus) ts = ts"
  by (simp add: exact_bus_def)

theorem failed_start_doubles_log:
  assumes "exact_bus bus" "ty \<in> set PI_EVENT_TYPES"
  shows "\<exists>c k1 k2. console_reachable bus f c \<and> length (con_bound c) = 1 \<and>
    (\<forall>now rnd ev. readJSONL (uf_events (con_files (bus_event bus now rnd ty ev c))) =
      readJSONL (uf_events (con_files c)) @ [swarm_event now (rnd k1) ty ev, swarm_event now (rnd k2) ty ev])"
proof -
  define s0 where "s0 = server_of local_env 8787 (idle_console f)"
  define c1 where "c1 = fst (startServer bus local_env (idle_console f))"
  define c2 where "c2 = fst (on_error s0 True (taken (Listen_done s0) c1))"
  define c3 where "c3 = started bus 0 local_env 8787 c2"
  have i: "ss_server (con_state (idle_console f)) = None" "con_bound (idle_console f) = []" "con_pending (idle_console f) = []"
    "con_subs (idle_console f) = []"
    by (simp_all add: idle_console_def serverState_def)
  note r1 = start_result [OF i(1) local_startable, of bus, folded c1_def s0_def, unfolded i exact_bus_all [OF assms(1)] list.map append_Nil]
  have p2: "ss_server (con_state c2) = None" "con_bound c2 = []" "map snd (con_subs c2) = PI_EVENT_TYPES @ [''*'']"
    using r1 by (simp_all add: c2_def on_error_def taken_def)
  have "console_reachable bus f c1" unfolding c1_def by (rule console_reachable.step [OF console_reachable.start console_step.cmd_start])
  then have "console_reachable bus f c2"
    unfolding c2_def by (rule console_reachable.step [OF _ console_step.listen_error]) (simp add: r1)
  then have 3: "console_reachable bus f c3"
    unfolding c3_def by (rule reachable_started) (simp_all add: p2 local_startable)
  note r3 = started_result [OF p2(1) local_startable, of bus 0, folded c3_def, unfolded p2 exact_bus_all [OF assms(1)]]
  have "filter (\<lambda>s. bus_reaches bus s ty) = filter (\<lambda>s. s = ty)" using assms(1) by (simp add: exact_bus_def)
  then have "map snd (reached bus ty c3) = [ty, ty]"
    unfolding reached_types r3(6) using types_once [OF assms(2)] by auto
  then obtain k1 k2 where "reached bus ty c3 = [(k1, ty), (k2, ty)]" by (auto simp: map_eq_Cons_conv)
  with 3 r3(2) bus_event_result(1) [of bus _ _ ty _ c3] show ?thesis
    by (intro exI [of _ c3] exI [of _ k1] exI [of _ k2]) simp
qed

section \<open>The endpoint for events\<close>

text \<open>The endpoint \<open>/api/events\<close> never answers: every request that passes authentication throws, because the query given
  to the handler is the plain object of \<open>url.parse\<close>, which has no method \<open>get\<close>.\<close>
theorem events_endpoint_throws:
  assumes "m \<noteq> ''OPTIONS''" "isRemote (hs_host srv) \<longrightarrow> auth = Some (''Bearer '' @ or_else (hs_token srv) [])"
  shows "on_request now fs public srv f
    \<lparr>rq_method = m, rq_pathname = Some ''/api/events'', rq_query = q, rq_authorization = auth\<rparr> = Inl TypeError"
proof -
  have "path_param ''/api/agents/'' ''/api/events'' = None" by code_simp
  then show ?thesis using assms
    by (simp add: on_request_def handleApiRequest_def checkAuth_exact api_events_def Let_def)
qed

section \<open>Static files\<close>

text \<open>What is left after the leading parent segments have been stripped.\<close>

lemma strip_dots_stripped: "\<not> prefix ''../'' (strip_dots s)"
  by (induction s rule: strip_dots.induct) auto

lemma strip_dots_suffix: "suffix (strip_dots s) s"
  by (induction s rule: strip_dots.induct) (auto intro: suffix_ConsI)

text \<open>A path that cannot leave the directory it is joined to, except by being the parent segment alone.\<close>

definition stays :: "string \<Rightarrow> bool" where
  "stays r = (list_all sub_seg (tl (split_on (CHR ''/'') r)) \<and> (hd (split_on (CHR ''/'') r) = ''..'' \<longrightarrow> r = ''..''))"

lemma stays_strip:
  assumes "list_all sub_seg (tl (split_on (CHR ''/'') t))"
  shows "stays (strip_dots t)"
proof -
  obtain u where u: "t = u @ strip_dots t" using strip_dots_suffix [of t] by (auto simp: suffix_def)
  have "suffix (tl (split_on (CHR ''/'') (strip_dots t))) (tl (split_on (CHR ''/'') t))"
    using suffix_split [of "CHR ''/''" "strip_dots t" u] u by simp
  then have 1: "list_all sub_seg (tl (split_on (CHR ''/'') (strip_dots t)))"
    using assms by (auto simp: list_all_iff dest: set_mono_suffix)
  have "strip_dots t = ''..''" if "hd (split_on (CHR ''/'') (strip_dots t)) = ''..''"
  proof (cases "tl (split_on (CHR ''/'') (strip_dots t))")
    case Nil
    with that have "split_on (CHR ''/'') (strip_dots t) = [''..'']" by (metis list.collapse split_on_nonempty)
    then have "join ''/'' (split_on (CHR ''/'') (strip_dots t)) = ''..''" by simp
    then show ?thesis by (simp add: join_split_on)
  next
    case (Cons v vs)
    then have "split_on (CHR ''/'') (strip_dots t) = ''..'' # v # vs" using that by (metis list.collapse split_on_nonempty)
    then have "strip_dots t = ''../'' @ join ''/'' (v # vs)" by (metis join_split_on append_Cons append_Nil join.simps(3))
    then show ?thesis using strip_dots_stripped [of t] by simp
  qed
  with 1 show ?thesis by (simp add: stays_def)
qed

lemma strip_parents: "ps \<noteq> [] \<Longrightarrow> strip_dots (join ''/'' (replicate k ''..'' @ ps) @ e) = strip_dots (join ''/'' ps @ e)"
  by (induction k) (simp_all add: join_Cons)

lemma list_all_tl: "list_all P xs \<Longrightarrow> list_all P (tl xs)"
  by (cases xs) auto

lemma requested_stays: "stays (strip_dots (path_normalize p))"
proof -
  let ?segs = "split_on (CHR ''/'') p"
  have free: "\<forall>s \<in> set ?segs. CHR ''/'' \<notin> set s" using split_on_sep_free by metis
  consider "p = []" | "p \<noteq> []" "hd p = CHR ''/''" | "p \<noteq> []" "hd p \<noteq> CHR ''/''" by blast
  then show ?thesis
  proof cases
    case 1
    then show ?thesis by (simp add: path_normalize_def stays_def)
  next
    case 2
    let ?body = "join ''/'' (norm_segs True [] ?segs)"
    have plain: "list_all plain_seg (norm_segs True [] ?segs)" by (rule norm_segs_abs) (simp_all add: free)
    obtain e where e: "e = [] \<or> e = ''/''" "path_normalize p = CHR ''/'' # ?body @ e"
    proof
      show "(if last p = CHR ''/'' \<and> ?body \<noteq> [] then ''/'' else []) = [] \<or> (if last p = CHR ''/'' \<and> ?body \<noteq> [] then ''/'' else []) = ''/''"
        by simp
      show "path_normalize p = CHR ''/'' # ?body @ (if last p = CHR ''/'' \<and> ?body \<noteq> [] then ''/'' else [])"
        using 2 by (simp add: path_normalize_def Let_def)
    qed
    have "strip_dots (CHR ''/'' # x) = CHR ''/'' # x" for x
      by (cases x rule: list.exhaust; cases "tl x") auto
    moreover have "stays (CHR ''/'' # ?body @ e)" using split_plain [OF plain e(1)] by (simp add: stays_def)
    ultimately show ?thesis using e(2) by simp
  next
    case 3
    obtain k ps where kp: "norm_segs False [] ?segs = replicate k ''..'' @ ps" "list_all plain_seg ps"
      using norm_segs_rel [OF _ free, of "[]"] by fastforce
    let ?body = "join ''/'' (replicate k ''..'' @ ps)"
    obtain e where e: "e = [] \<or> e = ''/''" "path_normalize p = (if ?body = [] then ''.'' else ?body) @ e"
    proof
      show "(if last p = CHR ''/'' then ''/'' else []) = [] \<or> (if last p = CHR ''/'' then ''/'' else []) = ''/''" by simp
      show "path_normalize p = (if ?body = [] then ''.'' else ?body) @ (if last p = CHR ''/'' then ''/'' else [])"
        using 3 by (simp add: path_normalize_def Let_def kp(1))
    qed
    consider "ps \<noteq> []" | "ps = []" "k = 0" | m where "ps = []" "k = Suc m" by (cases k) auto
    then show ?thesis
    proof cases
      case 1
      then have "?body \<noteq> []" using join_plain(1) [OF 1 kp(2)] by (cases k) (simp_all add: join_Cons)
      then show ?thesis
        using e strip_parents [OF 1, of k e] stays_strip [OF list_all_tl [OF split_plain [OF kp(2) e(1)]]] by simp
    next
      case 2
      then show ?thesis using e by (auto intro!: stays_strip simp: sub_seg_def)
    next
      case 3
      have "?body \<noteq> []" using 3 by (cases m) (simp_all add: join_Cons)
      moreover have "?body @ e = join ''/'' (replicate m ''..'' @ [''..'']) @ e" using 3 by (simp add: replicate_append_same)
      ultimately have "strip_dots (path_normalize p) = strip_dots (''..'' @ e)"
        using e(2) strip_parents [of "[''..'']" m e] by simp
      then show ?thesis using e(1) by (auto simp: stays_def)
    qed
  qed
qed

text \<open>Joining such a path to a directory.\<close>

lemma join_stays:
  assumes "hs \<noteq> []" "list_all plain_seg hs" "stays r"
  shows "path_join [absolute_path hs, r] = absolute_path (butlast hs) \<or>
    (\<exists>qs e. list_all plain_seg qs \<and> (e = [] \<or> e = ''/'') \<and> path_join [absolute_path hs, r] = absolute_path (hs @ qs) @ e)"
proof (cases "r = []")
  case True
  then show ?thesis using normalize_absolute [OF assms(1,2)]
    by (intro disjI2 exI [of _ "[]"]) (simp add: path_join_def absolute_path_def Let_def)
next
  case False
  let ?j = "absolute_path hs @ ''/'' @ r"
  obtain w us where wu: "split_on (CHR ''/'') r = w # us" by (metis list.exhaust split_on_nonempty)
  have us: "list_all sub_seg us" and par: "w = ''..'' \<longrightarrow> r = ''..''" using assms(3) wu by (simp_all add: stays_def)
  have w: "CHR ''/'' \<notin> set w" using wu split_on_sep_free by (metis list.set_intros(1))
  have j: "path_join [absolute_path hs, r] = path_normalize ?j"
    using False by (simp add: path_join_def absolute_path_def Let_def)
  have "split_on (CHR ''/'') ?j = ([] # hs) @ w # us"
    using split_on_sep_append [of "CHR ''/''" "absolute_path hs" r] split_on_absolute [OF assms(1,2)] wu by simp
  then have segs: "norm_segs True [] (split_on (CHR ''/'') ?j) = norm_segs True (rev hs) (w # us)"
  proof -
    have "norm_segs True acc (xs @ ys) = norm_segs True (rev (rev acc @ xs)) ys" if "list_all plain_seg xs" for acc xs ys
      using that by (induction xs arbitrary: acc) (auto simp: plain_seg_def)
    from this [OF assms(2), of "[]" "w # us"] show ?thesis using \<open>split_on (CHR ''/'') ?j = ([] # hs) @ w # us\<close> by simp
  qed
  show ?thesis
  proof (cases "w = ''..''")
    case True
    then have r: "r = ''..''" "us = []" using par wu by auto
    have "norm_segs True (rev hs) (w # us) = butlast hs"
    proof -
      obtain gs g where g: "hs = gs @ [g]" using assms(1) by (cases hs rule: rev_cases) auto
      then show ?thesis using True r assms(2) by (auto simp: plain_seg_def)
    qed
    then show ?thesis using r j segs by (auto simp: path_normalize_def Let_def absolute_path_def)
  next
    case False
    define qs where "qs = (if w = [] \<or> w = ''.'' then [] else [w]) @ filter (\<lambda>u. u \<noteq> []) us"
    have qs: "list_all plain_seg qs" using us w False by (auto simp: qs_def list_all_iff sub_seg_def plain_seg_def)
    have "norm_segs True (rev hs) (w # us) = hs @ qs" using False us by (simp add: norm_segs_sub qs_def)
    then show ?thesis using j segs qs assms(1)
      by (intro disjI2 exI [of _ qs]) (auto simp: path_normalize_def Let_def absolute_path_def)
  qed
qed

lemma parent_not_inside:
  assumes "hs \<noteq> []" "list_all plain_seg hs"
  shows "\<not> prefix (absolute_path hs) (absolute_path (butlast hs))"
proof -
  obtain gs g where g: "hs = gs @ [g]" using assms(1) by (cases hs rule: rev_cases) auto
  have "length (join ''/'' gs) < length (join ''/'' (gs @ [g]))"
    using assms(2) g by (cases "gs = []") (auto simp: join_append plain_seg_def)
  then show ?thesis using g by (auto simp: absolute_path_def dest: prefix_length_le)
qed

definition is_file :: "reply \<Rightarrow> bool" where
  "is_file r = (case rp_body r of File_body _ _ _ \<Rightarrow> True | _ \<Rightarrow> False)"

definition no_file :: "js_error + reply \<Rightarrow> bool" where
  "no_file x = (case x of Inl _ \<Rightarrow> True | Inr r \<Rightarrow> \<not> is_file r)"

lemma no_file_simps [simp]:
  "no_file (Inl e)" "no_file (Inr (sendJSON b n)) = (case b of File_body _ _ _ \<Rightarrow> False | _ \<Rightarrow> True)"
  "no_file (Inr (sendError n b)) = (case b of File_body _ _ _ \<Rightarrow> False | _ \<Rightarrow> True)"
  by (simp_all add: no_file_def is_file_def sendError_def sendJSON_def split: api_body.splits)

lemma no_file_if: "no_file a \<Longrightarrow> no_file b \<Longrightarrow> no_file (if c then a else b)"
  by simp

lemma no_file_with: "(\<And>nm. no_file (h nm)) \<Longrightarrow> no_file (with_param raw h)"
  by (simp add: with_param_def split: sum.split)

lemma api_no_file: "no_file (handleApiRequest now f p q)"
proof -
  have "no_file (Inr (api_status now f))" "no_file (Inr (api_agents f))" "no_file (Inr (api_hypotheses f))"
    "no_file (Inr (api_findings f))" "no_file (Inr (api_tasks f))" "no_file (Inr (api_graph f))" "no_file (Inr (api_cost f))"
    by (simp_all add: api_status_def api_agents_def api_hypotheses_def api_findings_def api_tasks_def api_graph_def api_cost_def Let_def)
  moreover have "no_file (api_events q f)"
    by (auto simp: api_events_def Let_def split: sum.split)
  moreover have "no_file (api_chains f)" "no_file (api_scope f)"
    by (simp_all add: api_chains_def api_scope_def Let_def split: sum.split)
  moreover have "no_file (api_agent nm f)" "no_file (api_hypothesis nm f)" "no_file (api_replay nm f)" for nm
    by (simp_all add: api_agent_def api_hypothesis_def api_replay_def Let_def split: sum.split option.split decoded.split list.split)
  ultimately show ?thesis unfolding handleApiRequest_def by (intro no_file_if no_file_with) simp_all
qed

lemma serveStatic_file: "rp_body (serveStatic fs p) = File_body path ty content \<Longrightarrow> path = p \<and> fs p = Some (File_entry (Some content))"
  by (auto simp: serveStatic_def Let_def sendError_def sendJSON_def split: option.splits fs_entry.splits)

lemma on_request_cases:
  assumes "on_request now fs public srv f req = Inr r"
  shows "no_file (Inr r) \<or> r = serveStatic fs (path_join [public, ''index.html'']) \<or>
    (\<exists>p. let q = path_join [public, strip_dots (path_normalize p)] in prefix public q \<and> r = serveStatic fs q)"
proof -
  let ?p = "or_else (rq_pathname req) ''/''"
  let ?api = "handleApiRequest now f ?p (Plain_object (rq_query req))"
  let ?q = "path_join [public, strip_dots (path_normalize ?p)]"
  have "no_file (Inr r)" if "?api = Inr r" using api_no_file [of now f ?p "Plain_object (rq_query req)"] that by simp
  moreover have "no_file (Inr \<lparr>rp_status = 204, rp_headers = cors_headers, rp_body = Empty_body\<rparr>)"
    by (simp add: no_file_def is_file_def)
  moreover note assms [unfolded on_request_def Let_def]
  ultimately show ?thesis
    by (cases "prefix public ?q") (auto simp: Let_def split: if_split_asm)
qed

text \<open>C15: No request path escapes the directory of static files, whatever parent segments, slashes or backslashes it has: every
  file served lies below the directory, at a path made of plain segments, and its contents are those of that file.\<close>
theorem static_confined:
  assumes "hs \<noteq> []" "list_all plain_seg hs"
    and "on_request now fs (absolute_path hs) srv f req = Inr r" "rp_body r = File_body path ty content"
  shows "\<exists>qs e. list_all plain_seg qs \<and> (e = [] \<or> e = ''/'') \<and> path = absolute_path (hs @ qs) @ e \<and>
    fs path = Some (File_entry (Some content))"
proof -
  have "\<not> no_file (Inr r)" using assms(4) by (simp add: no_file_def is_file_def)
  with on_request_cases [OF assms(3)]
  consider "r = serveStatic fs (path_join [absolute_path hs, ''index.html''])"
    | p where "prefix (absolute_path hs) (path_join [absolute_path hs, strip_dots (path_normalize p)])"
        "r = serveStatic fs (path_join [absolute_path hs, strip_dots (path_normalize p)])"
    unfolding Let_def by blast
  then show ?thesis
  proof cases
    case 1
    have "path_join [absolute_path hs, ''index.html''] = absolute_path (hs @ [''index.html''])"
      by (rule path_join_plain) (use assms in \<open>simp_all add: plain_seg_def\<close>)
    then show ?thesis using 1 assms(4) serveStatic_file [of fs "absolute_path (hs @ [''index.html''])" path ty content]
      by (intro exI [of _ "[''index.html'']"] exI [of _ "[]"]) (simp add: plain_seg_def)
  next
    case 2
    let ?q = "path_join [absolute_path hs, strip_dots (path_normalize p)]"
    have "?q \<noteq> absolute_path (butlast hs)" using 2(1) parent_not_inside [OF assms(1,2)] by metis
    then obtain qs e where "list_all plain_seg qs" "e = [] \<or> e = ''/''" "?q = absolute_path (hs @ qs) @ e"
      using join_stays [OF assms(1,2) requested_stays] by blast
    then show ?thesis using 2 assms(4) serveStatic_file [of fs ?q path ty content] by metis
  qed
qed

section \<open>Witnesses\<close>

definition plain_bus :: event_bus where
  "plain_bus = \<lparr>bus_supports = (\<lambda>_. True), bus_returns_unsub = True, bus_reaches = (=)\<rparr>"

definition remote_env :: web_env where
  "remote_env = \<lparr>env_port = Some ''9000'', env_host = Some ''0.0.0.0'', env_token = Some ''s3cret''\<rparr>"

definition remote_server :: http_server where
  "remote_server = server_of remote_env 9000 (idle_console no_ui)"

definition remote_console :: console where
  "remote_console = started plain_bus 0 remote_env 9000 (idle_console no_ui)"

lemma remote_startable: "startable remote_env 9000"
  by code_simp

lemma remote_reachable: "console_reachable plain_bus no_ui remote_console" "con_bound remote_console = [remote_server]"
  "isRemote (hs_host remote_server)"
proof -
  have i: "ss_server (con_state (idle_console no_ui)) = None" "con_bound (idle_console no_ui) = []"
    by (simp_all add: idle_console_def serverState_def)
  show "console_reachable plain_bus no_ui remote_console"
    unfolding remote_console_def by (rule reachable_started) (simp_all add: i remote_startable console_reachable.start)
  show "con_bound remote_console = [remote_server]"
    using started_result(2) [OF i(1) remote_startable] i(2) by (simp add: remote_console_def remote_server_def)
  show "isRemote (hs_host remote_server)" by (simp add: remote_server_def server_of_def remote_env_def isRemote_def)
qed

theorem remote_api_needs_token_witness:
  "on_request 0 (\<lambda>_. None) ''/srv'' remote_server no_ui
     \<lparr>rq_method = ''GET'', rq_pathname = Some ''/api/agents'', rq_query = [], rq_authorization = Some ''Basic s3cret''\<rparr> =
   Inr (sendError 401 (Error_text ''Authentication required. Provide Bearer token in Authorization header.''))"
  using remote_api_needs_token [OF remote_reachable(1) _ remote_reachable(3), of "''/api/agents''" 0 "\<lambda>_. None" "''/srv''" no_ui
      "''GET''" "[]" "Some ''Basic s3cret''"]
  by (auto simp: remote_reachable(2))

text \<open>A client whose header names another scheme is accepted.\<close>

definition basic_upgrade :: http_req where
  "basic_upgrade = \<lparr>rq_method = ''GET'', rq_pathname = Some ''/ws'', rq_query = [], rq_authorization = Some ''Digest s3cret''\<rparr>"

theorem remote_clients_presented_token_witness:
  "\<exists>w \<in> set (ss_clients (con_state (fst (on_upgrade 1 remote_server basic_upgrade remote_console)))).
     \<exists>tok. hs_token (wc_server w) = Some tok \<and> tok \<noteq> []"
proof -
  let ?c = "fst (on_upgrade 1 remote_server basic_upgrade remote_console)"
  have r: "console_reachable plain_bus no_ui ?c"
    by (rule console_reachable.step [OF remote_reachable(1) console_step.upgrade]) (simp add: remote_reachable(2))
  have "upgrade_auth remote_server basic_upgrade = Accepted" by code_simp
  moreover have "ss_wss (con_state remote_console) \<noteq> None" by code_simp
  ultimately obtain w where w: "w \<in> set (ss_clients (con_state ?c))" "wc_server w = remote_server"
    by (fastforce simp: on_upgrade_def Let_def)
  then show ?thesis using remote_clients_presented_token [OF r w(1)] remote_reachable(3) by metis
qed


theorem events_endpoint_throws_witness:
  "on_request 0 (\<lambda>_. None) ''/srv'' \<lparr>hs_id = 0, hs_host = ''localhost'', hs_port = 8787, hs_token = None\<rparr> no_ui
     \<lparr>rq_method = ''GET'', rq_pathname = Some ''/api/events'', rq_query = [(''limit'', [''5''])], rq_authorization = None\<rparr> = Inl TypeError"
  by (rule events_endpoint_throws) (simp_all add: isRemote_def)

text \<open>A request with parent segments, to a file system that has the same file in and above the directory.\<close>

definition demo_fs :: fs where
  "demo_fs p = (if p = ''/srv/ui/app.js'' then Some (File_entry (Some ''ui'')) else
     if p = ''/srv/app.js'' then Some (File_entry (Some ''secret'')) else None)"

definition climbing :: http_req where
  "climbing = \<lparr>rq_method = ''GET'', rq_pathname = Some (''..'' @ [CHR 0x5C] @ ''../x/../app.js''), rq_query = [], rq_authorization = None\<rparr>"

theorem static_confined_witness:
  "\<exists>qs e. list_all plain_seg qs \<and> (e = [] \<or> e = ''/'') \<and> ''/srv/ui/app.js'' = absolute_path ([''srv'', ''ui''] @ qs) @ e"
proof -
  let ?local = "\<lparr>hs_id = 0, hs_host = ''localhost'', hs_port = 8787, hs_token = None\<rparr>"
  have 1: "list_all plain_seg [''srv'', ''ui'']" by code_simp
  have 2: "on_request 0 demo_fs (absolute_path [''srv'', ''ui'']) ?local no_ui climbing =
    Inr \<lparr>rp_status = 200, rp_headers = [(''Content-Type'', ''application/javascript; charset=utf-8''), (''Cache-Control'', ''no-cache'')],
         rp_body = File_body ''/srv/ui/app.js'' ''application/javascript; charset=utf-8'' ''ui''\<rparr>"
    by code_simp
  show ?thesis using static_confined [OF _ 1 2] by auto
qed

end
