(* ===== verification/Console_Page.thy ===== *)
theory Console_Page
  imports JSJson Complex_Main
begin

text \<open>
  The page of the web console (\<open>public/js/app.js\<close>): the state of the script, the elements of the document it reads and
  writes, and its helpers. A handler of the script takes the page to a page and may end with an exception; what it wrote
  before the exception stays.

  The elements are those of \<open>public/index.html\<close>, by selector. Texts are 8-bit, so the dash that stands for a missing value
  is given by its three UTF-8 bytes. The clock is read once in a handler. The texts of numbers, of times and of built-in
  functions depend on the engine and are the \<open>browser\<close>, an argument.
\<close>

section \<open>Values of the script\<close>

text \<open>
  A list of the state: an array, whose items may be \<open>undefined\<close> once the script has added one, or another value the
  server has sent in its place.
\<close>

datatype slot = Items "json option list" | Other json

fun slot_of :: "json \<Rightarrow> slot" where
  "slot_of (JArr xs) = Items (map Some xs)"
| "slot_of j = Other j"

text \<open>\<open>v.length\<close> of a value that is not \<open>null\<close>.\<close>

fun js_length :: "json \<Rightarrow> json option" where
  "js_length (JArr xs) = Some (JNum (of_nat (length xs)))"
| "js_length (JStr s) = Some (JNum (of_nat (length s)))"
| "js_length j = json_field j ''length''"

fun slot_length :: "slot \<Rightarrow> json option" where
  "slot_length (Items xs) = Some (JNum (of_nat (length xs)))"
| "slot_length (Other j) = js_length j"

text \<open>A method of arrays that other values do not have, and \<open>slice(0, n)\<close>, which strings have as well.\<close>

fun slot_items :: "slot \<Rightarrow> js_error + json option list" where
  "slot_items (Items xs) = Inr xs"
| "slot_items (Other j) = Inl TypeError"

fun slot_slice :: "nat \<Rightarrow> slot \<Rightarrow> js_error + slot" where
  "slot_slice n (Items xs) = Inr (Items (take n xs))"
| "slot_slice n (Other (JStr s)) = Inr (Other (JStr (take n s)))"
| "slot_slice n (Other j) = Inl TypeError"

text \<open>The items a loop \<open>for (const x of v)\<close> runs over.\<close>

fun slot_iterate :: "slot \<Rightarrow> js_error + json option list" where
  "slot_iterate (Items xs) = Inr xs"
| "slot_iterate (Other j) = map_sum id (map Some) (iterate j)"

text \<open>
  \<open>a === b\<close>: two objects are equal when they are the same object, and no two values the script compares are.
\<close>

fun strict_eq :: "json option \<Rightarrow> json option \<Rightarrow> bool" where
  "strict_eq (Some (JArr _)) b = False"
| "strict_eq (Some (JObj _)) b = False"
| "strict_eq a b = (a = b)"

text \<open>The properties \<open>{...v}\<close> copies.\<close>

definition indexed :: "json list \<Rightarrow> (string \<times> json) list" where
  "indexed xs = map (\<lambda>(i, x). (nat_to_string i, x)) (List.enumerate 0 xs)"

fun own_fields :: "json option \<Rightarrow> (string \<times> json) list" where
  "own_fields (Some (JObj fs)) = fs"
| "own_fields (Some (JArr xs)) = indexed xs"
| "own_fields (Some (JStr s)) = indexed (map (\<lambda>c. JStr [c]) s)"
| "own_fields _ = []"

text \<open>\<open>xs.map(f)\<close> and \<open>xs.findIndex(p)\<close> with functions that may throw.\<close>

fun try_map :: "('a \<Rightarrow> 'e + 'b) \<Rightarrow> 'a list \<Rightarrow> 'e + 'b list" where
  "try_map f [] = Inr []"
| "try_map f (x # xs) =
     (case f x of Inl e \<Rightarrow> Inl e | Inr y \<Rightarrow> (case try_map f xs of Inl e \<Rightarrow> Inl e | Inr ys \<Rightarrow> Inr (y # ys)))"

fun try_find :: "('a \<Rightarrow> 'e + bool) \<Rightarrow> 'a list \<Rightarrow> 'e + (nat \<times> 'a) option" where
  "try_find p [] = Inr None"
| "try_find p (x # xs) =
     (case p x of
        Inl e \<Rightarrow> Inl e
      | Inr True \<Rightarrow> Inr (Some (0, x))
      | Inr False \<Rightarrow> map_sum id (map_option (map_prod Suc id)) (try_find p xs))"

section \<open>Helpers\<close>

text \<open>
  What the script takes from the engine: the texts of numbers, of times of day and of built-in functions, the clock, how
  deep calls may nest, the pixel ratio and size of the canvas, and the random numbers in the order in which they are drawn.
\<close>

record browser =
  br_num :: "rat \<Rightarrow> string"
  br_time :: "json option \<Rightarrow> string"
  br_native :: "string \<Rightarrow> string"
  br_now :: rat
  br_frames :: nat
  br_ratio :: real
  br_rect :: "real \<times> real"
  br_random :: "nat \<Rightarrow> real"

text \<open>The two Latin-1 letters whose capitals are not in Latin-1 are left as they are.\<close>

definition to_upper :: "char \<Rightarrow> string" where
  "to_upper c =
     (if 97 \<le> char_code c \<and> char_code c \<le> 122 \<or> 224 \<le> char_code c \<and> char_code c \<le> 254 \<and> char_code c \<noteq> 247
      then [char_of (char_code c - 32)] else if char_code c = 223 then ''SS'' else [c])"

definition toUpperCase :: "string \<Rightarrow> string" where
  "toUpperCase s = concat (map to_upper s)"

definition int_text :: "browser \<Rightarrow> int option \<Rightarrow> string" where
  "int_text b i = (case i of None \<Rightarrow> ''NaN'' | Some i \<Rightarrow> br_num b (of_int i))"

text \<open>\<open>a % b\<close> takes the sign of \<open>a\<close>.\<close>

definition js_rem :: "int \<Rightarrow> int \<Rightarrow> int" where
  "js_rem a b = (if a < 0 then - (- a mod b) else a mod b)"

definition fmtDuration :: "browser \<Rightarrow> rat option \<Rightarrow> string" where
  "fmtDuration b ms =
     (let s = map_option (\<lambda>x. \<lfloor>x / 1000\<rfloor>) ms;
          h = map_option (\<lambda>s. s div 3600) s;
          m = map_option (\<lambda>s. js_rem s 3600 div 60) s;
          sec = map_option (\<lambda>s. js_rem s 60) s;
          two = (\<lambda>v. padStart 2 (CHR ''0'') (int_text b v))
      in two h @ '':'' @ two m @ '':'' @ two sec)"

text \<open>\<open>x.toFixed(2)\<close> of a number; from \<open>10^21\<close> on it is the text of the number.\<close>

definition toFixed2 :: "browser \<Rightarrow> rat \<Rightarrow> string" where
  "toFixed2 b x =
     (if 10 ^ 21 \<le> \<bar>x\<bar> then br_num b x
      else (let n = nat \<lfloor>\<bar>x\<bar> * 100 + 1 / 2\<rfloor> in
        (if x < 0 then ''-'' else []) @ nat_to_string (n div 100) @ ''.'' @ padStart 2 (CHR ''0'') (nat_to_string (n mod 100))))"

definition fmtCost :: "browser \<Rightarrow> json option \<Rightarrow> js_error + string" where
  "fmtCost b c = (case js_or c (JNum 0) of JNum x \<Rightarrow> Inr (CHR ''$'' # toFixed2 b x) | _ \<Rightarrow> Inl TypeError)"

definition replace_all :: "char \<Rightarrow> string \<Rightarrow> string \<Rightarrow> string" where
  "replace_all c r s = concat (map (\<lambda>x. if x = c then r else [x]) s)"

definition esc :: "browser \<Rightarrow> json option \<Rightarrow> string" where
  "esc b s =
     replace_all (CHR 0x22) ''&quot;''
       (replace_all (CHR ''>'') ''&gt;''
         (replace_all (CHR ''<'') ''&lt;''
           (replace_all (CHR ''&'') ''&amp;'' (js_text (br_num b) (Some (js_or s (JStr [])))))))"

text \<open>\<open>Math.round((v || 0) * 100)\<close>, written in a text.\<close>

definition percent :: "browser \<Rightarrow> json option \<Rightarrow> string" where
  "percent b v = int_text b (map_option (\<lambda>x. \<lfloor>x * 100 + 1 / 2\<rfloor>) (to_number (Some (js_or v (JNum 0)))))"

text \<open>
  \<open>T[k] || d\<close> for a constant table: a key that is not in the table may be one every object inherits, whose value is a
  function.
\<close>

definition color_of :: "browser \<Rightarrow> (string \<times> string) list \<Rightarrow> json option \<Rightarrow> string \<Rightarrow> string" where
  "color_of b t k d =
     (let key = js_text (br_num b) k in
      case map_of t key of Some c \<Rightarrow> c | None \<Rightarrow> if inherited key then br_native b key else d)"

text \<open>What a template literal or \<open>textContent\<close> makes of a value.\<close>

definition text_content :: "browser \<Rightarrow> json option \<Rightarrow> string" where
  "text_content b v = (case v of None \<Rightarrow> [] | Some JNull \<Rightarrow> [] | _ \<Rightarrow> js_text (br_num b) v)"

text \<open>\<open>JSON.stringify(v, null, 2)\<close>.\<close>

definition line_sep :: "nat \<Rightarrow> string" where
  "line_sep n = CHR 0x0A # replicate n (CHR '' '')"

fun pretty :: "(rat \<Rightarrow> string) \<Rightarrow> nat \<Rightarrow> json \<Rightarrow> string"
  and pretty_all :: "(rat \<Rightarrow> string) \<Rightarrow> nat \<Rightarrow> json list \<Rightarrow> string list"
  and pretty_fields :: "(rat \<Rightarrow> string) \<Rightarrow> nat \<Rightarrow> (string \<times> json) list \<Rightarrow> string list" where
  "pretty num n (JArr (x # xs)) =
     ''['' @ line_sep (n + 2) @ join ('','' @ line_sep (n + 2)) (pretty_all num (n + 2) (x # xs)) @ line_sep n @ '']''"
| "pretty num n (JObj (f # fs)) =
     ''{'' @ line_sep (n + 2) @ join ('','' @ line_sep (n + 2)) (pretty_fields num (n + 2) (f # fs)) @ line_sep n @ ''}''"
| "pretty num n j = stringify num j"
| "pretty_all num n [] = []"
| "pretty_all num n (x # xs) = pretty num n x # pretty_all num n xs"
| "pretty_fields num n [] = []"
| "pretty_fields num n ((k, v) # fs) = (quote_string k @ '': '' @ pretty num n v) # pretty_fields num n fs"

section \<open>Tables\<close>

definition AGENT_COLORS :: "(string \<times> string) list" where
  "AGENT_COLORS =
     [(''idle'', ''#555''), (''thinking'', ''#fbbf24''), (''working'', ''#4ade80''), (''waiting'', ''#4fc3f7''),
      (''blocked'', ''#ef4444''), (''validating'', ''#c084fc''), (''failed'', ''#b71c1c'')]"

definition SEVERITY_COLORS :: "(string \<times> string) list" where
  "SEVERITY_COLORS =
     [(''critical'', ''#b71c1c''), (''high'', ''#e53935''), (''medium'', ''#fb8c00''), (''low'', ''#4fc3f7''), (''info'', ''#555'')]"

definition HYPOTHESIS_STATES :: "string list" where
  "HYPOTHESIS_STATES =
     [''created'', ''investigating'', ''correlated'', ''challenged'', ''validating'', ''confirmed'', ''rejected'']"

definition HYPOTHESIS_COLORS :: "(string \<times> string) list" where
  "HYPOTHESIS_COLORS =
     [(''created'', ''#555''), (''investigating'', ''#fbbf24''), (''correlated'', ''#4fc3f7''), (''challenged'', ''#fb8c00''),
      (''validating'', ''#c084fc''), (''confirmed'', ''#4ade80''), (''rejected'', ''#ef4444'')]"

definition NODE_COLORS :: "(string \<times> string) list" where
  "NODE_COLORS =
     [(''host'', ''#4fc3f7''), (''service'', ''#81c784''), (''endpoint'', ''#ffb74d''), (''api'', ''#f48fb1''),
      (''user'', ''#ce93d8''), (''identity'', ''#ba68c8''), (''role'', ''#9575cd''), (''org'', ''#7986cb''),
      (''domain'', ''#64b5f6''), (''subdomain'', ''#90caf9''), (''credential'', ''#ffd54f''), (''token'', ''#ffca28''),
      (''workflow'', ''#4db6ac''), (''permission'', ''#81d4fa''), (''finding'', ''#ef5350''), (''hypothesis'', ''#ab47bc''),
      (''trust_boundary'', ''#78909c''), (''database'', ''#8d6e63''), (''queue'', ''#a1887f'')]"

section \<open>State\<close>

datatype content = As_served | Html string | Text string

record point =
  pt_x :: real
  pt_y :: real
  pt_vx :: real
  pt_vy :: real

datatype shape =
    Line real real real real
  | Edge_label string real real
  | Disc real real real string
  | Node_label string real real

text \<open>The transformation of a drawing context, as far as the script changes it: a scale and an offset.\<close>

type_synonym matrix = "real \<times> real \<times> real"

record canvas_state =
  cv_ready :: bool
  cv_width :: nat
  cv_height :: nat
  cv_matrix :: matrix
  cv_saved :: "matrix list"
  cv_shapes :: "(matrix \<times> shape) list"
  cv_x :: real
  cv_y :: real
  cv_scale :: real
  cv_dragging :: bool
  cv_start :: "real \<times> real"
  cv_last :: "real \<times> real"
  cv_positions :: "json option \<Rightarrow> point option"
  cv_drawn_randoms :: nat
  cv_selected :: "json option"
  cv_tooltip :: "real \<times> real"

record replay_state =
  ry_active :: bool
  ry_events :: "json list"
  ry_index :: nat
  ry_timer :: "nat option"

record page =
  pg_connected :: bool
  pg_sockets :: nat
  pg_reconnects :: nat
  pg_agents :: slot
  pg_events :: slot
  pg_hypotheses :: slot
  pg_findings :: slot
  pg_tasks :: slot
  pg_graph :: json
  pg_scope :: json
  pg_costs :: json
  pg_runtime :: json
  pg_view :: string
  pg_agent_filter :: string
  pg_type_filter :: string
  pg_severity_filter :: string
  pg_search :: string
  pg_replay :: replay_state
  pg_intervals :: "nat list"
  pg_fresh :: nat
  pg_canvas :: canvas_state
  pg_dom :: "string \<Rightarrow> content option"
  pg_classes :: "(string \<times> string) list"
  pg_palette :: "nat list"

text \<open>The configuration in the page, which the script reads when it starts.\<close>

definition maxLogEntries :: nat where
  "maxLogEntries = 500"

definition maxActivityEntries :: nat where
  "maxActivityEntries = 200"

text \<open>
  The elements the script looks for. There is no element of class \<open>view-body\<close>; those of the centre panel go when its content
  is replaced.
\<close>

definition CENTER_ELEMENTS :: "string list" where
  "CENTER_ELEMENTS =
     [''#view-live'', ''#live-search'', ''#live-log'', ''#view-graph'', ''#graph-canvas-el'', ''#graph-tooltip'',
      ''#view-hypotheses'', ''#hypothesis-board'', ''#view-tasks'', ''#task-graph'', ''#view-findings'', ''#findings-list'',
      ''.tab-btn[live]'', ''.tab-btn[graph]'', ''.tab-btn[hypotheses]'', ''.tab-btn[tasks]'', ''.tab-btn[findings]'']"

definition PAGE_ELEMENTS :: "string list" where
  "PAGE_ELEMENTS =
     [''#nav-drawer-backdrop'', ''#nav-drawer'', ''#nav-drawer-close'', ''#mobile-nav-toggle'', ''#status-indicator'',
      ''#stat-runtime'', ''#stat-agents'', ''#stat-tasks'', ''#stat-hypotheses'', ''#stat-chains'', ''#stat-findings'',
      ''#stat-cost'', ''#palette-trigger'', ''#agent-count'', ''#agent-list'', ''#center-panel'', ''#activity-count'',
      ''#activity-stream'', ''#palette-backdrop'', ''#command-palette'', ''#palette-input'', ''#palette-results'', ''#splash'',
      ''.nav-drawer-item[live]'', ''.nav-drawer-item[graph]'', ''.nav-drawer-item[hypotheses]'', ''.nav-drawer-item[tasks]'',
      ''.nav-drawer-item[findings]''] @ CENTER_ELEMENTS"

definition initial_canvas :: canvas_state where
  "initial_canvas =
     \<lparr>cv_ready = False, cv_width = 300, cv_height = 150, cv_matrix = (1, 0, 0), cv_saved = [], cv_shapes = [],
      cv_x = 0, cv_y = 0, cv_scale = 1, cv_dragging = False, cv_start = (0, 0), cv_last = (0, 0),
      cv_positions = Map.empty, cv_drawn_randoms = 0, cv_selected = None,
      cv_tooltip = (0, 0)\<rparr>"

definition no_graph :: json where
  "no_graph = JObj [(''nodes'', JArr []), (''edges'', JArr [])]"

definition initial_page :: page where
  "initial_page =
     \<lparr>pg_connected = False, pg_sockets = 0, pg_reconnects = 0,
      pg_agents = Items [], pg_events = Items [], pg_hypotheses = Items [], pg_findings = Items [], pg_tasks = Items [],
      pg_graph = no_graph, pg_scope = JObj [], pg_costs = JObj [], pg_runtime = JNum 0, pg_view = ''live'',
      pg_agent_filter = [], pg_type_filter = [], pg_severity_filter = [], pg_search = [],
      pg_replay = \<lparr>ry_active = False, ry_events = [], ry_index = 0, ry_timer = None\<rparr>,
      pg_intervals = [], pg_fresh = 0, pg_canvas = initial_canvas,
      pg_dom = (\<lambda>k. if k \<in> set PAGE_ELEMENTS then Some As_served else None),
      pg_classes = [(''#view-live'', ''view-active''), (''.tab-btn[live]'', ''active'')],
      pg_palette = []\<rparr>"

section \<open>Effects\<close>

type_synonym effect = "page \<Rightarrow> page \<times> js_error option"

text \<open>Statements in sequence: an exception ends it and keeps what was written.\<close>

fun seq :: "effect list \<Rightarrow> effect" where
  "seq [] p = (p, None)"
| "seq (f # fs) p = (case f p of (q, None) \<Rightarrow> seq fs q | (q, Some e) \<Rightarrow> (q, Some e))"

definition attempt :: "js_error + 'a \<Rightarrow> ('a \<Rightarrow> effect) \<Rightarrow> effect" where
  "attempt r f p = (case r of Inl e \<Rightarrow> (p, Some e) | Inr x \<Rightarrow> f x p)"

text \<open>An assignment to a field of the state, which never throws.\<close>

definition assign :: "(page \<Rightarrow> page) \<Rightarrow> effect" where
  "assign f p = (f p, None)"

definition has_el :: "page \<Rightarrow> string \<Rightarrow> bool" where
  "has_el p sel = (pg_dom p sel \<noteq> None)"

text \<open>\<open>const el = $(sel); if (!el) return;\<close>\<close>

definition with_el :: "string \<Rightarrow> effect \<Rightarrow> effect" where
  "with_el sel f p = (if has_el p sel then f p else (p, None))"

definition inside :: "string \<Rightarrow> string list" where
  "inside sel = (if sel = ''#center-panel'' then CENTER_ELEMENTS else [])"

text \<open>\<open>$(sel).innerHTML = h\<close> and \<open>$(sel).textContent = t\<close>, which throw when there is no such element.\<close>

definition set_content :: "string \<Rightarrow> content \<Rightarrow> effect" where
  "set_content sel c p =
     (if has_el p sel
      then (p\<lparr>pg_dom := (\<lambda>k. if k = sel then Some c else if k \<in> set (inside sel) then None else pg_dom p k)\<rparr>, None)
      else (p, Some TypeError))"

definition set_html :: "string \<Rightarrow> string \<Rightarrow> effect" where
  "set_html sel h = set_content sel (Html h)"

definition set_text :: "string \<Rightarrow> string \<Rightarrow> effect" where
  "set_text sel t = set_content sel (Text t)"

text \<open>\<open>$(sel).classList.add(c)\<close> and \<open>remove(c)\<close>, and the removal from every element of a list.\<close>

definition add_class :: "string \<Rightarrow> string \<Rightarrow> effect" where
  "add_class sel c p =
     (if has_el p sel then (p\<lparr>pg_classes := List.insert (sel, c) (pg_classes p)\<rparr>, None) else (p, Some TypeError))"

definition remove_class :: "string \<Rightarrow> string \<Rightarrow> effect" where
  "remove_class sel c p =
     (if has_el p sel then (p\<lparr>pg_classes := filter (\<lambda>x. x \<noteq> (sel, c)) (pg_classes p)\<rparr>, None) else (p, Some TypeError))"

section \<open>Markup\<close>

definition open_tag :: "string \<Rightarrow> (string \<times> string) list \<Rightarrow> string" where
  "open_tag n ats =
     ''<'' @ n @ concat (map (\<lambda>(k, v). '' '' @ k @ ''='' @ [CHR 0x22] @ v @ [CHR 0x22]) ats) @ ''>''"

definition elem :: "string \<Rightarrow> (string \<times> string) list \<Rightarrow> string \<Rightarrow> string" where
  "elem n ats body = open_tag n ats @ body @ ''</'' @ n @ ''>''"

definition div_of :: "string \<Rightarrow> string \<Rightarrow> string" where
  "div_of cls = elem ''div'' [(''class'', cls)]"

definition span_of :: "string \<Rightarrow> string \<Rightarrow> string" where
  "span_of cls = elem ''span'' [(''class'', cls)]"

definition dash :: string where
  "dash = [CHR 0xE2, CHR 0x80, CHR 0x94]"

end
