(* ===== verification/Console_Graph.thy ===== *)
theory Console_Graph
  imports Console_Page
begin

text \<open>
  The security graph of the page (\<open>public/js/app.js\<close>, from \<open>renderGraph\<close> to \<open>checkGraphHover\<close>): the layout by simulated
  forces, the drawing, the reactions to the mouse and the search for the node under it. Coordinates are real numbers. A
  position is stored under the \<open>id\<close> of a node by value; the shapes are those drawn since the canvas was last cleared, each
  with the transformation it was drawn under.
\<close>

section \<open>Layout\<close>

type_synonym placed = "json option \<times> point"

text \<open>\<open>state.graph.nodes || []\<close> and \<open>state.graph.edges || []\<close>.\<close>

definition graph_field :: "json \<Rightarrow> string \<Rightarrow> json" where
  "graph_field g k = js_or (json_field g k) (JArr [])"

text \<open>A node without a position gets a random one on a ring around the origin.\<close>

definition getNodePos :: "browser \<Rightarrow> json option \<Rightarrow> canvas_state \<Rightarrow> canvas_state \<times> point" where
  "getNodePos b i cv =
     (case cv_positions cv i of
        Some pt \<Rightarrow> (cv, pt)
      | None \<Rightarrow>
          (let k = cv_drawn_randoms cv;
               angle = br_random b k * pi * 2;
               radius = 100 + br_random b (k + 1) * 150;
               pt = \<lparr>pt_x = cos angle * radius, pt_y = sin angle * radius, pt_vx = 0, pt_vy = 0\<rparr>
           in (cv\<lparr>cv_positions := (cv_positions cv)(i \<mapsto> pt), cv_drawn_randoms := k + 2\<rparr>, pt)))"

text \<open>\<open>nodes.map(n => ({ id: n.id, ...getNodePos(n) }))\<close>\<close>

fun place_nodes :: "browser \<Rightarrow> json list \<Rightarrow> canvas_state \<Rightarrow> canvas_state \<times> (js_error + placed list)" where
  "place_nodes b [] cv = (cv, Inr [])"
| "place_nodes b (n # ns) cv =
     (case member (Some n) ''id'' of
        Inl e \<Rightarrow> (cv, Inl e)
      | Inr i \<Rightarrow>
          (let (cv1, pt) = getNodePos b i cv; (cv2, r) = place_nodes b ns cv1 in (cv2, map_sum id ((#) (i, pt)) r)))"

definition accelerate :: "real \<Rightarrow> real \<Rightarrow> point \<Rightarrow> point" where
  "accelerate ax ay pt = pt\<lparr>pt_vx := pt_vx pt + ax, pt_vy := pt_vy pt + ay\<rparr>"

definition push_at :: "nat \<Rightarrow> real \<Rightarrow> real \<Rightarrow> placed list \<Rightarrow> placed list" where
  "push_at k ax ay ps = ps[k := map_prod id (accelerate ax ay) (ps ! k)]"

text \<open>The force between two nodes along the line through them; the second is pushed the other way.\<close>

definition separation :: "real \<Rightarrow> real \<Rightarrow> real" where
  "separation dx dy = max 1 (sqrt (dx * dx + dy * dy))"

definition pull :: "(real \<Rightarrow> real) \<Rightarrow> real \<Rightarrow> real \<Rightarrow> nat \<Rightarrow> nat \<Rightarrow> placed list \<Rightarrow> placed list" where
  "pull force dx dy i j ps =
     (let dist = separation dx dy; f = force dist; ax = dx / dist * f; ay = dy / dist * f
      in push_at j (- ax) (- ay) (push_at i ax ay ps))"

definition repel :: "nat \<Rightarrow> nat \<Rightarrow> placed list \<Rightarrow> placed list" where
  "repel i j ps =
     pull (\<lambda>dist. 2000 / (dist * dist)) (pt_x (snd (ps ! i)) - pt_x (snd (ps ! j))) (pt_y (snd (ps ! i)) - pt_y (snd (ps ! j))) i j ps"

definition repulsion :: "placed list \<Rightarrow> placed list" where
  "repulsion ps = fold (\<lambda>(i, j). repel i j) [(i, j). i \<leftarrow> [0..<length ps], j \<leftarrow> [i + 1..<length ps]] ps"

text \<open>\<open>positions.find(p => p.id === v)\<close>\<close>

definition placed_at :: "json option \<Rightarrow> placed list \<Rightarrow> nat option" where
  "placed_at v ps = find (\<lambda>k. strict_eq (fst (ps ! k)) v) [0..<length ps]"

fun attract :: "json list \<Rightarrow> placed list \<Rightarrow> js_error + placed list" where
  "attract [] ps = Inr ps"
| "attract (e # es) ps =
     (case member (Some e) ''from'' of
        Inl err \<Rightarrow> Inl err
      | Inr src \<Rightarrow>
          attract es
            (case (placed_at src ps, placed_at (json_field e ''to'') ps) of
               (Some i, Some j) \<Rightarrow>
                 pull (\<lambda>dist. (dist - 80) * 0.01) (pt_x (snd (ps ! j)) - pt_x (snd (ps ! i)))
                   (pt_y (snd (ps ! j)) - pt_y (snd (ps ! i))) i j ps
             | _ \<Rightarrow> ps))"

definition drift :: "point \<Rightarrow> point" where
  "drift pt =
     \<lparr>pt_x = pt_x pt + pt_vx pt * 0.1, pt_y = pt_y pt + pt_vy pt * 0.1, pt_vx = pt_vx pt * 0.85, pt_vy = pt_vy pt * 0.85\<rparr>"

definition settle :: "placed list \<Rightarrow> canvas_state \<Rightarrow> canvas_state" where
  "settle ps cv =
     cv\<lparr>cv_positions := fold (\<lambda>(i, pt) m. if m i = None then m else m(i \<mapsto> drift pt)) ps (cv_positions cv)\<rparr>"

definition simulatePhysics :: "browser \<Rightarrow> json \<Rightarrow> canvas_state \<Rightarrow> canvas_state \<times> js_error option" where
  "simulatePhysics b g cv =
     (case graph_field g ''nodes'' of
        JArr ns \<Rightarrow>
          (case place_nodes b ns cv of
             (cv1, Inl e) \<Rightarrow> (cv1, Some e)
           | (cv1, Inr ps) \<Rightarrow>
               (case iterate (graph_field g ''edges'') of
                  Inl e \<Rightarrow> (cv1, Some e)
                | Inr es \<Rightarrow>
                    (case attract es (repulsion ps) of
                       Inl e \<Rightarrow> (cv1, Some e)
                     | Inr qs \<Rightarrow> (settle qs cv1, None))))
      | _ \<Rightarrow> (cv, Some TypeError))"

section \<open>Drawing\<close>

definition ratio :: "browser \<Rightarrow> real" where
  "ratio b = (if br_ratio b = 0 then 1 else br_ratio b)"

definition translate :: "real \<Rightarrow> real \<Rightarrow> matrix \<Rightarrow> matrix" where
  "translate dx dy m = (case m of (s, x, y) \<Rightarrow> (s, x + s * dx, y + s * dy))"

definition scale_by :: "real \<Rightarrow> matrix \<Rightarrow> matrix" where
  "scale_by k m = (case m of (s, x, y) \<Rightarrow> (s * k, x, y))"

definition paint :: "shape list \<Rightarrow> canvas_state \<Rightarrow> canvas_state" where
  "paint ss cv = cv\<lparr>cv_shapes := cv_shapes cv @ map (Pair (cv_matrix cv)) ss\<rparr>"

text \<open>Setting the size of a canvas resets its context.\<close>

definition resizeCanvas :: "browser \<Rightarrow> canvas_state \<Rightarrow> canvas_state" where
  "resizeCanvas b cv =
     cv\<lparr>cv_width := nat \<lfloor>fst (br_rect b) * ratio b\<rfloor>, cv_height := nat \<lfloor>snd (br_rect b) * ratio b\<rfloor>,
       cv_matrix := scale_by (ratio b) (1, 0, 0), cv_saved := [], cv_shapes := []\<rparr>"

definition edge_shapes :: "browser \<Rightarrow> json \<Rightarrow> canvas_state \<Rightarrow> js_error + shape list" where
  "edge_shapes b e cv =
     (case member (Some e) ''from'' of
        Inl err \<Rightarrow> Inl err
      | Inr src \<Rightarrow>
          Inr (case (cv_positions cv src, cv_positions cv (json_field e ''to'')) of
                 (Some p, Some q) \<Rightarrow>
                   [Line (pt_x p) (pt_y p) (pt_x q) (pt_y q),
                    Edge_label (js_text (br_num b) (Some (js_or (json_field e ''label'') (JStr []))))
                      ((pt_x p + pt_x q) / 2) ((pt_y p + pt_y q) / 2)]
               | _ \<Rightarrow> []))"

definition node_shapes :: "browser \<Rightarrow> json \<Rightarrow> canvas_state \<Rightarrow> js_error + shape list" where
  "node_shapes b n cv =
     (case member (Some n) ''id'' of
        Inl err \<Rightarrow> Inl err
      | Inr i \<Rightarrow>
          Inr (case cv_positions cv i of
                 None \<Rightarrow> []
               | Some pt \<Rightarrow>
                   (let ty = json_field n ''type''; label = json_field n ''label'' in
                    [Disc (pt_x pt) (pt_y pt) (if ty = Some (JStr ''finding'') then 8 else 6) (color_of b NODE_COLORS ty ''#666''),
                     Node_label (js_text (br_num b) (if js_truthy label then label else i)) (pt_x pt + 10) (pt_y pt + 3)])))"

fun draw_all :: "(json \<Rightarrow> canvas_state \<Rightarrow> js_error + shape list) \<Rightarrow> json list \<Rightarrow> canvas_state \<Rightarrow> canvas_state \<times> js_error option" where
  "draw_all f [] cv = (cv, None)"
| "draw_all f (x # xs) cv = (case f x cv of Inl e \<Rightarrow> (cv, Some e) | Inr ss \<Rightarrow> draw_all f xs (paint ss cv))"

definition draw_items :: "(json \<Rightarrow> canvas_state \<Rightarrow> js_error + shape list) \<Rightarrow> json \<Rightarrow> canvas_state \<Rightarrow> canvas_state \<times> js_error option" where
  "draw_items f v cv = (case iterate v of Inl e \<Rightarrow> (cv, Some e) | Inr xs \<Rightarrow> draw_all f xs cv)"

text \<open>Steps on the canvas in sequence, as for the page.\<close>

fun canvas_seq :: "(canvas_state \<Rightarrow> canvas_state \<times> js_error option) list \<Rightarrow> canvas_state \<Rightarrow> canvas_state \<times> js_error option" where
  "canvas_seq [] cv = (cv, None)"
| "canvas_seq (f # fs) cv = (case f cv of (cv1, None) \<Rightarrow> canvas_seq fs cv1 | (cv1, Some e) \<Rightarrow> (cv1, Some e))"

definition save_and_place :: "browser \<Rightarrow> canvas_state \<Rightarrow> canvas_state \<times> js_error option" where
  "save_and_place b cv =
     (let w = of_nat (cv_width cv) / ratio b; h = of_nat (cv_height cv) / ratio b in
      (cv\<lparr>cv_shapes := [], cv_saved := cv_matrix cv # cv_saved cv,
         cv_matrix := scale_by (cv_scale cv) (translate (w / 2 + cv_x cv) (h / 2 + cv_y cv) (cv_matrix cv))\<rparr>, None))"

definition restore :: "canvas_state \<Rightarrow> canvas_state \<times> js_error option" where
  "restore cv = (case cv_saved cv of [] \<Rightarrow> (cv, None) | m # ms \<Rightarrow> (cv\<lparr>cv_matrix := m, cv_saved := ms\<rparr>, None))"

definition drawGraph :: "browser \<Rightarrow> json \<Rightarrow> canvas_state \<Rightarrow> canvas_state \<times> js_error option" where
  "drawGraph b g cv =
     (if \<not> cv_ready cv then (cv, None)
      else canvas_seq
        [save_and_place b, simulatePhysics b g, simulatePhysics b g, simulatePhysics b g,
         draw_items (edge_shapes b) (graph_field g ''edges''), draw_items (node_shapes b) (graph_field g ''nodes''),
         restore] cv)"

definition on_canvas :: "(canvas_state \<Rightarrow> canvas_state \<times> js_error option) \<Rightarrow> effect" where
  "on_canvas f p = (let (cv, e) = f (pg_canvas p) in (p\<lparr>pg_canvas := cv\<rparr>, e))"

definition draw :: "browser \<Rightarrow> effect" where
  "draw b p = on_canvas (drawGraph b (pg_graph p)) p"

definition renderGraph :: "browser \<Rightarrow> effect" where
  "renderGraph b =
     with_el ''#graph-canvas-el''
       (seq [\<lambda>p. on_canvas (\<lambda>cv. (if cv_ready cv then cv else resizeCanvas b (cv\<lparr>cv_ready := True\<rparr>), None)) p, draw b])"

section \<open>The mouse\<close>

fun node_at_point :: "json list \<Rightarrow> real \<Rightarrow> real \<Rightarrow> canvas_state \<Rightarrow> js_error + json option" where
  "node_at_point [] x y cv = Inr None"
| "node_at_point (n # ns) x y cv =
     (case member (Some n) ''id'' of
        Inl e \<Rightarrow> Inl e
      | Inr i \<Rightarrow>
          (case cv_positions cv i of
             None \<Rightarrow> node_at_point ns x y cv
           | Some pt \<Rightarrow>
               (let sx = pt_x pt * cv_scale cv + of_nat (cv_width cv) / 2 + cv_x cv;
                    sy = pt_y pt * cv_scale cv + of_nat (cv_height cv) / 2 + cv_y cv;
                    dist = sqrt ((x - sx)\<^sup>2 + (y - sy)\<^sup>2)
                in if dist < 12 then Inr (Some n) else node_at_point ns x y cv)))"

definition findNodeAt :: "json \<Rightarrow> real \<Rightarrow> real \<Rightarrow> canvas_state \<Rightarrow> js_error + json option" where
  "findNodeAt g x y cv =
     (case iterate (graph_field g ''nodes'') of Inl e \<Rightarrow> Inl e | Inr ns \<Rightarrow> node_at_point ns x y cv)"

definition tooltip_lines :: "browser \<Rightarrow> json \<Rightarrow> string" where
  "tooltip_lines b n = div_of ''tooltip-type'' (esc b (json_field n ''type'')) @ div_of ''tooltip-label'' (esc b (json_field n ''label''))"

definition show_tooltip :: "string \<Rightarrow> effect" where
  "show_tooltip h = seq [add_class ''#graph-tooltip'' ''display:block'', set_html ''#graph-tooltip'' h]"

definition checkGraphHover :: "browser \<Rightarrow> real \<Rightarrow> real \<Rightarrow> effect" where
  "checkGraphHover b x y p =
     attempt (findNodeAt (pg_graph p) x y (pg_canvas p))
       (\<lambda>node. with_el ''#graph-tooltip''
          (if js_truthy node
           then seq [assign (\<lambda>p. p\<lparr>pg_canvas := (pg_canvas p)\<lparr>cv_tooltip := (x, y)\<rparr>\<rparr>), show_tooltip (tooltip_lines b (the node))]
           else remove_class ''#graph-tooltip'' ''display:block'')) p"

definition showNodeDetail :: "browser \<Rightarrow> json \<Rightarrow> effect" where
  "showNodeDetail b n =
     seq [with_el ''#graph-tooltip''
            (show_tooltip (tooltip_lines b n @ div_of ''tooltip-detail'' (esc b (Some (js_or (json_field n ''detail'') (JStr [])))))),
          assign (\<lambda>p. p\<lparr>pg_canvas := (pg_canvas p)\<lparr>cv_selected := Some n\<rparr>\<rparr>)]"

definition on_wheel :: "browser \<Rightarrow> real \<Rightarrow> effect" where
  "on_wheel b deltaY =
     seq [assign (\<lambda>p. let cv = pg_canvas p; k = cv_scale cv * (if deltaY > 0 then 0.9 else 1.1)
                      in p\<lparr>pg_canvas := cv\<lparr>cv_scale := max 0.1 (min 5 k)\<rparr>\<rparr>), draw b]"

definition on_mousedown :: "real \<Rightarrow> real \<Rightarrow> effect" where
  "on_mousedown x y =
     assign (\<lambda>p. p\<lparr>pg_canvas := (pg_canvas p)\<lparr>cv_dragging := True, cv_start := (x, y), cv_last := (x, y)\<rparr>\<rparr>)"

definition on_mousemove :: "browser \<Rightarrow> real \<Rightarrow> real \<Rightarrow> effect" where
  "on_mousemove b x y p =
     (if cv_dragging (pg_canvas p)
      then seq [assign (\<lambda>p. let cv = pg_canvas p in
                  p\<lparr>pg_canvas := cv\<lparr>cv_x := cv_x cv + x - fst (cv_last cv), cv_y := cv_y cv + y - snd (cv_last cv), cv_last := (x, y)\<rparr>\<rparr>),
                draw b] p
      else checkGraphHover b x y p)"

definition on_mouseup :: effect where
  "on_mouseup = assign (\<lambda>p. p\<lparr>pg_canvas := (pg_canvas p)\<lparr>cv_dragging := False\<rparr>\<rparr>)"

definition on_canvas_click :: "browser \<Rightarrow> real \<Rightarrow> real \<Rightarrow> effect" where
  "on_canvas_click b x y p =
     attempt (findNodeAt (pg_graph p) x y (pg_canvas p))
       (\<lambda>node. if js_truthy node then showNodeDetail b (the node) else seq []) p"

end
