(* ===== verification/Console_Render.thy ===== *)
theory Console_Render
  imports Console_Graph
begin

text \<open>
  The lists of the page (\<open>public/js/app.js\<close>, from \<open>renderAll\<close> to \<open>renderTaskGraph\<close>, and the detail views): every renderer
  turns a part of the state into markup and writes it into its element, if the page has it.
\<close>

section \<open>Counters\<close>

definition filter_slot :: "(json option \<Rightarrow> js_error + bool) \<Rightarrow> slot \<Rightarrow> js_error + json option list" where
  "filter_slot pr s = (case slot_items s of Inl e \<Rightarrow> Inl e | Inr xs \<Rightarrow> try_filter pr xs)"

text \<open>\<open>a.status === s\<close> for one of some texts.\<close>

definition has_status :: "string list \<Rightarrow> json option \<Rightarrow> js_error + bool" where
  "has_status ss a = map_sum id (\<lambda>v. v \<in> set (map (\<lambda>s. Some (JStr s)) ss)) (member a ''status'')"

definition is_chain :: "json option \<Rightarrow> js_error + bool" where
  "is_chain f =
     map_sum id
       (\<lambda>v. js_truthy v \<and> (case to_number (js_length (the v)) of None \<Rightarrow> False | Some n \<Rightarrow> 1 < n))
       (member f ''attack_path'')"

definition is_high :: "json option \<Rightarrow> js_error + bool" where
  "is_high f =
     map_sum id
       (\<lambda>v. (case to_number v of None \<Rightarrow> False | Some n \<Rightarrow> 8 / 10 \<le> n) \<and> opt_member f ''status'' = Some (JStr ''validated''))
       (member f ''confidence'')"

definition count_text :: "browser \<Rightarrow> nat \<Rightarrow> string" where
  "count_text b n = text_content b (Some (JNum (of_nat n)))"

definition renderStats :: "browser \<Rightarrow> effect" where
  "renderStats b p =
     attempt (filter_slot (has_status [''working'', ''thinking'']) (pg_agents p)) (\<lambda>_.
     attempt (filter_slot (has_status [''running'', ''claimed'']) (pg_tasks p)) (\<lambda>_.
     attempt (filter_slot is_chain (pg_findings p)) (\<lambda>chains.
     attempt (filter_slot is_high (pg_findings p)) (\<lambda>high.
       (let cost = js_or (opt_member (Some (pg_costs p)) ''total_cost'') (JNum 0);
            agentCount = text_content b (slot_length (pg_agents p)) in
        seq [set_text ''#stat-agents'' agentCount,
             set_text ''#stat-tasks'' (text_content b (slot_length (pg_tasks p))),
             set_text ''#stat-hypotheses'' (text_content b (slot_length (pg_hypotheses p))),
             set_text ''#stat-chains'' (count_text b (length chains)),
             set_text ''#stat-findings'' (count_text b (length high)),
             attempt (fmtCost b (Some cost)) (set_text ''#stat-cost''),
             set_text ''#agent-count'' agentCount,
             set_text ''#activity-count'' (text_content b (slot_length (pg_events p))),
             (if json_truthy (pg_runtime p)
              then set_text ''#stat-runtime''
                     (fmtDuration b (map_option (\<lambda>r. br_now b - r) (to_number (Some (pg_runtime p)))))
              else seq [])]))))) p"

section \<open>Agents\<close>

definition empty_state :: "string \<Rightarrow> string" where
  "empty_state msg = div_of ''empty-state'' msg"

text \<open>\<open>v ? f(v) : d\<close>\<close>

definition if_truthy :: "json option \<Rightarrow> (json option \<Rightarrow> string) \<Rightarrow> string \<Rightarrow> string" where
  "if_truthy v f d = (if js_truthy v then f v else d)"

definition agent_card :: "browser \<Rightarrow> json option \<Rightarrow> js_error + string" where
  "agent_card b a =
     map_sum id
       (\<lambda>status.
          let color = color_of b AGENT_COLORS status ''#555'';
              dot = elem ''span'' [(''class'', ''agent-dot''), (''style'', ''background:'' @ color)] [];
              task = if_truthy (opt_member a ''current_task'') (esc b) dash;
              model = if_truthy (opt_member a ''model'') (\<lambda>m. span_of ''label-mono'' (esc b m)) [];
              elapsed = if_truthy (opt_member a ''started_at'') (\<lambda>s. fmtDuration b (map_option (\<lambda>s. br_now b - s) (to_number s))) [];
              name = esc b (opt_member a ''name'') in
          elem ''div'' [(''class'', ''agent-card''), (''data-agent'', name)]
            (line_sep 6 @ div_of ''agent-header'' (dot @ span_of ''agent-name'' name) @
             line_sep 6 @ div_of ''agent-task'' task @
             line_sep 6 @ div_of ''agent-meta''
               (model @ span_of ''label-mono'' (esc b status) @ (if elapsed = [] then [] else elem ''span'' [] elapsed)) @
             line_sep 4))
       (member a ''status'')"

text \<open>\<open>el.innerHTML = xs.map(f).join('')\<close>\<close>

definition set_rows :: "string \<Rightarrow> (json option \<Rightarrow> js_error + string) \<Rightarrow> js_error + json option list \<Rightarrow> effect" where
  "set_rows sel row xs = attempt xs (\<lambda>xs. attempt (try_map row xs) (\<lambda>rows. set_html sel (concat rows)))"

definition renderAgentList :: "browser \<Rightarrow> effect" where
  "renderAgentList b p =
     with_el ''#agent-list''
       (if \<not> js_truthy (slot_length (pg_agents p)) then set_html ''#agent-list'' (empty_state ''No agents active'')
        else set_rows ''#agent-list'' (agent_card b) (slot_items (pg_agents p))) p"

section \<open>Events\<close>

definition agent_matches :: "string \<Rightarrow> json option \<Rightarrow> js_error + bool" where
  "agent_matches flt e =
     (case member e ''agent'' of
        Inl err \<Rightarrow> Inl err
      | Inr v \<Rightarrow>
          (case nullish v None of
             None \<Rightarrow> Inr False
           | Some (JStr s) \<Rightarrow> Inr (sublist flt (toLowerCase s))
           | Some _ \<Rightarrow> Inl TypeError))"

definition type_matches :: "string \<Rightarrow> json option \<Rightarrow> js_error + bool" where
  "type_matches flt e =
     (case member e ''event_type'' of
        Inl err \<Rightarrow> Inl err
      | Inr v \<Rightarrow> (case nullish v None of None \<Rightarrow> Inr False | v \<Rightarrow> js_includes v flt))"

definition severity_matches :: "string \<Rightarrow> json option \<Rightarrow> js_error + bool" where
  "severity_matches flt e = map_sum id (\<lambda>v. v = Some (JStr flt)) (member e ''severity'')"

definition refine :: "string \<Rightarrow> (string \<Rightarrow> json option \<Rightarrow> js_error + bool) \<Rightarrow> js_error + slot \<Rightarrow> js_error + slot" where
  "refine flt pr s =
     (if flt = [] then s
      else case s of Inl e \<Rightarrow> Inl e | Inr xs \<Rightarrow> map_sum id Items (filter_slot (pr flt) xs))"

text \<open>\<open>v.toUpperCase()\<close>\<close>

fun upper :: "json \<Rightarrow> js_error + string" where
  "upper (JStr s) = Inr (toUpperCase s)"
| "upper j = Inl TypeError"

definition js_or_else :: "json option \<Rightarrow> json option \<Rightarrow> json option" where
  "js_or_else v w = (if js_truthy v then v else w)"

definition event_row :: "browser \<Rightarrow> json option \<Rightarrow> js_error + string" where
  "event_row b ev =
     (case member ev ''timestamp'' of
        Inl e \<Rightarrow> Inl e
      | Inr stamp \<Rightarrow>
          (let fld = opt_member ev;
               t = if_truthy stamp (br_time b) [];
               agent = js_or (js_or_else (fld ''agent'') (fld ''source'')) (JStr []);
               ty = js_or (fld ''event_type'') (JStr []);
               desc = js_or (js_or_else (fld ''description'') (fld ''message''))
                 (JStr (esc b (Some (JStr (stringify (br_num b) (js_or (fld ''data'') (JStr [])))))));
               sevColor = if_truthy (fld ''severity'') (\<lambda>s. color_of b SEVERITY_COLORS s []) [] in
           map_sum id
             (\<lambda>who.
                div_of ''event-row''
                  (line_sep 6 @ span_of ''event-time label-mono'' t @
                   line_sep 6 @ span_of ''event-agent label-mono'' (esc b (Some (JStr who))) @
                   line_sep 6 @ elem ''span'' [(''class'', ''event-type label-mono''), (''style'', ''color:'' @ sevColor)] (esc b (Some ty)) @
                   line_sep 6 @ span_of ''event-desc'' (take 200 (esc b (Some desc))) @
                   line_sep 4))
             (upper agent)))"

definition renderActivityStream :: "browser \<Rightarrow> effect" where
  "renderActivityStream b p =
     with_el ''#activity-stream''
       (attempt
         (refine (pg_severity_filter p) severity_matches
           (refine (pg_type_filter p) type_matches
             (refine (pg_agent_filter p) agent_matches (slot_slice maxActivityEntries (pg_events p)))))
         (\<lambda>filtered.
            if \<not> js_truthy (slot_length filtered) then set_html ''#activity-stream'' (empty_state ''No events'')
            else set_rows ''#activity-stream'' (event_row b) (slot_items filtered))) p"

definition log_row :: "browser \<Rightarrow> json option \<Rightarrow> js_error + string" where
  "log_row b ev =
     (case member ev ''timestamp'' of
        Inl e \<Rightarrow> Inl e
      | Inr stamp \<Rightarrow>
          (let fld = opt_member ev;
               t = if_truthy stamp (br_time b) [];
               agent = js_or (js_or_else (fld ''agent'') (fld ''source'')) (JStr []);
               desc = js_or (js_or_else (js_or_else (fld ''description'') (fld ''message'')) (fld ''event_type'')) (JStr []) in
           map_sum id
             (\<lambda>who.
                div_of ''log-line''
                  (line_sep 6 @ span_of ''log-time'' t @
                   line_sep 6 @ span_of ''log-agent'' (esc b (Some (JStr who))) @
                   line_sep 6 @ span_of ''log-msg'' (take 300 (esc b (Some desc))) @
                   line_sep 4))
             (upper agent)))"

text \<open>\<open>JSON.stringify(e).toLowerCase().includes(search)\<close>; \<open>JSON.stringify(undefined)\<close> is \<open>undefined\<close>.\<close>

definition text_matches :: "browser \<Rightarrow> string \<Rightarrow> json option \<Rightarrow> js_error + bool" where
  "text_matches b search e =
     (case e of None \<Rightarrow> Inl TypeError | Some j \<Rightarrow> Inr (sublist search (toLowerCase (stringify (br_num b) j))))"

definition renderLiveLog :: "browser \<Rightarrow> effect" where
  "renderLiveLog b p =
     with_el ''#live-log''
       (attempt (slot_slice 100 (pg_events p)) (\<lambda>events.
          if \<not> js_truthy (slot_length events) then set_html ''#live-log'' (empty_state ''No activity'')
          else
            attempt (refine (toLowerCase (pg_search p)) (text_matches b) (Inr events)) (\<lambda>filtered.
            attempt (slot_slice 100 filtered) (\<lambda>shown. set_rows ''#live-log'' (log_row b) (slot_items shown))))) p"

section \<open>Hypotheses\<close>

definition no_columns :: "(string \<times> json option list) list" where
  "no_columns = map (\<lambda>s. (s, [])) HYPOTHESIS_STATES"

definition append_to :: "string \<Rightarrow> 'a \<Rightarrow> (string \<times> 'a list) list \<Rightarrow> (string \<times> 'a list) list" where
  "append_to k x cols = map (\<lambda>(c, xs). (c, if c = k then xs @ [x] else xs)) cols"

text \<open>\<open>columns[k]\<close> of a key all objects inherit is not a list and has no \<open>push\<close>.\<close>

fun fill_columns :: "browser \<Rightarrow> json option list \<Rightarrow> (string \<times> json option list) list \<Rightarrow> js_error + (string \<times> json option list) list" where
  "fill_columns b [] cols = Inr cols"
| "fill_columns b (h # hs) cols =
     (case member h ''lifecycle'' of
        Inl e \<Rightarrow> Inl e
      | Inr v \<Rightarrow>
          (let k = js_text (br_num b) (Some (js_or v (JStr ''created''))) in
           if k \<in> set (map fst cols) then fill_columns b hs (append_to k h cols)
           else if inherited k then Inl TypeError
           else fill_columns b hs (append_to ''created'' h cols)))"

definition hyp_card :: "browser \<Rightarrow> json option \<Rightarrow> js_error + string" where
  "hyp_card b h =
     map_sum id
       (\<lambda>confidence.
          let conf = percent b confidence; i = esc b (opt_member h ''id'') in
          elem ''div'' [(''class'', ''hyp-card''), (''data-hyp'', i)]
            (line_sep 12 @ div_of ''hyp-id label-mono'' i @
             line_sep 12 @ div_of ''hyp-title'' (esc b (Some (js_or (opt_member h ''title'') (JStr ''Untitled'')))) @
             line_sep 12 @ div_of ''hyp-meta''
               (line_sep 14 @ span_of ''label-mono'' (conf @ ''%'') @
                line_sep 14 @ elem ''span'' [] (esc b (Some (js_or (opt_member h ''created_by'') (JStr [])))) @
                line_sep 12) @
             line_sep 10))
       (member h ''confidence'')"

definition column_html :: "browser \<Rightarrow> string \<times> json option list \<Rightarrow> js_error + string" where
  "column_html b col =
     (let (name, items) = col; color = color_of b HYPOTHESIS_COLORS (Some (JStr name)) ''#555'' in
      map_sum id
        (\<lambda>cards.
           div_of ''kanban-col''
             (line_sep 6 @ elem ''div'' [(''class'', ''kanban-header''), (''style'', ''border-color:'' @ color)]
                (line_sep 8 @ span_of ''kanban-title'' (toUpperCase name) @
                 line_sep 8 @ span_of ''kanban-count label-mono'' (count_text b (length items)) @ line_sep 6) @
              line_sep 6 @ div_of ''kanban-body'' (line_sep 8 @ concat cards @ line_sep 6) @
              line_sep 4))
        (try_map (hyp_card b) items))"

definition renderHypothesisBoard :: "browser \<Rightarrow> effect" where
  "renderHypothesisBoard b p =
     with_el ''#hypothesis-board''
       (attempt (slot_iterate (pg_hypotheses p)) (\<lambda>hs.
        attempt (fill_columns b hs no_columns) (\<lambda>cols.
        attempt (try_map (column_html b) cols) (\<lambda>html. set_html ''#hypothesis-board'' (concat html))))) p"

section \<open>Findings\<close>

text \<open>The three groups, in the order of the list.\<close>

definition finding_group :: "json option \<Rightarrow> string" where
  "finding_group status =
     (if status = Some (JStr ''validated'') \<or> status = Some (JStr ''confirmed'') then ''validated''
      else if status = Some (JStr ''rejected'') then ''rejected'' else ''potential'')"

definition group_findings :: "json option list \<Rightarrow> js_error + (string \<Rightarrow> json option list)" where
  "group_findings fs =
     map_sum id (\<lambda>_ k. filter (\<lambda>f. finding_group (opt_member f ''status'') = k) fs) (try_map (\<lambda>f. member f ''status'') fs)"

text \<open>The severity is written as it is.\<close>

definition finding_card :: "browser \<Rightarrow> json option \<Rightarrow> js_error + string" where
  "finding_card b f =
     (case member f ''severity'' of
        Inl e \<Rightarrow> Inl e
      | Inr s \<Rightarrow>
          (let sev = js_or s (JStr ''info'');
               sevColor = color_of b SEVERITY_COLORS (Some sev) ''#555'';
               conf = percent b (opt_member f ''confidence'') in
           map_sum id
             (\<lambda>shown.
                elem ''div'' [(''class'', ''finding-card''), (''data-finding'', esc b (opt_member f ''id'')),
                            (''style'', ''border-left:3px solid '' @ sevColor)]
                  (line_sep 10 @ div_of ''finding-header''
                     (line_sep 12 @ elem ''span'' [(''class'', ''finding-sev label-mono''), (''style'', ''color:'' @ sevColor)] shown @
                      line_sep 12 @ span_of ''finding-title'' (esc b (Some (js_or (opt_member f ''title'') (JStr ''Untitled'')))) @
                      line_sep 10) @
                   line_sep 10 @ div_of ''finding-meta''
                     (line_sep 12 @ span_of ''label-mono'' (conf @ ''%'') @
                      line_sep 12 @ elem ''span'' [] (esc b (Some (js_or (opt_member f ''affected_component'') (JStr [])))) @
                      line_sep 10) @
                   line_sep 8))
             (upper sev)))"

definition render_group :: "browser \<Rightarrow> string \<Rightarrow> json option list \<Rightarrow> js_error + string" where
  "render_group b title items =
     (if items = [] then Inr []
      else map_sum id
        (\<lambda>cards.
           div_of ''findings-group''
             (line_sep 6 @ div_of ''findings-group-header''
                (elem ''span'' [] title @ span_of ''label-mono'' (count_text b (length items))) @
              line_sep 6 @ concat cards @
              line_sep 4))
        (try_map (finding_card b) items))"

definition renderFindings :: "browser \<Rightarrow> effect" where
  "renderFindings b p =
     with_el ''#findings-list''
       (if \<not> js_truthy (slot_length (pg_findings p)) then set_html ''#findings-list'' (empty_state ''No findings yet'')
        else
          attempt (slot_iterate (pg_findings p)) (\<lambda>fs.
          attempt (group_findings fs) (\<lambda>groups.
          attempt (try_map (\<lambda>(title, k). render_group b title (groups k))
                     [(''Validated'', ''validated''), (''Potential'', ''potential''), (''Rejected'', ''rejected'')])
            (\<lambda>html. set_html ''#findings-list'' (concat html))))) p"

section \<open>Tasks\<close>

definition STATUS_COLORS :: "(string \<times> string) list" where
  "STATUS_COLORS =
     [(''pending'', ''#555''), (''claimed'', ''#4fc3f7''), (''running'', ''#4ade80''), (''blocked'', ''#ef4444''),
      (''completed'', ''#888''), (''failed'', ''#b71c1c''), (''cancelled'', ''#666'')]"

text \<open>The loop that groups the tasks: nothing reads the groups, but it throws on a status every object inherits.\<close>

definition check_status :: "browser \<Rightarrow> json option \<Rightarrow> js_error + unit" where
  "check_status b t =
     (case member t ''status'' of
        Inl e \<Rightarrow> Inl e
      | Inr v \<Rightarrow> if inherited (js_text (br_num b) (Some (js_or v (JStr ''pending'')))) then Inl TypeError else Inr ())"

definition task_row :: "browser \<Rightarrow> nat \<Rightarrow> json option \<Rightarrow> string" where
  "task_row b depth t =
     (let fld = opt_member t; color = color_of b STATUS_COLORS (fld ''status'') ''#555'' in
      elem ''div'' [(''class'', ''task-row''), (''style'', ''margin-left:'' @ count_text b (depth * 20) @ ''px'')]
        (line_sep 6 @ elem ''span'' [(''class'', ''task-dot''), (''style'', ''background:'' @ color)] [] @
         line_sep 6 @ span_of ''task-id label-mono'' (esc b (fld ''id'')) @
         line_sep 6 @ span_of ''task-status label-mono'' (esc b (fld ''status'')) @
         line_sep 6 @ span_of ''task-target'' (esc b (Some (js_or (fld ''target'') (JStr [])))) @
         line_sep 6 @ span_of ''task-owner'' (esc b (Some (js_or (fld ''owner'') (JStr ''unassigned'')))) @
         line_sep 4))"

definition is_child_of :: "json option \<Rightarrow> json option \<Rightarrow> bool" where
  "is_child_of t c = strict_eq (opt_member c ''parent_task'') (opt_member t ''id'')"

text \<open>
  \<open>renderTree\<close>: the tasks in the order of their rows, with their depth; the number bounds how deep the calls can nest.
\<close>

primrec tree_rows :: "nat \<Rightarrow> json option list \<Rightarrow> nat \<Rightarrow> json option \<Rightarrow> js_error + (nat \<times> json option) list" where
  "tree_rows 0 children depth t = Inl RangeError"
| "tree_rows (Suc n) children depth t =
     map_sum id (\<lambda>rows. (depth, t) # concat rows) (try_map (tree_rows n children (Suc depth)) (filter (is_child_of t) children))"

definition has_parent :: "json option \<Rightarrow> bool" where
  "has_parent t = js_truthy (opt_member t ''parent_task'')"

definition task_tree :: "browser \<Rightarrow> json option list \<Rightarrow> js_error + (nat \<times> json option) list" where
  "task_tree b ts =
     map_sum id concat (try_map (tree_rows (br_frames b) (filter has_parent ts) 0) (filter (\<lambda>t. \<not> has_parent t) ts))"

definition renderTaskGraph :: "browser \<Rightarrow> effect" where
  "renderTaskGraph b p =
     with_el ''#view-tasks .view-body''
       (if \<not> js_truthy (slot_length (pg_tasks p)) then set_html ''#view-tasks .view-body'' (empty_state ''No tasks created'')
        else
          attempt (slot_iterate (pg_tasks p)) (\<lambda>ts.
          attempt (try_map (check_status b) ts) (\<lambda>_.
          attempt (slot_items (pg_tasks p)) (\<lambda>_.
          attempt (task_tree b ts) (\<lambda>rows.
            set_html ''#view-tasks .view-body'' (concat (map (\<lambda>(d, t). task_row b d t) rows))))))) p"

definition renderAll :: "browser \<Rightarrow> effect" where
  "renderAll b =
     seq [renderAgentList b, renderActivityStream b, renderLiveLog b, renderHypothesisBoard b, renderFindings b,
          renderTaskGraph b, renderGraph b, renderStats b]"

section \<open>Details\<close>

text \<open>\<open>$('#view-live .view-body') || $('#center-panel')\<close>\<close>

definition detail_target :: "page \<Rightarrow> string" where
  "detail_target p = (if has_el p ''#view-live .view-body'' then ''#view-live .view-body'' else ''#center-panel'')"

definition show_detail :: "string \<Rightarrow> effect" where
  "show_detail h p = with_el (detail_target p) (set_html (detail_target p) h) p"

definition detail_field :: "string \<Rightarrow> string \<Rightarrow> string" where
  "detail_field label body = line_sep 8 @ div_of ''detail-field'' (elem ''label'' [] label @ body)"

definition detail_section :: "string \<Rightarrow> string \<Rightarrow> string" where
  "detail_section title body =
     line_sep 6 @ div_of ''detail-section'' (line_sep 8 @ elem ''h3'' [] title @ line_sep 8 @ body @ line_sep 6)"

text \<open>\<open>text || d\<close>\<close>

definition text_or :: "string \<Rightarrow> string \<Rightarrow> string" where
  "text_or t d = (if t = [] then d else t)"

text \<open>\<open>v || 0\<close> in a template.\<close>

definition or_zero :: "browser \<Rightarrow> json option \<Rightarrow> string" where
  "or_zero b v = js_text (br_num b) (Some (js_or v (JNum 0)))"

definition named :: "string \<Rightarrow> json option \<Rightarrow> json option \<Rightarrow> js_error + bool" where
  "named k v x = map_sum id (\<lambda>w. strict_eq w v) (member x k)"

definition observation_row :: "browser \<Rightarrow> json option \<Rightarrow> string" where
  "observation_row b e =
     div_of ''detail-event''
       (span_of ''label-mono'' (br_time b (opt_member e ''timestamp'')) @ '' '' @
        esc b (js_or_else (opt_member e ''description'') (opt_member e ''event_type'')))"

definition agent_detail :: "browser \<Rightarrow> json option \<Rightarrow> json option list \<Rightarrow> string" where
  "agent_detail b a events =
     (let fld = opt_member a; color = color_of b AGENT_COLORS (fld ''status'') ''#555'';
          mono = span_of ''label-mono''; plain = elem ''span'' [] in
      div_of ''detail-view''
        (line_sep 6 @ div_of ''detail-header''
           (line_sep 8 @ elem ''span'' [(''class'', ''agent-dot''), (''style'', ''background:'' @ color)] [] @
            line_sep 8 @ elem ''h2'' [(''class'', ''label-mono'')] (esc b (fld ''name'')) @
            line_sep 8 @ elem ''span'' [(''class'', ''label-mono''), (''style'', ''color:'' @ color)] (esc b (fld ''status'')) @
            line_sep 6) @
         line_sep 6 @ div_of ''detail-grid''
           (detail_field ''Current task'' (plain (if_truthy (fld ''current_task'') (esc b) dash)) @
            detail_field ''Model'' (mono (if_truthy (fld ''model'') (esc b) dash)) @
            detail_field ''Started'' (mono (if_truthy (fld ''started_at'') (br_time b) dash)) @
            detail_field ''Tasks completed'' (mono (or_zero b (fld ''tasks_completed''))) @
            detail_field ''Token usage'' (mono (or_zero b (fld ''token_usage''))) @
            line_sep 6) @
         detail_section ''Recent observations''
           (text_or (concat (map (observation_row b) events)) (empty_state ''No events'')) @
         line_sep 4))"

text \<open>\<open>xs.find(p)\<close> and the events that pass a test.\<close>

definition find_in :: "slot \<Rightarrow> (json option \<Rightarrow> js_error + bool) \<Rightarrow> js_error + json option" where
  "find_in s pr =
     (case slot_items s of
        Inl e \<Rightarrow> Inl e
      | Inr xs \<Rightarrow> map_sum id (\<lambda>r. case r of None \<Rightarrow> None | Some (_, x) \<Rightarrow> x) (try_find pr xs))"

definition showAgentDetail :: "browser \<Rightarrow> string \<Rightarrow> effect" where
  "showAgentDetail b name p =
     attempt (find_in (pg_agents p) (named ''name'' (Some (JStr name)))) (\<lambda>agent.
       if \<not> js_truthy agent then seq []
       else attempt (filter_slot (named ''agent'' (Some (JStr name))) (pg_events p))
              (\<lambda>events. show_detail (agent_detail b agent (take 20 events)))) p"

definition timeline_item :: "browser \<Rightarrow> json option \<Rightarrow> string" where
  "timeline_item b e =
     div_of ''timeline-item''
       (span_of ''label-mono'' (br_time b (opt_member e ''timestamp'')) @ '' '' @
        elem ''span'' [] (esc b (opt_member e ''event_type'')) @ '' '' @
        elem ''span'' [] (esc b (Some (js_or (opt_member e ''description'') (JStr [])))))"

text \<open>\<open>[...new Set(..)]\<close>: objects are never the same.\<close>

fun unique :: "json option list \<Rightarrow> json option list \<Rightarrow> json option list" where
  "unique seen [] = []"
| "unique seen (x # xs) =
     (if \<exists>y \<in> set seen. strict_eq y x then unique seen xs else x # unique (x # seen) xs)"

definition hypothesis_detail :: "browser \<Rightarrow> json option \<Rightarrow> json option list \<Rightarrow> string" where
  "hypothesis_detail b h events =
     (let fld = opt_member h; key = js_text (br_num b) (fld ''lifecycle'');
          color = (case map_of HYPOTHESIS_COLORS key of Some c \<Rightarrow> c
                   | None \<Rightarrow> if inherited key then br_native b key else ''undefined'');
          agents = unique [] (map (\<lambda>e. opt_member e ''agent'') events);
          or_dash = (\<lambda>k. if_truthy (fld k) (esc b) dash) in
      div_of ''detail-view''
        (line_sep 6 @ div_of ''detail-header''
           (line_sep 8 @ elem ''h2'' [(''class'', ''label-mono'')] (esc b (fld ''id'')) @
            line_sep 8 @ elem ''span'' [(''style'', ''color:'' @ color)] (esc b (fld ''lifecycle'')) @
            line_sep 8 @ span_of ''label-mono'' (percent b (fld ''confidence'') @ ''%'') @
            line_sep 6) @
         line_sep 6 @ div_of ''detail-grid''
           (detail_field ''Title'' (elem ''span'' [] (esc b (fld ''title''))) @
            detail_field ''Created by'' (elem ''span'' [] (or_dash ''created_by'')) @
            detail_field ''Impact'' (elem ''span'' [] (or_dash ''potential_impact'')) @
            line_sep 6) @
         detail_section ''Evidence'' (elem ''pre'' [] (esc b (Some (JStr (pretty (br_num b) 0 (js_or (fld ''evidence'') (JArr []))))))) @
         detail_section ''Expected behavior'' (elem ''p'' [] (or_dash ''expected_behavior'')) @
         detail_section ''Observed behavior'' (elem ''p'' [] (or_dash ''observed_behavior'')) @
         detail_section ''Related agents''
           (elem ''p'' [] (text_or (join '', '' (map (\<lambda>a. span_of ''label-mono'' (esc b a)) agents)) ''None'')) @
         detail_section ''Timeline''
           (text_or (concat (map (timeline_item b) events)) (empty_state ''No timeline events'')) @
         line_sep 4))"

definition showHypothesisDetail :: "browser \<Rightarrow> string \<Rightarrow> effect" where
  "showHypothesisDetail b i p =
     attempt (find_in (pg_hypotheses p) (named ''id'' (Some (JStr i)))) (\<lambda>h.
       if \<not> js_truthy h then seq []
       else attempt (filter_slot (named ''hypothesis'' (Some (JStr i))) (pg_events p))
              (\<lambda>events. show_detail (hypothesis_detail b h events))) p"

end
