(* ===== verification/Console_App.thy ===== *)
theory Console_App
  imports Console_Render
begin

text \<open>
  The page at work (\<open>public/js/app.js\<close>): messages of the web socket and the updates they make, views, the command palette,
  the calls to the API, replay, polling and the timers. A browser event is a step of the page; what the server answers is an
  argument of the step that handles the answer.
\<close>

section \<open>Updates\<close>

definition addEvent :: "browser \<Rightarrow> json option \<Rightarrow> effect" where
  "addEvent b ev p =
     attempt (slot_items (pg_events p)) (\<lambda>xs.
       let ys = ev # xs; zs = (if length ys > maxLogEntries then butlast ys else ys) in
       seq [assign (\<lambda>p. p\<lparr>pg_events := Items zs\<rparr>), renderActivityStream b, renderLiveLog b, renderStats b]) p"

text \<open>
  \<open>xs.findIndex(x => x.k === data.k)\<close>, then either \<open>xs[i] = { ...xs[i], ...data }\<close> or \<open>xs.push(data)\<close>. The test reads \<open>x\<close>
  first, then \<open>data\<close>; on an empty list it is not run.
\<close>

definition same_key :: "string \<Rightarrow> json option \<Rightarrow> json option \<Rightarrow> js_error + bool" where
  "same_key k data x =
     (case member x k of Inl e \<Rightarrow> Inl e | Inr v \<Rightarrow> map_sum id (\<lambda>w. strict_eq v w) (member data k))"

definition upsert :: "string \<Rightarrow> json option \<Rightarrow> slot \<Rightarrow> js_error + slot" where
  "upsert k data s =
     (case slot_items s of
        Inl e \<Rightarrow> Inl e
      | Inr xs \<Rightarrow>
          map_sum id
            (\<lambda>r. Items (case r of
                          Some (i, x) \<Rightarrow> xs[i := Some (JObj (spread (spread [] (own_fields x)) (own_fields data)))]
                        | None \<Rightarrow> xs @ [data]))
            (try_find (same_key k data) xs))"

definition updateAgent :: "browser \<Rightarrow> json option \<Rightarrow> effect" where
  "updateAgent b data p =
     attempt (upsert ''name'' data (pg_agents p))
       (\<lambda>s. seq [assign (\<lambda>p. p\<lparr>pg_agents := s\<rparr>), renderAgentList b, renderStats b]) p"

definition updateHypothesis :: "browser \<Rightarrow> json option \<Rightarrow> effect" where
  "updateHypothesis b data p =
     attempt (upsert ''id'' data (pg_hypotheses p))
       (\<lambda>s. seq [assign (\<lambda>p. p\<lparr>pg_hypotheses := s\<rparr>), renderHypothesisBoard b, renderStats b]) p"

definition updateFinding :: "browser \<Rightarrow> json option \<Rightarrow> effect" where
  "updateFinding b data p =
     attempt (upsert ''id'' data (pg_findings p))
       (\<lambda>s. seq [assign (\<lambda>p. p\<lparr>pg_findings := s\<rparr>), renderFindings b, renderStats b]) p"

definition updateTask :: "browser \<Rightarrow> json option \<Rightarrow> effect" where
  "updateTask b data p =
     attempt (upsert ''id'' data (pg_tasks p))
       (\<lambda>s. seq [assign (\<lambda>p. p\<lparr>pg_tasks := s\<rparr>), renderTaskGraph b, renderStats b]) p"

section \<open>Messages\<close>

text \<open>\<open>msg.data?.k || d\<close>\<close>

definition data_or :: "json option \<Rightarrow> string \<Rightarrow> json \<Rightarrow> json" where
  "data_or data k d = js_or (opt_member data k) d"

definition take_snapshot :: "json option \<Rightarrow> page \<Rightarrow> page" where
  "take_snapshot data p =
     p\<lparr>pg_agents := slot_of (data_or data ''agents'' (JArr [])),
       pg_hypotheses := slot_of (data_or data ''hypotheses'' (JArr [])),
       pg_findings := slot_of (data_or data ''findings'' (JArr [])),
       pg_tasks := slot_of (data_or data ''tasks'' (JArr [])),
       pg_graph := data_or data ''graph'' no_graph,
       pg_scope := data_or data ''scope'' (JObj []),
       pg_costs := data_or data ''costs'' (JObj []),
       pg_runtime := data_or data ''runtime'' (JNum 0),
       pg_events := slot_of (data_or data ''recent_events'' (JArr []))\<rparr>"

definition handleMessage :: "browser \<Rightarrow> json \<Rightarrow> effect" where
  "handleMessage b msg p =
     attempt (member (Some msg) ''type'') (\<lambda>ty.
       let data = json_field msg ''data'' in
       if ty = Some (JStr ''status_snapshot'') then seq [assign (take_snapshot data), renderAll b]
       else if ty = Some (JStr ''event'') then addEvent b data
       else if ty = Some (JStr ''agent_update'') then updateAgent b data
       else if ty = Some (JStr ''hypothesis_update'') then updateHypothesis b data
       else if ty = Some (JStr ''finding_update'') then updateFinding b data
       else if ty = Some (JStr ''task_update'') then updateTask b data
       else if ty = Some (JStr ''graph_update'') then seq [assign (\<lambda>p. p\<lparr>pg_graph := js_or data no_graph\<rparr>), renderGraph b]
       else if ty = Some (JStr ''cost_update'') then seq [assign (\<lambda>p. p\<lparr>pg_costs := js_or data (JObj [])\<rparr>), renderStats b]
       else if ty = Some (JStr ''scope_update'') then assign (\<lambda>p. p\<lparr>pg_scope := js_or data (JObj [])\<rparr>)
       else seq []) p"

text \<open>The handler of the socket catches what \<open>JSON.parse\<close> and \<open>handleMessage\<close> throw.\<close>

definition onmessage :: "browser \<Rightarrow> json_text \<Rightarrow> page \<Rightarrow> page" where
  "onmessage b raw p = fst (attempt (parse_json raw) (handleMessage b) p)"

definition connectWS :: effect where
  "connectWS = assign (\<lambda>p. p\<lparr>pg_sockets := pg_sockets p + 1\<rparr>)"

definition onopen :: effect where
  "onopen = seq [assign (\<lambda>p. p\<lparr>pg_connected := True\<rparr>), add_class ''#status-indicator'' ''connected'']"

text \<open>Three seconds later \<open>connectWS\<close> runs again; \<open>pg_reconnects\<close> counts the timers that are set.\<close>

definition onclose :: effect where
  "onclose =
     seq [assign (\<lambda>p. p\<lparr>pg_connected := False\<rparr>), remove_class ''#status-indicator'' ''connected'',
          assign (\<lambda>p. p\<lparr>pg_reconnects := pg_reconnects p + 1\<rparr>)]"

definition on_reconnect :: effect where
  "on_reconnect p =
     (if pg_reconnects p = 0 then (p, None) else seq [assign (\<lambda>p. p\<lparr>pg_reconnects := pg_reconnects p - 1\<rparr>), connectWS] p)"

section \<open>Views\<close>

definition VIEWS :: "string list" where
  "VIEWS = [''live'', ''graph'', ''hypotheses'', ''tasks'', ''findings'']"

definition view_el :: "string \<Rightarrow> string" where
  "view_el v = ''#view-'' @ v"

definition tab_el :: "string \<Rightarrow> string" where
  "tab_el v = ''.tab-btn['' @ v @ '']''"

definition nav_el :: "string \<Rightarrow> string" where
  "nav_el v = ''.nav-drawer-item['' @ v @ '']''"

text \<open>\<open>$$(..).forEach(remove)\<close> over the elements that are in the page, and \<open>if (e) e.classList.add(c)\<close>.\<close>

definition remove_everywhere :: "(string \<Rightarrow> string) \<Rightarrow> string \<Rightarrow> effect" where
  "remove_everywhere el c = seq (map (\<lambda>v. with_el (el v) (remove_class (el v) c)) VIEWS)"

definition closeNavDrawer :: effect where
  "closeNavDrawer = seq [remove_class ''#nav-drawer'' ''open'', remove_class ''#nav-drawer-backdrop'' ''active'']"

definition openNavDrawer :: effect where
  "openNavDrawer = seq [add_class ''#nav-drawer'' ''open'', add_class ''#nav-drawer-backdrop'' ''active'']"

text \<open>The attributes \<open>aria-hidden\<close> and \<open>aria-selected\<close> are set with the class and follow it.\<close>

definition switchView :: "browser \<Rightarrow> string \<Rightarrow> effect" where
  "switchView b view =
     seq [assign (\<lambda>p. p\<lparr>pg_view := view\<rparr>),
          remove_everywhere view_el ''view-active'', with_el (view_el view) (add_class (view_el view) ''view-active''),
          remove_everywhere tab_el ''active'', with_el (tab_el view) (add_class (tab_el view) ''active''),
          remove_everywhere nav_el ''active'', with_el (nav_el view) (add_class (nav_el view) ''active''),
          (if view = ''graph'' then renderGraph b else seq []),
          (if view = ''hypotheses'' then renderHypothesisBoard b else seq []),
          (if view = ''findings'' then renderFindings b else seq []),
          (if view = ''tasks'' then renderTaskGraph b else seq []),
          closeNavDrawer]"

section \<open>Calls to the API\<close>

text \<open>
  The answer to \<open>fetch(..).json()\<close>: \<open>None\<close> stands for \<open>null\<close>, after a failure. A command sends the request; its effect comes
  with the answer.
\<close>

definition fetchAndShowCost :: "browser \<Rightarrow> json option \<Rightarrow> effect" where
  "fetchAndShowCost b data =
     (if \<not> js_truthy data then seq []
      else with_el ''#view-live .view-body''
        (attempt (fmtCost b (opt_member data ''total_cost'')) (\<lambda>cost.
          set_html ''#view-live .view-body''
            (div_of ''detail-view''
              (line_sep 8 @ elem ''h2'' [] ''Cost Breakdown'' @
               line_sep 8 @ div_of ''detail-grid''
                 (line_sep 10 @ div_of ''detail-field'' (elem ''label'' [] ''Total cost'' @ span_of ''label-mono'' cost) @
                  line_sep 10 @ div_of ''detail-field''
                    (elem ''label'' [] ''Total tokens'' @ span_of ''label-mono'' (or_zero b (opt_member data ''total_tokens''))) @
                  line_sep 8) @
               line_sep 8 @ elem ''pre'' [] (esc b (Some (JStr (pretty (br_num b) 0 (the data))))) @
               line_sep 6)))))"

definition fetchAndShowScope :: "browser \<Rightarrow> json option \<Rightarrow> effect" where
  "fetchAndShowScope b data =
     (if \<not> js_truthy data then seq []
      else with_el ''#view-live .view-body''
        (set_html ''#view-live .view-body''
          (div_of ''detail-view''
            (line_sep 8 @ elem ''h2'' [] ''Scope'' @
             line_sep 8 @ elem ''pre'' [] (esc b (Some (JStr (pretty (br_num b) 0 (the data))))) @
             line_sep 6))))"

section \<open>Replay\<close>

definition on_replay :: "(replay_state \<Rightarrow> replay_state) \<Rightarrow> page \<Rightarrow> page" where
  "on_replay f p = p\<lparr>pg_replay := f (pg_replay p)\<rparr>"

definition clear_interval :: "nat option \<Rightarrow> page \<Rightarrow> page" where
  "clear_interval t p = (case t of None \<Rightarrow> p | Some k \<Rightarrow> p\<lparr>pg_intervals := filter (\<lambda>i. i \<noteq> k) (pg_intervals p)\<rparr>)"

text \<open>\<open>toggleReplay\<close> up to its request; whether it asks the server.\<close>

definition toggleReplay :: "page \<Rightarrow> page \<times> bool" where
  "toggleReplay p =
     (if ry_active (pg_replay p)
      then (on_replay (\<lambda>r. r\<lparr>ry_active := False, ry_timer := None\<rparr>) (clear_interval (ry_timer (pg_replay p)) p), False)
      else (p, True))"

text \<open>The answer to the request; the interval is made even when another one runs.\<close>

definition replay_answer :: "browser \<Rightarrow> json option \<Rightarrow> effect" where
  "replay_answer b data p =
     (if \<not> js_truthy (opt_member data ''events'') then (p, None)
      else
        attempt (case opt_member data ''events'' of Some (JArr xs) \<Rightarrow> Inr (rev xs) | _ \<Rightarrow> Inl TypeError) (\<lambda>events.
          seq [assign (\<lambda>p. on_replay (\<lambda>r. r\<lparr>ry_events := events, ry_index := 0, ry_active := True\<rparr>) (p\<lparr>pg_events := Items []\<rparr>)),
               renderAll b,
               assign (\<lambda>p. let k = pg_fresh p in
                 on_replay (\<lambda>r. r\<lparr>ry_timer := Some k\<rparr>) (p\<lparr>pg_intervals := k # pg_intervals p, pg_fresh := k + 1\<rparr>))]) p)"

definition replay_tick :: "browser \<Rightarrow> effect" where
  "replay_tick b p =
     (let r = pg_replay p in
      if length (ry_events r) \<le> ry_index r
      then (on_replay (\<lambda>r. r\<lparr>ry_active := False\<rparr>) (clear_interval (ry_timer r) p), None)
      else seq [addEvent b (Some (ry_events r ! ry_index r)), assign (on_replay (\<lambda>r. r\<lparr>ry_index := ry_index r + 1\<rparr>))] p)"

section \<open>Command palette\<close>

datatype action = Switch string | Show_costs | Show_scope | Toggle_replay

definition COMMANDS :: "(string \<times> action) list" where
  "COMMANDS =
     [(''Live Investigation'', Switch ''live''), (''Security Graph'', Switch ''graph''),
      (''Hypothesis Board'', Switch ''hypotheses''), (''Task Graph'', Switch ''tasks''), (''Findings'', Switch ''findings''),
      (''Show Costs'', Show_costs), (''Show Scope'', Show_scope), (''Toggle Replay'', Toggle_replay)]"

text \<open>What an action does before it waits for the server.\<close>

definition run_action :: "browser \<Rightarrow> action \<Rightarrow> effect" where
  "run_action b a p =
     (case a of
        Switch v \<Rightarrow> switchView b v p
      | Show_costs \<Rightarrow> (p, None)
      | Show_scope \<Rightarrow> (p, None)
      | Toggle_replay \<Rightarrow> (fst (toggleReplay p), None))"

definition palette_matches :: "string \<Rightarrow> (string \<times> action) list" where
  "palette_matches query = filter (\<lambda>(name, _). sublist (toLowerCase query) (toLowerCase name)) COMMANDS"

text \<open>The items keep their index in the list of matches, which is what \<open>pg_palette\<close> records.\<close>

definition renderPaletteResults :: "browser \<Rightarrow> string \<Rightarrow> effect" where
  "renderPaletteResults b query =
     (let matches = palette_matches query in
      if matches = []
      then seq [set_html ''#palette-results'' (div_of ''palette-empty'' ''No matching commands''),
                assign (\<lambda>p. p\<lparr>pg_palette := []\<rparr>)]
      else seq [set_html ''#palette-results''
                  (concat (map (\<lambda>(i, name, _). elem ''div'' [(''class'', ''palette-item''), (''data-idx'', nat_to_string i)]
                                                (esc b (Some (JStr name))))
                            (List.enumerate 0 matches))),
                assign (\<lambda>p. p\<lparr>pg_palette := [0..<length matches]\<rparr>)])"

definition openCommandPalette :: "browser \<Rightarrow> effect" where
  "openCommandPalette b =
     seq [add_class ''#palette-backdrop'' ''active'', add_class ''#command-palette'' ''active'', renderPaletteResults b []]"

definition closeCommandPalette :: effect where
  "closeCommandPalette = seq [remove_class ''#palette-backdrop'' ''active'', remove_class ''#command-palette'' ''active'']"

definition palette_action :: "nat \<Rightarrow> js_error + action" where
  "palette_action i = (if i < length COMMANDS then Inr (snd (COMMANDS ! i)) else Inl TypeError)"

text \<open>A click on the item at some place of the list; the key Enter clicks the first one.\<close>

definition palette_click :: "browser \<Rightarrow> nat \<Rightarrow> effect" where
  "palette_click b place p =
     (if length (pg_palette p) \<le> place then (p, None)
      else attempt (palette_action (pg_palette p ! place)) (\<lambda>a. seq [run_action b a, closeCommandPalette]) p)"

definition on_key :: "browser \<Rightarrow> bool \<Rightarrow> string \<Rightarrow> effect" where
  "on_key b ctrl key =
     seq [(if ctrl \<and> key = ''k'' then openCommandPalette b else seq []),
          (if key = ''Escape'' then seq [closeCommandPalette, closeNavDrawer] else seq [])]"

section \<open>Timers and start\<close>

definition on_search :: "browser \<Rightarrow> string \<Rightarrow> effect" where
  "on_search b v = seq [assign (\<lambda>p. p\<lparr>pg_search := v\<rparr>), renderLiveLog b]"

text \<open>The poll asks for the status when the socket is closed, and handles the answer.\<close>

definition poll_answer :: "browser \<Rightarrow> json option \<Rightarrow> effect" where
  "poll_answer b data =
     (if \<not> js_truthy data then seq []
      else seq
        [assign (\<lambda>p. p\<lparr>pg_agents := slot_of (data_or data ''agents'' (JArr [])),
                       pg_hypotheses := slot_of (data_or data ''hypotheses'' (JArr [])),
                       pg_findings := slot_of (data_or data ''findings'' (JArr [])),
                       pg_tasks := slot_of (data_or data ''tasks'' (JArr [])),
                       pg_costs := data_or data ''costs'' (JObj []),
                       pg_runtime := data_or data ''runtime'' (JNum 0)\<rparr>),
         renderAll b])"

text \<open>\<open>state.graph.nodes.length\<close> throws when there are no \<open>nodes\<close>.\<close>

definition animate :: "browser \<Rightarrow> effect" where
  "animate b p =
     (if pg_view p \<noteq> ''graph'' then (p, None)
      else case json_field (pg_graph p) ''nodes'' of
          None \<Rightarrow> (p, Some TypeError)
        | Some JNull \<Rightarrow> (p, Some TypeError)
        | Some ns \<Rightarrow>
            (case to_number (js_length ns) of Some n \<Rightarrow> if 0 < n then draw b p else (p, None) | None \<Rightarrow> (p, None)))"

text \<open>\<open>init\<close>: the splash screen goes and the socket is opened; the listeners are the steps below.\<close>

definition init_page :: effect where
  "init_page = seq [with_el ''#splash'' (add_class ''#splash'' ''hidden''), connectWS]"

section \<open>Steps\<close>

text \<open>
  The handlers that get nothing from the server, then those that do. An exception that no handler catches ends the handler
  and nothing else.
\<close>

inductive user_step :: "browser \<Rightarrow> page \<Rightarrow> page \<Rightarrow> bool" where
  socket_open: "user_step b p (fst (onopen p))"
| socket_close: "user_step b p (fst (onclose p))"
| socket_again: "user_step b p (fst (on_reconnect p))"
| view: "user_step b p (fst (switchView b v p))"
| drawer_open: "user_step b p (fst (openNavDrawer p))"
| drawer_close: "user_step b p (fst (closeNavDrawer p))"
| key: "user_step b p (fst (on_key b ctrl k p))"
| palette_open: "user_step b p (fst (openCommandPalette b p))"
| palette_close: "user_step b p (fst (closeCommandPalette p))"
| palette_input: "user_step b p (fst (renderPaletteResults b q p))"
| palette_item: "user_step b p (fst (palette_click b place p))"
| search: "has_el p ''#live-search'' \<Longrightarrow> user_step b p (fst (on_search b v p))"
| frame: "user_step b p (fst (animate b p))"
| agent_click: "user_step b p (fst (showAgentDetail b name p))"
| hypothesis_click: "user_step b p (fst (showHypothesisDetail b i p))"
| wheel: "cv_ready (pg_canvas p) \<Longrightarrow> user_step b p (fst (on_wheel b d p))"
| mouse_down: "cv_ready (pg_canvas p) \<Longrightarrow> user_step b p (fst (on_mousedown x y p))"
| mouse_move: "cv_ready (pg_canvas p) \<Longrightarrow> user_step b p (fst (on_mousemove b x y p))"
| mouse_up: "cv_ready (pg_canvas p) \<Longrightarrow> user_step b p (fst (on_mouseup p))"
| canvas_click: "cv_ready (pg_canvas p) \<Longrightarrow> user_step b p (fst (on_canvas_click b x y p))"
| resize: "cv_ready (pg_canvas p) \<Longrightarrow> user_step b p (fst (on_canvas (\<lambda>cv. (resizeCanvas b cv, None)) p))"
| cost: "user_step b p (fst (fetchAndShowCost b data p))"
| scope: "user_step b p (fst (fetchAndShowScope b data p))"

inductive page_step :: "browser \<Rightarrow> page \<Rightarrow> page \<Rightarrow> bool" where
  user: "user_step b p q \<Longrightarrow> page_step b p q"
| message: "page_step b p (onmessage b raw p)"
| poll: "\<not> pg_connected p \<Longrightarrow> page_step b p (fst (poll_answer b data p))"
| replay: "page_step b p (fst (replay_answer b data p))"
| tick: "k \<in> set (pg_intervals p) \<Longrightarrow> page_step b p (fst (replay_tick b p))"

inductive page_reachable :: "page \<Rightarrow> bool" where
  load: "page_reachable (fst (init_page initial_page))"
| step: "page_reachable p \<Longrightarrow> page_step b p q \<Longrightarrow> page_reachable q"

end
