(* ===== verification/Console_Link.thy ===== *)
theory Console_Link
  imports Console_App Web_Server
begin

text \<open>
  The page of \<open>Console_App\<close> connected to the server of \<open>Web_Server\<close>: the messages and the answers of \<open>web-ui/index.ts\<close> as
  the page receives them, and the steps of a page that gets nothing else.
\<close>

section \<open>What the server sends\<close>

text \<open>
  The messages and answers of \<open>web-ui/index.ts\<close> as they arrive: \<open>show\<close> gives the JSON text of a part of the snapshot. The
  route for events throws before it answers, so a replay gets nothing.
\<close>

definition wire :: "(snapshot \<Rightarrow> string \<Rightarrow> json) \<Rightarrow> ws_message \<Rightarrow> json" where
  "wire show m =
     (case m of
        Snapshot_msg s \<Rightarrow>
          JObj ((''type'', JStr ''snapshot'') # map (\<lambda>k. (k, show s k)) [''timestamp'', ''swarm'', ''graph'', ''tasks'', ''scope''])
      | Event_msg ev \<Rightarrow> JObj [(''type'', JStr ''event''), (''event'', ev)])"

definition stamp_field :: "(time \<Rightarrow> string) \<Rightarrow> string \<Rightarrow> time option option \<Rightarrow> (string \<times> json) list" where
  "stamp_field as_text k v = (case v of None \<Rightarrow> [] | Some None \<Rightarrow> [(k, JNull)] | Some (Some t) \<Rightarrow> [(k, JStr (as_text t))])"

definition status_json :: "(time \<Rightarrow> string) \<Rightarrow> api_body \<Rightarrow> json option" where
  "status_json as_text body =
     (case body of
        Status_body sw now \<Rightarrow>
          Some (JObj
            [(''status'', JStr ''operational''),
             (''swarm'', JObj
               ([(''agents'', JNum (of_nat (sw_agents sw))), (''tasks'', JNum (of_nat (sw_tasks sw))),
                 (''hypotheses'', JNum (of_nat (sw_hypotheses sw))), (''findings'', JNum (of_nat (sw_findings sw))),
                 (''totalTokensIn'', JNum (sw_totalTokensIn sw)), (''totalTokensOut'', JNum (sw_totalTokensOut sw)),
                 (''totalCost'', JNum (sw_totalCost sw))] @
                stamp_field as_text ''createdAt'' (sw_createdAt sw) @ stamp_field as_text ''updatedAt'' (sw_updatedAt sw))),
             (''serverTime'', JStr (as_text now))])
      | _ \<Rightarrow> None)"

text \<open>The steps of a page served by this server.\<close>

inductive served_step :: "browser \<Rightarrow> page \<Rightarrow> page \<Rightarrow> bool" where
  user: "user_step b p q \<Longrightarrow> served_step b p q"
| message: "served_step b p (onmessage b (Good_json (wire show m)) p)"
| poll: "\<not> pg_connected p \<Longrightarrow> served_step b p (fst (poll_answer b (status_json as_text (rp_body (api_status now f))) p))"
| no_poll: "served_step b p (fst (poll_answer b None p))"
| no_replay: "served_step b p (fst (replay_answer b None p))"
| tick: "k \<in> set (pg_intervals p) \<Longrightarrow> served_step b p (fst (replay_tick b p))"

inductive served_page :: "page \<Rightarrow> bool" where
  load: "served_page (fst (init_page initial_page))"
| step: "served_page p \<Longrightarrow> served_step b p q \<Longrightarrow> served_page q"

end
