(* ===== verification/Console_Props.thy ===== *)
theory Console_Props
  imports Console_App
begin

text \<open>
  What the handlers of the console's page keep: two interfaces, for relations between the page before and after a handler
  with and without a change of elements, and their instances. The elements that are missing follow from them.
\<close>

section \<open>What rendering changes\<close>

text \<open>The part of the state that holds what the server has sent.\<close>

definition server_data :: "page \<Rightarrow> slot list \<times> json list" where
  "server_data p =
     ([pg_agents p, pg_events p, pg_hypotheses p, pg_findings p, pg_tasks p], [pg_graph p, pg_scope p, pg_costs p, pg_runtime p, JArr (ry_events (pg_replay p))])"

text \<open>The zoom of the graph stays between a tenth and five.\<close>

definition zoomed :: "canvas_state \<Rightarrow> bool" where
  "zoomed cv = (0.1 \<le> cv_scale cv \<and> cv_scale cv \<le> 5)"

definition zoom_kept :: "page \<Rightarrow> page \<Rightarrow> bool" where
  "zoom_kept p q = (zoomed (pg_canvas p) \<longrightarrow> zoomed (pg_canvas q))"

lemma zoom_same [simp]: "cv_scale (pg_canvas q) = cv_scale (pg_canvas p) \<Longrightarrow> zoom_kept p q"
  by (simp add: zoom_kept_def zoomed_def)

lemma node_pos_scale: "cv_scale (fst (getNodePos b i cv)) = cv_scale cv"
  by (simp add: getNodePos_def Let_def split: option.split)

lemma place_nodes_scale: "cv_scale (fst (place_nodes b ns cv)) = cv_scale cv"
  by (induction ns arbitrary: cv) (simp_all add: Let_def case_prod_beta node_pos_scale split: sum.split)

lemma physics_scale: "cv_scale (fst (simulatePhysics b g cv)) = cv_scale cv"
proof (cases "graph_field g ''nodes''")
  case (JArr ns)
  obtain cv1 r where "place_nodes b ns cv = (cv1, r)" by fastforce
  with JArr place_nodes_scale [of b ns cv] show ?thesis
    by (auto simp: simulatePhysics_def settle_def split: sum.split)
qed (simp_all add: simulatePhysics_def)

lemma draw_items_scale: "cv_scale (fst (draw_items f v cv)) = cv_scale cv"
proof -
  have "cv_scale (fst (draw_all f xs cv)) = cv_scale cv" for xs
    by (induction f xs cv rule: draw_all.induct) (auto simp: paint_def split: sum.split)
  then show ?thesis by (simp add: draw_items_def split: sum.split)
qed

lemma canvas_seq_inv:
  "(\<And>f cv. f \<in> set fs \<Longrightarrow> P cv \<Longrightarrow> P (fst (f cv))) \<Longrightarrow> P cv \<Longrightarrow> P (fst (canvas_seq fs cv))"
proof (induction fs arbitrary: cv)
  case (Cons f fs)
  obtain cv1 e where f: "f cv = (cv1, e)" by fastforce
  have "P cv1" using Cons.prems(1) [of f cv] Cons.prems(2) f by simp
  then show ?case using Cons.IH [of cv1] Cons.prems(1) by (cases e) (simp_all add: f)
qed simp

lemma draw_scale: "cv_scale (fst (drawGraph b g cv)) = cv_scale cv"
proof (cases "cv_ready cv")
  case True
  show ?thesis unfolding drawGraph_def not_not if_P [OF True] if_not_P [OF not_not [THEN iffD2, OF True]]
    by (rule canvas_seq_inv)
      (auto simp: save_and_place_def Let_def physics_scale draw_items_scale restore_def split: list.split)
qed (simp add: drawGraph_def)

text \<open>
  A relation between a page and a later one that holds across every write to the document, and whenever neither the data
  nor the document changes and the zoom stays within its bounds, holds across every renderer and every handler that gets nothing from the server.
\<close>

locale page_relation =
  fixes rel :: "page \<Rightarrow> page \<Rightarrow> bool"
  assumes same: "server_data p = server_data q \<Longrightarrow> pg_dom p = pg_dom q \<Longrightarrow> zoom_kept p q \<Longrightarrow> rel p q"
    and trans: "rel p q \<Longrightarrow> rel q r \<Longrightarrow> rel p r"
    and content: "has_el p sel \<Longrightarrow> c \<noteq> As_served \<Longrightarrow> rel p (fst (set_content sel c p))"
begin

lemma rel_refl: "rel p p"
  by (rule same) simp_all

definition ok :: "effect \<Rightarrow> bool" where
  "ok f = (\<forall>p. rel p (fst (f p)))"

lemma okD: "ok f \<Longrightarrow> rel p (fst (f p))"
  by (simp add: ok_def)

lemma ok_seq: "list_all ok fs \<Longrightarrow> ok (seq fs)"
proof (induction fs)
  case (Cons f fs)
  show ?case unfolding ok_def
  proof
    fix p
    obtain q e where fq: "f p = (q, e)" by fastforce
    have "rel p q" using okD [of f p] Cons.prems fq by simp
    moreover have "ok (seq fs)" using Cons by simp
    ultimately show "rel p (fst (seq (f # fs) p))"
      using trans okD by (cases e) (auto simp: fq)
  qed
qed (simp add: ok_def rel_refl)

lemma ok_attempt: "(\<And>x. ok (f x)) \<Longrightarrow> ok (attempt r f)"
  by (cases r) (simp_all add: ok_def rel_refl attempt_def)

lemma ok_with_el: "ok f \<Longrightarrow> ok (with_el sel f)"
  by (simp add: ok_def rel_refl with_el_def)

lemma ok_set_content: "c \<noteq> As_served \<Longrightarrow> ok (set_content sel c)"
  unfolding ok_def
proof
  show "c \<noteq> As_served \<Longrightarrow> rel p (fst (set_content sel c p))" for p
    using content [of p sel c] by (cases "has_el p sel") (simp_all add: set_content_def rel_refl)
qed

lemma ok_text: "ok (set_html sel h)" "ok (set_text sel h)"
  by (simp_all add: set_html_def set_text_def ok_set_content)

lemma ok_class: "ok (add_class sel c)" "ok (remove_class sel c)"
  by (simp_all add: ok_def rel_refl add_class_def remove_class_def same server_data_def)

lemma ok_assign:
  "(\<And>p. server_data p = server_data (f p)) \<Longrightarrow> (\<And>p. pg_dom p = pg_dom (f p)) \<Longrightarrow> (\<And>p. zoom_kept p (f p)) \<Longrightarrow> ok (assign f)"
  by (simp only: ok_def assign_def fst_conv) (blast intro: same)

lemma ok_canvas: "(\<And>cv. cv_scale (fst (f cv)) = cv_scale cv) \<Longrightarrow> ok (on_canvas f)"
  by (auto simp: ok_def on_canvas_def case_prod_beta server_data_def intro!: same)

lemma ok_here: "(\<And>q. ok (f q)) \<Longrightarrow> ok (\<lambda>p. f p p)"
  by (simp add: ok_def rel_refl)

lemma ok_if: "(c \<Longrightarrow> ok f) \<Longrightarrow> (\<not> c \<Longrightarrow> ok g) \<Longrightarrow> ok (if c then f else g)"
  by simp

lemma ok_rows: "ok (set_rows sel row xs)"
  unfolding set_rows_def by (intro ok_attempt ok_text)

lemmas ok_rules = ok_seq ok_attempt ok_with_el ok_text ok_class ok_if ok_rows

lemma rel_stats: "ok (renderStats b)"
  unfolding renderStats_def Let_def by (rule ok_here, intro ok_rules) (simp add: ok_rules)

lemma rel_agents: "ok (renderAgentList b)"
  unfolding renderAgentList_def by (rule ok_here, intro ok_rules)

lemma rel_activity: "ok (renderActivityStream b)"
  unfolding renderActivityStream_def by (rule ok_here, intro ok_rules)

lemma rel_log: "ok (renderLiveLog b)"
  unfolding renderLiveLog_def by (rule ok_here, intro ok_rules)

lemma rel_board: "ok (renderHypothesisBoard b)"
  unfolding renderHypothesisBoard_def by (rule ok_here, intro ok_rules)

lemma rel_findings: "ok (renderFindings b)"
  unfolding renderFindings_def by (rule ok_here, intro ok_rules)

lemma rel_tasks: "ok (renderTaskGraph b)"
  unfolding renderTaskGraph_def by (rule ok_here, intro ok_rules)

lemma rel_draw: "ok (draw b)"
  unfolding draw_def by (rule ok_here, rule ok_canvas) (rule draw_scale)

lemma rel_graph: "ok (renderGraph b)"
  unfolding renderGraph_def by (intro ok_rules) (simp add: rel_draw ok_canvas resizeCanvas_def)

lemmas ok_renderers = rel_stats rel_agents rel_activity rel_log rel_board rel_findings rel_tasks rel_draw rel_graph

lemma rel_all: "ok (renderAll b)"
  unfolding renderAll_def by (intro ok_seq) (simp add: ok_renderers)

lemma rel_detail: "ok (showAgentDetail b name)" "ok (showHypothesisDetail b i)"
  unfolding showAgentDetail_def showHypothesisDetail_def show_detail_def
  by (rule ok_here, intro ok_rules, simp, rule ok_here, intro ok_rules)+

lemmas ok_parts = ok_renderers rel_detail ok_class ok_text

lemma ok_view: "ok (switchView b v)"
  unfolding switchView_def closeNavDrawer_def remove_everywhere_def
  by (intro ok_seq) (simp add: ok_parts ok_seq ok_with_el ok_assign server_data_def list_all_iff)

lemma ok_drawer: "ok openNavDrawer" "ok closeNavDrawer"
  unfolding openNavDrawer_def closeNavDrawer_def by (intro ok_seq, simp add: ok_parts)+

lemma ok_palette: "ok (renderPaletteResults b q)" "ok closeCommandPalette"
  unfolding renderPaletteResults_def closeCommandPalette_def Let_def
  by (intro ok_if ok_seq, simp_all add: ok_parts ok_assign server_data_def)+

lemma ok_open: "ok (openCommandPalette b)"
  unfolding openCommandPalette_def by (intro ok_seq) (simp add: ok_parts ok_palette)

lemma ok_nothing: "ok (seq [])"
  by (simp add: ok_def rel_refl)

lemma ok_key: "ok (on_key b ctrl k)"
  unfolding on_key_def by (intro ok_seq) (simp add: ok_open ok_palette ok_drawer ok_nothing ok_seq)

lemma rel_toggle: "rel p (fst (toggleReplay p))"
  by (rule same) (auto simp: toggleReplay_def on_replay_def clear_interval_def server_data_def split: option.split)

lemma ok_action: "ok (run_action b a)"
  using rel_toggle okD [OF ok_view] by (cases a) (simp_all add: ok_def rel_refl run_action_def)

lemma ok_item: "ok (palette_click b place)"
proof -
  have "ok (seq [run_action b a, closeCommandPalette])" for a by (rule ok_seq) (simp add: ok_action ok_palette)
  then have "ok (attempt r (\<lambda>a. seq [run_action b a, closeCommandPalette]))" for r by (rule ok_attempt)
  then show ?thesis by (simp add: ok_def rel_refl palette_click_def)
qed

lemma ok_mouse: "ok (on_mousedown x y)" "ok on_mouseup" "ok (on_wheel b d)"
  unfolding on_mousedown_def on_mouseup_def on_wheel_def
  by (intro ok_assign ok_seq; simp add: server_data_def Let_def ok_parts ok_assign zoom_kept_def zoomed_def)+

lemma ok_hover: "ok (checkGraphHover b x y)" "ok (on_canvas_click b x y)"
proof -
  have tip: "ok (show_tooltip h)" for h unfolding show_tooltip_def by (intro ok_seq) (simp add: ok_parts)
  have "ok (assign (\<lambda>p. p\<lparr>pg_canvas := (pg_canvas p)\<lparr>cv_tooltip := (x, y)\<rparr>\<rparr>))"
    "ok (assign (\<lambda>p. p\<lparr>pg_canvas := (pg_canvas p)\<lparr>cv_selected := Some n\<rparr>\<rparr>))" for n
    by (rule ok_assign; simp add: server_data_def)+
  with tip show "ok (checkGraphHover b x y)" "ok (on_canvas_click b x y)"
    unfolding checkGraphHover_def on_canvas_click_def showNodeDetail_def
    by (rule_tac ok_here, intro ok_attempt ok_with_el ok_if ok_seq ok_nothing; simp add: ok_parts ok_with_el ok_seq)+
qed

lemma ok_mousemove: "ok (on_mousemove b x y)"
proof -
  have "ok (seq [assign (\<lambda>p. let cv = pg_canvas p in
      p\<lparr>pg_canvas := cv\<lparr>cv_x := cv_x cv + x - fst (cv_last cv), cv_y := cv_y cv + y - snd (cv_last cv), cv_last := (x, y)\<rparr>\<rparr>), draw b])"
    by (intro ok_seq) (simp add: ok_parts ok_assign server_data_def Let_def)
  then show ?thesis using ok_hover by (simp add: ok_def rel_refl on_mousemove_def)
qed

lemma ok_socket: "ok onopen" "ok onclose" "ok on_reconnect"
proof -
  have "ok (seq [assign (\<lambda>p. p\<lparr>pg_reconnects := pg_reconnects p - 1\<rparr>), connectWS])"
    unfolding connectWS_def by (intro ok_seq) (simp add: ok_assign server_data_def)
  then show "ok on_reconnect" by (simp add: ok_def rel_refl on_reconnect_def)
  show "ok onopen" "ok onclose"
    unfolding onopen_def onclose_def by (intro ok_seq, simp add: ok_parts ok_assign server_data_def)+
qed

lemma ok_search: "ok (on_search b v)"
  unfolding on_search_def by (intro ok_seq) (simp add: ok_parts ok_assign server_data_def)

lemma ok_animate: "ok (animate b)"
  using okD [OF rel_draw] by (auto simp: ok_def rel_refl animate_def split: option.split json.split)

lemma ok_answers: "ok (fetchAndShowCost b data)" "ok (fetchAndShowScope b data)"
  unfolding fetchAndShowCost_def fetchAndShowScope_def by (intro ok_if ok_nothing ok_with_el ok_attempt ok_text)+

lemma rel_user: "user_step b p q \<Longrightarrow> rel p q"
  by (erule user_step.cases)
    (simp_all add: okD ok_socket ok_view ok_drawer ok_key ok_open ok_palette ok_item ok_search ok_animate rel_detail ok_mouse
      ok_mousemove ok_hover ok_canvas resizeCanvas_def ok_answers)

end
text \<open>Rendering never changes what the server has sent.\<close>

interpretation unchanged: page_relation "\<lambda>p q. server_data p = server_data q"
  by unfold_locales (simp_all add: set_content_def server_data_def)

lemma same_data:
  assumes "server_data p = server_data q"
  shows "pg_agents p = pg_agents q" "pg_events p = pg_events q" "pg_hypotheses p = pg_hypotheses q"
    "pg_findings p = pg_findings q" "pg_tasks p = pg_tasks q" "pg_graph p = pg_graph q" "pg_scope p = pg_scope q"
    "pg_costs p = pg_costs q" "pg_runtime p = pg_runtime q" "ry_events (pg_replay p) = ry_events (pg_replay q)"
  using assms unfolding server_data_def prod.inject list.inject json.inject by blast+

lemma data_after:
  assumes "list_all unchanged.ok fs"
  shows "server_data (fst (seq (assign f # fs) p)) = server_data (f p)"
proof -
  have "server_data (f p) = server_data (fst (seq fs (f p)))"
    by (rule unchanged.okD [OF unchanged.ok_seq [OF assms]])
  then show ?thesis by (simp only: seq.simps assign_def prod.case option.case fst_conv)
qed

lemmas data_rules = data_after unchanged.ok_renderers unchanged.rel_all

text \<open>A relation that does not look at the data holds across every step.\<close>

locale document_relation = page_relation +
  assumes document: "pg_dom p = pg_dom q \<Longrightarrow> zoom_kept p q \<Longrightarrow> rel p q"
begin

lemma ok_put: "(\<And>p. pg_dom (f p) = pg_dom p) \<Longrightarrow> (\<And>p. pg_canvas (f p) = pg_canvas p) \<Longrightarrow> ok (assign f)"
  by (simp add: ok_def rel_refl assign_def document)

lemma ok_event: "ok (addEvent b ev)"
  unfolding addEvent_def Let_def
  by (rule_tac ok_here, intro ok_attempt ok_seq) (simp add: ok_parts ok_put)

lemma ok_updates: "ok (updateAgent b d)" "ok (updateHypothesis b d)" "ok (updateFinding b d)" "ok (updateTask b d)"
  unfolding updateAgent_def updateHypothesis_def updateFinding_def updateTask_def
  by (rule_tac ok_here, intro ok_attempt ok_seq, simp add: ok_parts ok_put)+

lemma ok_snapshot: "ok (seq [assign (take_snapshot d), renderAll b])"
  by (intro ok_seq) (simp add: ok_put take_snapshot_def rel_all)

lemma ok_handle: "ok (handleMessage b msg)"
  unfolding handleMessage_def Let_def
  by (rule ok_attempt) (simp add: ok_snapshot ok_event ok_updates ok_nothing ok_put ok_seq ok_parts)

lemma rel_message: "rel p (onmessage b raw p)"
  using okD [OF ok_attempt [OF ok_handle]] by (simp add: onmessage_def)

lemma ok_poll: "ok (poll_answer b d)"
  unfolding poll_answer_def by (simp add: ok_nothing ok_seq ok_put rel_all)

lemma rel_replay: "rel p (fst (replay_answer b d p))"
proof -
  have "ok (seq [assign (\<lambda>p. on_replay (\<lambda>r. r\<lparr>ry_events := events, ry_index := 0, ry_active := True\<rparr>) (p\<lparr>pg_events := Items []\<rparr>)),
      renderAll b, assign (\<lambda>p. let k = pg_fresh p in
        on_replay (\<lambda>r. r\<lparr>ry_timer := Some k\<rparr>) (p\<lparr>pg_intervals := k # pg_intervals p, pg_fresh := k + 1\<rparr>))])" for events
    by (intro ok_seq) (simp add: ok_put rel_all on_replay_def Let_def)
  note this [intro]
  have "ok (attempt r (\<lambda>events. seq [assign (\<lambda>p. on_replay (\<lambda>r. r\<lparr>ry_events := events, ry_index := 0, ry_active := True\<rparr>)
      (p\<lparr>pg_events := Items []\<rparr>)), renderAll b, assign (\<lambda>p. let k = pg_fresh p in
        on_replay (\<lambda>r. r\<lparr>ry_timer := Some k\<rparr>) (p\<lparr>pg_intervals := k # pg_intervals p, pg_fresh := k + 1\<rparr>))]))" for r
    by (rule ok_attempt) blast
  from okD [OF this] show ?thesis by (simp add: replay_answer_def rel_refl)
qed

lemma rel_tick: "rel p (fst (replay_tick b p))"
proof -
  have "ok (seq [addEvent b ev, assign (on_replay f)])" for ev f
    by (intro ok_seq) (simp add: ok_event ok_put on_replay_def)
  from okD [OF this] show ?thesis
    by (auto simp: replay_tick_def Let_def on_replay_def clear_interval_def intro: document split: option.split)
qed

lemma rel_step: "page_step b p q \<Longrightarrow> rel p q"
  by (erule page_step.cases) (simp_all add: rel_refl rel_user rel_message okD [OF ok_poll] rel_replay rel_tick)

lemma rel_steps: "(\<lambda>x y. \<exists>b. page_step b x y)\<^sup>*\<^sup>* p q \<Longrightarrow> rel p q"
  by (induction rule: rtranclp_induct) (auto intro: trans rel_step rel_refl)

end

definition plain_browser :: browser where
  "plain_browser =
     \<lparr>br_num = whole_text, br_time = (\<lambda>_. ''12:00:00''), br_native = (\<lambda>k. ''function '' @ k @ ''() { [native code] }''),
      br_now = 0, br_frames = 100, br_ratio = 1, br_rect = (800, 600), br_random = (\<lambda>_. 0)\<rparr>"

section \<open>Missing elements\<close>

text \<open>
  Elements never come back, only those of the centre panel go, and they go when the content of the panel is replaced.
\<close>

definition replaced :: "page \<Rightarrow> bool" where
  "replaced p = (has_el p ''#center-panel'' \<and> pg_dom p ''#center-panel'' \<noteq> Some As_served)"

definition emptied :: "page \<Rightarrow> bool" where
  "emptied p = (replaced p \<longrightarrow> (\<forall>sel \<in> set CENTER_ELEMENTS. \<not> has_el p sel))"

definition elements_kept :: "page \<Rightarrow> page \<Rightarrow> bool" where
  "elements_kept p q =
     ((\<forall>sel. has_el q sel \<longrightarrow> has_el p sel) \<and> (\<forall>sel. has_el p sel \<longrightarrow> sel \<notin> set CENTER_ELEMENTS \<longrightarrow> has_el q sel) \<and>
      (replaced p \<longrightarrow> replaced q) \<and> (emptied p \<longrightarrow> emptied q))"

lemma center_not_inside: "''#center-panel'' \<notin> set CENTER_ELEMENTS"
  by (simp add: CENTER_ELEMENTS_def)

lemma same_elements: "pg_dom p = pg_dom q \<Longrightarrow> elements_kept p q"
proof -
  assume d: "pg_dom p = pg_dom q"
  then have "has_el p = has_el q" by (intro ext) (simp add: has_el_def)
  moreover from this d have "replaced p = replaced q" by (simp add: replaced_def)
  ultimately show ?thesis unfolding elements_kept_def emptied_def by simp
qed

lemma set_content_elements:
  assumes "has_el p sel" "c \<noteq> As_served"
  shows "elements_kept p (fst (set_content sel c p))"
proof -
  let ?q = "fst (set_content sel c p)"
  have el: "has_el ?q k = (k = sel \<or> k \<notin> set (inside sel) \<and> has_el p k)" for k
    using assms(1) by (simp add: set_content_def has_el_def)
  show ?thesis
  proof (cases "sel = ''#center-panel''")
    case True
    then have "inside sel = CENTER_ELEMENTS" by (simp add: inside_def)
    moreover have "replaced ?q" using assms True by (simp add: replaced_def set_content_def has_el_def)
    ultimately show ?thesis using el assms(1) center_not_inside True unfolding elements_kept_def emptied_def by metis
  next
    case False
    then have "inside sel = []" by (simp add: inside_def)
    then have "has_el ?q = has_el p" using el assms(1) by auto
    moreover have "replaced ?q = replaced p"
      using False assms(1) calculation by (simp add: replaced_def set_content_def inside_def)
    ultimately show ?thesis by (simp add: elements_kept_def emptied_def)
  qed
qed

interpretation kept: document_relation elements_kept
proof unfold_locales
  show "server_data p = server_data q \<Longrightarrow> pg_dom p = pg_dom q \<Longrightarrow> elements_kept p q" for p q
    by (rule same_elements)
  show "elements_kept p q \<Longrightarrow> elements_kept q r \<Longrightarrow> elements_kept p r" for p q r
    unfolding elements_kept_def by blast
  show "has_el p sel \<Longrightarrow> c \<noteq> As_served \<Longrightarrow> elements_kept p (fst (set_content sel c p))" for p sel and c :: content
    by (rule set_content_elements)
  show "pg_dom p = pg_dom q \<Longrightarrow> elements_kept p q" for p q
    by (rule same_elements)
qed
interpretation zoom: document_relation zoom_kept
  by unfold_locales (simp_all add: zoom_kept_def set_content_def)

lemma reachable_kept: "page_reachable p \<Longrightarrow> elements_kept initial_page p"
proof (induction rule: page_reachable.induct)
  case load
  have "kept.ok init_page" unfolding init_page_def connectWS_def
    by (intro kept.ok_seq) (simp add: kept.ok_with_el kept.ok_parts kept.ok_put)
  then show ?case by (rule kept.okD)
next
  case (step p b q)
  then show ?case using kept.rel_step kept.trans by blast
qed

lemma with_el_gone: "\<not> has_el p sel \<Longrightarrow> with_el sel f p = (p, None)"
  by (simp add: with_el_def)

lemma initial_elements: "has_el initial_page sel = (sel \<in> set PAGE_ELEMENTS)"
  by (simp add: has_el_def initial_page_def)

lemma page_elements: "page_reachable p \<Longrightarrow> has_el p sel \<Longrightarrow> sel \<in> set PAGE_ELEMENTS"
  using reachable_kept [of p] initial_elements unfolding elements_kept_def by blast

lemma page_center: "page_reachable p \<Longrightarrow> has_el p ''#center-panel''"
proof -
  have "has_el initial_page ''#center-panel''" by (simp add: initial_elements PAGE_ELEMENTS_def)
  then show "page_reachable p \<Longrightarrow> ?thesis"
    using reachable_kept [of p] center_not_inside unfolding elements_kept_def by blast
qed

lemma page_emptied: "page_reachable p \<Longrightarrow> emptied p"
proof -
  assume "page_reachable p"
  then have "elements_kept initial_page p" by (rule reachable_kept)
  moreover have "emptied initial_page"
    by (simp add: emptied_def replaced_def initial_page_def PAGE_ELEMENTS_def)
  ultimately show ?thesis unfolding elements_kept_def by blast
qed

lemma no_view_body:
  assumes "page_reachable p"
  shows "\<not> has_el p ''#view-tasks .view-body''" "\<not> has_el p ''#view-live .view-body''"
  using page_elements [OF assms] by (fastforce simp: PAGE_ELEMENTS_def CENTER_ELEMENTS_def)+

text \<open>The task view and the two commands that show costs and scope write into an element of class \<open>view-body\<close>, which the
  page does not have: whatever has happened before, they change nothing.\<close>

theorem commands_show_nothing:
  assumes "page_reachable p"
  shows "renderTaskGraph b p = (p, None) \<and> fetchAndShowCost b data p = (p, None) \<and> fetchAndShowScope b data p = (p, None)"
  using no_view_body [OF assms]
  by (simp add: renderTaskGraph_def fetchAndShowCost_def fetchAndShowScope_def with_el_def)

theorem commands_show_nothing_witness:
  "renderTaskGraph plain_browser (fst (init_page initial_page)) = (fst (init_page initial_page), None)"
  using commands_show_nothing [OF page_reachable.load] by simp

text \<open>A click on an agent puts its details in place of the whole centre panel: from then on, in every page that follows by
  any steps, none of the elements of the five views exists, and the log, the board, the findings, the tasks and the graph are
  never rendered again.\<close>

theorem detail_removes_views:
  assumes "page_reachable p"
    and "find_in (pg_agents p) (named ''name'' (Some (JStr name))) = Inr a" "js_truthy a"
    and "filter_slot (named ''agent'' (Some (JStr name))) (pg_events p) = Inr events"
    and "(\<lambda>x y. \<exists>b. page_step b x y)\<^sup>*\<^sup>* (fst (showAgentDetail b name p)) r"
  shows "(\<forall>sel \<in> set CENTER_ELEMENTS. \<not> has_el r sel) \<and>
    renderLiveLog b' r = (r, None) \<and> renderHypothesisBoard b' r = (r, None) \<and> renderFindings b' r = (r, None) \<and>
    renderTaskGraph b' r = (r, None) \<and> renderGraph b' r = (r, None)"
proof -
  let ?q = "fst (showAgentDetail b name p)"
  have step: "page_step b p ?q" by (intro page_step.user user_step.agent_click)
  have "detail_target p = ''#center-panel''" using no_view_body [OF assms(1)] by (simp add: detail_target_def)
  then have "replaced ?q"
    using assms(2-4) page_center [OF assms(1)]
    by (simp add: showAgentDetail_def attempt_def show_detail_def with_el_def set_html_def set_content_def replaced_def has_el_def)
  moreover have reach: "page_reachable ?q" using assms(1) step by (rule page_reachable.step)
  ultimately have "replaced r" "emptied r"
    using kept.rel_steps [OF assms(5)] page_emptied [OF reach] by (simp_all add: elements_kept_def)
  then have gone: "\<forall>sel \<in> set CENTER_ELEMENTS. \<not> has_el r sel" by (simp add: emptied_def)
  have "page_reachable r"
    using assms(5) reach by (induction rule: rtranclp_induct) (auto intro: page_reachable.step)
  then have tasks: "\<not> has_el r ''#view-tasks .view-body''" by (rule no_view_body)
  have others: "\<not> has_el r ''#live-log''" "\<not> has_el r ''#hypothesis-board''" "\<not> has_el r ''#findings-list''" "\<not> has_el r ''#graph-canvas-el''"
    by (rule bspec [OF gone], simp add: CENTER_ELEMENTS_def)+
  show ?thesis
    unfolding renderLiveLog_def renderHypothesisBoard_def renderFindings_def renderTaskGraph_def renderGraph_def
    by (intro conjI gone with_el_gone tasks others)
qed

definition demo_agent :: json where
  "demo_agent = JObj [(''name'', JStr ''recon''), (''status'', JStr ''working'')]"

definition demo_page :: page where
  "demo_page = onmessage plain_browser
     (Good_json (JObj [(''type'', JStr ''agent_update''), (''data'', demo_agent)])) (fst (init_page initial_page))"

lemma demo_page_reachable: "page_reachable demo_page"
  unfolding demo_page_def by (rule page_reachable.step [OF page_reachable.load page_step.message])

lemma demo_click: "find_in (pg_agents demo_page) (named ''name'' (Some (JStr ''recon''))) = Inr (Some demo_agent)"
  "filter_slot (named ''agent'' (Some (JStr ''recon''))) (pg_events demo_page) = Inr []"
proof -
  let ?p = "fst (init_page initial_page)"
  have p: "pg_agents ?p = Items []" "pg_events ?p = Items []"
    by (simp_all add: init_page_def initial_page_def connectWS_def assign_def with_el_def add_class_def has_el_def PAGE_ELEMENTS_def)
  have "demo_page = fst (updateAgent plain_browser (Some demo_agent) ?p)"
    unfolding demo_page_def onmessage_def parse_json_def attempt_def by (simp add: handleMessage_def attempt_def)
  also have "\<dots> = fst (seq [assign (\<lambda>p. p\<lparr>pg_agents := Items [Some demo_agent]\<rparr>), renderAgentList plain_browser, renderStats plain_browser] ?p)"
    by (simp only: updateAgent_def upsert_def p slot_items.simps sum.case try_find.simps map_sum.simps option.case append_Nil attempt_def)
  finally have "server_data demo_page = server_data (?p\<lparr>pg_agents := Items [Some demo_agent]\<rparr>)"
    by (rule ssubst) (rule data_after, simp add: unchanged.ok_renderers)
  then have "pg_agents demo_page = pg_agents (?p\<lparr>pg_agents := Items [Some demo_agent]\<rparr>)"
    "pg_events demo_page = pg_events (?p\<lparr>pg_agents := Items [Some demo_agent]\<rparr>)" by (rule same_data)+
  then have d: "pg_agents demo_page = Items [Some demo_agent]" "pg_events demo_page = Items []"
    using p by simp_all
  show "find_in (pg_agents demo_page) (named ''name'' (Some (JStr ''recon''))) = Inr (Some demo_agent)"
    "filter_slot (named ''agent'' (Some (JStr ''recon''))) (pg_events demo_page) = Inr []"
    by (simp_all add: d find_in_def filter_slot_def named_def demo_agent_def)
qed

theorem detail_removes_views_witness:
  "\<not> has_el (fst (showAgentDetail plain_browser ''recon'' demo_page)) ''#live-log''"
proof -
  have "js_truthy (Some demo_agent)" by (simp add: js_truthy_def demo_agent_def)
  from detail_removes_views [OF demo_page_reachable demo_click(1) this demo_click(2) rtranclp.rtrancl_refl]
  show ?thesis by (simp add: CENTER_ELEMENTS_def)
qed

end
