(* ===== verification/Console_Link_Props.thy ===== *)
theory Console_Link_Props
  imports Console_Link Console_Props
begin

text \<open>What a page shows that is connected to the server of the console: nothing.\<close>

text \<open>The data of a page that has got nothing, but for a number of events without content.\<close>

definition blind :: "page \<Rightarrow> bool" where
  "blind p =
     (\<exists>n \<le> maxLogEntries. server_data p =
        ([Items [], Items (replicate n None), Items [], Items [], Items []], [no_graph, JObj [], JObj [], JNum 0, JArr []]))"

lemma blind_same: "blind p \<Longrightarrow> server_data p = server_data q \<Longrightarrow> blind q"
  unfolding blind_def by metis

lemma blind_event:
  assumes "blind p" shows "blind (fst (addEvent b None p))"
proof -
  obtain n where n: "n \<le> maxLogEntries" and d: "server_data p =
      ([Items [], Items (replicate n None), Items [], Items [], Items []], [no_graph, JObj [], JObj [], JNum 0, JArr []])"
    using assms unfolding blind_def by blast
  let ?f = "\<lambda>p. p\<lparr>pg_events := Items (replicate (min (n + 1) maxLogEntries) None)\<rparr>"
  have e: "pg_events p = Items (replicate n None)" using d unfolding server_data_def prod.inject list.inject by blast
  have "(if length (None # replicate n None) > maxLogEntries then butlast (None # replicate n None) else None # replicate n None) =
      replicate (min (n + 1) maxLogEntries) (None :: json option)"
  proof (cases "n = maxLogEntries")
    case True
    have "butlast (None # replicate n None) = replicate n (None :: json option)"
      by (simp add: replicate_append_same [symmetric] flip: replicate_Suc)
    with True show ?thesis by (simp add: min_def)
  next
    case False
    with n show ?thesis by (simp add: min_def)
  qed
  then have "addEvent b None p = seq [assign ?f, renderActivityStream b, renderLiveLog b, renderStats b] p"
    unfolding addEvent_def attempt_def e slot_items.simps sum.case Let_def by simp
  then have "server_data (fst (addEvent b None p)) = server_data (?f p)"
    using data_after [of "[renderActivityStream b, renderLiveLog b, renderStats b]" ?f p]
    by (simp add: unchanged.ok_renderers del: seq.simps)
  also have "\<dots> = ([Items [], Items (replicate (min (n + 1) maxLogEntries) None), Items [], Items [], Items []],
      [no_graph, JObj [], JObj [], JNum 0, JArr []])"
    using d by (simp add: server_data_def)
  finally show ?thesis unfolding blind_def by (intro exI [of _ "min (n + 1) maxLogEntries"]) simp
qed

lemma blind_message:
  assumes "blind p" shows "blind (onmessage b (Good_json (wire show m)) p)"
proof (cases m)
  case (Snapshot_msg s)
  then show ?thesis using assms
    by (simp add: onmessage_def parse_json_def attempt_def handleMessage_def wire_def)
next
  case (Event_msg ev)
  then show ?thesis using blind_event [OF assms]
    by (simp add: onmessage_def parse_json_def attempt_def handleMessage_def wire_def)
qed

lemma blind_poll:
  assumes "blind p" shows "blind (fst (poll_answer b (status_json as_text (rp_body (api_status now f))) p))"
proof -
  obtain fs where j: "status_json as_text (rp_body (api_status now f)) = Some (JObj fs)"
    and k: "\<forall>k \<in> {''agents'', ''hypotheses'', ''findings'', ''tasks'', ''costs'', ''runtime''}. map_of fs k = None"
    by (fastforce simp: api_status_def Let_def sendJSON_def status_json_def)
  let ?f = "\<lambda>p. p\<lparr>pg_agents := Items [], pg_hypotheses := Items [], pg_findings := Items [], pg_tasks := Items [],
    pg_costs := JObj [], pg_runtime := JNum 0\<rparr>"
  have "poll_answer b (Some (JObj fs)) = seq [assign ?f, renderAll b]"
    using k by (simp add: poll_answer_def js_truthy_def data_or_def js_or_def del: seq.simps)
  then have "server_data (fst (poll_answer b (Some (JObj fs)) p)) = server_data (?f p)"
    using data_after [of "[renderAll b]" ?f p] by (simp add: unchanged.rel_all del: seq.simps)
  moreover have "blind (?f p)" using assms unfolding blind_def server_data_def by simp blast
  ultimately show ?thesis unfolding j by (simp only: blind_def)
qed

lemma blind_tick:
  assumes "blind p" shows "blind (fst (replay_tick b p))"
proof -
  have "ry_events (pg_replay p) = []"
    using assms unfolding blind_def server_data_def prod.inject list.inject json.inject by blast
  then have "server_data p = server_data (fst (replay_tick b p))"
    by (simp add: replay_tick_def Let_def on_replay_def clear_interval_def server_data_def split: option.split)
  with assms show ?thesis by (rule blind_same)
qed

text \<open>C32: Connected to its own server the page never shows anything: whatever the server sends and the user does, its lists of
  agents, hypotheses, findings and tasks, its graph, scope and costs stay empty, and its events have no content. The page
  waits for messages the server does not send, looks for the content of an event under another key, and reads fields the
  status does not have.\<close>

theorem page_shows_nothing:
  assumes "served_page p"
  shows "pg_agents p = Items [] \<and> pg_hypotheses p = Items [] \<and> pg_findings p = Items [] \<and> pg_tasks p = Items [] \<and>
    pg_graph p = no_graph \<and> pg_scope p = JObj [] \<and> pg_costs p = JObj [] \<and>
    (\<exists>n \<le> maxLogEntries. pg_events p = Items (replicate n None))"
proof -
  have "blind p" using assms
  proof (induction rule: served_page.induct)
    case load
    have "server_data (fst (init_page initial_page)) = server_data initial_page"
      unfolding init_page_def connectWS_def by (simp add: assign_def with_el_def add_class_def has_el_def server_data_def)
    then show ?case unfolding blind_def by (intro exI [of _ 0]) (simp add: server_data_def initial_page_def)
  next
    case (step p b q)
    from step.hyps(2) show ?case
    proof cases
      case user
      with step.IH show ?thesis using blind_same unchanged.rel_user by blast
    next
      case no_poll
      have "poll_answer b None p = (p, None)" by (simp add: poll_answer_def js_truthy_def)
      with no_poll step.IH show ?thesis by simp
    next
      case no_replay
      have "replay_answer b None p = (p, None)" by (simp add: replay_answer_def js_truthy_def)
      with no_replay step.IH show ?thesis by simp
    qed (simp_all only: blind_message [OF step.IH] blind_poll [OF step.IH] blind_tick [OF step.IH])
  qed
  then show ?thesis unfolding blind_def server_data_def prod.inject list.inject by blast
qed

theorem page_shows_nothing_witness:
  "pg_agents (onmessage plain_browser (Good_json (wire (\<lambda>_ _. JNull) (Event_msg JNull))) (fst (init_page initial_page))) = Items []"
  using page_shows_nothing [OF served_page.step [OF served_page.load served_step.message]] by blast

end
