(* ===== verification/Console_Markup_Props.thy ===== *)
theory Console_Markup_Props
  imports Console_Props
begin

text \<open>
  The markup of the page: which texts of the server can become markup, and which commands the items of the palette run.
\<close>

section \<open>Escaped texts\<close>

text \<open>What is left of a text when only the characters stay that open or close a tag or an attribute.\<close>

definition skeleton :: "string \<Rightarrow> string" where
  "skeleton s = filter (\<lambda>c. c \<in> {CHR ''<'', CHR ''>'', CHR 0x22}) s"

definition plain_texts :: "browser \<Rightarrow> bool" where
  "plain_texts b = ((\<forall>v. skeleton (br_time b v) = []) \<and> (\<forall>k. inherited k \<longrightarrow> skeleton (br_native b k) = []) \<and> (\<forall>n. skeleton (br_num b n) = []))"

named_theorems markup \<open>markup of a text\<close>

lemma skeleton_append [markup]: "skeleton (s @ t) = skeleton s @ skeleton t"
  by (simp add: skeleton_def)

lemma skeleton_Cons [markup]:
  "skeleton [] = []" "skeleton (c # s) = (if c \<in> {CHR ''<'', CHR ''>'', CHR 0x22} then c # skeleton s else skeleton s)"
  by (simp_all add: skeleton_def)

lemma skeleton_concat: "skeleton (concat ss) = concat (map skeleton ss)"
  by (induction ss) (simp_all add: skeleton_def)

lemma skeleton_take: "skeleton s = [] \<Longrightarrow> skeleton (take n s) = []"
  by (auto simp: skeleton_def filter_empty_conv dest: in_set_takeD)

lemma skeleton_replace: "skeleton r = [] \<Longrightarrow> skeleton (replace_all c r s) = filter (\<lambda>x. x \<noteq> c) (skeleton s)"
  by (induction s) (auto simp: replace_all_def skeleton_def)

lemma skeleton_esc [markup]: "skeleton (esc b v) = []"
proof -
  have "skeleton ''&amp;'' = []" "skeleton ''&lt;'' = []" "skeleton ''&gt;'' = []" "skeleton ''&quot;'' = []"
    by (simp_all add: skeleton_def)
  then show ?thesis by (simp add: esc_def skeleton_replace) (auto simp: skeleton_def filter_empty_conv)
qed

lemma skeleton_line [markup]: "skeleton (line_sep n) = []"
  by (simp add: line_sep_def skeleton_def)

definition attribute_marks :: "nat \<Rightarrow> string" where
  "attribute_marks n = concat (replicate n [CHR 0x22, CHR 0x22])"

lemma skeleton_open:
  "skeleton n = [] \<Longrightarrow> \<forall>(k, v) \<in> set ats. skeleton k = [] \<and> skeleton v = [] \<Longrightarrow>
    skeleton (open_tag n ats) = ''<'' @ attribute_marks (length ats) @ ''>''"
proof -
  assume n: "skeleton n = []" and a: "\<forall>(k, v) \<in> set ats. skeleton k = [] \<and> skeleton v = []"
  have "skeleton (concat (map (\<lambda>(k, v). '' '' @ k @ ''='' @ [CHR 0x22] @ v @ [CHR 0x22]) ats)) = attribute_marks (length ats)"
    using a by (induction ats) (auto simp: skeleton_append attribute_marks_def, auto simp: skeleton_def)
  with n show ?thesis by (simp add: open_tag_def skeleton_append) (simp add: skeleton_def)
qed

lemma skeleton_elem [markup]:
  "skeleton n = [] \<Longrightarrow> \<forall>(k, v) \<in> set ats. skeleton k = [] \<and> skeleton v = [] \<Longrightarrow>
    skeleton (elem n ats body) = ''<'' @ attribute_marks (length ats) @ ''>'' @ skeleton body @ ''<>''"
  by (simp add: elem_def skeleton_append skeleton_open) (simp add: skeleton_def)

lemma skeleton_plain: "list_all (\<lambda>c. c \<notin> {CHR ''<'', CHR ''>'', CHR 0x22}) s \<Longrightarrow> skeleton s = []"
  by (auto simp: skeleton_def filter_empty_conv list_all_iff)

lemma skeleton_div [markup]: "skeleton cls = [] \<Longrightarrow> skeleton (div_of cls body) = ''<'' @ attribute_marks 1 @ ''>'' @ skeleton body @ ''<>''"
  "skeleton cls = [] \<Longrightarrow> skeleton (span_of cls body) = ''<'' @ attribute_marks 1 @ ''>'' @ skeleton body @ ''<>''"
  by (simp_all add: div_of_def span_of_def skeleton_elem skeleton_plain)

lemma skeleton_color: "plain_texts b \<Longrightarrow> \<forall>c \<in> insert d (snd ` set t). skeleton c = [] \<Longrightarrow> skeleton (color_of b t k d) = []"
  by (fastforce simp: color_of_def Let_def plain_texts_def split: option.split dest: map_of_SomeD)

lemma severity_color: "plain_texts b \<Longrightarrow> skeleton (color_of b SEVERITY_COLORS k []) = []"
  by (rule skeleton_color) (simp_all add: SEVERITY_COLORS_def skeleton_def)

definition EVENT_MARKS :: string where
  "EVENT_MARKS = skeleton
     (div_of ''event-row'' (span_of [] [] @ span_of [] [] @ elem ''span'' [(''class'', []), (''style'', [])] [] @ span_of [] []))"

definition LOG_MARKS :: string where
  "LOG_MARKS = skeleton (div_of ''log-line'' (span_of [] [] @ span_of [] [] @ span_of [] []))"

lemma skeleton_event: "plain_texts b \<Longrightarrow> event_row b ev = Inr r \<Longrightarrow> skeleton r = EVENT_MARKS"
  by (auto simp: event_row_def Let_def map_sum_def EVENT_MARKS_def markup skeleton_take severity_color if_truthy_def plain_texts_def
      split: sum.splits if_splits)

lemma skeleton_log: "plain_texts b \<Longrightarrow> log_row b ev = Inr r \<Longrightarrow> skeleton r = LOG_MARKS"
  by (auto simp: log_row_def Let_def map_sum_def LOG_MARKS_def markup skeleton_take if_truthy_def plain_texts_def
      split: sum.splits if_splits)

lemma try_map_rows: "try_map f xs = Inr ys \<Longrightarrow> list_all2 (\<lambda>x y. f x = Inr y) xs ys"
  by (induction xs arbitrary: ys) (auto split: sum.splits)

lemma rows_skeleton:
  assumes "try_map f xs = Inr rows" "\<And>x r. f x = Inr r \<Longrightarrow> skeleton r = m"
  shows "skeleton (concat rows) = concat (replicate (length xs) m)"
  using try_map_rows [OF assms(1)]
  by (induction rule: list_all2_induct) (auto simp: skeleton_append assms(2), simp add: skeleton_def)

lemma slice_bound: "slot_slice n s = Inr (Items xs) \<Longrightarrow> length xs \<le> n"
  by (cases "(n, s)" rule: slot_slice.cases) auto

lemma try_filter_length: "try_filter pr xs = Inr ys \<Longrightarrow> length ys \<le> length xs"
  by (induction xs arbitrary: ys) (auto split: sum.splits if_splits simp: le_SucI)

lemma refine_bound: "refine flt pr s = Inr (Items ys) \<Longrightarrow> \<exists>xs. s = Inr (Items xs) \<and> length ys \<le> length xs"
  by (auto simp: refine_def filter_slot_def map_sum_def try_filter_length split: if_splits sum.splits elim!: slot_items.elims)
text \<open>A content that is a number of rows with the same markup, or the notice that there are none.\<close>

definition only_rows :: "nat \<Rightarrow> string \<Rightarrow> string \<Rightarrow> content option \<Rightarrow> bool" where
  "only_rows most marks notice c =
     (\<exists>h. c = Some (Html h) \<and> (h = notice \<or> (\<exists>n \<le> most. skeleton h = concat (replicate n marks))))"

definition leaves :: "page \<Rightarrow> string \<Rightarrow> (content option \<Rightarrow> bool) \<Rightarrow> effect \<Rightarrow> bool" where
  "leaves p sel P f = (let c = pg_dom (fst (f p)) sel in c = pg_dom p sel \<or> P c)"

lemma leaves_attempt: "(\<And>x. r = Inr x \<Longrightarrow> leaves p sel P (f x)) \<Longrightarrow> leaves p sel P (attempt r f)"
  by (cases r) (simp_all add: leaves_def attempt_def)

lemma leaves_with_el: "(has_el p sel \<Longrightarrow> leaves p sel P f) \<Longrightarrow> leaves p sel P (with_el sel f)"
  by (cases "has_el p sel") (simp_all add: leaves_def with_el_def)

lemma leaves_if: "(c \<Longrightarrow> leaves p sel P f) \<Longrightarrow> (\<not> c \<Longrightarrow> leaves p sel P g) \<Longrightarrow> leaves p sel P (if c then f else g)"
  by simp

lemma leaves_notice: "has_el p sel \<Longrightarrow> leaves p sel (only_rows most m h) (set_html sel h)"
  by (simp add: leaves_def only_rows_def set_html_def set_content_def)

lemma leaves_rows:
  assumes "\<And>x r. row x = Inr r \<Longrightarrow> skeleton r = m" "\<And>xs. items = Inr xs \<Longrightarrow> length xs \<le> most" "has_el p sel"
  shows "leaves p sel (only_rows most m notice) (set_rows sel row items)"
  unfolding set_rows_def
proof (intro leaves_attempt)
  fix xs rows assume i: "items = Inr xs" and r: "try_map row xs = Inr rows"
  have "skeleton (concat rows) = concat (replicate (length xs) m)" by (rule rows_skeleton [OF r assms(1)])
  with assms(2) [OF i] have "only_rows most m notice (Some (Html (concat rows)))" unfolding only_rows_def by blast
  then show "leaves p sel (only_rows most m notice) (set_html sel (concat rows))"
    using assms(3) by (simp add: leaves_def set_html_def set_content_def)
qed

lemmas leaves_rules = leaves_attempt leaves_with_el leaves_if leaves_notice

lemma slot_items_bound: "(\<And>ys. s = Items ys \<Longrightarrow> length ys \<le> n) \<Longrightarrow> slot_items s = Inr xs \<Longrightarrow> length xs \<le> n"
  by (cases s) auto

text \<open>C33: No text of an event can become markup: after the activity stream and the log are rendered each is as it was before,
  or the notice that there is nothing, or at most 200 (100) rows with one and the same sequence of characters that open or
  close tags and attributes, whatever the events hold.\<close>

theorem events_add_no_markup:
  assumes "plain_texts b"
  shows "leaves p ''#activity-stream'' (only_rows 200 EVENT_MARKS (empty_state ''No events'')) (renderActivityStream b) \<and>
    leaves p ''#live-log'' (only_rows 100 LOG_MARKS (empty_state ''No activity'')) (renderLiveLog b)"
proof -
  let ?s = "refine (pg_severity_filter p) severity_matches (refine (pg_type_filter p) type_matches
             (refine (pg_agent_filter p) agent_matches (slot_slice maxActivityEntries (pg_events p))))"
  have "length ys \<le> 200" if "?s = Inr (Items ys)" for ys
    using refine_bound [OF that] refine_bound slice_bound unfolding maxActivityEntries_def by (meson le_trans)
  then have "length xs \<le> 200" if "?s = Inr f" "slot_items f = Inr xs" for f xs
    using that by (auto intro: slot_items_bound [of f])
  then have "leaves p ''#activity-stream'' (only_rows 200 EVENT_MARKS (empty_state ''No events''))
      (with_el ''#activity-stream''
        (attempt ?s (\<lambda>filtered. if \<not> js_truthy (slot_length filtered) then set_html ''#activity-stream'' (empty_state ''No events'')
           else set_rows ''#activity-stream'' (event_row b) (slot_items filtered))))"
    by (intro leaves_rules leaves_rows) (auto intro: skeleton_event [OF assms])
  then have stream: "leaves p ''#activity-stream'' (only_rows 200 EVENT_MARKS (empty_state ''No events'')) (renderActivityStream b)"
    by (simp add: leaves_def renderActivityStream_def)
  have "length xs \<le> 100" if "slot_slice 100 f = Inr g" "slot_items g = Inr xs" for f g xs
    using that by (auto intro: slot_items_bound [of g] simp: slice_bound)
  then have "leaves p ''#live-log'' (only_rows 100 LOG_MARKS (empty_state ''No activity''))
      (with_el ''#live-log''
        (attempt (slot_slice 100 (pg_events p)) (\<lambda>events.
          if \<not> js_truthy (slot_length events) then set_html ''#live-log'' (empty_state ''No activity'')
          else attempt (refine (toLowerCase (pg_search p)) (text_matches b) (Inr events)) (\<lambda>filtered.
            attempt (slot_slice 100 filtered) (\<lambda>shown. set_rows ''#live-log'' (log_row b) (slot_items shown))))))"
    by (intro leaves_rules leaves_rows) (auto intro: skeleton_log [OF assms])
  then have "leaves p ''#live-log'' (only_rows 100 LOG_MARKS (empty_state ''No activity'')) (renderLiveLog b)"
    by (simp add: leaves_def renderLiveLog_def)
  with stream show ?thesis by blast
qed

lemma whole_text_plain: "skeleton (whole_text q) = []"
  by (auto simp: whole_text_def skeleton_def filter_empty_conv is_digit_def dest!: nat_to_string_digits)

definition hostile_page :: page where
  "hostile_page = initial_page\<lparr>pg_events := Items [Some (JObj [(''description'', JStr ''<script>'')])]\<rparr>"
theorem events_add_no_markup_witness:
  "leaves hostile_page ''#activity-stream'' (only_rows 200 EVENT_MARKS (empty_state ''No events'')) (renderActivityStream plain_browser)"
proof -
  have "skeleton ''12:00:00'' = []" "skeleton ''() { [native code] }'' = []" "skeleton ''function '' = []" by code_simp+
  moreover have "skeleton k = []" if "inherited k" for k
    using that unfolding inherited_def by (auto simp: markup)
  ultimately have "plain_texts plain_browser"
    by (simp add: plain_texts_def plain_browser_def whole_text_plain markup)
  from events_add_no_markup [OF this] show ?thesis by blast
qed

text \<open>The severity of a finding is the exception: it reaches the page as it is, but for its case.\<close>

lemma sublist_parts:
  "sublist s y \<Longrightarrow> sublist s (x @ y)" "sublist s x \<Longrightarrow> sublist s (x @ y)" "sublist s body \<Longrightarrow> sublist s (elem n ats body)"
  by (auto simp: sublist_def elem_def) (metis append.assoc)+

theorem severity_is_markup:
  assumes "opt_member f ''severity'' = Some (JStr s)" "s \<noteq> []"
  shows "\<exists>r. finding_card b f = Inr r \<and> sublist (toUpperCase s) r"
proof -
  have m: "member f ''severity'' = Inr (Some (JStr s))" using assms(1) by (cases "(f, ''severity'')" rule: member.cases) auto
  have o: "js_or (Some (JStr s)) d = JStr s" for d using assms(2) by (simp add: js_or_def js_truthy_def)
  have part: "sublist (toUpperCase s) (elem n ats (x1 @ div_of c (x2 @ elem m ats' (toUpperCase s) @ y2) @ y1))" for n ats x1 c x2 m ats' y2 y1
    unfolding div_of_def by (rule sublist_parts(3), rule sublist_parts(1), rule sublist_parts(2), rule sublist_parts(3),
      rule sublist_parts(1), rule sublist_parts(2), rule sublist_parts(3), simp)
  show ?thesis unfolding finding_card_def m sum.case Let_def o upper.simps map_sum.simps
    by (rule exI, rule conjI, rule refl, rule part)
qed

section \<open>The command palette\<close>

lemma palette_commands: "distinct (map snd COMMANDS)" "distinct (map fst COMMANDS)"
  by (simp_all add: COMMANDS_def)

lemma palette_length: "length (palette_matches q) \<le> length COMMANDS"
  by (simp add: palette_matches_def)

text \<open>The items of the list get the places of the matches.\<close>

lemma palette_places:
  "has_el p ''#palette-results'' \<Longrightarrow> pg_palette (fst (renderPaletteResults b q p)) = [0..<length (palette_matches q)]"
  by (auto simp: renderPaletteResults_def Let_def set_html_def set_content_def assign_def)

lemma palette_place_action: "place < length (palette_matches q) \<Longrightarrow> palette_action place = Inr (snd (COMMANDS ! place))"
  using palette_length [of q] by (simp add: palette_action_def)

text \<open>A click on an item of the palette runs the command at the place of the item, counted in the list of all commands,
  not the command the item names: the items run what they name exactly when the matches are the first commands of the list.\<close>

theorem palette_runs_by_place:
  assumes "has_el p ''#palette-results''"
  shows "(\<forall>place < length (palette_matches q).
      palette_click b place (fst (renderPaletteResults b q p)) =
        seq [run_action b (snd (COMMANDS ! place)), closeCommandPalette] (fst (renderPaletteResults b q p))) \<and>
    ((\<forall>place < length (palette_matches q). snd (COMMANDS ! place) = snd (palette_matches q ! place)) \<longleftrightarrow>
      palette_matches q = take (length (palette_matches q)) COMMANDS)"
proof (intro conjI)
  show "\<forall>place < length (palette_matches q). palette_click b place (fst (renderPaletteResults b q p)) =
      seq [run_action b (snd (COMMANDS ! place)), closeCommandPalette] (fst (renderPaletteResults b q p))"
    using palette_places [OF assms] palette_place_action by (simp add: palette_click_def attempt_def del: seq.simps)
  have same: "palette_matches q ! k = COMMANDS ! k"
    if "k < length (palette_matches q)" "snd (COMMANDS ! k) = snd (palette_matches q ! k)" for k
  proof -
    have "palette_matches q ! k \<in> set COMMANDS" using nth_mem [OF that(1)] by (simp add: palette_matches_def)
    moreover have "COMMANDS ! k \<in> set COMMANDS" using that(1) palette_length [of q] by (intro nth_mem) linarith
    ultimately show ?thesis using that(2) palette_commands(1) by (metis distinct_map inj_onD)
  qed
  show "(\<forall>place < length (palette_matches q). snd (COMMANDS ! place) = snd (palette_matches q ! place)) \<longleftrightarrow>
    palette_matches q = take (length (palette_matches q)) COMMANDS" (is "?l = ?r")
  proof
    assume ?l
    then show ?r using same palette_length [of q] by (intro nth_equalityI) auto
  next
    assume ?r
    then show ?l by (metis nth_take)
  qed
qed

theorem palette_runs_by_place_witness:
  "map fst (palette_matches ''graph'') = [''Security Graph'', ''Task Graph''] \<and>
   (let p = fst (renderPaletteResults plain_browser ''graph'' initial_page) in
    palette_click plain_browser 0 p = seq [run_action plain_browser (Switch ''live''), closeCommandPalette] p)"
proof -
  have "palette_matches ''graph'' = [(''Security Graph'', Switch ''graph''), (''Task Graph'', Switch ''tasks'')]" by code_simp
  moreover have "has_el initial_page ''#palette-results''" by (simp add: initial_elements PAGE_ELEMENTS_def)
  ultimately show ?thesis
    using palette_runs_by_place [of initial_page "''graph''" plain_browser] by (simp add: COMMANDS_def Let_def del: seq.simps)
qed

end
