(* ===== verification/Console_Graph_Props.thy ===== *)
theory Console_Graph_Props
  imports Console_Props
begin

text \<open>
  The graph of the page: the bounds of its zoom, the forces of its layout, which leave the centre of mass where it is, and
  the node found under the mouse against the one drawn there.
\<close>

section \<open>Zoom\<close>

text \<open>C36: In every page that can be reached the zoom is at least a tenth and at most five.\<close>

theorem zoom_bounded:
  assumes "page_reachable p"
  shows "0.1 \<le> cv_scale (pg_canvas p) \<and> cv_scale (pg_canvas p) \<le> 5"
  using assms
proof (induction rule: page_reachable.induct)
  case load
  show ?case
    by (simp add: init_page_def connectWS_def assign_def with_el_def add_class_def initial_page_def initial_canvas_def)
next
  case (step p b q)
  then show ?case using zoom.rel_step [of b p q] by (simp add: zoom_kept_def zoomed_def)
qed

theorem zoom_bounded_witness: "cv_scale (pg_canvas (fst (init_page initial_page))) \<le> 5"
  using zoom_bounded [OF page_reachable.load] by simp

section \<open>Forces\<close>

text \<open>The sum of a coordinate over the nodes.\<close>

definition total :: "(point \<Rightarrow> real) \<Rightarrow> placed list \<Rightarrow> real" where
  "total f ps = (\<Sum>q \<leftarrow> ps. f (snd q))"

text \<open>What a force between two nodes leaves as it is.\<close>

definition balanced :: "placed list \<Rightarrow> placed list \<Rightarrow> bool" where
  "balanced ps qs =
     (map fst qs = map fst ps \<and> map (pt_x \<circ> snd) qs = map (pt_x \<circ> snd) ps \<and> map (pt_y \<circ> snd) qs = map (pt_y \<circ> snd) ps \<and>
      total pt_vx qs = total pt_vx ps \<and> total pt_vy qs = total pt_vy ps)"

lemma balanced_refl [simp]: "balanced ps ps"
  by (simp add: balanced_def)

lemma balanced_trans: "balanced ps qs \<Longrightarrow> balanced qs rs \<Longrightarrow> balanced ps rs"
  by (simp add: balanced_def)

lemma balanced_length: "balanced ps qs \<Longrightarrow> length qs = length ps"
  unfolding balanced_def by (metis length_map)

lemma push_at_length [simp]: "length (push_at k ax ay ps) = length ps"
  by (simp add: push_at_def)

lemma push_at_nth:
  "i < length ps \<Longrightarrow> push_at k ax ay ps ! i = (if i = k then map_prod id (accelerate ax ay) (ps ! i) else ps ! i)"
  by (cases "i = k") (simp_all add: push_at_def)

lemma push_at_kept:
  "map fst (push_at k ax ay ps) = map fst ps" "map (pt_x \<circ> snd) (push_at k ax ay ps) = map (pt_x \<circ> snd) ps"
  "map (pt_y \<circ> snd) (push_at k ax ay ps) = map (pt_y \<circ> snd) ps"
  by (intro nth_equalityI; simp add: push_at_nth accelerate_def)+

lemma sum_list_set: "k < length xs \<Longrightarrow> sum_list (xs[k := x]) = sum_list xs + x - xs ! k" for x :: real
  by (induction xs arbitrary: k) (auto split: nat.split)

lemma push_at_total:
  assumes "k < length ps"
  shows "total pt_vx (push_at k ax ay ps) = total pt_vx ps + ax" "total pt_vy (push_at k ax ay ps) = total pt_vy ps + ay"
  using assms by (simp_all add: total_def push_at_def map_update sum_list_set accelerate_def)

lemma pull_balanced: "i < length ps \<Longrightarrow> j < length ps \<Longrightarrow> balanced ps (pull f dx dy i j ps)"
  by (simp add: balanced_def pull_def Let_def push_at_kept push_at_total)

lemma repulsion_balanced: "balanced ps (repulsion ps)"
proof -
  have "balanced ps (fold (\<lambda>(i, j). repel i j) ks qs)"
    if "balanced ps qs" "\<forall>(i, j) \<in> set ks. i < length ps \<and> j < length ps" for ks qs
    using that
  proof (induction ks arbitrary: qs)
    case (Cons k ks)
    obtain i j where k: "k = (i, j)" by fastforce
    have "balanced qs (repel i j qs)"
      using Cons.prems balanced_length [of ps qs] by (simp add: k repel_def pull_balanced)
    then have "balanced ps (repel i j qs)" using Cons.prems(1) balanced_trans by blast
    then show ?case using Cons by (simp add: k)
  qed simp
  then show ?thesis unfolding repulsion_def by auto
qed

lemma placed_at_length: "placed_at v ps = Some k \<Longrightarrow> k < length ps"
  by (auto simp: placed_at_def find_Some_iff)

lemma attract_balanced: "attract es ps = Inr qs \<Longrightarrow> balanced ps qs"
proof (induction es arbitrary: ps)
  case (Cons e es)
  obtain src where m: "member (Some e) ''from'' = Inr src" using Cons.prems by (auto split: sum.splits)
  let ?ps = "case (placed_at src ps, placed_at (json_field e ''to'') ps) of
               (Some i, Some j) \<Rightarrow>
                 pull (\<lambda>dist. (dist - 80) * 0.01) (pt_x (snd (ps ! j)) - pt_x (snd (ps ! i)))
                   (pt_y (snd (ps ! j)) - pt_y (snd (ps ! i))) i j ps
             | _ \<Rightarrow> ps"
  have "balanced ps ?ps" by (auto split: option.split dest!: placed_at_length intro: pull_balanced)
  moreover have "balanced ?ps qs" using Cons.prems by (intro Cons.IH) (simp add: m)
  ultimately show ?case by (rule balanced_trans)
qed simp

section \<open>The centre of the layout\<close>

definition node_ids :: "json list \<Rightarrow> json option list" where
  "node_ids ns = map (\<lambda>n. json_field n ''id'') ns"

definition sum_over :: "(point \<Rightarrow> real) \<Rightarrow> json option list \<Rightarrow> canvas_state \<Rightarrow> real" where
  "sum_over f ids cv = (\<Sum>i \<leftarrow> ids. f (the (cv_positions cv i)))"

text \<open>Every node has a position and the velocities add up to nothing.\<close>

definition at_rest :: "json option list \<Rightarrow> canvas_state \<Rightarrow> bool" where
  "at_rest ids cv = ((\<forall>i \<in> set ids. cv_positions cv i \<noteq> None) \<and> sum_over pt_vx ids cv = 0 \<and> sum_over pt_vy ids cv = 0)"

definition centre :: "json option list \<Rightarrow> canvas_state \<Rightarrow> real \<times> real" where
  "centre ids cv = (sum_over pt_x ids cv / of_nat (length ids), sum_over pt_y ids cv / of_nat (length ids))"

lemma place_nodes_placed:
  assumes "\<forall>i \<in> set (node_ids ns). cv_positions cv i \<noteq> None" "JNull \<notin> set ns"
  shows "place_nodes b ns cv = (cv, Inr (map (\<lambda>i. (i, the (cv_positions cv i))) (node_ids ns)))"
  using assms
proof (induction ns)
  case (Cons n ns)
  have "member (Some n) ''id'' = Inr (json_field n ''id'')" using Cons.prems(2) by (cases n) auto
  moreover obtain pt where "cv_positions cv (json_field n ''id'') = Some pt" using Cons.prems(1) by (auto simp: node_ids_def)
  ultimately show ?case using Cons by (simp add: getNodePos_def node_ids_def)
qed (simp add: node_ids_def)

lemma settle_positions:
  assumes "distinct (map fst ps)" "\<forall>i \<in> fst ` set ps. cv_positions cv i \<noteq> None" "(i, pt) \<in> set ps"
  shows "cv_positions (settle ps cv) i = Some (drift pt)"
proof -
  have other: "fold (\<lambda>(i, pt) m. if m i = None then m else m(i \<mapsto> drift pt)) qs m k = m k" if "k \<notin> fst ` set qs" for k qs m
    using that by (induction qs arbitrary: m) auto
  have "fold (\<lambda>(i, pt) m. if m i = None then m else m(i \<mapsto> drift pt)) ps m i = Some (drift pt)"
    if "distinct (map fst ps)" "\<forall>i \<in> fst ` set ps. m i \<noteq> None" "(i, pt) \<in> set ps" for ps m
    using that
  proof (induction ps arbitrary: m)
    case (Cons q ps)
    show ?case
    proof (cases "q = (i, pt)")
      case True
      then have "i \<notin> fst ` set ps" using Cons.prems(1) by simp
      then show ?thesis using Cons.prems(2) by (simp add: True other)
    next
      case False
      then have in_ps: "(i, pt) \<in> set ps" using Cons.prems(3) by auto
      obtain j pj where q: "q = (j, pj)" by fastforce
      have "\<forall>i \<in> fst ` set ps. (m(j \<mapsto> drift pj)) i \<noteq> None" "distinct (map fst ps)" using Cons.prems by auto
      from Cons.IH [OF this(2,1) in_ps] have "fold (\<lambda>(i, pt) m. if m i = None then m else m(i \<mapsto> drift pt)) ps (m(j \<mapsto> drift pj)) i = Some (drift pt)" .
      moreover have "m j \<noteq> None" using Cons.prems(2) by (simp add: q)
      ultimately show ?thesis by (simp only: q fold_simps prod.case if_False)
    qed
  qed simp
  from this [OF assms] show ?thesis by (simp add: settle_def)
qed

lemma settle_sum:
  assumes "distinct (map fst ps)" "\<forall>i \<in> fst ` set ps. cv_positions cv i \<noteq> None"
  shows "sum_over f (map fst ps) (settle ps cv) = total (f \<circ> drift) ps"
proof -
  have "map (\<lambda>q. f (the (cv_positions (settle ps cv) (fst q)))) ps = map (\<lambda>q. f (drift (snd q))) ps"
    using settle_positions [OF assms] by (intro map_cong) auto
  from arg_cong [OF this, of sum_list] show ?thesis by (simp only: sum_over_def total_def comp_def map_map)
qed

lemma total_drift:
  "total (pt_x \<circ> drift) ps = total pt_x ps + total pt_vx ps * 0.1" "total (pt_y \<circ> drift) ps = total pt_y ps + total pt_vy ps * 0.1"
  "total (pt_vx \<circ> drift) ps = total pt_vx ps * 0.85" "total (pt_vy \<circ> drift) ps = total pt_vy ps * 0.85"
  by (induction ps) (simp_all add: total_def drift_def algebra_simps)
lemma physics_rest:
  assumes "graph_field g ''nodes'' = JArr ns" "JNull \<notin> set ns" "distinct (node_ids ns)" "at_rest (node_ids ns) cv"
  shows "at_rest (node_ids ns) (fst (simulatePhysics b g cv)) \<and>
    centre (node_ids ns) (fst (simulatePhysics b g cv)) = centre (node_ids ns) cv"
proof -
  let ?ids = "node_ids ns"
  let ?ps = "map (\<lambda>i. (i, the (cv_positions cv i))) ?ids"
  have placed: "\<forall>i \<in> set ?ids. cv_positions cv i \<noteq> None" using assms(4) by (simp add: at_rest_def)
  have sums: "total f ?ps = sum_over f ?ids cv" for f by (simp add: total_def sum_over_def comp_def)
  show ?thesis
  proof (cases "iterate (graph_field g ''edges'')")
    case (Inr es)
    show ?thesis
    proof (cases "attract es (repulsion ?ps)")
      case (Inr qs)
      have run: "simulatePhysics b g cv = (settle qs cv, None)"
        using place_nodes_placed [OF placed assms(2)] \<open>iterate _ = _\<close> Inr by (simp add: simulatePhysics_def assms(1))
      have bal: "balanced ?ps qs" using repulsion_balanced attract_balanced [OF Inr] balanced_trans by blast
      then have ids: "map fst qs = ?ids" by (simp add: balanced_def comp_def)
      have "total pt_x qs = total pt_x ?ps" "total pt_y qs = total pt_y ?ps" "total pt_vx qs = total pt_vx ?ps"
        "total pt_vy qs = total pt_vy ?ps"
        using bal unfolding balanced_def total_def by (metis (no_types, lifting) comp_apply map_eq_conv)+
      moreover have "\<forall>i \<in> fst ` set qs. cv_positions cv i \<noteq> None" using placed unfolding ids [symmetric] by simp
      ultimately have s: "sum_over pt_x ?ids (settle qs cv) = sum_over pt_x ?ids cv" "sum_over pt_y ?ids (settle qs cv) = sum_over pt_y ?ids cv"
        "sum_over pt_vx ?ids (settle qs cv) = 0" "sum_over pt_vy ?ids (settle qs cv) = 0"
        using settle_sum [of qs cv, unfolded ids] assms(3,4) by (simp_all add: total_drift sums at_rest_def)
      have "cv_positions (settle qs cv) i \<noteq> None" if "i \<in> set ?ids" for i
      proof -
        have "i \<in> fst ` set qs" using that ids by (metis set_map)
        then obtain pt where "(i, pt) \<in> set qs" by fastforce
        from settle_positions [OF _ _ this] show ?thesis
          using placed assms(3) unfolding ids [symmetric] by simp
      qed
      with s show ?thesis by (simp add: run at_rest_def centre_def)
    qed (use place_nodes_placed [OF placed assms(2)] Inr assms in \<open>simp add: simulatePhysics_def\<close>)
  qed (use place_nodes_placed [OF placed assms(2)] assms in \<open>simp add: simulatePhysics_def\<close>)
qed

lemma same_positions_rest: "cv_positions cv' = cv_positions cv \<Longrightarrow> at_rest ids cv' = at_rest ids cv \<and> centre ids cv' = centre ids cv"
  by (simp add: at_rest_def centre_def sum_over_def)

lemma draw_items_positions: "cv_positions (fst (draw_items f v cv)) = cv_positions cv"
proof -
  have "cv_positions (fst (draw_all f xs cv)) = cv_positions cv" for xs
    by (induction f xs cv rule: draw_all.induct) (auto simp: paint_def split: sum.split)
  then show ?thesis by (simp add: draw_items_def split: sum.split)
qed

text \<open>Once the nodes have positions and are at rest together, drawing never moves the centre of the layout, and they stay at
  rest together: every force acts on two nodes in opposite directions. This is a statement about exact coordinates, which
  the rounding of the code blurs, and about nodes of different identifiers: copies of one share a position, which the last
  of them decides, while the edges pull the first.\<close>

theorem layout_keeps_centre:
  assumes "graph_field g ''nodes'' = JArr ns" "JNull \<notin> set ns" "distinct (node_ids ns)" "at_rest (node_ids ns) cv"
  shows "at_rest (node_ids ns) (fst (drawGraph b g cv)) \<and>
    centre (node_ids ns) (fst (drawGraph b g cv)) = centre (node_ids ns) cv"
proof (cases "cv_ready cv")
  case True
  let ?P = "\<lambda>c. at_rest (node_ids ns) c \<and> centre (node_ids ns) c = centre (node_ids ns) cv"
  have "?P (fst (f c))" if "f \<in> {save_and_place b, simulatePhysics b g, draw_items h v, restore}" "?P c" for f c h v
    using that physics_rest [OF assms(1-3), of c b]
      same_positions_rest [of "fst (save_and_place b c)" c] same_positions_rest [of "fst (draw_items h v c)" c]
      same_positions_rest [of "fst (restore c)" c]
    by (auto simp: save_and_place_def Let_def restore_def draw_items_positions split: list.splits)
  then have "?P (fst (canvas_seq [save_and_place b, simulatePhysics b g, simulatePhysics b g, simulatePhysics b g,
         draw_items (edge_shapes b) (graph_field g ''edges''), draw_items (node_shapes b) (graph_field g ''nodes''), restore] cv))"
    using assms(4) by (intro canvas_seq_inv [where P = ?P]) auto
  with True show ?thesis by (simp add: drawGraph_def del: canvas_seq.simps)
qed (use assms in \<open>simp add: drawGraph_def\<close>)
definition two_nodes :: json where
  "two_nodes = JObj [(''nodes'', JArr [JObj [(''id'', JStr ''a'')], JObj [(''id'', JStr ''b'')]])]"

definition two_placed :: canvas_state where
  "two_placed = initial_canvas\<lparr>cv_ready := True, cv_positions :=
     [Some (JStr ''a'') \<mapsto> \<lparr>pt_x = 0, pt_y = 0, pt_vx = 0, pt_vy = 0\<rparr>,
      Some (JStr ''b'') \<mapsto> \<lparr>pt_x = 10, pt_y = 4, pt_vx = 0, pt_vy = 0\<rparr>]\<rparr>"

theorem layout_keeps_centre_witness:
  "centre [Some (JStr ''a''), Some (JStr ''b'')] (fst (drawGraph plain_browser two_nodes two_placed)) = (5, 2)"
proof -
  let ?ns = "[JObj [(''id'', JStr ''a'')], JObj [(''id'', JStr ''b'')]]"
  have g: "graph_field two_nodes ''nodes'' = JArr ?ns" "JNull \<notin> set ?ns" "distinct (node_ids ?ns)"
    by (simp_all add: graph_field_def two_nodes_def js_or_def js_truthy_def node_ids_def)
  have "at_rest (node_ids ?ns) two_placed" "centre (node_ids ?ns) two_placed = (5, 2)"
    by (simp_all add: at_rest_def centre_def sum_over_def node_ids_def two_placed_def)
  with layout_keeps_centre [OF g this(1)] show ?thesis by (simp add: node_ids_def)
qed

section \<open>The node under the mouse\<close>

text \<open>Everything the layout leaves alone.\<close>

definition frame_of :: "canvas_state \<Rightarrow> (nat \<times> nat) \<times> (matrix \<times> matrix list \<times> (matrix \<times> shape) list) \<times> real \<times> real \<times> real" where
  "frame_of cv = ((cv_width cv, cv_height cv), (cv_matrix cv, cv_saved cv, cv_shapes cv), cv_x cv, cv_y cv, cv_scale cv)"

lemma place_nodes_frame: "frame_of (fst (place_nodes b ns cv)) = frame_of cv"
proof (induction ns arbitrary: cv)
  case (Cons n ns)
  have "frame_of (fst (getNodePos b i cv)) = frame_of cv" for i
    by (simp add: getNodePos_def Let_def frame_of_def split: option.split)
  with Cons show ?case by (simp add: Let_def case_prod_beta split: sum.split)
qed simp

lemma physics_frame: "frame_of (fst (simulatePhysics b g cv)) = frame_of cv"
proof (cases "graph_field g ''nodes''")
  case (JArr ns)
  obtain cv1 r where "place_nodes b ns cv = (cv1, r)" by fastforce
  with JArr place_nodes_frame [of b ns cv] show ?thesis
    by (auto simp: simulatePhysics_def settle_def frame_of_def split: sum.split)
qed (simp_all add: simulatePhysics_def)

lemma paint_positions: "cv_positions (paint ss cv) = cv_positions cv"
  by (simp add: paint_def)

lemma edge_shapes_paint: "edge_shapes b e (paint ss cv) = edge_shapes b e cv"
  by (simp only: edge_shapes_def paint_positions)

lemma node_shapes_paint: "node_shapes b n (paint ss cv) = node_shapes b n cv"
  by (simp only: node_shapes_def paint_positions)

lemma draw_all_shapes:
  assumes "\<And>x ss cv. f x (paint ss cv) = f x cv" "draw_all f xs cv = (cv', None)"
  shows "(\<exists>ss. cv' = cv\<lparr>cv_shapes := ss\<rparr>) \<and> (\<forall>x \<in> set xs. \<exists>ss. f x cv = Inr ss) \<and>
    (\<forall>(m, s) \<in> set (cv_shapes cv'). (m, s) \<in> set (cv_shapes cv) \<or>
       m = cv_matrix cv \<and> (\<exists>x \<in> set xs. \<exists>ss. f x cv = Inr ss \<and> s \<in> set ss))"
  using assms(2)
proof (induction xs arbitrary: cv)
  case Nil
  then show ?case by (auto intro: exI [of _ "cv_shapes cv"])
next
  case (Cons x xs)
  obtain ss where f: "f x cv = Inr ss" using Cons.prems by (cases "f x cv") auto
  have "draw_all f xs (paint ss cv) = (cv', None)" using Cons.prems f by simp
  from Cons.IH [OF this, unfolded assms(1)] show ?case by (auto simp: f paint_def)
qed

lemma draw_items_shapes:
  assumes "\<And>x ss cv. f x (paint ss cv) = f x cv" "draw_items f v cv = (cv', None)"
  obtains xs where "iterate v = Inr xs" "\<exists>ss. cv' = cv\<lparr>cv_shapes := ss\<rparr>" "\<forall>x \<in> set xs. \<exists>ss. f x cv = Inr ss"
    "\<forall>(m, s) \<in> set (cv_shapes cv'). (m, s) \<in> set (cv_shapes cv) \<or>
       m = cv_matrix cv \<and> (\<exists>x \<in> set xs. \<exists>ss. f x cv = Inr ss \<and> s \<in> set ss)"
proof -
  obtain xs where xs: "iterate v = Inr xs" using assms(2) by (auto simp: draw_items_def split: sum.splits)
  then have "draw_all f xs cv = (cv', None)" using assms(2) by (simp add: draw_items_def)
  from draw_all_shapes [OF assms(1) this] xs that show thesis by blast
qed

text \<open>The transformation of the shapes, and where a shape lies on the screen, in the units of the mouse.\<close>

definition placed_matrix :: "browser \<Rightarrow> canvas_state \<Rightarrow> matrix" where
  "placed_matrix b cv =
     (ratio b * cv_scale cv, ratio b * (of_nat (cv_width cv) / ratio b / 2 + cv_x cv), ratio b * (of_nat (cv_height cv) / ratio b / 2 + cv_y cv))"

definition on_screen :: "browser \<Rightarrow> matrix \<Rightarrow> real \<Rightarrow> real \<Rightarrow> real \<times> real" where
  "on_screen b m x y = (case m of (s, tx, ty) \<Rightarrow> ((s * x + tx) / ratio b, (s * y + ty) / ratio b))"

lemma edge_no_disc: "edge_shapes b e cv = Inr ss \<Longrightarrow> Disc x y r c \<notin> set ss"
  by (auto simp: edge_shapes_def split: sum.splits option.splits)

lemma canvas_seq_ok: "canvas_seq (f # fs) c = (d, None) \<longleftrightarrow> (\<exists>c1. f c = (c1, None) \<and> canvas_seq fs c1 = (d, None))"
  by (auto split: prod.splits option.splits)

lemma drawn_discs:
  assumes "cv_ready cv" "cv_matrix cv = scale_by (ratio b) (1, 0, 0)" "drawGraph b g cv = (cv', None)"
    and "(m, Disc x y r c) \<in> set (cv_shapes cv')"
  shows "\<exists>ns n pt. iterate (graph_field g ''nodes'') = Inr ns \<and> JNull \<notin> set ns \<and> n \<in> set ns \<and>
    cv_positions cv' (json_field n ''id'') = Some pt \<and> x = pt_x pt \<and> y = pt_y pt \<and> m = placed_matrix b cv'"
proof -
  let ?e = "draw_items (edge_shapes b) (graph_field g ''edges'')" and ?n = "draw_items (node_shapes b) (graph_field g ''nodes'')"
  have "canvas_seq [save_and_place b, simulatePhysics b g, simulatePhysics b g, simulatePhysics b g, ?e, ?n, restore] cv = (cv', None)"
    using assms(1,3) by (simp add: drawGraph_def del: canvas_seq.simps)
  then obtain c0 c1 c2 c3 c4 c5 where c: "save_and_place b cv = (c0, None)" "simulatePhysics b g c0 = (c1, None)"
    "simulatePhysics b g c1 = (c2, None)" "simulatePhysics b g c2 = (c3, None)" "?e c3 = (c4, None)" "?n c4 = (c5, None)"
    "restore c5 = (cv', None)"
    unfolding canvas_seq_ok canvas_seq.simps(1) prod.inject by blast
  have "frame_of c3 = frame_of c0" using physics_frame [of b g c0] physics_frame [of b g c1] physics_frame [of b g c2] c by simp
  moreover have "frame_of c0 = ((cv_width cv, cv_height cv), (placed_matrix b cv, cv_matrix cv # cv_saved cv, []), cv_x cv, cv_y cv, cv_scale cv)"
    using c(1) assms(2)
    by (auto simp: frame_of_def save_and_place_def Let_def placed_matrix_def scale_by_def translate_def mult.commute)
  ultimately have f3: "cv_shapes c3 = []" "cv_matrix c3 = placed_matrix b c3"
    unfolding frame_of_def placed_matrix_def by simp_all
  obtain es where "iterate (graph_field g ''edges'') = Inr es" and e1: "\<exists>ss. c4 = c3\<lparr>cv_shapes := ss\<rparr>"
      and "\<forall>x \<in> set es. \<exists>ss. edge_shapes b x c3 = Inr ss" and e2: "\<forall>(m, s) \<in> set (cv_shapes c4). (m, s) \<in> set (cv_shapes c3) \<or>
       m = cv_matrix c3 \<and> (\<exists>x \<in> set es. \<exists>ss. edge_shapes b x c3 = Inr ss \<and> s \<in> set ss)"
    by (rule draw_items_shapes [OF edge_shapes_paint c(5)])
  have no_disc: "(m, Disc x y r c) \<notin> set (cv_shapes c4)" for m x y r c
  proof
    assume "(m, Disc x y r c) \<in> set (cv_shapes c4)"
    from bspec [OF e2 this] f3(1) edge_no_disc show False by auto
  qed
  obtain ns where n: "iterate (graph_field g ''nodes'') = Inr ns" "\<exists>ss. c5 = c4\<lparr>cv_shapes := ss\<rparr>"
      "\<forall>x \<in> set ns. \<exists>ss. node_shapes b x c4 = Inr ss"
      "\<forall>(m, s) \<in> set (cv_shapes c5). (m, s) \<in> set (cv_shapes c4) \<or>
       m = cv_matrix c4 \<and> (\<exists>x \<in> set ns. \<exists>ss. node_shapes b x c4 = Inr ss \<and> s \<in> set ss)"
    by (rule draw_items_shapes [OF node_shapes_paint c(6)])
  have r: "cv_shapes cv' = cv_shapes c5" "cv_positions cv' = cv_positions c4" "placed_matrix b cv' = placed_matrix b c3"
    using c(7) n(2) e1 by (auto simp: restore_def placed_matrix_def split: list.splits)
  have "JNull \<notin> set ns" using n(3) by (auto simp: node_shapes_def)
  moreover have "(m, Disc x y r c) \<in> set (cv_shapes c5)" using assms(4) r(1) by simp
  from bspec [OF n(4) this] no_disc obtain n ss where
    "m = cv_matrix c4" "n \<in> set ns" "node_shapes b n c4 = Inr ss" "Disc x y r c \<in> set ss" by auto
  moreover from calculation
  obtain pt where "cv_positions c4 (json_field n ''id'') = Some pt" "x = pt_x pt" "y = pt_y pt"
    by (cases n) (auto simp: node_shapes_def Let_def split: option.splits)
  moreover have "cv_matrix c4 = placed_matrix b cv'" using e1 f3(2) r(3) by auto
  ultimately show ?thesis using n(1) r(2) by metis
qed
lemma screen_offset:
  assumes "ratio b > 0" "(X, Y) = on_screen b (placed_matrix b cv) x y"
  shows "x * cv_scale cv + of_nat (cv_width cv) / 2 + cv_x cv = X + of_nat (cv_width cv) / 2 * (1 - 1 / ratio b)"
    and "y * cv_scale cv + of_nat (cv_height cv) / 2 + cv_y cv = Y + of_nat (cv_height cv) / 2 * (1 - 1 / ratio b)"
proof -
  have "(ratio b * s * z + ratio b * t) / ratio b = s * z + t" for s z t
    using assms(1) by (simp add: add_divide_distrib)
  then have "X = cv_scale cv * x + (of_nat (cv_width cv) / ratio b / 2 + cv_x cv)" "Y = cv_scale cv * y + (of_nat (cv_height cv) / ratio b / 2 + cv_y cv)"
    using assms(2) by (simp_all add: on_screen_def placed_matrix_def)
  then show "x * cv_scale cv + of_nat (cv_width cv) / 2 + cv_x cv = X + of_nat (cv_width cv) / 2 * (1 - 1 / ratio b)"
    "y * cv_scale cv + of_nat (cv_height cv) / 2 + cv_y cv = Y + of_nat (cv_height cv) / 2 * (1 - 1 / ratio b)"
    by (simp_all add: algebra_simps diff_divide_distrib)
qed

text \<open>C35: A click in the middle of a drawn node finds a node when the screen has one pixel for each unit of the mouse. With
  another pixel ratio the search is off by a part of half the canvas: a lone node is found in its own middle exactly when this
  offset is below twelve.\<close>

theorem node_found_where_drawn:
  assumes "cv_ready cv" "cv_matrix cv = scale_by (ratio b) (1, 0, 0)" "drawGraph b g cv = (cv', None)"
    and "(m, Disc x y r c) \<in> set (cv_shapes cv')" "(X, Y) = on_screen b m x y" "ratio b > 0"
  shows "(ratio b = 1 \<longrightarrow> (\<exists>n. findNodeAt g X Y cv' = Inr (Some n))) \<and>
    (\<forall>n. graph_field g ''nodes'' = JArr [n] \<longrightarrow>
      (findNodeAt g X Y cv' = Inr (Some n) \<longleftrightarrow>
       sqrt ((of_nat (cv_width cv') / 2 * (1 - 1 / ratio b))\<^sup>2 + (of_nat (cv_height cv') / 2 * (1 - 1 / ratio b))\<^sup>2) < 12))"
proof -
  obtain ns n pt where n: "iterate (graph_field g ''nodes'') = Inr ns" "JNull \<notin> set ns" "n \<in> set ns"
    "cv_positions cv' (json_field n ''id'') = Some pt" "x = pt_x pt" "y = pt_y pt" "m = placed_matrix b cv'"
    using drawn_discs [OF assms(1-4)] by blast
  have xy: "pt_x pt * cv_scale cv' + of_nat (cv_width cv') / 2 + cv_x cv' = X + of_nat (cv_width cv') / 2 * (1 - 1 / ratio b)"
    "pt_y pt * cv_scale cv' + of_nat (cv_height cv') / 2 + cv_y cv' = Y + of_nat (cv_height cv') / 2 * (1 - 1 / ratio b)"
    using screen_offset [OF assms(6), of X Y cv' x y] assms(5) n(5-7) by simp_all
  have id: "member (Some k) ''id'' = Inr (json_field k ''id'')" if "k \<noteq> JNull" for k using that by (cases k) auto
  have idn: "member (Some n) ''id'' = Inr (json_field n ''id'')" using n(2,3) by (intro id) auto
  have some: "\<exists>k. node_at_point ks X Y cv' = Inr (Some k)" if "JNull \<notin> set ks" "n \<in> set ks" "ratio b = 1" for ks
    using that
  proof (induction ks)
    case (Cons k ks)
    show ?case
    proof (cases "k = n")
      case True
      then show ?thesis using Cons.prems n(4) xy idn by (simp add: Let_def)
    next
      case False
      have "k \<noteq> JNull" using Cons.prems(1) by auto
      moreover obtain k' where "node_at_point ks X Y cv' = Inr (Some k')" using Cons False by auto
      ultimately show ?thesis using id [of k] by (cases "cv_positions cv' (json_field k ''id'')") (simp_all add: Let_def)
    qed
  qed simp
  have "findNodeAt g X Y cv' = Inr (Some k) \<longleftrightarrow>
      sqrt ((of_nat (cv_width cv') / 2 * (1 - 1 / ratio b))\<^sup>2 + (of_nat (cv_height cv') / 2 * (1 - 1 / ratio b))\<^sup>2) < 12"
    if "graph_field g ''nodes'' = JArr [k]" for k
  proof -
    have "k = n" "ns = [n]" using that n(1,3) by auto
    then show ?thesis using n(1,4) xy idn by (simp add: findNodeAt_def Let_def)
  qed
  with some [OF n(2,3)] n(1) show ?thesis by (simp add: findNodeAt_def)
qed
definition lone_node :: json where
  "lone_node = JObj [(''id'', JStr ''a'')]"

definition lone_graph :: json where
  "lone_graph = JObj [(''nodes'', JArr [lone_node])]"

definition lone_canvas :: "browser \<Rightarrow> canvas_state" where
  "lone_canvas b = resizeCanvas b (initial_canvas\<lparr>cv_ready := True, cv_positions :=
     [Some (JStr ''a'') \<mapsto> \<lparr>pt_x = 0, pt_y = 0, pt_vx = 0, pt_vy = 0\<rparr>]\<rparr>)"

lemma lone_fields: "graph_field lone_graph ''nodes'' = JArr [lone_node]" "graph_field lone_graph ''edges'' = JArr []"
  by (simp_all add: graph_field_def lone_graph_def js_or_def js_truthy_def)

lemma lone_physics:
  assumes "cv_positions cv (Some (JStr ''a'')) = Some \<lparr>pt_x = 0, pt_y = 0, pt_vx = 0, pt_vy = 0\<rparr>"
  shows "simulatePhysics b lone_graph cv = (cv, None)"
proof -
  have "(cv_positions cv)(Some (JStr ''a'') \<mapsto> \<lparr>pt_x = 0, pt_y = 0, pt_vx = 0, pt_vy = 0\<rparr>) = cv_positions cv"
    using assms by auto
  then show ?thesis using assms
    by (simp add: simulatePhysics_def lone_fields lone_node_def getNodePos_def repulsion_def settle_def drift_def)
qed

lemma lone_drawing:
  "drawGraph b lone_graph (lone_canvas b) =
     (lone_canvas b\<lparr>cv_shapes := [(placed_matrix b (lone_canvas b), Disc 0 0 6 (color_of b NODE_COLORS None ''#666'')),
        (placed_matrix b (lone_canvas b), Node_label ''a'' 10 3)]\<rparr>, None)"
  by (simp add: drawGraph_def lone_physics draw_items_def lone_fields save_and_place_def restore_def node_shapes_def paint_def
      Let_def lone_canvas_def resizeCanvas_def initial_canvas_def lone_node_def placed_matrix_def scale_by_def translate_def js_truthy_def)

theorem node_found_where_drawn_witness:
  "findNodeAt lone_graph 400 300 (fst (drawGraph plain_browser lone_graph (lone_canvas plain_browser))) = Inr (Some lone_node)"
proof -
  let ?b = plain_browser and ?c = "lone_canvas plain_browser"
  have c: "cv_ready ?c" "cv_matrix ?c = scale_by (ratio ?b) (1, 0, 0)" "ratio ?b = 1" "cv_width ?c = 800" "cv_height ?c = 600"
    "cv_x ?c = 0" "cv_y ?c = 0"
    by (simp_all add: lone_canvas_def resizeCanvas_def initial_canvas_def plain_browser_def ratio_def)
  have "(400, 300) = on_screen ?b (placed_matrix ?b ?c) 0 0" by (simp add: on_screen_def placed_matrix_def c)
  from node_found_where_drawn [OF c(1,2) lone_drawing _ this] lone_fields(1) c show ?thesis by (simp add: lone_drawing)
qed

end
