(* ===== verification/Console_Tree_Props.thy ===== *)
theory Console_Tree_Props
  imports Console_Props
begin

text \<open>
  The rows of the task tree: every task whose parents lead to a task without one has one row, at its depth; a task that is
  its own ancestor has none, and a task whose id is taken by its own ancestor ends the rendering.
\<close>

section \<open>Descent\<close>

text \<open>The tasks that hang under a task without parent, with their depth.\<close>

inductive descends :: "json option list \<Rightarrow> nat \<Rightarrow> json option \<Rightarrow> bool" for ts where
  root: "t \<in> set ts \<Longrightarrow> \<not> has_parent t \<Longrightarrow> descends ts 0 t"
| child: "descends ts d t \<Longrightarrow> c \<in> set ts \<Longrightarrow> has_parent c \<Longrightarrow> is_child_of t c \<Longrightarrow> descends ts (Suc d) c"

text \<open>The tasks under a given task.\<close>

inductive below :: "json option list \<Rightarrow> nat \<Rightarrow> json option \<Rightarrow> nat \<Rightarrow> json option \<Rightarrow> bool" for ts where
  self: "below ts d t d t"
| deeper: "below ts d t e x \<Longrightarrow> c \<in> set ts \<Longrightarrow> has_parent c \<Longrightarrow> is_child_of x c \<Longrightarrow> below ts d t (Suc e) c"

definition has_text_id :: "json option \<Rightarrow> bool" where
  "has_text_id t = (\<exists>s. opt_member t ''id'' = Some (JStr s))"

definition named_tasks :: "json option list \<Rightarrow> bool" where
  "named_tasks ts = (list_all has_text_id ts \<and> distinct (map (\<lambda>t. opt_member t ''id'') ts))"

definition kids :: "json option list \<Rightarrow> json option \<Rightarrow> json option list" where
  "kids ts t = filter (is_child_of t) (filter has_parent ts)"

lemma kids_set: "c \<in> set (kids ts t) \<longleftrightarrow> c \<in> set ts \<and> has_parent c \<and> is_child_of t c"
  by (auto simp: kids_def)

lemma child_of: "has_text_id t \<Longrightarrow> is_child_of t c \<Longrightarrow> opt_member c ''parent_task'' = opt_member t ''id''"
  by (auto simp: has_text_id_def is_child_of_def elim!: strict_eq.elims)

lemma same_parent:
  assumes "named_tasks ts" "t \<in> set ts" "u \<in> set ts" "is_child_of t c" "is_child_of u c"
  shows "t = u"
proof -
  have "has_text_id t" "has_text_id u" using assms(1-3) by (simp_all add: named_tasks_def list_all_iff)
  then have "opt_member t ''id'' = opt_member u ''id''" using child_of assms(4,5) by metis
  then show ?thesis using assms(1-3) by (auto simp: named_tasks_def distinct_map dest: inj_onD)
qed

lemma descends_in: "descends ts d t \<Longrightarrow> t \<in> set ts"
  by (induction rule: descends.induct) auto

lemma depth_unique: "descends ts d t \<Longrightarrow> descends ts e t \<Longrightarrow> named_tasks ts \<Longrightarrow> d = e"
proof (induction arbitrary: e rule: descends.induct)
  case (root t)
  from root.prems(1) root.hyps(2) show ?case by cases auto
next
  case (child d t c)
  from child.prems(1) child.hyps show ?case
  proof cases
    case root
    with child.hyps show ?thesis by simp
  next
    case (child e' u)
    then have "u = t" using same_parent [of ts u t c] descends_in \<open>descends ts d t\<close> \<open>is_child_of t c\<close> \<open>named_tasks ts\<close> by blast
    with child child.IH \<open>named_tasks ts\<close> show ?thesis by simp
  qed
qed

lemma depth_bound:
  assumes "descends ts d t" "named_tasks ts"
  shows "d \<le> length (filter has_parent ts)"
proof -
  have "\<exists>xs. length xs = d \<and> distinct xs \<and> (\<forall>x \<in> set xs. x \<in> set (filter has_parent ts) \<and> (\<exists>e \<le> d. descends ts e x))"
    using assms(1)
  proof (induction rule: descends.induct)
    case (child d t c)
    then obtain xs where xs: "length xs = d" "distinct xs"
      "\<forall>x \<in> set xs. x \<in> set (filter has_parent ts) \<and> (\<exists>e \<le> d. descends ts e x)" by blast
    have c: "descends ts (Suc d) c" using child.hyps by (rule descends.child)
    then have "c \<notin> set xs" using xs(3) depth_unique [OF c _ assms(2)] by fastforce
    then show ?case using xs c child.hyps by (intro exI [of _ "c # xs"]) (auto intro: le_SucI)
  qed simp
  then obtain xs where "length xs = d" "distinct xs" "set xs \<subseteq> set (filter has_parent ts)" by blast
  then show ?thesis by (metis card_mono distinct_card card_length le_trans List.finite_set)
qed

lemma below_descends: "below ts d t e x \<Longrightarrow> descends ts d t \<Longrightarrow> descends ts e x \<and> d \<le> e"
  by (induction rule: below.induct) (auto intro: descends.child)

lemma below_first: "below ts d t e x \<longleftrightarrow> e = d \<and> x = t \<or> (\<exists>c \<in> set (kids ts t). below ts (Suc d) c e x)"
proof
  show "below ts d t e x \<Longrightarrow> e = d \<and> x = t \<or> (\<exists>c \<in> set (kids ts t). below ts (Suc d) c e x)"
    by (induction rule: below.induct) (auto simp: kids_set intro: below.intros)
  have "below ts d t e x" if "below ts d' c e x" "d' = Suc d" "c \<in> set (kids ts t)" for d' c
    using that by (induction rule: below.induct) (auto simp: kids_set intro: below.intros)
  then show "e = d \<and> x = t \<or> (\<exists>c \<in> set (kids ts t). below ts (Suc d) c e x) \<Longrightarrow> below ts d t e x"
    by (auto intro: below.self)
qed

lemma below_unique:
  assumes "named_tasks ts" "below ts d t e x" "below ts d u e x" "descends ts d t" "descends ts d u"
  shows "t = u"
  using assms(2-5)
proof (induction e arbitrary: x)
  case 0
  from 0(1,2) show ?case by (auto elim: below.cases)
next
  case (Suc e)
  show ?case
  proof (cases "d = Suc e")
    case True
    have no: "\<not> below ts d v e y" if "descends ts d v" for v y using below_descends [OF _ that] True by fastforce
    have "x = t" using Suc.prems(1) no [OF Suc.prems(3)] by cases auto
    moreover have "x = u" using Suc.prems(2) no [OF Suc.prems(4)] by cases auto
    ultimately show ?thesis by simp
  next
    case False
    obtain y where y: "below ts d t e y" "is_child_of y x" using Suc.prems(1) False by cases auto
    obtain z where z: "below ts d u e z" "is_child_of z x" using Suc.prems(2) False by cases auto
    have "y = z"
      using same_parent [OF assms(1) _ _ y(2) z(2)] below_descends [OF y(1) Suc.prems(3)] below_descends [OF z(1) Suc.prems(4)] descends_in
      by blast
    with z(1) have "below ts d u e y" by simp
    from Suc.IH [OF y(1) this Suc.prems(3,4)] show ?thesis .
  qed
qed

section \<open>Rows\<close>

definition rows_of :: "json option list \<Rightarrow> nat \<Rightarrow> json option \<Rightarrow> (nat \<times> json option) list \<Rightarrow> bool" where
  "rows_of ts d t rows = (set rows = {(e, x). below ts d t e x} \<and> distinct (map snd rows))"

lemma forest:
  assumes "named_tasks ts" "distinct ks" "\<forall>k \<in> set ks. descends ts d k \<and> (\<exists>rows. f k = Inr rows \<and> rows_of ts d k rows)"
  shows "\<exists>rs. try_map f ks = Inr rs \<and> set (concat rs) = {(e, x). \<exists>k \<in> set ks. below ts d k e x} \<and> distinct (map snd (concat rs))"
  using assms(2,3)
proof (induction ks)
  case (Cons k ks)
  then obtain rows rs where r: "f k = Inr rows" "rows_of ts d k rows" "try_map f ks = Inr rs"
    "set (concat rs) = {(e, x). \<exists>k \<in> set ks. below ts d k e x}" "distinct (map snd (concat rs))" by auto
  have "x \<notin> snd ` set (concat rs)" if "(e, x) \<in> set rows" for e x
  proof
    assume "x \<in> snd ` set (concat rs)"
    then obtain e' k' where k': "k' \<in> set ks" "below ts d k' e' x" using r(4) by fastforce
    have k: "below ts d k e x" using that r(2) by (auto simp: rows_of_def)
    have d: "descends ts d k" "descends ts d k'" using Cons.prems(2) k'(1) by auto
    have "e' = e" using below_descends [OF k d(1)] below_descends [OF k'(2) d(2)] depth_unique assms(1) by blast
    then have "k = k'" using below_unique [OF assms(1) k] k'(2) d by simp
    then show False using k'(1) Cons.prems(1) by simp
  qed
  then have "distinct (map snd (concat (rows # rs)))" using r(2,5) by (fastforce simp: rows_of_def)
  moreover have "set (concat (rows # rs)) = {(e, x). \<exists>k' \<in> set (k # ks). below ts d k' e x}" using r(2,4) by (auto simp: rows_of_def)
  ultimately show ?case using r(1,3) by (intro exI [of _ "rows # rs"]) simp
qed simp

lemma distinct_tasks: "named_tasks ts \<Longrightarrow> distinct ts"
  by (auto simp: named_tasks_def distinct_map)

lemma tree_rows_exact:
  assumes "named_tasks ts"
  shows "descends ts d t \<Longrightarrow> length (filter has_parent ts) < n + d \<Longrightarrow>
    \<exists>rows. tree_rows n (filter has_parent ts) d t = Inr rows \<and> rows_of ts d t rows"
proof (induction n arbitrary: d t)
  case 0
  then show ?case using depth_bound [OF _ assms] by fastforce
next
  case (Suc n)
  have kid: "descends ts (Suc d) c" if "c \<in> set (kids ts t)" for c
    using that Suc.prems(1) by (auto simp: kids_set intro: descends.child)
  have "distinct (kids ts t)" using distinct_tasks [OF assms] by (simp add: kids_def)
  moreover have "\<forall>c \<in> set (kids ts t). descends ts (Suc d) c \<and>
      (\<exists>rows. tree_rows n (filter has_parent ts) (Suc d) c = Inr rows \<and> rows_of ts (Suc d) c rows)"
    using Suc kid by simp
  ultimately obtain rs where rs: "try_map (tree_rows n (filter has_parent ts) (Suc d)) (kids ts t) = Inr rs"
    "set (concat rs) = {(e, x). \<exists>k \<in> set (kids ts t). below ts (Suc d) k e x}" "distinct (map snd (concat rs))"
    using forest [OF assms] by blast
  have "t \<notin> snd ` set (concat rs)"
  proof
    assume "t \<in> snd ` set (concat rs)"
    then obtain e k where "k \<in> set (kids ts t)" "below ts (Suc d) k e t" using rs(2) by fastforce
    with below_descends [OF this(2) kid [OF this(1)]] depth_unique [OF Suc.prems(1) _ assms] show False by fastforce
  qed
  then have "rows_of ts d t ((d, t) # concat rs)"
    using rs(2,3) below_first [of ts d t] by (auto simp: rows_of_def)
  then show ?case using rs(1) by (simp add: kids_def)
qed

text \<open>C37: With distinct ids and room for as many nested calls as there are tasks with a parent, the tree has one row for every
  task that hangs, through its parents, under a task without one, at its depth, and no other row.\<close>

theorem task_tree_exact:
  assumes "named_tasks ts" "length (filter has_parent ts) < br_frames b"
  shows "\<exists>rows. task_tree b ts = Inr rows \<and> set rows = {(d, t). descends ts d t} \<and> distinct (map snd rows)"
proof -
  let ?roots = "filter (\<lambda>t. \<not> has_parent t) ts"
  have "\<forall>k \<in> set ?roots. descends ts 0 k \<and> (\<exists>rows. tree_rows (br_frames b) (filter has_parent ts) 0 k = Inr rows \<and> rows_of ts 0 k rows)"
    using tree_rows_exact [OF assms(1), of 0 _ "br_frames b"] assms(2) by (auto intro: descends.root)
  from forest [OF assms(1) _ this] distinct_tasks [OF assms(1)] obtain rs where
    rs: "try_map (tree_rows (br_frames b) (filter has_parent ts) 0) ?roots = Inr rs"
    "set (concat rs) = {(e, x). \<exists>k \<in> set ?roots. below ts 0 k e x}" "distinct (map snd (concat rs))" by (meson distinct_filter)
  have "(\<exists>k \<in> set ?roots. below ts 0 k d t) \<longleftrightarrow> descends ts d t" for d t
  proof
    show "\<exists>k \<in> set ?roots. below ts 0 k d t \<Longrightarrow> descends ts d t" using below_descends descends.root by fastforce
    show "descends ts d t \<Longrightarrow> \<exists>k \<in> set ?roots. below ts 0 k d t"
      by (induction rule: descends.induct) (auto intro: below.intros)
  qed
  with rs show ?thesis by (simp add: task_tree_def)
qed

definition demo_task :: "string \<Rightarrow> (string \<times> json) list \<Rightarrow> json option" where
  "demo_task i fs = Some (JObj ((''id'', JStr i) # fs))"

definition demo_tasks :: "json option list" where
  "demo_tasks = [demo_task ''a'' [], demo_task ''b'' [(''parent_task'', JStr ''a'')], demo_task ''c'' [(''parent_task'', JStr ''d'')],
     demo_task ''d'' [(''parent_task'', JStr ''c'')]]"

theorem task_tree_exact_witness:
  "{(d, t). descends demo_tasks d t} = {(0, demo_task ''a'' []), (1, demo_task ''b'' [(''parent_task'', JStr ''a'')])}"
proof -
  have "named_tasks demo_tasks" by (simp add: named_tasks_def demo_tasks_def demo_task_def has_text_id_def)
  moreover have p: "filter has_parent demo_tasks = [demo_task ''b'' [(''parent_task'', JStr ''a'')],
      demo_task ''c'' [(''parent_task'', JStr ''d'')], demo_task ''d'' [(''parent_task'', JStr ''c'')]]"
    "filter (\<lambda>t. \<not> has_parent t) demo_tasks = [demo_task ''a'' []]"
    by (simp_all add: demo_tasks_def demo_task_def has_parent_def js_truthy_def)
  moreover have frames: "br_frames plain_browser = 100" by (simp add: plain_browser_def)
  moreover have "tree_rows (Suc (Suc n)) (filter has_parent demo_tasks) 0 (demo_task ''a'' []) =
      Inr [(0, demo_task ''a'' []), (1, demo_task ''b'' [(''parent_task'', JStr ''a'')])]" for n
    by (simp add: p demo_task_def is_child_of_def)
  from this [of 98] have "task_tree plain_browser demo_tasks = Inr [(0, demo_task ''a'' []), (1, demo_task ''b'' [(''parent_task'', JStr ''a'')])]"
    by (simp add: task_tree_def p(2) frames)
  ultimately show ?thesis using task_tree_exact [of demo_tasks plain_browser] by auto
qed

text \<open>A child that carries the id of its parent is its own child: however deep calls may nest, the rendering ends with an
  exception.\<close>

lemma try_map_fails: "try_map f xs = Inl e \<Longrightarrow> \<exists>x \<in> set xs. f x = Inl e"
proof (induction xs)
  case (Cons x xs)
  show ?case
  proof (cases "f x")
    case (Inr y)
    then have "try_map f xs = Inl e" using Cons.prems by (cases "try_map f xs") simp_all
    then show ?thesis using Cons.IH by simp
  qed (use Cons.prems in simp)
qed simp

lemma try_map_all: "try_map f xs = Inr ys \<Longrightarrow> x \<in> set xs \<Longrightarrow> \<exists>y. f x = Inr y"
proof (induction xs arbitrary: ys)
  case (Cons z zs)
  then show ?case by (cases "f z"; cases "try_map f zs") auto
qed simp

lemma tree_rows_error: "tree_rows n cs d t = Inl e \<Longrightarrow> e = RangeError"
proof (induction n arbitrary: d t)
  case (Suc n)
  then have "try_map (tree_rows n cs (Suc d)) (filter (is_child_of t) cs) = Inl e"
    by (cases "try_map (tree_rows n cs (Suc d)) (filter (is_child_of t) cs)") simp_all
  with try_map_fails Suc.IH show ?case by fastforce
qed simp

theorem own_child_never_ends:
  assumes "c \<in> set (filter has_parent ts)" "is_child_of c c"
  shows "tree_rows n (filter has_parent ts) d c = Inl RangeError"
proof (induction n arbitrary: d)
  case (Suc n)
  have c: "c \<in> set (filter (is_child_of c) (filter has_parent ts))" using assms by simp
  show ?case
  proof (cases "tree_rows (Suc n) (filter has_parent ts) d c")
    case (Inl e)
    then show ?thesis using tree_rows_error by metis
  next
    case (Inr rows)
    then obtain rs where "try_map (tree_rows n (filter has_parent ts) (Suc d)) (filter (is_child_of c) (filter has_parent ts)) = Inr rs"
      by (cases "try_map (tree_rows n (filter has_parent ts) (Suc d)) (filter (is_child_of c) (filter has_parent ts))") simp_all
    from try_map_all [OF this c] Suc.IH [of "Suc d"] show ?thesis by auto
  qed
qed simp

end
