(* ===== verification/Stream_Client.thy ===== *)
theory Stream_Client
  imports JSString
begin

text \<open>
  The page of the coordinator (\<open>web/src/app.ts\<close>): the connection to the stream of events, the frames read from it, what
  they show, and the form that creates tasks. What waits for the network is a request or a stream in the state; the answer,
  a chunk or a failure is a step. The three constants outside Latin-1 are given by their UTF-8 bytes.
\<close>

section \<open>What is shown\<close>

record board_task =
  bt_id :: string
  bt_title :: string
  bt_status :: string
  bt_worker :: string
  bt_attempts :: nat
  bt_max_attempts :: nat

record board_event =
  be_action :: string
  be_task_id :: string
  be_worker :: string
  be_created_at :: string

record board =
  bd_tasks :: "board_task list"
  bd_counts :: "(string \<times> nat) list"
  bd_events :: "board_event list"

record task_line =
  tl_title :: string
  tl_id :: string
  tl_class :: string
  tl_status :: string
  tl_worker :: string
  tl_tries :: string

record display =
  ds_counts :: "(string \<times> string) list"
  ds_task_count :: string
  ds_empty_hidden :: bool
  ds_no_events_hidden :: bool
  ds_tasks :: "task_line list"
  ds_events :: "(string \<times> string) list"
  ds_connection :: string
  ds_live :: bool
  ds_title_disabled :: bool
  ds_create_disabled :: bool
  ds_disconnect_hidden :: bool
  ds_notice :: "string \<times> bool"

definition STATES :: "string list" where
  "STATES = [''pending'', ''running'', ''completed'', ''failed'']"

definition no_worker :: string where
  "no_worker = [CHR 0xE2, CHR 0x80, CHR 0x94]"

definition task_line_of :: "board_task \<Rightarrow> task_line" where
  "task_line_of t =
     \<lparr>tl_title = bt_title t, tl_id = take 12 (bt_id t),
      tl_class = ''status '' @ (if bt_status t \<in> set STATES then bt_status t else []), tl_status = bt_status t,
      tl_worker = (if bt_worker t = [] then no_worker else bt_worker t),
      tl_tries = nat_to_string (bt_attempts t) @ '' / '' @ nat_to_string (bt_max_attempts t)\<rparr>"

definition event_line :: "(string \<Rightarrow> string) \<Rightarrow> board_event \<Rightarrow> string \<times> string" where
  "event_line clock e =
     (map (\<lambda>c. if c = CHR ''_'' then CHR '' '' else c) (be_action e),
      take 8 (be_task_id e) @ [CHR '' '', CHR 0xB7, CHR '' ''] @ (if be_worker e = [] then ''coordinator'' else be_worker e) @
      [CHR '' '', CHR 0xB7, CHR '' ''] @ clock (be_created_at e))"

definition render :: "(string \<Rightarrow> string) \<Rightarrow> board \<Rightarrow> display \<Rightarrow> display" where
  "render clock b d =
     d\<lparr>ds_counts := map (\<lambda>s. (s, nat_to_string (or_else (map_of (bd_counts b) s) 0))) STATES,
       ds_task_count := nat_to_string (length (bd_tasks b)),
       ds_empty_hidden := bd_tasks b \<noteq> [], ds_no_events_hidden := bd_events b \<noteq> [],
       ds_tasks := map task_line_of (bd_tasks b), ds_events := map (event_line clock) (take 30 (bd_events b))\<rparr>"

section \<open>Frames\<close>

text \<open>The loop that takes frames from the buffer: the frames, and what is left.\<close>

definition frame_end :: string where
  "frame_end = [CHR 0x0A, CHR 0x0A]"

lemma indexOf_length: "indexOf p s = Some i \<Longrightarrow> i + length p \<le> length s"
  by (induction s arbitrary: i) (auto split: if_splits dest: prefix_length_le)

function frames :: "string \<Rightarrow> string list \<times> string" where
  "frames buffer =
     (case indexOf frame_end buffer of
        None \<Rightarrow> ([], buffer)
      | Some e \<Rightarrow> (let (fs, rest) = frames (drop (e + 2) buffer) in (take e buffer # fs, rest)))"
  by pat_completeness auto
termination
  by (relation "measure length") (auto dest: indexOf_length simp: frame_end_def)

declare frames.simps [simp del]

text \<open>\<open>frame.split('\n').find(line => line.startsWith('data: '))\<close>, without its first six characters.\<close>

definition frame_data :: "string \<Rightarrow> string option" where
  "frame_data f = map_option (drop 6) (find (prefix ''data: '') (split_on (CHR 0x0A) f))"

definition MAX_BUFFER :: nat where
  "MAX_BUFFER = 2000000"

text \<open>A chunk is added to the buffer, which is checked before its frames are taken: the data of the frames, and the rest.\<close>

definition receive :: "string \<Rightarrow> string \<Rightarrow> (string list \<times> string) option" where
  "receive buffer chunk =
     (let b = buffer @ chunk in
      if length b > MAX_BUFFER then None
      else (let (fs, rest) = frames b in Some (List.map_filter frame_data fs, rest)))"

section \<open>The client\<close>

text \<open>
  An attempt to connect is known by its number, which is also its controller. \<open>cl_requests\<close> and \<open>cl_streams\<close> are the attempts
  that wait for an answer or read a stream; \<open>cl_aborted\<close> those whose controller has been aborted; \<open>cl_posts\<close> the tasks sent
  so far with their keys, and \<open>cl_tokens\<close> the tokens sent with requests.
\<close>

record client =
  cl_token :: string
  cl_connection :: "nat option"
  cl_attempt :: nat
  cl_connected :: bool
  cl_requests :: "nat list"
  cl_streams :: "(nat \<times> string) list"
  cl_aborted :: "nat list"
  cl_draft_key :: "nat option"
  cl_draft_title :: string
  cl_title :: string
  cl_next_key :: nat
  cl_posts :: "(nat \<times> string) list"
  cl_tokens :: "string list"
  cl_display :: display

definition notice :: "string \<Rightarrow> bool \<Rightarrow> client \<Rightarrow> client" where
  "notice message error c = c\<lparr>cl_display := (cl_display c)\<lparr>ds_notice := (message, error)\<rparr>\<rparr>"

definition setConnected :: "bool \<Rightarrow> client \<Rightarrow> client" where
  "setConnected v c =
     c\<lparr>cl_connected := v,
       cl_display := (cl_display c)\<lparr>ds_connection := (if v then ''Live workspace'' else ''Disconnected''), ds_live := v,
         ds_title_disabled := \<not> v, ds_create_disabled := \<not> v, ds_disconnect_hidden := \<not> v\<rparr>\<rparr>"

text \<open>\<open>connection?.abort()\<close>\<close>

definition abort :: "client \<Rightarrow> client" where
  "abort c = c\<lparr>cl_aborted := (case cl_connection c of None \<Rightarrow> [] | Some k \<Rightarrow> [k]) @ cl_aborted c\<rparr>"

definition request :: "client \<Rightarrow> client" where
  "request c = c\<lparr>cl_tokens := cl_tokens c @ [cl_token c]\<rparr>"

text \<open>\<open>connect\<close> up to the first \<open>await\<close>.\<close>

definition connect :: "client \<Rightarrow> client" where
  "connect c =
     (let k = cl_attempt c + 1; c1 = setConnected False ((abort c)\<lparr>cl_connection := Some k, cl_attempt := k\<rparr>) in
      request (c1\<lparr>cl_requests := cl_requests c1 @ [k]\<rparr>))"

definition on_connect :: "string \<Rightarrow> client \<Rightarrow> client" where
  "on_connect token c = connect (c\<lparr>cl_token := token\<rparr>)"

text \<open>The \<open>catch\<close> block of an attempt.\<close>

definition give_up :: "nat \<Rightarrow> string \<Rightarrow> client \<Rightarrow> client" where
  "give_up k message c =
     (if k \<notin> set (cl_aborted c) \<and> k = cl_attempt c then notice message True (setConnected False c) else c)"

text \<open>The answer to the request of an attempt: a status and whether there is a body, or a failure of \<open>fetch\<close>.\<close>

datatype answer = Response nat bool | Failure string

definition request_error :: "nat \<Rightarrow> string" where
  "request_error status =
     (if status = 401 then ''Token rejected. Check API_TOKEN on your coordinator.''
      else ''Request failed ('' @ nat_to_string status @ '').'')"

definition response_ok :: "nat \<Rightarrow> bool" where
  "response_ok status = (200 \<le> status \<and> status \<le> 299)"

definition on_answer :: "nat \<Rightarrow> answer \<Rightarrow> client \<Rightarrow> client" where
  "on_answer k a c =
     (let c1 = c\<lparr>cl_requests := removeAll k (cl_requests c)\<rparr> in
      case a of
        Failure message \<Rightarrow> give_up k message c1
      | Response status body \<Rightarrow>
          if \<not> response_ok status then give_up k (request_error status) c1
          else if \<not> body then give_up k ''Streaming unavailable'' c1
          else
            (let c2 = notice ([CHR ''C'', CHR ''o'', CHR ''n'', CHR ''n'', CHR ''e'', CHR ''c'', CHR ''t'', CHR ''e'', CHR ''d'',
                               CHR '' '', CHR 0xB7, CHR '' ''] @ ''live summaries refresh every two seconds.'') False (setConnected True c1)
             in c2\<lparr>cl_streams := cl_streams c2 @ [(k, [])]\<rparr>))"

definition close_stream :: "nat \<Rightarrow> client \<Rightarrow> client" where
  "close_stream k c = c\<lparr>cl_streams := filter (\<lambda>(i, _). i \<noteq> k) (cl_streams c)\<rparr>"

text \<open>
  The data of the frames are shown one by one while the attempt is the latest one; \<open>parse\<close> is \<open>JSON.parse\<close> with the type the
  script trusts. Data that is not JSON ends the loop with the message of the exception.
\<close>

fun show_all :: "(string \<Rightarrow> string) \<Rightarrow> (string \<Rightarrow> string + board) \<Rightarrow> string list \<Rightarrow> display \<Rightarrow> display \<times> string option" where
  "show_all clock parse [] d = (d, None)"
| "show_all clock parse (x # xs) d =
     (case parse x of Inl message \<Rightarrow> (d, Some message) | Inr b \<Rightarrow> show_all clock parse xs (render clock b d))"

definition on_chunk :: "(string \<Rightarrow> string) \<Rightarrow> (string \<Rightarrow> string + board) \<Rightarrow> nat \<Rightarrow> string \<Rightarrow> client \<Rightarrow> client" where
  "on_chunk clock parse k chunk c =
     (case map_of (cl_streams c) k of
        None \<Rightarrow> c
      | Some buffer \<Rightarrow>
          (case receive buffer chunk of
             None \<Rightarrow> give_up k ''Unexpected stream size'' (close_stream k c)
           | Some (ds, rest) \<Rightarrow>
               (let c1 = c\<lparr>cl_streams := map (\<lambda>(i, b). (i, if i = k then rest else b)) (cl_streams c)\<rparr> in
                if k \<noteq> cl_attempt c then c1
                else (let (d, failed) = show_all clock parse ds (cl_display c); c2 = c1\<lparr>cl_display := d\<rparr> in
                      case failed of None \<Rightarrow> c2 | Some message \<Rightarrow> give_up k message (close_stream k c2)))))"

definition on_stream_end :: "nat \<Rightarrow> client \<Rightarrow> client" where
  "on_stream_end k c = give_up k ''Connection closed. Reconnect to resume live updates.'' (close_stream k c)"

definition on_stream_failure :: "nat \<Rightarrow> string \<Rightarrow> client \<Rightarrow> client" where
  "on_stream_failure k message c = give_up k message (close_stream k c)"

definition empty_board :: board where
  "empty_board = \<lparr>bd_tasks = [], bd_counts = [], bd_events = []\<rparr>"

definition on_disconnect :: "(string \<Rightarrow> string) \<Rightarrow> client \<Rightarrow> client" where
  "on_disconnect clock c =
     (let c1 = setConnected False ((abort (c\<lparr>cl_attempt := cl_attempt c + 1\<rparr>))\<lparr>cl_token := []\<rparr>) in
      notice ''Disconnected. Token cleared from memory.'' False (c1\<lparr>cl_display := render clock empty_board (cl_display c1)\<rparr>))"

definition on_pagehide :: "client \<Rightarrow> client" where
  "on_pagehide c = (abort c)\<lparr>cl_token := []\<rparr>"

section \<open>New tasks\<close>

text \<open>
  The handler of the form up to its \<open>await\<close>: the key is kept while the title stays the same. Keys are numbers in the order in
  which \<open>crypto.randomUUID\<close> gives them.
\<close>

definition on_submit :: "client \<Rightarrow> client" where
  "on_submit c =
     (let title = trim (cl_title c) in
      if \<not> cl_connected c \<or> title = [] then c
      else
        (let fresh = cl_draft_title c \<noteq> title \<or> cl_draft_key c = None;
             key = (if fresh then cl_next_key c else the (cl_draft_key c));
             c1 = c\<lparr>cl_draft_title := title, cl_draft_key := Some key,
                    cl_next_key := (if fresh then cl_next_key c + 1 else cl_next_key c),
                    cl_display := (cl_display c)\<lparr>ds_create_disabled := True\<rparr>\<rparr>
         in request (c1\<lparr>cl_posts := cl_posts c1 @ [(key, title)]\<rparr>)))"

definition task_queued :: string where
  "task_queued = ''Task queued. A worker supporting kind '' @ [CHR 0xE2, CHR 0x80, CHR 0x9C] @ ''manual'' @
     [CHR 0xE2, CHR 0x80, CHR 0x9D] @ '' can claim it.''"

definition on_posted :: "answer \<Rightarrow> client \<Rightarrow> client" where
  "on_posted a c =
     (let c1 = (case a of
                  Failure message \<Rightarrow> notice message True c
                | Response status _ \<Rightarrow>
                    if response_ok status
                    then notice task_queued False (c\<lparr>cl_draft_key := None, cl_title := []\<rparr>)
                    else notice (request_error status) True c)
      in c1\<lparr>cl_display := (cl_display c1)\<lparr>ds_create_disabled := \<not> cl_connected c1\<rparr>\<rparr>)"

definition on_type :: "string \<Rightarrow> client \<Rightarrow> client" where
  "on_type s c = c\<lparr>cl_title := s\<rparr>"

section \<open>Steps\<close>

definition idle_client :: client where
  "idle_client =
     \<lparr>cl_token = [], cl_connection = None, cl_attempt = 0, cl_connected = False, cl_requests = [], cl_streams = [], cl_aborted = [],
      cl_draft_key = None, cl_draft_title = [], cl_title = [], cl_next_key = 0, cl_posts = [], cl_tokens = [],
      cl_display = \<lparr>ds_counts = map (\<lambda>s. (s, no_worker)) STATES, ds_task_count = ''0'', ds_empty_hidden = False,
        ds_no_events_hidden = False, ds_tasks = [], ds_events = [], ds_connection = ''Disconnected'', ds_live = False,
        ds_title_disabled = True, ds_create_disabled = True, ds_disconnect_hidden = True,
        ds_notice = (''Start the coordinator, then connect to see live activity.'', False)\<rparr>\<rparr>"

text \<open>
  A request that was aborted fails; a stream may still give chunks that were under way. A task is sent for every submission,
  whose answer may come at any time. The page may be hidden, and shown again from the cache of the browser, at any time.
\<close>

inductive client_step :: "(string \<Rightarrow> string) \<Rightarrow> (string \<Rightarrow> string + board) \<Rightarrow> client \<Rightarrow> client \<Rightarrow> bool" for clock parse where
  connect: "client_step clock parse c (on_connect token c)"
| answer: "k \<in> set (cl_requests c) \<Longrightarrow> k \<notin> set (cl_aborted c) \<Longrightarrow> client_step clock parse c (on_answer k a c)"
| aborted: "k \<in> set (cl_requests c) \<Longrightarrow> client_step clock parse c (on_answer k (Failure message) c)"
| chunk: "client_step clock parse c (on_chunk clock parse k chunk c)"
| stream_end: "k \<in> fst ` set (cl_streams c) \<Longrightarrow> client_step clock parse c (on_stream_end k c)"
| stream_failure: "k \<in> fst ` set (cl_streams c) \<Longrightarrow> client_step clock parse c (on_stream_failure k message c)"
| disconnect: "client_step clock parse c (on_disconnect clock c)"
| typing: "client_step clock parse c (on_type s c)"
| submit: "client_step clock parse c (on_submit c)"
| pagehide: "client_step clock parse c (on_pagehide c)"
| posted: "cl_posts c \<noteq> [] \<Longrightarrow> client_step clock parse c (on_posted a c)"

inductive client_reachable :: "(string \<Rightarrow> string) \<Rightarrow> (string \<Rightarrow> string + board) \<Rightarrow> client \<Rightarrow> bool" for clock parse where
  load: "client_reachable clock parse idle_client"
| step: "client_reachable clock parse c \<Longrightarrow> client_step clock parse c c' \<Longrightarrow> client_reachable clock parse c'"

end
