(* ===== verification/Stream_Client_Props.thy ===== *)
theory Stream_Client_Props
  imports Stream_Client
begin

text \<open>
  The page of the coordinator: frames are read whatever the chunks, what a page says of being live,
  and the key of a new task belongs to one title.
\<close>

section \<open>Frames\<close>







text \<open>
  A message of the stream as the coordinator writes it: lines, one of which carries the data, each with its newline, and an
  empty line. The lines before and after are others, as \<open>event: snapshot\<close>, which the coordinator sends before the data.
\<close>

type_synonym message = "string list \<times> string \<times> string list"















section \<open>Any chunks\<close>












section \<open>The connection\<close>

text \<open>
  Every attempt but the one of the current controller has been aborted, and when the page is connected the stream of the
  latest attempt is open or was aborted, which \<open>abort_only\<close> shows to be the doing of a hidden page.
\<close>

definition attempts_of :: "client \<Rightarrow> nat list" where
  "attempts_of c = cl_requests c @ map fst (cl_streams c)"

definition sound_client :: "client \<Rightarrow> bool" where
  "sound_client c =
     ((\<forall>k \<in> set (attempts_of c). k \<in> set (cl_aborted c) \<or> k = cl_attempt c \<and> cl_connection c = Some k) \<and>
      (\<forall>k \<in> set (attempts_of c) \<union> set (cl_aborted c) \<union> set_option (cl_connection c). k \<le> cl_attempt c) \<and>
      cl_connected c = ds_live (cl_display c) \<and>
      (cl_connected c \<longrightarrow> cl_attempt c \<notin> set (cl_aborted c) \<longrightarrow> cl_attempt c \<in> fst ` set (cl_streams c)))"

named_theorems client_defs \<open>what a handler does to the state\<close>

lemmas [client_defs] = attempts_of_def notice_def setConnected_def abort_def request_def close_stream_def give_up_def

lemma render_live [simp]: "ds_live (render clock b d) = ds_live d"
  by (simp add: render_def)

lemma show_all_live: "ds_live (fst (show_all clock parse ds d)) = ds_live d"
  by (induction clock parse ds d rule: show_all.induct) (auto split: sum.split)

lemma soundI:
  assumes "\<And>k. k \<in> set (attempts_of c) \<Longrightarrow> k \<notin> set (cl_aborted c) \<Longrightarrow> k = cl_attempt c \<and> cl_connection c = Some k"
    and "\<And>k. k \<in> set (attempts_of c) \<Longrightarrow> k \<le> cl_attempt c" "\<And>k. k \<in> set (cl_aborted c) \<Longrightarrow> k \<le> cl_attempt c"
    and "\<And>k. cl_connection c = Some k \<Longrightarrow> k \<le> cl_attempt c" "cl_connected c = ds_live (cl_display c)"
    and "cl_connected c \<Longrightarrow> cl_attempt c \<notin> set (cl_aborted c) \<Longrightarrow> cl_attempt c \<in> fst ` set (cl_streams c)"
  shows "sound_client c"
  using assms by (auto simp: sound_client_def)

lemma soundD:
  assumes "sound_client c"
  shows "\<And>k. k \<in> set (attempts_of c) \<Longrightarrow> k \<notin> set (cl_aborted c) \<Longrightarrow> k = cl_attempt c \<and> cl_connection c = Some k"
    and "\<And>k. k \<in> set (attempts_of c) \<Longrightarrow> k \<le> cl_attempt c" "\<And>k. k \<in> set (cl_aborted c) \<Longrightarrow> k \<le> cl_attempt c"
    and "\<And>k. cl_connection c = Some k \<Longrightarrow> k \<le> cl_attempt c" "cl_connected c = ds_live (cl_display c)"
    and "cl_connected c \<Longrightarrow> cl_attempt c \<notin> set (cl_aborted c) \<Longrightarrow> cl_attempt c \<in> fst ` set (cl_streams c)"
  using assms by (auto simp: sound_client_def)

lemma setConnected_keeps [simp]:
  "cl_attempt (setConnected v c) = cl_attempt c" "cl_connection (setConnected v c) = cl_connection c"
  "cl_aborted (setConnected v c) = cl_aborted c" "cl_requests (setConnected v c) = cl_requests c"
  "cl_streams (setConnected v c) = cl_streams c" "cl_connected (setConnected v c) = v"
  "ds_live (cl_display (setConnected v c)) = v" "attempts_of (setConnected v c) = attempts_of c"
  by (simp_all add: setConnected_def attempts_of_def)

lemma sound_notice [simp]: "sound_client (notice m e c) = sound_client c"
  by (simp add: sound_client_def client_defs)

lemma sound_off: "sound_client c \<Longrightarrow> sound_client (setConnected False c)"
  by (simp add: sound_client_def client_defs)

lemma sound_give_up: "sound_client c \<Longrightarrow> sound_client (give_up k m c)"
  by (simp add: give_up_def sound_off)

text \<open>A new attempt number, with the old controller aborted.\<close>

lemma abort_all: "sound_client c \<Longrightarrow> i \<in> set (attempts_of c) \<Longrightarrow> i \<in> set (cl_aborted (abort c))"
  using soundD(1) [of c i] by (auto simp: abort_def split: option.splits)

lemma aborted_bound: "sound_client c \<Longrightarrow> i \<in> set (cl_aborted (abort c)) \<Longrightarrow> i \<le> cl_attempt c"
  by (cases "cl_connection c") (auto simp: abort_def dest: soundD(3,4))

lemma attempts_bound: "sound_client c \<Longrightarrow> i \<in> set (attempts_of c) \<Longrightarrow> i \<le> cl_attempt c"
  by (rule soundD(2))

lemma sound_next:
  assumes "sound_client c"
  shows "sound_client (setConnected False ((abort c)\<lparr>cl_attempt := Suc (cl_attempt c)\<rparr>))" (is "sound_client ?c")
proof -
  have [simp]: "attempts_of ((abort c)\<lparr>cl_attempt := n\<rparr>) = attempts_of c" "cl_connection (abort c) = cl_connection c" for n
    by (simp_all add: client_defs)
  show ?thesis
    by (rule soundI) (auto intro: le_SucI attempts_bound [OF assms] aborted_bound [OF assms] soundD(4) [OF assms]
      dest: abort_all [OF assms])
qed

lemma sound_ask:
  assumes "sound_client c" "\<not> cl_connected c" "k = cl_attempt c" "\<And>i. i \<in> set (attempts_of c) \<Longrightarrow> i \<in> set (cl_aborted c)"
  shows "sound_client (request (c\<lparr>cl_connection := Some k, cl_requests := cl_requests c @ [k]\<rparr>))"
  by (rule soundI) (use soundD [OF assms(1)] assms(2-) in \<open>auto simp: client_defs\<close>)

lemma sound_unasked: "sound_client c \<Longrightarrow> sound_client (c\<lparr>cl_requests := removeAll k (cl_requests c)\<rparr>)"
  by (auto simp: sound_client_def attempts_of_def)

lemma sound_live:
  assumes "sound_client c" "k \<in> set (attempts_of c)" "k \<notin> set (cl_aborted c)"
  shows "sound_client ((setConnected True c)\<lparr>cl_streams := cl_streams c @ [(k, b)]\<rparr>)" (is "sound_client ?c")
proof -
  have k: "k = cl_attempt c" "cl_connection c = Some k" using soundD(1) [OF assms] by simp_all
  have "set (attempts_of ?c) = insert k (set (attempts_of c))" by (auto simp: attempts_of_def)
  then show ?thesis
    by (intro soundI) (use soundD(1-3) [OF assms(1)] assms(3) k in auto)
qed

text \<open>An attempt that gives up takes the page with it exactly when the page was connected through it.\<close>

lemma sound_closed:
  assumes "sound_client c"
  shows "sound_client (give_up k m (close_stream k c))"
proof (cases "k \<notin> set (cl_aborted c) \<and> k = cl_attempt c")
  case True
  have "sound_client (setConnected False (close_stream k c))"
    by (rule soundI) (use soundD [OF assms] in \<open>auto simp: client_defs\<close>)
  moreover have "k \<notin> set (cl_aborted (close_stream k c)) \<and> k = cl_attempt (close_stream k c)"
    using True by (auto simp: close_stream_def)
  ultimately show ?thesis unfolding give_up_def by (simp only: if_True sound_notice simp_thms)
next
  case False
  have "cl_attempt c \<in> fst ` set (cl_streams (close_stream k c))" if "cl_connected c" "cl_attempt c \<notin> set (cl_aborted c)"
    using soundD(6) [OF assms that] that(2) False by (force simp: close_stream_def)
  then have "sound_client (close_stream k c)"
    using soundD [OF assms] by (intro soundI) (auto simp: attempts_of_def close_stream_def)
  with False show ?thesis by (simp add: sound_give_up)
qed

subsection \<open>Every step\<close>

lemma sound_connect: "sound_client c \<Longrightarrow> sound_client (on_connect t c)"
proof -
  assume c: "sound_client c"
  have t: "sound_client (c\<lparr>cl_token := t\<rparr>)" using c by (simp add: sound_client_def attempts_of_def)
  let ?n = "setConnected False ((abort (c\<lparr>cl_token := t\<rparr>))\<lparr>cl_attempt := Suc (cl_attempt c)\<rparr>)"
  have "sound_client ?n" using sound_next [OF t] by simp
  moreover have "i \<in> set (cl_aborted ?n)" if "i \<in> set (attempts_of ?n)" for i
    using abort_all [OF t, of i] that by (simp add: attempts_of_def abort_def)
  ultimately have "sound_client (request (?n\<lparr>cl_connection := Some (Suc (cl_attempt c)), cl_requests := cl_requests ?n @ [Suc (cl_attempt c)]\<rparr>))"
    by (intro sound_ask) simp_all
  moreover have "on_connect t c = request (?n\<lparr>cl_connection := Some (Suc (cl_attempt c)), cl_requests := cl_requests ?n @ [Suc (cl_attempt c)]\<rparr>)"
    by (cases c) (simp add: on_connect_def connect_def setConnected_def abort_def Let_def)
  ultimately show ?thesis by simp
qed

lemma sound_shown:
  assumes "ds_live d = ds_live (cl_display c)"
  shows "sound_client (c\<lparr>cl_display := d\<rparr>) = sound_client c"
  using assms by (simp add: sound_client_def attempts_of_def)

lemma sound_unsaid: "sound_client (c\<lparr>cl_token := t\<rparr>) = sound_client c"
  by (simp add: sound_client_def attempts_of_def)

lemma sound_disconnect:
  assumes "sound_client c"
  shows "sound_client (on_disconnect clock c)"
proof -
  have "sound_client ((setConnected False ((abort c)\<lparr>cl_attempt := Suc (cl_attempt c)\<rparr>))\<lparr>cl_token := []\<rparr>)"
    unfolding sound_unsaid by (rule sound_next [OF assms])
  moreover have "setConnected False ((abort (c\<lparr>cl_attempt := cl_attempt c + 1\<rparr>))\<lparr>cl_token := []\<rparr>) =
      (setConnected False ((abort c)\<lparr>cl_attempt := Suc (cl_attempt c)\<rparr>))\<lparr>cl_token := []\<rparr>"
    by (simp add: setConnected_def abort_def)
  ultimately show ?thesis by (simp add: on_disconnect_def Let_def sound_shown)
qed

lemma sound_answer:
  assumes "sound_client c" "k \<in> set (cl_requests c)" "k \<notin> set (cl_aborted c)"
  shows "sound_client (on_answer k a c)"
proof -
  have "sound_client ((setConnected True c)\<lparr>cl_streams := cl_streams c @ [(k, [])]\<rparr>)"
    by (rule sound_live) (use assms in \<open>simp_all add: attempts_of_def\<close>)
  from sound_unasked [OF this, of k]
  have "sound_client ((notice m False (setConnected True (c\<lparr>cl_requests := removeAll k (cl_requests c)\<rparr>)))\<lparr>cl_streams := cl_streams c @ [(k, [])]\<rparr>)" for m
    by (cases c) (simp add: setConnected_def notice_def sound_client_def attempts_of_def)
  then show ?thesis
    using sound_unasked [OF assms(1), of k]
    by (auto simp: on_answer_def Let_def sound_give_up notice_def split: answer.split)
qed

lemma sound_failed: "sound_client c \<Longrightarrow> sound_client (on_answer k (Failure m) c)"
  by (simp add: on_answer_def sound_give_up sound_unasked)

lemma sound_same_streams:
  assumes "map fst xs = map fst (cl_streams c)"
  shows "sound_client (c\<lparr>cl_streams := xs\<rparr>) = sound_client c"
proof -
  have "fst ` set xs = fst ` set (cl_streams c)" using arg_cong [OF assms, of set] by (simp only: set_map)
  with assms show ?thesis by (simp add: sound_client_def attempts_of_def)
qed

lemma sound_buffers: "sound_client (c\<lparr>cl_streams := map (\<lambda>(i, b). (i, if i = k then r else b)) (cl_streams c)\<rparr>) = sound_client c"
  by (rule sound_same_streams) auto

lemma sound_chunk:
  assumes "sound_client c"
  shows "sound_client (on_chunk clock parse k chunk c)"
proof -
  have "sound_client (c\<lparr>cl_streams := map (\<lambda>(i, b). (i, if i = k then r else b)) (cl_streams c), cl_display := fst (show_all clock parse ds (cl_display c))\<rparr>)" for r ds
    using assms sound_buffers [of k r c] by (simp add: sound_shown show_all_live)
  then show ?thesis using assms
    by (auto simp: on_chunk_def Let_def case_prod_beta sound_closed sound_buffers split: option.split)
qed

lemma sound_submit: "sound_client c \<Longrightarrow> sound_client (on_submit c)"
  by (simp add: on_submit_def Let_def request_def sound_client_def attempts_of_def)

lemma sound_posted: "sound_client c \<Longrightarrow> sound_client (on_posted a c)"
  by (auto simp: on_posted_def Let_def notice_def sound_client_def attempts_of_def split: answer.split)

lemma sound_type: "sound_client c \<Longrightarrow> sound_client (on_type t c)"
  by (simp add: on_type_def sound_client_def attempts_of_def)

lemma sound_pagehide: "sound_client c \<Longrightarrow> sound_client (on_pagehide c)"
  unfolding on_pagehide_def sound_unsaid sound_client_def abort_def attempts_of_def
  by (cases "cl_connection c") auto

lemmas sound_handlers = sound_pagehide sound_connect sound_disconnect sound_answer sound_failed sound_chunk sound_closed sound_submit sound_posted sound_type

lemma sound_step: "client_step clock parse c c' \<Longrightarrow> sound_client c \<Longrightarrow> sound_client c'"
  by (induction rule: client_step.induct) (auto simp: on_stream_end_def on_stream_failure_def intro: sound_handlers)

lemma sound_idle: "sound_client idle_client"
  by (simp add: sound_client_def idle_client_def attempts_of_def)

lemma sound_reachable: "client_reachable clock parse c \<Longrightarrow> sound_client c"
  by (induction rule: client_reachable.induct) (auto simp: sound_idle sound_step)

subsection \<open>What the page says\<close>

text \<open>Only a hidden page aborts the latest attempt.\<close>

lemma give_up_keeps [simp]:
  "cl_attempt (give_up k m c) = cl_attempt c" "cl_aborted (give_up k m c) = cl_aborted c" "cl_token (give_up k m c) = cl_token c"
  by (auto simp: client_defs)

lemma give_up_connected: "cl_connected (give_up k m c) \<Longrightarrow> cl_connected c"
  by (auto simp: client_defs split: if_splits)

lemma close_keeps [simp]:
  "cl_attempt (close_stream k c) = cl_attempt c" "cl_aborted (close_stream k c) = cl_aborted c"
  "cl_token (close_stream k c) = cl_token c" "cl_connected (close_stream k c) = cl_connected c"
  by (simp_all add: close_stream_def)

lemma step_attempt:
  assumes "client_step clock parse c c'" "sound_client c"
  shows "c' = on_pagehide c \<or> cl_attempt c' \<notin> set (cl_aborted c') \<or>
    cl_attempt c' = cl_attempt c \<and> cl_aborted c' = cl_aborted c \<and> cl_token c' = cl_token c \<and>
    (cl_connected c' \<longrightarrow> cl_connected c \<or> cl_attempt c \<notin> set (cl_aborted c))"
  using assms
proof (induction rule: client_step.induct)
  case (connect c t)
  have "cl_attempt (on_connect t c) = Suc (cl_attempt c)"
    "set (cl_aborted (on_connect t c)) = set (cl_aborted (abort c))"
    by (simp_all add: on_connect_def connect_def Let_def client_defs)
  then show ?case using aborted_bound [OF connect] by fastforce
next
  case (disconnect c)
  have "cl_attempt (on_disconnect clock c) = Suc (cl_attempt c)"
    "set (cl_aborted (on_disconnect clock c)) = set (cl_aborted (abort c))"
    by (simp_all add: on_disconnect_def Let_def client_defs)
  then show ?case using aborted_bound [OF disconnect] by fastforce
next
  case (answer k c a)
  have "k = cl_attempt c" using soundD(1) [OF answer(3), of k] answer(1,2) by (simp add: attempts_of_def)
  then show ?case using answer(2)
    by (auto simp: on_answer_def Let_def notice_def setConnected_def split: answer.split)
next
  case (chunk c k x)
  show ?case by (auto simp: on_chunk_def Let_def case_prod_beta split: option.split dest: give_up_connected)
qed (auto simp: on_answer_def on_stream_end_def on_stream_failure_def on_type_def on_submit_def on_posted_def notice_def request_def
  Let_def split: answer.split dest: give_up_connected)

lemma abort_only:
  assumes "client_step clock parse c c'" "sound_client c" "cl_attempt c' \<in> set (cl_aborted c')"
  shows "c' = on_pagehide c \<or> cl_attempt c' = cl_attempt c \<and> cl_attempt c \<in> set (cl_aborted c)"
  using step_attempt [OF assms(1,2)] assms(3) by metis

lemma hidden_token:
  "client_reachable clock parse c \<Longrightarrow> cl_connected c \<Longrightarrow> cl_attempt c \<in> set (cl_aborted c) \<Longrightarrow> cl_token c = []"
proof (induction rule: client_reachable.induct)
  case (step c c')
  show ?case
    using step_attempt [OF step.hyps(2) sound_reachable [OF step.hyps(1)]] step.IH step.prems
    by (auto simp: on_pagehide_def)
qed (simp add: idle_client_def)

text \<open>C39: While the page says that it is live, the stream of its latest attempt is open, unless the page was hidden during that
  attempt, whatever the order in which attempts, answers, chunks, failures, disconnections and hidings came. Hiding the page
  is the only step that aborts the latest attempt; it stays aborted until the next attempt, and a page that says it is live
  all the same has no token any more.\<close>

theorem live_means_open_stream:
  assumes "client_reachable clock parse c"
  shows "cl_connected c = ds_live (cl_display c) \<and>
    (ds_live (cl_display c) \<longrightarrow>
      (if cl_attempt c \<in> set (cl_aborted c) then cl_token c = [] else cl_attempt c \<in> fst ` set (cl_streams c))) \<and>
    (\<forall>c'. client_step clock parse c c' \<and> cl_attempt c' \<in> set (cl_aborted c') \<longrightarrow>
      c' = on_pagehide c \<or> cl_attempt c' = cl_attempt c \<and> cl_attempt c \<in> set (cl_aborted c))"
proof (intro conjI allI impI)
  note c = sound_reachable [OF assms]
  show "cl_connected c = ds_live (cl_display c)" by (rule soundD(5) [OF c])
  then show "if cl_attempt c \<in> set (cl_aborted c) then cl_token c = [] else cl_attempt c \<in> fst ` set (cl_streams c)"
    if "ds_live (cl_display c)" using that soundD(6) [OF c] hidden_token [OF assms] by simp
  show "c' = on_pagehide c \<or> cl_attempt c' = cl_attempt c \<and> cl_attempt c \<in> set (cl_aborted c)"
    if "client_step clock parse c c' \<and> cl_attempt c' \<in> set (cl_aborted c')" for c'
    using abort_only [OF _ c] that by blast
qed

text \<open>A page that has connected.\<close>

definition demo_live :: client where
  "demo_live = on_answer 1 (Response 200 True) (on_connect ''token'' idle_client)"

lemmas demo_live_defs = demo_live_def on_answer_def on_connect_def connect_def idle_client_def response_ok_def Let_def client_defs

lemma demo_live_reachable: "client_reachable clock parse demo_live"
proof -
  have "client_reachable clock parse (on_connect ''token'' idle_client)"
    by (rule client_reachable.step [OF client_reachable.load client_step.connect])
  moreover have "client_step clock parse (on_connect ''token'' idle_client) demo_live"
    unfolding demo_live_def by (rule client_step.answer) (simp_all add: demo_live_defs)
  ultimately show ?thesis by (rule client_reachable.step)
qed

lemma demo_live_state: "cl_connected demo_live" "cl_attempt demo_live = 1" "cl_posts demo_live = []" "cl_draft_key demo_live = None"
    "cl_next_key demo_live = 0" "cl_draft_title demo_live = []"
  by (simp_all add: demo_live_defs)

theorem live_means_open_stream_witness:
  "ds_live (cl_display demo_live) \<and> cl_attempt demo_live \<in> fst ` set (cl_streams demo_live) \<and> cl_attempt demo_live \<notin> set (cl_aborted demo_live)"
proof -
  have "cl_attempt demo_live \<notin> set (cl_aborted demo_live)" by (simp add: demo_live_defs)
  then show ?thesis
    using live_means_open_stream [OF demo_live_reachable [of id "\<lambda>_. Inl []"]] demo_live_state(1) by simp
qed

text \<open>A live page that is hidden aborts its stream, whose failure is then taken for that of an attempt given up on purpose:
  the page has no stream and no token, and still says that it is live.\<close>

theorem hidden_page_stays_live:
  assumes "client_reachable clock parse c" "cl_connected c"
  shows "let c' = on_stream_failure (cl_attempt c) message (on_pagehide c) in
    cl_connected c' \<and> ds_live (cl_display c') \<and> cl_attempt c' \<notin> fst ` set (cl_streams c') \<and> cl_token c' = [] \<and>
    ds_notice (cl_display c') = ds_notice (cl_display c)"
proof -
  note c = sound_reachable [OF assms(1)]
  have "cl_attempt c \<in> set (cl_aborted (on_pagehide c))"
  proof (cases "cl_attempt c \<in> set (cl_aborted c)")
    case False
    then have "cl_attempt c \<in> set (attempts_of c)" using soundD(6) [OF c assms(2)] by (simp add: attempts_of_def)
    then have "cl_connection c = Some (cl_attempt c)" using soundD(1) [OF c] False by blast
    then show ?thesis by (simp add: on_pagehide_def abort_def)
  qed (simp add: on_pagehide_def abort_def)
  then show ?thesis
    using assms(2) soundD(5) [OF c] by (auto simp: Let_def on_stream_failure_def on_pagehide_def client_defs)
qed

theorem hidden_page_stays_live_witness:
  "let c' = on_stream_failure (cl_attempt demo_live) ''AbortError'' (on_pagehide demo_live) in
    cl_connected c' \<and> ds_live (cl_display c') \<and> cl_attempt c' \<notin> fst ` set (cl_streams c') \<and> cl_token c' = [] \<and>
    ds_notice (cl_display c') = ds_notice (cl_display demo_live)"
  by (rule hidden_page_stays_live [OF demo_live_reachable [of id "\<lambda>_. Inl []"]]) (simp add: demo_live_state)

section \<open>Keys of new tasks\<close>

definition sound_keys :: "client \<Rightarrow> bool" where
  "sound_keys c =
     ((\<forall>(k, t) \<in> set (cl_posts c). k < cl_next_key c \<and> (cl_draft_key c = Some k \<longrightarrow> t = cl_draft_title c)) \<and>
      (\<forall>k. cl_draft_key c = Some k \<longrightarrow> k < cl_next_key c) \<and>
      (\<forall>(k, t) \<in> set (cl_posts c). \<forall>(i, u) \<in> set (cl_posts c). i = k \<longrightarrow> u = t))"

lemma keys_submit: "sound_keys c \<Longrightarrow> sound_keys (on_submit c)"
  by (fastforce simp: sound_keys_def on_submit_def Let_def request_def)

text \<open>The handlers that say nothing of the keys.\<close>

definition same_keys :: "client \<Rightarrow> client \<Rightarrow> bool" where
  "same_keys c c' = (cl_posts c' = cl_posts c \<and> cl_next_key c' = cl_next_key c \<and> cl_draft_title c' = cl_draft_title c \<and>
     (cl_draft_key c' = cl_draft_key c \<or> cl_draft_key c' = None))"

lemma same_keys_sound: "same_keys c c' \<Longrightarrow> sound_keys c \<Longrightarrow> sound_keys c'"
  by (auto simp: same_keys_def sound_keys_def)

lemma same_keys_give_up: "same_keys c c' \<Longrightarrow> same_keys c (give_up k m c')"
  by (simp add: same_keys_def client_defs)

lemma same_keys_close: "same_keys c c' \<Longrightarrow> same_keys c (close_stream k c')"
  by (simp add: same_keys_def client_defs)

lemma same_keys_step: "client_step clock parse c c' \<Longrightarrow> c' = on_submit c \<or> same_keys c c'"
proof (induction rule: client_step.induct)
  case (answer k c a)
  then show ?case
    by (auto simp: on_answer_def Let_def same_keys_def notice_def setConnected_def give_up_def split: answer.split)
next
  case (aborted k c message)
  then show ?case by (simp add: on_answer_def Let_def same_keys_def notice_def setConnected_def give_up_def)
next
  case (chunk c k x)
  show ?case
    by (auto simp: on_chunk_def Let_def case_prod_beta intro!: same_keys_give_up same_keys_close split: option.split)
      (simp_all add: same_keys_def)
qed (auto simp: on_connect_def connect_def on_disconnect_def on_stream_end_def on_stream_failure_def on_posted_def on_type_def on_pagehide_def
  same_keys_def Let_def client_defs split: answer.split)

lemma keys_reachable: "client_reachable clock parse c \<Longrightarrow> sound_keys c"
proof (induction rule: client_reachable.induct)
  case load
  show ?case by (simp add: sound_keys_def idle_client_def)
next
  case (step c c')
  then show ?case using same_keys_step [OF step.hyps(2)] keys_submit same_keys_sound by blast
qed

text \<open>C40: No two tasks with different titles are ever sent with the same key.\<close>

theorem post_keys:
  assumes "client_reachable clock parse c" "(k, t) \<in> set (cl_posts c)" "(k, u) \<in> set (cl_posts c)"
  shows "t = u"
  using keys_reachable [OF assms(1)] assms(2,3) by (fastforce simp: sound_keys_def)

text \<open>Two submissions of one title after a failure.\<close>

definition demo_retry :: client where
  "demo_retry = on_submit (on_posted (Failure ''timeout'') (on_submit (on_type ''scan'' demo_live)))"

lemma trim_scan: "trim ''scan'' = ''scan''"
  by code_simp

lemma demo_retry_reachable: "client_reachable clock parse demo_retry"
proof -
  have "client_reachable clock parse (on_submit (on_type ''scan'' demo_live))"
    by (intro client_reachable.step [OF client_reachable.step [OF demo_live_reachable client_step.typing] client_step.submit])
  moreover have "cl_posts (on_submit (on_type ''scan'' demo_live)) \<noteq> []"
    by (simp add: on_submit_def on_type_def Let_def request_def demo_live_state trim_scan)
  ultimately have "client_reachable clock parse (on_posted (Failure ''timeout'') (on_submit (on_type ''scan'' demo_live)))"
    by (intro client_reachable.step [OF _ client_step.posted])
  then show ?thesis unfolding demo_retry_def by (rule client_reachable.step [OF _ client_step.submit])
qed

lemma demo_retry_posts: "cl_posts demo_retry = [(0, ''scan''), (0, ''scan'')]"
  by (simp add: demo_retry_def on_submit_def on_posted_def on_type_def notice_def Let_def request_def demo_live_state trim_scan)

theorem post_keys_witness: "cl_posts demo_retry = [(0, ''scan''), (0, ''scan'')] \<and> ''scan'' = ''scan''"
  using post_keys [OF demo_retry_reachable [of id "\<lambda>_. Inl []"], of 0 "''scan''" "''scan''"] demo_retry_posts by simp

text \<open>A submission that failed is sent again with the same key, whatever was typed in between.\<close>

lemma retry_keeps_key:
  assumes "cl_connected c" "trim (cl_title c) = t" "t \<noteq> []" "trim u = t"
    and "\<forall>s b. a = Response s b \<longrightarrow> \<not> response_ok s"
  shows "cl_posts (on_submit (on_type u (on_posted a (on_submit c)))) =
    cl_posts (on_submit c) @ [last (cl_posts (on_submit c))]"
  using assms by (cases a) (auto simp: on_submit_def on_posted_def on_type_def notice_def Let_def request_def)

text \<open>
  The answer to one task forgets the key of the next one, which a new connection lets the user send meanwhile: sent again
  after a failure, that one gets a new key, and the coordinator takes it for another task.
\<close>

lemma late_answer_forgets_key:
  assumes "cl_connected c" "trim (cl_title c) \<noteq> []" "trim u \<noteq> []" "trim u \<noteq> trim (cl_title c)"
  shows "let c1 = on_posted (Failure m) (on_posted (Response 201 True) (on_submit (on_type u (on_submit c)))) in
    cl_posts (on_submit (on_type u c1)) = cl_posts c1 @ [(cl_next_key c1, trim u)] \<and> last (cl_posts c1) = (cl_next_key c1 - 1, trim u)"
  using assms by (auto simp: on_submit_def on_posted_def on_type_def notice_def Let_def request_def response_ok_def)

end
