(* ===== verification/Spec2Isabelle.thy ===== *)
theory Spec2Isabelle
  imports
    Task_Manager_Props
    Scope_Guard_V2_Props
    Scope_Guard
    Security_Graph_Props
    Budget_Manager_Props
    Collective_Memory_Props
    Learning_Loop_Props
    Evaluation_Props
    Observability_Props
    Pi_Profiles_Props
    Sdk_Props
    Corpus_Ingestor_Props
    Security_Rag_Props
    Pattern_Library_Props
    Web_Api_Props
    Web_Server_Props
    Console_Link_Props
    Console_Markup_Props
    Console_Graph_Props
    Console_Tree_Props
    Stream_Client_Props
begin

text \<open>
  A verification development of the security workbench: the extensions that make a coding agent work
  as a security research swarm (\<open>profiles/reference/sec/extensions\<close>), the manager of agent profiles
  (\<open>profiles/reference/_common/pi-profiles.ts\<close>), the TypeScript SDK of the task
  coordinator (\<open>sdk/src\<close>), the extension that offers it as tools (\<open>extensions/coordinator.ts\<close>), and the two programs that
  run in a browser: the page of the web console (\<open>web-ui/public/js/app.js\<close>) and that of the coordinator (\<open>web/src/app.ts\<close>).

  \<^bold>\<open>The program.\<close> Each extension registers tools, commands and hooks with the agent. A tool call reads
  the extension's JSON file, changes the value in memory and writes the file back, or returns an
  error without writing. The extensions interact through files: the budget manager reads the task
  graph of the task manager and shares \<open>swarm-state.json\<close> with the observability extension; the learning loop
  writes to the security graph and shares \<open>collective-memory.json\<close> with the collective memory; the scope guards
  decide whether the commands the agent runs may proceed; the corpus tools redact documents and build the indexes over
  which retrieval ranks, and retrieval also reads the pattern library and the false positives of the learning loop; the
  web console serves the files of the others over HTTP and logs and streams the events of the agent.

  \<^bold>\<open>Modelling conventions.\<close> A tool is a function of the time of the call, its parameters and the file,
  returning the file after the call and a response, which is a datatype with one constructor per exit
  of the code; where the code can throw, the reply is a sum type and the files written before the exception are
  returned with it. The time, random suffixes, \<open>JSON.parse\<close>/\<open>JSON.stringify\<close> where their text matters, the
  URL parser and \<open>fetch\<close> are arguments. Amounts and scores are rational numbers, so the rounding of
  floating-point arithmetic is not modelled; counts and depths are whole numbers; the 32-bit
  arithmetic of the address matching is that of 32-bit words. Strings are lists of Latin-1
  characters. A plain object that the code uses as a table also has the properties every object inherits (\<open>inherited\<close>): where
  a key can be such a name, the definition says what the code then finds, or its theory that such names are left out. Texts that the tools print are represented by the data they show. The browser programs are step relations:
  an event of the browser (a click, a message, an answer, a timer) is a step, an exception ends the handler it is thrown in
  and keeps what was written before, and the content of an element is the text that was assigned to it.

  \<^bold>\<open>The theories.\<close>
  \<^item> \<open>JSLib\<close>, \<open>JSString\<close>, \<open>JSNumber\<close>: what the sources use of the JavaScript library, and shared lemmas. \<open>JSPath\<close> holds the
    functions on paths, \<open>JSJson\<close> the operations on values of unknown shape and their text, \<open>JSRegex\<close> a backtracking
    matcher for regular expressions with what a search for keys leaves behind.
  \<^item> \<open>Json_Store\<close>: the interfaces between a tool and its file. \<open>json_store\<close> and \<open>shared_store\<close> say what a
    load returns after a save; \<open>tool_server\<close> and \<open>shared_server\<close> lift invariants, further properties and
    the frame of foreign keys from single calls to all sequences of calls; \<open>simulation\<close> lifts the refinement of an
    abstract specification. They are interpreted by the task manager (\<open>tm\<close>), the security graph (\<open>sg\<close>), the collective
    memory (\<open>mem\<close>), the learning loop together with the collective memory (\<open>ll\<close>), the budget manager (\<open>bm\<close>), the
    observability (\<open>obs\<close>) and the evaluation (\<open>ev_sim\<close>). \<open>machine\<close> is a step relation with an invariant, interpreted by
    the web console (\<open>con\<close>).
  \<^item> \<open>Target_Policy\<close>: the contract of a scope guard (granting rules, denying rules, denial wins), interpreted by
    both scope guards (\<open>sg1\<close>, \<open>sg2\<close>) and by \<open>URLScope\<close> (\<open>us\<close>).
  \<^item> \<open>Task_Manager\<close> (\<open>task-manager.ts\<close>): the task graph and its seven tools. \<open>Task_Manager_Correct\<close> proves that
    every call evolves the graph along one relation (identifiers kept, history extended, completion only
    through the gate); \<open>Task_Manager_Props\<close> derives numbering, the gate, permanence of deadlocks, claiming,
    unblocking, error behaviour and the recovery of orphans.
  \<^item> \<open>Scope_Guard_V2\<close> (\<open>scope-guard-v2.ts\<close>): the YAML parser and printer, the matching of targets, the decision, the
    tools, the command \<open>/scope\<close> and the hook on tool calls. \<open>Scope_Guard_V2_Correct\<close> and
    \<open>Scope_Guard_V2_Props\<close> show what the rules mean (CIDR blocks, whole labels, URLs by host), the round trip
    of the file, that an exclusion takes effect and that the hook is sound.
  \<^item> \<open>Scope_Guard\<close> (\<open>scope-guard.ts\<close>): the first version of the guard; this theory compares the two.
  \<^item> \<open>Security_Graph\<close> (\<open>security-graph.ts\<close>): nodes, edges, the searches and the five tools.
    \<open>Security_Graph_Correct\<close> relates the breadth-first loop to walks; \<open>Security_Graph_Props\<close> shows that the
    searches return exactly the simple paths and the attack chains within their bounds.
  \<^item> \<open>Budget_Manager\<close> (\<open>budget-manager.ts\<close>): cost entries, aggregation, limits, ranking and routing;
    \<open>Budget_Manager_Props\<close> their correctness.
  \<^item> \<open>Collective_Memory\<close> (\<open>collective-memory.ts\<close>): the shared memory and its five tools;
    \<open>Collective_Memory_Props\<close> the invariant, the round trip, search, pruning and similarity.
  \<^item> \<open>Learning_Loop\<close> (\<open>learning-loop.ts\<close>): knowledge from confirmed findings and rejected hypotheses, with every file that
    is written and every exception; \<open>Learning_Loop_Props\<close> what a successful extraction leaves in the five stores, the
    invariant under the calls of both extensions that share the memory file, and the states without recovery.
  \<^item> \<open>Evaluation\<close> (\<open>evaluation.ts\<close>): benchmark cases, metrics and their comparison; \<open>Evaluation_Props\<close> shows that the files
    refine a specification that keeps only logs, and that the comparison is antisymmetric.
  \<^item> \<open>Observability\<close> (\<open>observability.ts\<close>): the state of the swarm and its views; \<open>Observability_Props\<close> the aggregations, the
    bound of the log, the frame of the budgets in the shared file, and the views that always throw.
  \<^item> \<open>Pi_Profiles\<close> (\<open>pi-profiles.ts\<close>): profiles, settings, command lines and launches; \<open>Pi_Profiles_Props\<close> the round trip of the
    command line, the separation of sessions for names without a slash, and the merging of packages.
  \<^item> \<open>Sdk\<close> (\<open>sdk/src/client.ts\<close>, \<open>sdk/src/scope.ts\<close>, \<open>extensions/coordinator.ts\<close>): the client and the URL policy;
    \<open>Sdk_Props\<close> what they admit and address.
  \<^item> \<open>Corpus_Ingestor\<close> (\<open>corpus-ingestor.ts\<close>): the walk over a tree of files, the table of sensitive patterns, redaction,
    extraction, the four tools and \<open>/corpus\<close>. \<open>Corpus_Ingestor_Props\<close> shows that no key of the shapes that a prefix and a run
    of characters describe survives redaction or reaches an index, that the walk finds exactly the wanted files, and
    what each index holds.
  \<^item> \<open>Security_Rag\<close> (\<open>security-rag.ts\<close>): tokens, scores, the four tools and \<open>/rag\<close>. \<open>Security_Rag_Props\<close> gives the score as a sum
    over the common tokens, what a query returns and leaves out, and the compositions with the corpus tools (no key is
    retrieved) and with the learning loop (the check for false positives never warns).
  \<^item> \<open>Pattern_Library\<close> (\<open>pattern-library.ts\<close>): the seeds, the file, the four tools and \<open>/patterns\<close>. \<open>Pattern_Library_Props\<close> shows
    the library as the seeds followed by the numbered additions, that an addition is found by its own search and by
    retrieval, and what a caller's own identifier and a broken file do.
  \<^item> \<open>Web_Api\<close> and \<open>Web_Server\<close> (\<open>web-ui/index.ts\<close>): the endpoints of the API; static files, authentication, the WebSocket
    clients, the event tap and the life cycle of the server as a step relation. \<open>Web_Api_Props\<close> compares the chains with the
    simple paths to severe nodes, the scope with what the guard enforces, the costs with the observability;
    \<open>Web_Server_Props\<close> shows what a remote console serves without the token, that every client of it presented the
    token, that static files stay in their directory, and how often an event is logged.
  \<^item> \<open>Console_Page\<close>, \<open>Console_Graph\<close>, \<open>Console_Render\<close>, \<open>Console_App\<close> (\<open>web-ui/public/js/app.js\<close>): the state of the page with its
    elements, classes and canvas; the layout and drawing of the graph and the mouse; the renderers; messages, updates, views,
    palette, calls, replay and timers. \<open>Console_Props\<close> holds the two interfaces every handler is shown to keep
    (\<open>page_relation\<close>, \<open>document_relation\<close>, interpreted for what handlers leave alone, for the elements and for the zoom);
    \<open>Console_Markup_Props\<close> shows that events add no markup, \<open>Console_Graph_Props\<close> the bounds of the zoom, the centre of
    the layout and the search for a node, \<open>Console_Tree_Props\<close> the tree of tasks as the paths from its roots.
    \<open>Console_Link\<close> joins the page to the server of \<open>Web_Server\<close> and \<open>Web_Api\<close>; \<open>Console_Link_Props\<close> shows that nothing the
    server sends is ever shown.
  \<^item> \<open>Stream_Client\<close> (\<open>web/src/app.ts\<close>): the page of the coordinator, with attempts to connect as numbers;
    \<open>Stream_Client_Props\<close> the reading of frames whatever the chunks, with the lines of an event around the data, that a live page has an open
    stream unless it was hidden, and the keys of new tasks.

  \<^bold>\<open>Bounds.\<close> The repetition of the regular expressions has a bound on its rounds, the length of the text plus the
  least number of rounds, which \<open>rep_match_enough\<close> shows to be enough. How deep calls may nest in the browser is a parameter;
  \<open>task_tree_exact\<close> says how much is enough for the tree of tasks, beyond which the engine throws. The breadth-first search terminates by the multiset of
  the remaining depths of the queue, whatever the graph (\<open>path_search_terminates\<close> states it of the loop as it is written), the
  depth-first search of the console by the depth left; the caps (20 paths, 50 chains), the cap of the cost log (5000
  entries), of the learned memory entries (500) and of the activity log (500) are those of the code, and the theorems say what holds below and at the cap.

  \<^bold>\<open>Findings.\<close> Theorems that exhibit a defect are stated next to the properties of their component:
  \<open>permanently_blocked_not_permanent\<close>, \<open>userinfo_and_query_bypass\<close>, \<open>hook_reads_one_word\<close>,
  \<open>advisory_notice_but_blocking\<close>, \<open>targeted_search_ignores_filters\<close>, \<open>parallel_edges_same_label\<close>,
  \<open>negative_tokens_negative_cost\<close>, \<open>same_title_not_duplicate\<close>, \<open>first_guard_overmatches_blocks\<close>,
  \<open>finding_context_throws\<close>, \<open>memory_first_disables_learning\<close>, \<open>index_named_hypothesis_disables_rejections\<close>,
  \<open>pattern_file_collision\<close>, \<open>rejection_half_written\<close>, \<open>dashboard_always_throws\<close>, \<open>reset_erases_budgets\<close>,
  \<open>cost_filter_keeps_models\<close>, \<open>null_time_counts_as_zero\<close>, \<open>packages_accumulate\<close>, \<open>allow_list_ignored_with_exclusions\<close>,
  \<open>reserved_name_never_launched\<close>, \<open>profile_name_escapes\<close>, \<open>events_endpoint_throws\<close>, \<open>restart_loses_server\<close>,
  \<open>failed_start_doubles_log\<close>, \<open>pgp_kept\<close>, \<open>rejections_never_warn\<close>, \<open>own_id_blocks_library\<close>, \<open>broken_file_changes_seeds\<close>,
  \<open>page_shows_nothing\<close>, \<open>commands_show_nothing\<close>, \<open>detail_removes_views\<close>, \<open>palette_runs_by_place\<close>, \<open>severity_is_markup\<close>,
  \<open>node_found_where_drawn\<close> (its hypothesis on the ratio), \<open>own_child_never_ends\<close>, \<open>hidden_page_stays_live\<close>, \<open>late_answer_forgets_key\<close>,
  \<open>inherited_category_lost\<close>, \<open>pattern_linked_from_other\<close>, \<open>nested_names_share_sessions\<close>, \<open>quarantine_is_searched\<close>.

  \<^bold>\<open>Not modelled.\<close> The markup of the HTML page of the security graph and the printed texts of commands. Of the browser
  programs: the parser of HTML and so the elements that assigned markup would create, attributes for assistive technology
  (which follow the classes), the text and focus of the palette's input, objects with their own conversion to text, and
  rounding of coordinates; the identifiers of drawn nodes are compared by value, and a handler reads the clock once. The
  scripts, which start processes; the Go coordinator, which is another program. Of the plain objects used as tables: what is written to an inherited
  property, through \<open>__proto__\<close> to every object, and the names of models in the rates of the budget manager. Two calls that interleave
  between their load and their save are not modelled: a call is atomic here.
\<close>

section \<open>The two scope guards\<close>

text \<open>On host names the two scope guards decide alike: for a rule that is a plain domain, the first guard
  authorizes a host exactly when the second one's rule matches it.\<close>
theorem guards_agree_on_domains:
  assumes "plain_host h" "plain_host p" "hd p \<noteq> CHR ''*''" "\<not> isIPv4 p"
  shows "isTargetAuthorized h [p] = matchesAny h p"
proof -
  have "\<not> prefix ''*.'' p" using assms(3) by (cases p) auto
  then have "isTargetAuthorized h [p] \<longleftrightarrow> suffix (split_on (CHR ''.'') p) (split_on (CHR ''.'') h)"
    using pattern_hits_labels [of p h] plain_hostD(3) [OF assms(2)] by (simp add: isTargetAuthorized_iff)
  moreover have "\<not> isCIDR p" using plain_hostD(3) [OF assms(2)] by (simp add: isCIDR_def split_on_free)
  ultimately show ?thesis
    using domainMatches_labels [OF assms(1-3)] assms(2,4) by (simp add: matchesAny_def trim_plain)
qed

theorem guards_agree_on_domains_witness:
  "isTargetAuthorized ''a.example.com'' [''example.com''] = matchesAny ''a.example.com'' ''example.com''"
proof (rule guards_agree_on_domains)
  have "plain_host ''a.example.com'' \<and> plain_host ''example.com'' \<and> \<not> isIPv4 ''example.com''" by code_simp
  then show "plain_host ''a.example.com''" "plain_host ''example.com''" "\<not> isIPv4 ''example.com''" by blast+
qed simp

text \<open>On address blocks they differ: the first guard compares only the first two numbers of the block as text, so a
  block of 256 addresses authorizes addresses far outside it and even host names, which the second guard refuses.\<close>
theorem first_guard_overmatches_blocks:
  "isTargetAuthorized ''10.0.99.1'' [''10.0.0.0/24''] \<and> isTargetAuthorized ''10.0.evil.org'' [''10.0.0.0/24''] \<and>
   \<not> matchesAny ''10.0.99.1'' ''10.0.0.0/24'' \<and> \<not> matchesAny ''10.0.evil.org'' ''10.0.0.0/24''"
  by code_simp

end
